(* ===== verification/Prelude.thy ===== *)
theory Prelude
  imports Main "HOL-Library.Word" "HOL-Library.Sublist"
begin

text \<open>
  Shared vocabulary of the development: results, bytes and text, the standard-library
  operations the Rust sources use, and the automation the component theories build on.

  A Rust \<open>str\<close>/\<open>String\<close> is modelled by its UTF-8 encoding, an Isabelle \<open>string\<close>
  (a list of 8-bit characters): \<open>len()\<close>, slicing, \<open>starts_with\<close>, \<open>contains\<close> and
  concatenation all act on those bytes. Where the source iterates over \<open>chars()\<close>, the
  model splits the bytes into encoded scalars with \<open>utf8_chars\<close>.
\<close>

section \<open>Results and collections of facts\<close>

type_synonym u8 = "8 word"
type_synonym i32 = "32 word"
type_synonym i64 = "64 word"

named_theorems text_simps \<open>equations of the text helpers\<close>
named_theorems result_simps \<open>equations of the result combinators\<close>

text \<open>\<open>?\<close> on a \<open>Result\<close>: an error leaves the function, a value flows on.\<close>

definition bind_result :: "'e + 'a \<Rightarrow> ('a \<Rightarrow> 'e + 'b) \<Rightarrow> 'e + 'b" where
  "bind_result r f = (case r of Inl e \<Rightarrow> Inl e | Inr a \<Rightarrow> f a)"

lemma bind_result_simps [simp, result_simps]:
  "bind_result (Inl e) f = Inl e"
  "bind_result (Inr a) f = f a"
  by (simp_all add: bind_result_def)

lemma bind_result_Inr_iff: "bind_result r f = Inr b \<longleftrightarrow> (\<exists>a. r = Inr a \<and> f a = Inr b)"
  by (cases r) auto

lemma bind_result_Inl_iff:
  "bind_result r f = Inl e \<longleftrightarrow> r = Inl e \<or> (\<exists>a. r = Inr a \<and> f a = Inl e)"
  by (cases r) auto

text \<open>\<open>Option::ok_or\<close> and \<open>Result::map_err\<close>.\<close>

definition ok_or :: "'a option \<Rightarrow> 'e \<Rightarrow> 'e + 'a" where
  "ok_or x e = (case x of None \<Rightarrow> Inl e | Some a \<Rightarrow> Inr a)"

lemma ok_or_simps [simp, result_simps]: "ok_or None e = Inl e" "ok_or (Some a) e = Inr a"
  by (simp_all add: ok_or_def)

definition map_err :: "('e \<Rightarrow> 'f) \<Rightarrow> 'e + 'a \<Rightarrow> 'f + 'a" where
  "map_err f r = (case r of Inl e \<Rightarrow> Inl (f e) | Inr a \<Rightarrow> Inr a)"

lemma map_err_simps [simp, result_simps]:
  "map_err f (Inl e) = Inl (f e)" "map_err f (Inr a) = Inr a"
  by (simp_all add: map_err_def)

lemma map_err_Inr_iff [simp]: "map_err f r = Inr a \<longleftrightarrow> r = Inr a"
  by (cases r) simp_all

section \<open>Iterators\<close>

text \<open>\<open>Iterator::find_map\<close>: the first element the function answers for.\<close>

fun find_map :: "('a \<Rightarrow> 'b option) \<Rightarrow> 'a list \<Rightarrow> 'b option" where
  "find_map f [] = None"
| "find_map f (x # xs) = (case f x of None \<Rightarrow> find_map f xs | Some y \<Rightarrow> Some y)"

lemma find_map_append:
  "find_map f (xs @ ys) = (case find_map f xs of None \<Rightarrow> find_map f ys | Some y \<Rightarrow> Some y)"
  by (induction xs) (auto split: option.splits)

lemma find_map_None_iff: "find_map f xs = None \<longleftrightarrow> (\<forall>x\<in>set xs. f x = None)"
  by (induction xs) (auto split: option.splits)

lemma find_map_SomeD: "find_map f xs = Some y \<Longrightarrow> \<exists>x\<in>set xs. f x = Some y"
  by (induction xs) (auto split: option.splits)

text \<open>\<open>Iterator::max_by_key\<close>: the last of the elements whose key is greatest.\<close>

fun max_by_key :: "('a \<Rightarrow> 'k::linorder) \<Rightarrow> 'a list \<Rightarrow> 'a option" where
  "max_by_key k [] = None"
| "max_by_key k (x # xs) =
     (case max_by_key k xs of None \<Rightarrow> Some x | Some y \<Rightarrow> Some (if k x \<le> k y then y else x))"

lemma max_by_key_None_iff [simp]: "max_by_key k xs = None \<longleftrightarrow> xs = []"
  by (cases xs) (auto split: option.splits)

lemma max_by_key_mem: "max_by_key k xs = Some y \<Longrightarrow> y \<in> set xs"
  by (induction xs arbitrary: y) (auto split: option.splits if_splits)

lemma max_by_key_ge: "max_by_key k xs = Some y \<Longrightarrow> x \<in> set xs \<Longrightarrow> k x \<le> k y"
proof (induction xs arbitrary: y)
  case Nil
  then show ?case by simp
next
  case (Cons a xs)
  show ?case
  proof (cases "max_by_key k xs")
    case None
    then show ?thesis using Cons.prems by simp
  next
    case (Some z)
    then have z: "x \<in> set xs \<Longrightarrow> k x \<le> k z" using Cons.IH by blast
    from Some Cons.prems have y: "y = (if k a \<le> k z then z else a)" by simp
    from Cons.prems consider "x = a" | "x \<in> set xs" by auto
    then show ?thesis
    proof cases
      case 1
      then show ?thesis using y by simp
    next
      case 2
      then show ?thesis using y z by (cases "k a \<le> k z") auto
    qed
  qed
qed

text \<open>\<open>slice::join\<close> with a separator.\<close>

fun join :: "string \<Rightarrow> string list \<Rightarrow> string" where
  "join sep [] = []"
| "join sep [x] = x"
| "join sep (x # y # xs) = x @ sep @ join sep (y # xs)"

end
