(* ===== verification/Rust_Text.thy ===== *)
theory Rust_Text
  imports Prelude
begin

text \<open>
  The string operations of Rust's standard library that the sources use, over UTF-8 bytes.
  Unicode case tables are not modelled: \<open>to_lowercase\<close> consults the record \<open>unicode\<close> for
  input outside ASCII and is spelt out for ASCII.
\<close>

section \<open>Bytes\<close>

abbreviation byte :: "char \<Rightarrow> nat" where "byte \<equiv> of_char"

definition is_ascii :: "char \<Rightarrow> bool" where "is_ascii c \<longleftrightarrow> byte c < 128"
definition is_cont :: "char \<Rightarrow> bool" where "is_cont c \<longleftrightarrow> 128 \<le> byte c \<and> byte c < 192"
definition is_upper :: "char \<Rightarrow> bool" where "is_upper c \<longleftrightarrow> 65 \<le> byte c \<and> byte c \<le> 90"
definition is_lower :: "char \<Rightarrow> bool" where "is_lower c \<longleftrightarrow> 97 \<le> byte c \<and> byte c \<le> 122"
definition is_digit :: "char \<Rightarrow> bool" where "is_digit c \<longleftrightarrow> 48 \<le> byte c \<and> byte c \<le> 57"
definition is_alpha :: "char \<Rightarrow> bool" where "is_alpha c \<longleftrightarrow> is_upper c \<or> is_lower c"
definition is_alnum :: "char \<Rightarrow> bool" where "is_alnum c \<longleftrightarrow> is_alpha c \<or> is_digit c"

definition ascii_lower :: "char \<Rightarrow> char" where
  "ascii_lower c = (if is_upper c then char_of (byte c + 32) else c)"

lemmas byte_defs = is_ascii_def is_cont_def is_upper_def is_lower_def is_digit_def is_alpha_def
  is_alnum_def ascii_lower_def

lemma byte_ascii_lower [simp]:
  "byte (ascii_lower c) = (if is_upper c then byte c + 32 else byte c)"
  by (auto simp: byte_defs)

lemma ascii_lower_idem [simp]: "ascii_lower (ascii_lower c) = ascii_lower c"
  by (auto simp: ascii_lower_def is_upper_def)

lemma is_ascii_ascii_lower [simp]: "is_ascii (ascii_lower c) \<longleftrightarrow> is_ascii c"
  by (auto simp: is_ascii_def is_upper_def)

lemma not_upper_ascii_lower [simp]: "\<not> is_upper (ascii_lower c)"
  by (auto simp: is_upper_def)

lemma ascii_lower_eq_iff:
  assumes "\<not> is_lower d" shows "ascii_lower c = d \<longleftrightarrow> c = d \<and> \<not> is_upper c"
proof (cases "is_upper c")
  case True
  then have "is_lower (ascii_lower c)" by (simp add: is_lower_def is_upper_def)
  with True assms show ?thesis by auto
next
  case False
  then show ?thesis by (simp add: ascii_lower_def)
qed

section \<open>Prefixes, suffixes, splitting\<close>

definition strip_prefix :: "string \<Rightarrow> string \<Rightarrow> string option" where
  "strip_prefix p s = (if prefix p s then Some (drop (length p) s) else None)"

definition strip_suffix :: "string \<Rightarrow> string \<Rightarrow> string option" where
  "strip_suffix p s =
     (if suffix p s then Some (take (length s - length p) s) else None)"

definition opt_else :: "'a option \<Rightarrow> 'a option \<Rightarrow> 'a option" where
  "opt_else x y = (case x of None \<Rightarrow> y | Some a \<Rightarrow> Some a)"

definition unwrap_or :: "'a option \<Rightarrow> 'a \<Rightarrow> 'a" where
  "unwrap_or x d = (case x of None \<Rightarrow> d | Some a \<Rightarrow> a)"

lemma opt_simps [simp]:
  "opt_else None y = y" "opt_else (Some a) y = Some a"
  "unwrap_or None d = d" "unwrap_or (Some a) d = a"
  by (simp_all add: opt_else_def unwrap_or_def)

text \<open>\<open>str::split(sep)\<close>: always at least one piece.\<close>

fun split_on :: "char \<Rightarrow> string \<Rightarrow> string list" where
  "split_on sep [] = [[]]"
| "split_on sep (c # s) =
     (if c = sep then [] # split_on sep s
      else (case split_on sep s of [] \<Rightarrow> [[c]] | p # ps \<Rightarrow> (c # p) # ps))"

lemma split_on_nonempty [simp]: "split_on sep s \<noteq> []"
  by (induction s) (auto split: list.splits)

lemma split_on_no_sep: "p \<in> set (split_on sep s) \<Longrightarrow> sep \<notin> set p"
  by (induction s arbitrary: p) (auto split: list.splits if_splits)

lemma split_on_join: "join [sep] (split_on sep s) = s"
proof (induction s)
  case Nil
  then show ?case by simp
next
  case (Cons c s)
  obtain p ps where "split_on sep s = p # ps" by (cases "split_on sep s") auto
  with Cons show ?case by (cases ps) auto
qed

lemma split_on_mem_subset: "p \<in> set (split_on sep s) \<Longrightarrow> set p \<subseteq> set s"
  by (induction s arbitrary: p) (fastforce split: list.splits if_splits)+

text \<open>\<open>str::split_once(c)\<close>.\<close>

fun split_once :: "char \<Rightarrow> string \<Rightarrow> (string \<times> string) option" where
  "split_once c [] = None"
| "split_once c (x # s) =
     (if x = c then Some ([], s)
      else (case split_once c s of None \<Rightarrow> None | Some (a, b) \<Rightarrow> Some (x # a, b)))"

lemma split_once_None_iff: "split_once c s = None \<longleftrightarrow> c \<notin> set s"
  by (induction s) (auto split: option.splits)

lemma split_once_Some: "split_once c s = Some (a, b) \<Longrightarrow> s = a @ c # b \<and> c \<notin> set a"
  by (induction s arbitrary: a b) (auto split: if_splits option.splits)

text \<open>\<open>rsplit(seps).next()\<close>: what follows the last separator.\<close>

definition after_last :: "char set \<Rightarrow> string \<Rightarrow> string" where
  "after_last seps s = rev (takeWhile (\<lambda>c. c \<notin> seps) (rev s))"

lemma after_last_no_sep: "c \<in> set (after_last seps s) \<Longrightarrow> c \<notin> seps"
  by (auto simp: after_last_def dest: set_takeWhileD)

section \<open>Encoded scalars\<close>

text \<open>
  \<open>chars()\<close>: a scalar is a byte followed by the continuation bytes behind it. On valid
  UTF-8 (\<open>valid_utf8\<close>) these groups are exactly the encoded code points.
\<close>

function utf8_chars :: "string \<Rightarrow> string list" where
  "utf8_chars [] = []"
| "utf8_chars (c # s) = (c # takeWhile is_cont s) # utf8_chars (dropWhile is_cont s)"
  by pat_completeness auto
termination
  by (relation "measure length") (simp_all add: length_dropWhile_le le_imp_less_Suc)

lemma concat_utf8_chars [simp]: "concat (utf8_chars s) = s"
  by (induction s rule: utf8_chars.induct) auto

lemma utf8_chars_append:
  "t = [] \<or> \<not> is_cont (hd t) \<Longrightarrow> utf8_chars (s @ t) = utf8_chars s @ utf8_chars t"
proof (induction s rule: utf8_chars.induct)
  case 1
  then show ?case by simp
next
  case (2 c s)
  have tw: "takeWhile is_cont (s @ t) = takeWhile is_cont s"
    using 2(2) by (induction s) (cases t; auto)+
  have dw: "dropWhile is_cont (s @ t) = dropWhile is_cont s @ t"
    using 2(2) by (induction s) (cases t; auto)+
  show ?case using 2 by (simp add: tw dw)
qed

text \<open>Well-formed encodings of one scalar (Unicode, table 3-7).\<close>

definition second3_ok :: "char \<Rightarrow> char \<Rightarrow> bool" where
  "second3_ok a b \<longleftrightarrow>
     (if byte a = 224 then 160 \<le> byte b \<and> byte b < 192
      else if byte a = 237 then 128 \<le> byte b \<and> byte b < 160
      else is_cont b)"

definition second4_ok :: "char \<Rightarrow> char \<Rightarrow> bool" where
  "second4_ok a b \<longleftrightarrow>
     (if byte a = 240 then 144 \<le> byte b \<and> byte b < 192
      else if byte a = 244 then 128 \<le> byte b \<and> byte b < 144
      else is_cont b)"

fun scalar_ok :: "string \<Rightarrow> bool" where
  "scalar_ok [a] \<longleftrightarrow> byte a < 128"
| "scalar_ok [a, b] \<longleftrightarrow> 194 \<le> byte a \<and> byte a < 224 \<and> is_cont b"
| "scalar_ok [a, b, c] \<longleftrightarrow> 224 \<le> byte a \<and> byte a < 240 \<and> second3_ok a b \<and> is_cont c"
| "scalar_ok [a, b, c, d] \<longleftrightarrow>
     240 \<le> byte a \<and> byte a < 245 \<and> second4_ok a b \<and> is_cont c \<and> is_cont d"
| "scalar_ok _ \<longleftrightarrow> False"

definition valid_utf8 :: "string \<Rightarrow> bool" where
  "valid_utf8 s \<longleftrightarrow> list_all scalar_ok (utf8_chars s)"

lemma valid_utf8_Nil [simp]: "valid_utf8 []"
  by (simp add: valid_utf8_def)

lemma scalar_ok_cont: "scalar_ok (a # bs) \<Longrightarrow> b \<in> set bs \<Longrightarrow> is_cont b"
  by (cases "a # bs" rule: scalar_ok.cases)
    (auto simp: second3_ok_def second4_ok_def is_cont_def split: if_splits)

lemma scalar_ok_lead: "scalar_ok (a # bs) \<Longrightarrow> \<not> is_cont a"
  by (cases "a # bs" rule: scalar_ok.cases) (auto simp: is_cont_def)

lemma valid_utf8_lead: "valid_utf8 s \<Longrightarrow> s = [] \<or> \<not> is_cont (hd s)"
  by (cases s) (auto simp: valid_utf8_def dest: scalar_ok_lead)

lemma valid_utf8_append:
  assumes "valid_utf8 s" "valid_utf8 t" shows "valid_utf8 (s @ t)"
  using assms utf8_chars_append [OF valid_utf8_lead [OF assms(2)], of s]
  by (simp add: valid_utf8_def)

lemma ascii_valid_utf8: "list_all is_ascii s \<Longrightarrow> valid_utf8 s"
proof (induction s)
  case Nil
  then show ?case by simp
next
  case (Cons c s)
  then have h: "s = [] \<or> \<not> is_cont (hd s)" by (cases s) (auto simp: byte_defs)
  have "utf8_chars (c # s) = [[c]] @ utf8_chars s"
    using utf8_chars_append [OF h, of "[c]"] by simp
  then show ?case using Cons by (simp add: valid_utf8_def is_ascii_def)
qed

section \<open>Case folding\<close>

text \<open>
  \<open>uc_lower\<close> is \<open>char::to_lowercase\<close> on one encoded scalar outside ASCII, \<open>us_lower\<close> is
  \<open>str::to_lowercase\<close> on a string that is not all ASCII (the two differ: final sigma).
\<close>

record unicode =
  uc_lower :: "string \<Rightarrow> string"
  us_lower :: "string \<Rightarrow> string"

definition char_to_lowercase :: "unicode \<Rightarrow> string \<Rightarrow> string" where
  "char_to_lowercase U ch =
     (case ch of [c] \<Rightarrow> if is_ascii c then [ascii_lower c] else uc_lower U ch
               | _ \<Rightarrow> uc_lower U ch)"

definition str_to_lowercase :: "unicode \<Rightarrow> string \<Rightarrow> string" where
  "str_to_lowercase U s = (if list_all is_ascii s then map ascii_lower s else us_lower U s)"

definition to_ascii_lowercase :: "string \<Rightarrow> string" where
  "to_ascii_lowercase s = map ascii_lower s"

definition eq_ignore_ascii_case :: "string \<Rightarrow> string \<Rightarrow> bool" where
  "eq_ignore_ascii_case s t \<longleftrightarrow> map ascii_lower s = map ascii_lower t"

text \<open>Unicode tables that leave everything outside ASCII alone; used in the witnesses.\<close>

definition plain_unicode :: unicode where
  "plain_unicode = \<lparr>uc_lower = (\<lambda>s. s), us_lower = map ascii_lower\<rparr>"

section \<open>Character boundaries\<close>

definition is_char_boundary :: "string \<Rightarrow> nat \<Rightarrow> bool" where
  "is_char_boundary s i \<longleftrightarrow> i = 0 \<or> i = length s \<or> (i < length s \<and> \<not> is_cont (s ! i))"

text \<open>\<open>while cut > 0 && !s.is_char_boundary(cut) { cut -= 1 }\<close>.\<close>

fun floor_boundary :: "string \<Rightarrow> nat \<Rightarrow> nat" where
  "floor_boundary s 0 = 0"
| "floor_boundary s (Suc n) = (if is_char_boundary s (Suc n) then Suc n else floor_boundary s n)"

lemma floor_boundary_le: "floor_boundary s n \<le> n"
  by (induction n) auto

lemma floor_boundary_is_boundary: "is_char_boundary s (floor_boundary s n)"
  by (induction n) (auto simp: is_char_boundary_def)

lemma floor_boundary_greatest:
  "m \<le> n \<Longrightarrow> is_char_boundary s m \<Longrightarrow> m \<le> floor_boundary s n"
  by (induction n) (auto simp: le_Suc_eq)

lemma valid_utf8_take:
  assumes "valid_utf8 s" "is_char_boundary s i" "i \<le> length s"
  shows "valid_utf8 (take i s)"
proof (cases "i < length s \<and> i \<noteq> 0")
  case True
  then have "\<not> is_cont (hd (drop i s))"
    using assms(2) by (auto simp: is_char_boundary_def hd_drop_conv_nth)
  then have "utf8_chars (take i s @ drop i s) = utf8_chars (take i s) @ utf8_chars (drop i s)"
    by (intro utf8_chars_append) simp
  then show ?thesis using assms(1) by (simp add: valid_utf8_def)
next
  case False
  then show ?thesis using assms by auto
qed

lemma scalar_ok_length: "scalar_ok g \<Longrightarrow> length g \<le> 4"
  by (cases g rule: scalar_ok.cases) auto

text \<open>
  A cut moves back at most three bytes in valid UTF-8: no scalar is longer than four.
\<close>

lemma floor_boundary_close:
  "valid_utf8 s \<Longrightarrow> n \<le> length s \<Longrightarrow> n < floor_boundary s n + 4"
proof (induction s arbitrary: n rule: utf8_chars.induct)
  case 1
  then show ?case by simp
next
  case (2 c s)
  let ?g = "c # takeWhile is_cont s" and ?r = "dropWhile is_cont s"
  have ok: "scalar_ok ?g" and vr: "valid_utf8 ?r"
    using "2.prems"(1) by (auto simp: valid_utf8_def)
  have split: "c # s = ?g @ ?r" by simp
  show ?case
  proof (cases "n < length ?g")
    case True
    then show ?thesis using scalar_ok_length [OF ok] by simp
  next
    case False
    let ?m = "n - length ?g"
    have m: "?m \<le> length ?r" using False "2.prems"(2) split by (metis diff_le_mono length_append
        add_diff_cancel_left')
    let ?f = "floor_boundary ?r ?m"
    have f: "?m < ?f + 4" using "2.IH" [OF vr m] .
    have fb: "is_char_boundary ?r ?f" and fl: "?f \<le> ?m"
      by (rule floor_boundary_is_boundary, rule floor_boundary_le)
    have "is_char_boundary (c # s) (length ?g + ?f)"
    proof (cases "?f = 0")
      case True
      have "?r = [] \<or> \<not> is_cont (hd ?r)" using valid_utf8_lead [OF vr] .
      then show ?thesis using True split
        by (metis add.right_neutral append_Nil2 hd_append hd_conv_nth is_char_boundary_def
            length_append length_greater_0_conv less_add_same_cancel1 nth_append_length_plus)
    next
      case False
      then show ?thesis using fb split
        by (metis is_char_boundary_def length_append nat_add_left_cancel_less
            nth_append_length_plus)
    qed
    then have "length ?g + ?f \<le> floor_boundary (c # s) n"
      using fl False by (intro floor_boundary_greatest) auto
    then show ?thesis using f False by linarith
  qed
qed

section \<open>Lossy decoding\<close>

text \<open>\<open>String::from_utf8_lossy\<close>: each maximal invalid prefix becomes U+FFFD.\<close>

definition fffd :: string where
  "fffd = [CHR 0xEF, CHR 0xBF, CHR 0xBD]"

fun from_utf8_lossy :: "string \<Rightarrow> string" where
  "from_utf8_lossy [] = []"
| "from_utf8_lossy (a # s) =
     (if byte a < 128 then a # from_utf8_lossy s
      else if 194 \<le> byte a \<and> byte a < 224 then
        (case s of b # t \<Rightarrow> if is_cont b then a # b # from_utf8_lossy t
                           else fffd @ from_utf8_lossy s
                 | [] \<Rightarrow> fffd)
      else if 224 \<le> byte a \<and> byte a < 240 then
        (case s of
           b # t \<Rightarrow> if \<not> second3_ok a b then fffd @ from_utf8_lossy s
              else (case t of c # u \<Rightarrow> if is_cont c then a # b # c # from_utf8_lossy u
                                       else fffd @ from_utf8_lossy t
                            | [] \<Rightarrow> fffd)
         | [] \<Rightarrow> fffd)
      else if 240 \<le> byte a \<and> byte a < 245 then
        (case s of
           b # t \<Rightarrow> if \<not> second4_ok a b then fffd @ from_utf8_lossy s
              else (case t of
                 c # u \<Rightarrow> if \<not> is_cont c then fffd @ from_utf8_lossy t
                    else (case u of d # v \<Rightarrow> if is_cont d then a # b # c # d # from_utf8_lossy v
                                             else fffd @ from_utf8_lossy u
                                  | [] \<Rightarrow> fffd)
               | [] \<Rightarrow> fffd)
         | [] \<Rightarrow> fffd)
      else fffd @ from_utf8_lossy s)"

lemma from_utf8_lossy_scalar:
  "scalar_ok g \<Longrightarrow> from_utf8_lossy (g @ t) = g @ from_utf8_lossy t"
  by (cases g rule: scalar_ok.cases) auto

lemma from_utf8_lossy_valid: "valid_utf8 s \<Longrightarrow> from_utf8_lossy s = s"
proof (induction s rule: utf8_chars.induct)
  case 1
  then show ?case by simp
next
  case (2 c s)
  then have "scalar_ok (c # takeWhile is_cont s)" "valid_utf8 (dropWhile is_cont s)"
    by (auto simp: valid_utf8_def)
  then show ?case
    using from_utf8_lossy_scalar [of "c # takeWhile is_cont s" "dropWhile is_cont s"] "2.IH"
    by simp
qed

section \<open>Whitespace and decimal numbers\<close>

text \<open>\<open>char::is_whitespace\<close>: the 25 scalars with the White_Space property.\<close>

definition is_whitespace :: "string \<Rightarrow> bool" where
  "is_whitespace ch \<longleftrightarrow>
     map byte ch \<in> {[9], [10], [11], [12], [13], [32], [194, 133], [194, 160], [225, 154, 128],
       [226, 128, 128], [226, 128, 129], [226, 128, 130], [226, 128, 131], [226, 128, 132],
       [226, 128, 133], [226, 128, 134], [226, 128, 135], [226, 128, 136], [226, 128, 137],
       [226, 128, 138], [226, 128, 168], [226, 128, 169], [226, 128, 175], [226, 129, 159],
       [227, 128, 128]}"

definition trim :: "string \<Rightarrow> string" where
  "trim s =
     concat (rev (dropWhile is_whitespace (rev (dropWhile is_whitespace (utf8_chars s)))))"

text \<open>\<open>Display\<close> of an unsigned integer.\<close>

fun nat_to_string :: "nat \<Rightarrow> string" where
  "nat_to_string n =
     (if n < 10 then [char_of (48 + n)] else nat_to_string (n div 10) @ [char_of (48 + n mod 10)])"

declare nat_to_string.simps [simp del]

definition int_to_string :: "int \<Rightarrow> string" where
  "int_to_string n = (if n < 0 then ''-'' @ nat_to_string (nat (- n)) else nat_to_string (nat n))"

lemma nat_to_string_numeral [simp]:
  "n < 10 \<Longrightarrow> nat_to_string n = [char_of (48 + n)]"
  "10 \<le> n \<Longrightarrow> nat_to_string n = nat_to_string (n div 10) @ [char_of (48 + n mod 10)]"
  by (simp_all add: nat_to_string.simps)

end
