(* ===== verification/Json.thy ===== *)
theory Json
  imports Rust_Text
begin

text \<open>
  JSON values as the sources hold them (\<open>serde_json::Value\<close>) and the accessors they use.
  Objects keep their key order (the crates enable \<open>preserve_order\<close> or treat them as maps);
  a number outside the integers is carried as its text. Serialization itself belongs to
  \<open>serde_json\<close> and is a parameter wherever a definition needs it.
\<close>

datatype json =
    JNull
  | JBool bool
  | JInt int
  | JFloat string
  | JStr string
  | JArr "json list"
  | JObj "(string \<times> json) list"

fun jget :: "string \<Rightarrow> json \<Rightarrow> json option" where
  "jget k (JObj kvs) = map_of kvs k"
| "jget k _ = None"

fun as_str :: "json \<Rightarrow> string option" where
  "as_str (JStr s) = Some s"
| "as_str _ = None"

fun as_array :: "json \<Rightarrow> json list option" where
  "as_array (JArr xs) = Some xs"
| "as_array _ = None"

fun as_object :: "json \<Rightarrow> (string \<times> json) list option" where
  "as_object (JObj kvs) = Some kvs"
| "as_object _ = None"

text \<open>\<open>as_i64\<close>: integers that fit 64 signed bits.\<close>

fun as_i64 :: "json \<Rightarrow> i64 option" where
  "as_i64 (JInt n) =
     (if - (2 ^ 63) \<le> n \<and> n < 2 ^ 63 then Some (word_of_int n) else None)"
| "as_i64 _ = None"

type_synonym json_writer = "json \<Rightarrow> string"

end
