(* ===== verification/Ranked.thy ===== *)
theory Ranked
  imports Prelude
begin

text \<open>
  Several enums of the program are ordered by a numeric rank: sensitivity labels by
  \<open>level()\<close>, decisions by \<open>decision_severity\<close>, modes by \<open>restrictiveness()\<close>, signature
  severities by their discriminant. The locale states what makes such a rank usable (it
  separates the variants) and proves once what the program relies on: a maximum by rank does
  not depend on order or repetition, and raising to the higher of two ranks is a join.
\<close>

text \<open>Keep the old value unless the new one ranks strictly higher.\<close>

definition raise_by :: "('a \<Rightarrow> 'k::linorder) \<Rightarrow> 'a \<Rightarrow> 'a \<Rightarrow> 'a" where
  "raise_by k old new = (if k new \<le> k old then old else new)"

lemma raise_by_ge: "k old \<le> k (raise_by k old new)" "k new \<le> k (raise_by k old new)"
  by (auto simp: raise_by_def)

lemma raise_by_cases: "raise_by k old new = old \<or> raise_by k old new = new"
  by (simp add: raise_by_def)

locale ranked =
  fixes rank :: "'a \<Rightarrow> 'k::linorder"
  assumes rank_inj: "rank x = rank y \<Longrightarrow> x = y"
begin

lemma max_by_key_iff:
  "max_by_key rank xs = Some y \<longleftrightarrow> y \<in> set xs \<and> (\<forall>x\<in>set xs. rank x \<le> rank y)"
proof
  assume "max_by_key rank xs = Some y"
  then show "y \<in> set xs \<and> (\<forall>x\<in>set xs. rank x \<le> rank y)"
    by (auto intro: max_by_key_mem max_by_key_ge)
next
  assume y: "y \<in> set xs \<and> (\<forall>x\<in>set xs. rank x \<le> rank y)"
  then obtain z where z: "max_by_key rank xs = Some z"
    by (cases "max_by_key rank xs") auto
  then have "rank y \<le> rank z" "z \<in> set xs"
    using y by (auto intro: max_by_key_mem max_by_key_ge)
  with y have "rank y = rank z" by (meson order_antisym)
  with z show "max_by_key rank xs = Some y" using rank_inj by blast
qed

lemma max_by_key_set_cong:
  assumes "set xs = set ys" shows "max_by_key rank xs = max_by_key rank ys"
proof (cases "max_by_key rank xs")
  case None
  then show ?thesis using assms by auto
next
  case (Some y)
  then show ?thesis using assms max_by_key_iff by metis
qed

lemma raise_idem: "raise_by rank a a = a"
  by (simp add: raise_by_def)

lemma raise_comm: "raise_by rank a b = raise_by rank b a"
  by (auto simp: raise_by_def intro: rank_inj)

lemma raise_assoc:
  "raise_by rank (raise_by rank a b) c = raise_by rank a (raise_by rank b c)"
  by (auto simp: raise_by_def)

lemma rank_raise: "rank (raise_by rank a b) = max (rank a) (rank b)"
  by (auto simp: raise_by_def max_def)

lemma foldl_raise:
  "max_by_key rank (a # xs) = Some (foldl (raise_by rank) a xs)"
proof (induction xs arbitrary: a)
  case Nil
  then show ?case by simp
next
  case (Cons x xs)
  have "max_by_key rank (raise_by rank a x # xs) = Some (foldl (raise_by rank) a (x # xs))"
    using Cons.IH by simp
  then have *: "foldl (raise_by rank) a (x # xs) \<in> set (raise_by rank a x # xs)"
    "\<forall>y\<in>set (raise_by rank a x # xs). rank y \<le> rank (foldl (raise_by rank) a (x # xs))"
    using max_by_key_iff by blast+
  have "foldl (raise_by rank) a (x # xs) \<in> set (a # x # xs)"
    using *(1) raise_by_cases [of rank a x] by auto
  moreover have "\<forall>y\<in>set (a # x # xs). rank y \<le> rank (foldl (raise_by rank) a (x # xs))"
    using *(2) order_trans [OF raise_by_ge(1) [of rank a x]]
      order_trans [OF raise_by_ge(2) [of rank x a]] by auto
  ultimately show ?case using max_by_key_iff by blast
qed

end

end
