(* ===== verification/Trajectory.thy ===== *)
theory Trajectory
  imports Json Ranked "HOL-Library.Char_ord" "HOL-Library.List_Lexorder" "HOL-Library.AList"
begin

text \<open>
  The normalized event model shared by every crate (\<open>crates/types\<close>): agents, the four event
  categories, the event envelope, adjudications, lifecycle status, and the redaction of file
  bodies. Identifiers that the code mints with \<open>uuid\<close> and the time it reads are arguments;
  floating-point fields are carried as bit patterns and never computed with.
\<close>

type_synonym f64 = "64 word"
type_synonym timestamp = int \<comment> \<open>nanoseconds since the epoch\<close>

section \<open>Agents\<close>

record agent =
  ag_id :: string
  ag_provider :: string
  ag_platform :: string

section \<open>Actions\<close>

record tool_call =
  tc_call_id :: string
  tc_tool :: string
  tc_arguments :: json

record shell_command =
  shc_call_id :: string
  shc_command :: string
  shc_working_dir :: "string option"

record web_fetch =
  wf_call_id :: string
  wf_url :: string
  wf_prompt :: string

datatype file_op_type = OpRead | OpWrite | OpEdit | OpDelete

fun file_op_to_string :: "file_op_type \<Rightarrow> string" where
  "file_op_to_string OpRead = ''Read''"
| "file_op_to_string OpWrite = ''Write''"
| "file_op_to_string OpEdit = ''Edit''"
| "file_op_to_string OpDelete = ''Delete''"

record file_operation =
  fo_call_id :: string
  fo_operation :: file_op_type
  fo_path :: string
  fo_content :: "string option"
  fo_old_content :: "string option"

datatype action =
    ToolCall tool_call
  | ShellCommand shell_command
  | WebFetch web_fetch
  | FileOperation file_operation

section \<open>Observations\<close>

datatype prompt_role = RoleUser | RoleSystem | RoleAssistant

fun prompt_role_to_string :: "prompt_role \<Rightarrow> string" where
  "prompt_role_to_string RoleUser = ''User''"
| "prompt_role_to_string RoleSystem = ''System''"
| "prompt_role_to_string RoleAssistant = ''Assistant''"

record prompt =
  pr_content :: string
  pr_role :: prompt_role

definition prompt_user :: "string \<Rightarrow> prompt" where
  "prompt_user c = \<lparr>pr_content = c, pr_role = RoleUser\<rparr>"

record tool_output =
  to_call_id :: string
  to_success :: bool
  to_output :: json
  to_error :: "string option"

definition tool_output_success :: "string \<Rightarrow> json \<Rightarrow> tool_output" where
  "tool_output_success cid out =
     \<lparr>to_call_id = cid, to_success = True, to_output = out, to_error = None\<rparr>"

definition tool_output_error :: "string \<Rightarrow> string \<Rightarrow> tool_output" where
  "tool_output_error cid e =
     \<lparr>to_call_id = cid, to_success = False, to_output = JNull, to_error = Some e\<rparr>"

record shell_command_output =
  sco_call_id :: string
  sco_exit_code :: i32
  sco_stdout :: string
  sco_stderr :: string

record web_fetch_output =
  wfo_call_id :: string
  wfo_url :: string
  wfo_code :: i32
  wfo_result :: string

record file_operation_result =
  fr_call_id :: string
  fr_success :: bool
  fr_path :: "string option"
  fr_content :: "string option"
  fr_error :: "string option"

datatype observation =
    Prompt prompt
  | Thought string
  | ToolOutput tool_output
  | ShellCommandOutput shell_command_output
  | WebFetchOutput web_fetch_output
  | FileOperationResult file_operation_result

section \<open>Decisions, modes, policy metadata\<close>

datatype decision = Allow | Deny | Escalate

fun decision_label :: "decision \<Rightarrow> string" where
  "decision_label Allow = ''allow''"
| "decision_label Deny = ''deny''"
| "decision_label Escalate = ''escalate''"

datatype mode = Monitor | Govern | Steer

definition mode_default :: mode where "mode_default = Monitor"

fun restrictiveness :: "mode \<Rightarrow> u8" where
  "restrictiveness Monitor = 0"
| "restrictiveness Steer = 1"
| "restrictiveness Govern = 2"

fun mode_label :: "mode \<Rightarrow> string" where
  "mode_label Monitor = ''monitor''"
| "mode_label Govern = ''govern''"
| "mode_label Steer = ''steer''"

definition mode_from_str :: "string \<Rightarrow> mode option" where
  "mode_from_str s =
     (if s = ''monitor'' then Some Monitor
      else if s = ''govern'' then Some Govern
      else if s = ''steer'' then Some Steer
      else None)"

lemma mode_round_trip [simp]: "mode_from_str (mode_label m) = Some m"
  by (cases m) (simp_all add: mode_from_str_def)

interpretation mode_rank: ranked restrictiveness
proof
  fix x y :: mode
  show "restrictiveness x = restrictiveness y \<Longrightarrow> x = y" by (cases x; cases y) simp_all
qed

instantiation mode :: linorder
begin

definition less_eq_mode :: "mode \<Rightarrow> mode \<Rightarrow> bool" where
  "less_eq_mode a b \<longleftrightarrow> restrictiveness a \<le> restrictiveness b"

definition less_mode :: "mode \<Rightarrow> mode \<Rightarrow> bool" where
  "less_mode a b \<longleftrightarrow> restrictiveness a < restrictiveness b"

instance
  by standard (auto simp: less_eq_mode_def less_mode_def dest: mode_rank.rank_inj)

end

record policy_metadata =
  pmd_policy_id :: "string option"
  pmd_description :: "string option"
  pmd_escalate :: bool
  pmd_escalate_arg :: "string option"
  pmd_metadata :: "(string \<times> string) list"

definition policy_metadata_new :: policy_metadata where
  "policy_metadata_new = \<lparr>pmd_policy_id = None, pmd_description = None, pmd_escalate = False,
     pmd_escalate_arg = None, pmd_metadata = []\<rparr>"

definition with_id :: "policy_metadata \<Rightarrow> string \<Rightarrow> policy_metadata" where
  "with_id m i = m\<lparr>pmd_policy_id := Some i\<rparr>"

definition with_description :: "policy_metadata \<Rightarrow> string \<Rightarrow> policy_metadata" where
  "with_description m d = m\<lparr>pmd_description := Some d\<rparr>"

definition with_escalate :: "policy_metadata \<Rightarrow> string option \<Rightarrow> policy_metadata" where
  "with_escalate m a = m\<lparr>pmd_escalate := True, pmd_escalate_arg := a\<rparr>"

definition with_entry :: "policy_metadata \<Rightarrow> string \<Rightarrow> string \<Rightarrow> policy_metadata" where
  "with_entry m k v = m\<lparr>pmd_metadata := AList.update k v (pmd_metadata m)\<rparr>"

section \<open>Guardrail results\<close>

record signature_guardrail_match =
  sgm_rule :: string
  sgm_namespace :: "string option"
  sgm_metadata :: "(string \<times> string) list"

record signature_guardrail_result =
  sgr_triggered :: bool
  sgr_severity :: "string option"
  sgr_categories :: "string list"
  sgr_matches :: "signature_guardrail_match list"

record ifc_guardrail_result =
  igr_label :: string
  igr_fallback_reason :: "string option"

record guardrail_results =
  gr_signature :: "signature_guardrail_result option"
  gr_ifc :: "ifc_guardrail_result option"

section \<open>Scanner results\<close>

datatype signal_focus = Environment | AgentFocus | Governance

datatype signal_category =
    InputIssues | InfrastructureFailure | TaskDesign | StaticKnowledge | LowLevelIncoherence
  | HighLevelIncoherence | SelfCorrection | RefusalBehaviour | ToolMisuse | EvaluationAwareness
  | PolicyViolation | PrivilegeEscalation | DataExfiltration | DestructiveOperation
  | CredentialExposure

datatype signal_severity = SsInfo | SsLow | SsMedium | SsHigh | SsCritical

record signal =
  sn_focus :: signal_focus
  sn_category :: signal_category
  sn_severity :: signal_severity
  sn_description :: string
  sn_evidence_indices :: "32 word list"

datatype message_type =
    MtToolCall | MtToolResult | MtUserInput | MtReasoning | MtLifecycle | MtAdjudication
  | MtStateCapture

datatype agent_intent =
    Investigate | Plan | Implement | Verify | Debug | Communicate | AiLifecycle | GovernIntent

record event_scan_result =
  esr_explanation :: string
  esr_message_type :: message_type
  esr_intent :: agent_intent
  esr_description :: string
  esr_key_entities :: "string list"
  esr_is_side_effecting :: bool
  esr_signals :: "signal list"
  esr_confidence :: f64
  esr_embedding :: "f64 list option"

record transcript_phase =
  tp_name :: string
  tp_description :: string
  tp_event_indices :: "32 word list"

record transcript_digest =
  td_trajectory_id :: string
  td_title :: string
  td_summary :: string
  td_interim :: bool
  td_phases :: "transcript_phase list"
  td_files_modified :: "string list"
  td_tools_used :: "string list"
  td_total_events :: "32 word"
  td_side_effecting_count :: "32 word"

datatype transcript_outcome = Success | Partial | Failure | Interrupted | InProgress

record transcript_scan_result =
  tsr_explanation :: string
  tsr_outcome :: transcript_outcome
  tsr_outcome_description :: string
  tsr_aggregate_severity :: signal_severity
  tsr_signals :: "signal list"
  tsr_adjudication_summary :: string
  tsr_behavioral_notes :: "string list"
  tsr_confidence :: f64

record transcript_scan =
  ts_source_event_id :: string
  ts_result :: transcript_scan_result

datatype scanned =
    ScMessage string event_scan_result
  | ScTranscriptDigest string transcript_digest
  | ScTranscriptScan string transcript_scan_result

fun event_scan_result_of :: "scanned \<Rightarrow> event_scan_result option" where
  "event_scan_result_of (ScMessage _ r) = Some r"
| "event_scan_result_of _ = None"

fun transcript_digest_result :: "scanned \<Rightarrow> transcript_digest option" where
  "transcript_digest_result (ScTranscriptDigest _ r) = Some r"
| "transcript_digest_result _ = None"

fun transcript_scan_result_of :: "scanned \<Rightarrow> transcript_scan_result option" where
  "transcript_scan_result_of (ScTranscriptScan _ r) = Some r"
| "transcript_scan_result_of _ = None"

fun source_event_id :: "scanned \<Rightarrow> string" where
  "source_event_id (ScMessage i _) = i"
| "source_event_id (ScTranscriptDigest i _) = i"
| "source_event_id (ScTranscriptScan i _) = i"

end
