(* ===== verification/Event.thy ===== *)
theory Event
  imports Trajectory
begin

text \<open>
  Control events, adjudications, the event envelope, lifecycle status and redaction
  (\<open>crates/types/src/trajectory\<close>: \<open>control.rs\<close>, \<open>event.rs\<close>, \<open>status.rs\<close>, \<open>state.rs\<close>,
  \<open>redact.rs\<close>).
\<close>

section \<open>Adjudications\<close>

record steering =
  st_instructions :: "string list"
  st_explanation :: string

record adjudicated =
  adj_decision :: decision
  adj_mode :: mode
  adj_reason :: "string option"
  adj_metadata :: "policy_metadata list"
  adj_guardrails :: "guardrail_results option"
  adj_steering :: "steering option"

definition adjudicated_new :: "decision \<Rightarrow> adjudicated" where
  "adjudicated_new d = \<lparr>adj_decision = d, adj_mode = mode_default, adj_reason = None,
     adj_metadata = [], adj_guardrails = None, adj_steering = None\<rparr>"

definition adjudicated_allow :: adjudicated where
  "adjudicated_allow = adjudicated_new Allow"

definition adjudicated_deny :: adjudicated where
  "adjudicated_deny = adjudicated_new Deny"

definition adjudicated_escalate :: adjudicated where
  "adjudicated_escalate = adjudicated_new Escalate"

definition with_reason :: "adjudicated \<Rightarrow> string \<Rightarrow> adjudicated" where
  "with_reason a r = a\<lparr>adj_reason := Some r\<rparr>"

definition with_metadata :: "adjudicated \<Rightarrow> policy_metadata \<Rightarrow> adjudicated" where
  "with_metadata a m = a\<lparr>adj_metadata := adj_metadata a @ [m]\<rparr>"

text \<open>One metadata entry as lines: a heading, then the annotations in key order.\<close>

definition policy_heading :: "policy_metadata \<Rightarrow> string list" where
  "policy_heading m =
     (case (pmd_policy_id m, pmd_description m) of
        (Some i, Some d) \<Rightarrow> [''[Policy: '' @ i @ ''] '' @ d]
      | (Some i, None) \<Rightarrow> [''[Policy: '' @ i @ '']'']
      | (None, Some d) \<Rightarrow> [d]
      | (None, None) \<Rightarrow> [])"

definition policy_lines :: "policy_metadata \<Rightarrow> string list" where
  "policy_lines m =
     policy_heading m
     @ List.map_filter (\<lambda>k. map_option (\<lambda>v. ''  '' @ k @ '': '' @ v) (map_of (pmd_metadata m) k))
         (sort (map fst (pmd_metadata m)))"

definition format_policy_context :: "adjudicated \<Rightarrow> string option" where
  "format_policy_context a =
     (if adj_metadata a = [] then None
      else (let parts = filter (\<lambda>s. s \<noteq> [])
                  (map (\<lambda>m. join [CHR 0x0A] (policy_lines m)) (adj_metadata a))
            in if parts = [] then None else Some (join [CHR 0x0A] parts)))"

definition deny_message :: "adjudicated \<Rightarrow> string \<Rightarrow> string" where
  "deny_message a default_reason =
     (let reason = unwrap_or (adj_reason a) default_reason
      in case format_policy_context a of
           Some context \<Rightarrow> reason @ [CHR 0x0A, CHR 0x0A] @ context
         | None \<Rightarrow> reason)"

lemma deny_message_prefix: "prefix (unwrap_or (adj_reason a) d) (deny_message a d)"
  by (auto simp: deny_message_def Let_def split: option.splits)

section \<open>Control and state events\<close>

record started =
  sd_agent :: agent
  sd_task :: "string option"

definition started_new :: "agent \<Rightarrow> started" where
  "started_new a = \<lparr>sd_agent = a, sd_task = None\<rparr>"

record terminated =
  tm_reason :: string
  tm_terminated_by :: string

datatype control =
    Started started
  | Completed "string option"
  | Failed string
  | Terminated terminated
  | Suspended string
  | Resumed string
  | Adjudicated adjudicated
  | Scanned scanned

fun is_terminal :: "control \<Rightarrow> bool" where
  "is_terminal (Completed _) = True"
| "is_terminal (Failed _) = True"
| "is_terminal (Terminated _) = True"
| "is_terminal _ = False"

fun is_initial :: "control \<Rightarrow> bool" where
  "is_initial (Started _) = True"
| "is_initial _ = False"

record snapshot =
  ss_snapshot_id :: string
  ss_working_dir :: "string option"
  ss_open_files :: "string list"
  ss_git_branch :: "string option"
  ss_variables :: "string \<rightharpoonup> json"

section \<open>The envelope\<close>

datatype actor_type = AtHuman | AtAgent | AtSystem | AtPolicy

record actor =
  ac_id :: string
  ac_type :: actor_type

definition actor_human :: "string \<Rightarrow> actor" where "actor_human i = \<lparr>ac_id = i, ac_type = AtHuman\<rparr>"
definition actor_agent :: "string \<Rightarrow> actor" where "actor_agent i = \<lparr>ac_id = i, ac_type = AtAgent\<rparr>"
definition actor_system :: "string \<Rightarrow> actor" where
  "actor_system i = \<lparr>ac_id = i, ac_type = AtSystem\<rparr>"
definition actor_policy :: "string \<Rightarrow> actor" where
  "actor_policy i = \<lparr>ac_id = i, ac_type = AtPolicy\<rparr>"

record causality =
  cs_correlation_id :: string
  cs_causation_id :: "string option"
  cs_parent_id :: "string option"

definition causality_default :: "string \<Rightarrow> causality" where
  "causality_default uuid =
     \<lparr>cs_correlation_id = ''corr-'' @ uuid, cs_causation_id = None, cs_parent_id = None\<rparr>"

definition caused_by :: "causality \<Rightarrow> string \<Rightarrow> causality" where
  "caused_by c i = c\<lparr>cs_causation_id := Some i\<rparr>"

definition with_parent :: "causality \<Rightarrow> string \<Rightarrow> causality" where
  "with_parent c i = c\<lparr>cs_parent_id := Some i\<rparr>"

datatype trajectory_event =
    Action action
  | Observation observation
  | Control control
  | State snapshot

record event =
  ev_event_id :: string
  ev_trajectory_id :: string
  ev_agent :: agent
  ev_timestamp :: timestamp
  ev_event :: trajectory_event
  ev_actor :: actor
  ev_causality :: causality

text \<open>What \<open>Event::new\<close> draws from the environment: two UUIDs and the clock.\<close>

record fresh =
  fresh_event_uuid :: string
  fresh_corr_uuid :: string
  fresh_now :: timestamp

definition event_new :: "fresh \<Rightarrow> agent \<Rightarrow> string \<Rightarrow> trajectory_event \<Rightarrow> event" where
  "event_new fr a tid e =
     \<lparr>ev_event_id = ''evt-'' @ fresh_event_uuid fr, ev_trajectory_id = tid, ev_agent = a,
      ev_timestamp = fresh_now fr, ev_event = e, ev_actor = actor_agent (ag_id a),
      ev_causality = causality_default (fresh_corr_uuid fr)\<rparr>"

definition with_actor :: "event \<Rightarrow> actor \<Rightarrow> event" where "with_actor e a = e\<lparr>ev_actor := a\<rparr>"

definition with_causality :: "event \<Rightarrow> causality \<Rightarrow> event" where
  "with_causality e c = e\<lparr>ev_causality := c\<rparr>"

definition with_timestamp :: "event \<Rightarrow> timestamp \<Rightarrow> event" where
  "with_timestamp e t = e\<lparr>ev_timestamp := t\<rparr>"

fun event_kind :: "trajectory_event \<Rightarrow> string" where
  "event_kind (Action (ToolCall _)) = ''Action::ToolCall''"
| "event_kind (Action (ShellCommand _)) = ''Action::ShellCommand''"
| "event_kind (Action (WebFetch _)) = ''Action::WebFetch''"
| "event_kind (Action (FileOperation _)) = ''Action::FileOperation''"
| "event_kind (Observation (Prompt _)) = ''Observation::Prompt''"
| "event_kind (Observation (ShellCommandOutput _)) = ''Observation::ShellCommandOutput''"
| "event_kind (Observation (WebFetchOutput _)) = ''Observation::WebFetchOutput''"
| "event_kind (Observation (FileOperationResult _)) = ''Observation::FileOperationResult''"
| "event_kind (Observation (ToolOutput _)) = ''Observation::ToolOutput''"
| "event_kind (Observation (Thought _)) = ''Observation::Thought''"
| "event_kind (Control (Started _)) = ''Control::Started''"
| "event_kind (Control (Completed _)) = ''Control::Completed''"
| "event_kind (Control (Failed _)) = ''Control::Failed''"
| "event_kind (Control (Terminated _)) = ''Control::Terminated''"
| "event_kind (Control (Suspended _)) = ''Control::Suspended''"
| "event_kind (Control (Resumed _)) = ''Control::Resumed''"
| "event_kind (Control (Adjudicated _)) = ''Control::Adjudicated''"
| "event_kind (Control (Scanned _)) = ''Control::Scanned''"
| "event_kind (State _) = ''State::Snapshot''"

section \<open>Lifecycle status\<close>

datatype trajectory_status =
    TsPending | TsRunning | TsCompleted | TsFailed | TsTerminated | TsSuspended

fun from_control :: "control \<Rightarrow> trajectory_status" where
  "from_control (Started _) = TsRunning"
| "from_control (Resumed _) = TsRunning"
| "from_control (Completed _) = TsCompleted"
| "from_control (Failed _) = TsFailed"
| "from_control (Terminated _) = TsTerminated"
| "from_control (Suspended _) = TsSuspended"
| "from_control (Adjudicated _) = TsRunning"
| "from_control (Scanned _) = TsRunning"

fun status_as_str :: "trajectory_status \<Rightarrow> string" where
  "status_as_str TsPending = ''pending''"
| "status_as_str TsRunning = ''running''"
| "status_as_str TsCompleted = ''completed''"
| "status_as_str TsFailed = ''failed''"
| "status_as_str TsTerminated = ''terminated''"
| "status_as_str TsSuspended = ''suspended''"

definition status_from_str :: "unicode \<Rightarrow> string \<Rightarrow> string + trajectory_status" where
  "status_from_str U s =
     (let l = str_to_lowercase U s in
      if l = ''pending'' then Inr TsPending
      else if l = ''running'' then Inr TsRunning
      else if l = ''completed'' then Inr TsCompleted
      else if l = ''failed'' then Inr TsFailed
      else if l = ''terminated'' then Inr TsTerminated
      else if l = ''suspended'' then Inr TsSuspended
      else Inl (''Invalid trajectory status: '' @ [CHR 0x27] @ s @ [CHR 0x27]
        @ ''. Must be '' @ [CHR 0x27] @ ''pending'' @ [CHR 0x27] @ '', '' @ [CHR 0x27]
        @ ''running'' @ [CHR 0x27] @ '', '' @ [CHR 0x27] @ ''completed'' @ [CHR 0x27] @ '', ''
        @ [CHR 0x27] @ ''failed'' @ [CHR 0x27] @ '', '' @ [CHR 0x27] @ ''terminated''
        @ [CHR 0x27] @ '', or '' @ [CHR 0x27] @ ''suspended'' @ [CHR 0x27]))"

lemma status_round_trip: "status_from_str U (status_as_str st) = Inr st"
  by (cases st)
    (simp_all add: status_from_str_def str_to_lowercase_def Let_def is_ascii_def ascii_lower_def
      is_upper_def)

section \<open>Redaction\<close>

text \<open>\<open>sha_hex\<close> is the lowercase hexadecimal SHA-256 digest of the content's bytes.\<close>

type_synonym hasher = "string \<Rightarrow> string"

definition redaction_marker :: "hasher \<Rightarrow> string \<Rightarrow> string" where
  "redaction_marker sha_hex content =
     (let digest = sha_hex content;
          fingerprint = (if 16 \<le> length digest \<and> is_char_boundary digest 16
            then take 16 digest else digest)
      in ''[redacted: '' @ nat_to_string (length content) @ '' bytes, sha256:'' @ fingerprint
         @ '']'')"

definition redact :: "hasher \<Rightarrow> string option \<Rightarrow> string option" where
  "redact sha_hex = map_option (redaction_marker sha_hex)"

fun redact_trajectory_event :: "hasher \<Rightarrow> trajectory_event \<Rightarrow> trajectory_event" where
  "redact_trajectory_event sha_hex (Action (FileOperation op)) =
     Action (FileOperation (op\<lparr>fo_content := redact sha_hex (fo_content op),
       fo_old_content := redact sha_hex (fo_old_content op)\<rparr>))"
| "redact_trajectory_event sha_hex (Observation (FileOperationResult r)) =
     Observation (FileOperationResult (r\<lparr>fr_content := redact sha_hex (fr_content r)\<rparr>))"
| "redact_trajectory_event sha_hex unchanged = unchanged"

definition redact_file_content :: "hasher \<Rightarrow> event \<Rightarrow> event" where
  "redact_file_content sha_hex e = e\<lparr>ev_event := redact_trajectory_event sha_hex (ev_event e)\<rparr>"

text \<open>The file bodies an event carries.\<close>

fun file_bodies :: "trajectory_event \<Rightarrow> string list" where
  "file_bodies (Action (FileOperation op)) =
     List.map_filter id [fo_content op, fo_old_content op]"
| "file_bodies (Observation (FileOperationResult r)) = List.map_filter id [fr_content r]"
| "file_bodies _ = []"

definition is_marker :: "hasher \<Rightarrow> string \<Rightarrow> bool" where
  "is_marker sha_hex s \<longleftrightarrow> (\<exists>content. s = redaction_marker sha_hex content)"

lemma file_bodies_redact:
  "file_bodies (redact_trajectory_event h e) = map (redaction_marker h) (file_bodies e)"
  by (cases "(h, e)" rule: redact_trajectory_event.cases)
    (auto simp: redact_def List.map_filter_def split: option.splits)

lemma event_kind_redact [simp]: "event_kind (redact_trajectory_event h e) = event_kind e"
  by (cases "(h, e)" rule: redact_trajectory_event.cases) auto

lemma redact_no_bodies: "file_bodies e = [] \<Longrightarrow> redact_trajectory_event h e = e"
  by (cases "(h, e)" rule: redact_trajectory_event.cases)
    (auto simp: redact_def List.map_filter_def split: option.splits if_splits)

lemma redact_envelope [simp]:
  "ev_event_id (redact_file_content h e) = ev_event_id e"
  "ev_trajectory_id (redact_file_content h e) = ev_trajectory_id e"
  "ev_agent (redact_file_content h e) = ev_agent e"
  "ev_timestamp (redact_file_content h e) = ev_timestamp e"
  "ev_actor (redact_file_content h e) = ev_actor e"
  "ev_causality (redact_file_content h e) = ev_causality e"
  "ev_event (redact_file_content h e) = redact_trajectory_event h (ev_event e)"
  by (simp_all add: redact_file_content_def)

end
