(* ===== verification/Summary.thy ===== *)
theory Summary
  imports Event "HOL-Library.Option_ord"
begin

text \<open>
  The run-level rollup (\<open>crates/types/src/trajectory/summary.rs\<close>), result windows
  (\<open>page.rs\<close>), the agent rollup counters and filters (\<open>agent.rs\<close>), and the ordering and
  overlay helpers of the read side (\<open>crates/storage/src/turso/trajectory.rs\<close>). All of it is
  pure functions of a run's event list.

  The two hash maps of the fold are functions to options; a run is the list of its events in
  causal order.
\<close>

section \<open>Status, digests and the one-line summary\<close>

fun lifecycle_of :: "trajectory_event \<Rightarrow> trajectory_status option" where
  "lifecycle_of (Control (Adjudicated _)) = None"
| "lifecycle_of (Control (Scanned _)) = None"
| "lifecycle_of (Control c) = Some (from_control c)"
| "lifecycle_of _ = None"

definition run_status :: "event list \<Rightarrow> trajectory_status" where
  "run_status events = unwrap_or (find_map (lifecycle_of \<circ> ev_event) (rev events)) TsPending"

fun digest_of :: "trajectory_event \<Rightarrow> transcript_digest option" where
  "digest_of (Control (Scanned s)) = transcript_digest_result s"
| "digest_of _ = None"

definition latest_digest :: "event list \<Rightarrow> transcript_digest option" where
  "latest_digest events = find_map (digest_of \<circ> ev_event) (rev events)"

fun scan_of :: "trajectory_event \<Rightarrow> transcript_scan option" where
  "scan_of (Control (Scanned s)) =
     map_option (\<lambda>r. \<lparr>ts_source_event_id = source_event_id s, ts_result = r\<rparr>)
       (transcript_scan_result_of s)"
| "scan_of _ = None"

definition latest_scan :: "event list \<Rightarrow> transcript_scan option" where
  "latest_scan events = find_map (scan_of \<circ> ev_event) (rev events)"

fun closing_note :: "trajectory_event \<Rightarrow> string option" where
  "closing_note (Control (Completed summary)) = opt_else summary (Some [])"
| "closing_note (Control (Failed reason)) = Some reason"
| "closing_note (Control (Terminated t)) = Some (tm_reason t)"
| "closing_note _ = None"

definition run_summary :: "event list \<Rightarrow> transcript_digest option \<Rightarrow> string" where
  "run_summary events digest =
     (case digest of
        Some d \<Rightarrow> td_title d
      | None \<Rightarrow> unwrap_or (find_map (closing_note \<circ> ev_event) (rev events)) [])"

section \<open>Folding governance events onto their source\<close>

record event_detail =
  ed_event :: event
  ed_adjudication :: "adjudicated option"
  ed_summary :: "event_scan_result option"

fun is_folded_event :: "trajectory_event \<Rightarrow> bool" where
  "is_folded_event (Control (Adjudicated _)) = True"
| "is_folded_event (Control (Scanned _)) = True"
| "is_folded_event _ = False"

definition is_folded_control :: "event \<Rightarrow> bool" where
  "is_folded_control e = is_folded_event (ev_event e)"

text \<open>One turn of the collecting loop, over the two maps keyed by source event id.\<close>

type_synonym fold_maps =
  "(string \<rightharpoonup> adjudicated) \<times> (string \<rightharpoonup> event_scan_result)"

definition fold_step :: "fold_maps \<Rightarrow> event \<Rightarrow> fold_maps" where
  "fold_step maps e =
     (case ev_event e of
        Control c \<Rightarrow>
          (case cs_causation_id (ev_causality e) of
             None \<Rightarrow> maps
           | Some source \<Rightarrow>
               (case c of
                  Adjudicated a \<Rightarrow> ((fst maps)(source \<mapsto> a), snd maps)
                | Scanned s \<Rightarrow>
                    (case event_scan_result_of s of
                       Some r \<Rightarrow> (fst maps, (snd maps)(source \<mapsto> r))
                     | None \<Rightarrow> maps)
                | _ \<Rightarrow> maps))
      | _ \<Rightarrow> maps)"

definition fold_maps_of :: "event list \<Rightarrow> fold_maps" where
  "fold_maps_of events = foldl fold_step (Map.empty, Map.empty) events"

definition fold_event_details :: "event list \<Rightarrow> event_detail list" where
  "fold_event_details events =
     (let maps = fold_maps_of events
      in map (\<lambda>e. \<lparr>ed_event = e, ed_adjudication = fst maps (ev_event_id e),
                   ed_summary = snd maps (ev_event_id e)\<rparr>)
           (filter (\<lambda>e. \<not> is_folded_control e) events))"

section \<open>The run-level verdict\<close>

fun decision_severity :: "decision \<Rightarrow> u8" where
  "decision_severity Deny = 2"
| "decision_severity Escalate = 1"
| "decision_severity Allow = 0"

interpretation decision_rank: ranked decision_severity
proof
  fix x y :: decision
  show "decision_severity x = decision_severity y \<Longrightarrow> x = y" by (cases x; cases y) simp_all
qed

instantiation decision :: linorder
begin

definition less_eq_decision :: "decision \<Rightarrow> decision \<Rightarrow> bool" where
  "less_eq_decision a b \<longleftrightarrow> decision_severity a \<le> decision_severity b"

definition less_decision :: "decision \<Rightarrow> decision \<Rightarrow> bool" where
  "less_decision a b \<longleftrightarrow> decision_severity a < decision_severity b"

instance
  by standard (auto simp: less_eq_decision_def less_decision_def dest: decision_rank.rank_inj)

end

fun adjudication_of :: "trajectory_event \<Rightarrow> adjudicated option" where
  "adjudication_of (Control (Adjudicated a)) = Some a"
| "adjudication_of _ = None"

definition run_adjudications :: "event list \<Rightarrow> adjudicated list" where
  "run_adjudications events = List.map_filter (adjudication_of \<circ> ev_event) events"

definition run_decision :: "event list \<Rightarrow> decision option" where
  "run_decision events = max_by_key decision_severity (map adj_decision (run_adjudications events))"

definition adjudication_policy_hit :: "adjudicated \<Rightarrow> string option" where
  "adjudication_policy_hit a =
     find_map (\<lambda>m. opt_else (pmd_policy_id m) (pmd_description m)) (adj_metadata a)"

definition policy_hits_step :: "string list \<Rightarrow> event \<Rightarrow> string list" where
  "policy_hits_step hits e =
     (case adjudication_of (ev_event e) of
        None \<Rightarrow> hits
      | Some a \<Rightarrow>
          if adj_decision a = Allow then hits
          else (case adjudication_policy_hit a of
                  None \<Rightarrow> hits
                | Some hit \<Rightarrow> if hit \<in> set hits then hits else hits @ [hit]))"

definition run_policy_hits :: "event list \<Rightarrow> string list" where
  "run_policy_hits events = foldl policy_hits_step [] events"

section \<open>The rollup record\<close>

record trajectory =
  tj_id :: string
  tj_agent_id :: string
  tj_started_at :: "timestamp option"
  tj_duration_ms :: int
  tj_decision :: "decision option"
  tj_event_count :: i32
  tj_policy_hits :: "string list"
  tj_score :: "f64 option"
  tj_summary :: string
  tj_status :: trajectory_status
  tj_update_time :: "timestamp option"
  tj_digest :: "transcript_digest option"
  tj_scan :: "transcript_scan option"

definition first_of :: "'a list \<Rightarrow> 'a option" where
  "first_of xs = (case xs of [] \<Rightarrow> None | x # _ \<Rightarrow> Some x)"

definition last_of :: "'a list \<Rightarrow> 'a option" where
  "last_of xs = first_of (rev xs)"

definition duration_ms :: "timestamp option \<Rightarrow> timestamp option \<Rightarrow> int" where
  "duration_ms a b =
     (case (a, b) of
        (Some f, Some l) \<Rightarrow> max 0 ((l - f) div 1000000)
      | _ \<Rightarrow> 0)"

definition summarize :: "string \<Rightarrow> event list \<Rightarrow> trajectory" where
  "summarize tid events =
     (let started_at = map_option ev_timestamp (first_of events);
          update_time = map_option ev_timestamp (last_of events)
      in \<lparr>tj_id = tid,
          tj_agent_id = unwrap_or (map_option (ag_id \<circ> ev_agent) (first_of events)) [],
          tj_started_at = started_at,
          tj_duration_ms = duration_ms started_at update_time,
          tj_decision = run_decision events,
          tj_event_count = of_nat (length (fold_event_details events)),
          tj_policy_hits = run_policy_hits events,
          tj_score = None,
          tj_summary = run_summary events None,
          tj_status = run_status events,
          tj_update_time = update_time,
          tj_digest = None,
          tj_scan = None\<rparr>)"

definition detail :: "string \<Rightarrow> event list \<Rightarrow> trajectory" where
  "detail tid events =
     (let digest = latest_digest events;
          summary = run_summary events digest
      in (summarize tid events)\<lparr>tj_summary := summary, tj_digest := digest,
           tj_scan := latest_scan events\<rparr>)"

section \<open>Filters, orderings and windows\<close>

record trajectory_filter =
  tf_agent_id :: "string option"
  tf_status :: "trajectory_status option"
  tf_decision :: "decision option"

definition trajectory_matches :: "trajectory_filter \<Rightarrow> trajectory \<Rightarrow> bool" where
  "trajectory_matches f t =
     (if (case tf_status f of Some s \<Rightarrow> tj_status t \<noteq> s | None \<Rightarrow> False) then False
      else if (case tf_decision f of Some d \<Rightarrow> tj_decision t \<noteq> Some d | None \<Rightarrow> False) then False
      else True)"

datatype trajectory_order_by = ByStartTime | ByUpdateTime | ByEventCount

definition sort_trajectories ::
  "trajectory list \<Rightarrow> trajectory_order_by \<Rightarrow> bool \<Rightarrow> trajectory list" where
  "sort_trajectories ts order descending =
     (let sorted = (case order of
            ByEventCount \<Rightarrow> sort_key (\<lambda>t. sint (tj_event_count t)) ts
          | ByUpdateTime \<Rightarrow> sort_key tj_update_time ts
          | ByStartTime \<Rightarrow> sort_key tj_started_at ts)
      in if descending then rev sorted else sorted)"

record 'a page =
  pg_items :: "'a list"
  pg_total :: nat

definition page_slice :: "'a list \<Rightarrow> nat \<Rightarrow> nat \<Rightarrow> 'a page" where
  "page_slice all_items offset limit =
     \<lparr>pg_items = take limit (drop offset all_items), pg_total = length all_items\<rparr>"

record trajectory_query =
  tq_filter :: trajectory_filter
  tq_order_by :: trajectory_order_by
  tq_descending :: bool
  tq_offset :: nat
  tq_limit :: nat

text \<open>The transcript products the store keeps beside the ledger, overlaid on the rollup.\<close>

record trajectory_scans =
  tsc_digest :: "transcript_digest option"
  tsc_scan :: "transcript_scan option"

definition attach_scans :: "trajectory \<Rightarrow> trajectory_scans \<Rightarrow> trajectory" where
  "attach_scans t scans =
     (let t1 = (case tsc_digest scans of
                  Some d \<Rightarrow> t\<lparr>tj_summary := td_title d, tj_digest := Some d\<rparr>
                | None \<Rightarrow> t)
      in case tsc_scan scans of Some s \<Rightarrow> t1\<lparr>tj_scan := Some s\<rparr> | None \<Rightarrow> t1)"

text \<open>
  \<open>HashMap::remove\<close> hands each stored message scan to the first detail with its event id.
\<close>

fun attach_event_scans ::
  "event_detail list \<Rightarrow> (string \<rightharpoonup> event_scan_result) \<Rightarrow> event_detail list" where
  "attach_event_scans [] scans = []"
| "attach_event_scans (d # ds) scans =
     (case scans (ev_event_id (ed_event d)) of
        Some s \<Rightarrow> d\<lparr>ed_summary := Some s\<rparr>
          # attach_event_scans ds (scans(ev_event_id (ed_event d) := None))
      | None \<Rightarrow> d # attach_event_scans ds scans)"

text \<open>A run read at either grain: no events is no run.\<close>

definition rollup :: "(string \<Rightarrow> event list \<Rightarrow> trajectory) \<Rightarrow> string \<Rightarrow> event list \<Rightarrow> trajectory option"
  where
  "rollup grain tid events = (if events = [] then None else Some (grain tid events))"

section \<open>Agents\<close>

datatype agent_status = AsUnspecified | AsHealthy | AsDegraded | AsOffline

record agent_stats =
  as_total :: i32
  as_healthy :: i32
  as_degraded :: i32
  as_offline :: i32

definition tally_step :: "agent_stats \<Rightarrow> agent_status \<Rightarrow> agent_stats" where
  "tally_step s st =
     (case st of
        AsHealthy \<Rightarrow> s\<lparr>as_healthy := as_healthy s + 1\<rparr>
      | AsDegraded \<Rightarrow> s\<lparr>as_degraded := as_degraded s + 1\<rparr>
      | AsOffline \<Rightarrow> s\<lparr>as_offline := as_offline s + 1\<rparr>
      | AsUnspecified \<Rightarrow> s)"

definition tally :: "agent_status list \<Rightarrow> agent_stats" where
  "tally agents = foldl tally_step
     \<lparr>as_total = of_nat (length agents), as_healthy = 0, as_degraded = 0, as_offline = 0\<rparr> agents"

record agent_filter =
  af_agent_id :: "string option"
  af_provider :: "string option"
  af_platform :: "string option"

definition narrows :: "string option \<Rightarrow> string \<Rightarrow> bool" where
  "narrows clause v = (case clause of None \<Rightarrow> False | Some wanted \<Rightarrow> wanted \<noteq> v)"

definition agent_matches :: "agent_filter \<Rightarrow> agent \<Rightarrow> bool" where
  "agent_matches f a \<longleftrightarrow>
     \<not> narrows (af_agent_id f) (ag_id a) \<and> \<not> narrows (af_provider f) (ag_provider a)
     \<and> \<not> narrows (af_platform f) (ag_platform a)"

section \<open>What the rollup means\<close>

text \<open>Appending one event to a run, the way the ledger grows.\<close>

lemma run_status_snoc:
  "run_status (es @ [e]) = unwrap_or (lifecycle_of (ev_event e)) (run_status es)"
  by (simp add: run_status_def unwrap_or_def split: option.splits)

lemma run_adjudications_append [simp]:
  "run_adjudications (xs @ ys) = run_adjudications xs @ run_adjudications ys"
  by (simp add: run_adjudications_def List.map_filter_def)

lemma lifecycle_of_folded: "is_folded_event e \<Longrightarrow> lifecycle_of e = None"
  by (cases e rule: is_folded_event.cases) auto

lemma run_status_ignores_governance:
  "run_status (filter (\<lambda>e. \<not> is_folded_control e) es) = run_status es"
  by (induction es rule: rev_induct)
    (auto simp: run_status_snoc is_folded_control_def lifecycle_of_folded
      unwrap_or_def run_status_def [of "[]"])

lemma run_decision_iff:
  "run_decision es = Some d \<longleftrightarrow>
     d \<in> set (map adj_decision (run_adjudications es))
     \<and> (\<forall>x \<in> set (map adj_decision (run_adjudications es)). x \<le> d)"
  unfolding run_decision_def less_eq_decision_def by (rule decision_rank.max_by_key_iff)

lemma run_decision_set_cong:
  "adj_decision ` set (run_adjudications es) = adj_decision ` set (run_adjudications fs)
   \<Longrightarrow> run_decision es = run_decision fs"
  unfolding run_decision_def by (rule decision_rank.max_by_key_set_cong) simp

lemma decision_le_Deny [simp]: "(d::decision) \<le> Deny"
  by (cases d) (simp_all add: less_eq_decision_def)

lemma Allow_le_decision [simp]: "Allow \<le> (d::decision)"
  by (cases d) (simp_all add: less_eq_decision_def)

lemma run_decision_Deny:
  "run_decision es = Some Deny \<longleftrightarrow> Deny \<in> adj_decision ` set (run_adjudications es)"
  by (auto simp: run_decision_iff)

lemma fold_step_last_adjudicated:
  "fst (foldl fold_step m es) k =
     (case find_map (\<lambda>e. if cs_causation_id (ev_causality e) = Some k
              then adjudication_of (ev_event e) else None) (rev es) of
        Some a \<Rightarrow> Some a | None \<Rightarrow> fst m k)"
proof (induction es rule: rev_induct)
  case Nil
  then show ?case by simp
next
  case (snoc e es)
  have "fst (fold_step n e) k =
      (case (if cs_causation_id (ev_causality e) = Some k
             then adjudication_of (ev_event e) else None) of Some a \<Rightarrow> Some a | None \<Rightarrow> fst n k)" for n
    by (cases "ev_event e" rule: adjudication_of.cases)
      (auto simp: fold_step_def split: option.splits)
  with snoc show ?case by (auto split: option.splits)
qed

lemma fold_details_events:
  "map ed_event (fold_event_details es) = filter (\<lambda>e. \<not> is_folded_control e) es"
  by (simp add: fold_event_details_def Let_def comp_def)

lemma fold_details_adjudication:
  assumes "d \<in> set (fold_event_details es)"
  shows "ed_adjudication d = find_map (\<lambda>e. if cs_causation_id (ev_causality e)
      = Some (ev_event_id (ed_event d)) then adjudication_of (ev_event e) else None) (rev es)"
  using assms
  by (auto simp: fold_event_details_def Let_def fold_maps_of_def fold_step_last_adjudicated
      split: option.splits)

lemma policy_hits_step_distinct: "distinct hits \<Longrightarrow> distinct (policy_hits_step hits e)"
  by (auto simp: policy_hits_step_def split: option.splits)

lemma run_policy_hits_distinct: "distinct (run_policy_hits es)"
  unfolding run_policy_hits_def
  by (induction es rule: rev_induct) (simp_all add: policy_hits_step_distinct)

lemma policy_hits_step_set:
  "set (policy_hits_step hits e) = set hits \<union>
     {h. \<exists>a. adjudication_of (ev_event e) = Some a \<and> adj_decision a \<noteq> Allow
           \<and> adjudication_policy_hit a = Some h}"
  by (auto simp: policy_hits_step_def split: option.splits)

lemma run_adjudications_mem:
  "a \<in> set (run_adjudications es) \<longleftrightarrow> (\<exists>e\<in>set es. adjudication_of (ev_event e) = Some a)"
  by (force simp: run_adjudications_def List.map_filter_def)

lemma run_policy_hits_set:
  "set (run_policy_hits es) =
     {h. \<exists>a \<in> set (run_adjudications es). adj_decision a \<noteq> Allow
           \<and> adjudication_policy_hit a = Some h}"
  unfolding run_policy_hits_def
proof (induction es rule: rev_induct)
  case Nil
  then show ?case by (simp add: run_adjudications_def List.map_filter_def)
next
  case (snoc e es)
  then show ?case by (auto simp: policy_hits_step_set run_adjudications_mem)
qed

lemma page_windows_cover:
  "pg_items (page_slice xs off n) @ pg_items (page_slice xs (off + n) m)
     = pg_items (page_slice xs off (n + m))"
  by (simp add: page_slice_def take_add drop_drop add.commute [of off n])

lemma tally_counts:
  fixes c :: "agent_status \<Rightarrow> agent_status list \<Rightarrow> nat"
  defines "c s xs \<equiv> length (filter (\<lambda>x. x = s) xs)"
  shows "foldl tally_step t xs = t\<lparr>as_healthy := as_healthy t + of_nat (c AsHealthy xs),
      as_degraded := as_degraded t + of_nat (c AsDegraded xs),
      as_offline := as_offline t + of_nat (c AsOffline xs)\<rparr>"
  unfolding c_def
  by (induction xs arbitrary: t) (auto simp: tally_step_def algebra_simps split: agent_status.splits)

end
