(* ===== verification/Label.thy ===== *)
theory Label
  imports Rust_Text Ranked
begin

text \<open>
  The information-flow-control guardrail (\<open>crates/guardrails/ifc\<close>): sensitivity labels,
  label templates and their rendering, and the classification of content by a model. The
  model provider is a parameter: \<open>dm_extract\<close> answers a system and a user prompt within a
  number of seconds, with an error text, a structured result, or nothing in time.
\<close>

section \<open>Labels\<close>

datatype label = Public | Internal | Confidential | HighlyConfidential

definition label_default :: label where "label_default = Public"

fun display_name :: "label \<Rightarrow> string" where
  "display_name Public = ''Public''"
| "display_name Internal = ''Internal''"
| "display_name Confidential = ''Confidential''"
| "display_name HighlyConfidential = ''Highly Confidential''"

fun serde_name :: "label \<Rightarrow> string" where
  "serde_name Public = ''Public''"
| "serde_name Internal = ''Internal''"
| "serde_name Confidential = ''Confidential''"
| "serde_name HighlyConfidential = ''HighlyConfidential''"

fun level :: "label \<Rightarrow> u8" where
  "level Public = 0"
| "level Internal = 1"
| "level Confidential = 2"
| "level HighlyConfidential = 3"

text \<open>The derived \<open>Display\<close> and \<open>FromStr\<close> use the variant names.\<close>

fun label_to_string :: "label \<Rightarrow> string" where
  "label_to_string Public = ''Public''"
| "label_to_string Internal = ''Internal''"
| "label_to_string Confidential = ''Confidential''"
| "label_to_string HighlyConfidential = ''HighlyConfidential''"

definition label_from_str :: "string \<Rightarrow> label option" where
  "label_from_str s =
     (if s = ''Public'' then Some Public
      else if s = ''Internal'' then Some Internal
      else if s = ''Confidential'' then Some Confidential
      else if s = ''HighlyConfidential'' then Some HighlyConfidential
      else None)"

lemma label_round_trip [simp]: "label_from_str (label_to_string l) = Some l"
  by (cases l) (simp_all add: label_from_str_def)

lemma level_inj: "level a = level b \<Longrightarrow> a = b"
  by (cases a; cases b) simp_all

interpretation label_rank: ranked level
  by unfold_locales (rule level_inj)

instantiation label :: linorder
begin

definition less_eq_label :: "label \<Rightarrow> label \<Rightarrow> bool" where
  "less_eq_label a b \<longleftrightarrow> level a \<le> level b"

definition less_label :: "label \<Rightarrow> label \<Rightarrow> bool" where
  "less_label a b \<longleftrightarrow> level a < level b"

instance
  by standard (auto simp: less_eq_label_def less_label_def dest: level_inj)

end

lemma Public_least [simp]: "Public \<le> l"
  by (cases l) (simp_all add: less_eq_label_def)

lemma HighlyConfidential_greatest [simp]: "l \<le> HighlyConfidential"
  by (cases l) (simp_all add: less_eq_label_def)

lemma raise_label_max: "raise_by level a b = max a b"
  by (auto simp: raise_by_def max_def less_eq_label_def intro: level_inj)

section \<open>Templates\<close>

record label_category =
  lc_label :: label
  lc_definition :: string

record label_example =
  le_content :: string
  le_sensitive :: bool
  le_label :: label

record label_template =
  lt_name :: string
  lt_description :: string
  lt_instructions :: string
  lt_categories :: "label_category list"
  lt_examples :: "label_example list"

definition label_template_new :: "string \<Rightarrow> label_template" where
  "label_template_new n =
     \<lparr>lt_name = n, lt_description = [], lt_instructions = [], lt_categories = [],
      lt_examples = []\<rparr>"

definition lt_with_description :: "label_template \<Rightarrow> string \<Rightarrow> label_template" where
  "lt_with_description t d = t\<lparr>lt_description := d\<rparr>"

definition lt_with_instructions :: "label_template \<Rightarrow> string \<Rightarrow> label_template" where
  "lt_with_instructions t d = t\<lparr>lt_instructions := d\<rparr>"

definition lt_category :: "label_template \<Rightarrow> label \<Rightarrow> string \<Rightarrow> label_template" where
  "lt_category t l d =
     t\<lparr>lt_categories := lt_categories t @ [\<lparr>lc_label = l, lc_definition = d\<rparr>]\<rparr>"

definition lt_example :: "label_template \<Rightarrow> string \<Rightarrow> bool \<Rightarrow> label \<Rightarrow> label_template" where
  "lt_example t c s l =
     t\<lparr>lt_examples := lt_examples t @ [\<lparr>le_content = c, le_sensitive = s, le_label = l\<rparr>]\<rparr>"

definition category_definition :: "label_template \<Rightarrow> label \<Rightarrow> string option" where
  "category_definition t l =
     map_option lc_definition (find (\<lambda>c. lc_label c = l) (lt_categories t))"

abbreviation nl :: string where "nl \<equiv> [CHR 0x0A]"

definition lt_default_instructions :: string where
  \<open>lt_default_instructions =
     ''Evaluate the following content for data sensitivity.'' @ nl
     @ ''If the content is sensitive, return:'' @ nl
     @ ''{"sensitive": 1, "sensitivity_category": "<label>"}'' @ nl
     @ ''If the content is public/non-sensitive, return:'' @ nl
     @ ''{"sensitive": 0, "sensitivity_category": "Public"}'' @ nl\<close>

definition lt_render :: "label_template \<Rightarrow> string" where
  \<open>lt_render t =
     ''# '' @ lt_name t @ nl
     @ (if lt_description t = [] then [] else nl @ lt_description t @ nl)
     @ nl @ ''## INSTRUCTIONS'' @ nl
     @ (if lt_instructions t = [] then lt_default_instructions else lt_instructions t @ nl)
     @ (if lt_categories t = [] then []
        else nl @ ''## CATEGORIES'' @ nl
          @ concat (map (\<lambda>c. ''- '' @ serde_name (lc_label c) @ '' ('' @ display_name (lc_label c)
                @ ''): '' @ lc_definition c @ nl) (lt_categories t)))
     @ (if lt_examples t = [] then []
        else nl @ ''## EXAMPLES'' @ nl
          @ concat (map (\<lambda>e. ''Content: '' @ le_content e @ nl
                @ ''Answer: {"sensitive": '' @ (if le_sensitive e then ''1'' else ''0'')
                @ '', "sensitivity_category": "'' @ serde_name (le_label e) @ ''"}'' @ nl @ nl)
              (lt_examples t)))\<close>

definition lt_render_user_message :: "string \<Rightarrow> string" where
  "lt_render_user_message content = ''Content: '' @ content @ nl @ ''Answer:''"

section \<open>Classification results\<close>

record sensitivity_model_result =
  smr_sensitive :: u8
  smr_category :: label

record sensitivity_finding =
  sf_label :: label
  sf_description :: string

record sensitivity_classification =
  sc_is_public :: bool
  sc_findings :: "sensitivity_finding list"

definition sensitivity_classification_default :: sensitivity_classification where
  "sensitivity_classification_default = \<lparr>sc_is_public = True, sc_findings = []\<rparr>"

definition is_sensitive :: "sensitivity_classification \<Rightarrow> bool" where
  "is_sensitive c \<longleftrightarrow> \<not> sc_is_public c"

definition findings_by_label ::
  "sensitivity_classification \<Rightarrow> label \<Rightarrow> sensitivity_finding list" where
  "findings_by_label c l = filter (\<lambda>f. sf_label f = l) (sc_findings c)"

definition max_label :: "sensitivity_classification \<Rightarrow> label" where
  "max_label c = unwrap_or (max_by_key level (map sf_label (sc_findings c))) Public"

text \<open>The maximum is an upper bound that is attained, whatever the order of the findings.\<close>

lemma max_label_ge: "f \<in> set (sc_findings c) \<Longrightarrow> sf_label f \<le> max_label c"
proof -
  assume f: "f \<in> set (sc_findings c)"
  then obtain y where y: "max_by_key level (map sf_label (sc_findings c)) = Some y"
    by (cases "max_by_key level (map sf_label (sc_findings c))") auto
  then have "level (sf_label f) \<le> level y" using f by (intro max_by_key_ge) auto
  then show ?thesis using y by (simp add: max_label_def less_eq_label_def)
qed

lemma max_label_attained:
  "max_label c = Public \<or> (\<exists>f\<in>set (sc_findings c). sf_label f = max_label c)"
proof (cases "max_by_key level (map sf_label (sc_findings c))")
  case None
  then show ?thesis by (simp add: max_label_def)
next
  case (Some y)
  then have "y \<in> sf_label ` set (sc_findings c)" using max_by_key_mem by force
  then show ?thesis using Some by (auto simp: max_label_def)
qed

section \<open>The data model\<close>

datatype data_classification_error =
    DcClientBuild string
  | DcInference string
  | DcNoLabels
  | DcIoError string
  | DcTomlError string

record data_model =
  dm_labels :: "label_template list"
  dm_extract :: "nat \<Rightarrow> string \<Rightarrow> string \<Rightarrow> (string + sensitivity_model_result) option"

definition classify_single ::
  "data_model \<Rightarrow> label_template \<Rightarrow> string \<Rightarrow> nat
     \<Rightarrow> data_classification_error + sensitivity_model_result" where
  "classify_single m t content secs =
     (case dm_extract m secs (lt_render t) (lt_render_user_message content) of
        None \<Rightarrow> Inl (DcInference (''Classification timeout after '' @ nat_to_string secs @ ''s''))
      | Some (Inl e) \<Rightarrow> Inl (DcInference e)
      | Some (Inr r) \<Rightarrow> Inr r)"

definition sensitivity_finding_of ::
  "label_template \<Rightarrow> sensitivity_model_result \<Rightarrow> sensitivity_finding" where
  "sensitivity_finding_of t r =
     \<lparr>sf_label = smr_category r,
      sf_description = unwrap_or (category_definition t (smr_category r))
        (display_name (smr_category r))\<rparr>"

fun classify_loop ::
  "data_model \<Rightarrow> string \<Rightarrow> label_template list \<Rightarrow> sensitivity_finding list
     \<Rightarrow> data_classification_error + sensitivity_finding list" where
  "classify_loop m content [] acc = Inr acc"
| "classify_loop m content (t # ts) acc =
     bind_result (classify_single m t content 30) (\<lambda>r.
       classify_loop m content ts
         (if smr_sensitive r = 1 then acc @ [sensitivity_finding_of t r] else acc))"

definition dm_classify ::
  "data_model \<Rightarrow> string \<Rightarrow> data_classification_error + sensitivity_classification" where
  "dm_classify m content =
     (if dm_labels m = [] then Inl DcNoLabels
      else bind_result (classify_loop m content (dm_labels m) []) (\<lambda>fs.
        Inr \<lparr>sc_is_public = (fs = []), sc_findings = fs\<rparr>))"

definition dm_health_check :: "data_model \<Rightarrow> data_classification_error + unit" where
  "dm_health_check m =
     (case dm_labels m of
        t # _ \<Rightarrow> bind_result (classify_single m t ''health check'' 5) (\<lambda>_. Inr ())
      | [] \<Rightarrow> Inl DcNoLabels)"

lemma classify_loop_Inr:
  "classify_loop m content ts acc = Inr fs \<Longrightarrow>
     (\<forall>t\<in>set ts. \<exists>r. classify_single m t content 30 = Inr r) \<and>
     set fs = set acc \<union> {sensitivity_finding_of t r |t r.
        t \<in> set ts \<and> classify_single m t content 30 = Inr r \<and> smr_sensitive r = 1}"
proof (induction ts arbitrary: acc)
  case Nil
  then show ?case by simp
next
  case (Cons t ts)
  then obtain r where r: "classify_single m t content 30 = Inr r"
    and rest: "classify_loop m content ts
      (if smr_sensitive r = 1 then acc @ [sensitivity_finding_of t r] else acc) = Inr fs"
    by (auto simp: bind_result_Inr_iff)
  show ?case using Cons.IH [OF rest] r by (auto split: if_splits)
qed

text \<open>
  What a successful classification reports: its label bounds every sensitive answer from
  above, and it is public exactly when no template was judged sensitive.
\<close>

lemma dm_classify_Inr:
  assumes "dm_classify m content = Inr c"
  shows "set (sc_findings c) = {sensitivity_finding_of t r |t r.
      t \<in> set (dm_labels m) \<and> classify_single m t content 30 = Inr r \<and> smr_sensitive r = 1}"
    and "sc_is_public c \<longleftrightarrow> sc_findings c = []"
proof -
  obtain fs where fs: "classify_loop m content (dm_labels m) [] = Inr fs"
    and c: "c = \<lparr>sc_is_public = (fs = []), sc_findings = fs\<rparr>"
    using assms by (auto simp: dm_classify_def bind_result_Inr_iff split: if_splits)
  show "set (sc_findings c) = {sensitivity_finding_of t r |t r.
      t \<in> set (dm_labels m) \<and> classify_single m t content 30 = Inr r \<and> smr_sensitive r = 1}"
    using classify_loop_Inr [OF fs] by (simp add: c)
  show "sc_is_public c \<longleftrightarrow> sc_findings c = []" by (simp add: c)
qed

lemma dm_classify_label_ge:
  assumes "dm_classify m content = Inr c" "t \<in> set (dm_labels m)"
    "classify_single m t content 30 = Inr r" "smr_sensitive r = 1"
  shows "smr_category r \<le> max_label c"
proof -
  have "sensitivity_finding_of t r \<in> set (sc_findings c)"
    using dm_classify_Inr(1) [OF assms(1)] assms(2-4) by blast
  from max_label_ge [OF this] show ?thesis by (simp add: sensitivity_finding_of_def)
qed

end
