(* ===== verification/Entity_Store.thy ===== *)
theory Entity_Store
  imports Event Label
begin

text \<open>
  Cedar entities (\<open>crates/policy/cedar/src/entity.rs\<close>) and the store they live in
  (\<open>crates/types/src/entity.rs\<close>, \<open>crates/storage/src/turso/entity.rs\<close>), together with the two
  event ledgers of \<open>crates/storage\<close>, which the same operations write.

  What Cedar itself decides is in the record \<open>cedar\<close>: whether a type name parses, whether an
  entity, a context or a request is accepted, how a uid is written as JSON, and the answer of
  the authorizer. Rows are keyed by the uid itself: \<open>uid.to_string()\<close> is Cedar's escaped text,
  one per uid. Every access to the database or a file is one numbered operation that an oracle
  may make fail; an operation that fails changes nothing.
\<close>

section \<open>Values, uids, entities\<close>

record euid =
  eu_type :: string
  eu_id :: string

datatype cedar_value =
    CvBool bool
  | CvLong i64
  | CvString string
  | CvSet "cedar_value list"
  | CvRecord "(string \<times> cedar_value) list"
  | CvEntity euid

record entity =
  en_uid :: euid
  en_attrs :: "string \<rightharpoonup> cedar_value"
  en_parents :: "euid set"

datatype cedar_decision = CedarAllow | CedarDeny

record cedar_response =
  cr_decision :: cedar_decision
  cr_reason :: "string list"
  cr_errors :: "string list"

record cedar_request =
  rq_principal :: euid
  rq_action :: euid
  rq_resource :: euid
  rq_context :: json

record cedar =
  cd_type_name_ok :: "string \<Rightarrow> bool"
  cd_record_error :: "(string \<times> cedar_value) list \<Rightarrow> string option"
  cd_entity_error :: "entity \<Rightarrow> string option"
  cd_parse_expr :: "string \<Rightarrow> string + cedar_value"
  cd_uid_json :: "euid \<Rightarrow> json"
  cd_context_error :: "json \<Rightarrow> string option"
  cd_request_error :: "cedar_request \<Rightarrow> string option"
  cd_authorize :: "cedar_request \<Rightarrow> (euid \<rightharpoonup> entity) \<Rightarrow> cedar_response"
  cd_annotations :: "string \<Rightarrow> (string \<times> string) list option"

definition SCHEMA_NAMESPACE :: string where "SCHEMA_NAMESPACE = ''Sondera''"

definition quid :: "string \<Rightarrow> string \<Rightarrow> euid" where
  "quid type_name i = \<lparr>eu_type = SCHEMA_NAMESPACE @ ''::'' @ type_name, eu_id = i\<rparr>"

definition euid :: "cedar \<Rightarrow> string \<Rightarrow> string \<Rightarrow> string + euid" where
  "euid C type_name i =
     (if cd_type_name_ok C (SCHEMA_NAMESPACE @ ''::'' @ type_name) then Inr (quid type_name i)
      else Inl (''Invalid entity type: '' @ type_name))"

lemma euid_Inr [simp]: "euid C t i = Inr u \<longleftrightarrow> cd_type_name_ok C (SCHEMA_NAMESPACE @ ''::'' @ t) \<and> u = quid t i"
  by (auto simp: euid_def)

lemma quid_inj [simp]: "quid t i = quid t' i' \<longleftrightarrow> t = t' \<and> i = i'"
  by (auto simp: quid_def)

lemma eu_id_quid [simp]: "eu_id (quid t i) = i"
  by (simp add: quid_def)

section \<open>Expressions from JSON\<close>

definition missing_field :: "string \<Rightarrow> string" where
  "missing_field f = ''__entity missing '' @ [CHR 0x27] @ f @ [CHR 0x27] @ '' field''"

fun json_to_restricted_expr :: "cedar \<Rightarrow> json \<Rightarrow> string + cedar_value"
and json_items :: "cedar \<Rightarrow> json list \<Rightarrow> string + cedar_value list"
and json_fields :: "cedar \<Rightarrow> (string \<times> json) list \<Rightarrow> string + (string \<times> cedar_value) list" where
  "json_to_restricted_expr C (JBool b) = Inr (CvBool b)"
| "json_to_restricted_expr C (JInt n) =
     (case as_i64 (JInt n) of
        Some i \<Rightarrow> Inr (CvLong i)
      | None \<Rightarrow> Inl (''Cedar only supports integer numbers, got: '' @ int_to_string n))"
| "json_to_restricted_expr C (JFloat f) = Inl (''Cedar only supports integer numbers, got: '' @ f)"
| "json_to_restricted_expr C (JStr s) = Inr (CvString s)"
| "json_to_restricted_expr C (JArr xs) =
     bind_result (json_items C xs) (\<lambda>vs. Inr (CvSet vs))"
| "json_to_restricted_expr C (JObj kvs) =
     (case jget ''__entity'' (JObj kvs) of
        Some entity_ref \<Rightarrow>
          bind_result (ok_or (Option.bind (jget ''type'' entity_ref) as_str) (missing_field ''type''))
            (\<lambda>type_name. bind_result
              (ok_or (Option.bind (jget ''id'' entity_ref) as_str) (missing_field ''id''))
              (\<lambda>i. bind_result (euid C type_name i) (\<lambda>uid. Inr (CvEntity uid))))
      | None \<Rightarrow>
          bind_result (json_fields C kvs) (\<lambda>fields.
            case cd_record_error C fields of
              Some e \<Rightarrow> Inl (''Failed to create record expression: '' @ e)
            | None \<Rightarrow> Inr (CvRecord fields)))"
| "json_to_restricted_expr C JNull = Inl ''Cedar does not support null values''"
| "json_items C [] = Inr []"
| "json_items C (x # xs) =
     bind_result (json_to_restricted_expr C x) (\<lambda>v.
       bind_result (json_items C xs) (\<lambda>vs. Inr (v # vs)))"
| "json_fields C [] = Inr []"
| "json_fields C ((k, x) # kvs) =
     bind_result (json_to_restricted_expr C x) (\<lambda>v.
       bind_result (json_fields C kvs) (\<lambda>vs. Inr ((k, v) # vs)))"

text \<open>No null and no non-integer number anywhere is what conversion needs.\<close>

fun cedar_plain :: "json \<Rightarrow> bool" where
  "cedar_plain JNull = False"
| "cedar_plain (JFloat _) = False"
| "cedar_plain (JInt n) = (- (2 ^ 63) \<le> n \<and> n < 2 ^ 63)"
| "cedar_plain (JArr xs) = list_all cedar_plain xs"
| "cedar_plain (JObj kvs) = (map_of kvs ''__entity'' = None \<and> list_all (cedar_plain \<circ> snd) kvs)"
| "cedar_plain _ = True"

lemma json_to_restricted_expr_plain:
  "(\<And>fs. cd_record_error C fs = None) \<Longrightarrow> cedar_plain j \<Longrightarrow>
     \<exists>v. json_to_restricted_expr C j = Inr v"
  "(\<And>fs. cd_record_error C fs = None) \<Longrightarrow> list_all cedar_plain js \<Longrightarrow>
     \<exists>vs. json_items C js = Inr vs \<and> length vs = length js"
  "(\<And>fs. cd_record_error C fs = None) \<Longrightarrow> list_all (cedar_plain \<circ> snd) kvs \<Longrightarrow>
     \<exists>fs. json_fields C kvs = Inr fs \<and> map fst fs = map fst kvs"
  by (induction C j and C js and C kvs rule: json_to_restricted_expr_json_items_json_fields.induct)
    (auto simp: bind_result_Inr_iff)

section \<open>Building entities\<close>

record entity_builder =
  eb_euid :: euid
  eb_attrs :: "string \<rightharpoonup> cedar_value"
  eb_parents :: "euid set"

definition builder_new :: "euid \<Rightarrow> entity_builder" where
  "builder_new u = \<lparr>eb_euid = u, eb_attrs = Map.empty, eb_parents = {}\<rparr>"

definition from_type_and_id :: "cedar \<Rightarrow> string \<Rightarrow> string \<Rightarrow> string + entity_builder" where
  "from_type_and_id C t i = bind_result (euid C t i) (\<lambda>u. Inr (builder_new u))"

definition eb_attr :: "entity_builder \<Rightarrow> string \<Rightarrow> cedar_value \<Rightarrow> entity_builder" where
  "eb_attr b k v = b\<lparr>eb_attrs := (eb_attrs b)(k \<mapsto> v)\<rparr>"

definition eb_string :: "entity_builder \<Rightarrow> string \<Rightarrow> string \<Rightarrow> entity_builder" where
  "eb_string b k v = eb_attr b k (CvString v)"

definition eb_long :: "entity_builder \<Rightarrow> string \<Rightarrow> i64 \<Rightarrow> entity_builder" where
  "eb_long b k v = eb_attr b k (CvLong v)"

definition eb_bool :: "entity_builder \<Rightarrow> string \<Rightarrow> bool \<Rightarrow> entity_builder" where
  "eb_bool b k v = eb_attr b k (CvBool v)"

definition eb_entity_ref ::
  "cedar \<Rightarrow> entity_builder \<Rightarrow> string \<Rightarrow> string \<Rightarrow> string \<Rightarrow> string + entity_builder" where
  "eb_entity_ref C b k t i = bind_result (euid C t i) (\<lambda>u. Inr (eb_attr b k (CvEntity u)))"

definition eb_string_set :: "entity_builder \<Rightarrow> string \<Rightarrow> string list \<Rightarrow> entity_builder" where
  "eb_string_set b k vs = eb_attr b k (CvSet (map CvString vs))"

definition eb_expr :: "cedar \<Rightarrow> entity_builder \<Rightarrow> string \<Rightarrow> string \<Rightarrow> string + entity_builder" where
  "eb_expr C b k expression =
     bind_result (map_err (\<lambda>e. ''Failed to parse expression: '' @ e) (cd_parse_expr C expression))
       (\<lambda>v. Inr (eb_attr b k v))"

definition eb_json_attr :: "cedar \<Rightarrow> entity_builder \<Rightarrow> string \<Rightarrow> json \<Rightarrow> string + entity_builder" where
  "eb_json_attr C b k j = bind_result (json_to_restricted_expr C j) (\<lambda>v. Inr (eb_attr b k v))"

fun eb_json_loop :: "cedar \<Rightarrow> entity_builder \<Rightarrow> (string \<times> json) list \<Rightarrow> string + entity_builder" where
  "eb_json_loop C b [] = Inr b"
| "eb_json_loop C b ((k, j) # kvs) =
     bind_result (json_to_restricted_expr C j) (\<lambda>v. eb_json_loop C (eb_attr b k v) kvs)"

definition eb_json_attrs :: "cedar \<Rightarrow> entity_builder \<Rightarrow> json \<Rightarrow> string + entity_builder" where
  "eb_json_attrs C b j =
     bind_result (ok_or (as_object j) ''Expected JSON object for attributes'') (eb_json_loop C b)"

definition eb_parent :: "cedar \<Rightarrow> entity_builder \<Rightarrow> string \<Rightarrow> string \<Rightarrow> string + entity_builder" where
  "eb_parent C b t i =
     bind_result (euid C t i) (\<lambda>u. Inr (b\<lparr>eb_parents := insert u (eb_parents b)\<rparr>))"

definition eb_parent_uid :: "entity_builder \<Rightarrow> euid \<Rightarrow> entity_builder" where
  "eb_parent_uid b u = b\<lparr>eb_parents := insert u (eb_parents b)\<rparr>"

definition eb_build :: "cedar \<Rightarrow> entity_builder \<Rightarrow> string + entity" where
  "eb_build C b =
     (let e = \<lparr>en_uid = eb_euid b, en_attrs = eb_attrs b, en_parents = eb_parents b\<rparr>
      in case cd_entity_error C e of
           Some err \<Rightarrow> Inl (''Failed to build entity: '' @ err)
         | None \<Rightarrow> Inr e)"

section \<open>Trajectory entities\<close>

record traj =
  tr_trajectory_id :: string
  tr_step_count :: i64
  tr_label :: label

definition traj_new :: "string \<Rightarrow> traj" where
  "traj_new i = \<lparr>tr_trajectory_id = i, tr_step_count = 0, tr_label = label_default\<rparr>"

definition traj_into_entity :: "cedar \<Rightarrow> traj \<Rightarrow> string + entity" where
  "traj_into_entity C t =
     bind_result (from_type_and_id C ''Trajectory'' (tr_trajectory_id t)) (\<lambda>b.
       bind_result (eb_entity_ref C (eb_long b ''step_count'' (tr_step_count t)) ''label'' ''Label''
           (label_to_string (tr_label t))) (eb_build C))"

definition traj_from_entity :: "entity \<Rightarrow> traj" where
  "traj_from_entity e =
     \<lparr>tr_trajectory_id = eu_id (en_uid e),
      tr_step_count = (case en_attrs e ''step_count'' of Some (CvLong n) \<Rightarrow> n | _ \<Rightarrow> 0),
      tr_label = (case en_attrs e ''label'' of
          Some (CvEntity u) \<Rightarrow> unwrap_or (label_from_str (eu_id u)) label_default
        | Some (CvString s) \<Rightarrow> unwrap_or (label_from_str s) label_default
        | _ \<Rightarrow> label_default)\<rparr>"

lemma traj_round_trip: "traj_into_entity C t = Inr e \<Longrightarrow> traj_from_entity e = t"
  by (auto simp: traj_into_entity_def bind_result_Inr_iff from_type_and_id_def eb_entity_ref_def
      eb_build_def Let_def builder_new_def eb_long_def eb_attr_def traj_from_entity_def quid_def
      split: option.splits)

lemma traj_into_entity_uid:
  "traj_into_entity C t = Inr e \<Longrightarrow> en_uid e = quid ''Trajectory'' (tr_trajectory_id t)"
  by (auto simp: traj_into_entity_def bind_result_Inr_iff from_type_and_id_def eb_entity_ref_def
      eb_build_def Let_def builder_new_def eb_long_def eb_attr_def split: option.splits)

section \<open>The store\<close>

text \<open>
  \<open>w_files\<close> are the JSONL ledgers by trajectory id, \<open>w_db\<close> the rows of the event table in
  insertion order, \<open>w_agents\<close> the identities of the agent registry.
\<close>

record world =
  w_entities :: "euid \<rightharpoonup> entity"
  w_db :: "event list"
  w_files :: "string \<Rightarrow> event list"
  w_agents :: "string \<rightharpoonup> agent"
  w_ops :: nat

type_synonym faults = "nat \<Rightarrow> string option"
type_synonym 'a io = "world \<Rightarrow> (string + 'a) \<times> world"

definition io_return :: "'a \<Rightarrow> 'a io" where "io_return a w = (Inr a, w)"

definition io_bind :: "'a io \<Rightarrow> ('a \<Rightarrow> 'b io) \<Rightarrow> 'b io" where
  "io_bind m f w = (case m w of (Inl e, w') \<Rightarrow> (Inl e, w') | (Inr a, w') \<Rightarrow> f a w')"

text \<open>A computation that touches nothing.\<close>

definition io_lift :: "string + 'a \<Rightarrow> 'a io" where "io_lift r w = (r, w)"

text \<open>One access: it happens whole, or fails and leaves the data as it was.\<close>

definition io_op :: "faults \<Rightarrow> (world \<Rightarrow> 'a \<times> world) \<Rightarrow> 'a io" where
  "io_op F f w =
     (let w1 = w\<lparr>w_ops := Suc (w_ops w)\<rparr>
      in case F (w_ops w) of
           Some e \<Rightarrow> (Inl e, w1)
         | None \<Rightarrow> (case f w1 of (a, w2) \<Rightarrow> (Inr a, w2)))"

lemma io_simps [simp]:
  "io_return a w = (Inr a, w)" "io_lift r w = (r, w)"
  by (simp_all add: io_return_def io_lift_def)

lemma io_bind_Inr:
  "io_bind m f w = (Inr b, w'') \<longleftrightarrow> (\<exists>a w'. m w = (Inr a, w') \<and> f a w' = (Inr b, w''))"
  by (auto simp: io_bind_def split: prod.splits sum.splits)

lemma io_bind_Inl:
  "io_bind m f w = (Inl e, w'') \<longleftrightarrow>
     m w = (Inl e, w'') \<or> (\<exists>a w'. m w = (Inr a, w') \<and> f a w' = (Inl e, w''))"
  by (auto simp: io_bind_def split: prod.splits sum.splits)

lemma io_bind_return: "m w = (Inr a, w') \<Longrightarrow> io_bind m f w = f a w'"
  by (simp add: io_bind_def)

lemma io_op_cases:
  "io_op F f w = (r, w') \<longleftrightarrow>
     (\<exists>e. F (w_ops w) = Some e \<and> r = Inl e \<and> w' = w\<lparr>w_ops := Suc (w_ops w)\<rparr>)
     \<or> (F (w_ops w) = None
        \<and> (\<exists>a. f (w\<lparr>w_ops := Suc (w_ops w)\<rparr>) = (a, w') \<and> r = Inr a))"
  by (auto simp: io_op_def Let_def split: option.splits prod.splits)

definition upsert :: "faults \<Rightarrow> entity \<Rightarrow> unit io" where
  "upsert F e = io_op F (\<lambda>w. ((), w\<lparr>w_entities := (w_entities w)(en_uid e \<mapsto> e)\<rparr>))"

definition get_entity :: "faults \<Rightarrow> euid \<Rightarrow> entity option io" where
  "get_entity F uid = io_op F (\<lambda>w. (w_entities w uid, w))"

definition delete_entity :: "faults \<Rightarrow> euid \<Rightarrow> unit io" where
  "delete_entity F uid = io_op F (\<lambda>w. ((), w\<lparr>w_entities := (w_entities w)(uid := None)\<rparr>))"

definition entities :: "faults \<Rightarrow> (euid \<rightharpoonup> entity) io" where
  "entities F = io_op F (\<lambda>w. (w_entities w, w))"

text \<open>
  Read-modify-write over any store's \<open>get\<close> and \<open>upsert\<close>; the lock the source takes makes it
  one step among the adjudications of a process.
\<close>

definition update_entity_with ::
  "(euid \<Rightarrow> entity option io) \<Rightarrow> (entity \<Rightarrow> unit io) \<Rightarrow> euid
     \<Rightarrow> (entity option \<Rightarrow> string + entity option) \<Rightarrow> unit io" where
  "update_entity_with get put uid f =
     io_bind (get uid) (\<lambda>existing.
       io_bind (io_lift (f existing)) (\<lambda>updated.
         case updated of Some e \<Rightarrow> put e | None \<Rightarrow> io_return ()))"

definition update_entity ::
  "faults \<Rightarrow> euid \<Rightarrow> (entity option \<Rightarrow> string + entity option) \<Rightarrow> unit io" where
  "update_entity F = update_entity_with (get_entity F) (upsert F)"

text \<open>The contract of an entity store, and what a read-modify-write does on any such store.\<close>

locale entity_store =
  fixes view :: "world \<Rightarrow> euid \<rightharpoonup> entity"
    and get :: "euid \<Rightarrow> entity option io"
    and put :: "entity \<Rightarrow> unit io"
    and remove :: "euid \<Rightarrow> unit io"
  assumes get_Inr: "get u w = (Inr x, w') \<Longrightarrow> x = view w u \<and> view w' = view w"
    and get_Inl: "get u w = (Inl err, w') \<Longrightarrow> view w' = view w"
    and put_Inr: "put e w = (Inr r, w') \<Longrightarrow> view w' = (view w)(en_uid e \<mapsto> e)"
    and put_Inl: "put e w = (Inl err, w') \<Longrightarrow> view w' = view w"
    and remove_Inr: "remove u w = (Inr r, w') \<Longrightarrow> view w' = (view w)(u := None)"
    and remove_Inl: "remove u w = (Inl err, w') \<Longrightarrow> view w' = view w"
begin

lemma get_after_put:
  "put e w = (Inr r, w') \<Longrightarrow> get u w' = (Inr x, w'') \<Longrightarrow>
   x = (if u = en_uid e then Some e else view w u)"
  using get_Inr put_Inr by fastforce

lemma get_after_remove: "remove u w = (Inr r, w') \<Longrightarrow> get u w' = (Inr x, w'') \<Longrightarrow> x = None"
  using get_Inr remove_Inr by fastforce

lemma update_Inr:
  assumes "update_entity_with get put u f w = (Inr r, w')"
  shows "\<exists>new. f (view w u) = Inr new \<and>
    view w' = (case new of Some e \<Rightarrow> (view w)(en_uid e \<mapsto> e) | None \<Rightarrow> view w)"
proof -
  obtain x w1 where g: "get u w = (Inr x, w1)"
    and rest: "io_bind (io_lift (f x)) (\<lambda>updated.
         case updated of Some e \<Rightarrow> put e | None \<Rightarrow> io_return ()) w1 = (Inr r, w')"
    using assms by (auto simp: update_entity_with_def io_bind_Inr)
  obtain new where n: "f x = Inr new"
    and p: "(case new of Some e \<Rightarrow> put e | None \<Rightarrow> io_return ()) w1 = (Inr r, w')"
    using rest by (auto simp: io_bind_Inr)
  show ?thesis using get_Inr [OF g] n p put_Inr by (cases new) auto
qed

lemma update_Inl:
  assumes "update_entity_with get put u f w = (Inl e, w')"
  shows "view w' = view w"
  using assms
  by (auto simp: update_entity_with_def io_bind_Inl split: option.splits)
    (metis get_Inl get_Inr put_Inl)+

end

interpretation turso: entity_store w_entities "get_entity F" "upsert F" "delete_entity F" for F
  by unfold_locales
    (auto simp: get_entity_def upsert_def delete_entity_def io_op_cases)

section \<open>The event ledgers\<close>

definition register_agent :: "faults \<Rightarrow> agent \<Rightarrow> unit io" where
  "register_agent F a = io_op F (\<lambda>w. ((), w\<lparr>w_agents := (w_agents w)(ag_id a \<mapsto> a)\<rparr>))"

text \<open>
  \<open>event_id\<close> is a \<open>UNIQUE\<close> column of the table of events: a row whose id is there already is
  refused, and the statement leaves the table as it was. The agent is registered before.
\<close>

definition event_ids :: "event list \<Rightarrow> string set" where
  "event_ids rows = ev_event_id ` set rows"

lemma event_ids_simps [simp]:
  "event_ids [] = {}" "event_ids (xs @ ys) = event_ids xs \<union> event_ids ys"
  "event_ids (e # xs) = insert (ev_event_id e) (event_ids xs)"
  by (auto simp: event_ids_def)

definition insert_row :: "event \<Rightarrow> world \<Rightarrow> (string + unit) \<times> world" where
  "insert_row e w =
     (if ev_event_id e \<in> event_ids (w_db w) then (Inl ''Failed to insert event'', w)
      else (Inr (), w\<lparr>w_db := w_db w @ [e]\<rparr>))"

definition insert_event :: "faults \<Rightarrow> event \<Rightarrow> unit io" where
  "insert_event F e =
     io_bind (register_agent F (ev_agent e)) (\<lambda>_.
     io_bind (io_op F (insert_row e)) io_lift)"

lemma insert_event_cases:
  "insert_event F e w = (r, w') \<Longrightarrow>
     (w_entities w' = w_entities w \<and> w_files w' = w_files w)
     \<and> ((\<exists>err. r = Inl err) \<and> w_db w' = w_db w
        \<or> r = Inr () \<and> ev_event_id e \<notin> event_ids (w_db w) \<and> w_db w' = w_db w @ [e])"
  by (auto simp: insert_event_def insert_row_def register_agent_def io_bind_def io_op_def Let_def
      split: prod.splits sum.splits option.splits if_splits)

definition write_trajectory_event :: "faults \<Rightarrow> event \<Rightarrow> unit io" where
  "write_trajectory_event F e =
     io_op F (\<lambda>w. ((), w\<lparr>w_files := (w_files w)(ev_trajectory_id e :=
       w_files w (ev_trajectory_id e) @ [e])\<rparr>))"

text \<open>What is left of the world when its operation counter is put aside.\<close>

definition ledgers :: "world \<Rightarrow> event list \<times> (string \<Rightarrow> event list)" where
  "ledgers w = (w_db w, w_files w)"

lemma entity_ops_ledgers:
  "upsert F e w = (r, w') \<Longrightarrow> ledgers w' = ledgers w"
  "get_entity F u w = (r', w') \<Longrightarrow> ledgers w' = ledgers w"
  "delete_entity F u w = (r, w') \<Longrightarrow> ledgers w' = ledgers w"
  "entities F w = (r'', w') \<Longrightarrow> ledgers w' = ledgers w"
  by (auto simp: upsert_def get_entity_def delete_entity_def entities_def io_op_cases ledgers_def)

lemma update_entity_ledgers: "update_entity F u f w = (r, w') \<Longrightarrow> ledgers w' = ledgers w"
  by (auto simp: update_entity_def update_entity_with_def io_bind_def
      split: prod.splits sum.splits option.splits) (metis entity_ops_ledgers)+

lemma ledger_ops_entities:
  "insert_event F e w = (r, w') \<Longrightarrow> w_entities w' = w_entities w"
  "write_trajectory_event F e w = (r, w') \<Longrightarrow> w_entities w' = w_entities w"
  using insert_event_cases [of F e w r w']
  by (auto simp: write_trajectory_event_def io_op_cases)

end
