(* ===== verification/Policy_Model.thy ===== *)
theory Policy_Model
  imports Label
begin

text \<open>
  The policy-category guardrail (\<open>crates/guardrails/policy\<close>): policy templates, their
  rendering, and the evaluation of content against them by a model. As for labels, the
  provider's extractor is a parameter (\<open>pm_extract\<close>).
\<close>

section \<open>Templates\<close>

record policy_category =
  pc_code :: string
  pc_name :: string
  pc_definition :: string

record policy_example =
  pe_content :: string
  pe_violation :: bool
  pe_category :: string

record policy_template =
  pt_name :: string
  pt_prefix :: string
  pt_description :: string
  pt_instructions :: string
  pt_categories :: "policy_category list"
  pt_examples :: "policy_example list"

definition policy_template_new :: "string \<Rightarrow> string \<Rightarrow> policy_template" where
  "policy_template_new n p =
     \<lparr>pt_name = n, pt_prefix = p, pt_description = [], pt_instructions = [],
      pt_categories = [], pt_examples = []\<rparr>"

definition pt_category :: "policy_template \<Rightarrow> string \<Rightarrow> string \<Rightarrow> string \<Rightarrow> policy_template" where
  "pt_category t c n d =
     t\<lparr>pt_categories := pt_categories t @ [\<lparr>pc_code = c, pc_name = n, pc_definition = d\<rparr>]\<rparr>"

definition pt_example :: "policy_template \<Rightarrow> string \<Rightarrow> bool \<Rightarrow> string \<Rightarrow> policy_template" where
  "pt_example t c v k =
     t\<lparr>pt_examples := pt_examples t @ [\<lparr>pe_content = c, pe_violation = v, pe_category = k\<rparr>]\<rparr>"

definition safe_category :: "policy_template \<Rightarrow> string" where
  "safe_category t = pt_prefix t @ ''0''"

definition category_name :: "policy_template \<Rightarrow> string \<Rightarrow> string option" where
  "category_name t code =
     map_option pc_name (find (\<lambda>c. eq_ignore_ascii_case (pc_code c) code) (pt_categories t))"

definition policy_category_definition :: "policy_template \<Rightarrow> string \<Rightarrow> string option" where
  "policy_category_definition t code =
     map_option pc_definition
       (find (\<lambda>c. eq_ignore_ascii_case (pc_code c) code) (pt_categories t))"

definition pt_default_instructions :: "policy_template \<Rightarrow> string" where
  \<open>pt_default_instructions t =
     ''Evaluate the following content against this policy.'' @ nl
     @ ''If the content violates this policy, return:'' @ nl
     @ ''{"violation": 1, "policy_category": "<category_code>"}'' @ nl
     @ ''If the content is compliant, return:'' @ nl
     @ ''{"violation": 0, "policy_category": "'' @ safe_category t @ ''"}'' @ nl\<close>

definition pt_render :: "policy_template \<Rightarrow> string" where
  \<open>pt_render t =
     ''# '' @ pt_name t @ nl
     @ (if pt_description t = [] then [] else nl @ pt_description t @ nl)
     @ nl @ ''## INSTRUCTIONS'' @ nl
     @ (if pt_instructions t = [] then pt_default_instructions t else pt_instructions t @ nl)
     @ (if pt_categories t = [] then []
        else nl @ ''## CATEGORIES'' @ nl
          @ concat (map (\<lambda>c. ''- '' @ pc_code c @ '' ('' @ pc_name c @ ''): ''
                @ pc_definition c @ nl) (pt_categories t)))
     @ (if pt_examples t = [] then []
        else nl @ ''## EXAMPLES'' @ nl
          @ concat (map (\<lambda>e. ''Content: '' @ pe_content e @ nl
                @ ''Answer: {"violation": '' @ (if pe_violation e then ''1'' else ''0'')
                @ '', "policy_category": "'' @ pe_category e @ ''"}'' @ nl @ nl)
              (pt_examples t)))\<close>

definition pt_render_user_message :: "string \<Rightarrow> string" where
  "pt_render_user_message content = ''Content: '' @ content @ nl @ ''Answer:''"

section \<open>Results\<close>

record policy_model_result =
  pmr_violation :: u8
  pmr_category :: string

record policy_violation =
  pv_category :: string
  pv_rule :: string
  pv_description :: string

record policy_classification =
  pcl_compliant :: bool
  pcl_violations :: "policy_violation list"

definition policy_classification_default :: policy_classification where
  "policy_classification_default = \<lparr>pcl_compliant = True, pcl_violations = []\<rparr>"

definition pcl_categories :: "policy_classification \<Rightarrow> string set" where
  "pcl_categories c = set (map pv_category (pcl_violations c))"

definition pcl_codes :: "policy_classification \<Rightarrow> string set" where
  "pcl_codes c = set (map pv_rule (pcl_violations c))"

definition violations_by_category ::
  "policy_classification \<Rightarrow> string \<Rightarrow> policy_violation list" where
  "violations_by_category c k =
     filter (\<lambda>v. eq_ignore_ascii_case (pv_category v) k) (pcl_violations c)"

section \<open>The policy model\<close>

datatype policy_error =
    PmClientBuild string
  | PmInference string
  | PmModelNotAvailable string
  | PmNoPolicies
  | PmInvalidContent string
  | PmTimeout
  | PmIoError string
  | PmTomlError string

record policy_model =
  pm_policies :: "policy_template list"
  pm_extract :: "nat \<Rightarrow> string \<Rightarrow> string \<Rightarrow> (string + policy_model_result) option"

definition evaluate_single ::
  "policy_model \<Rightarrow> policy_template \<Rightarrow> string \<Rightarrow> nat \<Rightarrow> policy_error + policy_model_result" where
  "evaluate_single m t content secs =
     (case pm_extract m secs (pt_render t) (pt_render_user_message content) of
        None \<Rightarrow> Inl PmTimeout
      | Some (Inl e) \<Rightarrow> Inl (PmInference e)
      | Some (Inr r) \<Rightarrow> Inr r)"

definition violation_of :: "policy_template \<Rightarrow> policy_model_result \<Rightarrow> policy_violation" where
  "violation_of t r =
     (let code = pmr_category r in
      \<lparr>pv_category = unwrap_or (category_name t code) code,
       pv_rule = code,
       pv_description = unwrap_or (policy_category_definition t code) code\<rparr>)"

fun evaluate_loop ::
  "policy_model \<Rightarrow> string \<Rightarrow> policy_template list \<Rightarrow> policy_violation list
     \<Rightarrow> policy_error + policy_violation list" where
  "evaluate_loop m content [] acc = Inr acc"
| "evaluate_loop m content (t # ts) acc =
     bind_result (evaluate_single m t content 30) (\<lambda>r.
       evaluate_loop m content ts
         (if pmr_violation r = 1 then acc @ [violation_of t r] else acc))"

definition evaluate_content :: "policy_model \<Rightarrow> string \<Rightarrow> policy_error + policy_classification"
where
  "evaluate_content m content =
     (if pm_policies m = [] then Inl PmNoPolicies
      else if content = [] then Inl (PmInvalidContent ''Content cannot be empty'')
      else bind_result (evaluate_loop m content (pm_policies m) []) (\<lambda>vs.
        Inr \<lparr>pcl_compliant = (vs = []), pcl_violations = vs\<rparr>))"

datatype conversation_role = CrUser | CrAssistant | CrSystem | CrTool

fun conversation_role_to_string :: "conversation_role \<Rightarrow> string" where
  "conversation_role_to_string CrUser = ''User''"
| "conversation_role_to_string CrAssistant = ''Assistant''"
| "conversation_role_to_string CrSystem = ''System''"
| "conversation_role_to_string CrTool = ''Tool''"

record conversation_message =
  cm_role :: conversation_role
  cm_content :: string

fun format_messages :: "nat \<Rightarrow> conversation_message list \<Rightarrow> string" where
  "format_messages i [] = []"
| "format_messages i (m # ms) =
     ''['' @ nat_to_string (i + 1) @ ''] '' @ conversation_role_to_string (cm_role m) @ '':'' @ nl
     @ cm_content m @ nl @ nl @ format_messages (i + 1) ms"

definition format_conversation :: "conversation_message list \<Rightarrow> string" where
  "format_conversation history = format_messages 0 history"

definition evaluate_conversation ::
  "policy_model \<Rightarrow> conversation_message list \<Rightarrow> policy_error + policy_classification" where
  "evaluate_conversation m history =
     (if history = [] then Inl (PmInvalidContent ''Conversation history cannot be empty'')
      else evaluate_content m (format_conversation history))"

definition pm_health_check :: "policy_model \<Rightarrow> policy_error + unit" where
  "pm_health_check m =
     (case pm_policies m of
        t # _ \<Rightarrow> bind_result (evaluate_single m t ''health check'' 5) (\<lambda>_. Inr ())
      | [] \<Rightarrow> Inl PmNoPolicies)"

lemma pv_rule_violation_of [simp]: "pv_rule (violation_of t r) = pmr_category r"
  by (simp add: violation_of_def Let_def)

lemma evaluate_loop_Inr:
  "evaluate_loop m content ts acc = Inr vs \<Longrightarrow>
     set vs = set acc \<union> {violation_of t r |t r.
        t \<in> set ts \<and> evaluate_single m t content 30 = Inr r \<and> pmr_violation r = 1}"
proof (induction ts arbitrary: acc)
  case Nil
  then show ?case by simp
next
  case (Cons t ts)
  then obtain r where r: "evaluate_single m t content 30 = Inr r"
    and rest: "evaluate_loop m content ts
      (if pmr_violation r = 1 then acc @ [violation_of t r] else acc) = Inr vs"
    by (auto simp: bind_result_Inr_iff)
  show ?case using Cons.IH [OF rest] r by (auto split: if_splits)
qed

lemma evaluate_content_Inr:
  assumes "evaluate_content m content = Inr c"
  shows "pcl_codes c = {pmr_category r |t r.
      t \<in> set (pm_policies m) \<and> evaluate_single m t content 30 = Inr r \<and> pmr_violation r = 1}"
    and "pcl_compliant c \<longleftrightarrow> pcl_codes c = {}"
proof -
  obtain vs where vs: "evaluate_loop m content (pm_policies m) [] = Inr vs"
    and c: "c = \<lparr>pcl_compliant = (vs = []), pcl_violations = vs\<rparr>"
    using assms by (auto simp: evaluate_content_def bind_result_Inr_iff split: if_splits)
  let ?P = "\<lambda>t r. t \<in> set (pm_policies m) \<and> evaluate_single m t content 30 = Inr r
      \<and> pmr_violation r = 1"
  have "pmr_category r \<in> pv_rule ` set vs" if "?P t r" for t r
    using that evaluate_loop_Inr [OF vs] image_eqI [of _ pv_rule "violation_of t r"] by auto
  moreover have "\<exists>t r. pv_rule v = pmr_category r \<and> ?P t r" if v: "v \<in> set vs" for v
  proof -
    from v obtain t r where "v = violation_of t r" "?P t r"
      using evaluate_loop_Inr [OF vs] by auto
    then show ?thesis by (intro exI [of _ t] exI [of _ r]) simp
  qed
  ultimately have "set (map pv_rule vs) = {pmr_category r |t r. ?P t r}"
    unfolding set_map by blast
  then show "pcl_codes c = {pmr_category r |t r.
      t \<in> set (pm_policies m) \<and> evaluate_single m t content 30 = Inr r \<and> pmr_violation r = 1}"
    by (simp add: c pcl_codes_def)
  show "pcl_compliant c \<longleftrightarrow> pcl_codes c = {}"
    by (simp add: c pcl_codes_def)
qed

end
