(* ===== verification/Signature.thy ===== *)
theory Signature
  imports Rust_Text Ranked
begin

text \<open>
  The signature guardrail (\<open>crates/guardrails/signature\<close>): aggregation of YARA rule matches
  into categories and a highest severity. The YARA engine is a parameter: \<open>yara_scan\<close> yields
  the matching rules with their metadata entries, or an engine error.
\<close>

datatype severity = SevNone | Low | Medium | High | Critical

definition from_metadata :: "string \<Rightarrow> severity" where
  "from_metadata s =
     (if s = ''low'' then Low
      else if s = ''medium'' then Medium
      else if s = ''high'' then High
      else if s = ''critical'' then Critical
      else SevNone)"

fun severity_i64 :: "severity \<Rightarrow> i64" where
  "severity_i64 SevNone = 0"
| "severity_i64 Low = 1"
| "severity_i64 Medium = 2"
| "severity_i64 High = 3"
| "severity_i64 Critical = 4"

fun severity_to_string :: "severity \<Rightarrow> string" where
  "severity_to_string SevNone = ''none''"
| "severity_to_string Low = ''low''"
| "severity_to_string Medium = ''medium''"
| "severity_to_string High = ''high''"
| "severity_to_string Critical = ''critical''"

lemma severity_inj: "severity_i64 a = severity_i64 b \<Longrightarrow> a = b"
  by (cases a; cases b) simp_all

interpretation severity_rank: ranked severity_i64
  by unfold_locales (rule severity_inj)

text \<open>The derived \<open>Ord\<close> compares discriminants, which is the order of \<open>severity_i64\<close>.\<close>

instantiation severity :: linorder
begin

definition less_eq_severity :: "severity \<Rightarrow> severity \<Rightarrow> bool" where
  "less_eq_severity a b \<longleftrightarrow> severity_i64 a \<le> severity_i64 b"

definition less_severity :: "severity \<Rightarrow> severity \<Rightarrow> bool" where
  "less_severity a b \<longleftrightarrow> severity_i64 a < severity_i64 b"

instance
  by standard (auto simp: less_eq_severity_def less_severity_def dest: severity_inj)

end

lemma SevNone_least [simp]: "SevNone \<le> s"
  by (cases s) (simp_all add: less_eq_severity_def)

datatype meta_value = MString string | MInteger string | MFloat string | MBool bool | MBytes string

text \<open>Numbers are carried as the text \<open>to_string\<close> gives them.\<close>

fun meta_text :: "meta_value \<Rightarrow> string option" where
  "meta_text (MString s) = Some s"
| "meta_text (MInteger i) = Some i"
| "meta_text (MFloat f) = Some f"
| "meta_text (MBool b) = Some (if b then ''true'' else ''false'')"
| "meta_text (MBytes _) = None"

record yara_rule =
  yr_identifier :: string
  yr_namespace :: string
  yr_metadata :: "(string \<times> meta_value) list"

record sig_match =
  sm_identifier :: string
  sm_namespace :: string
  sm_metadata :: "string \<rightharpoonup> string"

record signature_context =
  sg_matches :: "sig_match list"
  sg_categories :: "string set"
  sg_severity :: severity

text \<open>Collected into a map: a later entry for a key replaces an earlier one.\<close>

fun extract_metadata :: "(string \<times> meta_value) list \<Rightarrow> (string \<rightharpoonup> string) \<Rightarrow> (string \<rightharpoonup> string)"
where
  "extract_metadata [] m = m"
| "extract_metadata ((k, v) # es) m =
     extract_metadata es (case meta_text v of None \<Rightarrow> m | Some t \<Rightarrow> m(k \<mapsto> t))"

definition match_of :: "yara_rule \<Rightarrow> sig_match" where
  "match_of r = \<lparr>sm_identifier = yr_identifier r, sm_namespace = yr_namespace r,
     sm_metadata = extract_metadata (yr_metadata r) Map.empty\<rparr>"

fun aggregate :: "sig_match list \<Rightarrow> string set \<Rightarrow> severity \<Rightarrow> string set \<times> severity" where
  "aggregate [] cats sev = (cats, sev)"
| "aggregate (m # ms) cats sev =
     aggregate ms
       (case sm_metadata m ''category'' of None \<Rightarrow> cats | Some c \<Rightarrow> insert c cats)
       (case sm_metadata m ''severity'' of None \<Rightarrow> sev | Some s \<Rightarrow> max sev (from_metadata s))"

type_synonym yara_engine = "string \<Rightarrow> string + yara_rule list"

definition scan :: "yara_engine \<Rightarrow> string \<Rightarrow> signature_context" where
  "scan yara_scan content =
     (let matches = (case yara_scan content of Inr rs \<Rightarrow> map match_of rs | Inl _ \<Rightarrow> []);
          (cats, sev) = aggregate matches {} SevNone
      in \<lparr>sg_matches = matches, sg_categories = cats, sg_severity = sev\<rparr>)"

lemma aggregate_categories:
  "fst (aggregate ms cats sev) =
     cats \<union> {c. \<exists>m\<in>set ms. sm_metadata m ''category'' = Some c}"
  by (induction ms arbitrary: cats sev) (auto split: option.splits)

lemma aggregate_severity_ge:
  "sev \<le> snd (aggregate ms cats sev)"
  "m \<in> set ms \<Longrightarrow> sm_metadata m ''severity'' = Some s \<Longrightarrow>
     from_metadata s \<le> snd (aggregate ms cats sev)"
proof (induction ms arbitrary: cats sev)
  case Nil
  { case 1 then show ?case by simp }
  { case 2 then show ?case by simp }
next
  case (Cons a ms)
  { case 1
    show ?case
      using Cons.IH(1) order_trans [OF max.cobounded1 Cons.IH(1)] by (auto split: option.splits) }
  { case 2
    then show ?case
      using Cons.IH(2) order_trans [OF max.cobounded2 Cons.IH(1)]
      by (auto split: option.splits) }
qed

lemma aggregate_severity_attained:
  "snd (aggregate ms cats sev) = sev \<or>
     (\<exists>m\<in>set ms. \<exists>s. sm_metadata m ''severity'' = Some s
        \<and> from_metadata s = snd (aggregate ms cats sev))"
proof (induction ms arbitrary: cats sev)
  case Nil
  then show ?case by simp
next
  case (Cons a ms)
  let ?c = "case sm_metadata a ''category'' of None \<Rightarrow> cats | Some c \<Rightarrow> insert c cats"
  show ?case
  proof (cases "sm_metadata a ''severity''")
    case None
    then show ?thesis using Cons.IH [of ?c sev] by auto
  next
    case (Some s)
    then show ?thesis
      using Cons.IH [of ?c "max sev (from_metadata s)"] by (auto simp: max_def split: if_splits)
  qed
qed

lemma scan_sound:
  "(\<forall>m\<in>set (sg_matches (scan Y content)). \<forall>s. sm_metadata m ''severity'' = Some s \<longrightarrow>
      severity_i64 (from_metadata s) \<le> severity_i64 (sg_severity (scan Y content)))
   \<and> (sg_severity (scan Y content) = SevNone \<or>
      (\<exists>m\<in>set (sg_matches (scan Y content)). \<exists>s. sm_metadata m ''severity'' = Some s
         \<and> from_metadata s = sg_severity (scan Y content)))
   \<and> sg_categories (scan Y content) =
      {c. \<exists>m\<in>set (sg_matches (scan Y content)). sm_metadata m ''category'' = Some c}
   \<and> (\<forall>err. Y content = Inl err \<longrightarrow> sg_matches (scan Y content) = [])"
proof -
  define ms where "ms = (case Y content of Inr rs \<Rightarrow> map match_of rs | Inl _ \<Rightarrow> [])"
  have s: "scan Y content = \<lparr>sg_matches = ms, sg_categories = fst (aggregate ms {} SevNone),
      sg_severity = snd (aggregate ms {} SevNone)\<rparr>"
    by (simp add: scan_def ms_def Let_def split: prod.split)
  show ?thesis
    unfolding s
    using aggregate_severity_ge(2) [of _ ms _ "{}" SevNone]
      aggregate_severity_attained [of ms "{}" SevNone]
    by (auto simp: aggregate_categories less_eq_severity_def [symmetric] ms_def)
qed

end
