(* ===== verification/Path_Url.thy ===== *)
theory Path_Url
  imports Json
begin

text \<open>
  The two normalizers that give policies stable text: lexical path normalization
  (\<open>crates/policy/cedar/src/path_normalize.rs\<close>) and the structured view of a fetch URL
  (\<open>url_parse.rs\<close>). WHATWG parsing itself is the \<open>url\<close> crate's: a function from the text to
  what the code reads off the parsed URL.
\<close>

section \<open>Paths\<close>

abbreviation slash :: char where "slash \<equiv> CHR 0x2F"
abbreviation backslash :: char where "backslash \<equiv> CHR 0x5C"

fun normalize_chars :: "unicode \<Rightarrow> bool \<Rightarrow> string list \<Rightarrow> string" where
  "normalize_chars U last_was_slash [] = []"
| "normalize_chars U last_was_slash (ch # chs) =
     (let ch = (if ch = [backslash] then [slash] else ch) in
      if ch = [slash] then
        (if last_was_slash then normalize_chars U True chs
         else slash # normalize_chars U True chs)
      else char_to_lowercase U ch @ normalize_chars U False chs)"

definition normalize_path_value :: "unicode \<Rightarrow> string \<Rightarrow> string" where
  "normalize_path_value U path =
     (let stripped = unwrap_or
            (opt_else (strip_prefix [backslash, backslash, CHR 0x3F, backslash] path)
                      (strip_prefix [backslash, backslash, CHR 0x2E, backslash] path)) path
      in normalize_chars U False (utf8_chars stripped))"

text \<open>
  What the code relies on of the Unicode tables: lowercasing a scalar outside ASCII gives at
  least one character and never a path separator.
\<close>

definition lower_keeps_separators :: "unicode \<Rightarrow> bool" where
  "lower_keeps_separators U \<longleftrightarrow>
     (\<forall>ch. scalar_ok ch \<longrightarrow> 1 < length ch \<longrightarrow>
        uc_lower U ch \<noteq> [] \<and> slash \<notin> set (uc_lower U ch) \<and> backslash \<notin> set (uc_lower U ch))"

lemma lower_keeps_separators_plain: "lower_keeps_separators plain_unicode"
  unfolding lower_keeps_separators_def
proof (intro allI impI)
  fix ch assume "scalar_ok ch" "1 < length ch"
  then show "uc_lower plain_unicode ch \<noteq> [] \<and> slash \<notin> set (uc_lower plain_unicode ch)
      \<and> backslash \<notin> set (uc_lower plain_unicode ch)"
    by (cases ch rule: scalar_ok.cases)
      (auto simp: plain_unicode_def second3_ok_def second4_ok_def is_cont_def split: if_splits)
qed

lemma ascii_lower_separator [simp]:
  "ascii_lower c = slash \<longleftrightarrow> c = slash" "ascii_lower c = backslash \<longleftrightarrow> c = backslash"
  "slash = ascii_lower c \<longleftrightarrow> c = slash" "backslash = ascii_lower c \<longleftrightarrow> c = backslash"
  by (auto simp: ascii_lower_eq_iff is_lower_def is_upper_def eq_commute [of _ "ascii_lower c"])

lemma lower_no_separator:
  assumes "lower_keeps_separators U" "scalar_ok ch" "ch \<noteq> [slash]" "ch \<noteq> [backslash]"
  shows "char_to_lowercase U ch \<noteq> []" "slash \<notin> set (char_to_lowercase U ch)"
    "backslash \<notin> set (char_to_lowercase U ch)"
proof -
  have "char_to_lowercase U ch \<noteq> [] \<and> slash \<notin> set (char_to_lowercase U ch)
      \<and> backslash \<notin> set (char_to_lowercase U ch)"
  proof (cases "length ch \<le> 1")
    case True
    then obtain c where "ch = [c]" using assms(2) by (cases ch rule: scalar_ok.cases) auto
    then show ?thesis using assms by (auto simp: char_to_lowercase_def is_ascii_def)
  next
    case False
    then have "char_to_lowercase U ch = uc_lower U ch"
      by (auto simp: char_to_lowercase_def split: list.splits)
    then show ?thesis using assms False by (simp add: lower_keeps_separators_def)
  qed
  then show "char_to_lowercase U ch \<noteq> []" "slash \<notin> set (char_to_lowercase U ch)"
    "backslash \<notin> set (char_to_lowercase U ch)" by auto
qed

text \<open>No two adjacent separators.\<close>

fun squeezed :: "string \<Rightarrow> bool" where
  "squeezed (a # b # s) \<longleftrightarrow> \<not> (a = slash \<and> b = slash) \<and> squeezed (b # s)"
| "squeezed _ \<longleftrightarrow> True"

lemma squeezed_append:
  "slash \<notin> set xs \<Longrightarrow> squeezed ys \<Longrightarrow> squeezed (xs @ ys)"
proof (induction xs)
  case Nil
  then show ?case by simp
next
  case (Cons a xs)
  then show ?case by (cases "xs @ ys") auto
qed

lemma squeezed_Cons: "squeezed s \<Longrightarrow> s = [] \<or> hd s \<noteq> slash \<Longrightarrow> squeezed (c # s)"
  by (cases s) auto

lemma normalize_chars_squeezed:
  assumes "lower_keeps_separators U" "list_all scalar_ok chs"
  shows "squeezed (normalize_chars U w chs)
    \<and> (w \<longrightarrow> normalize_chars U w chs = [] \<or> hd (normalize_chars U w chs) \<noteq> slash)
    \<and> backslash \<notin> set (normalize_chars U w chs)"
  using assms(2)
proof (induction chs arbitrary: w)
  case Nil
  then show ?case by simp
next
  case (Cons ch chs)
  show ?case
  proof (cases "ch = [slash] \<or> ch = [backslash]")
    case True
    then show ?thesis using Cons.IH [of True] Cons.prems by (auto intro: squeezed_Cons)
  next
    case False
    then have "char_to_lowercase U ch \<noteq> []" "slash \<notin> set (char_to_lowercase U ch)"
        "backslash \<notin> set (char_to_lowercase U ch)"
      using lower_no_separator [OF assms(1)] Cons.prems by auto
    moreover have "hd (char_to_lowercase U ch) \<noteq> slash"
      using calculation by (metis hd_in_set)
    ultimately show ?thesis using False Cons.IH [of False] Cons.prems
      by (simp add: squeezed_append)
  qed
qed

lemma valid_utf8_strip:
  assumes "valid_utf8 s" "strip_prefix p s = Some t" "list_all is_ascii p"
  shows "valid_utf8 t"
proof -
  have s: "s = p @ t" using assms(2) by (auto simp: strip_prefix_def prefix_def split: if_splits)
  have "valid_utf8 (p @ t) \<Longrightarrow> list_all is_ascii p \<Longrightarrow> valid_utf8 t" for p
  proof (induction p)
    case Nil
    then show ?case by simp
  next
    case (Cons c p)
    have ok: "scalar_ok (c # takeWhile is_cont (p @ t))"
      using Cons.prems(1) by (simp add: valid_utf8_def)
    have "takeWhile is_cont (p @ t) = []"
      using ok Cons.prems(2)
      by (cases "c # takeWhile is_cont (p @ t)" rule: scalar_ok.cases) (auto simp: is_ascii_def)
    then have "dropWhile is_cont (p @ t) = p @ t" by (cases "p @ t") (auto split: if_splits)
    then have "valid_utf8 (p @ t)" using Cons.prems(1) by (simp add: valid_utf8_def)
    then show ?case using Cons by simp
  qed
  then show ?thesis using s assms by blast
qed

lemma normalize_path_clean:
  assumes "lower_keeps_separators U" "valid_utf8 path"
  shows "squeezed (normalize_path_value U path)"
    "backslash \<notin> set (normalize_path_value U path)"
proof -
  let ?s = "unwrap_or
            (opt_else (strip_prefix [backslash, backslash, CHR 0x3F, backslash] path)
                      (strip_prefix [backslash, backslash, CHR 0x2E, backslash] path)) path"
  have "valid_utf8 ?s"
    using assms(2) by (auto simp: unwrap_or_def opt_else_def is_ascii_def
        elim!: valid_utf8_strip split: option.splits)
  then have "list_all scalar_ok (utf8_chars ?s)" by (simp add: valid_utf8_def)
  from normalize_chars_squeezed [OF assms(1) this, of False]
  show "squeezed (normalize_path_value U path)" "backslash \<notin> set (normalize_path_value U path)"
    by (simp_all add: normalize_path_value_def Let_def)
qed

text \<open>On ASCII text the groups are single bytes, and normalizing twice changes nothing.\<close>

lemma utf8_chars_ascii: "list_all is_ascii s \<Longrightarrow> utf8_chars s = map (\<lambda>c. [c]) s"
proof (induction s)
  case Nil
  then show ?case by simp
next
  case (Cons c s)
  then have h: "s = [] \<or> \<not> is_cont (hd s)" by (cases s) (auto simp: byte_defs)
  have "utf8_chars (c # s) = [[c]] @ utf8_chars s"
    using utf8_chars_append [OF h, of "[c]"] by simp
  then show ?case using Cons by simp
qed

lemma is_ascii_slash [simp]: "is_ascii slash" "is_ascii backslash"
  by (simp_all add: is_ascii_def)

lemma normalize_chars_ascii:
  "list_all is_ascii s \<Longrightarrow> list_all is_ascii (normalize_chars U w (map (\<lambda>c. [c]) s))"
  by (induction s arbitrary: w) (auto simp: Let_def char_to_lowercase_def)

lemma normalize_chars_twice:
  "list_all is_ascii s \<Longrightarrow>
   normalize_chars U w (map (\<lambda>c. [c]) (normalize_chars U w (map (\<lambda>c. [c]) s)))
     = normalize_chars U w (map (\<lambda>c. [c]) s)"
  by (induction s arbitrary: w) (auto simp: Let_def char_to_lowercase_def)

lemma normalize_chars_no_backslash:
  "list_all is_ascii s \<Longrightarrow> backslash \<notin> set (normalize_chars U w (map (\<lambda>c. [c]) s))"
  by (induction s arbitrary: w) (auto simp: Let_def char_to_lowercase_def)

lemma list_all_strip: "list_all P s \<Longrightarrow> strip_prefix p s = Some t \<Longrightarrow> list_all P t"
  by (auto simp: strip_prefix_def list_all_iff split: if_splits dest: in_set_dropD)

lemma normalize_path_idem:
  assumes "list_all is_ascii path"
  shows "normalize_path_value U (normalize_path_value U path) = normalize_path_value U path"
proof -
  define s where "s = unwrap_or
            (opt_else (strip_prefix [backslash, backslash, CHR 0x3F, backslash] path)
                      (strip_prefix [backslash, backslash, CHR 0x2E, backslash] path)) path"
  have s: "list_all is_ascii s"
    using assms by (auto simp: s_def unwrap_or_def opt_else_def elim!: list_all_strip
        split: option.splits)
  define n where "n = normalize_chars U False (map (\<lambda>c. [c]) s)"
  have np: "normalize_path_value U path = n"
    using s by (simp add: normalize_path_value_def Let_def s_def [symmetric] utf8_chars_ascii n_def)
  have "backslash \<notin> set n" using s by (simp add: n_def normalize_chars_no_backslash)
  then have "\<not> prefix (backslash # p) n" for p by (cases n) auto
  then have "normalize_path_value U n = normalize_chars U False (utf8_chars n)"
    by (simp add: normalize_path_value_def strip_prefix_def)
  also have "\<dots> = n"
    using s by (simp add: n_def utf8_chars_ascii normalize_chars_ascii normalize_chars_twice)
  finally show ?thesis by (simp add: np)
qed

text \<open>Separator style and letter case do not show in the result.\<close>

definition windows_style :: "string \<Rightarrow> string" where
  "windows_style s = map (\<lambda>c. if c = slash then backslash else c) s"

lemma normalize_chars_style:
  "list_all is_ascii s \<Longrightarrow>
   normalize_chars U w (map (\<lambda>c. [c]) (windows_style s)) = normalize_chars U w (map (\<lambda>c. [c]) s)"
  by (induction s arbitrary: w) (auto simp: Let_def windows_style_def)

lemma normalize_chars_case:
  "list_all is_ascii s \<Longrightarrow>
   normalize_chars U w (map (\<lambda>c. [c]) (to_ascii_lowercase s))
     = normalize_chars U w (map (\<lambda>c. [c]) s)"
  by (induction s arbitrary: w)
    (auto simp: Let_def char_to_lowercase_def to_ascii_lowercase_def)

lemma windows_style_ascii: "list_all is_ascii s \<Longrightarrow> list_all is_ascii (windows_style s)"
  by (auto simp: windows_style_def list_all_iff)

lemma to_ascii_lowercase_ascii: "list_all is_ascii s \<Longrightarrow> list_all is_ascii (to_ascii_lowercase s)"
  by (auto simp: to_ascii_lowercase_def list_all_iff)

text \<open>
  The style does not show unless the path is a device path in the style of Windows, whose prefix is
  dropped; spelled with slashes the prefix is an ordinary part of the path.
\<close>

definition device_path :: "string \<Rightarrow> bool" where
  "device_path p \<longleftrightarrow> prefix [backslash, backslash, CHR 0x3F, backslash] p \<or> prefix [backslash, backslash, CHR 0x2E, backslash] p"

lemma normalize_plain_path:
  "\<not> device_path p \<Longrightarrow> normalize_path_value U p = normalize_chars U False (utf8_chars p)"
  by (simp add: device_path_def normalize_path_value_def strip_prefix_def)

lemma device_prefix_dropped:
  assumes "c = CHR 0x3F \<or> c = CHR 0x2E"
  shows "normalize_path_value U ([backslash, backslash, c, backslash] @ p) = normalize_chars U False (utf8_chars p)"
  using assms by (auto simp: normalize_path_value_def strip_prefix_def)

lemma normalize_path_style:
  assumes "list_all is_ascii p" "\<not> device_path (windows_style p)"
  shows "normalize_path_value U (windows_style p) = normalize_path_value U p"
proof -
  have "device_path (windows_style p)" if "device_path p"
    using that by (auto simp: device_path_def windows_style_def prefix_def)
  then have "\<not> device_path p" using assms(2) by blast
  then show ?thesis
    using assms normalize_chars_style [OF assms(1)]
    by (simp add: normalize_plain_path utf8_chars_ascii windows_style_ascii)
qed

lemma lower_separator_iff: "ascii_lower c = CHR 0x3F \<longleftrightarrow> c = CHR 0x3F" "ascii_lower c = CHR 0x2E \<longleftrightarrow> c = CHR 0x2E"
  "CHR 0x3F = ascii_lower c \<longleftrightarrow> c = CHR 0x3F" "CHR 0x2E = ascii_lower c \<longleftrightarrow> c = CHR 0x2E"
  by (auto simp: ascii_lower_eq_iff is_lower_def is_upper_def eq_commute [of _ "ascii_lower c"])

lemma device_path_lower: "device_path (to_ascii_lowercase p) \<longleftrightarrow> device_path p"
proof -
  have "prefix [backslash, backslash, c, backslash] (map ascii_lower p) \<longleftrightarrow> prefix [backslash, backslash, c, backslash] p"
    if "c = CHR 0x3F \<or> c = CHR 0x2E" for c
    using that by (cases p; cases "tl p"; cases "tl (tl p)"; cases "tl (tl (tl p))")
      (auto simp: prefix_Cons lower_separator_iff)
  then show ?thesis by (simp add: device_path_def to_ascii_lowercase_def)
qed

lemma normalize_path_case:
  assumes "list_all is_ascii p"
  shows "normalize_path_value U (to_ascii_lowercase p) = normalize_path_value U p"
proof (cases "device_path p")
  case False
  then show ?thesis
    using assms normalize_chars_case [OF assms]
    by (simp add: normalize_plain_path device_path_lower utf8_chars_ascii to_ascii_lowercase_ascii)
next
  case True
  then obtain c q where p: "p = [backslash, backslash, c, backslash] @ q" "c = CHR 0x3F \<or> c = CHR 0x2E"
    by (auto simp: device_path_def prefix_def)
  have "to_ascii_lowercase p = [backslash, backslash, c, backslash] @ to_ascii_lowercase q"
    using p by (auto simp: to_ascii_lowercase_def lower_separator_iff)
  moreover have "list_all is_ascii q" using assms p by simp
  ultimately show ?thesis
    using device_prefix_dropped [OF p(2), of U] normalize_chars_case [of q U False]
    unfolding p(1) by (simp add: utf8_chars_ascii to_ascii_lowercase_ascii del: append_Cons)
qed

section \<open>URLs\<close>

text \<open>What the code reads off a parsed URL.\<close>

record parsed_url =
  pu_scheme :: string
  pu_host :: "string option"
  pu_port :: "16 word option"
  pu_port_or_default :: "16 word option"

type_synonym url_parser = "string \<Rightarrow> parsed_url option"

record url_parse =
  up_ok :: bool
  up_scheme :: string
  up_host :: string
  up_port :: i64
  up_explicit_zero_port :: bool

definition url_parse_default :: url_parse where
  "url_parse_default =
     \<lparr>up_ok = False, up_scheme = [], up_host = [], up_port = 0, up_explicit_zero_port = False\<rparr>"

definition url_to_cedar_json :: "url_parse \<Rightarrow> json" where
  "url_to_cedar_json p =
     JObj [(''ok'', JBool (up_ok p)), (''scheme'', JStr (up_scheme p)),
           (''host'', JStr (up_host p)), (''port'', JInt (sint (up_port p)))]"

definition parse_url :: "url_parser \<Rightarrow> string \<Rightarrow> url_parse" where
  "parse_url up url =
     (case up url of
        None \<Rightarrow> url_parse_default
      | Some parsed \<Rightarrow>
          \<lparr>up_ok = True,
           up_scheme = pu_scheme parsed,
           up_host = unwrap_or (map_option to_ascii_lowercase (pu_host parsed)) [],
           up_port = (case pu_port_or_default parsed of None \<Rightarrow> 0 | Some p \<Rightarrow> ucast p),
           up_explicit_zero_port = (pu_port parsed = Some 0)\<rparr>)"

lemma parse_url_ok_iff: "up_ok (parse_url up url) \<longleftrightarrow> up url \<noteq> None"
  by (auto simp: parse_url_def url_parse_default_def split: option.splits)

lemma parse_url_host_lower:
  "list_all (\<lambda>c. \<not> is_upper c) (up_host (parse_url up url))"
  by (auto simp: parse_url_def url_parse_default_def to_ascii_lowercase_def unwrap_or_def
      list_all_iff split: option.splits)

lemma parse_url_port_range:
  "0 \<le> sint (up_port (parse_url up url)) \<and> sint (up_port (parse_url up url)) < 65536"
proof (cases "up url")
  case None
  then show ?thesis by (simp add: parse_url_def url_parse_default_def)
next
  case (Some p)
  show ?thesis
  proof (cases "pu_port_or_default p")
    case None
    with Some show ?thesis by (simp add: parse_url_def)
  next
    case (Some w)
    have "uint w < 65536" using uint_lt2p [of w] by simp
    moreover have "uint (ucast w :: i64) = uint w"
      by (simp add: unsigned_ucast_eq take_bit_eq_mod) (use calculation in simp)
    moreover have "take_bit 63 (uint w) = uint w"
      using calculation(1) by (simp add: take_bit_eq_mod)
    ultimately have "sint (ucast w :: i64) = uint w"
      by (simp add: sint_uint signed_take_bit_eq_if_positive bit_iff_odd)
    with \<open>up url = Some p\<close> Some \<open>uint w < 65536\<close> show ?thesis by (simp add: parse_url_def)
  qed
qed

end
