(* ===== verification/Shell_Lex.thy ===== *)
theory Shell_Lex
  imports Path_Url
begin

text \<open>
  The text level of \<open>crates/policy/cedar/src/shell_parse.rs\<close>: shell quote removal, ANSI-C
  escapes, program names, flag tokens, and the tests that recognise raw Windows paths.

  The escape readers walk \<open>chars()\<close> in the source; only ASCII characters are treated
  specially there, so the byte-level definitions below give the same result.
\<close>

abbreviation dquote :: char where "dquote \<equiv> CHR 0x22"
abbreviation squote :: char where "squote \<equiv> CHR 0x27"
abbreviation newline :: char where "newline \<equiv> CHR 0x0A"

section \<open>Quote removal\<close>

fun unescape_unquoted_word :: "string \<Rightarrow> string" where
  "unescape_unquoted_word [] = []"
| "unescape_unquoted_word [ch] = [ch]"
| "unescape_unquoted_word (ch # next # rest) =
     (if ch \<noteq> backslash then ch # unescape_unquoted_word (next # rest)
      else if next = newline then unescape_unquoted_word rest
      else next # unescape_unquoted_word rest)"

fun unescape_double_quoted :: "string \<Rightarrow> string" where
  "unescape_double_quoted [] = []"
| "unescape_double_quoted [ch] = [ch]"
| "unescape_double_quoted (ch # next # rest) =
     (if ch \<noteq> backslash then ch # unescape_double_quoted (next # rest)
      else if next = newline then unescape_double_quoted rest
      else if next \<in> {dquote, backslash, CHR 0x24, CHR 0x60} then next # unescape_double_quoted rest
      else backslash # next # unescape_double_quoted rest)"

text \<open>The usual ways to write a literal word; the readers invert them.\<close>

definition quote_word :: "string \<Rightarrow> string" where
  "quote_word s = concat (map (\<lambda>c. [backslash, c]) s)"

definition quote_double :: "string \<Rightarrow> string" where
  "quote_double s =
     concat (map (\<lambda>c. if c \<in> {dquote, backslash, CHR 0x24, CHR 0x60} then [backslash, c] else [c]) s)"

lemma unescape_quote_word: "newline \<notin> set s \<Longrightarrow> unescape_unquoted_word (quote_word s) = s"
  by (induction s) (auto simp: quote_word_def)

lemma unescape_double_plain:
  "c \<noteq> backslash \<Longrightarrow> unescape_double_quoted (c # s) = c # unescape_double_quoted s"
  by (cases s) auto

lemma unescape_quote_double: "unescape_double_quoted (quote_double s) = s"
  by (induction s) (auto simp: quote_double_def unescape_double_plain)

lemma unescape_unquoted_length: "length (unescape_unquoted_word s) \<le> length s"
  by (induction s rule: unescape_unquoted_word.induct) auto

lemma unescape_double_length: "length (unescape_double_quoted s) \<le> length s"
  by (induction s rule: unescape_double_quoted.induct) auto

section \<open>ANSI-C escapes\<close>

definition to_digit :: "nat \<Rightarrow> char \<Rightarrow> nat option" where
  "to_digit radix c =
     (let n = byte c;
          d = (if 48 \<le> n \<and> n \<le> 57 then Some (n - 48)
               else if 97 \<le> n \<and> n \<le> 122 then Some (n - 87)
               else if 65 \<le> n \<and> n \<le> 90 then Some (n - 55)
               else None)
      in case d of Some v \<Rightarrow> if v < radix then Some v else None | None \<Rightarrow> None)"

text \<open>
  The digit loops: at most the given number of further digits, accumulated onto the value and
  the count read so far, and the bytes left. Eight hex digits fit the \<open>u32\<close> of the source.
\<close>

fun take_digits :: "nat \<Rightarrow> nat \<Rightarrow> string \<Rightarrow> nat \<Rightarrow> nat \<Rightarrow> nat \<times> nat \<times> string" where
  "take_digits radix 0 src val digits = (val, digits, src)"
| "take_digits radix (Suc k) [] val digits = (val, digits, [])"
| "take_digits radix (Suc k) (c # src) val digits =
     (case to_digit radix c of
        None \<Rightarrow> (val, digits, c # src)
      | Some d \<Rightarrow> take_digits radix k src (val * radix + d) (Suc digits))"

definition take_hex :: "string \<Rightarrow> nat \<Rightarrow> nat \<times> nat \<times> string" where
  "take_hex src m = take_digits 16 m src 0 0"

lemma take_digits_length:
  "take_digits r k src v d = (v', d', rest) \<Longrightarrow> length rest \<le> length src"
  by (induction r k src v d rule: take_digits.induct) (auto split: option.splits)

lemma to_digit_lt: "to_digit r c = Some d \<Longrightarrow> d < r"
  by (auto simp: to_digit_def Let_def split: option.splits if_splits)

lemma take_digits_bound:
  "take_digits r k src v d = (v', d', rest) \<Longrightarrow> v' < (v + 1) * r ^ (d' - d) \<and> d \<le> d' \<and> d' \<le> d + k"
proof (induction r k src v d rule: take_digits.induct)
  case (3 r k c src v d)
  show ?case
  proof (cases "to_digit r c")
    case None
    with 3 show ?thesis by auto
  next
    case (Some x)
    with 3 have ih: "v' < (v * r + x + 1) * r ^ (d' - Suc d)" "Suc d \<le> d'" "d' \<le> Suc d + k"
      by auto
    have "(v * r + x + 1) \<le> (v + 1) * r" using to_digit_lt [OF Some] by simp
    then have "(v * r + x + 1) * r ^ (d' - Suc d) \<le> ((v + 1) * r) * r ^ (d' - Suc d)"
      by (rule mult_le_mono1)
    also have "\<dots> = (v + 1) * r ^ (d' - d)"
      using le_Suc_ex [OF ih(2)] by (auto simp: algebra_simps)
    finally show ?thesis using ih by auto
  qed
qed auto

text \<open>\<open>char::from_u32\<close> and \<open>encode_utf8\<close>.\<close>

definition from_u32 :: "nat \<Rightarrow> nat option" where
  "from_u32 v = (if v < 55296 \<or> (57344 \<le> v \<and> v < 1114112) then Some v else None)"

definition encode_utf8 :: "nat \<Rightarrow> string" where
  "encode_utf8 v =
     (if v < 128 then [char_of v]
      else if v < 2048 then [char_of (192 + v div 64), char_of (128 + v mod 64)]
      else if v < 65536 then
        [char_of (224 + v div 4096), char_of (128 + v div 64 mod 64), char_of (128 + v mod 64)]
      else [char_of (240 + v div 262144), char_of (128 + v div 4096 mod 64),
            char_of (128 + v div 64 mod 64), char_of (128 + v mod 64)])"

text \<open>The single-character escapes.\<close>

definition simple_escape :: "char \<Rightarrow> char option" where
  "simple_escape sel =
     (if sel = CHR ''a'' then Some (CHR 0x07)
      else if sel = CHR ''b'' then Some (CHR 0x08)
      else if sel = CHR ''e'' \<or> sel = CHR ''E'' then Some (CHR 0x1B)
      else if sel = CHR ''f'' then Some (CHR 0x0C)
      else if sel = CHR ''n'' then Some (CHR 0x0A)
      else if sel = CHR ''r'' then Some (CHR 0x0D)
      else if sel = CHR ''t'' then Some (CHR 0x09)
      else if sel = CHR ''v'' then Some (CHR 0x0B)
      else if sel \<in> {backslash, squote, dquote, CHR 0x3F} then Some sel
      else None)"

text \<open>
  What one escape contributes, given its selector and the bytes behind it: the decoded bytes
  and the bytes left to read.
\<close>

definition ansi_escape :: "char \<Rightarrow> string \<Rightarrow> string \<times> string" where
  "ansi_escape sel src =
     (let verbatim = [backslash, sel] in
      case simple_escape sel of
        Some c \<Rightarrow> ([c], src)
      | None \<Rightarrow>
          if sel = CHR ''x'' then
            (case take_hex src 2 of
               (val, digits, rest) \<Rightarrow>
                 if digits = 0 then (verbatim, rest) else ([char_of val], rest))
          else if sel = CHR ''u'' \<or> sel = CHR ''U'' then
            (case take_hex src (if sel = CHR ''u'' then 4 else 8) of
               (val, digits, rest) \<Rightarrow>
                 (case (if 0 < digits then from_u32 val else None) of
                    Some ch \<Rightarrow> (encode_utf8 ch, rest)
                  | None \<Rightarrow> (verbatim @ take digits src, rest)))
          else if 48 \<le> byte sel \<and> byte sel \<le> 55 then
            (case take_digits 8 2 src (byte sel - 48) 1 of
               (val, digits, rest) \<Rightarrow> ([char_of val], rest))
          else if sel = CHR ''c'' then
            (case src of
               x # rest \<Rightarrow>
                 ([if x = CHR 0x3F then CHR 0x7F else char_of (byte x mod 32)], rest)
             | [] \<Rightarrow> (verbatim, src))
          else (verbatim, src))"

lemma ansi_escape_length: "ansi_escape sel src = (out, rest) \<Longrightarrow> length rest \<le> length src"
  by (auto simp: ansi_escape_def take_hex_def Let_def dest: take_digits_length
      split: option.splits if_splits prod.splits list.splits)

function unescape_ansi_bytes :: "string \<Rightarrow> string" where
  "unescape_ansi_bytes [] = []"
| "unescape_ansi_bytes [c] = [c]"
| "unescape_ansi_bytes (c # sel # src) =
     (if c \<noteq> backslash then c # unescape_ansi_bytes (sel # src)
      else fst (ansi_escape sel src) @ unescape_ansi_bytes (snd (ansi_escape sel src)))"
  by pat_completeness auto
termination
proof (relation "measure length", goal_cases)
  case (3 c sel src)
  then show ?case using ansi_escape_length [of sel src "fst (ansi_escape sel src)"]
    by (simp add: le_imp_less_Suc less_SucI)
qed simp_all

definition unescape_ansi_c :: "string \<Rightarrow> string" where
  "unescape_ansi_c text = from_utf8_lossy (unescape_ansi_bytes text)"

text \<open>
  The spellings of a byte string inside \<open>$'...'\<close>: literal bytes, two-digit hex escapes,
  three-digit octal escapes and the named escapes, in any mixture.
\<close>

inductive ansi_spelling :: "string \<Rightarrow> string \<Rightarrow> bool" where
  spell_nil: "ansi_spelling [] []"
| spell_literal: "c \<noteq> backslash \<Longrightarrow> ansi_spelling e s \<Longrightarrow> ansi_spelling (c # e) (c # s)"
| spell_hex: "to_digit 16 h1 = Some a \<Longrightarrow> to_digit 16 h2 = Some b \<Longrightarrow> ansi_spelling e s \<Longrightarrow>
    ansi_spelling (backslash # CHR ''x'' # h1 # h2 # e) (char_of (a * 16 + b) # s)"
| spell_octal: "to_digit 8 o1 = Some a \<Longrightarrow> to_digit 8 o2 = Some b \<Longrightarrow> to_digit 8 o3 = Some c \<Longrightarrow>
    ansi_spelling e s \<Longrightarrow>
    ansi_spelling (backslash # o1 # o2 # o3 # e) (char_of ((a * 8 + b) * 8 + c) # s)"
| spell_named: "simple_escape sel = Some c \<Longrightarrow> ansi_spelling e s \<Longrightarrow>
    ansi_spelling (backslash # sel # e) (c # s)"

lemma ansi_literal:
  "c \<noteq> backslash \<Longrightarrow> unescape_ansi_bytes (c # e) = c # unescape_ansi_bytes e"
  by (cases e) auto

lemma octal_not_simple:
  assumes "to_digit 8 c = Some a"
  shows "simple_escape c = None" "c \<noteq> CHR ''x''" "c \<noteq> CHR ''u''" "c \<noteq> CHR ''U''"
    "48 \<le> byte c" "byte c \<le> 55" "byte c - 48 = a"
proof -
  have b: "48 \<le> byte c" "byte c \<le> 55" "byte c - 48 = a"
    using assms by (auto simp: to_digit_def Let_def split: if_splits)
  then show "48 \<le> byte c" "byte c \<le> 55" "byte c - 48 = a" by auto
  have ne: "byte d < 48 \<or> 55 < byte d \<Longrightarrow> c \<noteq> d" for d using b by auto
  show "c \<noteq> CHR ''x''" "c \<noteq> CHR ''u''" "c \<noteq> CHR ''U''" by (rule ne, simp)+
  show "simple_escape c = None" by (simp add: simple_escape_def ne)
qed

lemma ansi_spelling_decodes: "ansi_spelling e s \<Longrightarrow> unescape_ansi_bytes e = s"
proof (induction rule: ansi_spelling.induct)
  case spell_nil
  then show ?case by simp
next
  case spell_literal
  then show ?case by (simp add: ansi_literal)
next
  case (spell_hex h1 a h2 b e s)
  have "ansi_escape CHR ''x'' (h1 # h2 # e) = ([char_of (a * 16 + b)], e)"
    using spell_hex by (simp add: ansi_escape_def simple_escape_def take_hex_def numeral_2_eq_2)
  then show ?case using spell_hex by simp
next
  case (spell_octal o1 a o2 b o3 c e s)
  have "ansi_escape o1 (o2 # o3 # e) = ([char_of ((a * 8 + b) * 8 + c)], e)"
    using spell_octal octal_not_simple [OF spell_octal(1)]
    by (simp add: ansi_escape_def numeral_2_eq_2)
  then show ?case using spell_octal by simp
next
  case (spell_named sel c e s)
  then show ?case by (simp add: ansi_escape_def)
qed

lemma unescape_ansi_spelling: "ansi_spelling e s \<Longrightarrow> valid_utf8 s \<Longrightarrow> unescape_ansi_c e = s"
  by (simp add: unescape_ansi_c_def ansi_spelling_decodes from_utf8_lossy_valid)

section \<open>Tokens\<close>

definition is_flag_token :: "string \<Rightarrow> bool" where
  "is_flag_token text \<longleftrightarrow> prefix ''-'' text \<and> 1 < length text"

text \<open>\<open>rsplit(['/', '\\']).next()\<close>, lowercase, one trailing \<open>.exe\<close> stripped.\<close>

definition normalize_program :: "unicode \<Rightarrow> string \<Rightarrow> string" where
  "normalize_program U text =
     (let basename = str_to_lowercase U (after_last {slash, backslash} text)
      in unwrap_or (strip_suffix ''.exe'' basename) basename)"

definition is_env_assignment :: "string \<Rightarrow> bool" where
  "is_env_assignment text =
     (case split_once CHR ''='' text of
        Some (name, _) \<Rightarrow>
          name \<noteq> [] \<and> \<not> is_digit (hd name) \<and> list_all (\<lambda>c. is_alnum c \<or> c = CHR ''_'') name
      | None \<Rightarrow> False)"

lemma normalize_program_ascii:
  assumes "list_all is_ascii text"
  shows "slash \<notin> set (normalize_program U text)" "backslash \<notin> set (normalize_program U text)"
    "list_all (\<lambda>c. \<not> is_upper c) (normalize_program U text)"
proof -
  let ?b = "after_last {slash, backslash} text"
  have a: "list_all is_ascii ?b"
    using assms by (auto simp: after_last_def list_all_iff dest!: set_takeWhileD)
  then have b: "str_to_lowercase U ?b = map ascii_lower ?b" by (simp add: str_to_lowercase_def)
  have sub: "set (normalize_program U text) \<subseteq> set (map ascii_lower ?b)"
    by (auto simp: normalize_program_def Let_def b unwrap_or_def strip_suffix_def
        dest: in_set_takeD split: option.splits if_splits)
  show "slash \<notin> set (normalize_program U text)" "backslash \<notin> set (normalize_program U text)"
    using subsetD [OF sub, of slash] subsetD [OF sub, of backslash]
      after_last_no_sep [of slash "{slash, backslash}" "text"]
      after_last_no_sep [of backslash "{slash, backslash}" "text"]
    by (auto simp: image_iff)
  show "list_all (\<lambda>c. \<not> is_upper c) (normalize_program U text)"
    using sub by (auto simp: list_all_iff)
qed

section \<open>Raw Windows paths\<close>

definition can_precede_relative_windows_separator :: "string \<Rightarrow> bool" where
  "can_precede_relative_windows_separator component =
     (case component of [] \<Rightarrow> False | c # _ \<Rightarrow> is_alnum c \<or> c = CHR ''.'' \<or> c = CHR ''_'')"

definition can_signal_relative_windows_path_after_separator :: "string \<Rightarrow> bool" where
  "can_signal_relative_windows_path_after_separator component =
     (case component of [] \<Rightarrow> False
      | c # _ \<Rightarrow> is_alnum c \<or> c = CHR ''_'' \<or> c = CHR ''*'' \<or> c = CHR 0x3F)"

fun relative_windows_loop :: "string \<Rightarrow> string list \<Rightarrow> bool" where
  "relative_windows_loop previous [] = False"
| "relative_windows_loop previous (current # components) =
     (if current = [] then False
      else if can_precede_relative_windows_separator previous
           \<and> can_signal_relative_windows_path_after_separator current then True
      else relative_windows_loop current components)"

definition looks_like_relative_windows_path :: "string \<Rightarrow> bool" where
  "looks_like_relative_windows_path text =
     (case split_on backslash text of
        [] \<Rightarrow> False
      | previous # components \<Rightarrow>
          if previous = [] then False else relative_windows_loop previous components)"

definition has_drive_prefix :: "string \<Rightarrow> bool" where
  "has_drive_prefix text =
     (case text of
        a # b # c # _ \<Rightarrow> is_alpha a \<and> b = CHR '':'' \<and> (c = backslash \<or> c = slash)
      | _ \<Rightarrow> False)"

definition looks_like_raw_windows_path :: "string \<Rightarrow> bool" where
  "looks_like_raw_windows_path text \<longleftrightarrow>
     prefix [backslash, backslash] text
     \<or> prefix [CHR ''.'', backslash] text
     \<or> prefix [CHR ''.'', CHR ''.'', backslash] text
     \<or> (case strip_prefix [backslash] text of
          Some r \<Rightarrow> looks_like_relative_windows_path r | None \<Rightarrow> False)
     \<or> looks_like_relative_windows_path text
     \<or> has_drive_prefix text"

lemma relative_windows_needs_backslash:
  "looks_like_relative_windows_path text \<Longrightarrow> backslash \<in> set text"
proof (rule ccontr)
  assume a: "looks_like_relative_windows_path text" and n: "backslash \<notin> set text"
  have "backslash \<notin> set s \<Longrightarrow> split_on backslash s = [s]" for s by (induction s) auto
  with a n show False
    by (simp add: looks_like_relative_windows_path_def split: if_splits)
qed

end
