(* ===== verification/Shell_Parse.thy ===== *)
theory Shell_Parse
  imports Shell_Lex Json "HOL-Library.Char_ord" "HOL-Library.List_Lexorder"
begin

text \<open>
  The structured view of a shell command (\<open>crates/policy/cedar/src/shell_parse.rs\<close>): the
  record with its scoped token sets, the wrapper table, literal text of a syntax node, and the
  recursive walk over the syntax tree with its two depth limits.

  The grammar is \<open>tree-sitter-bash\<close>'s and is a parameter: a function from the command text to
  its syntax tree, or nothing when the grammar cannot be loaded or parsing fails. A \<open>BTreeSet\<close>
  is a set; it is listed in ascending order where it is serialized.

  Both depth limits count down instead of up: \<open>visit\<close> and \<open>classify_invocation\<close> take the
  number of levels left, \<open>MAX_TREE_DEPTH + 1 - tree_depth\<close>, so that \<open>0\<close> is the guard
  \<open>tree_depth > MAX_TREE_DEPTH\<close>; a re-parse is available while levels are left in
  \<open>MAX_REPARSE_DEPTH - reparse_depth\<close>.
\<close>

section \<open>Constants and the wrapper table\<close>

definition MAX_COMMAND_BYTES :: nat where "MAX_COMMAND_BYTES = 256 * 1024"
definition MAX_REPARSE_DEPTH :: nat where "MAX_REPARSE_DEPTH = 4"
definition MAX_TREE_DEPTH :: nat where "MAX_TREE_DEPTH = 512"

record wrapper =
  wr_name :: string
  wr_value_flags :: "string list"

definition WRAPPERS :: "wrapper list" where
  "WRAPPERS =
    [\<lparr>wr_name = ''sudo'', wr_value_flags = [''-u'', ''-g'', ''-p'', ''-C'', ''-D'', ''-h'', ''-R'',
        ''-T'', ''-U'', ''-r'', ''-t'', ''--user'', ''--group'', ''--prompt'', ''--close-from'',
        ''--chdir'', ''--host'', ''--role'', ''--type'', ''--login-class'']\<rparr>,
     \<lparr>wr_name = ''doas'', wr_value_flags = [''-u'', ''-C'']\<rparr>,
     \<lparr>wr_name = ''xargs'', wr_value_flags = [''-a'', ''-d'', ''-E'', ''-e'', ''-I'', ''-i'', ''-L'',
        ''-l'', ''-n'', ''-P'', ''-s'', ''--arg-file'', ''--delimiter'', ''--eof'', ''--replace'',
        ''--max-lines'', ''--max-args'', ''--max-procs'', ''--max-chars'', ''--process-slot-var'']\<rparr>,
     \<lparr>wr_name = ''timeout'', wr_value_flags = [''-s'', ''-k'', ''--signal'', ''--kill-after'']\<rparr>,
     \<lparr>wr_name = ''nice'', wr_value_flags = [''-n'', ''--adjustment'']\<rparr>,
     \<lparr>wr_name = ''env'', wr_value_flags = [''-u'', ''-S'', ''-C'', ''--unset'', ''--chdir'',
        ''--split-string'', ''--argv0'']\<rparr>,
     \<lparr>wr_name = ''stdbuf'', wr_value_flags = [''-i'', ''-o'', ''-e'', ''--input'', ''--output'',
        ''--error'']\<rparr>,
     \<lparr>wr_name = ''exec'', wr_value_flags = [''-a'']\<rparr>,
     \<lparr>wr_name = ''nohup'', wr_value_flags = []\<rparr>,
     \<lparr>wr_name = ''setsid'', wr_value_flags = []\<rparr>,
     \<lparr>wr_name = ''command'', wr_value_flags = []\<rparr>]"

definition wrapper_spec :: "string \<Rightarrow> wrapper option" where
  "wrapper_spec name = find (\<lambda>w. wr_name w = name) WRAPPERS"

definition SHELLS :: "string list" where
  "SHELLS = [''bash'', ''sh'', ''zsh'', ''dash'', ''ash'']"

definition wrapper_flag_consumes_value :: "wrapper \<Rightarrow> string \<Rightarrow> bool" where
  "wrapper_flag_consumes_value w text \<longleftrightarrow> CHR ''='' \<notin> set text \<and> text \<in> set (wr_value_flags w)"

section \<open>The record\<close>

record shell_parse =
  sp_ok :: bool
  sp_programs :: "string set"
  sp_program_flags :: "string set"
  sp_program_flags_normalized :: "string set"
  sp_program_args :: "string set"
  sp_program_args_normalized :: "string set"
  sp_program_arg_path_components_normalized :: "string set"
  sp_has_dynamic_command :: bool
  sp_has_command_substitution :: bool
  sp_has_pipeline :: bool
  sp_has_redirection :: bool

definition shell_parse_default :: shell_parse where
  "shell_parse_default =
     \<lparr>sp_ok = False, sp_programs = {}, sp_program_flags = {}, sp_program_flags_normalized = {},
      sp_program_args = {}, sp_program_args_normalized = {},
      sp_program_arg_path_components_normalized = {}, sp_has_dynamic_command = False,
      sp_has_command_substitution = False, sp_has_pipeline = False, sp_has_redirection = False\<rparr>"

definition set_json :: "string set \<Rightarrow> json" where
  "set_json s = JArr (map JStr (sorted_list_of_set s))"

definition shell_to_cedar_json :: "shell_parse \<Rightarrow> json" where
  "shell_to_cedar_json p = JObj
     [(''ok'', JBool (sp_ok p)),
      (''programs'', set_json (sp_programs p)),
      (''program_flags'', set_json (sp_program_flags p)),
      (''program_flags_normalized'', set_json (sp_program_flags_normalized p)),
      (''program_args'', set_json (sp_program_args p)),
      (''program_args_normalized'', set_json (sp_program_args_normalized p)),
      (''program_arg_path_components_normalized'',
         set_json (sp_program_arg_path_components_normalized p)),
      (''has_dynamic_command'', JBool (sp_has_dynamic_command p)),
      (''has_command_substitution'', JBool (sp_has_command_substitution p)),
      (''has_pipeline'', JBool (sp_has_pipeline p)),
      (''has_redirection'', JBool (sp_has_redirection p))]"

definition merge :: "shell_parse \<Rightarrow> shell_parse \<Rightarrow> shell_parse" where
  "merge self other =
     self\<lparr>sp_ok := sp_ok self \<and> sp_ok other,
       sp_programs := sp_programs self \<union> sp_programs other,
       sp_program_flags := sp_program_flags self \<union> sp_program_flags other,
       sp_program_flags_normalized :=
         sp_program_flags_normalized self \<union> sp_program_flags_normalized other,
       sp_program_args := sp_program_args self \<union> sp_program_args other,
       sp_program_args_normalized :=
         sp_program_args_normalized self \<union> sp_program_args_normalized other,
       sp_program_arg_path_components_normalized :=
         sp_program_arg_path_components_normalized self
           \<union> sp_program_arg_path_components_normalized other,
       sp_has_dynamic_command := sp_has_dynamic_command self \<or> sp_has_dynamic_command other,
       sp_has_command_substitution :=
         sp_has_command_substitution self \<or> sp_has_command_substitution other,
       sp_has_pipeline := sp_has_pipeline self \<or> sp_has_pipeline other,
       sp_has_redirection := sp_has_redirection self \<or> sp_has_redirection other\<rparr>"

definition scoped :: "string \<Rightarrow> string \<Rightarrow> string" where
  "scoped prog token = prog @ '':'' @ token"

definition insert_normalized_arg_view :: "string \<Rightarrow> string \<Rightarrow> shell_parse \<Rightarrow> shell_parse" where
  "insert_normalized_arg_view prog normalized out =
     out\<lparr>sp_program_args_normalized := insert (scoped prog normalized) (sp_program_args_normalized out),
       sp_program_arg_path_components_normalized :=
         sp_program_arg_path_components_normalized out
           \<union> scoped prog ` set (filter (\<lambda>c. c \<noteq> []) (split_on slash normalized))\<rparr>"

definition insert_arg ::
  "unicode \<Rightarrow> string \<Rightarrow> string \<Rightarrow> string option \<Rightarrow> shell_parse \<Rightarrow> shell_parse" where
  "insert_arg U prog text raw_windows_source out =
     (let out = out\<lparr>sp_program_args := insert (scoped prog text) (sp_program_args out)\<rparr>;
          normalized = normalize_path_value U text;
          out = insert_normalized_arg_view prog normalized out
      in case raw_windows_source of
           Some raw_source \<Rightarrow>
             (let raw_normalized = normalize_path_value U raw_source
              in if raw_normalized \<noteq> normalized
                 then insert_normalized_arg_view prog raw_normalized out else out)
         | None \<Rightarrow> out)"

text \<open>One flag token filed both raw and normalized.\<close>

definition file_flag :: "unicode \<Rightarrow> string \<Rightarrow> string \<Rightarrow> string \<Rightarrow> shell_parse \<Rightarrow> shell_parse" where
  "file_flag U prog token normalized out =
     out\<lparr>sp_program_flags := insert (scoped prog token) (sp_program_flags out),
       sp_program_flags_normalized :=
         insert (scoped prog normalized) (sp_program_flags_normalized out)\<rparr>"

definition insert_flag :: "unicode \<Rightarrow> string \<Rightarrow> string \<Rightarrow> shell_parse \<Rightarrow> shell_parse" where
  "insert_flag U prog text out =
     (case strip_prefix ''--'' text of
        Some rest \<Rightarrow>
          (let name = (case split_once CHR ''='' rest of None \<Rightarrow> rest | Some (name, _) \<Rightarrow> name)
           in file_flag U prog (''--'' @ name) (''--'' @ normalize_path_value U name) out)
      | None \<Rightarrow>
          (let out = file_flag U prog text (normalize_path_value U text) out
           in case strip_prefix ''-'' text of
                None \<Rightarrow> out
              | Some body \<Rightarrow>
                  if body \<noteq> [] \<and> list_all is_alpha body
                  then foldl (\<lambda>out c. file_flag U prog [CHR ''-'', c]
                         (normalize_path_value U [CHR ''-'', c]) out) out body
                  else out))"

section \<open>Syntax trees\<close>

text \<open>
  A node of the syntax tree: its kind, the source text it spans when that is UTF-8, whether an
  error or missing node lies below it, and its children in order, each named or anonymous and
  with the grammar field it fills.
\<close>

datatype tnode =
    Node (tn_kind: string) (tn_text: "string option") (tn_error: bool) (tn_children: "tchild list")
and tchild = Child (ch_named: bool) (ch_field: "string option") (ch_node: tnode)

definition named_children :: "tnode \<Rightarrow> tnode list" where
  "named_children n = map ch_node (filter ch_named (tn_children n))"

type_synonym grammar = "string \<Rightarrow> tnode option"

lemma named_child_size: "c \<in> set (named_children n) \<Longrightarrow> size c < size n"
proof -
  assume "c \<in> set (named_children n)"
  then obtain k t e cs nm f where n: "n = Node k t e cs" and m: "Child nm f c \<in> set cs"
    by (cases n) (auto simp: named_children_def, metis tchild.exhaust_sel)
  have "size (Child nm f c) \<le> size_list size cs"
    using m by (rule size_list_estimation') simp
  then show ?thesis using n by simp
qed

text \<open>The text between two delimiters, or the whole text when they are not both there.\<close>

definition strip_quotes :: "string \<Rightarrow> string \<Rightarrow> string \<Rightarrow> string" where
  "strip_quotes pre suf text =
     unwrap_or (Option.bind (strip_prefix pre text) (strip_suffix suf)) text"

function literal_text :: "tnode \<Rightarrow> string option" where
  "literal_text node =
     (let kind = tn_kind node in
      if kind = ''word'' then map_option unescape_unquoted_word (tn_text node)
      else if kind = ''number'' then
        (if named_children node = [] then map_option unescape_unquoted_word (tn_text node) else None)
      else if kind = ''raw_string'' then
        map_option (strip_quotes [squote] [squote]) (tn_text node)
      else if kind = ''ansi_c_string'' then
        map_option (\<lambda>text.
          case Option.bind (strip_prefix [CHR 0x24, squote] text) (strip_suffix [squote]) of
            None \<Rightarrow> text
          | Some inner \<Rightarrow> unescape_ansi_c inner) (tn_text node)
      else if kind = ''string'' then
        (if list_all (\<lambda>child. tn_kind child = ''string_content'') (named_children node)
         then map_option (unescape_double_quoted \<circ> strip_quotes [dquote] [dquote]) (tn_text node)
         else None)
      else if kind = ''concatenation'' then
        map_option concat (those (map literal_text (named_children node)))
      else None)"
  by pat_completeness auto
termination
  by (relation "measure size") (simp_all add: named_child_size)

declare literal_text.simps [simp del]

definition raw_windows_path_source :: "tnode \<Rightarrow> string option" where
  "raw_windows_path_source arg =
     (if tn_kind arg \<noteq> ''word'' \<and> tn_kind arg \<noteq> ''number'' then None
      else (case tn_text arg of
              None \<Rightarrow> None
            | Some text \<Rightarrow> if looks_like_raw_windows_path text then Some text else None))"

section \<open>Steps of the walk\<close>

text \<open>
  Each step takes the calls it makes one level deeper as arguments: \<open>vis\<close> is \<open>visit\<close> and
  \<open>cls\<close> is \<open>classify_invocation\<close> there.
\<close>

type_synonym visitor = "tnode \<Rightarrow> shell_parse \<Rightarrow> shell_parse"
type_synonym classifier = "string \<Rightarrow> tnode list \<Rightarrow> shell_parse \<Rightarrow> shell_parse"

definition mine_args :: "visitor \<Rightarrow> tnode list \<Rightarrow> shell_parse \<Rightarrow> shell_parse" where
  "mine_args vis args out = foldl (\<lambda>out arg. vis arg out) out args"

definition classify_arg ::
  "unicode \<Rightarrow> visitor \<Rightarrow> string \<Rightarrow> tnode \<Rightarrow> bool \<times> shell_parse \<Rightarrow> bool \<times> shell_parse" where
  "classify_arg U vis prog arg st =
     (case st of (positional_only, out) \<Rightarrow>
        (case literal_text arg of
           None \<Rightarrow> (positional_only, vis arg out)
         | Some text \<Rightarrow>
             if positional_only then
               (positional_only, insert_arg U prog text (raw_windows_path_source arg) out)
             else if text = ''--'' then (True, out)
             else if \<not> is_flag_token text then
               (positional_only, insert_arg U prog text (raw_windows_path_source arg) out)
             else (positional_only, insert_flag U prog text out)))"

definition classify_args ::
  "unicode \<Rightarrow> visitor \<Rightarrow> string \<Rightarrow> tnode list \<Rightarrow> nat option \<Rightarrow> shell_parse \<Rightarrow> shell_parse" where
  "classify_args U vis prog args skip out =
     snd (foldl (\<lambda>st (idx, arg). if Some idx = skip then st else classify_arg U vis prog arg st)
            (False, out) (List.enumerate 0 args))"

fun find_c_loop :: "bool \<Rightarrow> nat \<Rightarrow> tnode list \<Rightarrow> (nat \<times> string) option" where
  "find_c_loop seen_c idx [] = None"
| "find_c_loop seen_c idx (arg # args) =
     (case literal_text arg of
        None \<Rightarrow> find_c_loop seen_c (Suc idx) args
      | Some text \<Rightarrow>
          if seen_c then
            (if \<not> prefix ''-'' text then Some (idx, text) else find_c_loop seen_c (Suc idx) args)
          else (case strip_prefix ''-'' text of
                  Some body \<Rightarrow>
                    find_c_loop (\<not> prefix ''-'' body \<and> CHR ''c'' \<in> set body) (Suc idx) args
                | None \<Rightarrow> find_c_loop seen_c (Suc idx) args))"

definition find_c_script :: "tnode list \<Rightarrow> (nat \<times> string) option" where
  "find_c_script args = find_c_loop False 0 args"

text \<open>
  \<open>reparse\<close> is \<open>parse_with_depth\<close> at the next re-parse depth, or nothing when
  \<open>reparse_depth\<close> has reached its cap.
\<close>

type_synonym reparser = "(string \<Rightarrow> shell_parse) option"

definition eval_parts :: "visitor \<Rightarrow> tnode list \<Rightarrow> shell_parse \<Rightarrow> string list \<times> shell_parse" where
  "eval_parts vis args out =
     foldl (\<lambda>(parts, out) arg. case literal_text arg of
              Some text \<Rightarrow> (parts @ [text], out)
            | None \<Rightarrow> (parts, vis arg out)) ([], out) args"

definition handle_eval :: "reparser \<Rightarrow> visitor \<Rightarrow> tnode list \<Rightarrow> shell_parse \<Rightarrow> shell_parse" where
  "handle_eval reparse vis args out =
     (case eval_parts vis args out of
        (parts, out) \<Rightarrow>
          if parts = [] then out
          else (case reparse of
                  None \<Rightarrow> out\<lparr>sp_ok := False\<rparr>
                | Some parse \<Rightarrow> merge out (parse (join '' '' parts))))"

fun peel_loop ::
  "unicode \<Rightarrow> visitor \<Rightarrow> classifier \<Rightarrow> wrapper \<Rightarrow> tnode list \<Rightarrow> nat \<Rightarrow> bool \<Rightarrow> shell_parse \<Rightarrow> shell_parse"
  where
  "peel_loop U vis cls w [] skip_positionals opts_ended out = out"
| "peel_loop U vis cls w (arg # rest) skip_positionals opts_ended out =
     (case literal_text arg of
        None \<Rightarrow> mine_args vis (arg # rest) (out\<lparr>sp_has_dynamic_command := True\<rparr>)
      | Some text \<Rightarrow>
          if \<not> opts_ended \<and> text = ''--'' then peel_loop U vis cls w rest skip_positionals True out
          else if \<not> opts_ended \<and> wr_name w = ''env'' \<and> is_env_assignment text then
            peel_loop U vis cls w rest skip_positionals opts_ended out
          else if \<not> opts_ended \<and> is_flag_token text then
            (let out = insert_flag U (wr_name w) text out in
             if wrapper_flag_consumes_value w text then
               (case rest of
                  [] \<Rightarrow> out
                | v # rest' \<Rightarrow>
                    peel_loop U vis cls w rest' skip_positionals opts_ended
                      (if literal_text v = None then vis v out else out))
             else peel_loop U vis cls w rest skip_positionals opts_ended out)
          else if 0 < skip_positionals then
            peel_loop U vis cls w rest (skip_positionals - 1) opts_ended
              (insert_arg U (wr_name w) text (raw_windows_path_source arg) out)
          else
            (let nested = normalize_program U text in
             if nested = [] then
               peel_loop U vis cls w rest skip_positionals opts_ended
                 (insert_arg U (wr_name w) text (raw_windows_path_source arg) out)
             else
               (let out = cls nested rest out
                in out\<lparr>sp_programs := insert nested (sp_programs out)\<rparr>)))"

definition peel_wrapper ::
  "unicode \<Rightarrow> visitor \<Rightarrow> classifier \<Rightarrow> wrapper \<Rightarrow> tnode list \<Rightarrow> shell_parse \<Rightarrow> shell_parse" where
  "peel_wrapper U vis cls w args out =
     peel_loop U vis cls w args (if wr_name w = ''timeout'' then 1 else 0) False out"

definition classify_step ::
  "unicode \<Rightarrow> reparser \<Rightarrow> visitor \<Rightarrow> classifier \<Rightarrow> classifier" where
  "classify_step U reparse vis cls prog args out =
     (case wrapper_spec prog of
        Some spec \<Rightarrow> peel_wrapper U vis cls spec args out
      | None \<Rightarrow>
          if prog = ''eval'' then handle_eval reparse vis args out
          else (case (if prog \<in> set SHELLS then find_c_script args else None) of
                  Some (script_idx, script) \<Rightarrow>
                    classify_args U vis prog args (Some script_idx)
                      (case reparse of
                         Some parse \<Rightarrow> merge out (parse script)
                       | None \<Rightarrow> out\<lparr>sp_ok := False\<rparr>)
                | None \<Rightarrow> classify_args U vis prog args None out))"

text \<open>The children of a command: the name, the arguments, and the rest walked on the way.\<close>

definition command_child ::
  "visitor \<Rightarrow> tnode option \<times> tnode list \<times> shell_parse \<Rightarrow> tchild
     \<Rightarrow> tnode option \<times> tnode list \<times> shell_parse" where
  "command_child vis st child =
     (case st of (name_node, args, out) \<Rightarrow>
        if \<not> ch_named child then st
        else if ch_field child = Some ''name'' then (Some (ch_node child), args, out)
        else if ch_field child = Some ''argument'' then (name_node, args @ [ch_node child], out)
        else (name_node, args, vis (ch_node child) out))"

definition first_named :: "tnode \<Rightarrow> tnode option" where
  "first_named n = (case named_children n of [] \<Rightarrow> None | c # _ \<Rightarrow> Some c)"

definition handle_command :: "unicode \<Rightarrow> visitor \<Rightarrow> classifier \<Rightarrow> tnode \<Rightarrow> shell_parse \<Rightarrow> shell_parse"
  where
  "handle_command U vis cls node out =
     (case foldl (command_child vis) (None, [], out) (tn_children node) of
        (name_node, args, out) \<Rightarrow>
          (case Option.bind name_node first_named of
             None \<Rightarrow> mine_args vis args out
           | Some inner \<Rightarrow>
               (case literal_text inner of
                  None \<Rightarrow> mine_args vis args (vis inner (out\<lparr>sp_has_dynamic_command := True\<rparr>))
                | Some text \<Rightarrow>
                    (let prog = normalize_program U text in
                     if prog = [] then mine_args vis args out
                     else
                       (let out = cls prog args out
                        in out\<lparr>sp_programs := insert prog (sp_programs out)\<rparr>)))))"

definition mark_structure :: "string \<Rightarrow> shell_parse \<Rightarrow> shell_parse" where
  "mark_structure kind out =
     (if kind = ''pipeline'' then out\<lparr>sp_has_pipeline := True\<rparr>
      else if kind = ''command_substitution'' \<or> kind = ''process_substitution'' then
        out\<lparr>sp_has_command_substitution := True\<rparr>
      else if kind = ''file_redirect'' \<or> kind = ''heredoc_redirect'' \<or> kind = ''herestring_redirect''
      then out\<lparr>sp_has_redirection := True\<rparr>
      else out)"

text \<open>\<open>cls\<close> here is the classifier of the same level, \<open>vis\<close> the visitor one level deeper.\<close>

definition visit_step :: "unicode \<Rightarrow> visitor \<Rightarrow> classifier \<Rightarrow> visitor" where
  "visit_step U vis cls node out =
     (if tn_kind node = ''command'' then handle_command U vis cls node out
      else foldl (\<lambda>out child. vis child out) (mark_structure (tn_kind node) out)
             (named_children node))"

section \<open>The walk\<close>

function visit :: "unicode \<Rightarrow> reparser \<Rightarrow> nat \<Rightarrow> visitor"
  and classify_invocation :: "unicode \<Rightarrow> reparser \<Rightarrow> nat \<Rightarrow> classifier" where
  "visit U reparse 0 node out = out\<lparr>sp_ok := False\<rparr>"
| "visit U reparse (Suc n) node out =
     visit_step U (visit U reparse n) (classify_invocation U reparse (Suc n)) node out"
| "classify_invocation U reparse 0 prog args out = out\<lparr>sp_ok := False\<rparr>"
| "classify_invocation U reparse (Suc n) prog args out =
     classify_step U reparse (visit U reparse n) (classify_invocation U reparse n) prog args out"
  by pat_completeness auto
termination
  by (relation "measure (\<lambda>x. case x of Inl (_, _, n, _) \<Rightarrow> 2 * n + 1 | Inr (_, _, n, _) \<Rightarrow> 2 * n)")
    simp_all

definition parse_step :: "unicode \<Rightarrow> grammar \<Rightarrow> reparser \<Rightarrow> string \<Rightarrow> shell_parse" where
  "parse_step U parse reparse command =
     (if MAX_COMMAND_BYTES < length command then shell_parse_default
      else (case parse command of
              None \<Rightarrow> shell_parse_default
            | Some root \<Rightarrow>
                visit U reparse (MAX_TREE_DEPTH + 1) root
                  (shell_parse_default\<lparr>sp_ok := \<not> tn_error root\<rparr>)))"

primrec parse_levels :: "unicode \<Rightarrow> grammar \<Rightarrow> nat \<Rightarrow> string \<Rightarrow> shell_parse" where
  "parse_levels U parse 0 = parse_step U parse None"
| "parse_levels U parse (Suc k) = parse_step U parse (Some (parse_levels U parse k))"

definition parse_with_depth :: "unicode \<Rightarrow> grammar \<Rightarrow> string \<Rightarrow> nat \<Rightarrow> shell_parse" where
  "parse_with_depth U parse command reparse_depth =
     parse_levels U parse (MAX_REPARSE_DEPTH - reparse_depth) command"

definition analyze_shell_command :: "unicode \<Rightarrow> grammar \<Rightarrow> string \<Rightarrow> shell_parse" where
  "analyze_shell_command U parse command = parse_with_depth U parse command 0"

lemma analyze_step:
  "analyze_shell_command U parse command = parse_step U parse (Some (parse_levels U parse 3)) command"
  by (simp add: analyze_shell_command_def parse_with_depth_def MAX_REPARSE_DEPTH_def numeral_eq_Suc)

lemma visit_numeral [simp]:
  "visit U rp (numeral k) node out =
     visit_step U (visit U rp (pred_numeral k)) (classify_invocation U rp (numeral k)) node out"
  "classify_invocation U rp (numeral k) prog args out =
     classify_step U rp (visit U rp (pred_numeral k)) (classify_invocation U rp (pred_numeral k))
       prog args out"
  by (simp_all add: numeral_eq_Suc)

end
