(* ===== verification/Transform.thy ===== *)
theory Transform
  imports Entity_Store Policy_Model Signature Shell_Parse Path_Url
begin

text \<open>
  From a trajectory event to a Cedar request and back from Cedar's response to an
  adjudication (\<open>crates/policy/cedar/src/transform.rs\<close>). Each arm of \<open>build_request\<close> is one
  definition; the effects on the entity store happen in the order the source has them.

  The record \<open>harness\<close> holds what the running harness holds: Cedar, the optional classifiers,
  and the third-party functions the arms call. A classification that misses its five-second
  budget is a content for which \<open>hs_label_in_time\<close> or \<open>hs_policy_in_time\<close> is false.
\<close>

record harness =
  hs_cedar :: cedar
  hs_faults :: faults
  hs_unicode :: unicode
  hs_grammar :: grammar
  hs_url :: url_parser
  hs_yara :: yara_engine
  hs_json :: json_writer
  hs_sha_hex :: hasher
  hs_debug :: "trajectory_event \<Rightarrow> string"
  hs_data_model :: "data_model option"
  hs_policy_model :: "policy_model option"
  hs_label_in_time :: "string \<Rightarrow> bool"
  hs_policy_in_time :: "string \<Rightarrow> bool"
  hs_mode :: mode

section \<open>Context fragments\<close>

record policy_context =
  pcx_compliant :: bool
  pcx_violations :: "string set"

definition unjudged :: policy_context where
  "unjudged = \<lparr>pcx_compliant = True, pcx_violations = {}\<rparr>"

definition policy_context_from :: "policy_classification \<Rightarrow> policy_context" where
  "policy_context_from c = \<lparr>pcx_compliant = pcl_compliant c, pcx_violations = pcl_codes c\<rparr>"

definition policy_context_json :: "policy_context \<Rightarrow> json" where
  "policy_context_json p =
     JObj [(''compliant'', JBool (pcx_compliant p)), (''violations'', set_json (pcx_violations p))]"

definition workspace_context :: "event \<Rightarrow> json" where
  "workspace_context e =
     (let cwd = (case ev_event e of
            Action (ShellCommand c) \<Rightarrow> unwrap_or (shc_working_dir c) []
          | _ \<Rightarrow> [])
      in JObj [(''cwd'', JStr cwd)])"

definition classify_label :: "data_model option \<Rightarrow> (string \<Rightarrow> bool) \<Rightarrow> string \<Rightarrow> label" where
  "classify_label model in_time content =
     (case model of
        None \<Rightarrow> Public
      | Some m \<Rightarrow>
          if content = [] then Public
          else if \<not> in_time content then Public
          else (case dm_classify m content of
                  Inr classification \<Rightarrow> max_label classification
                | Inl _ \<Rightarrow> Public))"

definition classify_policy :: "policy_model option \<Rightarrow> (string \<Rightarrow> bool) \<Rightarrow> string \<Rightarrow> policy_context" where
  "classify_policy model in_time content =
     (case model of
        None \<Rightarrow> unjudged
      | Some m \<Rightarrow>
          if content = [] then unjudged
          else if \<not> in_time content then unjudged
          else (case evaluate_content m content of
                  Inr classification \<Rightarrow> policy_context_from classification
                | Inl _ \<Rightarrow> unjudged))"

definition label_of_content :: "harness \<Rightarrow> string \<Rightarrow> label" where
  "label_of_content H content = classify_label (hs_data_model H) (hs_label_in_time H) content"

definition classify :: "harness \<Rightarrow> string \<Rightarrow> label \<times> policy_context" where
  "classify H content =
     (label_of_content H content,
      classify_policy (hs_policy_model H) (hs_policy_in_time H) content)"

definition signature_json :: "signature_context \<Rightarrow> json" where
  "signature_json sig = JObj
     [(''matches'', JInt (int (length (sg_matches sig)))),
      (''categories'', set_json (sg_categories sig)),
      (''severity'', JInt (sint (severity_i64 (sg_severity sig))))]"

section \<open>Trajectory updates\<close>

text \<open>Create if absent, and count this step.\<close>

definition count_step :: "cedar \<Rightarrow> string \<Rightarrow> entity option \<Rightarrow> string + entity option" where
  "count_step C tid existing =
     (let t = (case existing of Some e \<Rightarrow> traj_from_entity e | None \<Rightarrow> traj_new tid)
      in bind_result (traj_into_entity C (t\<lparr>tr_step_count := tr_step_count t + 1\<rparr>))
           (\<lambda>e. Inr (Some e)))"

definition raise_label :: "cedar \<Rightarrow> label \<Rightarrow> entity option \<Rightarrow> string + entity option" where
  "raise_label C l existing =
     (case existing of
        None \<Rightarrow> Inr None
      | Some entity \<Rightarrow>
          (let t = traj_from_entity entity in
           if level l \<le> level (tr_label t) then Inr None
           else bind_result (traj_into_entity C (t\<lparr>tr_label := l\<rparr>)) (\<lambda>e. Inr (Some e))))"

definition mark_trajectory_label :: "harness \<Rightarrow> euid \<Rightarrow> label \<Rightarrow> unit io" where
  "mark_trajectory_label H trajectory_uid l =
     update_entity (hs_faults H) trajectory_uid (raise_label (hs_cedar H) l)"

section \<open>The arms of \<open>build_request\<close>\<close>

text \<open>What an arm hands to \<open>Request::new\<close>: action, resource, context.\<close>

type_synonym request_parts = "euid \<times> euid \<times> json"

definition lift_euid :: "harness \<Rightarrow> string \<Rightarrow> string \<Rightarrow> euid io" where
  "lift_euid H type_name i = io_lift (euid (hs_cedar H) type_name i)"

definition lift_context :: "harness \<Rightarrow> json \<Rightarrow> json io" where
  "lift_context H j = io_lift (case cd_context_error (hs_cedar H) j of Some e \<Rightarrow> Inl e | None \<Rightarrow> Inr j)"

definition label_json :: "harness \<Rightarrow> euid \<Rightarrow> json" where
  "label_json H label_id = cd_uid_json (hs_cedar H) label_id"

definition prompt_request :: "harness \<Rightarrow> event \<Rightarrow> euid \<Rightarrow> prompt \<Rightarrow> request_parts io" where
  "prompt_request H e trajectory_id pr =
     io_bind (lift_euid H ''Message'' (ev_event_id e)) (\<lambda>message_id.
       let sig = scan (hs_yara H) (pr_content pr);
           l = label_of_content H (pr_content pr) in
       io_bind (lift_euid H ''Label'' (label_to_string l)) (\<lambda>label_id.
       io_bind (io_lift (eb_build (hs_cedar H)
           (eb_string (eb_string (eb_parent_uid (builder_new message_id) trajectory_id)
              ''content'' (pr_content pr))
              ''role'' (str_to_lowercase (hs_unicode H) (prompt_role_to_string (pr_role pr))))))
         (\<lambda>message.
       io_bind (upsert (hs_faults H) message) (\<lambda>_.
       io_bind (mark_trajectory_label H trajectory_id l) (\<lambda>_.
       io_bind (lift_context H (JObj
           [(''workspace'', workspace_context e),
            (''label'', label_json H label_id),
            (''signature'', signature_json sig)])) (\<lambda>context.
       io_bind (lift_euid H ''Action'' ''Prompt'') (\<lambda>action.
       io_bind (lift_euid H ''Message'' (ev_event_id e)) (\<lambda>resource.
       io_return (action, resource, context)))))))))"

definition tool_call_request :: "harness \<Rightarrow> event \<Rightarrow> euid \<Rightarrow> tool_call \<Rightarrow> request_parts io" where
  "tool_call_request H e trajectory_id tc =
     (let arguments = hs_json H (tc_arguments tc);
          content = tc_tool tc @ nl @ arguments;
          sig = scan (hs_yara H) content;
          (l, policy) = classify H content in
      io_bind (lift_euid H ''Label'' (label_to_string l)) (\<lambda>label_id.
      io_bind (mark_trajectory_label H trajectory_id l) (\<lambda>_.
      io_bind (lift_context H (JObj
          [(''workspace'', workspace_context e),
           (''tool'', JStr (tc_tool tc)),
           (''arguments'', JStr arguments),
           (''label'', label_json H label_id),
           (''policy'', policy_context_json policy),
           (''signature'', signature_json sig)])) (\<lambda>context.
      io_bind (lift_euid H ''Action'' ''PreToolUse'') (\<lambda>action.
      io_bind (lift_euid H ''Tool'' (tc_tool tc)) (\<lambda>resource.
      io_return (action, resource, context)))))))"

definition empty_signature_json :: json where
  "empty_signature_json = JObj [(''matches'', JInt 0), (''categories'', JArr []), (''severity'', JInt 0)]"

definition shell_command_request :: "harness \<Rightarrow> event \<Rightarrow> euid \<Rightarrow> shell_command \<Rightarrow> request_parts io" where
  "shell_command_request H e trajectory_id sc =
     (let working_dir = unwrap_or (shc_working_dir sc) [];
          sig = scan (hs_yara H) (shc_command sc);
          (l, policy) = classify H (shc_command sc) in
      io_bind (lift_euid H ''Label'' (label_to_string l)) (\<lambda>label_id.
      let parse = analyze_shell_command (hs_unicode H) (hs_grammar H) (shc_command sc) in
      io_bind (lift_context H (JObj
          [(''workspace'', workspace_context e),
           (''command'', JStr (shc_command sc)),
           (''working_dir'', JStr working_dir),
           (''label'', label_json H label_id),
           (''policy'', policy_context_json policy),
           (''signature'', signature_json sig),
           (''file_signature'', empty_signature_json),
           (''parse'', shell_to_cedar_json parse)])) (\<lambda>context.
      io_bind (lift_euid H ''Action'' ''ShellCommand'') (\<lambda>action.
      io_return (action, trajectory_id, context)))))"

definition web_fetch_request :: "harness \<Rightarrow> event \<Rightarrow> euid \<Rightarrow> web_fetch \<Rightarrow> request_parts io" where
  "web_fetch_request H e trajectory_id fetch =
     (let content = wf_url fetch @ nl @ wf_prompt fetch;
          sig = scan (hs_yara H) content;
          (l, policy) = classify H content in
      io_bind (lift_euid H ''Label'' (label_to_string l)) (\<lambda>label_id.
      let url_parse = parse_url (hs_url H) (wf_url fetch) in
      io_bind (lift_context H (JObj
          [(''workspace'', workspace_context e),
           (''url'', JStr (wf_url fetch)),
           (''prompt'', JStr (wf_prompt fetch)),
           (''label'', label_json H label_id),
           (''policy'', policy_context_json policy),
           (''signature'', signature_json sig),
           (''url_parse'', url_to_cedar_json url_parse)])) (\<lambda>context.
      io_bind (lift_euid H ''Action'' ''WebFetch'') (\<lambda>action.
      io_return (action, trajectory_id, context)))))"

definition scannable :: "file_operation \<Rightarrow> string" where
  "scannable fo =
     fo_path fo
     @ (case fo_content fo of Some c \<Rightarrow> nl @ c | None \<Rightarrow> [])
     @ (case fo_old_content fo of Some c \<Rightarrow> nl @ c | None \<Rightarrow> [])"

text \<open>A \<open>File\<close> entity carries nothing but the label of its content.\<close>

definition file_entity :: "harness \<Rightarrow> euid \<Rightarrow> label \<Rightarrow> string + entity" where
  "file_entity H file_id l =
     bind_result (eb_entity_ref (hs_cedar H) (builder_new file_id) ''label'' ''Label'' (label_to_string l))
       (eb_build (hs_cedar H))"

definition file_operation_request :: "harness \<Rightarrow> event \<Rightarrow> euid \<Rightarrow> file_operation \<Rightarrow> request_parts io" where
  "file_operation_request H e trajectory_id fo =
     (let sig = scan (hs_yara H) (scannable fo);
          (l, policy) = classify H (scannable fo) in
      io_bind (lift_euid H ''Label'' (label_to_string l)) (\<lambda>label_id.
      io_bind (lift_euid H ''File'' (fo_path fo)) (\<lambda>file_id.
      io_bind (io_lift (file_entity H file_id l)) (\<lambda>file.
      io_bind (upsert (hs_faults H) file) (\<lambda>_.
      io_bind (mark_trajectory_label H trajectory_id l) (\<lambda>_.
      io_bind (lift_context H (JObj
          [(''workspace'', workspace_context e),
           (''path'', JStr (fo_path fo)),
           (''path_normalized'', JStr (normalize_path_value (hs_unicode H) (fo_path fo))),
           (''operation'', JStr (file_op_to_string (fo_operation fo))),
           (''label'', label_json H label_id),
           (''policy'', policy_context_json policy),
           (''signature'', signature_json sig)])) (\<lambda>context.
      io_bind (lift_euid H ''Action'' (''File'' @ file_op_to_string (fo_operation fo))) (\<lambda>action.
      io_return (action, file_id, context)))))))))"

definition shell_output_request :: "harness \<Rightarrow> event \<Rightarrow> euid \<Rightarrow> shell_command_output \<Rightarrow> request_parts io"
  where
  "shell_output_request H e trajectory_id sco =
     (let content = sco_stdout sco @ nl @ sco_stderr sco;
          sig = scan (hs_yara H) content;
          (l, policy) = classify H content in
      io_bind (lift_euid H ''Label'' (label_to_string l)) (\<lambda>label_id.
      io_bind (mark_trajectory_label H trajectory_id l) (\<lambda>_.
      io_bind (lift_context H (JObj
          [(''workspace'', workspace_context e),
           (''command'', JStr []),
           (''working_dir'', JStr []),
           (''exit_code'', JInt (sint (sco_exit_code sco))),
           (''stdout'', JStr (sco_stdout sco)),
           (''stderr'', JStr (sco_stderr sco)),
           (''label'', label_json H label_id),
           (''policy'', policy_context_json policy),
           (''signature'', signature_json sig)])) (\<lambda>context.
      io_bind (lift_euid H ''Action'' ''ShellCommandOutput'') (\<lambda>action.
      io_return (action, trajectory_id, context))))))"

definition web_output_request :: "harness \<Rightarrow> event \<Rightarrow> euid \<Rightarrow> web_fetch_output \<Rightarrow> request_parts io" where
  "web_output_request H e trajectory_id wfo =
     (let sig = scan (hs_yara H) (wfo_result wfo);
          (l, policy) = classify H (wfo_result wfo) in
      io_bind (lift_euid H ''Label'' (label_to_string l)) (\<lambda>label_id.
      io_bind (mark_trajectory_label H trajectory_id l) (\<lambda>_.
      io_bind (lift_context H (JObj
          [(''workspace'', workspace_context e),
           (''url'', JStr (wfo_url wfo)),
           (''code'', JInt (sint (wfo_code wfo))),
           (''result'', JStr (wfo_result wfo)),
           (''label'', label_json H label_id),
           (''policy'', policy_context_json policy),
           (''signature'', signature_json sig)])) (\<lambda>context.
      io_bind (lift_euid H ''Action'' ''WebFetchOutput'') (\<lambda>action.
      io_return (action, trajectory_id, context))))))"

definition file_result_request :: "harness \<Rightarrow> event \<Rightarrow> euid \<Rightarrow> file_operation_result \<Rightarrow> request_parts io"
  where
  "file_result_request H e trajectory_id fo =
     (let path = unwrap_or (fr_path fo) [];
          content = unwrap_or (fr_content fo) [];
          sig = scan (hs_yara H) content;
          (l, policy) = classify H content in
      io_bind (lift_euid H ''Label'' (label_to_string l)) (\<lambda>label_id.
      io_bind (mark_trajectory_label H trajectory_id l) (\<lambda>_.
      io_bind (if path \<noteq> [] then
          io_bind (lift_euid H ''File'' path) (\<lambda>file_id.
          io_bind (io_lift (file_entity H file_id l)) (upsert (hs_faults H)))
        else io_return ()) (\<lambda>_.
      io_bind (lift_context H (JObj
          [(''workspace'', workspace_context e),
           (''path'', JStr path),
           (''path_normalized'', JStr (normalize_path_value (hs_unicode H) path)),
           (''content'', JStr content),
           (''label'', label_json H label_id),
           (''policy'', policy_context_json policy),
           (''signature'', signature_json sig)])) (\<lambda>context.
      io_bind (lift_euid H ''Action'' ''FileOperationResult'') (\<lambda>action.
      io_return (action, trajectory_id, context)))))))"

definition tool_output_content :: "harness \<Rightarrow> tool_output \<Rightarrow> string" where
  "tool_output_content H t =
     (case as_str (to_output t) of Some s \<Rightarrow> s | None \<Rightarrow> hs_json H (to_output t))"

definition tool_output_request :: "harness \<Rightarrow> event \<Rightarrow> euid \<Rightarrow> tool_output \<Rightarrow> request_parts io" where
  "tool_output_request H e trajectory_id t =
     (let content = tool_output_content H t;
          sig = scan (hs_yara H) content;
          (l, policy) = classify H content in
      io_bind (lift_euid H ''Label'' (label_to_string l)) (\<lambda>label_id.
      io_bind (mark_trajectory_label H trajectory_id l) (\<lambda>_.
      io_bind (lift_context H (JObj
          [(''workspace'', workspace_context e),
           (''content'', JStr content),
           (''label'', label_json H label_id),
           (''policy'', policy_context_json policy),
           (''signature'', signature_json sig)])) (\<lambda>context.
      io_bind (lift_euid H ''Action'' ''ToolOutput'') (\<lambda>action.
      io_return (action, trajectory_id, context))))))"

definition unsupported :: "harness \<Rightarrow> trajectory_event \<Rightarrow> string" where
  "unsupported H ev = ''Unsupported event type for Cedar authorization: '' @ hs_debug H ev"

fun request_parts :: "harness \<Rightarrow> event \<Rightarrow> euid \<Rightarrow> trajectory_event \<Rightarrow> request_parts io" where
  "request_parts H e tid (Observation (Prompt pr)) = prompt_request H e tid pr"
| "request_parts H e tid (Action (ToolCall tc)) = tool_call_request H e tid tc"
| "request_parts H e tid (Action (ShellCommand sc)) = shell_command_request H e tid sc"
| "request_parts H e tid (Action (WebFetch fetch)) = web_fetch_request H e tid fetch"
| "request_parts H e tid (Action (FileOperation fo)) = file_operation_request H e tid fo"
| "request_parts H e tid (Observation (ShellCommandOutput sco)) = shell_output_request H e tid sco"
| "request_parts H e tid (Observation (WebFetchOutput wfo)) = web_output_request H e tid wfo"
| "request_parts H e tid (Observation (FileOperationResult fo)) = file_result_request H e tid fo"
| "request_parts H e tid (Observation (ToolOutput t)) = tool_output_request H e tid t"
| "request_parts H e tid ev = io_lift (Inl (unsupported H ev))"

definition new_request :: "harness \<Rightarrow> euid \<Rightarrow> request_parts \<Rightarrow> string + cedar_request" where
  "new_request H prin parts =
     (case parts of (action, resource, context) \<Rightarrow>
        let r = \<lparr>rq_principal = prin, rq_action = action, rq_resource = resource,
                 rq_context = context\<rparr>
        in case cd_request_error (hs_cedar H) r of Some e \<Rightarrow> Inl e | None \<Rightarrow> Inr r)"

definition build_request :: "harness \<Rightarrow> event \<Rightarrow> cedar_request io" where
  "build_request H e =
     io_bind (lift_euid H ''Agent'' (ac_id (ev_actor e))) (\<lambda>principal_id.
     io_bind (lift_euid H ''Trajectory'' (ev_trajectory_id e)) (\<lambda>trajectory_id.
     io_bind (update_entity (hs_faults H) trajectory_id
         (count_step (hs_cedar H) (ev_trajectory_id e))) (\<lambda>_.
     io_bind (request_parts H e trajectory_id (ev_event e)) (\<lambda>parts.
     io_lift (new_request H principal_id parts)))))"

section \<open>From response to adjudication\<close>

text \<open>The loop over one policy's annotations: the entry, and whether and how it escalates.\<close>

fun annotation_loop ::
  "(string \<times> string) list \<Rightarrow> policy_metadata \<times> bool \<times> string option
     \<Rightarrow> policy_metadata \<times> bool \<times> string option" where
  "annotation_loop [] st = st"
| "annotation_loop ((key, v) # rest) (entry, is_escalate, escalate_arg) =
     annotation_loop rest
       (if key = ''id'' then (entry, is_escalate, escalate_arg)
        else if key = ''description'' then (with_description entry v, is_escalate, escalate_arg)
        else if key = ''escalate'' then (entry, True, if v \<noteq> [] then Some v else escalate_arg)
        else (with_entry entry key v, is_escalate, escalate_arg))"

text \<open>One reason: its metadata entry, and whether it escalates.\<close>

definition reason_entry :: "cedar \<Rightarrow> string \<Rightarrow> policy_metadata \<times> bool" where
  "reason_entry C policy_id =
     (case annotation_loop (unwrap_or (cd_annotations C policy_id) [])
         (with_id policy_metadata_new policy_id, False, None) of
        (entry, is_escalate, escalate_arg) \<Rightarrow>
          ((if is_escalate then with_escalate entry escalate_arg else entry), is_escalate))"

fun reason_loop ::
  "cedar \<Rightarrow> cedar_decision \<Rightarrow> string list \<Rightarrow> policy_metadata list \<Rightarrow> bool \<Rightarrow> bool
     \<Rightarrow> policy_metadata list \<times> bool \<times> bool" where
  "reason_loop C d [] metadata has_hard_deny has_escalate = (metadata, has_hard_deny, has_escalate)"
| "reason_loop C d (p # ps) metadata has_hard_deny has_escalate =
     (case reason_entry C p of (entry, is_escalate) \<Rightarrow>
        reason_loop C d ps (metadata @ [entry])
          (if is_escalate then has_hard_deny else if d = CedarDeny then True else has_hard_deny)
          (if is_escalate then True else has_escalate))"

definition adjudicated_from_response :: "cedar \<Rightarrow> cedar_response \<Rightarrow> adjudicated" where
  "adjudicated_from_response C response =
     (case reason_loop C (cr_decision response) (cr_reason response) [] False False of
        (metadata, has_hard_deny, has_escalate) \<Rightarrow>
          (let decision = (case cr_decision response of
                 CedarAllow \<Rightarrow> Allow
               | CedarDeny \<Rightarrow> if has_escalate \<and> \<not> has_hard_deny then Escalate else Deny);
               errors = cr_errors response;
               (decision, reason) =
                 (if errors = [] then (decision, None)
                  else (Deny, Some (join ''; '' errors)))
           in (adjudicated_new decision)\<lparr>adj_reason := reason, adj_metadata := metadata\<rparr>))"

end
