(* ===== verification/Transform_Props.thy ===== *)
theory Transform_Props
  imports Transform
begin

text \<open>
  What building a request does to the store. \<open>store_effect\<close> is proved once for every relation
  between worlds that the primitive accesses respect; the abstract view of the store as a map
  from trajectory ids to step counts and labels gives the exact result of a successful call.
\<close>

section \<open>Relations every access respects\<close>

definition keeps :: "(world \<Rightarrow> world \<Rightarrow> bool) \<Rightarrow> 'a io \<Rightarrow> bool" where
  "keeps R m \<longleftrightarrow> (\<forall>w r w'. m w = (r, w') \<longrightarrow> R w w')"

lemma keepsD: "keeps R m \<Longrightarrow> m w = (r, w') \<Longrightarrow> R w w'"
  by (simp add: keeps_def)

lemma eb_build_uid: "eb_build C b = Inr e \<Longrightarrow> en_uid e = eb_euid b"
  by (auto simp: eb_build_def Let_def split: option.splits)

lemma eb_euid_simps [simp]:
  "eb_euid (builder_new u) = u" "eb_euid (eb_string b k v) = eb_euid b"
  "eb_euid (eb_parent_uid b p) = eb_euid b"
  by (simp_all add: builder_new_def eb_string_def eb_attr_def eb_parent_uid_def)

lemma file_entity_uid: "file_entity H u l = Inr e \<Longrightarrow> en_uid e = u"
  by (auto simp: file_entity_def eb_entity_ref_def bind_result_Inr_iff eb_attr_def
      dest: eb_build_uid)

locale store_effect =
  fixes H :: harness and R :: "world \<Rightarrow> world \<Rightarrow> bool"
  assumes R_refl: "R w w"
    and R_trans: "R a b \<Longrightarrow> R b c \<Longrightarrow> R a c"
    and count_keeps: "keeps R (update_entity (hs_faults H) (quid ''Trajectory'' tid)
      (count_step (hs_cedar H) tid))"
    and mark_keeps: "keeps R (mark_trajectory_label H (quid ''Trajectory'' tid) l)"
    and put_keeps: "en_uid x = quid t i \<Longrightarrow> t \<noteq> ''Trajectory'' \<Longrightarrow> keeps R (upsert (hs_faults H) x)"
begin

lemma keeps_bind:
  "keeps R m \<Longrightarrow> (\<And>a w w'. m w = (Inr a, w') \<Longrightarrow> keeps R (f a)) \<Longrightarrow> keeps R (io_bind m f)"
proof -
  assume m: "keeps R m" and f: "\<And>a w w'. m w = (Inr a, w') \<Longrightarrow> keeps R (f a)"
  have "R w w2" if "io_bind m f w = (r, w2)" for w r w2
  proof (cases r)
    case (Inl err)
    then show ?thesis
      using that m f R_trans unfolding Inl io_bind_Inl keeps_def by blast
  next
    case (Inr b)
    then show ?thesis
      using that m f R_trans unfolding Inr io_bind_Inr keeps_def by blast
  qed
  then show "keeps R (io_bind m f)" by (simp add: keeps_def)
qed

lemma keeps_lift: "keeps R (io_lift x)" "keeps R (io_return a)"
  by (auto simp: keeps_def R_refl)

lemma keeps_lifts: "keeps R (lift_euid H t i)" "keeps R (lift_context H j)"
  by (simp_all add: lift_euid_def lift_context_def keeps_lift)

lemma file_entity_keeps:
  "keeps R (io_bind (lift_euid H ''File'' p) (\<lambda>file_id.
     io_bind (io_lift (file_entity H file_id l)) (upsert (hs_faults H))))"
  by (intro keeps_bind keeps_lifts keeps_lift)
    (auto simp: lift_euid_def dest!: file_entity_uid intro: put_keeps)

lemma prompt_request_keeps: "keeps R (prompt_request H e (quid ''Trajectory'' tid) pr)"
  unfolding prompt_request_def Let_def
  by (intro keeps_bind keeps_lift keeps_lifts mark_keeps
      put_keeps [where t = "''Message''" and i = "ev_event_id e"])
    (auto simp: lift_euid_def dest!: eb_build_uid)

lemma file_operation_request_keeps:
  "keeps R (file_operation_request H e (quid ''Trajectory'' tid) fo)"
  unfolding file_operation_request_def Let_def classify_def prod.case
  by (intro keeps_bind keeps_lift keeps_lifts mark_keeps
      put_keeps [where t = "''File''" and i = "fo_path fo"])
    (auto simp: lift_euid_def dest!: file_entity_uid)

lemma file_result_request_keeps:
  "keeps R (file_result_request H e (quid ''Trajectory'' tid) fr)"
  unfolding file_result_request_def Let_def classify_def prod.case
  by (intro keeps_bind keeps_lift keeps_lifts mark_keeps)
    (simp_all add: file_entity_keeps keeps_lift)

lemma plain_requests_keep:
  "keeps R (tool_call_request H e (quid ''Trajectory'' tid) tc)"
  "keeps R (shell_command_request H e (quid ''Trajectory'' tid) sc)"
  "keeps R (web_fetch_request H e (quid ''Trajectory'' tid) fetch)"
  "keeps R (shell_output_request H e (quid ''Trajectory'' tid) sco)"
  "keeps R (web_output_request H e (quid ''Trajectory'' tid) wfo)"
  "keeps R (tool_output_request H e (quid ''Trajectory'' tid) t)"
  unfolding tool_call_request_def shell_command_request_def web_fetch_request_def
    shell_output_request_def web_output_request_def tool_output_request_def
    Let_def classify_def prod.case
  by (intro keeps_bind keeps_lift keeps_lifts mark_keeps)+

lemma request_parts_keeps: "keeps R (request_parts H e (quid ''Trajectory'' tid) ev)"
proof (cases ev)
  case (Action a)
  then show ?thesis
    by (cases a) (simp_all add: plain_requests_keep file_operation_request_keeps)
next
  case (Observation ob)
  then show ?thesis
    by (cases ob) (simp_all add: plain_requests_keep file_result_request_keeps
        prompt_request_keeps keeps_lift)
qed (simp_all add: keeps_lift)

lemma build_request_keeps: "keeps R (build_request H e)"
  unfolding build_request_def
  by (intro keeps_bind keeps_lifts keeps_lift)
    (auto simp: lift_euid_def intro: count_keeps request_parts_keeps keeps_lift keeps_bind)

end

section \<open>The ledgers are not touched\<close>

lemma keeps_ledgers:
  "keeps (\<lambda>w w'. ledgers w' = ledgers w) (update_entity F u f)"
  "keeps (\<lambda>w w'. ledgers w' = ledgers w) (upsert F x)"
  by (auto simp: keeps_def dest: update_entity_ledgers entity_ops_ledgers)

interpretation ledger_effect: store_effect H "\<lambda>w w'. ledgers w' = ledgers w" for H
  by unfold_locales (auto simp: mark_trajectory_label_def keeps_ledgers)

section \<open>The abstract view: trajectories by id\<close>

definition traj_view :: "world \<Rightarrow> string \<rightharpoonup> traj" where
  "traj_view w tid = map_option traj_from_entity (w_entities w (quid ''Trajectory'' tid))"

text \<open>Every entity sits under its own uid.\<close>

definition keyed :: "world \<Rightarrow> bool" where
  "keyed w \<longleftrightarrow> (\<forall>u e. w_entities w u = Some e \<longrightarrow> en_uid e = u)"

definition traj_label :: "world \<Rightarrow> string \<Rightarrow> label" where
  "traj_label w tid = (case traj_view w tid of Some t \<Rightarrow> tr_label t | None \<Rightarrow> Public)"

definition counted :: "string \<Rightarrow> (string \<rightharpoonup> traj) \<Rightarrow> (string \<rightharpoonup> traj)" where
  "counted tid m =
     (let t = unwrap_or (m tid) (traj_new tid) in m(tid \<mapsto> t\<lparr>tr_step_count := tr_step_count t + 1\<rparr>))"

definition raised :: "string \<Rightarrow> label \<Rightarrow> (string \<rightharpoonup> traj) \<Rightarrow> (string \<rightharpoonup> traj)" where
  "raised tid l m =
     (case m tid of None \<Rightarrow> m | Some t \<Rightarrow> m(tid \<mapsto> t\<lparr>tr_label := max (tr_label t) l\<rparr>))"

lemma keyed_id:
  "keyed w \<Longrightarrow> traj_view w tid = Some t \<Longrightarrow> tr_trajectory_id t = tid"
  by (auto simp: keyed_def traj_view_def traj_from_entity_def quid_def)

lemma view_upsert_traj:
  assumes "en_uid e = quid ''Trajectory'' tid" "w_entities w' = (w_entities w)(en_uid e \<mapsto> e)" "keyed w"
  shows "traj_view w' = (traj_view w)(tid \<mapsto> traj_from_entity e)" "keyed w'"
  using assms by (auto simp: traj_view_def keyed_def)

lemma view_upsert_other:
  assumes "en_uid e = quid t i" "t \<noteq> ''Trajectory''" "w_entities w' = (w_entities w)(en_uid e \<mapsto> e)"
    "keyed w"
  shows "traj_view w' = traj_view w" "keyed w'"
  using assms by (auto simp: traj_view_def keyed_def fun_eq_iff)

lemma view_cong:
  "w_entities w' = w_entities w \<Longrightarrow> traj_view w' = traj_view w"
  "w_entities w' = w_entities w \<Longrightarrow> keyed w' = keyed w"
  by (auto simp: traj_view_def keyed_def fun_eq_iff)

lemma upsert_view:
  assumes "upsert F e w = (r, w')" "en_uid e = quid t i" "t \<noteq> ''Trajectory''" "keyed w"
  shows "traj_view w' = traj_view w" "keyed w'"
proof -
  have "traj_view w' = traj_view w \<and> keyed w'"
  proof (cases r)
    case (Inl err)
    then show ?thesis using turso.put_Inl assms view_cong [of w' w] by blast
  next
    case (Inr a)
    then show ?thesis using turso.put_Inr assms view_upsert_other by blast
  qed
  then show "traj_view w' = traj_view w" "keyed w'" by auto
qed

lemma update_entity_Inl: "update_entity F u f w = (Inl err, w') \<Longrightarrow> w_entities w' = w_entities w"
  unfolding update_entity_def by (rule turso.update_Inl)

lemma update_view:
  assumes u: "update_entity F (quid ''Trajectory'' tid) f w = (r, w')" and k: "keyed w"
    and f: "\<And>e. f (w_entities w (quid ''Trajectory'' tid)) = Inr (Some e) \<Longrightarrow>
      en_uid e = quid ''Trajectory'' tid"
  shows "keyed w'"
    "r = Inl err \<Longrightarrow> traj_view w' = traj_view w"
    "r = Inr () \<Longrightarrow> \<exists>new. f (w_entities w (quid ''Trajectory'' tid)) = Inr new \<and> traj_view w' =
      (case new of Some e \<Rightarrow> (traj_view w)(tid \<mapsto> traj_from_entity e) | None \<Rightarrow> traj_view w)"
proof -
  have inl: "r = Inl err \<Longrightarrow> w_entities w' = w_entities w" for err
    using u update_entity_Inl by simp
  then show "r = Inl err \<Longrightarrow> traj_view w' = traj_view w" using view_cong [of w' w] by blast
  have inr: "\<exists>new. f (w_entities w (quid ''Trajectory'' tid)) = Inr new \<and> keyed w' \<and> traj_view w' =
      (case new of Some e \<Rightarrow> (traj_view w)(tid \<mapsto> traj_from_entity e) | None \<Rightarrow> traj_view w)"
    if ok: "r = Inr ()"
  proof -
    obtain new where n: "f (w_entities w (quid ''Trajectory'' tid)) = Inr new"
      and v: "w_entities w' =
        (case new of Some e \<Rightarrow> (w_entities w)(en_uid e \<mapsto> e) | None \<Rightarrow> w_entities w)"
      using turso.update_Inr [OF u [unfolded ok update_entity_def]] by blast
    show ?thesis
    proof (cases new)
      case None
      then show ?thesis using n v view_cong [of w' w] k by auto
    next
      case (Some e)
      then show ?thesis using n v view_upsert_traj [OF f _ k] by auto
    qed
  qed
  then show "r = Inr () \<Longrightarrow> \<exists>new. f (w_entities w (quid ''Trajectory'' tid)) = Inr new \<and> traj_view w' =
      (case new of Some e \<Rightarrow> (traj_view w)(tid \<mapsto> traj_from_entity e) | None \<Rightarrow> traj_view w)"
  proof -
    assume "r = Inr ()"
    from inr [OF this] show ?thesis by (elim exE conjE, intro exI conjI)
  qed
  show "keyed w'"
  proof (cases r)
    case (Inl err)
    then show ?thesis using inl view_cong [of w' w] k by simp
  next
    case (Inr a)
    then have "r = Inr ()" by simp
    from inr [OF this] show ?thesis by (elim exE conjE)
  qed
qed

lemma count_step_uid:
  assumes "keyed w" "count_step C tid (w_entities w (quid ''Trajectory'' tid)) = Inr (Some e)"
  shows "en_uid e = quid ''Trajectory'' tid"
    "traj_from_entity e = the (counted tid (traj_view w) tid)"
proof -
  define t where "t = unwrap_or (traj_view w tid) (traj_new tid)"
  have t: "tr_trajectory_id t = tid"
    using keyed_id [OF assms(1)] by (cases "traj_view w tid") (auto simp: t_def traj_new_def)
  have "traj_into_entity C (t\<lparr>tr_step_count := tr_step_count t + 1\<rparr>) = Inr e"
    using assms(2)
    by (auto simp: count_step_def Let_def bind_result_Inr_iff t_def traj_view_def unwrap_or_def
        split: option.splits)
  from traj_into_entity_uid [OF this] traj_round_trip [OF this] t
  show "en_uid e = quid ''Trajectory'' tid"
    "traj_from_entity e = the (counted tid (traj_view w) tid)"
    by (simp_all add: counted_def Let_def t_def)
qed

lemma raise_label_uid:
  assumes "keyed w" "raise_label C l (w_entities w (quid ''Trajectory'' tid)) = Inr (Some e)"
  shows "en_uid e = quid ''Trajectory'' tid"
    "(traj_view w)(tid \<mapsto> traj_from_entity e) = raised tid l (traj_view w)"
proof -
  obtain t where t: "traj_view w tid = Some t" and lt: "tr_label t < l"
    and e: "traj_into_entity C (t\<lparr>tr_label := l\<rparr>) = Inr e"
    using assms(2) by (auto simp: raise_label_def traj_view_def bind_result_Inr_iff less_label_def
        Let_def split: option.splits if_splits)
  from traj_into_entity_uid [OF e] traj_round_trip [OF e] keyed_id [OF assms(1) t] t lt
  show "en_uid e = quid ''Trajectory'' tid"
    "(traj_view w)(tid \<mapsto> traj_from_entity e) = raised tid l (traj_view w)"
    by (simp_all add: raised_def max_absorb2 less_imp_le)
qed

lemma raise_label_None:
  assumes "raise_label C l (w_entities w (quid ''Trajectory'' tid)) = Inr None"
  shows "raised tid l (traj_view w) = traj_view w"
proof (cases "traj_view w tid")
  case (Some t)
  then have "level l \<le> level (tr_label t)"
    using assms by (auto simp: raise_label_def traj_view_def Let_def bind_result_Inr_iff
        split: if_splits)
  then have "max (tr_label t) l = tr_label t" by (simp add: less_eq_label_def max_absorb1)
  then show ?thesis using Some by (simp add: raised_def fun_upd_idem)
qed (simp add: raised_def)

lemma count_view:
  assumes "update_entity F (quid ''Trajectory'' tid) (count_step C tid) w = (Inr (), w')" "keyed w"
  shows "traj_view w' = counted tid (traj_view w)" "keyed w'"
proof -
  note uid = count_step_uid(1) [OF assms(2), of C tid]
  obtain new where new: "count_step C tid (w_entities w (quid ''Trajectory'' tid)) = Inr new"
    and v: "traj_view w' =
      (case new of Some e \<Rightarrow> (traj_view w)(tid \<mapsto> traj_from_entity e) | None \<Rightarrow> traj_view w)"
    using update_view(3) [OF assms uid refl] by blast
  obtain e where e: "new = Some e"
    using new by (auto simp: count_step_def Let_def bind_result_Inr_iff)
  have "traj_from_entity e = the (counted tid (traj_view w) tid)"
    using count_step_uid(2) [OF assms(2)] new e by simp
  then show "traj_view w' = counted tid (traj_view w)"
    using v e by (simp add: counted_def Let_def)
  show "keyed w'" using update_view(1) [OF assms uid] .
qed

lemma mark_view:
  assumes "mark_trajectory_label H (quid ''Trajectory'' tid) l w = (Inr (), w')" "keyed w"
  shows "traj_view w' = raised tid l (traj_view w)" "keyed w'"
proof -
  note u = assms(1) [unfolded mark_trajectory_label_def]
  note uid = raise_label_uid(1) [OF assms(2), of "hs_cedar H" l tid]
  obtain new where new: "raise_label (hs_cedar H) l (w_entities w (quid ''Trajectory'' tid)) = Inr new"
    and v: "traj_view w' =
      (case new of Some e \<Rightarrow> (traj_view w)(tid \<mapsto> traj_from_entity e) | None \<Rightarrow> traj_view w)"
    using update_view(3) [OF u assms(2) uid refl] by blast
  show "traj_view w' = raised tid l (traj_view w)"
  proof (cases new)
    case None
    then show ?thesis using v new raise_label_None by auto
  next
    case (Some e)
    then show ?thesis using v new raise_label_uid(2) [OF assms(2)] by auto
  qed
  show "keyed w'" using update_view(1) [OF u assms(2) uid] .
qed

section \<open>Labels never fall\<close>

definition label_monotone :: "world \<Rightarrow> world \<Rightarrow> bool" where
  "label_monotone w w' \<longleftrightarrow>
     keyed w \<longrightarrow> keyed w' \<and> (\<forall>tid. traj_label w tid \<le> traj_label w' tid)"

lemma label_monotone_view: "traj_view w' = traj_view w \<Longrightarrow> (keyed w \<Longrightarrow> keyed w') \<Longrightarrow> label_monotone w w'"
  by (simp add: label_monotone_def traj_label_def)

lemma traj_label_counted: "traj_view w' = counted tid (traj_view w) \<Longrightarrow> traj_label w' = traj_label w"
  by (auto simp: traj_label_def counted_def Let_def unwrap_or_def traj_new_def label_default_def fun_eq_iff
      split: option.splits)

lemma traj_label_raised:
  "traj_view w' = raised tid l (traj_view w) \<Longrightarrow> traj_label w i \<le> traj_label w' i"
  by (auto simp: traj_label_def raised_def split: option.splits)

interpretation label_effect: store_effect H label_monotone for H
proof unfold_locales
  show "label_monotone w w" for w by (simp add: label_monotone_def)
  show "label_monotone a c" if "label_monotone a b" "label_monotone b c" for a b c
    using that unfolding label_monotone_def by (meson order_trans)
  show "keeps label_monotone (update_entity (hs_faults H) (quid ''Trajectory'' tid)
      (count_step (hs_cedar H) tid))" for tid
    unfolding keeps_def
  proof (intro allI impI)
    fix w r w'
    assume u: "update_entity (hs_faults H) (quid ''Trajectory'' tid) (count_step (hs_cedar H) tid) w
      = (r, w')"
    show "label_monotone w w'"
    proof (cases r)
      case (Inl err)
      then have "w_entities w' = w_entities w"
        using u update_entity_Inl by simp
      then show ?thesis using view_cong [of w' w] by (intro label_monotone_view) simp_all
    next
      case (Inr a)
      then show ?thesis
        using count_view [of "hs_faults H" tid "hs_cedar H" w w'] u
        by (auto simp: label_monotone_def traj_label_counted)
    qed
  qed
  show "keeps label_monotone (mark_trajectory_label H (quid ''Trajectory'' tid) l)" for tid l
    unfolding keeps_def
  proof (intro allI impI)
    fix w r w'
    assume u: "mark_trajectory_label H (quid ''Trajectory'' tid) l w = (r, w')"
    show "label_monotone w w'"
    proof (cases r)
      case (Inl err)
      then have "w_entities w' = w_entities w"
        using u update_entity_Inl unfolding mark_trajectory_label_def by simp
      then show ?thesis using view_cong [of w' w] by (intro label_monotone_view) simp_all
    next
      case (Inr a)
      then show ?thesis
        using mark_view [of H tid l w w'] u traj_label_raised by (auto simp: label_monotone_def)
    qed
  qed
  show "keeps label_monotone (upsert (hs_faults H) x)"
    if "en_uid x = quid t i" "t \<noteq> ''Trajectory''" for x t i
    unfolding keeps_def using upsert_view [OF _ that]
    by (metis label_monotone_view label_monotone_def)
qed

section \<open>The effect of a successful request\<close>

text \<open>The label an event raises its trajectory to; commands and fetches raise none.\<close>

fun marked_content :: "harness \<Rightarrow> trajectory_event \<Rightarrow> string option" where
  "marked_content H (Observation (Prompt pr)) = Some (pr_content pr)"
| "marked_content H (Action (ToolCall tc)) = Some (tc_tool tc @ nl @ hs_json H (tc_arguments tc))"
| "marked_content H (Action (FileOperation fo)) = Some (scannable fo)"
| "marked_content H (Observation (ShellCommandOutput sco)) = Some (sco_stdout sco @ nl @ sco_stderr sco)"
| "marked_content H (Observation (WebFetchOutput wfo)) = Some (wfo_result wfo)"
| "marked_content H (Observation (FileOperationResult fo)) = Some (unwrap_or (fr_content fo) [])"
| "marked_content H (Observation (ToolOutput t)) = Some (tool_output_content H t)"
| "marked_content H _ = None"

definition marked :: "harness \<Rightarrow> string \<Rightarrow> trajectory_event \<Rightarrow> (string \<rightharpoonup> traj) \<Rightarrow> (string \<rightharpoonup> traj)" where
  "marked H tid ev m =
     (case marked_content H ev of
        Some content \<Rightarrow> raised tid (label_of_content H content) m
      | None \<Rightarrow> m)"

lemma lift_Inr:
  "lift_euid H t i w = (Inr u, w') \<longleftrightarrow>
     cd_type_name_ok (hs_cedar H) (SCHEMA_NAMESPACE @ ''::'' @ t) \<and> u = quid t i \<and> w' = w"
  "lift_context H j w = (Inr c, w') \<longleftrightarrow> cd_context_error (hs_cedar H) j = None \<and> c = j \<and> w' = w"
  by (auto simp: lift_euid_def lift_context_def split: option.splits)

lemma file_put_view:
  assumes "io_bind (lift_euid H ''File'' p) (\<lambda>file_id.
     io_bind (io_lift (file_entity H file_id l)) (upsert (hs_faults H))) w = (Inr r, w')" "keyed w"
  shows "traj_view w' = traj_view w" "keyed w'"
proof -
  obtain x where "file_entity H (quid ''File'' p) l = Inr x" "upsert (hs_faults H) x w = (Inr r, w')"
    using assms(1) by (auto simp: io_bind_Inr lift_Inr)
  then show "traj_view w' = traj_view w" "keyed w'"
    using upsert_view [where t = "''File''" and i = p] file_entity_uid assms(2) by auto
qed

lemma prompt_request_effect:
  assumes "prompt_request H e (quid ''Trajectory'' tid) pr w = (Inr parts, w')" "keyed w"
  shows "traj_view w' = raised tid (label_of_content H (pr_content pr)) (traj_view w) \<and> keyed w'"
proof -
  obtain x w1 where x: "en_uid x = quid ''Message'' (ev_event_id e)"
    and up: "upsert (hs_faults H) x w = (Inr (), w1)"
    and mk: "mark_trajectory_label H (quid ''Trajectory'' tid) (label_of_content H (pr_content pr)) w1
      = (Inr (), w')"
    using assms(1) by (auto simp: prompt_request_def Let_def io_bind_Inr lift_Inr dest!: eb_build_uid)
  have "traj_view w1 = traj_view w" "keyed w1"
    using upsert_view [OF up x _ assms(2)] by simp_all
  then show ?thesis using mark_view [OF mk] by simp
qed

lemma file_operation_request_effect:
  assumes "file_operation_request H e (quid ''Trajectory'' tid) fo w = (Inr parts, w')" "keyed w"
  shows "traj_view w' = raised tid (label_of_content H (scannable fo)) (traj_view w) \<and> keyed w'"
proof -
  obtain x w1 where x: "en_uid x = quid ''File'' (fo_path fo)"
    and up: "upsert (hs_faults H) x w = (Inr (), w1)"
    and mk: "mark_trajectory_label H (quid ''Trajectory'' tid) (label_of_content H (scannable fo)) w1
      = (Inr (), w')"
    using assms(1) by (auto simp: file_operation_request_def classify_def Let_def io_bind_Inr lift_Inr
        dest!: file_entity_uid)
  have "traj_view w1 = traj_view w" "keyed w1"
    using upsert_view [OF up x _ assms(2)] by simp_all
  then show ?thesis using mark_view [OF mk] by simp
qed

lemma file_result_request_effect:
  assumes "file_result_request H e (quid ''Trajectory'' tid) fr w = (Inr parts, w')" "keyed w"
  shows "traj_view w' = raised tid (label_of_content H (unwrap_or (fr_content fr) [])) (traj_view w)
    \<and> keyed w'"
proof -
  obtain w1 where
    mk: "mark_trajectory_label H (quid ''Trajectory'' tid)
      (label_of_content H (unwrap_or (fr_content fr) [])) w = (Inr (), w1)"
    and put: "(if unwrap_or (fr_path fr) [] \<noteq> [] then
          io_bind (lift_euid H ''File'' (unwrap_or (fr_path fr) [])) (\<lambda>file_id.
          io_bind (io_lift (file_entity H file_id (label_of_content H (unwrap_or (fr_content fr) []))))
            (upsert (hs_faults H)))
        else io_return ()) w1 = (Inr (), w')"
    using assms(1)
    unfolding file_result_request_def classify_def Let_def prod.case io_bind_Inr lift_Inr by auto
  have v: "traj_view w1 = raised tid (label_of_content H (unwrap_or (fr_content fr) [])) (traj_view w)"
    "keyed w1" using mark_view [OF mk assms(2)] by auto
  have "traj_view w' = traj_view w1 \<and> keyed w'"
  proof (cases "unwrap_or (fr_path fr) [] \<noteq> []")
    case True
    then show ?thesis using file_put_view [OF _ v(2)] put by simp
  next
    case False
    then show ?thesis using put v by simp
  qed
  then show ?thesis using v by simp
qed

lemma request_parts_effect:
  assumes "request_parts H e (quid ''Trajectory'' tid) ev w = (Inr parts, w')" "keyed w"
  shows "traj_view w' = marked H tid ev (traj_view w) \<and> keyed w'"
proof (cases ev)
  case (Action a)
  then show ?thesis
    using assms file_operation_request_effect [of H e tid _ w parts w'] mark_view [of H tid _ w w']
    by (cases a)
      (auto simp: marked_def tool_call_request_def shell_command_request_def web_fetch_request_def
        classify_def Let_def io_bind_Inr lift_Inr)
next
  case (Observation ob)
  then show ?thesis
    using assms file_result_request_effect [of H e tid _ w parts w'] mark_view [of H tid _ w w']
      prompt_request_effect [of H e tid _ w parts w']
    by (cases ob)
      (auto simp: marked_def shell_output_request_def web_output_request_def tool_output_request_def
        classify_def Let_def io_bind_Inr lift_Inr)
qed (use assms in auto)

lemma build_request_effect:
  assumes "build_request H e w = (Inr request, w')" "keyed w"
  shows "traj_view w' = marked H (ev_trajectory_id e) (ev_event e)
      (counted (ev_trajectory_id e) (traj_view w)) \<and> keyed w'"
proof -
  obtain w1 parts where
    c: "update_entity (hs_faults H) (quid ''Trajectory'' (ev_trajectory_id e))
      (count_step (hs_cedar H) (ev_trajectory_id e)) w = (Inr (), w1)"
    and p: "request_parts H e (quid ''Trajectory'' (ev_trajectory_id e)) (ev_event e) w1
      = (Inr parts, w')"
    using assms(1) by (auto simp: build_request_def io_bind_Inr lift_Inr)
  show ?thesis using count_view [OF c assms(2)] request_parts_effect [OF p] by simp
qed

lemma build_request_principal:
  assumes "build_request H e w = (Inr request, w')"
  shows "rq_principal request = quid ''Agent'' (ac_id (ev_actor e))"
  using assms
  by (auto simp: build_request_def io_bind_Inr lift_Inr new_request_def Let_def
      split: prod.splits option.splits)

text \<open>Lifecycle records, state snapshots and thoughts are not authorized.\<close>

fun authorizable :: "trajectory_event \<Rightarrow> bool" where
  "authorizable (Control _) = False"
| "authorizable (State _) = False"
| "authorizable (Observation (Thought _)) = False"
| "authorizable _ = True"

lemma build_request_unsupported:
  assumes "\<not> authorizable (ev_event e)" shows "build_request H e w \<noteq> (Inr request, w')"
proof -
  have "request_parts H e t (ev_event e) w1 = (Inl (unsupported H (ev_event e)), w1)" for t w1
    using assms by (cases "ev_event e" rule: authorizable.cases) auto
  then show ?thesis by (auto simp: build_request_def io_bind_Inr)
qed

section \<open>Verdicts\<close>

definition escalates :: "cedar \<Rightarrow> string \<Rightarrow> bool" where
  "escalates C p \<longleftrightarrow> ''escalate'' \<in> fst ` set (unwrap_or (cd_annotations C p) [])"

lemma annotation_loop_escalates:
  "fst (snd (annotation_loop as st)) \<longleftrightarrow> fst (snd st) \<or> ''escalate'' \<in> fst ` set as"
  by (induction as st rule: annotation_loop.induct) auto

lemma reason_entry_escalates: "snd (reason_entry C p) \<longleftrightarrow> escalates C p"
  using annotation_loop_escalates [of "unwrap_or (cd_annotations C p) []"
      "(with_id policy_metadata_new p, False, None)"]
  by (auto simp: reason_entry_def escalates_def split: prod.splits)

lemma annotation_loop_id:
  "pmd_policy_id (fst (annotation_loop as st)) = pmd_policy_id (fst st)"
  by (induction as st rule: annotation_loop.induct) (auto simp: with_description_def with_entry_def)

lemma reason_entry_id: "pmd_policy_id (fst (reason_entry C p)) = Some p"
  using annotation_loop_id [of "unwrap_or (cd_annotations C p) []"
      "(with_id policy_metadata_new p, False, None)"]
  by (auto simp: reason_entry_def with_escalate_def with_id_def split: prod.splits)

lemma reason_loop_result:
  "reason_loop C d ps metadata hard esc =
     (metadata @ map (fst \<circ> reason_entry C) ps,
      hard \<or> (d = CedarDeny \<and> (\<exists>p\<in>set ps. \<not> escalates C p)),
      esc \<or> (\<exists>p\<in>set ps. escalates C p))"
  by (induction ps arbitrary: metadata hard esc)
    (auto simp: reason_entry_escalates [symmetric] split: prod.splits)

lemma adjudicated_decision:
  "adj_decision (adjudicated_from_response C r) =
     (if cr_errors r \<noteq> [] then Deny
      else if cr_decision r = CedarAllow then Allow
      else if cr_reason r \<noteq> [] \<and> (\<forall>p\<in>set (cr_reason r). escalates C p) then Escalate
      else Deny)"
  by (cases "cr_reason r"; cases "cr_decision r")
    (auto simp: adjudicated_from_response_def reason_loop_result Let_def adjudicated_new_def)

lemma adjudicated_fields:
  "adj_mode (adjudicated_from_response C r) = Monitor"
  "map pmd_policy_id (adj_metadata (adjudicated_from_response C r)) = map Some (cr_reason r)"
  by (auto simp: adjudicated_from_response_def reason_loop_result Let_def adjudicated_new_def
      mode_default_def reason_entry_id split: prod.splits)

end
