(* ===== verification/Harness.thy ===== *)
theory Harness
  imports Transform_Props
begin

text \<open>
  The adjudication engine (\<open>crates/policy/cedar/src/lib.rs\<close>): one event at a time is
  evaluated against the policies and written, with its verdict, to both ledgers. The label
  lattice the engine installs at start-up is here too. UUIDs and the clock are arguments:
  \<open>fr\<close> for \<open>Event::new\<close>, \<open>corr\<close> for the fresh causality of the adjudication record.
\<close>

section \<open>The entity surface\<close>

definition ensure_agent_entity :: "harness \<Rightarrow> agent \<Rightarrow> unit io" where
  "ensure_agent_entity H a =
     io_bind (lift_euid H ''Agent'' (ag_id a)) (\<lambda>agent_uid.
     io_bind (get_entity (hs_faults H) agent_uid) (\<lambda>found.
       if found = None
       then upsert (hs_faults H) \<lparr>en_uid = agent_uid, en_attrs = Map.empty, en_parents = {}\<rparr>
       else io_return ()))"

definition is_authorized :: "harness \<Rightarrow> cedar_request \<Rightarrow> cedar_response io" where
  "is_authorized H request =
     io_bind (entities (hs_faults H)) (\<lambda>es. io_return (cd_authorize (hs_cedar H) request es))"

definition add_entity :: "harness \<Rightarrow> entity \<Rightarrow> unit io" where
  "add_entity H e =
     io_bind (get_entity (hs_faults H) (en_uid e)) (\<lambda>found.
       if found \<noteq> None then io_lift (Inl (''Entity already exists: '' @ eu_type (en_uid e) @ ''::'' @ eu_id (en_uid e)))
       else upsert (hs_faults H) e)"

definition upsert_entity :: "harness \<Rightarrow> entity \<Rightarrow> unit io" where
  "upsert_entity H e = upsert (hs_faults H) e"

definition remove_entity :: "harness \<Rightarrow> euid \<Rightarrow> unit io" where
  "remove_entity H u = delete_entity (hs_faults H) u"

section \<open>The label lattice at start-up\<close>

definition label_entity :: "harness \<Rightarrow> label \<Rightarrow> label option \<Rightarrow> string + entity" where
  "label_entity H l parent =
     bind_result (euid (hs_cedar H) ''Label'' (label_to_string l)) (\<lambda>u.
       case parent of
         None \<Rightarrow> eb_build (hs_cedar H) (builder_new u)
       | Some p \<Rightarrow> eb_build (hs_cedar H)
           (eb_parent_uid (builder_new u) (quid ''Label'' (label_to_string p))))"

definition install_labels :: "harness \<Rightarrow> unit io" where
  "install_labels H =
     io_bind (io_lift (label_entity H HighlyConfidential None)) (\<lambda>highly_confidential.
     io_bind (io_lift (label_entity H Confidential (Some HighlyConfidential))) (\<lambda>confidential.
     io_bind (io_lift (label_entity H Internal (Some Confidential))) (\<lambda>internal.
     io_bind (io_lift (label_entity H Public (Some Internal))) (\<lambda>public.
     io_bind (upsert (hs_faults H) highly_confidential) (\<lambda>_.
     io_bind (upsert (hs_faults H) confidential) (\<lambda>_.
     io_bind (upsert (hs_faults H) internal) (\<lambda>_.
     upsert (hs_faults H) public)))))))"

section \<open>Adjudication\<close>

text \<open>Append to both ledgers: the file first, then the database.\<close>

definition persist :: "harness \<Rightarrow> event \<Rightarrow> unit io" where
  "persist H e =
     io_bind (write_trajectory_event (hs_faults H) e) (\<lambda>_. insert_event (hs_faults H) e)"

definition evaluate :: "harness \<Rightarrow> event \<Rightarrow> adjudicated io" where
  "evaluate H e =
     io_bind (build_request H e) (\<lambda>request.
     io_bind (is_authorized H request) (\<lambda>response.
     io_return (adjudicated_from_response (hs_cedar H) response)))"

definition adjudicated_event :: "fresh \<Rightarrow> string \<Rightarrow> event \<Rightarrow> adjudicated \<Rightarrow> event" where
  "adjudicated_event fr corr e a =
     with_causality
       (with_actor (event_new fr (ev_agent e) (ev_trajectory_id e) (Control (Adjudicated a)))
          (actor_policy ''cedar''))
       (caused_by (causality_default corr) (ev_event_id e))"

text \<open>The form of the event that reaches the ledgers.\<close>

definition stored_form :: "harness \<Rightarrow> string + adjudicated \<Rightarrow> event \<Rightarrow> event" where
  "stored_form H outcome e =
     (case outcome of
        Inr a \<Rightarrow> if adj_decision a = Allow then e else redact_file_content (hs_sha_hex H) e
      | Inl _ \<Rightarrow> redact_file_content (hs_sha_hex H) e)"

text \<open>What follows a verdict that was reached and whose event was stored.\<close>

definition record_verdict :: "harness \<Rightarrow> fresh \<Rightarrow> string \<Rightarrow> event \<Rightarrow> adjudicated \<Rightarrow> adjudicated io" where
  "record_verdict H fr corr e a =
     io_bind (lift_euid H ''Trajectory'' (ev_trajectory_id e)) (\<lambda>trajectory_uid.
     io_bind (get_entity (hs_faults H) trajectory_uid) (\<lambda>_.
     io_bind (persist H (adjudicated_event fr corr e a)) (\<lambda>_.
     io_return a)))"

definition adjudicate_action :: "harness \<Rightarrow> fresh \<Rightarrow> string \<Rightarrow> event \<Rightarrow> adjudicated io" where
  "adjudicate_action H fr corr e w =
     (case evaluate H e w of
        (outcome, w1) \<Rightarrow>
          (let e' = stored_form H outcome e in
           case persist H e' w1 of
             (persisted, w2) \<Rightarrow>
               (case outcome of
                  Inl err \<Rightarrow> (Inl err, w2)
                | Inr a \<Rightarrow>
                    (case persisted of
                       Inl err \<Rightarrow> (Inl err, w2)
                     | Inr _ \<Rightarrow> record_verdict H fr corr e' a w2))))"

definition adjudicate_control :: "harness \<Rightarrow> event \<Rightarrow> control \<Rightarrow> adjudicated io" where
  "adjudicate_control H e control =
     io_bind (persist H e) (\<lambda>_.
     io_bind (case control of
         Started _ \<Rightarrow>
           io_bind (io_lift (traj_into_entity (hs_cedar H) (traj_new (ev_trajectory_id e))))
             (upsert_entity H)
       | _ \<Rightarrow> io_return ()) (\<lambda>_.
     io_return adjudicated_allow))"

definition adjudicate_event :: "harness \<Rightarrow> fresh \<Rightarrow> string \<Rightarrow> event \<Rightarrow> adjudicated io" where
  "adjudicate_event H fr corr e =
     io_bind (ensure_agent_entity H (ev_agent e)) (\<lambda>_.
       case ev_event e of
         Control control \<Rightarrow> adjudicate_control H e control
       | _ \<Rightarrow> adjudicate_action H fr corr e)"

end
