(* ===== verification/Harness_Props.thy ===== *)
theory Harness_Props
  imports Harness
begin

text \<open>
  What the adjudication engine guarantees, whatever accesses fail: which form of an event
  reaches the ledgers, that no verdict but Cedar's clears an operation, how the two ledgers
  relate, and what happens to trajectory labels over any run.
\<close>

section \<open>Persisting\<close>

lemma persist_Inr:
  assumes "persist H e w = (Inr r, w')"
  shows "w_db w' = w_db w @ [e]"
    "w_files w' = (w_files w)(ev_trajectory_id e := w_files w (ev_trajectory_id e) @ [e])"
    "w_entities w' = w_entities w"
    "ev_event_id e \<notin> event_ids (w_db w)"
  using assms
  by (auto simp: persist_def write_trajectory_event_def io_bind_Inr io_op_cases
      dest!: insert_event_cases)

text \<open>Whatever fails, each ledger gains at most this event, the file first.\<close>

lemma persist_any:
  assumes "persist H e w = (r, w')"
  shows "w_entities w' = w_entities w"
    "(ledgers w' = ledgers w) \<or>
     (w_db w' = w_db w \<and>
      w_files w' = (w_files w)(ev_trajectory_id e := w_files w (ev_trajectory_id e) @ [e])) \<or>
     (w_db w' = w_db w @ [e] \<and>
      w_files w' = (w_files w)(ev_trajectory_id e := w_files w (ev_trajectory_id e) @ [e]))"
proof -
  have "w_entities w' = w_entities w \<and> ((ledgers w' = ledgers w) \<or>
     (w_db w' = w_db w \<and>
      w_files w' = (w_files w)(ev_trajectory_id e := w_files w (ev_trajectory_id e) @ [e])) \<or>
     (w_db w' = w_db w @ [e] \<and>
      w_files w' = (w_files w)(ev_trajectory_id e := w_files w (ev_trajectory_id e) @ [e])))"
    using assms
    by (auto simp: persist_def write_trajectory_event_def io_bind_def io_op_def Let_def ledgers_def
        dest!: insert_event_cases split: prod.splits sum.splits option.splits)
  then show "w_entities w' = w_entities w"
    "(ledgers w' = ledgers w) \<or>
     (w_db w' = w_db w \<and>
      w_files w' = (w_files w)(ev_trajectory_id e := w_files w (ev_trajectory_id e) @ [e])) \<or>
     (w_db w' = w_db w @ [e] \<and>
      w_files w' = (w_files w)(ev_trajectory_id e := w_files w (ev_trajectory_id e) @ [e]))"
    by blast+
qed

lemma adjudicated_event_id [simp]:
  "ev_event_id (adjudicated_event fr corr e a) = ''evt-'' @ fresh_event_uuid fr"
  by (simp add: adjudicated_event_def with_causality_def with_actor_def event_new_def)

section \<open>Effects of one adjudication on the ledgers\<close>

text \<open>
  \<open>adds P\<close>: each ledger is extended, by events that satisfy \<open>P\<close> only.
\<close>

definition adds :: "(event \<Rightarrow> bool) \<Rightarrow> world \<Rightarrow> world \<Rightarrow> bool" where
  "adds P w w' \<longleftrightarrow>
     (\<exists>new. w_db w' = w_db w @ new \<and> (\<forall>x\<in>set new. P x))
     \<and> (\<forall>tid. \<exists>new. w_files w' tid = w_files w tid @ new \<and> (\<forall>x\<in>set new. P x))"

lemma adds_same: "ledgers w' = ledgers w \<Longrightarrow> adds P w w'"
  by (simp add: adds_def ledgers_def)

lemma adds_trans: "adds P a b \<Longrightarrow> adds P b c \<Longrightarrow> adds P a c"
  unfolding adds_def
proof (intro conjI allI)
  assume ab: "(\<exists>new. w_db b = w_db a @ new \<and> (\<forall>x\<in>set new. P x)) \<and>
      (\<forall>tid. \<exists>new. w_files b tid = w_files a tid @ new \<and> (\<forall>x\<in>set new. P x))"
    and bc: "(\<exists>new. w_db c = w_db b @ new \<and> (\<forall>x\<in>set new. P x)) \<and>
      (\<forall>tid. \<exists>new. w_files c tid = w_files b tid @ new \<and> (\<forall>x\<in>set new. P x))"
  obtain n m where "w_db b = w_db a @ n" "w_db c = w_db b @ m" "\<forall>x\<in>set n. P x" "\<forall>x\<in>set m. P x"
    using ab bc by auto
  then show "\<exists>new. w_db c = w_db a @ new \<and> (\<forall>x\<in>set new. P x)"
    by (intro exI [of _ "n @ m"]) auto
  fix tid
  obtain n m where "w_files b tid = w_files a tid @ n" "w_files c tid = w_files b tid @ m"
      "\<forall>x\<in>set n. P x" "\<forall>x\<in>set m. P x"
    using ab bc by metis
  then show "\<exists>new. w_files c tid = w_files a tid @ new \<and> (\<forall>x\<in>set new. P x)"
    by (intro exI [of _ "n @ m"]) auto
qed

lemma adds_persist:
  assumes "persist H e w = (r, w')" "P e" shows "adds P w w'"
  using persist_any(2) [OF assms(1)] assms(2) unfolding adds_def ledgers_def
  by (elim disjE) auto

lemma ensure_agent_ledgers: "ensure_agent_entity H a w = (r, w') \<Longrightarrow> ledgers w' = ledgers w"
  unfolding ensure_agent_entity_def
  by (auto simp: io_bind_def lift_euid_def split: prod.splits sum.splits if_splits)
    (metis entity_ops_ledgers)+

lemma evaluate_ledgers: "evaluate H e w = (r, w') \<Longrightarrow> ledgers w' = ledgers w"
proof -
  assume ev: "evaluate H e w = (r, w')"
  obtain q w1 where b: "build_request H e w = (q, w1)" by fastforce
  have l: "ledgers w1 = ledgers w" by (rule keepsD [OF ledger_effect.build_request_keeps b])
  show ?thesis
  proof (cases q)
    case (Inl err)
    then show ?thesis using ev b l by (simp add: evaluate_def io_bind_def)
  next
    case (Inr request)
    obtain q' w2 where "entities (hs_faults H) w1 = (q', w2)" by fastforce
    then show ?thesis using ev b l Inr entity_ops_ledgers(4)
      by (auto simp: evaluate_def is_authorized_def io_bind_def split: sum.splits)
  qed
qed

text \<open>
  Relations between worlds that depend on the ledgers only and that persisting an event of
  \<open>P\<close> respects hold across a whole adjudication.
\<close>

text \<open>One call: the agent entity, then the arm for the event's category.\<close>

lemma adjudicate_event_cases:
  assumes "adjudicate_event H fr corr e w = (r, w')"
  obtains (failed) err where "r = Inl err" "ensure_agent_entity H (ev_agent e) w = (Inl err, w')"
  | (control) w1 c where "ensure_agent_entity H (ev_agent e) w = (Inr (), w1)" "ev_event e = Control c"
      "adjudicate_control H e c w1 = (r, w')"
  | (action) w1 where "ensure_agent_entity H (ev_agent e) w = (Inr (), w1)"
      "\<And>c. ev_event e \<noteq> Control c" "adjudicate_action H fr corr e w1 = (r, w')"
proof -
  obtain q w1 where q: "ensure_agent_entity H (ev_agent e) w = (q, w1)" by fastforce
  show thesis
  proof (cases q)
    case (Inl err)
    then show ?thesis using assms q failed by (auto simp: adjudicate_event_def io_bind_def)
  next
    case (Inr u)
    then show ?thesis using assms q control action
      by (cases "ev_event e") (auto simp: adjudicate_event_def io_bind_def)
  qed
qed

locale persist_effect =
  fixes H :: harness and R :: "world \<Rightarrow> world \<Rightarrow> bool" and P :: "event \<Rightarrow> bool"
  assumes R_same: "ledgers w' = ledgers w \<Longrightarrow> R w w'"
    and R_trans: "R a b \<Longrightarrow> R b c \<Longrightarrow> R a c"
    and R_persist: "persist H e w = (r, w') \<Longrightarrow> P e \<Longrightarrow> R w w'"
begin

lemma record_verdict_effect:
  assumes "record_verdict H fr corr e a w = (r, w')" "P (adjudicated_event fr corr e a)"
  shows "R w w'"
proof -
  obtain q w1 where g: "get_entity (hs_faults H) (quid ''Trajectory'' (ev_trajectory_id e)) w = (q, w1)"
    by fastforce
  have l: "R w w1" by (rule R_same [OF entity_ops_ledgers(2) [OF g]])
  obtain p w2 where p: "persist H (adjudicated_event fr corr e a) w1 = (p, w2)" by fastforce
  have "w' = w \<or> w' = w1 \<or> w' = w2"
    using assms(1) g p
    by (auto simp: record_verdict_def io_bind_def lift_euid_def split: sum.splits)
  then show ?thesis
    using l R_trans [OF l R_persist [OF p assms(2)]] R_same [of w w] by auto
qed

lemma adjudicate_action_effect:
  assumes "adjudicate_action H fr corr e w = (r, w')"
    and stored: "\<And>outcome w1. evaluate H e w = (outcome, w1) \<Longrightarrow> P (stored_form H outcome e)"
    and verdict: "\<And>x a. P (adjudicated_event fr corr x a)"
  shows "R w w'"
proof -
  obtain outcome w1 where ev: "evaluate H e w = (outcome, w1)" by fastforce
  obtain persisted w2 where p: "persist H (stored_form H outcome e) w1 = (persisted, w2)" by fastforce
  have a: "R w w2"
    by (rule R_trans [OF R_same [OF evaluate_ledgers [OF ev]] R_persist [OF p stored [OF ev]]])
  have b: "R w2 w'"
  proof (cases outcome)
    case (Inl err)
    then show ?thesis using assms(1) ev p by (auto simp: adjudicate_action_def Let_def R_same)
  next
    case (Inr a)
    show ?thesis
    proof (cases persisted)
      case (Inl err)
      then show ?thesis using assms(1) ev p Inr by (auto simp: adjudicate_action_def Let_def R_same)
    next
      case (Inr u)
      with \<open>outcome = Inr a\<close> assms(1) ev p
      have "record_verdict H fr corr (stored_form H outcome e) a w2 = (r, w')"
        by (simp add: adjudicate_action_def Let_def)
      then show ?thesis by (rule record_verdict_effect) (rule verdict)
    qed
  qed
  show ?thesis by (rule R_trans [OF a b])
qed

lemma adjudicate_control_effect:
  assumes "adjudicate_control H e c w = (r, w')" "P e"
  shows "R w w'"
proof -
  obtain p w1 where p: "persist H e w = (p, w1)" by fastforce
  have l: "ledgers w' = ledgers w1"
    using assms(1) p
    by (auto simp: adjudicate_control_def upsert_entity_def io_bind_def
        dest: entity_ops_ledgers(1) split: sum.splits control.splits prod.splits)
  show ?thesis by (rule R_trans [OF R_persist [OF p assms(2)] R_same [OF l]])
qed

lemma adjudicate_event_effect:
  assumes "adjudicate_event H fr corr e w = (r, w')"
    and stored: "\<And>outcome w0 w1. ensure_agent_entity H (ev_agent e) w = (Inr (), w0) \<Longrightarrow>
      evaluate H e w0 = (outcome, w1) \<Longrightarrow> P (stored_form H outcome e)"
    and "\<And>x a. P (adjudicated_event fr corr x a)"
    and "\<And>c. ev_event e = Control c \<Longrightarrow> P e"
  shows "R w w'"
  using assms(1)
proof (cases rule: adjudicate_event_cases)
  case (failed err)
  then show ?thesis by (intro R_same) (rule ensure_agent_ledgers)
next
  case (control w1 c)
  show ?thesis
    by (rule R_trans [OF R_same [OF ensure_agent_ledgers [OF control(1)]]
          adjudicate_control_effect [OF control(3) assms(4) [OF control(2)]]])
next
  case (action w1)
  show ?thesis
    by (rule R_trans [OF R_same [OF ensure_agent_ledgers [OF action(1)]]
          adjudicate_action_effect [OF action(3) stored [OF action(1)] assms(3)]])
qed

end

interpretation adds_effect: persist_effect H "adds P" P for H P
  by unfold_locales (auto intro: adds_same adds_trans adds_persist)

text \<open>
  A file body reaches a ledger only as a marker, or after Cedar allowed the operation.
\<close>

definition bodies_hidden :: "harness \<Rightarrow> event \<Rightarrow> bool" where
  "bodies_hidden H x \<longleftrightarrow> (\<forall>b\<in>set (file_bodies (ev_event x)). is_marker (hs_sha_hex H) b)"

lemma bodies_hidden_redacted: "bodies_hidden H (redact_file_content (hs_sha_hex H) e)"
  by (auto simp: bodies_hidden_def file_bodies_redact is_marker_def)

lemma bodies_hidden_control: "ev_event e = Control c \<Longrightarrow> bodies_hidden H e"
  by (simp add: bodies_hidden_def)

lemma adjudicated_event_simps [simp]:
  "ev_event (adjudicated_event fr corr e a) = Control (Adjudicated a)"
  "ev_trajectory_id (adjudicated_event fr corr e a) = ev_trajectory_id e"
  "ev_agent (adjudicated_event fr corr e a) = ev_agent e"
  "cs_causation_id (ev_causality (adjudicated_event fr corr e a)) = Some (ev_event_id e)"
  "ev_actor (adjudicated_event fr corr e a) = actor_policy ''cedar''"
  by (simp_all add: adjudicated_event_def with_causality_def with_actor_def event_new_def caused_by_def)

definition cleared :: "harness \<Rightarrow> event \<Rightarrow> world \<Rightarrow> bool" where
  "cleared H e w \<longleftrightarrow>
     (case ensure_agent_entity H (ev_agent e) w of
        (Inr _, w0) \<Rightarrow> (case evaluate H e w0 of (Inr a, _) \<Rightarrow> adj_decision a = Allow | _ \<Rightarrow> False)
      | _ \<Rightarrow> False)"

lemma stored_form_hidden:
  "ensure_agent_entity H (ev_agent e) w = (Inr (), w0) \<Longrightarrow> evaluate H e w0 = (outcome, w1) \<Longrightarrow>
   bodies_hidden H (stored_form H outcome e) \<or> (cleared H e w \<and> stored_form H outcome e = e)"
  unfolding stored_form_def cleared_def
  by (cases outcome) (auto simp: bodies_hidden_redacted)

lemma adjudicate_event_adds:
  assumes "adjudicate_event H fr corr e w = (r, w')"
  shows "adds (\<lambda>x. bodies_hidden H x \<or> (cleared H e w \<and> x = e)) w w'"
  by (rule adds_effect.adjudicate_event_effect [OF assms])
    (auto dest: stored_form_hidden simp: bodies_hidden_control)

section \<open>A verdict is Cedar's\<close>

lemma evaluate_Inr:
  assumes "evaluate H e w = (Inr a, w')"
  obtains request w1 where "build_request H e w = (Inr request, w1)"
    "a = adjudicated_from_response (hs_cedar H) (cd_authorize (hs_cedar H) request (w_entities w1))"
    "authorizable (ev_event e)"
  using assms build_request_unsupported
  by (auto simp: evaluate_def is_authorized_def entities_def io_bind_Inr io_op_cases) (metis)

lemma adjudicate_action_Inr:
  assumes "adjudicate_action H fr corr e w = (Inr a, w')"
  obtains w1 w2 where "evaluate H e w = (Inr a, w1)"
    "persist H (stored_form H (Inr a) e) w1 = (Inr (), w2)"
    "record_verdict H fr corr (stored_form H (Inr a) e) a w2 = (Inr a, w')"
proof -
  obtain outcome w1 where ev: "evaluate H e w = (outcome, w1)" by fastforce
  obtain persisted w2 where p: "persist H (stored_form H outcome e) w1 = (persisted, w2)" by fastforce
  obtain b where b: "outcome = Inr b" "persisted = Inr ()"
      "record_verdict H fr corr (stored_form H outcome e) b w2 = (Inr a, w')"
    using assms ev p by (auto simp: adjudicate_action_def Let_def split: sum.splits)
  moreover have "b = a" using b(3) by (auto simp: record_verdict_def io_bind_Inr)
  ultimately show thesis using that ev p by auto
qed

lemma record_verdict_Inr:
  assumes "record_verdict H fr corr e a w = (Inr b, w')"
  shows "b = a" "w_db w' = w_db w @ [adjudicated_event fr corr e a]"
    "w_files w' = (w_files w)(ev_trajectory_id e :=
       w_files w (ev_trajectory_id e) @ [adjudicated_event fr corr e a])"
    "w_entities w' = w_entities w"
proof -
  obtain q w1 where g: "get_entity (hs_faults H) (quid ''Trajectory'' (ev_trajectory_id e)) w = (Inr q, w1)"
    and p: "persist H (adjudicated_event fr corr e a) w1 = (Inr (), w')" and "b = a"
    using assms by (auto simp: record_verdict_def io_bind_Inr lift_Inr)
  then show "b = a" "w_db w' = w_db w @ [adjudicated_event fr corr e a]"
    "w_files w' = (w_files w)(ev_trajectory_id e :=
       w_files w (ev_trajectory_id e) @ [adjudicated_event fr corr e a])"
    "w_entities w' = w_entities w"
    using persist_Inr [OF p] entity_ops_ledgers(2) [OF g] turso.get_Inr [OF g]
    by (simp_all add: ledgers_def)
qed

lemma stored_form_simps [simp]:
  "ev_trajectory_id (stored_form H outcome e) = ev_trajectory_id e"
  "ev_event_id (stored_form H outcome e) = ev_event_id e"
  "ev_agent (stored_form H outcome e) = ev_agent e"
  by (simp_all add: stored_form_def split: sum.split)

lemma adjudicate_action_ledgers:
  assumes "adjudicate_action H fr corr e w = (Inr a, w')"
  shows "w_db w' = w_db w @ [stored_form H (Inr a) e,
      adjudicated_event fr corr (stored_form H (Inr a) e) a]"
    "w_files w' = (w_files w)(ev_trajectory_id e := w_files w (ev_trajectory_id e)
      @ [stored_form H (Inr a) e, adjudicated_event fr corr (stored_form H (Inr a) e) a])"
proof -
  obtain w1 w2 where ev: "evaluate H e w = (Inr a, w1)"
    and p: "persist H (stored_form H (Inr a) e) w1 = (Inr (), w2)"
    and v: "record_verdict H fr corr (stored_form H (Inr a) e) a w2 = (Inr a, w')"
    using adjudicate_action_Inr [OF assms] .
  show "w_db w' = w_db w @ [stored_form H (Inr a) e,
      adjudicated_event fr corr (stored_form H (Inr a) e) a]"
    "w_files w' = (w_files w)(ev_trajectory_id e := w_files w (ev_trajectory_id e)
      @ [stored_form H (Inr a) e, adjudicated_event fr corr (stored_form H (Inr a) e) a])"
    using evaluate_ledgers [OF ev] persist_Inr [OF p] record_verdict_Inr [OF v]
    by (simp_all add: ledgers_def)
qed

section \<open>The ledgers mirror each other\<close>

text \<open>
  Every row of the database is in its trajectory's file, in the same order; the file may hold
  more, where a write to the database failed.
\<close>

definition mirrored :: "world \<Rightarrow> bool" where
  "mirrored w \<longleftrightarrow> (\<forall>tid. subseq (filter (\<lambda>x. ev_trajectory_id x = tid) (w_db w)) (w_files w tid))"

lemma mirrored_persist:
  assumes "persist H e w = (r, w')" "mirrored w" shows "mirrored w'"
  using persist_any(2) [OF assms(1)] assms(2) unfolding mirrored_def ledgers_def
  by (elim disjE) (auto intro: list_emb_append_mono subseq_order.order_trans)

interpretation mirror_effect: persist_effect H "\<lambda>w w'. mirrored w \<longrightarrow> mirrored w'" "\<lambda>_. True" for H
  by unfold_locales (auto simp: mirrored_def ledgers_def dest: mirrored_persist [unfolded mirrored_def])

section \<open>Trajectories over a run\<close>

fun is_start :: "trajectory_event \<Rightarrow> bool" where
  "is_start (Control (Started _)) = True"
| "is_start _ = False"

definition label_kept :: "string \<Rightarrow> world \<Rightarrow> world \<Rightarrow> bool" where
  "label_kept tid w w' \<longleftrightarrow> (keyed w \<longrightarrow> keyed w' \<and> traj_label w tid \<le> traj_label w' tid)"

lemma label_kept_trans: "label_kept tid a b \<Longrightarrow> label_kept tid b c \<Longrightarrow> label_kept tid a c"
  unfolding label_kept_def by (meson order_trans)

lemma label_kept_same: "w_entities w' = w_entities w \<Longrightarrow> label_kept tid w w'"
  by (simp add: label_kept_def traj_label_def traj_view_def keyed_def)

lemma label_monotone_kept: "label_monotone w w' \<Longrightarrow> label_kept tid w w'"
  by (simp add: label_monotone_def label_kept_def)

lemma ensure_agent_view:
  assumes "ensure_agent_entity H a w = (r, w')" "keyed w"
  shows "traj_view w' = traj_view w" "keyed w'"
proof -
  obtain q w1 where g: "get_entity (hs_faults H) (quid ''Agent'' (ag_id a)) w = (q, w1)" by fastforce
  have e: "w_entities w1 = w_entities w"
    using g by (cases q) (auto dest: turso.get_Inr turso.get_Inl)
  then have v: "traj_view w1 = traj_view w" "keyed w1"
    using view_cong [of w1 w] assms(2) by auto
  have "w' = w \<or> w' = w1 \<or> (\<exists>p. upsert (hs_faults H)
      \<lparr>en_uid = quid ''Agent'' (ag_id a), en_attrs = Map.empty, en_parents = {}\<rparr> w1 = (p, w'))"
    using assms(1) g
    by (auto simp: ensure_agent_entity_def lift_euid_def io_bind_def euid_def
        split: sum.splits if_splits prod.splits)
  then show "traj_view w' = traj_view w" "keyed w'"
    using v assms(2) upsert_view [of "hs_faults H" _ w1 _ w' "''Agent''"] by (auto simp del: quid_inj)
qed

lemma adjudicate_action_label:
  assumes "adjudicate_action H fr corr e w = (r, w')"
  shows "label_kept tid w w'"
proof -
  obtain outcome w1 where ev: "evaluate H e w = (outcome, w1)" by fastforce
  obtain persisted w2 where p: "persist H (stored_form H outcome e) w1 = (persisted, w2)" by fastforce
  obtain q w0 where b: "build_request H e w = (q, w0)" by fastforce
  have "label_kept tid w w0"
    by (rule label_monotone_kept [OF keepsD [OF label_effect.build_request_keeps b]])
  moreover have "w_entities w1 = w_entities w0"
    using ev b by (auto simp: evaluate_def is_authorized_def entities_def io_bind_def io_op_def Let_def
        split: sum.splits option.splits prod.splits)
  moreover have "w_entities w2 = w_entities w1" by (rule persist_any(1) [OF p])
  moreover have "w_entities w' = w_entities w2"
    using assms ev p persist_any(1)
    by (auto simp: adjudicate_action_def Let_def record_verdict_def io_bind_def lift_euid_def
        get_entity_def io_op_def split: sum.splits option.splits prod.splits)
  ultimately show ?thesis
    using label_kept_trans label_kept_same by (metis (no_types, lifting))
qed

lemma adjudicate_action_view:
  assumes "adjudicate_action H fr corr e w = (Inr a, w')" "keyed w"
  shows "traj_view w' = marked H (ev_trajectory_id e) (ev_event e)
    (counted (ev_trajectory_id e) (traj_view w))"
proof -
  obtain w1 w2 where ev: "evaluate H e w = (Inr a, w1)"
    and p: "persist H (stored_form H (Inr a) e) w1 = (Inr (), w2)"
    and v: "record_verdict H fr corr (stored_form H (Inr a) e) a w2 = (Inr a, w')"
    using adjudicate_action_Inr [OF assms(1)] .
  obtain q w0 where b: "build_request H e w = (Inr q, w0)" and "w_entities w1 = w_entities w0"
    using ev by (auto simp: evaluate_def is_authorized_def entities_def io_bind_Inr io_op_cases)
  then have "traj_view w' = traj_view w0"
    using persist_Inr(3) [OF p] record_verdict_Inr(4) [OF v] view_cong [of w' w0] by simp
  then show ?thesis using build_request_effect [OF b assms(2)] by simp
qed

lemma start_view:
  assumes "upsert F x w = (Inr u, w')" "traj_into_entity C (traj_new i) = Inr x" "keyed w"
  shows "traj_view w' = (traj_view w)(i \<mapsto> traj_new i)" "keyed w'"
proof -
  have u: "en_uid x = quid ''Trajectory'' i"
    using traj_into_entity_uid [OF assms(2)] by (simp add: traj_new_def)
  show "traj_view w' = (traj_view w)(i \<mapsto> traj_new i)" "keyed w'"
    using view_upsert_traj [OF u turso.put_Inr [OF assms(1)] assms(3)] traj_round_trip [OF assms(2)]
    by simp_all
qed

lemma adjudicate_control_label:
  assumes "adjudicate_control H e c w = (r, w')" "ev_event e = Control c"
    "is_start (ev_event e) \<Longrightarrow> ev_trajectory_id e \<noteq> tid"
  shows "label_kept tid w w'"
proof -
  obtain p w1 where p: "persist H e w = (p, w1)" by fastforce
  have k: "label_kept tid w w1" by (rule label_kept_same [OF persist_any(1) [OF p]])
  show ?thesis
  proof (cases "\<exists>s. c = Started s \<and> p = Inr ()")
    case False
    then have "w' = w1"
      using assms(1) p by (cases c; cases p) (auto simp: adjudicate_control_def io_bind_def)
    then show ?thesis using k by simp
  next
    case True
    then have ne: "ev_trajectory_id e \<noteq> tid" using assms by auto
    have "w' = w1 \<or> (\<exists>x q. traj_into_entity (hs_cedar H) (traj_new (ev_trajectory_id e)) = Inr x
        \<and> upsert (hs_faults H) x w1 = (q, w'))"
      using assms(1) p True
      by (auto simp: adjudicate_control_def upsert_entity_def io_bind_def split: sum.splits prod.splits)
    moreover have "label_kept tid w1 w'"
      if "traj_into_entity (hs_cedar H) (traj_new (ev_trajectory_id e)) = Inr x"
        "upsert (hs_faults H) x w1 = (q, w')" for x q
    proof (cases q)
      case (Inl err)
      then show ?thesis using that(2) turso.put_Inl label_kept_same by blast
    next
      case (Inr u)
      then show ?thesis
        using start_view [OF _ that(1), of "hs_faults H" w1 u w'] that(2) ne
        by (auto simp: label_kept_def traj_label_def)
    qed
    ultimately show ?thesis using k label_kept_trans by blast
  qed
qed

lemma adjudicate_event_label:
  assumes "adjudicate_event H fr corr e w = (r, w')"
    "is_start (ev_event e) \<Longrightarrow> ev_trajectory_id e \<noteq> tid"
  shows "label_kept tid w w'"
proof -
  have agent: "label_kept tid w w1" if "ensure_agent_entity H (ev_agent e) w = (q, w1)" for q w1
    using ensure_agent_view [OF that] by (simp add: label_kept_def traj_label_def)
  from assms(1) show ?thesis
  proof (cases rule: adjudicate_event_cases)
    case (failed err)
    then show ?thesis using agent by simp
  next
    case (control w1 c)
    then show ?thesis
      using label_kept_trans [OF agent [OF control(1)] adjudicate_control_label] assms(2) by blast
  next
    case (action w1)
    then show ?thesis
      using label_kept_trans [OF agent [OF action(1)] adjudicate_action_label] by blast
  qed
qed

text \<open>A run: any events in any order, each adjudicated with any UUIDs, any accesses failing.\<close>

inductive run :: "harness \<Rightarrow> world \<Rightarrow> event list \<Rightarrow> world \<Rightarrow> bool" for H where
  run_nil: "run H w [] w"
| run_step: "adjudicate_event H fr corr e w = (r, w1) \<Longrightarrow> run H w1 es w' \<Longrightarrow> run H w (e # es) w'"

inductive_cases run_consE: "run H w (e # es) w'"

lemma run_label:
  "run H w es w' \<Longrightarrow> (\<forall>e\<in>set es. is_start (ev_event e) \<longrightarrow> ev_trajectory_id e \<noteq> tid) \<Longrightarrow>
   label_kept tid w w'"
proof (induction rule: run.induct)
  case (run_nil w)
  then show ?case by (simp add: label_kept_same)
next
  case (run_step fr corr e w r w1 es w')
  have "label_kept tid w w1"
    using adjudicate_event_label [OF run_step.hyps(1)] run_step.prems by auto
  then show ?case using label_kept_trans run_step by (metis list.set_intros(2))
qed

lemma run_mirrored: "run H w es w' \<Longrightarrow> mirrored w \<Longrightarrow> mirrored w'"
proof (induction rule: run.induct)
  case (run_step fr corr e w r w1 es w')
  then show ?case using mirror_effect.adjudicate_event_effect by metis
qed simp

section \<open>A second start\<close>

lemma start_resets:
  assumes "adjudicate_event H fr corr e w = (Inr a, w')" "ev_event e = Control (Started s)" "keyed w"
  shows "traj_view w' = (traj_view w)(ev_trajectory_id e \<mapsto> traj_new (ev_trajectory_id e))"
  using assms(1)
proof (cases rule: adjudicate_event_cases)
  case (control w1 c)
  have v: "traj_view w1 = traj_view w" "keyed w1"
    using ensure_agent_view [OF control(1) assms(3)] by auto
  obtain w2 x where p: "persist H e w1 = (Inr (), w2)"
    and x: "traj_into_entity (hs_cedar H) (traj_new (ev_trajectory_id e)) = Inr x"
    and u: "upsert (hs_faults H) x w2 = (Inr (), w')"
    using control(2,3) assms(2) by (auto simp: adjudicate_control_def upsert_entity_def io_bind_Inr)
  have "traj_view w2 = traj_view w1" "keyed w2"
    using view_cong [of w2 w1] persist_Inr(3) [OF p] v by auto
  then show ?thesis using start_view(1) [OF u x] v by simp
qed (use assms in auto)

text \<open>A lifecycle record that starts nothing leaves the trajectories alone.\<close>

lemma control_view:
  assumes "adjudicate_event H fr corr e w = (Inr a, w')" "ev_event e = Control c"
    "\<And>s. c \<noteq> Started s" "keyed w"
  shows "traj_view w' = traj_view w"
  using assms(1)
proof (cases rule: adjudicate_event_cases)
  case (control w1 c')
  have "persist H e w1 = (Inr (), w')"
    using control(2,3) assms(2,3) by (cases c) (auto simp: adjudicate_control_def io_bind_Inr)
  then show ?thesis
    using ensure_agent_view(1) [OF control(1) assms(4)] view_cong(1) [of w' w1] persist_Inr(3) by metis
qed (use assms in auto)

lemma control_stored:
  assumes "adjudicate_event H fr corr e w = (Inr a, w')" "ev_event e = Control c"
  shows "a = adjudicated_allow" "w_db w' = w_db w @ [e]"
    "w_files w' = (w_files w)(ev_trajectory_id e := w_files w (ev_trajectory_id e) @ [e])"
proof -
  have "a = adjudicated_allow \<and> w_db w' = w_db w @ [e] \<and>
      w_files w' = (w_files w)(ev_trajectory_id e := w_files w (ev_trajectory_id e) @ [e])"
    using assms(1)
  proof (cases rule: adjudicate_event_cases)
    case (control w1 c)
    obtain w2 where p: "persist H e w1 = (Inr (), w2)" and l: "ledgers w' = ledgers w2"
      and a: "a = adjudicated_allow"
      using control(3)
      by (cases c) (auto simp: adjudicate_control_def upsert_entity_def io_bind_Inr
          dest: entity_ops_ledgers(1))
    show ?thesis
      using persist_Inr [OF p] l a ensure_agent_ledgers [OF control(1)] by (simp add: ledgers_def)
  qed (use assms in auto)
  then show "a = adjudicated_allow" "w_db w' = w_db w @ [e]"
    "w_files w' = (w_files w)(ev_trajectory_id e := w_files w (ev_trajectory_id e) @ [e])" by auto
qed

section \<open>The label lattice\<close>

definition label_edge :: "(euid \<rightharpoonup> entity) \<Rightarrow> label \<Rightarrow> label \<Rightarrow> bool" where
  "label_edge es a b \<longleftrightarrow>
     (case es (quid ''Label'' (label_to_string a)) of
        Some e \<Rightarrow> quid ''Label'' (label_to_string b) \<in> en_parents e
      | None \<Rightarrow> False)"

lemma label_to_string_inj [simp]: "label_to_string a = label_to_string b \<longleftrightarrow> a = b"
  by (cases a; cases b) simp_all

definition parent_of :: "label \<Rightarrow> label option" where
  "parent_of l = (case l of Public \<Rightarrow> Some Internal | Internal \<Rightarrow> Some Confidential
     | Confidential \<Rightarrow> Some HighlyConfidential | HighlyConfidential \<Rightarrow> None)"

lemma label_entity_Inr:
  "label_entity H l p = Inr e \<Longrightarrow> en_uid e = quid ''Label'' (label_to_string l) \<and>
     en_parents e = (case p of None \<Rightarrow> {} | Some q \<Rightarrow> {quid ''Label'' (label_to_string q)})"
  by (auto simp: label_entity_def bind_result_Inr_iff eb_build_def Let_def builder_new_def
      eb_parent_uid_def split: option.splits)

lemma install_labels_edges:
  assumes "install_labels H w = (Inr u, w')"
  shows "label_edge (w_entities w') a b \<longleftrightarrow> parent_of a = Some b"
proof -
  obtain h c i p w1 w2 w3 where
    l: "label_entity H HighlyConfidential None = Inr h"
      "label_entity H Confidential (Some HighlyConfidential) = Inr c"
      "label_entity H Internal (Some Confidential) = Inr i"
      "label_entity H Public (Some Internal) = Inr p"
    and u: "upsert (hs_faults H) h w = (Inr (), w1)" "upsert (hs_faults H) c w1 = (Inr (), w2)"
      "upsert (hs_faults H) i w2 = (Inr (), w3)" "upsert (hs_faults H) p w3 = (Inr (), w')"
    using assms by (auto simp: install_labels_def io_bind_Inr)
  have "w_entities w' = (w_entities w)(en_uid h \<mapsto> h, en_uid c \<mapsto> c, en_uid i \<mapsto> i, en_uid p \<mapsto> p)"
    using turso.put_Inr [OF u(1)] turso.put_Inr [OF u(2)] turso.put_Inr [OF u(3)]
      turso.put_Inr [OF u(4)] by simp
  then show ?thesis
    using l [THEN label_entity_Inr]
    by (cases a; cases b) (auto simp: label_edge_def parent_of_def)
qed

lemma parents_order: "(\<lambda>a b. parent_of a = Some b)\<^sup>*\<^sup>* a b \<longleftrightarrow> a \<le> b"
proof
  assume "(\<lambda>a b. parent_of a = Some b)\<^sup>*\<^sup>* a b"
  then show "a \<le> b"
  proof (induction rule: rtranclp_induct)
    case (step y z)
    have "y \<le> z" using step(2)
      by (cases y) (auto simp: parent_of_def less_eq_label_def)
    then show ?case using step by order
  qed simp
next
  let ?r = "(\<lambda>a b. parent_of a = Some b)\<^sup>*\<^sup>*"
  have e: "?r Public Internal" "?r Internal Confidential" "?r Confidential HighlyConfidential"
    by (auto simp: parent_of_def)
  have f: "?r Public Confidential" "?r Internal HighlyConfidential" "?r Public HighlyConfidential"
    using e by (meson rtranclp_trans)+
  show "a \<le> b \<Longrightarrow> ?r a b"
    using e f by (cases a; cases b) (auto simp: less_eq_label_def word_le_nat_alt)
qed

end
