(* ===== verification/Totality.thy ===== *)
theory Totality
  imports Harness_Props
begin

text \<open>
  When an adjudication answers. If the stores do not fail and Cedar accepts the uids, entities,
  contexts and requests it is given, every event that is not a thought or a snapshot gets a
  verdict; a thought or a snapshot never does.
\<close>

section \<open>Computations that answer\<close>

definition answers :: "'a io \<Rightarrow> bool" where
  "answers m \<longleftrightarrow> (\<forall>w. \<exists>a w'. m w = (Inr a, w'))"

named_theorems answering

lemma answers_return [answering]: "answers (io_return a)" "answers (io_lift (Inr a))"
  by (simp_all add: answers_def)

lemma answers_bind [answering]:
  assumes "answers m" "\<And>a. answers (f a)" shows "answers (io_bind m f)"
proof -
  have "\<exists>b w2. io_bind m f w = (Inr b, w2)" for w
  proof -
    obtain a w1 where "m w = (Inr a, w1)" using assms(1) unfolding answers_def by blast
    moreover obtain b w2 where "f a w1 = (Inr b, w2)" using assms(2) unfolding answers_def by blast
    ultimately show ?thesis by (simp add: io_bind_def)
  qed
  then show ?thesis by (simp add: answers_def)
qed

lemma answers_op [answering]: "(\<And>n. F n = None) \<Longrightarrow> answers (io_op F f)"
  by (auto simp: answers_def io_op_def Let_def split: prod.splits)

section \<open>An engine that accepts\<close>

definition accepting :: "harness \<Rightarrow> bool" where
  "accepting H \<longleftrightarrow>
     (\<forall>n. hs_faults H n = None)
     \<and> (\<forall>t. cd_type_name_ok (hs_cedar H) (SCHEMA_NAMESPACE @ ''::'' @ t))
     \<and> (\<forall>e. cd_entity_error (hs_cedar H) e = None)
     \<and> (\<forall>j. cd_context_error (hs_cedar H) j = None)
     \<and> (\<forall>r. cd_request_error (hs_cedar H) r = None)"

lemma acceptingD:
  assumes "accepting H"
  shows "hs_faults H n = None" "euid (hs_cedar H) t i = Inr (quid t i)"
    "\<exists>x. eb_build (hs_cedar H) b = Inr x"
    "cd_context_error (hs_cedar H) j = None" "cd_request_error (hs_cedar H) r = None"
  using assms by (simp_all add: accepting_def eb_build_def Let_def)


lemma accepting_answers:
  assumes "accepting H"
  shows "answers (lift_euid H t i)" "answers (lift_context H j)"
    "answers (io_lift (eb_build (hs_cedar H) b))" "answers (io_lift (file_entity H u l))"
    "answers (upsert (hs_faults H) e)" "answers (get_entity (hs_faults H) u)"
    "answers (entities (hs_faults H))"
    "answers (io_lift (traj_into_entity (hs_cedar H) t'))"
    "answers (io_lift (new_request H p parts))"
proof -
  have lift: "\<exists>a. x = Inr a \<Longrightarrow> answers (io_lift x)" for x :: "string + 'a"
    by (auto simp: answers_def)
  show "answers (lift_euid H t i)" "answers (lift_context H j)"
    using acceptingD [OF assms] by (simp_all add: lift_euid_def lift_context_def answers_def)
  show "answers (io_lift (eb_build (hs_cedar H) b))" "answers (io_lift (file_entity H u l))"
    "answers (io_lift (traj_into_entity (hs_cedar H) t'))"
    "answers (io_lift (new_request H p parts))"
    using acceptingD(3) [OF assms]
    by (auto simp: answers_def file_entity_def eb_entity_ref_def traj_into_entity_def new_request_def
        from_type_and_id_def acceptingD(2,5) [OF assms] Let_def split: prod.split)
  show "answers (upsert (hs_faults H) e)" "answers (get_entity (hs_faults H) u)"
    "answers (entities (hs_faults H))"
    using acceptingD(1) [OF assms]
    by (auto simp: upsert_def get_entity_def entities_def intro!: answering)
qed

lemma answers_update:
  assumes "accepting H" "\<And>x. \<exists>y. f x = Inr y"
  shows "answers (update_entity (hs_faults H) u f)"
proof -
  have "answers (io_lift (f x))" for x using assms(2) [of x] by (auto simp: answers_def)
  then show ?thesis
    unfolding update_entity_def update_entity_with_def
    by (intro answers_bind accepting_answers [OF assms(1)])
      (auto split: option.split intro: accepting_answers [OF assms(1)] answering)
qed

lemma accepting_updates:
  assumes "accepting H"
  shows "answers (update_entity (hs_faults H) u (count_step (hs_cedar H) tid))"
    "answers (mark_trajectory_label H u l)"
proof -
  have into: "\<exists>e. traj_into_entity (hs_cedar H) t = Inr e" for t
    using acceptingD(3) [OF assms]
    by (simp add: traj_into_entity_def from_type_and_id_def eb_entity_ref_def acceptingD(2) [OF assms])
  have bind: "\<exists>y. bind_result (traj_into_entity (hs_cedar H) t) (\<lambda>e. Inr (Some e)) = Inr y" for t
    using into [of t] by auto
  show "answers (update_entity (hs_faults H) u (count_step (hs_cedar H) tid))"
    by (rule answers_update [OF assms]) (simp add: count_step_def Let_def bind)
  show "answers (mark_trajectory_label H u l)"
    unfolding mark_trajectory_label_def
    by (rule answers_update [OF assms]) (auto simp: raise_label_def Let_def bind split: option.split)
qed

section \<open>Every request is built\<close>

lemma accepting_request_parts:
  assumes "accepting H" "authorizable ev" shows "answers (request_parts H e u ev)"
proof -
  note steps = answers_bind accepting_answers [OF assms(1)] accepting_updates [OF assms(1)] answers_return
  note defs = prompt_request_def tool_call_request_def shell_command_request_def web_fetch_request_def
    file_operation_request_def shell_output_request_def web_output_request_def file_result_request_def
    tool_output_request_def
  show ?thesis
  proof (cases ev)
    case (Action a)
    then show ?thesis
      by (cases a) (simp_all only: request_parts.simps defs classify_def Let_def prod.case,
        (intro steps impI allI conjI)+)
  next
    case (Observation ob)
    then show ?thesis
      using assms(2)
      by (cases ob) (simp_all only: request_parts.simps defs classify_def Let_def prod.case,
        auto intro!: steps)
  qed (use assms(2) in auto)
qed

lemma accepting_evaluate:
  assumes "accepting H" "authorizable (ev_event e)" shows "answers (evaluate H e)"
  unfolding evaluate_def build_request_def is_authorized_def
  by (intro answers_bind accepting_answers [OF assms(1)] accepting_updates [OF assms(1)]
      accepting_request_parts [OF assms] answers_return)

lemma answersE: "answers m \<Longrightarrow> (\<And>a w'. m w = (Inr a, w') \<Longrightarrow> P) \<Longrightarrow> P"
  unfolding answers_def by blast

section \<open>Event ids\<close>

text \<open>
  What remains is the ledger's unique event ids: on a healthy store an event is written exactly
  when its id is not there yet, and so is the verdict's record, whose id is drawn afresh.
\<close>

definition ids_fresh :: "fresh \<Rightarrow> event \<Rightarrow> event list \<Rightarrow> bool" where
  "ids_fresh fr e rows \<longleftrightarrow>
     ev_event_id e \<notin> event_ids rows
     \<and> (case ev_event e of
          Control _ \<Rightarrow> True
        | _ \<Rightarrow> ''evt-'' @ fresh_event_uuid fr \<notin> insert (ev_event_id e) (event_ids rows))"

lemma accepting_persist:
  assumes "accepting H" "ev_event_id e \<notin> event_ids (w_db w)"
  shows "\<exists>w'. persist H e w = (Inr (), w') \<and> w_db w' = w_db w @ [e]"
  using assms(2) acceptingD(1) [OF assms(1)]
  by (simp add: persist_def write_trajectory_event_def insert_event_def register_agent_def
      insert_row_def io_bind_def io_op_def Let_def)

lemma accepting_action:
  assumes "accepting H" "authorizable (ev_event e)" "ev_event_id e \<notin> event_ids (w_db w)"
    "''evt-'' @ fresh_event_uuid fr \<notin> insert (ev_event_id e) (event_ids (w_db w))"
  shows "\<exists>a w'. adjudicate_action H fr corr e w = (Inr a, w')"
proof -
  obtain a w1 where ev: "evaluate H e w = (Inr a, w1)"
    using accepting_evaluate [OF assms(1,2)] unfolding answers_def by blast
  have d: "w_db w1 = w_db w" using evaluate_ledgers [OF ev] by (simp add: ledgers_def)
  let ?e = "stored_form H (Inr a) e"
  obtain w2 where p: "persist H ?e w1 = (Inr (), w2)" "w_db w2 = w_db w @ [?e]"
    using accepting_persist [OF assms(1), of ?e w1] assms(3) d by auto
  obtain g w3 where g: "get_entity (hs_faults H) (quid ''Trajectory'' (ev_trajectory_id ?e)) w2 = (Inr g, w3)"
    using accepting_answers(6) [OF assms(1)] unfolding answers_def by blast
  have d3: "w_db w3 = w_db w @ [?e]" using entity_ops_ledgers(2) [OF g] p(2) by (simp add: ledgers_def)
  obtain w4 where v: "persist H (adjudicated_event fr corr ?e a) w3 = (Inr (), w4)"
    using accepting_persist [OF assms(1), of "adjudicated_event fr corr ?e a" w3] assms(4) d3 by auto
  have "record_verdict H fr corr ?e a w2 = (Inr a, w4)"
    using g v by (simp add: record_verdict_def lift_euid_def io_bind_def acceptingD(2) [OF assms(1)])
  then show ?thesis using ev p(1) by (simp add: adjudicate_action_def Let_def)
qed

lemma accepting_control:
  assumes "accepting H" "ev_event_id e \<notin> event_ids (w_db w)"
  shows "\<exists>a w'. adjudicate_control H e c w = (Inr a, w')"
proof -
  obtain w1 where p: "persist H e w = (Inr (), w1)" using accepting_persist [OF assms] by blast
  have "answers (case c of
         Started _ \<Rightarrow>
           io_bind (io_lift (traj_into_entity (hs_cedar H) (traj_new (ev_trajectory_id e))))
             (upsert_entity H)
       | _ \<Rightarrow> io_return ())"
    unfolding upsert_entity_def
    by (cases c) (simp, intro answers_bind accepting_answers [OF assms(1)] answers_return)+
  then obtain u w2 where "(case c of
         Started _ \<Rightarrow>
           io_bind (io_lift (traj_into_entity (hs_cedar H) (traj_new (ev_trajectory_id e))))
             (upsert_entity H)
       | _ \<Rightarrow> io_return ()) w1 = (Inr u, w2)"
    unfolding answers_def by blast
  then show ?thesis using p by (simp add: adjudicate_control_def io_bind_def)
qed

lemma accepting_agent:
  assumes "accepting H"
  shows "\<exists>w1. ensure_agent_entity H a w = (Inr (), w1) \<and> w_db w1 = w_db w"
proof -
  have found: "answers (if found = None then upsert (hs_faults H) x else io_return ())" for found x
    using accepting_answers(5) [OF assms(1)] by (simp add: answers_def)
  have "answers (ensure_agent_entity H a)"
    unfolding ensure_agent_entity_def
    by (intro answers_bind accepting_answers [OF assms(1)] found)
  then obtain u w1 where "ensure_agent_entity H a w = (Inr u, w1)" unfolding answers_def by blast
  then show ?thesis using ensure_agent_ledgers by (auto simp: ledgers_def)
qed

lemma accepting_adjudicates:
  assumes "accepting H" "authorizable (ev_event e) \<or> (\<exists>c. ev_event e = Control c)"
    "ids_fresh fr e (w_db w)"
  shows "\<exists>a w'. adjudicate_event H fr corr e w = (Inr a, w')"
proof -
  obtain w1 where ag: "ensure_agent_entity H (ev_agent e) w = (Inr (), w1)" "w_db w1 = w_db w"
    using accepting_agent [OF assms(1)] by blast
  have "\<exists>a w'. (case ev_event e of Control c \<Rightarrow> adjudicate_control H e c
      | _ \<Rightarrow> adjudicate_action H fr corr e) w1 = (Inr a, w')"
    using assms(2,3) accepting_control [OF assms(1), of e w1] accepting_action [OF assms(1), of e w1 fr corr]
    by (cases "ev_event e") (simp_all add: ids_fresh_def ag(2))
  then show ?thesis using ag(1) by (simp add: adjudicate_event_def io_bind_def)
qed

text \<open>Conversely, whatever the engine, an answered event and its verdict had fresh ids.\<close>

lemma answered_ids_fresh:
  assumes "adjudicate_event H fr corr e w = (Inr a, w')"
  shows "ids_fresh fr e (w_db w)"
  using assms
proof (cases rule: adjudicate_event_cases)
  case (control w1 c)
  obtain w2 where "persist H e w1 = (Inr (), w2)"
    using control(3) by (auto simp: adjudicate_control_def io_bind_Inr)
  then show ?thesis
    using persist_Inr(4) [of H e w1 "()" w2] ensure_agent_ledgers [OF control(1)] control(2)
    by (auto simp: ids_fresh_def ledgers_def)
next
  case (action w1)
  obtain w2 w3 w4 w5 where ev: "evaluate H e w1 = (Inr a, w2)"
    and p: "persist H (stored_form H (Inr a) e) w2 = (Inr (), w3)"
    and g: "ledgers w4 = ledgers w3"
    and v: "persist H (adjudicated_event fr corr (stored_form H (Inr a) e) a) w4 = (Inr (), w5)"
    using action(3) entity_ops_ledgers(2)
    by (auto simp: adjudicate_action_def record_verdict_def lift_euid_def io_bind_Inr Let_def
        split: prod.splits sum.splits) blast
  have "w_db w2 = w_db w" "w_db w4 = w_db w3"
    using ensure_agent_ledgers [OF action(1)] evaluate_ledgers [OF ev] g by (simp_all add: ledgers_def)
  then have "ev_event_id e \<notin> event_ids (w_db w)"
    "''evt-'' @ fresh_event_uuid fr \<notin> insert (ev_event_id e) (event_ids (w_db w))"
    using persist_Inr(1,4) [OF p] persist_Inr(4) [OF v] by auto
  then show ?thesis by (simp add: ids_fresh_def split: trajectory_event.split)
qed auto

section \<open>Thoughts and snapshots never are\<close>

lemma unsupported_event:
  assumes "adjudicate_event H fr corr e w = (r, w')" "\<not> authorizable (ev_event e)"
    "\<And>c. ev_event e \<noteq> Control c"
  obtains err where "r = Inl err"
  using assms(1)
proof (cases rule: adjudicate_event_cases)
  case (action w1)
  have "\<exists>err. r = Inl err"
  proof (cases r)
    case (Inr a)
    then obtain w2 where "evaluate H e w1 = (Inr a, w2)"
      using adjudicate_action_Inr action(3) by metis
    then show ?thesis using evaluate_Inr assms(2) by metis
  qed simp
  then show ?thesis using that by blast
qed (use assms that in auto)

lemma unsupported_ledger:
  assumes "adjudicate_action H fr corr e w = (r, w')" "\<not> authorizable (ev_event e)"
  shows "w_db w' = w_db w \<or> w_db w' = w_db w @ [redact_file_content (hs_sha_hex H) e]"
proof -
  obtain outcome w1 where ev: "evaluate H e w = (outcome, w1)" by fastforce
  obtain err where o: "outcome = Inl err"
    using ev evaluate_Inr [of H e w] assms(2) by (cases outcome) (blast, metis)
  obtain p w2 where p: "persist H (stored_form H outcome e) w1 = (p, w2)" by fastforce
  then have "w' = w2" using assms(1) ev o by (simp add: adjudicate_action_def Let_def)
  then show ?thesis
    using persist_any(2) [OF p] evaluate_ledgers [OF ev] o by (auto simp: ledgers_def stored_form_def)
qed

end
