(* ===== verification/Shell_Props.thy ===== *)
theory Shell_Props
  imports Shell_Parse
begin

text \<open>
  What the walk of \<open>Shell_Parse\<close> guarantees. Most facts have the same shape, a relation
  between the record before and after a step that every update of the walk respects; the
  locale \<open>walk_relation\<close> states the updates once and proves the relation for the whole
  recursion. Its interpretations give growth, token scoping, program names and finiteness.
  The last section shows that a complete parse (\<open>ok\<close>) omits nothing.
\<close>

section \<open>Relations the walk respects\<close>

text \<open>
  \<open>R Q\<close> relates the record before and after a step during which the programs of \<open>Q\<close> are
  known to be reported by the caller.
\<close>

locale walk_relation =
  fixes U :: unicode and R :: "string set \<Rightarrow> shell_parse \<Rightarrow> shell_parse \<Rightarrow> bool"
  assumes R_refl: "R Q out out"
    and R_trans: "R Q a b \<Longrightarrow> R Q b c \<Longrightarrow> R Q a c"
    and R_not_ok: "R Q out (out\<lparr>sp_ok := False\<rparr>)"
    and R_dynamic: "R Q out (out\<lparr>sp_has_dynamic_command := True\<rparr>)"
    and R_structure: "R Q out (mark_structure k out)"
    and R_flag: "p \<in> Q \<Longrightarrow> is_flag_token t \<Longrightarrow> R Q out (insert_flag U p t out)"
    and R_arg: "p \<in> Q \<Longrightarrow> R Q out (insert_arg U p t raw out)"
    and R_program: "normalize_program U t \<noteq> [] \<Longrightarrow> R (insert (normalize_program U t) Q) out out' \<Longrightarrow>
      R Q out (out'\<lparr>sp_programs := insert (normalize_program U t) (sp_programs out')\<rparr>)"
    and R_merge: "R {} (shell_parse_default\<lparr>sp_ok := ok\<rparr>) other \<Longrightarrow> R Q out (merge out other)"
begin

definition good_vis :: "visitor \<Rightarrow> bool" where
  "good_vis vis \<longleftrightarrow> (\<forall>Q node out. R Q out (vis node out))"

definition good_cls :: "classifier \<Rightarrow> bool" where
  "good_cls cls \<longleftrightarrow> (\<forall>Q prog args out. prog \<in> Q \<longrightarrow> R Q out (cls prog args out))"

definition good_parse :: "(string \<Rightarrow> shell_parse) \<Rightarrow> bool" where
  "good_parse parse \<longleftrightarrow> (\<forall>s. \<exists>b. R {} (shell_parse_default\<lparr>sp_ok := b\<rparr>) (parse s))"

lemma good_visD: "good_vis vis \<Longrightarrow> R Q out (vis node out)"
  by (simp add: good_vis_def)

lemma R_foldl: "(\<And>x out. R Q out (f out x)) \<Longrightarrow> R Q out (foldl f out xs)"
  by (induction xs arbitrary: out) (auto intro: R_refl R_trans)

lemma R_foldl_state:
  assumes "\<And>x st. R Q (p st) (p (f st x))" shows "R Q (p st) (p (foldl f st xs))"
  by (induction xs arbitrary: st) (auto intro: R_refl R_trans [OF assms])

lemma R_mine_args: "good_vis vis \<Longrightarrow> R Q out (mine_args vis args out)"
  unfolding mine_args_def by (rule R_foldl) (rule good_visD)

lemma R_classify_arg:
  assumes "good_vis vis" "prog \<in> Q"
  shows "R Q (snd st) (snd (classify_arg U vis prog arg st))"
  using assms
  by (auto simp: classify_arg_def intro: R_refl R_arg R_flag good_visD split: prod.splits option.splits)

lemma R_classify_args:
  assumes "good_vis vis" "prog \<in> Q"
  shows "R Q out (classify_args U vis prog args skip out)"
proof -
  have "R Q (snd st) (snd (foldl (\<lambda>st (idx, arg). if Some idx = skip then st
      else classify_arg U vis prog arg st) st xs))" for st xs
    by (rule R_foldl_state) (auto simp: R_refl R_classify_arg [OF assms] split: prod.split)
  from this [of "(False, out)"] show ?thesis by (simp add: classify_args_def)
qed

lemma R_eval_parts:
  assumes "good_vis vis" shows "R Q out (snd (eval_parts vis args out))"
proof -
  have "R Q (snd st) (snd (foldl (\<lambda>(parts, out) arg. case literal_text arg of
              Some text \<Rightarrow> (parts @ [text], out) | None \<Rightarrow> (parts, vis arg out)) st xs))" for st xs
    by (rule R_foldl_state)
      (auto simp: R_refl good_visD [OF assms] split: option.split prod.split)
  from this [of "([], out)"] show ?thesis by (simp add: eval_parts_def)
qed

lemma R_reparse:
  assumes "\<And>parse. reparse = Some parse \<Longrightarrow> good_parse parse"
  shows "R Q out (case reparse of Some parse \<Rightarrow> merge out (parse s) | None \<Rightarrow> out\<lparr>sp_ok := False\<rparr>)"
proof (cases reparse)
  case None
  then show ?thesis by (simp add: R_not_ok)
next
  case (Some parse)
  then obtain b where "R {} (shell_parse_default\<lparr>sp_ok := b\<rparr>) (parse s)"
    using assms good_parse_def by blast
  then show ?thesis using Some by (simp add: R_merge)
qed

lemma R_handle_eval:
  assumes "good_vis vis" "\<And>parse. reparse = Some parse \<Longrightarrow> good_parse parse"
  shows "R Q out (handle_eval reparse vis args out)"
proof -
  obtain parts o1 where p: "eval_parts vis args out = (parts, o1)" by fastforce
  then have a: "R Q out o1" using R_eval_parts [OF assms(1)] by (metis snd_conv)
  show ?thesis
    using R_trans [OF a R_reparse [OF assms(2)]] a p
    by (auto simp: handle_eval_def split: option.splits)
qed

lemma R_peel_loop:
  assumes vis: "good_vis vis" and cls: "good_cls cls" and w: "wr_name w \<in> Q"
  shows "R Q out (peel_loop U vis cls w args k ended out)"
proof (induction args arbitrary: k ended out rule: length_induct)
  case (1 args)
  show ?case
  proof (cases args)
    case Nil
    then show ?thesis by (simp add: R_refl)
  next
    case (Cons arg rest)
    have ih: "R Q out (peel_loop U vis cls w rest k ended out)" for k ended out
      using 1 Cons by simp
    have ih': "rest = v # rest' \<Longrightarrow> R Q out (peel_loop U vis cls w rest' k ended out)"
      for v rest' k ended out using 1 Cons by simp
    have dyn: "R Q out (mine_args vis (arg # rest) (out\<lparr>sp_has_dynamic_command := True\<rparr>))"
      by (rule R_trans [OF R_dynamic R_mine_args [OF vis]])
    have flag: "is_flag_token t \<Longrightarrow> R Q out (peel_loop U vis cls w rest k ended (insert_flag U (wr_name w) t out))"
      for t k ended by (rule R_trans [OF R_flag [OF w] ih])
    have flag': "rest = v # rest' \<Longrightarrow> is_flag_token t \<Longrightarrow>
        R Q out (peel_loop U vis cls w rest' k ended (insert_flag U (wr_name w) t out))"
      for v rest' t k ended by (rule R_trans [OF R_flag [OF w] ih'])
    have flag'': "rest = v # rest' \<Longrightarrow> is_flag_token t \<Longrightarrow>
        R Q out (peel_loop U vis cls w rest' k ended (vis v (insert_flag U (wr_name w) t out)))"
      for v rest' t k ended
      by (rule R_trans [OF R_trans [OF R_flag [OF w] good_visD [OF vis]] ih'])
    have arg: "R Q out (peel_loop U vis cls w rest k ended (insert_arg U (wr_name w) t raw out))"
      for t raw k ended by (rule R_trans [OF R_arg [OF w] ih])
    have nested: "normalize_program U t \<noteq> [] \<Longrightarrow>
        R Q out ((cls (normalize_program U t) rest out)\<lparr>sp_programs :=
          insert (normalize_program U t) (sp_programs (cls (normalize_program U t) rest out))\<rparr>)" for t
      by (rule R_program) (use cls in \<open>auto simp: good_cls_def\<close>)
    show ?thesis
      unfolding Cons
      using dyn R_flag [OF w]
      by (auto simp: Let_def ih flag flag' flag'' arg nested split: option.split list.split)
  qed
qed

lemma R_classify_step:
  assumes vis: "good_vis vis" and cls: "good_cls cls"
    and rp: "\<And>parse. reparse = Some parse \<Longrightarrow> good_parse parse" and Q: "prog \<in> Q"
  shows "R Q out (classify_step U reparse vis cls prog args out)"
proof (cases "wrapper_spec prog")
  case (Some spec)
  then have "wr_name spec = prog" by (auto simp: wrapper_spec_def find_Some_iff)
  then show ?thesis using Some Q
    by (simp add: classify_step_def peel_wrapper_def R_peel_loop [OF vis cls])
next
  case None
  have ca: "R Q o1 (classify_args U vis prog args skip o1)" for skip o1
    by (rule R_classify_args [OF vis Q])
  have sh: "R Q out (classify_args U vis prog args skip (case reparse of
      Some parse \<Rightarrow> merge out (parse s) | None \<Rightarrow> out\<lparr>sp_ok := False\<rparr>))" for skip s
    by (rule R_trans [OF R_reparse [OF rp] ca])
  show ?thesis
    using None by (auto simp: classify_step_def R_handle_eval [OF vis rp] ca sh split: option.split)
qed

lemma R_command_children:
  assumes "good_vis vis"
  shows "R Q (snd (snd st)) (snd (snd (foldl (command_child vis) st cs)))"
  by (rule R_foldl_state)
    (auto simp: command_child_def R_refl good_visD [OF assms] split: prod.split)

lemma R_handle_command:
  assumes vis: "good_vis vis" and cls: "good_cls cls"
  shows "R Q out (handle_command U vis cls node out)"
proof -
  obtain nm args o1 where f: "foldl (command_child vis) (None, [], out) (tn_children node) = (nm, args, o1)"
    using prod_cases3 by blast
  have a: "R Q out o1"
    using R_command_children [OF vis, of Q "(None, [], out)" "tn_children node"] f by simp
  have mine: "R Q o2 (mine_args vis args o2)" for o2 by (rule R_mine_args [OF vis])
  have dyn: "R Q o1 (mine_args vis args (vis inner (o1\<lparr>sp_has_dynamic_command := True\<rparr>)))" for inner
    by (rule R_trans [OF R_trans [OF R_dynamic good_visD [OF vis]] mine])
  have prog: "normalize_program U t \<noteq> [] \<Longrightarrow>
      R Q o1 ((cls (normalize_program U t) args o1)\<lparr>sp_programs :=
        insert (normalize_program U t) (sp_programs (cls (normalize_program U t) args o1))\<rparr>)" for t
    by (rule R_program) (use cls in \<open>auto simp: good_cls_def\<close>)
  have "R Q o1 (handle_command U vis cls node out)"
    by (auto simp: handle_command_def f mine dyn prog Let_def split: option.split)
  then show ?thesis by (rule R_trans [OF a])
qed

lemma R_visit_step:
  assumes "good_vis vis" "good_cls cls"
  shows "R Q out (visit_step U vis cls node out)"
proof -
  have "R Q out (foldl (\<lambda>out child. vis child out) (mark_structure (tn_kind node) out) cs)" for cs
    by (rule R_trans [OF R_structure R_foldl]) (rule good_visD [OF assms(1)])
  then show ?thesis by (simp add: visit_step_def R_handle_command [OF assms])
qed

lemma R_walk:
  assumes rp: "\<And>parse. reparse = Some parse \<Longrightarrow> good_parse parse"
  shows "good_vis (visit U reparse n) \<and> good_cls (classify_invocation U reparse n)"
proof (induction n)
  case 0
  show ?case by (simp add: good_vis_def good_cls_def R_not_ok)
next
  case (Suc n)
  then have vis: "good_vis (visit U reparse n)" and cls: "good_cls (classify_invocation U reparse n)"
    by auto
  have c: "good_cls (classify_invocation U reparse (Suc n))"
    by (simp add: good_cls_def R_classify_step [OF vis cls rp])
  have "good_vis (visit U reparse (Suc n))"
    by (simp add: good_vis_def R_visit_step [OF vis c])
  then show ?case using c by (rule conjI)
qed

lemma R_parse_step:
  assumes "\<And>parse. reparse = Some parse \<Longrightarrow> good_parse parse"
  shows "good_parse (parse_step U G reparse)"
  unfolding good_parse_def
proof
  fix s
  have d: "shell_parse_default = shell_parse_default\<lparr>sp_ok := False\<rparr>"
    by (simp add: shell_parse_default_def)
  have none: "\<exists>b. R {} (shell_parse_default\<lparr>sp_ok := b\<rparr>) shell_parse_default"
    by (rule exI [of _ False], subst (2) d, rule R_refl)
  have "R {} (shell_parse_default\<lparr>sp_ok := b\<rparr>)
      (visit U reparse n root (shell_parse_default\<lparr>sp_ok := b\<rparr>))" for b n root
    using R_walk [OF assms] by (simp add: good_vis_def)
  then show "\<exists>b. R {} (shell_parse_default\<lparr>sp_ok := b\<rparr>) (parse_step U G reparse s)"
    using none unfolding parse_step_def by (auto split: option.split simp del: visit.simps visit_numeral)
qed

lemma R_parse_levels: "good_parse (parse_levels U G k)"
proof (induction k)
  case 0
  show ?case unfolding parse_levels.simps by (rule R_parse_step) simp
next
  case (Suc k)
  then show ?case unfolding parse_levels.simps by (intro R_parse_step) simp
qed

lemma R_analyze: "\<exists>b. R {} (shell_parse_default\<lparr>sp_ok := b\<rparr>) (analyze_shell_command U G s)"
  using R_parse_levels by (simp add: good_parse_def analyze_shell_command_def parse_with_depth_def)

end

section \<open>Growth\<close>

text \<open>Nothing recorded is ever withdrawn, and a parse once incomplete stays incomplete.\<close>

definition grows :: "shell_parse \<Rightarrow> shell_parse \<Rightarrow> bool" where
  "grows a b \<longleftrightarrow>
     (sp_ok b \<longrightarrow> sp_ok a)
     \<and> sp_programs a \<subseteq> sp_programs b
     \<and> sp_program_flags a \<subseteq> sp_program_flags b
     \<and> sp_program_flags_normalized a \<subseteq> sp_program_flags_normalized b
     \<and> sp_program_args a \<subseteq> sp_program_args b
     \<and> sp_program_args_normalized a \<subseteq> sp_program_args_normalized b
     \<and> sp_program_arg_path_components_normalized a \<subseteq> sp_program_arg_path_components_normalized b
     \<and> (sp_has_dynamic_command a \<longrightarrow> sp_has_dynamic_command b)
     \<and> (sp_has_command_substitution a \<longrightarrow> sp_has_command_substitution b)
     \<and> (sp_has_pipeline a \<longrightarrow> sp_has_pipeline b)
     \<and> (sp_has_redirection a \<longrightarrow> sp_has_redirection b)"

lemma grows_refl: "grows a a" by (simp add: grows_def)

lemma grows_trans: "grows a b \<Longrightarrow> grows b c \<Longrightarrow> grows a c"
  unfolding grows_def by (elim conjE, intro conjI; (erule (1) subset_trans | simp))

lemma grows_file_flag: "grows out (file_flag U p t n out)"
  by (auto simp: grows_def file_flag_def)

lemma grows_foldl: "(\<And>x out. grows out (f out x)) \<Longrightarrow> grows out (foldl f out xs)"
  by (induction xs arbitrary: out) (auto intro: grows_refl grows_trans)

lemma grows_insert_flag: "grows out (insert_flag U p t out)"
  unfolding insert_flag_def
  by (auto simp: Let_def grows_file_flag grows_trans [OF grows_file_flag grows_foldl]
      split: option.split)

lemma grows_arg_view: "grows out (insert_normalized_arg_view p n out)"
  by (auto simp: grows_def insert_normalized_arg_view_def)

lemma grows_insert_arg: "grows out (insert_arg U p t raw out)"
proof -
  let ?o = "out\<lparr>sp_program_args := insert (scoped p t) (sp_program_args out)\<rparr>"
  have a: "grows out ?o" by (auto simp: grows_def)
  have b: "grows out (insert_normalized_arg_view p n ?o)" for n
    by (rule grows_trans [OF a grows_arg_view])
  have c: "grows out (insert_normalized_arg_view p m (insert_normalized_arg_view p n ?o))" for m n
    by (rule grows_trans [OF b grows_arg_view])
  show ?thesis by (auto simp: insert_arg_def Let_def b c split: option.split)
qed

interpretation growth: walk_relation U "\<lambda>_. grows" for U
proof unfold_locales
  show "grows a c" if "grows a b" "grows b c" for a b c using that by (rule grows_trans)
  show "grows out (mark_structure k out)" for out k
    by (simp add: grows_def mark_structure_def)
  show "grows out (out'\<lparr>sp_programs := insert (normalize_program U t) (sp_programs out')\<rparr>)"
    if "grows out out'" for out out' t
    using that unfolding grows_def by (simp add: subset_insertI2)
  show "grows out (merge out other)" for out other by (simp add: grows_def merge_def)
  show "grows out (out\<lparr>sp_ok := False\<rparr>)" "grows out (out\<lparr>sp_has_dynamic_command := True\<rparr>)" for out
    by (simp_all add: grows_def)
qed (rule grows_refl grows_insert_flag grows_insert_arg)+

section \<open>Scoping\<close>

definition tokens :: "shell_parse \<Rightarrow> string set" where
  "tokens p = sp_program_flags p \<union> sp_program_flags_normalized p \<union> sp_program_args p
     \<union> sp_program_args_normalized p \<union> sp_program_arg_path_components_normalized p"

definition scoped_in :: "string set \<Rightarrow> shell_parse \<Rightarrow> bool" where
  "scoped_in P p \<longleftrightarrow> (\<forall>t\<in>tokens p. \<exists>prog\<in>P. \<exists>x. t = scoped prog x)"

lemma scoped_in_mono: "scoped_in P p \<Longrightarrow> P \<subseteq> P' \<Longrightarrow> scoped_in P' p"
  unfolding scoped_in_def by blast

lemma scoped_in_add:
  "scoped_in P a \<Longrightarrow> prog \<in> P \<Longrightarrow> tokens b \<subseteq> tokens a \<union> range (scoped prog) \<Longrightarrow> scoped_in P b"
  unfolding scoped_in_def by blast

lemma tokens_file_flag: "tokens (file_flag U p t n out) \<subseteq> tokens out \<union> range (scoped p)"
  by (auto simp: tokens_def file_flag_def)

lemma tokens_merge: "tokens (merge a b) = tokens a \<union> tokens b"
  by (auto simp: tokens_def merge_def)

lemma programs_merge: "sp_programs (merge a b) = sp_programs a \<union> sp_programs b"
  by (simp add: merge_def)

lemma tokens_foldl:
  "(\<And>x out. tokens (f out x) \<subseteq> tokens out \<union> X) \<Longrightarrow> tokens (foldl f out xs) \<subseteq> tokens out \<union> X"
proof (induction xs arbitrary: out)
  case Nil
  then show ?case by simp
next
  case (Cons x xs)
  have "tokens (foldl f (f out x) xs) \<subseteq> tokens (f out x) \<union> X" using Cons by blast
  then show ?case using Cons.prems [of out x] by auto
qed

lemma tokens_insert_flag: "tokens (insert_flag U p t out) \<subseteq> tokens out \<union> range (scoped p)"
proof -
  have "tokens (foldl (\<lambda>out c. file_flag U p [CHR ''-'', c] (normalize_path_value U [CHR ''-'', c]) out)
      (file_flag U p t n out) body) \<subseteq> tokens (file_flag U p t n out) \<union> range (scoped p)" for n body
    by (rule tokens_foldl) (rule tokens_file_flag)
  then have "tokens (foldl (\<lambda>out c. file_flag U p [CHR ''-'', c] (normalize_path_value U [CHR ''-'', c]) out)
      (file_flag U p t n out) body) \<subseteq> tokens out \<union> range (scoped p)" for n body
    using tokens_file_flag [of U p t n out] by blast
  then show ?thesis unfolding insert_flag_def
    using tokens_file_flag by (auto simp: Let_def split: option.split)
qed

lemma tokens_insert_arg: "tokens (insert_arg U p t raw out) \<subseteq> tokens out \<union> range (scoped p)"
  by (auto simp: insert_arg_def Let_def insert_normalized_arg_view_def tokens_def split: option.split)

lemma programs_insert [simp]:
  "sp_programs (insert_flag U p t out) = sp_programs out"
  "sp_programs (insert_arg U p t raw out) = sp_programs out"
proof -
  have one: "sp_programs (file_flag U p a b out) = sp_programs out" for a b out
    by (simp add: file_flag_def)
  then have "sp_programs (foldl (\<lambda>out c. file_flag U p (f c) (g c) out) out cs) = sp_programs out"
    for f g out and cs :: string by (induction cs arbitrary: out) simp_all
  with one show "sp_programs (insert_flag U p t out) = sp_programs out"
    unfolding insert_flag_def Let_def by (simp split: option.split)
  show "sp_programs (insert_arg U p t raw out) = sp_programs out"
    by (auto simp: insert_arg_def Let_def insert_normalized_arg_view_def split: option.split)
qed

definition keeps_scope :: "string set \<Rightarrow> shell_parse \<Rightarrow> shell_parse \<Rightarrow> bool" where
  "keeps_scope Q a b \<longleftrightarrow>
     (scoped_in (Q \<union> sp_programs a) a \<longrightarrow> scoped_in (Q \<union> sp_programs b) b)"

interpretation scoping: walk_relation U keeps_scope for U
proof unfold_locales
  show "keeps_scope Q out (insert_flag U p t out)" if "p \<in> Q" for p Q t out
    unfolding keeps_scope_def programs_insert
    using scoped_in_add [OF _ UnI1 [OF that] tokens_insert_flag] by blast
  show "keeps_scope Q out (insert_arg U p t raw out)" if "p \<in> Q" for p Q t raw out
    unfolding keeps_scope_def programs_insert
    using scoped_in_add [OF _ UnI1 [OF that] tokens_insert_arg] by blast
  show "keeps_scope Q out
      (out'\<lparr>sp_programs := insert (normalize_program U t) (sp_programs out')\<rparr>)"
    if "keeps_scope (insert (normalize_program U t) Q) out out'" for Q out out' t
  proof -
    have "scoped_in (Q \<union> sp_programs out) out \<Longrightarrow>
        scoped_in (insert (normalize_program U t) Q \<union> sp_programs out') out'"
      using that unfolding keeps_scope_def by (blast intro: scoped_in_mono)
    then show ?thesis by (simp add: keeps_scope_def scoped_in_def tokens_def)
  qed
  show "keeps_scope Q out (merge out other)"
    if "keeps_scope {} (shell_parse_default\<lparr>sp_ok := ok\<rparr>) other" for Q out other ok
  proof -
    have "scoped_in (sp_programs other) other"
      using that by (simp add: keeps_scope_def scoped_in_def tokens_def shell_parse_default_def)
    then show ?thesis
      unfolding keeps_scope_def scoped_in_def tokens_merge programs_merge by blast
  qed
qed (auto simp: keeps_scope_def mark_structure_def scoped_in_def tokens_def)

section \<open>Program names, flags and finiteness\<close>

definition well_shaped :: "unicode \<Rightarrow> shell_parse \<Rightarrow> bool" where
  "well_shaped U p \<longleftrightarrow>
     finite (sp_programs p) \<and> finite (tokens p)
     \<and> (\<forall>prog\<in>sp_programs p. prog \<noteq> [] \<and> (\<exists>t. prog = normalize_program U t))
     \<and> (\<forall>f\<in>sp_program_flags p. \<exists>prog x. f = scoped prog (CHR ''-'' # x))"

lemma well_shaped_file_flag:
  "well_shaped U out \<Longrightarrow> well_shaped U (file_flag U p (CHR ''-'' # x) n out)"
  by (auto simp: well_shaped_def file_flag_def tokens_def)

lemma well_shaped_insert_flag:
  assumes "is_flag_token t" "well_shaped U out" shows "well_shaped U (insert_flag U p t out)"
proof -
  obtain x where t: "t = CHR ''-'' # x" using assms(1) by (auto simp: is_flag_token_def prefix_def)
  have "well_shaped U o1 \<Longrightarrow> well_shaped U (foldl (\<lambda>out c. file_flag U p [CHR ''-'', c]
      (normalize_path_value U [CHR ''-'', c]) out) o1 cs)" for o1 cs
    by (induction cs arbitrary: o1) (simp_all add: well_shaped_file_flag)
  then show ?thesis using assms(2) well_shaped_file_flag
    by (auto simp: insert_flag_def Let_def t split: option.split)
qed

lemma well_shaped_insert_arg: "well_shaped U out \<Longrightarrow> well_shaped U (insert_arg U p t raw out)"
  by (auto simp: well_shaped_def insert_arg_def Let_def insert_normalized_arg_view_def tokens_def
      split: option.split)

interpretation shape: walk_relation U "\<lambda>_ a b. well_shaped U a \<longrightarrow> well_shaped U b" for U
proof unfold_locales
  show "well_shaped U out \<longrightarrow> well_shaped U (merge out other)"
    if "well_shaped U (shell_parse_default\<lparr>sp_ok := ok\<rparr>) \<longrightarrow> well_shaped U other" for out other ok
    using that by (auto simp: well_shaped_def merge_def tokens_def shell_parse_default_def)
qed (auto simp: well_shaped_insert_flag well_shaped_insert_arg,
     auto simp: well_shaped_def mark_structure_def tokens_def)

lemma analyze_scoped:
  "scoped_in (sp_programs (analyze_shell_command U G s)) (analyze_shell_command U G s)"
proof -
  have "scoped_in P (shell_parse_default\<lparr>sp_ok := b\<rparr>)" for P b
    by (simp add: scoped_in_def tokens_def shell_parse_default_def)
  then show ?thesis using scoping.R_analyze [of U G s] by (auto simp: keeps_scope_def)
qed

lemma analyze_well_shaped: "well_shaped U (analyze_shell_command U G s)"
proof -
  have "well_shaped U (shell_parse_default\<lparr>sp_ok := b\<rparr>)" for b
    by (simp add: well_shaped_def tokens_def shell_parse_default_def)
  then show ?thesis using shape.R_analyze [of U G s] by blast
qed

section \<open>The re-parse budget\<close>

lemma classify_args_ok:
  assumes "\<not> sp_ok out"
  shows "\<not> sp_ok (classify_args U (visit U None n) prog args skip out)"
  using growth.R_classify_args [of "visit U None n" prog UNIV out U args skip]
    growth.R_walk [of None U n] assms
  by (auto simp: grows_def)

lemma classify_step_exhausted:
  assumes "(prog = ''eval'' \<and> fst (eval_parts (visit U None n) args out) \<noteq> []) \<or>
     (prog \<in> set SHELLS \<and> find_c_script args \<noteq> None)"
  shows "\<not> sp_ok (classify_step U None (visit U None n) cls prog args out)"
proof -
  have "list_all (\<lambda>p. wrapper_spec p = None) (''eval'' # SHELLS)" by code_simp
  then have w: "wrapper_spec prog = None" using assms by (auto simp: list_all_iff)
  show ?thesis
  proof (cases "prog = ''eval''")
    case True
    moreover have "''eval'' \<notin> set SHELLS" by code_simp
    ultimately have "fst (eval_parts (visit U None n) args out) \<noteq> []" using assms by auto
    then show ?thesis using w True
      by (cases "eval_parts (visit U None n) args out") (simp add: classify_step_def handle_eval_def)
  next
    case False
    then obtain i script where "find_c_script args = Some (i, script)" "prog \<in> set SHELLS"
      using assms by auto
    then show ?thesis using w False by (simp add: classify_step_def classify_args_ok)
  qed
qed

end
