(* ===== verification/Shell_Complete.thy ===== *)
theory Shell_Complete
  imports Shell_Props
begin

text \<open>
  A complete parse omits nothing: when \<open>ok\<close> holds at the end of the walk, every node the
  grammar produced outside literal words has left its mark in the record. \<open>reaches\<close> says
  which nodes these are, independently of how the walk visits them.
\<close>

section \<open>The parts of a command\<close>

definition command_name :: "tnode \<Rightarrow> tnode option" where
  "command_name node =
     (case rev (filter (\<lambda>c. ch_named c \<and> ch_field c = Some ''name'') (tn_children node)) of
        [] \<Rightarrow> None | c # _ \<Rightarrow> Some (ch_node c))"

definition command_args :: "tnode \<Rightarrow> tnode list" where
  "command_args node =
     map ch_node (filter (\<lambda>c. ch_named c \<and> ch_field c = Some ''argument'') (tn_children node))"

definition command_others :: "tnode \<Rightarrow> tnode list" where
  "command_others node =
     map ch_node (filter (\<lambda>c. ch_named c \<and> ch_field c \<noteq> Some ''name''
       \<and> ch_field c \<noteq> Some ''argument'') (tn_children node))"

definition command_word :: "tnode \<Rightarrow> tnode option" where
  "command_word node = Option.bind (command_name node) first_named"

definition command_program :: "unicode \<Rightarrow> tnode \<Rightarrow> string option" where
  "command_program U node =
     Option.bind (Option.bind (command_word node) literal_text)
       (\<lambda>text. if normalize_program U text = [] then None else Some (normalize_program U text))"

lemma command_children_fst:
  "fst (foldl (command_child vis) (None, [], out) (tn_children node)) = command_name node"
proof -
  have "fst (foldl (command_child vis) st cs) =
      (case rev (filter (\<lambda>c. ch_named c \<and> ch_field c = Some ''name'') cs) of
        [] \<Rightarrow> fst st | c # _ \<Rightarrow> Some (ch_node c))" for st cs
  proof (induction cs rule: rev_induct)
    case Nil
    then show ?case by simp
  next
    case (snoc c cs)
    then show ?case by (auto simp: command_child_def split: prod.splits)
  qed
  from this [of "(None, [], out)" "tn_children node"] show ?thesis
    by (simp add: command_name_def split: list.split)
qed

lemma command_children_args:
  "fst (snd (foldl (command_child vis) (None, [], out) (tn_children node))) = command_args node"
proof -
  have "fst (snd (foldl (command_child vis) st cs)) = fst (snd st)
      @ map ch_node (filter (\<lambda>c. ch_named c \<and> ch_field c = Some ''argument'') cs)" for st cs
    by (induction cs arbitrary: st) (auto simp: command_child_def split: prod.splits)
  from this [of "(None, [], out)" "tn_children node"] show ?thesis by (simp add: command_args_def)
qed

section \<open>Reachable nodes and their marks\<close>

inductive reaches :: "tnode \<Rightarrow> tnode \<Rightarrow> bool" where
  reach_self: "reaches n n"
| reach_child: "tn_kind n \<noteq> ''command'' \<Longrightarrow> c \<in> set (named_children n) \<Longrightarrow> reaches c m \<Longrightarrow> reaches n m"
| reach_other: "tn_kind n = ''command'' \<Longrightarrow> c \<in> set (command_others n) \<Longrightarrow> reaches c m \<Longrightarrow> reaches n m"
| reach_argument: "tn_kind n = ''command'' \<Longrightarrow> c \<in> set (command_args n) \<Longrightarrow> literal_text c = None \<Longrightarrow>
    reaches c m \<Longrightarrow> reaches n m"
| reach_name: "tn_kind n = ''command'' \<Longrightarrow> command_word n = Some c \<Longrightarrow> literal_text c = None \<Longrightarrow>
    reaches c m \<Longrightarrow> reaches n m"

definition reported :: "unicode \<Rightarrow> tnode \<Rightarrow> shell_parse \<Rightarrow> bool" where
  "reported U m out \<longleftrightarrow>
     (if tn_kind m = ''command'' then
        (\<forall>p. command_program U m = Some p \<longrightarrow> p \<in> sp_programs out)
        \<and> ((\<exists>w. command_word m = Some w \<and> literal_text w = None) \<longrightarrow> sp_has_dynamic_command out)
      else
        (tn_kind m = ''pipeline'' \<longrightarrow> sp_has_pipeline out)
        \<and> (tn_kind m \<in> {''command_substitution'', ''process_substitution''} \<longrightarrow>
             sp_has_command_substitution out)
        \<and> (tn_kind m \<in> {''file_redirect'', ''heredoc_redirect'', ''herestring_redirect''} \<longrightarrow>
             sp_has_redirection out))"

definition covers :: "unicode \<Rightarrow> tnode \<Rightarrow> shell_parse \<Rightarrow> bool" where
  "covers U n out \<longleftrightarrow> (sp_ok out \<longrightarrow> (\<forall>m. reaches n m \<longrightarrow> reported U m out))"

lemma reported_grows: "grows a b \<Longrightarrow> reported U m a \<Longrightarrow> reported U m b"
  unfolding grows_def reported_def by (auto split: if_splits)

lemma covers_grows: "grows a b \<Longrightarrow> covers U n a \<Longrightarrow> covers U n b"
  unfolding covers_def using reported_grows by (metis grows_def)

definition covering_vis :: "unicode \<Rightarrow> visitor \<Rightarrow> bool" where
  "covering_vis U vis \<longleftrightarrow> growth.good_vis vis \<and> (\<forall>n out. covers U n (vis n out))"

text \<open>A classifier covers the arguments that are not literal words.\<close>

definition covers_dynamic :: "unicode \<Rightarrow> tnode list \<Rightarrow> shell_parse \<Rightarrow> bool" where
  "covers_dynamic U args out \<longleftrightarrow> (\<forall>a\<in>set args. literal_text a = None \<longrightarrow> covers U a out)"

definition covering_cls :: "unicode \<Rightarrow> classifier \<Rightarrow> bool" where
  "covering_cls U cls \<longleftrightarrow> growth.good_cls cls \<and> (\<forall>prog args out. covers_dynamic U args (cls prog args out))"

lemma covering_visD: "covering_vis U vis \<Longrightarrow> covers U n (vis n out)"
  "covering_vis U vis \<Longrightarrow> grows out (vis n out)" "covering_vis U vis \<Longrightarrow> growth.good_vis vis"
  by (simp_all add: covering_vis_def growth.good_vis_def)

lemma covering_clsD: "covering_cls U cls \<Longrightarrow> covers_dynamic U args (cls prog args out)"
  "covering_cls U cls \<Longrightarrow> grows out (cls prog args out)" "covering_cls U cls \<Longrightarrow> growth.good_cls cls"
  by (auto simp: covering_cls_def growth.good_cls_def)

lemma covers_dynamic_grows: "grows a b \<Longrightarrow> covers_dynamic U args a \<Longrightarrow> covers_dynamic U args b"
  unfolding covers_dynamic_def by (blast intro: covers_grows)

lemma covers_not_ok: "\<not> sp_ok out \<Longrightarrow> covers U n out" "\<not> sp_ok out \<Longrightarrow> covers_dynamic U args out"
  by (simp_all add: covers_def covers_dynamic_def)

section \<open>Every step covers what it consumes\<close>

lemma foldl_establishes:
  assumes "\<And>x st. grows (p st) (p (f st x))" "\<And>x st. P x (p (f st x))"
    "\<And>x a b. grows a b \<Longrightarrow> P x a \<Longrightarrow> P x b" "x \<in> set xs"
  shows "P x (p (foldl f st xs))"
  using assms(4)
proof (induction xs arbitrary: st)
  case Nil
  then show ?case by simp
next
  case (Cons y ys)
  have "grows (p st) (p (foldl f st ys))" for st
    by (rule growth.R_foldl_state) (rule assms(1))
  then have "P y (p (foldl f (f st y) ys))" using assms(2,3) by blast
  then show ?case using Cons by auto
qed

lemma mine_args_covers:
  assumes "covering_vis U vis" "a \<in> set args" shows "covers U a (mine_args vis args out)"
  unfolding mine_args_def
  by (rule foldl_establishes [where p = "\<lambda>x. x" and P = "covers U"])
    (auto intro: covering_visD [OF assms(1)] covers_grows assms(2))

lemma classify_args_covers:
  assumes vis: "covering_vis U vis"
    and skip: "\<And>i. skip = Some i \<Longrightarrow> i < length args \<Longrightarrow> literal_text (args ! i) \<noteq> None"
  shows "covers_dynamic U args (classify_args U vis prog args skip out)"
  unfolding covers_dynamic_def
proof (intro ballI impI)
  fix a assume a: "a \<in> set args" "literal_text a = None"
  then obtain i where i: "i < length args" "args ! i = a" by (auto simp: in_set_conv_nth)
  let ?f = "\<lambda>st (idx, arg). if Some idx = skip then st else classify_arg U vis prog arg st"
  let ?P = "\<lambda>(idx, arg) out. Some idx \<noteq> skip \<and> literal_text arg = None \<longrightarrow> covers U arg out"
  have "?P (i, a) (snd (foldl ?f (False, out) (List.enumerate 0 args)))"
  proof (rule foldl_establishes [where p = snd and P = ?P])
    show "grows (snd st) (snd (?f st x))" for x st
      using growth.R_classify_arg [OF covering_visD(3) [OF vis], of prog UNIV st]
      by (cases x) (auto simp: grows_refl)
    show "?P x (snd (?f st x))" for x st
      by (cases x) (auto simp: classify_arg_def covering_visD [OF vis] split: prod.split)
    show "?P x b" if "grows a b" "?P x a" for x a b
      using that by (cases x) (auto intro: covers_grows)
    show "(i, a) \<in> set (List.enumerate 0 args)" using i by (auto simp: in_set_enumerate_eq)
  qed
  moreover have "Some i \<noteq> skip" using skip [of i] i a by auto
  ultimately show "covers U a (classify_args U vis prog args skip out)"
    using a by (simp add: classify_args_def)
qed

lemma eval_parts_covers:
  assumes vis: "covering_vis U vis"
  shows "covers_dynamic U args (snd (eval_parts vis args out))"
  unfolding covers_dynamic_def eval_parts_def
proof (intro ballI impI)
  fix a assume a: "a \<in> set args" "literal_text a = None"
  let ?f = "\<lambda>(parts, out) arg. case literal_text arg of
              Some text \<Rightarrow> (parts @ [text], out) | None \<Rightarrow> (parts, vis arg out)"
  have "literal_text a = None \<longrightarrow> covers U a (snd (foldl ?f ([], out) args))"
  proof (rule foldl_establishes [where p = snd and P = "\<lambda>a out. literal_text a = None \<longrightarrow> covers U a out"])
    show "grows (snd st) (snd (?f st x))" for x st
      by (auto simp: grows_refl covering_visD [OF vis] split: prod.split option.split)
    show "literal_text x = None \<longrightarrow> covers U x (snd (?f st x))" for x st
      by (auto simp: covering_visD [OF vis] split: prod.split)
  qed (auto intro: covers_grows a(1))
  then show "covers U a (snd (foldl ?f ([], out) args))" using a by simp
qed

lemma handle_eval_covers:
  assumes vis: "covering_vis U vis"
  shows "covers_dynamic U args (handle_eval rp vis args out)"
proof -
  obtain parts o1 where p: "eval_parts vis args out = (parts, o1)" by fastforce
  have c: "covers_dynamic U args o1" using eval_parts_covers [OF vis, of args out] p by simp
  have m: "grows o1 (merge o1 x)" for x by (simp add: grows_def merge_def)
  show ?thesis
    using c covers_dynamic_grows [OF m c] by (auto simp: handle_eval_def p covers_not_ok split: option.split)
qed

lemma find_c_loop_literal:
  "find_c_loop seen i args = Some (j, s) \<Longrightarrow>
   \<exists>k<length args. j = i + k \<and> literal_text (args ! k) = Some s"
proof (induction seen i args rule: find_c_loop.induct)
  case (1 seen i)
  then show ?case by simp
next
  case (2 seen i arg args)
  have step: "\<exists>k<length args. j = Suc i + k \<and> literal_text (args ! k) = Some s \<Longrightarrow> ?case"
    by (auto intro: exI [of _ "Suc _"])
  show ?case
  proof (cases "\<exists>b. find_c_loop b (Suc i) args = Some (j, s)")
    case True
    show ?thesis
    proof (cases "literal_text arg = Some s \<and> j = i")
      case True
      then show ?thesis by (auto intro: exI [of _ 0])
    next
      case False
      then show ?thesis using 2 by (intro step) (auto split: option.splits if_splits)
    qed
  next
    case False
    then show ?thesis using "2.prems" by (auto split: option.splits if_splits intro!: exI [of _ 0])
  qed
qed

lemma find_c_script_literal:
  "find_c_script args = Some (i, s) \<Longrightarrow> i < length args \<and> literal_text (args ! i) = Some s"
  using find_c_loop_literal by (fastforce simp: find_c_script_def)

lemma peel_loop_covers:
  assumes vis: "covering_vis U vis" and cls: "covering_cls U cls"
  shows "covers_dynamic U args (peel_loop U vis cls w args k ended out)"
proof (induction args arbitrary: k ended out rule: length_induct)
  case (1 args)
  show ?case
  proof (cases args)
    case Nil
    then show ?thesis by (simp add: covers_dynamic_def)
  next
    case (Cons arg rest)
    have ih: "covers_dynamic U rest (peel_loop U vis cls w rest k ended out)" for k ended out
      using 1 Cons by simp
    have ih': "covers_dynamic U (v # rest') (peel_loop U vis cls w rest' k ended
        (if literal_text v = None then vis v out else out))"
      if "rest = v # rest'" for v rest' k ended out
    proof -
      have r: "covers_dynamic U rest' (peel_loop U vis cls w rest' k ended o1)" for o1
        using 1 Cons that by simp
      have "grows o1 (peel_loop U vis cls w rest' k ended o1)" for o1
        using growth.R_peel_loop [OF covering_visD(3) [OF vis] covering_clsD(3) [OF cls], of w UNIV]
        by simp
      then have "literal_text v = None \<Longrightarrow>
          covers U v (peel_loop U vis cls w rest' k ended (vis v out))"
        using covering_visD(1) [OF vis] covers_grows by blast
      with r show ?thesis by (auto simp: covers_dynamic_def)
    qed
    have lit: "covers_dynamic U (arg # rest) o1 = covers_dynamic U rest o1"
      if "literal_text arg \<noteq> None" for o1 using that by (auto simp: covers_dynamic_def)
    have mine: "covers_dynamic U (arg # rest) (mine_args vis (arg # rest) o1)" for o1
      using mine_args_covers [OF vis] by (simp add: covers_dynamic_def)
    have nested: "covers_dynamic U rest
        (cls p rest out\<lparr>sp_programs := insert p (sp_programs (cls p rest out))\<rparr>)" for p
    proof (rule covers_dynamic_grows [OF _ covering_clsD(1) [OF cls]])
      show "grows (cls p rest out)
          (cls p rest out\<lparr>sp_programs := insert p (sp_programs (cls p rest out))\<rparr>)"
        by (auto simp: grows_def)
    qed
    show ?thesis
    proof (cases "literal_text arg")
      case None
      then show ?thesis using mine Cons by simp
    next
      case (Some t)
      have consume: "covers_dynamic U rest (case rest of [] \<Rightarrow> o1 | v # rest' \<Rightarrow>
          peel_loop U vis cls w rest' k e (if literal_text v = None then vis v o1 else o1))" for e o1
      proof (cases rest)
        case Nil
        then show ?thesis by (simp add: covers_dynamic_def)
      next
        case (Cons v rest')
        show ?thesis unfolding Cons list.case by (rule ih' [OF Cons])
      qed
      have "covers_dynamic U rest (peel_loop U vis cls w (arg # rest) k ended out)"
        unfolding peel_loop.simps Some option.case Let_def
        by (simp only: consume ih nested if_split simp_thms)
      then show ?thesis using lit [of] Some Cons by simp
    qed
  qed
qed

lemma classify_step_covers:
  assumes vis: "covering_vis U vis" and cls: "covering_cls U cls"
  shows "covers_dynamic U args (classify_step U rp vis cls prog args out)"
  unfolding classify_step_def peel_wrapper_def
  using peel_loop_covers [OF vis cls] handle_eval_covers [OF vis]
    classify_args_covers [OF vis, of None] classify_args_covers [OF vis, of "Some _"]
    find_c_script_literal [of args]
  by (auto split: option.split if_split)

section \<open>Commands and the walk\<close>

lemma command_others_covered:
  assumes vis: "covering_vis U vis" and c: "c \<in> set (command_others node)"
  shows "covers U c (snd (snd (foldl (command_child vis) (None, [], out) (tn_children node))))"
proof -
  let ?other = "\<lambda>ch. ch_named ch \<and> ch_field ch \<noteq> Some ''name'' \<and> ch_field ch \<noteq> Some ''argument''"
  let ?P = "\<lambda>ch out. ?other ch \<longrightarrow> covers U (ch_node ch) out"
  obtain ch where ch: "ch \<in> set (tn_children node)" "?other ch" "ch_node ch = c"
    using c by (auto simp: command_others_def)
  have "?P ch (snd (snd (foldl (command_child vis) (None, [], out) (tn_children node))))"
  proof (rule foldl_establishes [where p = "\<lambda>st. snd (snd st)" and P = ?P])
    show "grows (snd (snd st)) (snd (snd (command_child vis st x)))" for x st
      by (auto simp: command_child_def grows_refl covering_visD [OF vis] split: prod.split)
    show "?P x (snd (snd (command_child vis st x)))" for x st
      by (auto simp: command_child_def covering_visD [OF vis] split: prod.split)
  qed (use ch in \<open>auto intro: covers_grows\<close>)
  then show ?thesis using ch by simp
qed

lemma handle_command_covers:
  assumes vis: "covering_vis U vis" and cls: "covering_cls U cls"
    and kind: "tn_kind node = ''command''"
  shows "covers U node (handle_command U vis cls node out)"
proof -
  obtain nm args o1 where
    f: "foldl (command_child vis) (None, [], out) (tn_children node) = (nm, args, o1)"
    using prod_cases3 by blast
  have nm: "nm = command_name node" and args: "args = command_args node"
    using command_children_fst [of vis out node] command_children_args [of vis out node] f by auto
  let ?r = "handle_command U vis cls node out"
  have mine: "grows o2 (mine_args vis args o2)" for o2
    using growth.R_mine_args [OF covering_visD(3) [OF vis]] by simp
  have cov_mine: "covers_dynamic U args (mine_args vis args o2)" for o2
    using mine_args_covers [OF vis] by (simp add: covers_dynamic_def)
  have ins: "grows o2 (o2\<lparr>sp_programs := insert p (sp_programs o2)\<rparr>)" for o2 p
    by (auto simp: grows_def)
  have dyn: "grows o2 (o2\<lparr>sp_has_dynamic_command := True\<rparr>)" for o2 by (simp add: grows_def)
  have prog: "grows o2 (cls p args o2\<lparr>sp_programs := insert p (sp_programs (cls p args o2))\<rparr>)"
    "covers_dynamic U args (cls p args o2\<lparr>sp_programs := insert p (sp_programs (cls p args o2))\<rparr>)"
    for o2 p
    by (rule grows_trans [OF covering_clsD(2) [OF cls] ins],
        rule covers_dynamic_grows [OF ins covering_clsD(1) [OF cls]])
  have visdyn: "grows o1 (mine_args vis args (vis w (o1\<lparr>sp_has_dynamic_command := True\<rparr>)))" for w
    by (rule grows_trans [OF grows_trans [OF dyn covering_visD(2) [OF vis]] mine])
  have r: "?r = (case command_word node of
      None \<Rightarrow> mine_args vis args o1
    | Some w \<Rightarrow> (case literal_text w of
        None \<Rightarrow> mine_args vis args (vis w (o1\<lparr>sp_has_dynamic_command := True\<rparr>))
      | Some t \<Rightarrow> if normalize_program U t = [] then mine_args vis args o1
          else (cls (normalize_program U t) args o1\<lparr>sp_programs := insert (normalize_program U t)
            (sp_programs (cls (normalize_program U t) args o1))\<rparr>)))"
    unfolding handle_command_def f prod.case nm command_word_def Let_def by (rule refl)
  have grow: "grows o1 ?r" and dynamic: "covers_dynamic U args ?r"
    unfolding r by (auto simp: mine cov_mine prog visdyn split: option.split)
  have others: "c \<in> set (command_others node) \<Longrightarrow> covers U c ?r" for c
    using covers_grows [OF grow] command_others_covered [OF vis, of c node out] f by simp
  have word: "covers U w ?r" if "command_word node = Some w" "literal_text w = None" for w
    unfolding r using that covers_grows [OF mine covering_visD(1) [OF vis]] by simp
  have self: "reported U node ?r"
  proof -
    have "grows (o1\<lparr>sp_has_dynamic_command := True\<rparr>)
        (mine_args vis args (vis w (o1\<lparr>sp_has_dynamic_command := True\<rparr>)))" for w
      by (rule grows_trans [OF covering_visD(2) [OF vis] mine])
    then have "sp_has_dynamic_command
        (mine_args vis args (vis w (o1\<lparr>sp_has_dynamic_command := True\<rparr>)))" for w
      by (simp add: grows_def)
    then show ?thesis
      unfolding r using kind
      by (auto simp: reported_def command_program_def split: option.split)
  qed
  show ?thesis
    unfolding covers_def
  proof (intro impI allI)
    fix m assume ok: "sp_ok ?r" and m: "reaches node m"
    from m show "reported U m ?r"
    proof cases
      case reach_self
      then show ?thesis using self by simp
    next
      case (reach_other c)
      then show ?thesis using others ok by (auto simp: covers_def)
    next
      case (reach_argument c)
      then show ?thesis using dynamic ok args by (auto simp: covers_dynamic_def covers_def)
    next
      case (reach_name c)
      then show ?thesis using word ok by (auto simp: covers_def)
    qed (use kind in simp)
  qed
qed

lemma visit_step_covers:
  assumes vis: "covering_vis U vis" and cls: "covering_cls U cls"
  shows "covers U node (visit_step U vis cls node out)"
proof (cases "tn_kind node = ''command''")
  case True
  then show ?thesis by (simp add: visit_step_def handle_command_covers [OF vis cls])
next
  case False
  let ?r = "foldl (\<lambda>out child. vis child out) (mark_structure (tn_kind node) out) (named_children node)"
  have g: "grows (mark_structure (tn_kind node) out) ?r"
    using growth.R_mine_args [OF covering_visD(3) [OF vis]] by (simp add: mine_args_def)
  have self: "reported U node ?r"
    by (rule reported_grows [OF g]) (simp add: reported_def mark_structure_def False)
  have kids: "c \<in> set (named_children node) \<Longrightarrow> covers U c ?r" for c
    using mine_args_covers [OF vis] by (simp add: mine_args_def)
  have "covers U node ?r"
    unfolding covers_def
  proof (intro impI allI)
    fix m assume ok: "sp_ok ?r" and m: "reaches node m"
    from m show "reported U m ?r"
    proof cases
      case reach_self
      then show ?thesis using self by simp
    next
      case (reach_child c)
      then show ?thesis using kids ok by (auto simp: covers_def)
    qed (use False in auto)
  qed
  then show ?thesis using False by (simp add: visit_step_def)
qed

lemma walk_covers:
  assumes "\<And>parse. reparse = Some parse \<Longrightarrow> growth.good_parse parse"
  shows "covering_vis U (visit U reparse n) \<and> covering_cls U (classify_invocation U reparse n)"
proof (induction n)
  case 0
  have "growth.good_vis (visit U reparse 0) \<and> growth.good_cls (classify_invocation U reparse 0)"
    by (rule growth.R_walk [OF assms])
  moreover have "covers U node (visit U reparse 0 node out)"
    "covers_dynamic U args (classify_invocation U reparse 0 prog args out)" for node out prog args
    by (simp_all add: covers_not_ok)
  ultimately show ?case unfolding covering_vis_def covering_cls_def by blast
next
  case (Suc n)
  then have vis: "covering_vis U (visit U reparse n)"
    and cls: "covering_cls U (classify_invocation U reparse n)" by auto
  have g: "growth.good_vis (visit U reparse (Suc n))
      \<and> growth.good_cls (classify_invocation U reparse (Suc n))"
    by (rule growth.R_walk [OF assms])
  have c: "covering_cls U (classify_invocation U reparse (Suc n))"
    using g classify_step_covers [OF vis cls]
    by (auto simp: covering_cls_def)
  have "covering_vis U (visit U reparse (Suc n))"
    using g visit_step_covers [OF vis c]
    by (auto simp: covering_vis_def)
  then show ?case using c by (rule conjI)
qed

lemma analyze_covers:
  assumes ok: "sp_ok (analyze_shell_command U G command)"
  obtains root where "length command \<le> MAX_COMMAND_BYTES" "G command = Some root" "\<not> tn_error root"
    "\<And>m. reaches root m \<Longrightarrow> reported U m (analyze_shell_command U G command)"
proof -
  let ?rp = "Some (parse_levels U G 3)"
  have a: "analyze_shell_command U G command = parse_step U G ?rp command"
    by (rule analyze_step)
  have good: "\<And>parse. ?rp = Some parse \<Longrightarrow> growth.good_parse parse"
    using growth.R_parse_levels by blast
  obtain root where root: "length command \<le> MAX_COMMAND_BYTES" "G command = Some root"
    and v: "parse_step U G ?rp command =
      visit U ?rp (MAX_TREE_DEPTH + 1) root (shell_parse_default\<lparr>sp_ok := \<not> tn_error root\<rparr>)"
    using ok unfolding a parse_step_def
    by (auto simp: shell_parse_default_def simp del: visit_numeral visit.simps
        split: option.splits if_splits)
  have w: "covering_vis U (visit U ?rp (MAX_TREE_DEPTH + 1))" using walk_covers [OF good] by blast
  have "\<not> tn_error root"
    using covering_visD(2) [OF w] ok unfolding a v by (force simp: grows_def)
  moreover have "reaches root m \<Longrightarrow> reported U m (analyze_shell_command U G command)" for m
    using covering_visD(1) [OF w] ok unfolding a v covers_def by blast
  ultimately show ?thesis using that root by blast
qed

end
