(* ===== verification/Shell_Examples.thy ===== *)
theory Shell_Examples
  imports Shell_Complete
begin

text \<open>
  Commands evaluated through the whole walk, on the trees \<open>tree-sitter-bash\<close> gives them:
  a wrapped command, a substitution, and two wrapper flags whose entry in the wrapper table
  hides the nested command.
\<close>

section \<open>Trees\<close>

definition word :: "string \<Rightarrow> tnode" where "word s = Node ''word'' (Some s) False []"

definition raw_string :: "string \<Rightarrow> tnode" where
  "raw_string s = Node ''raw_string'' (Some ([squote] @ s @ [squote])) False []"

text \<open>A simple command: the name, then its arguments.\<close>

definition command_node :: "tnode \<Rightarrow> tnode list \<Rightarrow> tnode" where
  "command_node name args =
     Node ''command'' None False
       (Child True (Some ''name'') (Node ''command_name'' None False [Child True None name])
        # map (Child True (Some ''argument'')) args)"

definition substitution_node :: "tnode \<Rightarrow> tnode" where
  "substitution_node c = Node ''command_substitution'' None False [Child True None c]"

definition program_node :: "tnode list \<Rightarrow> tnode" where
  "program_node cs = Node ''program'' None False (map (Child True None) cs)"

text \<open>The grammar on the commands below.\<close>

definition tree_sudo :: tnode where
  "tree_sudo = program_node [command_node (word ''sudo'')
     [word ''-u'', word ''root'', word ''rm'', word ''-rf'', word ''/'']]"

definition tree_subst :: tnode where
  "tree_subst = program_node [command_node (word ''echo'')
     [substitution_node (command_node (word ''/bin/RM'') [word ''x''])]]"

definition tree_env :: tnode where
  "tree_env = program_node [command_node (word ''env'') [word ''-S'', raw_string ''rm -rf /'']]"

definition tree_xargs :: tnode where
  "tree_xargs = program_node [command_node (word ''xargs'') [word ''-i'', word ''rm'', word ''{}'']]"

definition sample_grammar :: grammar where
  "sample_grammar s =
     (if s = ''sudo -u root rm -rf /'' then Some tree_sudo
      else if s = ''echo $(/bin/RM x)'' then Some tree_subst
      else if s = ''env -S '' @ [squote] @ ''rm -rf /'' @ [squote] then Some tree_env
      else if s = ''xargs -i rm {}'' then Some tree_xargs
      else None)"

lemma analyze_unfold:
  assumes "length command \<le> 262144" "G command = Some root"
  shows "analyze_shell_command U G command =
    visit U (Some (parse_levels U G 3)) 513 root (shell_parse_default\<lparr>sp_ok := \<not> tn_error root\<rparr>)"
  using assms
  by (simp add: analyze_step parse_step_def MAX_COMMAND_BYTES_def MAX_TREE_DEPTH_def
      del: visit_numeral visit.simps)

section \<open>Results\<close>

lemma sudo_visit:
  "visit plain_unicode rp 513 tree_sudo (shell_parse_default\<lparr>sp_ok := True\<rparr>) =
   shell_parse_default\<lparr>sp_ok := True, sp_programs := {''rm'', ''sudo''},
     sp_program_flags := {''sudo:-u'', ''rm:-rf'', ''rm:-r'', ''rm:-f''},
     sp_program_flags_normalized := {''sudo:-u'', ''rm:-rf'', ''rm:-r'', ''rm:-f''},
     sp_program_args := {''rm:/''}, sp_program_args_normalized := {''rm:/''}\<rparr>"
  by code_simp

lemma subst_visit:
  "visit plain_unicode rp 513 tree_subst (shell_parse_default\<lparr>sp_ok := True\<rparr>) =
   shell_parse_default\<lparr>sp_ok := True, sp_programs := {''rm'', ''echo''},
     sp_program_args := {''rm:x''}, sp_program_args_normalized := {''rm:x''},
     sp_program_arg_path_components_normalized := {''rm:x''},
     sp_has_command_substitution := True\<rparr>"
  by code_simp

lemma env_visit:
  "visit plain_unicode rp 513 tree_env (shell_parse_default\<lparr>sp_ok := True\<rparr>) =
   shell_parse_default\<lparr>sp_ok := True, sp_programs := {''env''},
     sp_program_flags := {''env:-S''}, sp_program_flags_normalized := {''env:-s''}\<rparr>"
  by code_simp

lemma xargs_visit:
  "visit plain_unicode rp 513 tree_xargs (shell_parse_default\<lparr>sp_ok := True\<rparr>) =
   shell_parse_default\<lparr>sp_ok := True, sp_programs := {''{}'', ''xargs''},
     sp_program_flags := {''xargs:-i''}, sp_program_flags_normalized := {''xargs:-i''}\<rparr>"
  by code_simp

lemma analyze_sample:
  assumes "sample_grammar s = Some root" "length s \<le> 262144" "\<not> tn_error root"
  shows "analyze_shell_command plain_unicode sample_grammar s =
    visit plain_unicode (Some (parse_levels plain_unicode sample_grammar 3)) 513 root
      (shell_parse_default\<lparr>sp_ok := True\<rparr>)"
  using analyze_unfold [of s sample_grammar root] assms by simp

lemma tree_error [simp]:
  "\<not> tn_error tree_sudo" "\<not> tn_error tree_subst" "\<not> tn_error tree_env" "\<not> tn_error tree_xargs"
  by (simp_all add: tree_sudo_def tree_subst_def tree_env_def tree_xargs_def program_node_def)

lemma sample_lengths:
  "length (''env -S '' @ [squote] @ ''rm -rf /'' @ [squote]) \<le> 262144"
  "length ''xargs -i rm {}'' \<le> 262144"
  by simp_all

text \<open>The command inside the substitution is reached by the walk.\<close>

lemma reaches_subst: "reaches tree_subst (command_node (word ''/bin/RM'') [word ''x''])"
proof -
  let ?inner = "command_node (word ''/bin/RM'') [word ''x'']"
  let ?outer = "command_node (word ''echo'') [substitution_node ?inner]"
  have "reaches (substitution_node ?inner) ?inner"
    by (rule reach_child [OF _ _ reach_self]) (simp_all add: substitution_node_def named_children_def)
  then have "reaches ?outer ?inner"
    by (rule reach_argument [rotated 3])
      (simp_all add: command_node_def command_args_def substitution_node_def literal_text.simps)
  then show ?thesis
    unfolding tree_subst_def
    by (rule reach_child [rotated 2]) (simp_all add: program_node_def named_children_def)
qed

end
