(* ===== verification/Sample.thy ===== *)
theory Sample
  imports Harness_Props Shell_Examples
begin

text \<open>
  A concrete engine and concrete events, on which the properties are applied: every
  third-party function is instantiated by one that computes.
\<close>

definition entity_json :: "euid \<Rightarrow> json" where
  "entity_json u = JObj [(''__entity'', JObj [(''type'', JStr (eu_type u)), (''id'', JStr (eu_id u))])]"

text \<open>Reads are forbidden by one policy, deletions need approval, everything else is permitted.\<close>

definition sample_authorize :: "cedar_request \<Rightarrow> cedar_response" where
  "sample_authorize r =
     (if eu_id (rq_action r) = ''FileRead''
      then \<lparr>cr_decision = CedarDeny, cr_reason = [''no-secrets''], cr_errors = []\<rparr>
      else if eu_id (rq_action r) = ''FileDelete''
      then \<lparr>cr_decision = CedarDeny, cr_reason = [''ask-owner''], cr_errors = []\<rparr>
      else \<lparr>cr_decision = CedarAllow, cr_reason = [''default''], cr_errors = []\<rparr>)"

definition sample_cedar :: cedar where
  "sample_cedar =
     \<lparr>cd_type_name_ok = (\<lambda>_. True), cd_record_error = (\<lambda>_. None), cd_entity_error = (\<lambda>_. None),
      cd_parse_expr = (\<lambda>_. Inl ''no extension values''), cd_uid_json = entity_json,
      cd_context_error = (\<lambda>_. None), cd_request_error = (\<lambda>_. None),
      cd_authorize = (\<lambda>r _. sample_authorize r),
      cd_annotations = (\<lambda>p. if p = ''no-secrets'' then Some [(''description'', ''secrets stay put'')]
        else if p = ''ask-owner'' then Some [(''escalate'', ''owner'')] else None)\<rparr>"

definition sample_model :: data_model where
  "sample_model =
     \<lparr>dm_labels = [label_template_new ''data''],
      dm_extract = (\<lambda>_ _ _. Some (Inr \<lparr>smr_sensitive = 1, smr_category = Confidential\<rparr>))\<rparr>"

definition sample_harness :: harness where
  "sample_harness =
     \<lparr>hs_cedar = sample_cedar, hs_faults = (\<lambda>_. None), hs_unicode = plain_unicode,
      hs_grammar = sample_grammar, hs_url = (\<lambda>_. None), hs_yara = (\<lambda>_. Inr []),
      hs_json = (\<lambda>_. ''{}''), hs_sha_hex = (\<lambda>_. ''0123456789abcdef0''), hs_debug = event_kind,
      hs_data_model = Some sample_model, hs_policy_model = None,
      hs_label_in_time = (\<lambda>_. True), hs_policy_in_time = (\<lambda>_. True), hs_mode = Govern\<rparr>"

definition empty_world :: world where
  "empty_world = \<lparr>w_entities = Map.empty, w_db = [], w_files = (\<lambda>_. []), w_agents = Map.empty, w_ops = 0\<rparr>"

definition sample_agent :: agent where
  "sample_agent = \<lparr>ag_id = ''a'', ag_provider = ''p'', ag_platform = ''cli''\<rparr>"

definition sample_fresh :: fresh where
  "sample_fresh = \<lparr>fresh_event_uuid = ''u'', fresh_corr_uuid = ''c'', fresh_now = 0\<rparr>"

definition sample_event :: "string \<Rightarrow> trajectory_event \<Rightarrow> event" where
  "sample_event i ev =
     \<lparr>ev_event_id = i, ev_trajectory_id = ''t'', ev_agent = sample_agent, ev_timestamp = 0,
      ev_event = ev, ev_actor = actor_agent ''a'', ev_causality = causality_default ''z''\<rparr>"

definition file_op :: "file_op_type \<Rightarrow> string \<Rightarrow> file_operation" where
  "file_op k body =
     \<lparr>fo_call_id = ''1'', fo_operation = k, fo_path = ''.env'', fo_content = Some body,
      fo_old_content = None\<rparr>"

definition read_event :: event where
  "read_event = sample_event ''e1'' (Action (FileOperation (file_op OpRead ''key'')))"

definition write_event :: event where
  "write_event = sample_event ''e2'' (Action (FileOperation (file_op OpWrite ''key'')))"

definition thought_event :: event where
  "thought_event = sample_event ''e3'' (Observation (Thought ''hm''))"

definition start_event :: event where
  "start_event = sample_event ''e4'' (Control (Started (started_new sample_agent)))"

abbreviation sample_run :: "event \<Rightarrow> world \<Rightarrow> (string + adjudicated) \<times> world" where
  "sample_run e w \<equiv> adjudicate_event sample_harness sample_fresh ''corr'' e w"

lemma keyed_empty [simp]: "keyed empty_world"
  by (simp add: keyed_def empty_world_def)

lemma view_empty [simp]: "traj_view empty_world = Map.empty"
  by (simp add: traj_view_def empty_world_def fun_eq_iff)

lemma mirrored_empty [simp]: "mirrored empty_world"
  by (simp add: mirrored_def empty_world_def)

lemmas engine_eval = adjudicate_event_def ensure_agent_entity_def lift_euid_def lift_context_def
  euid_def get_entity_def upsert_def delete_entity_def entities_def io_op_def io_bind_def Let_def
  adjudicate_action_def adjudicate_control_def evaluate_def build_request_def update_entity_def
  update_entity_with_def count_step_def raise_label_def mark_trajectory_label_def new_request_def
  is_authorized_def stored_form_def persist_def write_trajectory_event_def insert_event_def
  insert_row_def
  register_agent_def record_verdict_def upsert_entity_def from_type_and_id_def builder_new_def
  eb_long_def eb_attr_def eb_string_def eb_entity_ref_def eb_build_def eb_parent_uid_def
  traj_into_entity_def traj_from_entity_def traj_new_def label_default_def label_json_def
  classify_def label_of_content_def classify_label_def classify_policy_def dm_classify_def
  classify_single_def sensitivity_finding_of_def max_label_def file_entity_def
  file_operation_request_def

lemmas sample_eval = sample_harness_def sample_cedar_def sample_model_def sample_authorize_def
  empty_world_def sample_agent_def sample_fresh_def sample_event_def file_op_def read_event_def
  write_event_def thought_event_def start_event_def label_template_new_def actor_agent_def

lemmas verdict_eval = adjudicated_from_response_def reason_entry_def adjudicated_new_def
  redact_file_content_def redact_def redaction_marker_def is_char_boundary_def is_cont_def
  List.map_filter_def traj_label_def traj_view_def scannable_def label_from_str_def char_of_def bit_0

lemma sample_read:
  "\<exists>a w. sample_run read_event empty_world = (Inr a, w) \<and> adj_decision a = Deny
     \<and> map (file_bodies \<circ> ev_event) (w_db w)
       = [[''[redacted: 3 bytes, sha256:0123456789abcdef]''], []]"
  by (simp add: engine_eval sample_eval verdict_eval)

lemma sample_write:
  "\<exists>a w. sample_run write_event empty_world = (Inr a, w) \<and> adj_decision a = Allow
     \<and> map (file_bodies \<circ> ev_event) (w_db w) = [[''key''], []] \<and> traj_label w ''t'' = Confidential
     \<and> map ev_event_id (w_db w) = [''e2'', ''evt-u'']"
  by (simp add: engine_eval sample_eval verdict_eval)

lemma sample_thought: "\<exists>err w. sample_run thought_event empty_world = (Inl err, w)"
  by (simp add: engine_eval sample_eval verdict_eval)

lemma sample_start:
  "\<exists>w. sample_run start_event empty_world = (Inr adjudicated_allow, w) \<and> w_db w = [start_event]"
  by (simp add: engine_eval sample_eval verdict_eval)

end
