(* ===== verification/Wire_Value.thy ===== *)
theory Wire_Value
  imports Event Entity_Store "HOL-Library.Char_ord" "HOL-Library.List_Lexorder"
begin

text \<open>
  Free-form values on the wire (\<open>crates/schema/src/wire.rs\<close>): JSON to and from
  \<open>google.protobuf.Value\<close>, whose only number is an IEEE-754 double, and timestamps.

  An \<open>f64\<close> is its 64 bits. The integer conversions of the language (\<open>n as f64\<close>, rounding to
  nearest even, and the whole-number test of \<open>fract\<close>) are written out on those bits; what
  \<open>serde_json\<close> prints and reads for a number that is no integer, and the range of \<open>chrono\<close>'s
  dates, are parameters.
\<close>

section \<open>Doubles\<close>

fun bit_len :: "nat \<Rightarrow> nat" where
  "bit_len n = (if n = 0 then 0 else Suc (bit_len (n div 2)))"

declare bit_len.simps [simp del]

lemma bit_len_0 [simp]: "bit_len 0 = 0"
  by (simp add: bit_len.simps)

lemma bit_len_bounds: "0 < n \<Longrightarrow> 2 ^ (bit_len n - 1) \<le> n \<and> n < 2 ^ bit_len n \<and> 0 < bit_len n"
proof (induction n rule: bit_len.induct)
  case (1 n)
  show ?case
  proof (cases "n div 2 = 0")
    case True
    then have "n = 1" using 1(2) by linarith
    then show ?thesis by (simp add: bit_len.simps[of "Suc 0"])
  next
    case False
    let ?l = "bit_len (n div 2)"
    from False 1 have ih: "2 ^ (?l - 1) \<le> n div 2" "n div 2 < 2 ^ ?l" "0 < ?l" by auto
    then have "2 * 2 ^ (?l - 1) \<le> n" "n < 2 * 2 ^ ?l" by linarith+
    moreover have "2 * 2 ^ (?l - 1) = (2::nat) ^ ?l" using ih(3)
      by (metis Suc_diff_1 power_Suc)
    ultimately show ?thesis using False by (simp add: bit_len.simps[of n])
  qed
qed

lemma bit_len_power: "bit_len (2 ^ k) = Suc k"
  by (induction k) (simp_all add: bit_len.simps[of "Suc 0"] bit_len.simps[of "2 * _"])

text \<open>The bits of the double nearest to a natural number, ties to even.\<close>

definition f64_bits_of_nat :: "nat \<Rightarrow> nat" where
  "f64_bits_of_nat n =
     (if n = 0 then 0
      else let l = bit_len n in
        if l \<le> 53 then (l + 1022) * 2 ^ 52 + (n * 2 ^ (53 - l) - 2 ^ 52)
        else let d = l - 53; q = n div 2 ^ d; r = n mod 2 ^ d;
                 up = 2 ^ (d - 1) < r \<or> (r = 2 ^ (d - 1) \<and> odd q)
             in (l + 1022) * 2 ^ 52 + (q + of_bool up - 2 ^ 52))"

definition f64_of_int :: "int \<Rightarrow> f64" where
  "f64_of_int n =
     (if n < 0 then word_of_nat (2 ^ 63 + f64_bits_of_nat (nat (- n)))
      else word_of_nat (f64_bits_of_nat (nat n)))"

definition f64_negative :: "nat \<Rightarrow> bool" where "f64_negative b \<longleftrightarrow> 1 \<le> b div 2 ^ 63"
definition f64_exponent :: "nat \<Rightarrow> nat" where "f64_exponent b = b div 2 ^ 52 mod 2 ^ 11"
definition f64_fraction :: "nat \<Rightarrow> nat" where "f64_fraction b = b mod 2 ^ 52"

text \<open>The magnitude of a finite double when it is a whole number.\<close>

definition f64_magnitude :: "nat \<Rightarrow> nat option" where
  "f64_magnitude b =
     (let e = f64_exponent b; f = f64_fraction b;
          m = (if e = 0 then f else 2 ^ 52 + f); k = max e 1
      in if e = 2047 then None
         else if 1075 \<le> k then Some (m * 2 ^ (k - 1075))
         else if 2 ^ (1075 - k) dvd m then Some (m div 2 ^ (1075 - k))
         else None)"

definition f64_finite :: "f64 \<Rightarrow> bool" where
  "f64_finite x \<longleftrightarrow> f64_exponent (unat x) \<noteq> 2047"

text \<open>
  The test \<open>n.fract() == 0.0 && n.abs() <= MAX_EXACT_INT as f64\<close> and the cast \<open>n as i64\<close> that
  follows it. For an infinity or a NaN \<open>fract\<close> is a NaN and the test fails.
\<close>

definition max_exact_int :: nat where "max_exact_int = 2 ^ 53"

definition f64_exact_int :: "f64 \<Rightarrow> int option" where
  "f64_exact_int x =
     (case f64_magnitude (unat x) of
        Some a \<Rightarrow> if a \<le> max_exact_int
                  then Some (if f64_negative (unat x) then - int a else int a) else None
      | None \<Rightarrow> None)"

lemma f64_bits_small:
  assumes "0 < n" "n < 2 ^ 53"
  shows "f64_bits_of_nat n < 2 ^ 63"
    "f64_magnitude (f64_bits_of_nat n) = Some n"
    "f64_magnitude (2 ^ 63 + f64_bits_of_nat n) = Some n"
proof -
  define l where "l = bit_len n"
  have l: "2 ^ (l - 1) \<le> n" "n < 2 ^ l" "0 < l" using bit_len_bounds[OF assms(1)] by (auto simp: l_def)
  have l53: "l \<le> 53"
  proof (rule ccontr)
    assume "\<not> l \<le> 53"
    then have "(2::nat) ^ 53 \<le> 2 ^ (l - 1)" by (intro power_increasing) auto
    then show False using l assms by linarith
  qed
  define m where "m = n * 2 ^ (53 - l)"
  have "2 ^ (l - 1) * 2 ^ (53 - l) \<le> m" "m < 2 ^ l * 2 ^ (53 - l)"
    using l by (auto simp: m_def)
  moreover have "2 ^ (l - 1) * 2 ^ (53 - l) = (2::nat) ^ 52" "2 ^ l * 2 ^ (53 - l) = (2::nat) ^ 53"
    using l(3) l53 by (simp_all flip: power_add)
  ultimately have m: "2 ^ 52 \<le> m" "m < 2 ^ 53" by simp_all
  define B where "B = f64_bits_of_nat n"
  have B: "B = (l + 1022) * 2 ^ 52 + (m - 2 ^ 52)"
    using assms l53 by (simp add: B_def f64_bits_of_nat_def Let_def l_def m_def)
  have r: "m - 2 ^ 52 < 2 ^ 52" using m by simp
  have dv: "B div 2 ^ 52 = l + 1022" using r by (simp add: B div_eq_0_iff)
  have md: "B mod 2 ^ 52 = m - 2 ^ 52" unfolding B using r by (metis mod_less mod_mult_self3)
  have B63: "B < 2 ^ 63" using l53 r by (simp add: B)
  then show "f64_bits_of_nat n < 2 ^ 63" by (simp add: B_def)
  have ex: "f64_exponent B = l + 1022" unfolding f64_exponent_def dv using l53 by simp
  have "(2 ^ 63 + B) div 2 ^ 52 = 2 ^ 11 + B div 2 ^ 52"
  proof -
    have "(2 ^ 63 + B) = 2 ^ 11 * 2 ^ 52 + B" by simp
    then show ?thesis by (metis div_mult_self3 power_not_zero zero_neq_numeral)
  qed
  then have ex': "f64_exponent (2 ^ 63 + B) = l + 1022"
    unfolding f64_exponent_def dv using l53 by (simp only: mod_add_self1) simp
  have "(2 ^ 63 + B) mod 2 ^ 52 = B mod 2 ^ 52"
  proof -
    have "(2 ^ 63 + B) = B + 2 ^ 11 * 2 ^ 52" by simp
    then show ?thesis by (metis mod_mult_self1)
  qed
  then have fr: "f64_fraction B = m - 2 ^ 52" "f64_fraction (2 ^ 63 + B) = m - 2 ^ 52"
    using md by (simp_all add: f64_fraction_def)
  have val: "(if 1075 \<le> l + 1022 then Some (m * 2 ^ (l + 1022 - 1075))
      else if 2 ^ (1075 - (l + 1022)) dvd m then Some (m div 2 ^ (1075 - (l + 1022))) else None)
      = Some n"
  proof (cases "l = 53")
    case True
    then show ?thesis by (simp add: m_def)
  next
    case False
    then have "1075 - (l + 1022) = 53 - l" "\<not> 1075 \<le> l + 1022" using l53 by simp_all
    then show ?thesis by (simp add: m_def)
  qed
  have sm: "2 ^ 52 + (m - 2 ^ 52) = m" using m by simp
  have ne: "l + 1022 \<noteq> 2047" "l + 1022 \<noteq> 0" "max (l + 1022) 1 = l + 1022" using l53 by auto
  show "f64_magnitude (f64_bits_of_nat n) = Some n"
    unfolding B_def[symmetric] f64_magnitude_def Let_def ex fr
    by (simp only: ne sm if_False val)
  show "f64_magnitude (2 ^ 63 + f64_bits_of_nat n) = Some n"
    unfolding B_def[symmetric] f64_magnitude_def Let_def ex' fr
    by (simp only: ne sm if_False val)
qed

lemma f64_of_nat_exact:
  assumes "n \<le> 2 ^ 53"
  shows "f64_exact_int (f64_of_int (int n)) = Some (int n)"
    "f64_exact_int (f64_of_int (- int n)) = Some (- int n)"
proof -
  consider "n = 0" | "n = 2 ^ 53" | "0 < n" "n < 2 ^ 53" using assms by linarith
  then have "f64_exact_int (f64_of_int (int n)) = Some (int n) \<and>
      f64_exact_int (f64_of_int (- int n)) = Some (- int n)"
  proof cases
    case 1
    then show ?thesis
      by (simp add: f64_exact_int_def f64_of_int_def f64_magnitude_def f64_bits_of_nat_def
          f64_exponent_def f64_fraction_def f64_negative_def max_exact_int_def)
  next
    case 2
    have b: "f64_bits_of_nat (2 ^ 53) = 1076 * 2 ^ 52"
      using bit_len_power[of 53] by (simp add: f64_bits_of_nat_def Let_def)
    have "f64_exact_int (f64_of_int (2 ^ 53)) = Some (2 ^ 53)"
      "f64_exact_int (f64_of_int (- (2 ^ 53))) = Some (- (2 ^ 53))"
      using b by (simp_all add: f64_exact_int_def f64_of_int_def f64_magnitude_def
          f64_exponent_def f64_fraction_def f64_negative_def max_exact_int_def)
    then show ?thesis using 2 by simp
  next
    case 3
    note b = f64_bits_small[OF 3]
    have u: "unat (word_of_nat k :: f64) = k" if "k < 2 ^ 64" for k
      using that by (simp add: unat_of_nat)
    have "unat (word_of_nat (f64_bits_of_nat n) :: f64) = f64_bits_of_nat n"
      "unat (word_of_nat (2 ^ 63 + f64_bits_of_nat n) :: f64) = 2 ^ 63 + f64_bits_of_nat n"
      by (rule u, use b(1) in simp)+
    moreover have "\<not> f64_negative (f64_bits_of_nat n)" "f64_negative (2 ^ 63 + f64_bits_of_nat n)"
      using b(1) by (simp_all add: f64_negative_def)
    ultimately show ?thesis using 3 b
      by (simp add: f64_exact_int_def f64_of_int_def max_exact_int_def del: of_nat_add)
  qed
  then show "f64_exact_int (f64_of_int (int n)) = Some (int n)"
    "f64_exact_int (f64_of_int (- int n)) = Some (- int n)" by auto
qed

lemma f64_of_int_exact: "\<bar>n\<bar> \<le> 2 ^ 53 \<Longrightarrow> f64_exact_int (f64_of_int n) = Some n"
proof -
  assume n: "\<bar>n\<bar> \<le> 2 ^ 53"
  then have "nat \<bar>n\<bar> \<le> 2 ^ 53" by (simp add: nat_le_iff)
  from f64_of_nat_exact[OF this] show ?thesis by (cases "0 \<le> n") simp_all
qed

section \<open>What is not the repository's\<close>

text \<open>
  \<open>we_f64_of_text\<close> is the double a number's text denotes and \<open>we_number_of_f64\<close> the text
  \<open>serde_json\<close> gives a finite double; \<open>we_from_timestamp\<close> is
  \<open>chrono::DateTime::from_timestamp\<close>.
\<close>

record wire_env =
  we_f64_of_text :: "string \<Rightarrow> f64"
  we_number_of_f64 :: "f64 \<Rightarrow> string"
  we_from_timestamp :: "i64 \<Rightarrow> 32 word \<Rightarrow> timestamp option"

section \<open>Sorted maps\<close>

text \<open>A \<open>BTreeMap\<close> is the list of its entries in key order; collecting into it inserts in turn.\<close>

fun bt_insert :: "string \<Rightarrow> 'v \<Rightarrow> (string \<times> 'v) list \<Rightarrow> (string \<times> 'v) list" where
  "bt_insert k v [] = [(k, v)]"
| "bt_insert k v ((k', v') # m) =
     (if k < k' then (k, v) # (k', v') # m
      else if k = k' then (k, v) # m
      else (k', v') # bt_insert k v m)"

definition bt_collect :: "(string \<times> 'v) list \<Rightarrow> (string \<times> 'v) list" where
  "bt_collect kvs = foldl (\<lambda>m (k, v). bt_insert k v m) [] kvs"

abbreviation on_values :: "('v \<Rightarrow> 'w) \<Rightarrow> (string \<times> 'v) list \<Rightarrow> (string \<times> 'w) list" where
  "on_values f \<equiv> map (\<lambda>(k, v). (k, f v))"

lemma bt_insert_set: "set (bt_insert k v m) \<subseteq> insert (k, v) (set m)"
  by (induction k v m rule: bt_insert.induct) auto

lemma bt_insert_keys: "fst ` set (bt_insert k v m) = insert k (fst ` set m)"
  by (induction k v m rule: bt_insert.induct) auto

lemma bt_insert_sorted:
  "sorted_wrt (<) (map fst m) \<Longrightarrow> sorted_wrt (<) (map fst (bt_insert k v m))"
proof (induction k v m rule: bt_insert.induct)
  case (1 k v)
  then show ?case by simp
next
  case (2 k v k' v' m)
  then show ?case
    by (auto simp: bt_insert_keys)
qed

lemma bt_insert_map_of: "map_of (bt_insert k v m) = (map_of m)(k \<mapsto> v)"
  by (induction k v m rule: bt_insert.induct) (auto simp: fun_eq_iff)

lemma bt_insert_on_values: "on_values f (bt_insert k v m) = bt_insert k (f v) (on_values f m)"
  by (induction k v m rule: bt_insert.induct) auto

lemma bt_fold_facts:
  "sorted_wrt (<) (map fst m) \<Longrightarrow>
     sorted_wrt (<) (map fst (foldl (\<lambda>m (k, v). bt_insert k v m) m kvs))
     \<and> map_of (foldl (\<lambda>m (k, v). bt_insert k v m) m kvs) = map_of m ++ map_of (rev kvs)
     \<and> on_values f (foldl (\<lambda>m (k, v). bt_insert k v m) m kvs)
         = foldl (\<lambda>m (k, v). bt_insert k v m) (on_values f m) (on_values f kvs)"
  by (induction kvs arbitrary: m)
    (auto simp: bt_insert_sorted bt_insert_map_of bt_insert_on_values map_add_def fun_eq_iff
      split: option.splits)

lemma bt_collect_sorted: "sorted_wrt (<) (map fst (bt_collect kvs))"
  using bt_fold_facts[of "[]" kvs id] by (simp add: bt_collect_def)

lemma bt_collect_on_values: "on_values f (bt_collect kvs) = bt_collect (on_values f kvs)"
  using bt_fold_facts[of "[]" kvs f] by (simp add: bt_collect_def)

lemma map_of_rev_distinct: "distinct (map fst kvs) \<Longrightarrow> map_of (rev kvs) = map_of kvs"
  by (subst map_of_inject_set) (auto simp: rev_map[symmetric])

lemma bt_collect_map_of: "distinct (map fst kvs) \<Longrightarrow> map_of (bt_collect kvs) = map_of kvs"
  using bt_fold_facts[of "[]" kvs id] by (simp add: bt_collect_def map_of_rev_distinct)

section \<open>Values\<close>

text \<open>
  \<open>google.protobuf.Value\<close>: its kind, or none set. A \<open>Struct\<close> is a sorted map of values.
\<close>

datatype pb_value =
    PvUnset
  | PvNull
  | PvBool bool
  | PvNumber f64
  | PvString string
  | PvList "pb_value list"
  | PvStruct "(string \<times> pb_value) list"

text \<open>
  \<open>json_to_proto_value\<close>. In \<open>serde_json\<close>'s default number model \<open>as_f64\<close> always answers, so
  the arm that keeps the digits as a string is not reached.
\<close>

fun json_to_proto_value :: "wire_env \<Rightarrow> json \<Rightarrow> pb_value" where
  "json_to_proto_value W JNull = PvNull"
| "json_to_proto_value W (JBool b) = PvBool b"
| "json_to_proto_value W (JInt n) = PvNumber (f64_of_int n)"
| "json_to_proto_value W (JFloat t) = PvNumber (we_f64_of_text W t)"
| "json_to_proto_value W (JStr s) = PvString s"
| "json_to_proto_value W (JArr vs) = PvList (map (json_to_proto_value W) vs)"
| "json_to_proto_value W (JObj kvs) =
     PvStruct (bt_collect (map (\<lambda>(k, v). (k, json_to_proto_value W v)) kvs))"

fun json_value_to_proto_struct :: "wire_env \<Rightarrow> json \<Rightarrow> (string \<times> pb_value) list option" where
  "json_value_to_proto_struct W (JObj kvs) =
     Some (bt_collect (on_values (json_to_proto_value W) kvs))"
| "json_value_to_proto_struct W _ = None"

definition number_to_json :: "wire_env \<Rightarrow> f64 \<Rightarrow> json" where
  "number_to_json W x =
     (case f64_exact_int x of
        Some n \<Rightarrow> JInt n
      | None \<Rightarrow> if f64_finite x then JFloat (we_number_of_f64 W x) else JNull)"

fun proto_value_to_json :: "wire_env \<Rightarrow> pb_value \<Rightarrow> json" where
  "proto_value_to_json W PvUnset = JNull"
| "proto_value_to_json W PvNull = JNull"
| "proto_value_to_json W (PvBool b) = JBool b"
| "proto_value_to_json W (PvNumber x) = number_to_json W x"
| "proto_value_to_json W (PvString s) = JStr s"
| "proto_value_to_json W (PvList vs) = JArr (map (proto_value_to_json W) vs)"
| "proto_value_to_json W (PvStruct fs) = JObj (map (\<lambda>(k, v). (k, proto_value_to_json W v)) fs)"

definition proto_struct_to_json_value :: "wire_env \<Rightarrow> (string \<times> pb_value) list \<Rightarrow> json" where
  "proto_struct_to_json_value W fs = JObj (on_values (proto_value_to_json W) fs)"

section \<open>What a value looks like after the wire\<close>

text \<open>The keys of every object in order; everything else as it was.\<close>

fun sort_keys :: "json \<Rightarrow> json" where
  "sort_keys (JArr vs) = JArr (map sort_keys vs)"
| "sort_keys (JObj kvs) = JObj (bt_collect (map (\<lambda>(k, v). (k, sort_keys v)) kvs))"
| "sort_keys v = v"

text \<open>
  The values that survive: integers a double holds exactly, other numbers that print as they
  were read and are no whole number, objects with one value for a key.
\<close>

fun wire_exact :: "wire_env \<Rightarrow> json \<Rightarrow> bool" where
  "wire_exact W (JInt n) \<longleftrightarrow> \<bar>n\<bar> \<le> 2 ^ 53"
| "wire_exact W (JFloat t) \<longleftrightarrow> f64_exact_int (we_f64_of_text W t) = None
     \<and> f64_finite (we_f64_of_text W t) \<and> we_number_of_f64 W (we_f64_of_text W t) = t"
| "wire_exact W (JArr vs) \<longleftrightarrow> list_all (wire_exact W) vs"
| "wire_exact W (JObj kvs) \<longleftrightarrow>
     distinct (map fst kvs) \<and> list_all (\<lambda>(k, v). wire_exact W v) kvs"
| "wire_exact W _ \<longleftrightarrow> True"

lemma proto_value_round_trip:
  "wire_exact W v \<Longrightarrow> proto_value_to_json W (json_to_proto_value W v) = sort_keys v"
proof (induction v)
  case (JArr vs)
  then show ?case by (simp add: list_all_iff)
next
  case (JObj kvs)
  have "on_values (proto_value_to_json W) (on_values (json_to_proto_value W) kvs)
      = on_values sort_keys kvs"
    using JObj by (fastforce simp: list_all_iff)
  then show ?case
    by (simp only: json_to_proto_value.simps proto_value_to_json.simps sort_keys.simps
        bt_collect_on_values)
qed (simp_all add: f64_of_int_exact number_to_json_def)

lemma proto_struct_round_trip:
  assumes "wire_exact W (JObj kvs)" "json_value_to_proto_struct W (JObj kvs) = Some fs"
  shows "proto_struct_to_json_value W fs = sort_keys (JObj kvs)"
  using proto_value_round_trip[OF assms(1)] assms(2)
  by (auto simp: proto_struct_to_json_value_def)

lemma jget_sort_keys:
  assumes "wire_exact W v" shows "jget k (sort_keys v) = map_option sort_keys (jget k v)"
proof (cases v)
  case (JObj kvs)
  have "distinct (map fst (on_values sort_keys kvs))" using assms JObj by (simp add: split_def o_def)
  then show ?thesis using JObj by (simp add: bt_collect_map_of map_of_map)
qed simp_all

lemma as_str_sort_keys [simp]: "as_str (sort_keys v) = as_str v"
  by (cases v) simp_all

section \<open>Timestamps\<close>

record pb_timestamp =
  pbts_seconds :: i64
  pbts_nanos :: i32

definition datetime_to_timestamp :: "timestamp \<Rightarrow> pb_timestamp" where
  "datetime_to_timestamp t =
     \<lparr>pbts_seconds = word_of_int (t div 10 ^ 9), pbts_nanos = word_of_int (t mod 10 ^ 9)\<rparr>"

text \<open>\<open>u32::try_from(ts.nanos)\<close> refuses a negative number and keeps the bits of any other.\<close>

definition timestamp_to_datetime :: "wire_env \<Rightarrow> pb_timestamp \<Rightarrow> timestamp option" where
  "timestamp_to_datetime W ts =
     (if sint (pbts_nanos ts) < 0 then None
      else we_from_timestamp W (pbts_seconds ts) (pbts_nanos ts))"

text \<open>A date the library reads back from its own seconds and nanoseconds.\<close>

definition date_exact :: "wire_env \<Rightarrow> timestamp \<Rightarrow> bool" where
  "date_exact W t \<longleftrightarrow>
     we_from_timestamp W (word_of_int (t div 10 ^ 9)) (word_of_int (t mod 10 ^ 9)) = Some t"

lemma nanos_nonneg: "0 \<le> sint (word_of_int (t mod 10 ^ 9) :: i32)"
proof -
  have "0 \<le> t mod 10 ^ 9" "t mod 10 ^ 9 < 10 ^ 9" by simp_all
  then have "sint (word_of_int (t mod 10 ^ 9) :: i32) = t mod 10 ^ 9"
    by (simp add: sint_sbintrunc' signed_take_bit_int_eq_self)
  then show ?thesis by simp
qed

lemma timestamp_round_trip:
  "date_exact W t \<Longrightarrow> timestamp_to_datetime W (datetime_to_timestamp t) = Some t"
  using nanos_nonneg[of t]
  by (simp add: timestamp_to_datetime_def datetime_to_timestamp_def date_exact_def)

end
