(* ===== verification/Hook_Core.thy ===== *)
theory Hook_Core
  imports Event
begin

text \<open>
  The runtime every hook adapter shares (\<open>crates/hooks/core\<close>): the error type and its
  classification of a harness failure (\<open>error.rs\<close>, with the client's error of
  \<open>crates/types/src/error.rs\<close>), the fail-closed texts (\<open>adjudication.rs\<close>), the flat
  decision envelope (\<open>response.rs\<close>) and the run loop that turns every failure into the
  provider's degraded response (\<open>runner.rs\<close>).

  A future is the instant at which the poll that completes it starts, with its value, or
  that instant and a panic, or no completion at all. Code between two \<open>await\<close>s takes no time
  in this model: tokio cannot interrupt it either.
\<close>

section \<open>Errors\<close>

text \<open>The failures of the harness client, one constructor per variant.\<close>

datatype harness_client_error =
    HceConfig string
  | HceUnavailable string
  | HceTimeout
  | HceInvalidArgument string
  | HceNotFound string
  | HceAlreadyExists string
  | HceDecode string
  | HceServer string

fun client_error_display :: "harness_client_error \<Rightarrow> string" where
  "client_error_display (HceConfig m) = ''harness endpoint configuration error: '' @ m"
| "client_error_display (HceUnavailable m) = ''harness unavailable: '' @ m"
| "client_error_display HceTimeout = ''harness deadline exceeded''"
| "client_error_display (HceInvalidArgument m) = ''invalid request: '' @ m"
| "client_error_display (HceNotFound m) = ''not found: '' @ m"
| "client_error_display (HceAlreadyExists m) = ''already exists: '' @ m"
| "client_error_display (HceDecode m) = ''decode error: '' @ m"
| "client_error_display (HceServer m) = ''server error: '' @ m"

text \<open>
  A gRPC status: its code and its message. The codes are those of \<open>tonic::Code\<close>.
\<close>

datatype grpc_code =
    GcOk | GcCancelled | GcUnknown | GcInvalidArgument | GcDeadlineExceeded | GcNotFound
  | GcAlreadyExists | GcPermissionDenied | GcResourceExhausted | GcFailedPrecondition
  | GcAborted | GcOutOfRange | GcUnimplemented | GcInternal | GcUnavailable | GcDataLoss
  | GcUnauthenticated

record grpc_status =
  gs_code :: grpc_code
  gs_message :: string

definition client_error_of_status :: "grpc_status \<Rightarrow> harness_client_error" where
  "client_error_of_status s =
     (case gs_code s of
        GcUnavailable \<Rightarrow> HceUnavailable (gs_message s)
      | GcDeadlineExceeded \<Rightarrow> HceTimeout
      | GcInvalidArgument \<Rightarrow> HceInvalidArgument (gs_message s)
      | GcNotFound \<Rightarrow> HceNotFound (gs_message s)
      | GcAlreadyExists \<Rightarrow> HceAlreadyExists (gs_message s)
      | _ \<Rightarrow> HceServer (gs_message s))"

text \<open>
  Everything a hook can fail at. The payloads the code carries as foreign error values
  (\<open>source\<close>, \<open>std::io::Error\<close>, \<open>serde_json::Error\<close>) are their \<open>Display\<close> text.
\<close>

datatype hook_error =
    HeConfig string
  | HeUnreachable string
  | HeServiceTimeout
  | HeServerRejected string
  | HeServiceUnavailable string
  | HeBudgetExceeded nat
  | HePanicked
  | HeMessage string
  | HeContext string string
  | HeIo string
  | HeJson string

fun hook_error_display :: "hook_error \<Rightarrow> string" where
  "hook_error_display (HeConfig m) = ''configuration error: '' @ m"
| "hook_error_display (HeUnreachable m) = ''harness unreachable: '' @ m"
| "hook_error_display HeServiceTimeout = ''harness timed out during adjudication''"
| "hook_error_display (HeServerRejected m) = ''harness rejected the request: '' @ m"
| "hook_error_display (HeServiceUnavailable m) = ''harness unavailable: '' @ m"
| "hook_error_display (HeBudgetExceeded n) =
     ''hook budget exceeded after '' @ nat_to_string n @ ''s before enforcement completed''"
| "hook_error_display HePanicked = ''hook panicked before enforcement completed''"
| "hook_error_display (HeMessage m) = m"
| "hook_error_display (HeContext m s) = m @ '': '' @ s"
| "hook_error_display (HeIo m) = ''io error: '' @ m"
| "hook_error_display (HeJson m) = ''serialization error: '' @ m"

text \<open>\<open>From<HarnessClientError> for HookError\<close>: the whole classifier.\<close>

fun hook_error_of_client :: "harness_client_error \<Rightarrow> hook_error" where
  "hook_error_of_client (HceConfig m) = HeConfig m"
| "hook_error_of_client (HceUnavailable m) = HeUnreachable m"
| "hook_error_of_client HceTimeout = HeServiceTimeout"
| "hook_error_of_client (HceServer m) = HeServerRejected m"
| "hook_error_of_client (HceInvalidArgument m) = HeServerRejected m"
| "hook_error_of_client (HceNotFound m) = HeServerRejected m"
| "hook_error_of_client (HceAlreadyExists m) = HeServerRejected m"
| "hook_error_of_client (HceDecode m) = HeServiceUnavailable m"

fun category :: "hook_error \<Rightarrow> string" where
  "category (HeConfig _) = ''config''"
| "category (HeServerRejected _) = ''server''"
| "category _ = ''network''"

fun remediation :: "hook_error \<Rightarrow> string" where
  "remediation (HeConfig _) =
     ''[sondera] Configuration error in ~/.sondera/env. Check file format.''"
| "remediation (HeUnreachable _) =
     ''[sondera] Cannot reach Sondera service. Start it with `sondera serve`, or ''
     @ ''point SONDERA_HARNESS_ENDPOINT at a running one (default ''
     @ ''http://127.0.0.1:50051).''"
| "remediation HeServiceTimeout =
     ''[sondera] Sondera service timed out while policy adjudication was in ''
     @ ''progress. The service was reachable; check harness latency/load or contact ''
     @ ''your admin.''"
| "remediation (HeBudgetExceeded _) =
     ''[sondera] Sondera hook timed out before policy enforcement completed. Check ''
     @ ''hook setup latency, harness latency/load, or contact your admin.''"
| "remediation (HeServerRejected _) =
     ''[sondera] Sondera service rejected the request (server-side policy/schema ''
     @ ''error, not a connectivity issue). Contact your admin.''"
| "remediation _ =
     ''[sondera] Sondera service temporarily unavailable. Check that `sondera serve` ''
     @ ''is running at SONDERA_HARNESS_ENDPOINT, or contact your admin.''"

fun fallback_context :: "hook_error \<Rightarrow> string" where
  "fallback_context (HeConfig _) =
     ''Sondera is running in passthrough mode. Fix the syntax in ~/.sondera/env to ''
     @ ''enable policy enforcement.''"
| "fallback_context (HeServerRejected _) =
     ''Sondera is running in passthrough mode. The governance service rejected the ''
     @ ''request due to a server-side policy configuration error; contact your admin.''"
| "fallback_context _ =
     ''Sondera is running in passthrough mode. The governance service is temporarily ''
     @ ''unavailable.''"

text \<open>
  \<open>every_variant\<close>: one value of every failure, swept by the matrix below. The Display texts of
  the foreign errors are arguments: what \<open>std\<close> and \<open>serde_json\<close> print is theirs.
\<close>

definition every_variant :: "string \<Rightarrow> string \<Rightarrow> hook_error list" where
  "every_variant io_text json_text =
     [HeConfig ''bad env'', HeUnreachable ''connection refused'', HeServiceTimeout,
      HeServerRejected ''schema mismatch'', HeServiceUnavailable ''decode failed'',
      HeBudgetExceeded 30, HePanicked, HeMessage ''unrecognized failure'',
      HeContext ''while reading config'' io_text, HeIo io_text, HeJson json_text]"

section \<open>Fail-closed texts\<close>

definition fail_closed_default :: string where
  "fail_closed_default =
     ''Sondera policy enforcement is unavailable, so this action was denied by ''
     @ ''fail-closed enforcement. Check that `sondera serve` is running and reachable ''
     @ ''at SONDERA_HARNESS_ENDPOINT, or contact your admin.''"

definition fail_closed_timeout :: string where
  "fail_closed_timeout =
     ''Sondera policy enforcement timed out, so this action was denied by ''
     @ ''fail-closed enforcement. The service was reachable, but adjudication exceeded ''
     @ ''the hook budget; check harness latency/load or contact your admin.''"

definition fail_closed_hook_timeout :: string where
  "fail_closed_hook_timeout =
     ''Sondera policy enforcement timed out, so this action was denied by ''
     @ ''fail-closed enforcement. The hook exceeded its budget before enforcement ''
     @ ''completed; check hook setup latency, harness latency/load, or contact your ''
     @ ''admin.''"

definition fail_closed_server :: string where
  "fail_closed_server =
     ''Sondera policy enforcement rejected this action due to a server-side policy ''
     @ ''configuration error (not a connectivity issue). Contact your admin.''"

definition fail_closed_server_post_tool :: string where
  "fail_closed_server_post_tool =
     ''Sondera policy enforcement rejected this tool output due to a server-side ''
     @ ''policy configuration error (not a connectivity issue). Contact your admin.''"

definition fail_closed_post_tool :: string where
  "fail_closed_post_tool =
     ''Sondera policy enforcement is unavailable, so this tool output was blocked by ''
     @ ''fail-closed enforcement. Check that `sondera serve` is running and reachable ''
     @ ''at SONDERA_HARNESS_ENDPOINT, or contact your admin.''"

definition fail_closed_timeout_post_tool :: string where
  "fail_closed_timeout_post_tool =
     ''Sondera policy enforcement timed out, so this tool output was blocked by ''
     @ ''fail-closed enforcement. The service was reachable, but adjudication exceeded ''
     @ ''the hook budget; check harness latency/load or contact your admin.''"

definition fail_closed_hook_timeout_post_tool :: string where
  "fail_closed_hook_timeout_post_tool =
     ''Sondera policy enforcement timed out, so this tool output was blocked by ''
     @ ''fail-closed enforcement. The hook exceeded its budget before enforcement ''
     @ ''completed; check hook setup latency, harness latency/load, or contact your ''
     @ ''admin.''"

fun fail_closed_reason :: "hook_error \<Rightarrow> string" where
  "fail_closed_reason (HeBudgetExceeded _) = fail_closed_hook_timeout"
| "fail_closed_reason HeServiceTimeout = fail_closed_timeout"
| "fail_closed_reason (HeServerRejected _) = fail_closed_server"
| "fail_closed_reason _ = fail_closed_default"

fun fail_closed_reason_post_tool :: "hook_error \<Rightarrow> string" where
  "fail_closed_reason_post_tool (HeBudgetExceeded _) = fail_closed_hook_timeout_post_tool"
| "fail_closed_reason_post_tool HeServiceTimeout = fail_closed_timeout_post_tool"
| "fail_closed_reason_post_tool (HeServerRejected _) = fail_closed_server_post_tool"
| "fail_closed_reason_post_tool _ = fail_closed_post_tool"

lemmas fail_closed_texts =
  fail_closed_default_def fail_closed_timeout_def fail_closed_hook_timeout_def
  fail_closed_server_def fail_closed_server_post_tool_def fail_closed_post_tool_def
  fail_closed_timeout_post_tool_def fail_closed_hook_timeout_post_tool_def

text \<open>The denial steers at connectivity exactly when the harness was not shown to be reached.\<close>

definition steers_to_endpoint :: "string \<Rightarrow> bool" where
  "steers_to_endpoint s \<longleftrightarrow> sublist ''SONDERA_HARNESS_ENDPOINT'' s"

definition names_a_cause :: "hook_error \<Rightarrow> bool" where
  "names_a_cause e \<longleftrightarrow>
     (case e of HeBudgetExceeded _ \<Rightarrow> True | HeServiceTimeout \<Rightarrow> True | HeServerRejected _ \<Rightarrow> True
      | _ \<Rightarrow> False)"

lemma reasons_steer:
  "list_all steers_to_endpoint [fail_closed_default, fail_closed_post_tool]
   \<and> list_all (\<lambda>s. \<not> steers_to_endpoint s)
       [fail_closed_timeout, fail_closed_hook_timeout, fail_closed_server,
        fail_closed_server_post_tool, fail_closed_timeout_post_tool,
        fail_closed_hook_timeout_post_tool]"
  by code_simp

lemma denial_steers_iff: "steers_to_endpoint (fail_closed_reason e) \<longleftrightarrow> \<not> names_a_cause e"
  "steers_to_endpoint (fail_closed_reason_post_tool e) \<longleftrightarrow> \<not> names_a_cause e"
  using reasons_steer by (cases e; simp add: names_a_cause_def)+

section \<open>The flat decision envelope\<close>

record decision_envelope =
  de_decision :: "string option"
  de_reason :: "string option"
  de_additional_context :: "string option"

definition envelope_ok :: decision_envelope where
  "envelope_ok = \<lparr>de_decision = None, de_reason = None, de_additional_context = None\<rparr>"

definition envelope_deny :: "string \<Rightarrow> decision_envelope" where
  "envelope_deny reason =
     \<lparr>de_decision = Some ''deny'', de_reason = Some reason, de_additional_context = None\<rparr>"

definition envelope_deny_with_context :: "string \<Rightarrow> string \<Rightarrow> decision_envelope" where
  "envelope_deny_with_context reason ctx =
     (envelope_deny reason)\<lparr>de_additional_context := Some ctx\<rparr>"

definition envelope_additional_context :: "string \<Rightarrow> decision_envelope" where
  "envelope_additional_context ctx = envelope_ok\<lparr>de_additional_context := Some ctx\<rparr>"

definition envelope_is_deny :: "decision_envelope \<Rightarrow> bool" where
  "envelope_is_deny r \<longleftrightarrow> de_decision r = Some ''deny''"

text \<open>What \<open>serde\<close> writes: the fields that are present, in the order of the struct.\<close>

definition envelope_json :: "decision_envelope \<Rightarrow> json" where
  "envelope_json r =
     JObj (List.map_filter (\<lambda>(k, v). map_option (\<lambda>s. (k, JStr s)) v)
       [(''decision'', de_decision r), (''reason'', de_reason r),
        (''additionalContext'', de_additional_context r)])"

text \<open>What the host reads back: a field is what the object holds under its name.\<close>

definition envelope_of_json :: "json \<Rightarrow> decision_envelope option" where
  "envelope_of_json v =
     (case v of
        JObj kvs \<Rightarrow>
          (if list_all (\<lambda>k. case map_of kvs k of None \<Rightarrow> True | Some (JStr _) \<Rightarrow> True
                | Some JNull \<Rightarrow> True | _ \<Rightarrow> False)
                [''decision'', ''reason'', ''additionalContext'']
           then Some \<lparr>de_decision = Option.bind (map_of kvs ''decision'') as_str,
                      de_reason = Option.bind (map_of kvs ''reason'') as_str,
                      de_additional_context =
                        Option.bind (map_of kvs ''additionalContext'') as_str\<rparr>
           else None)
      | _ \<Rightarrow> None)"

lemma envelope_is_deny_simps [simp]:
  "\<not> envelope_is_deny envelope_ok"
  "envelope_is_deny (envelope_deny r)"
  "envelope_is_deny (envelope_deny_with_context r c)"
  "\<not> envelope_is_deny (envelope_additional_context c)"
  by (simp_all add: envelope_is_deny_def envelope_ok_def envelope_deny_def
      envelope_deny_with_context_def envelope_additional_context_def)

lemma envelope_json_round_trip: "envelope_of_json (envelope_json r) = Some r"
  by (cases r; cases "de_decision r"; cases "de_reason r"; cases "de_additional_context r")
    (simp_all add: envelope_of_json_def envelope_json_def List.map_filter_simps)

section \<open>Futures and deadlines\<close>

datatype 'a future = Ready nat 'a | Panics nat | Never

text \<open>\<open>f().await\<close> inside an \<open>async\<close> block: what follows starts when \<open>f\<close> is done.\<close>

definition and_then :: "'a future \<Rightarrow> ('a \<Rightarrow> 'b future) \<Rightarrow> 'b future" where
  "and_then f g =
     (case f of
        Ready n a \<Rightarrow>
          (case g a of Ready m b \<Rightarrow> Ready (n + m) b | Panics m \<Rightarrow> Panics (n + m) | Never \<Rightarrow> Never)
      | Panics n \<Rightarrow> Panics n
      | Never \<Rightarrow> Never)"

text \<open>\<open>f().await?\<close>: an error completes the block.\<close>

definition and_then_ok ::
  "('e + 'a) future \<Rightarrow> ('a \<Rightarrow> ('e + 'b) future) \<Rightarrow> ('e + 'b) future" where
  "and_then_ok f g = and_then f (\<lambda>r. case r of Inl e \<Rightarrow> Ready 0 (Inl e) | Inr a \<Rightarrow> g a)"

text \<open>
  \<open>catch_hook_panic\<close>: \<open>Some\<close> of the value, \<open>None\<close> for a panic.
\<close>

fun catch_hook_panic :: "'a future \<Rightarrow> 'a option future" where
  "catch_hook_panic (Ready n a) = Ready n (Some a)"
| "catch_hook_panic (Panics n) = Ready n None"
| "catch_hook_panic Never = Never"

text \<open>
  What awaiting comes to: a value at an instant, or a panic that unwinds.
\<close>

datatype 'a awaited = Value nat 'a | Unwinds nat

text \<open>
  \<open>tokio::time::timeout_at\<close>: the future is polled before the timer, so a future that is done at
  the deadline still counts; one that is not yields the elapsed error at the deadline. A panic
  of the future unwinds through it. Instants are counted from \<open>now\<close>, and a deadline already
  past fires at once.
\<close>

definition timeout_at :: "nat \<Rightarrow> nat \<Rightarrow> 'a future \<Rightarrow> 'a option awaited" where
  "timeout_at deadline now f =
     (let left = deadline - now in
      case f of
        Ready n a \<Rightarrow> if n \<le> left then Value (now + n) (Some a) else Value (now + left) None
      | Panics n \<Rightarrow> if n \<le> left then Unwinds (now + n) else Value (now + left) None
      | Never \<Rightarrow> Value (now + left) None)"

lemma timeout_at_catch_value: "\<exists>t v. timeout_at d now (catch_hook_panic f) = Value t v"
  by (cases f) (auto simp: timeout_at_def Let_def)

lemma timeout_at_Some:
  "timeout_at d now f = Value t (Some a) \<longleftrightarrow> (\<exists>n. f = Ready n a \<and> n \<le> d - now \<and> t = now + n)"
  by (cases f) (auto simp: timeout_at_def Let_def)

lemma timeout_at_time:
  "timeout_at d now f = Value t v \<Longrightarrow> now \<le> d \<Longrightarrow> now \<le> t \<and> t \<le> d"
  by (cases f) (auto simp: timeout_at_def Let_def split: if_splits)

lemma catch_Ready_Some [simp]: "catch_hook_panic f = Ready n (Some a) \<longleftrightarrow> f = Ready n a"
  by (cases f) auto

lemma and_then_ok_Inr:
  "and_then_ok f g = Ready n (Inr b) \<longleftrightarrow>
     (\<exists>k m a. f = Ready k (Inr a) \<and> g a = Ready m (Inr b) \<and> n = k + m)"
  by (cases f) (auto simp: and_then_ok_def and_then_def split: sum.splits future.splits)

section \<open>The budget\<close>

definition default_hook_budget :: nat where "default_hook_budget = 30"
definition max_hook_budget :: nat where "max_hook_budget = 300"

text \<open>
  \<open>u64::from_str\<close>: an optional plus sign, then at least one ASCII digit and nothing else; a
  value of 2\<open>^\<close>64 or more is an error.
\<close>

definition digits_value :: "string \<Rightarrow> nat" where
  "digits_value s = foldl (\<lambda>n c. 10 * n + (byte c - 48)) 0 s"

definition parse_u64 :: "string \<Rightarrow> nat option" where
  "parse_u64 s =
     (let ds = (case s of c # t \<Rightarrow> if c = CHR ''+'' then t else s | [] \<Rightarrow> s) in
      if ds \<noteq> [] \<and> list_all is_digit ds \<and> digits_value ds < 2 ^ 64
      then Some (digits_value ds) else None)"

definition parse_hook_budget :: "string option \<Rightarrow> nat" where
  "parse_hook_budget raw =
     min (case Option.bind raw (\<lambda>r. parse_u64 (trim r)) of
            None \<Rightarrow> default_hook_budget
          | Some secs \<Rightarrow> if 0 < secs then secs else default_hook_budget)
       max_hook_budget"

lemma parse_hook_budget_bounds: "0 < parse_hook_budget raw \<and> parse_hook_budget raw \<le> 300"
  by (auto simp: parse_hook_budget_def default_hook_budget_def max_hook_budget_def
      split: option.splits)

section \<open>The run loop\<close>

text \<open>
  A hook command and what its provider plugs in: the raw event read from stdin (a blocking
  task: a panic of it is a \<open>JoinError\<close>), the connection, and the handlers.
\<close>

definition read_event_within ::
  "nat \<Rightarrow> nat \<Rightarrow> nat \<Rightarrow> (hook_error + json) future \<Rightarrow> nat \<times> (hook_error + json)" where
  "read_event_within budget deadline now stdin =
     (case timeout_at deadline now (catch_hook_panic stdin) of
        Value t (Some (Some (Inr v))) \<Rightarrow> (t, Inr v)
      | Value t (Some (Some (Inl _))) \<Rightarrow>
          (t, Inl (HeMessage ''stdin could not be read or parsed as JSON''))
      | Value t (Some None) \<Rightarrow> (t, Inl HePanicked)
      | Value t None \<Rightarrow> (t, Inl (HeBudgetExceeded budget))
      | Unwinds t \<Rightarrow> (t, Inl HePanicked))"

text \<open>
  \<open>resolve_event\<close>: the response and the instant it is known at. A panic that unwound would be
  the value \<open>None\<close>.
\<close>

definition resolve_event ::
  "nat \<Rightarrow> 'c \<Rightarrow> json \<Rightarrow> nat \<Rightarrow> nat \<Rightarrow> ('c \<Rightarrow> hook_error \<Rightarrow> 'r) \<Rightarrow> (hook_error + 'h) future
     \<Rightarrow> ('h \<Rightarrow> 'c \<Rightarrow> json \<Rightarrow> (hook_error + 'r) future) \<Rightarrow> (nat \<times> 'r) option" where
  "resolve_event budget command raw_event deadline now degraded connect dispatch =
     (case timeout_at deadline now (catch_hook_panic
             (and_then_ok connect (\<lambda>handler. dispatch handler command raw_event))) of
        Value t (Some (Some (Inr response))) \<Rightarrow> Some (t, response)
      | Value t (Some (Some (Inl error))) \<Rightarrow> Some (t, degraded command error)
      | Value t (Some None) \<Rightarrow> Some (t, degraded command HePanicked)
      | Value t None \<Rightarrow> Some (t, degraded command (HeBudgetExceeded budget))
      | Unwinds t \<Rightarrow> None)"

text \<open>
  \<open>resolve_hook\<close>, started at instant 0 with the budget of \<open>SONDERA_HOOK_BUDGET_SECS\<close>
  (\<open>hook_budget\<close> reads the variable once).
\<close>

definition resolve_hook ::
  "string option \<Rightarrow> 'c \<Rightarrow> ('c \<Rightarrow> hook_error \<Rightarrow> 'r) \<Rightarrow> (hook_error + json) future
     \<Rightarrow> (hook_error + 'h) future \<Rightarrow> ('h \<Rightarrow> 'c \<Rightarrow> json \<Rightarrow> (hook_error + 'r) future)
     \<Rightarrow> (nat \<times> 'r) option" where
  "resolve_hook env command degraded stdin connect dispatch =
     (let budget = parse_hook_budget env in
      case read_event_within budget budget 0 stdin of
        (t, Inl error) \<Rightarrow> Some (t, degraded command error)
      | (t, Inr v) \<Rightarrow> resolve_event budget command v budget t degraded connect dispatch)"

lemma resolve_event_returns:
  "\<exists>t r. resolve_event b c v d now degraded connect dispatch = Some (t, r)"
proof -
  obtain t x where "timeout_at d now (catch_hook_panic
      (and_then_ok connect (\<lambda>h. dispatch h c v))) = Value t x"
    using timeout_at_catch_value by blast
  then show ?thesis
    by (auto simp: resolve_event_def split: option.splits sum.splits)
qed

text \<open>
  The two ways a response comes about: the handler's own, when everything before it succeeded
  within the budget, or the degraded response of some error.
\<close>

definition handled_within ::
  "nat \<Rightarrow> 'c \<Rightarrow> (hook_error + json) future \<Rightarrow> (hook_error + 'h) future
     \<Rightarrow> ('h \<Rightarrow> 'c \<Rightarrow> json \<Rightarrow> (hook_error + 'r) future) \<Rightarrow> 'r \<Rightarrow> bool" where
  "handled_within budget command stdin connect dispatch r \<longleftrightarrow>
     (\<exists>n v m h k. stdin = Ready n (Inr v) \<and> connect = Ready m (Inr h)
        \<and> dispatch h command v = Ready k (Inr r) \<and> n + m + k \<le> budget)"

lemma resolve_event_cases:
  assumes "resolve_event b c v d now degraded connect dispatch = Some (t, r)"
  shows "(\<exists>m h k. connect = Ready m (Inr h) \<and> dispatch h c v = Ready k (Inr r)
            \<and> m + k \<le> d - now) \<or> (\<exists>e. r = degraded c e)"
  using assms
  by (auto simp: resolve_event_def timeout_at_Some and_then_ok_Inr
      split: awaited.splits option.splits sum.splits)

lemma read_event_time:
  "read_event_within b d 0 stdin = (t, x) \<Longrightarrow> t \<le> d"
  using timeout_at_catch_value[of d 0 stdin]
  by (auto simp: read_event_within_def dest: timeout_at_time
      split: awaited.splits option.splits sum.splits)

lemma read_event_Inr:
  "read_event_within b d now stdin = (t, Inr v) \<Longrightarrow>
     \<exists>n. stdin = Ready n (Inr v) \<and> n \<le> d - now \<and> t = now + n"
  by (auto simp: read_event_within_def timeout_at_Some
      split: awaited.splits option.splits sum.splits)

lemma resolve_hook_returns:
  "\<exists>t r. resolve_hook env c degraded stdin connect dispatch = Some (t, r)"
proof (cases "read_event_within (parse_hook_budget env) (parse_hook_budget env) 0 stdin")
  case (Pair t x)
  then show ?thesis using resolve_event_returns
    by (cases x) (auto simp: resolve_hook_def Let_def)
qed

lemma resolve_hook_cases:
  assumes "resolve_hook env c degraded stdin connect dispatch = Some (t, r)"
  shows "handled_within (parse_hook_budget env) c stdin connect dispatch r
    \<or> (\<exists>e. r = degraded c e)"
proof -
  let ?b = "parse_hook_budget env"
  obtain t0 x where x: "read_event_within ?b ?b 0 stdin = (t0, x)" by fastforce
  show ?thesis
  proof (cases x)
    case (Inl e)
    then show ?thesis using assms x by (auto simp: resolve_hook_def Let_def)
  next
    case (Inr v)
    then obtain n where n: "stdin = Ready n (Inr v)" "n \<le> ?b" "t0 = n"
      using read_event_Inr[of ?b ?b 0 stdin t0 v] x by auto
    from assms x Inr have "resolve_event ?b c v ?b t0 degraded connect dispatch = Some (t, r)"
      by (simp add: resolve_hook_def Let_def)
    from resolve_event_cases[OF this] show ?thesis
      unfolding handled_within_def using n by fastforce
  qed
qed

lemma resolve_hook_in_time:
  assumes "resolve_hook env c degraded stdin connect dispatch = Some (t, r)"
  shows "t \<le> parse_hook_budget env"
proof -
  let ?b = "parse_hook_budget env"
  obtain t0 x where x: "read_event_within ?b ?b 0 stdin = (t0, x)" by fastforce
  then have t0: "t0 \<le> ?b" by (rule read_event_time)
  show ?thesis
  proof (cases x)
    case (Inl e)
    then show ?thesis using assms x t0 by (auto simp: resolve_hook_def Let_def)
  next
    case (Inr v)
    then show ?thesis using assms x t0
      by (auto simp: resolve_hook_def Let_def resolve_event_def dest: timeout_at_time
          split: awaited.splits option.splits sum.splits)
  qed
qed

text \<open>A response the handler gives within the budget is the one printed, and when.\<close>

lemma resolve_hook_handled:
  assumes "stdin = Ready n (Inr v)" "connect = Ready m (Inr h)" "dispatch h c v = Ready k (Inr r)"
    "n + m + k \<le> parse_hook_budget env"
  shows "resolve_hook env c degraded stdin connect dispatch = Some (n + m + k, r)"
proof -
  let ?b = "parse_hook_budget env"
  have "read_event_within ?b ?b 0 stdin = (n, Inr v)"
    using assms(1,4) by (simp add: read_event_within_def timeout_at_def)
  moreover have "m + k \<le> ?b - n" using assms(4) by simp
  then have "resolve_event ?b c v ?b n degraded connect dispatch = Some (n + m + k, r)"
    using assms(2,3)
    by (simp add: resolve_event_def and_then_ok_def and_then_def timeout_at_def Let_def)
  ultimately show ?thesis by (simp add: resolve_hook_def Let_def)
qed

section \<open>The fail-closed contract\<close>

text \<open>
  What a provider owes the run loop: its degraded response denies on every enforcement command,
  whatever the failure. \<open>is_adjudication\<close> is the \<open>HookEvent\<close> trait.
\<close>

locale fail_closed =
  fixes is_adjudication :: "'c \<Rightarrow> bool"
    and degraded :: "'c \<Rightarrow> hook_error \<Rightarrow> 'r"
    and is_deny :: "'r \<Rightarrow> bool"
  assumes closes: "is_adjudication c \<Longrightarrow> is_deny (degraded c e)"
begin

lemma not_denied_is_handled:
  assumes "is_adjudication c" "\<not> is_deny r"
    "resolve_hook env c degraded stdin connect dispatch = Some (t, r)"
  shows "handled_within (parse_hook_budget env) c stdin connect dispatch r"
  using resolve_hook_cases[OF assms(3)] closes[OF assms(1)] assms(2) by blast

lemma unreadable_denies:
  assumes "is_adjudication c" "\<And>n v. stdin \<noteq> Ready n (Inr v)"
    "resolve_hook env c degraded stdin connect dispatch = Some (t, r)"
  shows "is_deny r"
  using not_denied_is_handled[OF assms(1) _ assms(3)] assms(2)
  unfolding handled_within_def by blast

end

text \<open>
  \<open>assert_fail_closed_matrix\<close>, the check each provider runs over its commands: enforcement
  commands deny and the others do not, for one value of every variant.
\<close>

definition fail_closed_matrix ::
  "string \<Rightarrow> string \<Rightarrow> 'c list \<Rightarrow> ('c \<Rightarrow> bool) \<Rightarrow> ('c \<Rightarrow> hook_error \<Rightarrow> 'r) \<Rightarrow> ('r \<Rightarrow> bool) \<Rightarrow> bool"
  where
  "fail_closed_matrix io_text json_text commands is_adjudication degraded is_deny =
     list_all (\<lambda>c. list_all (\<lambda>e. is_deny (degraded c e) = is_adjudication c)
         (every_variant io_text json_text)) commands"

text \<open>The stronger contract: the other commands degrade open.\<close>

locale fail_closed_exactly = fail_closed +
  assumes opens: "\<not> is_adjudication c \<Longrightarrow> \<not> is_deny (degraded c e)"
begin

text \<open>Without a handler's response, a hook denies exactly on the enforcement commands.\<close>

lemma unhandled:
  assumes "resolve_hook env c degraded stdin connect dispatch = Some (t, r)"
    "\<not> handled_within (parse_hook_budget env) c stdin connect dispatch r"
  shows "is_deny r \<longleftrightarrow> is_adjudication c"
  using resolve_hook_cases[OF assms(1)] assms(2) closes opens by blast

lemma matrix: "fail_closed_matrix io js commands is_adjudication degraded is_deny"
  using closes opens by (auto simp: fail_closed_matrix_def list_all_iff)

end

end
