(* ===== verification/Wire_Enum.thy ===== *)
theory Wire_Enum
  imports Wire_Value Hook_Core
begin

text \<open>
  How the wire rejects (\<open>crates/schema/src/decode.rs\<close>), and the enums of the trajectory model
  as the wire numbers them (\<open>crates/schema/src/trajectory.rs\<close>). One contract covers them all: a
  number stands for at most one value, and none of them is zero, which the wire keeps for
  "unspecified".
\<close>

section \<open>Rejections\<close>

definition unnormalized_event_marker :: string where
  "unnormalized_event_marker = ''E_UNNORMALIZED_TRAJECTORY_EVENT''"

definition decode_error :: "string \<Rightarrow> string" where
  "decode_error reason = unnormalized_event_marker @ '': '' @ reason"

definition quoted :: "string \<Rightarrow> string" where "quoted s = [CHR 0x27] @ s @ [CHR 0x27]"

definition missing :: "string \<Rightarrow> string" where
  "missing field = decode_error (''missing required field '' @ quoted field @ ''.'')"

definition require :: "'a option \<Rightarrow> string \<Rightarrow> string + 'a" where
  "require v field = ok_or v (missing field)"

definition unrecognized_enum :: "string \<Rightarrow> string" where
  "unrecognized_enum field =
     decode_error (''field '' @ quoted field @ '' is unset or carries an unrecognized enum value.'')"

named_theorems wire_simps \<open>round trips of the wire conversions\<close>

lemma require_Some [simp, wire_simps]: "require (Some a) field = Inr a"
  by (simp add: require_def)

lemma require_Inr_iff [simp]: "require v field = Inr a \<longleftrightarrow> v = Some a"
  by (cases v) (simp_all add: require_def)

text \<open>A rejection of an event carries the marker.\<close>

definition well_marked :: "string + 'a \<Rightarrow> bool" where
  "well_marked r \<longleftrightarrow> (case r of Inl e \<Rightarrow> prefix unnormalized_event_marker e | Inr _ \<Rightarrow> True)"

named_theorems marked_intros \<open>decoders whose rejections carry the marker\<close>

lemma well_marked_Inr [simp, marked_intros]: "well_marked (Inr a)"
  by (simp add: well_marked_def)

lemma well_marked_decode_error [marked_intros]: "well_marked (Inl (decode_error r))"
  by (simp add: well_marked_def decode_error_def)

lemma well_marked_require [marked_intros]: "well_marked (require v field)"
  by (cases v) (simp_all add: require_def missing_def well_marked_def decode_error_def)

lemma well_marked_bind [marked_intros]:
  "well_marked r \<Longrightarrow> (\<And>a. well_marked (f a)) \<Longrightarrow> well_marked (bind_result r f)"
  by (cases r) (simp_all add: well_marked_def)

text \<open>\<open>decode_all\<close>: every element, or the first rejection.\<close>

fun decode_all :: "('p \<Rightarrow> 'e + 'd) \<Rightarrow> 'p list \<Rightarrow> 'e + 'd list" where
  "decode_all f [] = Inr []"
| "decode_all f (p # ps) =
     bind_result (f p) (\<lambda>d. bind_result (decode_all f ps) (\<lambda>ds. Inr (d # ds)))"

lemma decode_all_map: "(\<And>d. d \<in> set ds \<Longrightarrow> dec (enc d) = Inr d) \<Longrightarrow> decode_all dec (map enc ds) = Inr ds"
  by (induction ds) auto

lemma well_marked_decode_all [marked_intros]: "(\<And>p. well_marked (f p)) \<Longrightarrow> well_marked (decode_all f ps)"
  by (induction ps) (auto intro: marked_intros)

section \<open>Enums\<close>

text \<open>
  \<open>decode_enum\<close>: the value whose number arrived. Zero and a number this build does not know are
  rejected alike.
\<close>

definition decode_enum :: "('d \<Rightarrow> i32) \<Rightarrow> 'd list \<Rightarrow> i32 \<Rightarrow> string \<Rightarrow> string + 'd" where
  "decode_enum encode every raw field =
     ok_or (find (\<lambda>d. encode d = raw) every) (unrecognized_enum field)"

lemma well_marked_decode_enum [marked_intros]: "well_marked (decode_enum encode every raw field)"
  by (cases "find (\<lambda>d. encode d = raw) every")
    (simp_all add: decode_enum_def unrecognized_enum_def well_marked_decode_error)

locale proto_enum =
  fixes encode :: "'d \<Rightarrow> i32" and every :: "'d list"
  assumes every: "d \<in> set every"
    and numbered: "encode d = encode d' \<Longrightarrow> d = d'"
    and nonzero: "encode d \<noteq> 0"
begin

lemma round_trip: "decode_enum encode every (encode d) field = Inr d"
proof -
  obtain d' where "find (\<lambda>x. encode x = encode d) every = Some d'"
    using every[of d] by (cases "find (\<lambda>x. encode x = encode d) every") (auto simp: find_None_iff)
  moreover from this have "d' = d" by (auto simp: find_Some_iff intro: numbered)
  ultimately show ?thesis by (simp add: decode_enum_def)
qed

lemma decoded_iff: "decode_enum encode every raw field = Inr d \<longleftrightarrow> raw = encode d"
proof
  assume "decode_enum encode every raw field = Inr d"
  then have "find (\<lambda>d. encode d = raw) every = Some d"
    by (simp add: decode_enum_def ok_or_def split: option.splits)
  then show "raw = encode d" by (auto simp: find_Some_iff)
qed (simp add: round_trip)

lemma unspecified: "decode_enum encode every 0 field = Inl (unrecognized_enum field)"
proof (cases "decode_enum encode every 0 field")
  case (Inl e)
  then show ?thesis by (auto simp: decode_enum_def ok_or_def split: option.splits)
next
  case (Inr d)
  then show ?thesis using decoded_iff nonzero by metis
qed

end

fun encode_actor_type :: "actor_type \<Rightarrow> i32" where
  "encode_actor_type AtHuman = 1"
| "encode_actor_type AtAgent = 2"
| "encode_actor_type AtSystem = 3"
| "encode_actor_type AtPolicy = 4"

definition every_actor_type :: "actor_type list" where
  "every_actor_type =
     [AtHuman, AtAgent, AtSystem, AtPolicy]"

interpretation actor_type_enum: proto_enum encode_actor_type every_actor_type
proof
  fix d d' :: actor_type
  show "d \<in> set every_actor_type" by (cases d) (simp_all add: every_actor_type_def)
  show "encode_actor_type d \<noteq> 0" by (cases d) simp_all
  show "encode_actor_type d = encode_actor_type d' \<Longrightarrow> d = d'" by (cases d; cases d') simp_all
qed

fun encode_file_op :: "file_op_type \<Rightarrow> i32" where
  "encode_file_op OpRead = 1"
| "encode_file_op OpWrite = 2"
| "encode_file_op OpEdit = 3"
| "encode_file_op OpDelete = 4"

definition every_file_op :: "file_op_type list" where
  "every_file_op =
     [OpRead, OpWrite, OpEdit, OpDelete]"

interpretation file_op_enum: proto_enum encode_file_op every_file_op
proof
  fix d d' :: file_op_type
  show "d \<in> set every_file_op" by (cases d) (simp_all add: every_file_op_def)
  show "encode_file_op d \<noteq> 0" by (cases d) simp_all
  show "encode_file_op d = encode_file_op d' \<Longrightarrow> d = d'" by (cases d; cases d') simp_all
qed

fun encode_prompt_role :: "prompt_role \<Rightarrow> i32" where
  "encode_prompt_role RoleUser = 1"
| "encode_prompt_role RoleSystem = 2"
| "encode_prompt_role RoleAssistant = 3"

definition every_prompt_role :: "prompt_role list" where
  "every_prompt_role =
     [RoleUser, RoleSystem, RoleAssistant]"

interpretation prompt_role_enum: proto_enum encode_prompt_role every_prompt_role
proof
  fix d d' :: prompt_role
  show "d \<in> set every_prompt_role" by (cases d) (simp_all add: every_prompt_role_def)
  show "encode_prompt_role d \<noteq> 0" by (cases d) simp_all
  show "encode_prompt_role d = encode_prompt_role d' \<Longrightarrow> d = d'" by (cases d; cases d') simp_all
qed

fun encode_decision :: "decision \<Rightarrow> i32" where
  "encode_decision Allow = 1"
| "encode_decision Deny = 2"
| "encode_decision Escalate = 3"

definition every_decision :: "decision list" where
  "every_decision =
     [Allow, Deny, Escalate]"

interpretation decision_enum: proto_enum encode_decision every_decision
proof
  fix d d' :: decision
  show "d \<in> set every_decision" by (cases d) (simp_all add: every_decision_def)
  show "encode_decision d \<noteq> 0" by (cases d) simp_all
  show "encode_decision d = encode_decision d' \<Longrightarrow> d = d'" by (cases d; cases d') simp_all
qed

fun encode_mode :: "mode \<Rightarrow> i32" where
  "encode_mode Monitor = 1"
| "encode_mode Govern = 2"
| "encode_mode Steer = 3"

definition every_mode :: "mode list" where
  "every_mode =
     [Monitor, Govern, Steer]"

interpretation mode_enum: proto_enum encode_mode every_mode
proof
  fix d d' :: mode
  show "d \<in> set every_mode" by (cases d) (simp_all add: every_mode_def)
  show "encode_mode d \<noteq> 0" by (cases d) simp_all
  show "encode_mode d = encode_mode d' \<Longrightarrow> d = d'" by (cases d; cases d') simp_all
qed

fun encode_focus :: "signal_focus \<Rightarrow> i32" where
  "encode_focus Environment = 1"
| "encode_focus AgentFocus = 2"
| "encode_focus Governance = 3"

definition every_focus :: "signal_focus list" where
  "every_focus =
     [Environment, AgentFocus, Governance]"

interpretation focus_enum: proto_enum encode_focus every_focus
proof
  fix d d' :: signal_focus
  show "d \<in> set every_focus" by (cases d) (simp_all add: every_focus_def)
  show "encode_focus d \<noteq> 0" by (cases d) simp_all
  show "encode_focus d = encode_focus d' \<Longrightarrow> d = d'" by (cases d; cases d') simp_all
qed

fun encode_severity :: "signal_severity \<Rightarrow> i32" where
  "encode_severity SsInfo = 1"
| "encode_severity SsLow = 2"
| "encode_severity SsMedium = 3"
| "encode_severity SsHigh = 4"
| "encode_severity SsCritical = 5"

definition every_severity :: "signal_severity list" where
  "every_severity =
     [SsInfo, SsLow, SsMedium, SsHigh, SsCritical]"

interpretation severity_enum: proto_enum encode_severity every_severity
proof
  fix d d' :: signal_severity
  show "d \<in> set every_severity" by (cases d) (simp_all add: every_severity_def)
  show "encode_severity d \<noteq> 0" by (cases d) simp_all
  show "encode_severity d = encode_severity d' \<Longrightarrow> d = d'" by (cases d; cases d') simp_all
qed

fun encode_category :: "signal_category \<Rightarrow> i32" where
  "encode_category InputIssues = 1"
| "encode_category InfrastructureFailure = 2"
| "encode_category TaskDesign = 3"
| "encode_category StaticKnowledge = 4"
| "encode_category LowLevelIncoherence = 5"
| "encode_category HighLevelIncoherence = 6"
| "encode_category SelfCorrection = 7"
| "encode_category RefusalBehaviour = 8"
| "encode_category ToolMisuse = 9"
| "encode_category EvaluationAwareness = 10"
| "encode_category PolicyViolation = 11"
| "encode_category PrivilegeEscalation = 12"
| "encode_category DataExfiltration = 13"
| "encode_category DestructiveOperation = 14"
| "encode_category CredentialExposure = 15"

definition every_category :: "signal_category list" where
  "every_category =
     [InputIssues, InfrastructureFailure, TaskDesign, StaticKnowledge, LowLevelIncoherence,
      HighLevelIncoherence, SelfCorrection, RefusalBehaviour, ToolMisuse, EvaluationAwareness,
      PolicyViolation, PrivilegeEscalation, DataExfiltration, DestructiveOperation,
      CredentialExposure]"

interpretation category_enum: proto_enum encode_category every_category
proof
  fix d d' :: signal_category
  show "d \<in> set every_category" by (cases d) (simp_all add: every_category_def)
  show "encode_category d \<noteq> 0" by (cases d) simp_all
  show "encode_category d = encode_category d' \<Longrightarrow> d = d'" by (cases d; cases d') simp_all
qed

fun encode_message_type :: "message_type \<Rightarrow> i32" where
  "encode_message_type MtToolCall = 1"
| "encode_message_type MtToolResult = 2"
| "encode_message_type MtUserInput = 3"
| "encode_message_type MtReasoning = 4"
| "encode_message_type MtLifecycle = 5"
| "encode_message_type MtAdjudication = 6"
| "encode_message_type MtStateCapture = 7"

definition every_message_type :: "message_type list" where
  "every_message_type =
     [MtToolCall, MtToolResult, MtUserInput, MtReasoning, MtLifecycle, MtAdjudication,
      MtStateCapture]"

interpretation message_type_enum: proto_enum encode_message_type every_message_type
proof
  fix d d' :: message_type
  show "d \<in> set every_message_type" by (cases d) (simp_all add: every_message_type_def)
  show "encode_message_type d \<noteq> 0" by (cases d) simp_all
  show "encode_message_type d = encode_message_type d' \<Longrightarrow> d = d'" by (cases d; cases d') simp_all
qed

fun encode_intent :: "agent_intent \<Rightarrow> i32" where
  "encode_intent Investigate = 1"
| "encode_intent Plan = 2"
| "encode_intent Implement = 3"
| "encode_intent Verify = 4"
| "encode_intent Debug = 5"
| "encode_intent Communicate = 6"
| "encode_intent AiLifecycle = 7"
| "encode_intent GovernIntent = 8"

definition every_intent :: "agent_intent list" where
  "every_intent =
     [Investigate, Plan, Implement, Verify, Debug, Communicate, AiLifecycle, GovernIntent]"

interpretation intent_enum: proto_enum encode_intent every_intent
proof
  fix d d' :: agent_intent
  show "d \<in> set every_intent" by (cases d) (simp_all add: every_intent_def)
  show "encode_intent d \<noteq> 0" by (cases d) simp_all
  show "encode_intent d = encode_intent d' \<Longrightarrow> d = d'" by (cases d; cases d') simp_all
qed

fun encode_outcome :: "transcript_outcome \<Rightarrow> i32" where
  "encode_outcome Success = 1"
| "encode_outcome Partial = 2"
| "encode_outcome Failure = 3"
| "encode_outcome Interrupted = 4"
| "encode_outcome InProgress = 5"

definition every_outcome :: "transcript_outcome list" where
  "every_outcome =
     [Success, Partial, Failure, Interrupted, InProgress]"

interpretation outcome_enum: proto_enum encode_outcome every_outcome
proof
  fix d d' :: transcript_outcome
  show "d \<in> set every_outcome" by (cases d) (simp_all add: every_outcome_def)
  show "encode_outcome d \<noteq> 0" by (cases d) simp_all
  show "encode_outcome d = encode_outcome d' \<Longrightarrow> d = d'" by (cases d; cases d') simp_all
qed

lemmas enum_round_trips [wire_simps] =
  actor_type_enum.round_trip file_op_enum.round_trip prompt_role_enum.round_trip
  decision_enum.round_trip mode_enum.round_trip focus_enum.round_trip
  severity_enum.round_trip category_enum.round_trip message_type_enum.round_trip
  intent_enum.round_trip outcome_enum.round_trip

end
