(* ===== verification/Wire.thy ===== *)
theory Wire
  imports Wire_Enum
begin

text \<open>
  The wire schema: every message of the trajectory model and of the event envelope, with the
  conversions in both directions (\<open>crates/schema/src/trajectory.rs\<close>, \<open>event.rs\<close>; the messages
  are those of \<open>crates/schema/proto/sondera/harness/v1\<close>).

  Each pair is named \<open>pb_of_x\<close> and \<open>x_of_pb\<close>; a decoder that can reject returns
  a sum. A message whose only field is a \<open>oneof\<close> is the kind that is set, or none.
\<close>

section \<open>Indices\<close>

text \<open>An index saturates at the largest \<open>int32\<close>; a negative one reads as zero.\<close>

definition u32_to_i32 :: "32 word \<Rightarrow> i32" where
  "u32_to_i32 v = (if unat v < 2 ^ 31 then v else 2 ^ 31 - 1)"

definition i32_to_u32 :: "i32 \<Rightarrow> 32 word" where
  "i32_to_u32 v = (if sint v < 0 then 0 else v)"

definition encode_indices :: "32 word list \<Rightarrow> i32 list" where "encode_indices = map u32_to_i32"
definition decode_indices :: "i32 list \<Rightarrow> 32 word list" where "decode_indices = map i32_to_u32"

lemma sint_small:
  assumes "unat (v :: 32 word) < 2 ^ 31" shows "0 \<le> sint v"
proof -
  have "int (unat v) < int (2 ^ 31)" using assms by (simp only: of_nat_less_iff)
  then have "uint v < 2 ^ 31" by simp
  moreover have "- (2 ^ 31) \<le> uint v" using uint_ge_0[of v] by (rule order_trans[rotated]) simp
  ultimately have "sint v = uint v" by (simp add: sint_uint signed_take_bit_int_eq_self)
  then show ?thesis by simp
qed

lemma index_saturates:
  "i32_to_u32 (u32_to_i32 v) = (if unat v < 2 ^ 31 then v else 2 ^ 31 - 1)"
  by (cases "unat v < 2 ^ 31") (simp_all add: u32_to_i32_def i32_to_u32_def leD[OF sint_small])

lemma index_round_trip [simp, wire_simps]: "unat v < 2 ^ 31 \<Longrightarrow> i32_to_u32 (u32_to_i32 v) = v"
  by (simp add: index_saturates)

definition small :: "32 word \<Rightarrow> bool" where "small v \<longleftrightarrow> unat v < 2 ^ 31"

lemma indices_round_trip:
  "list_all small vs \<Longrightarrow> decode_indices (encode_indices vs) = vs"
  by (induction vs) (auto simp: encode_indices_def decode_indices_def small_def)

lemma wire_map_id:
  "(\<And>v. dec (enc v) = v) \<Longrightarrow> map (dec \<circ> enc) vs = vs"
  "(\<And>v. dec (enc v) = v) \<Longrightarrow> map_option dec (map_option enc ov) = ov"
  by (simp_all add: o_def option.map_comp option.map_ident)

section \<open>Attribution\<close>

record pb_agent =
  pa_id :: string
  pa_provider :: string
  pa_platform :: string

definition pb_of_agent :: "agent \<Rightarrow> pb_agent" where
  "pb_of_agent v =
     \<lparr>pa_id = ag_id v, pa_provider = ag_provider v, pa_platform = ag_platform v\<rparr>"

definition agent_of_pb :: "pb_agent \<Rightarrow> agent" where
  "agent_of_pb p =
     \<lparr>ag_id = pa_id p, ag_provider = pa_provider p, ag_platform = pa_platform p\<rparr>"

lemma agent_wire [simp, wire_simps]: "agent_of_pb (pb_of_agent v) = v"
  by (cases v) (simp add: agent_of_pb_def pb_of_agent_def wire_simps)

record pb_actor =
  pac_id :: string
  pac_actor_type :: i32

definition pb_of_actor :: "actor \<Rightarrow> pb_actor" where
  "pb_of_actor v = \<lparr>pac_id = ac_id v, pac_actor_type = encode_actor_type (ac_type v)\<rparr>"

definition actor_of_pb :: "pb_actor \<Rightarrow> string + actor" where
  "actor_of_pb p =
     bind_result (decode_enum encode_actor_type every_actor_type (pac_actor_type p) ''actor_type'')
       (\<lambda>t. Inr \<lparr>ac_id = pac_id p, ac_type = t\<rparr>)"

lemma actor_wire [simp, wire_simps]: "actor_of_pb (pb_of_actor v) = Inr v"
  by (cases v) (simp add: actor_of_pb_def pb_of_actor_def wire_simps)

lemma actor_marked [marked_intros]: "well_marked (actor_of_pb p)"
  unfolding actor_of_pb_def by (intro marked_intros)

record pb_causality =
  pcs_correlation_id :: string
  pcs_causation_id :: "string option"
  pcs_parent_id :: "string option"

definition pb_of_causality :: "causality \<Rightarrow> pb_causality" where
  "pb_of_causality v =
     \<lparr>pcs_correlation_id = cs_correlation_id v, pcs_causation_id = cs_causation_id v,
      pcs_parent_id = cs_parent_id v\<rparr>"

definition causality_of_pb :: "pb_causality \<Rightarrow> causality" where
  "causality_of_pb p =
     \<lparr>cs_correlation_id = pcs_correlation_id p, cs_causation_id = pcs_causation_id p,
      cs_parent_id = pcs_parent_id p\<rparr>"

lemma causality_wire [simp, wire_simps]: "causality_of_pb (pb_of_causality v) = v"
  by (cases v) (simp add: causality_of_pb_def pb_of_causality_def wire_simps)

section \<open>Actions\<close>

text \<open>The arguments travel as a \<open>Struct\<close>: a value that is no object is not sent.\<close>

record pb_tool_call =
  ptc_call_id :: string
  ptc_tool :: string
  ptc_arguments :: "(string \<times> pb_value) list option"

definition pb_of_tool_call :: "wire_env \<Rightarrow> tool_call \<Rightarrow> pb_tool_call" where
  "pb_of_tool_call W v =
     \<lparr>ptc_call_id = tc_call_id v, ptc_tool = tc_tool v,
      ptc_arguments = json_value_to_proto_struct W (tc_arguments v)\<rparr>"

definition tool_call_of_pb :: "wire_env \<Rightarrow> pb_tool_call \<Rightarrow> tool_call" where
  "tool_call_of_pb W p =
     \<lparr>tc_call_id = ptc_call_id p, tc_tool = ptc_tool p,
      tc_arguments = (case ptc_arguments p of None \<Rightarrow> JNull
        | Some fs \<Rightarrow> proto_struct_to_json_value W fs)\<rparr>"

text \<open>What a call's arguments are on the other side.\<close>

definition wire_arguments :: "json \<Rightarrow> json" where
  "wire_arguments v = (case v of JObj _ \<Rightarrow> sort_keys v | _ \<Rightarrow> JNull)"

lemma tool_call_wire [wire_simps]:
  assumes "wire_exact W (tc_arguments v)"
  shows "tool_call_of_pb W (pb_of_tool_call W v) = v\<lparr>tc_arguments := wire_arguments (tc_arguments v)\<rparr>"
proof (cases "tc_arguments v")
  case (JObj kvs)
  then show ?thesis using proto_struct_round_trip[of W kvs] assms
    by (cases v) (simp add: tool_call_of_pb_def pb_of_tool_call_def wire_arguments_def)
qed (simp_all add: tool_call_of_pb_def pb_of_tool_call_def wire_arguments_def)

record pb_shell_command =
  psh_call_id :: string
  psh_command :: string
  psh_working_dir :: "string option"

definition pb_of_shell_command :: "shell_command \<Rightarrow> pb_shell_command" where
  "pb_of_shell_command v =
     \<lparr>psh_call_id = shc_call_id v, psh_command = shc_command v,
      psh_working_dir = shc_working_dir v\<rparr>"

definition shell_command_of_pb :: "pb_shell_command \<Rightarrow> shell_command" where
  "shell_command_of_pb p =
     \<lparr>shc_call_id = psh_call_id p, shc_command = psh_command p,
      shc_working_dir = psh_working_dir p\<rparr>"

lemma shell_command_wire [simp, wire_simps]: "shell_command_of_pb (pb_of_shell_command v) = v"
  by (cases v) (simp add: shell_command_of_pb_def pb_of_shell_command_def wire_simps)

record pb_web_fetch =
  pwf_call_id :: string
  pwf_url :: string
  pwf_prompt :: string

definition pb_of_web_fetch :: "web_fetch \<Rightarrow> pb_web_fetch" where
  "pb_of_web_fetch v =
     \<lparr>pwf_call_id = wf_call_id v, pwf_url = wf_url v, pwf_prompt = wf_prompt v\<rparr>"

definition web_fetch_of_pb :: "pb_web_fetch \<Rightarrow> web_fetch" where
  "web_fetch_of_pb p =
     \<lparr>wf_call_id = pwf_call_id p, wf_url = pwf_url p, wf_prompt = pwf_prompt p\<rparr>"

lemma web_fetch_wire [simp, wire_simps]: "web_fetch_of_pb (pb_of_web_fetch v) = v"
  by (cases v) (simp add: web_fetch_of_pb_def pb_of_web_fetch_def wire_simps)

record pb_file_operation =
  pfo_call_id :: string
  pfo_operation :: i32
  pfo_path :: string
  pfo_content :: "string option"
  pfo_old_content :: "string option"

definition pb_of_file_operation :: "file_operation \<Rightarrow> pb_file_operation" where
  "pb_of_file_operation v =
     \<lparr>pfo_call_id = fo_call_id v, pfo_operation = encode_file_op (fo_operation v),
      pfo_path = fo_path v, pfo_content = fo_content v, pfo_old_content = fo_old_content v\<rparr>"

definition file_operation_of_pb :: "pb_file_operation \<Rightarrow> string + file_operation" where
  "file_operation_of_pb p =
     bind_result (decode_enum encode_file_op every_file_op (pfo_operation p) ''operation'') (\<lambda>operation.
     Inr \<lparr>fo_call_id = pfo_call_id p, fo_operation = operation, fo_path = pfo_path p,
      fo_content = pfo_content p, fo_old_content = pfo_old_content p\<rparr>)"

lemma file_operation_wire [simp, wire_simps]: "file_operation_of_pb (pb_of_file_operation v) = Inr v"
  by (cases v) (simp add: file_operation_of_pb_def pb_of_file_operation_def wire_simps decode_all_map wire_map_id)

lemma file_operation_marked [marked_intros]: "well_marked (file_operation_of_pb p)"
  unfolding file_operation_of_pb_def by (intro marked_intros)

datatype pb_action_kind =
    PaToolCall pb_tool_call
  | PaShellCommand pb_shell_command
  | PaWebFetch pb_web_fetch
  | PaFileOperation pb_file_operation

type_synonym pb_action = "pb_action_kind option"

definition pb_of_action :: "wire_env \<Rightarrow> action \<Rightarrow> pb_action" where
  "pb_of_action W a = Some (case a of
        ToolCall v \<Rightarrow> PaToolCall (pb_of_tool_call W v)
      | ShellCommand v \<Rightarrow> PaShellCommand (pb_of_shell_command v)
      | WebFetch v \<Rightarrow> PaWebFetch (pb_of_web_fetch v)
      | FileOperation v \<Rightarrow> PaFileOperation (pb_of_file_operation v))"

definition action_of_pb :: "wire_env \<Rightarrow> pb_action \<Rightarrow> string + action" where
  "action_of_pb W p = bind_result (require p ''action'') (\<lambda>kind. case kind of
        PaToolCall v \<Rightarrow> Inr (ToolCall (tool_call_of_pb W v))
      | PaShellCommand v \<Rightarrow> Inr (ShellCommand (shell_command_of_pb v))
      | PaWebFetch v \<Rightarrow> Inr (WebFetch (web_fetch_of_pb v))
      | PaFileOperation v \<Rightarrow> bind_result (file_operation_of_pb v) (\<lambda>d. Inr (FileOperation d)))"

lemma action_marked [marked_intros]: "well_marked (action_of_pb W p)"
  unfolding action_of_pb_def
  by (intro well_marked_bind well_marked_require) (auto split: pb_action_kind.splits intro: marked_intros)

section \<open>Observations\<close>

record pb_prompt =
  ppr_content :: string
  ppr_role :: i32

definition pb_of_prompt :: "prompt \<Rightarrow> pb_prompt" where
  "pb_of_prompt v =
     \<lparr>ppr_content = pr_content v, ppr_role = encode_prompt_role (pr_role v)\<rparr>"

definition prompt_of_pb :: "pb_prompt \<Rightarrow> string + prompt" where
  "prompt_of_pb p =
     bind_result (decode_enum encode_prompt_role every_prompt_role (ppr_role p) ''role'') (\<lambda>role.
     Inr \<lparr>pr_content = ppr_content p, pr_role = role\<rparr>)"

lemma prompt_wire [simp, wire_simps]: "prompt_of_pb (pb_of_prompt v) = Inr v"
  by (cases v) (simp add: prompt_of_pb_def pb_of_prompt_def wire_simps decode_all_map wire_map_id)

lemma prompt_marked [marked_intros]: "well_marked (prompt_of_pb p)"
  unfolding prompt_of_pb_def by (intro marked_intros)

record pb_thought =
  pth_thought :: string

definition pb_of_thought :: "string \<Rightarrow> pb_thought" where "pb_of_thought v = \<lparr>pth_thought = v\<rparr>"
definition thought_of_pb :: "pb_thought \<Rightarrow> string" where "thought_of_pb p = pth_thought p"

lemma thought_wire [simp, wire_simps]: "thought_of_pb (pb_of_thought v) = v"
  by (simp add: thought_of_pb_def pb_of_thought_def)

record pb_tool_output =
  pto_call_id :: string
  pto_success :: bool
  pto_output :: "pb_value option"
  pto_error :: "string option"

definition pb_of_tool_output :: "wire_env \<Rightarrow> tool_output \<Rightarrow> pb_tool_output" where
  "pb_of_tool_output W v =
     \<lparr>pto_call_id = to_call_id v, pto_success = to_success v,
      pto_output = Some (json_to_proto_value W (to_output v)), pto_error = to_error v\<rparr>"

definition tool_output_of_pb :: "wire_env \<Rightarrow> pb_tool_output \<Rightarrow> tool_output" where
  "tool_output_of_pb W p =
     \<lparr>to_call_id = pto_call_id p, to_success = pto_success p,
      to_output = (case pto_output p of None \<Rightarrow> JNull | Some v \<Rightarrow> proto_value_to_json W v),
      to_error = pto_error p\<rparr>"

lemma tool_output_wire [wire_simps]:
  "wire_exact W (to_output v) \<Longrightarrow>
     tool_output_of_pb W (pb_of_tool_output W v) = v\<lparr>to_output := sort_keys (to_output v)\<rparr>"
  by (cases v) (simp add: tool_output_of_pb_def pb_of_tool_output_def proto_value_round_trip)

record pb_shell_command_output =
  psc_call_id :: string
  psc_exit_code :: i32
  psc_stdout :: string
  psc_stderr :: string

definition pb_of_shell_command_output :: "shell_command_output \<Rightarrow> pb_shell_command_output" where
  "pb_of_shell_command_output v =
     \<lparr>psc_call_id = sco_call_id v, psc_exit_code = sco_exit_code v,
      psc_stdout = sco_stdout v, psc_stderr = sco_stderr v\<rparr>"

definition shell_command_output_of_pb :: "pb_shell_command_output \<Rightarrow> shell_command_output" where
  "shell_command_output_of_pb p =
     \<lparr>sco_call_id = psc_call_id p, sco_exit_code = psc_exit_code p,
      sco_stdout = psc_stdout p, sco_stderr = psc_stderr p\<rparr>"

lemma shell_command_output_wire [simp, wire_simps]: "shell_command_output_of_pb (pb_of_shell_command_output v) = v"
  by (cases v) (simp add: shell_command_output_of_pb_def pb_of_shell_command_output_def wire_simps)

record pb_web_fetch_output =
  pwo_call_id :: string
  pwo_url :: string
  pwo_code :: i32
  pwo_result :: string

definition pb_of_web_fetch_output :: "web_fetch_output \<Rightarrow> pb_web_fetch_output" where
  "pb_of_web_fetch_output v =
     \<lparr>pwo_call_id = wfo_call_id v, pwo_url = wfo_url v, pwo_code = wfo_code v,
      pwo_result = wfo_result v\<rparr>"

definition web_fetch_output_of_pb :: "pb_web_fetch_output \<Rightarrow> web_fetch_output" where
  "web_fetch_output_of_pb p =
     \<lparr>wfo_call_id = pwo_call_id p, wfo_url = pwo_url p, wfo_code = pwo_code p,
      wfo_result = pwo_result p\<rparr>"

lemma web_fetch_output_wire [simp, wire_simps]: "web_fetch_output_of_pb (pb_of_web_fetch_output v) = v"
  by (cases v) (simp add: web_fetch_output_of_pb_def pb_of_web_fetch_output_def wire_simps)

record pb_file_operation_result =
  pfr_call_id :: string
  pfr_success :: bool
  pfr_content :: "string option"
  pfr_error :: "string option"
  pfr_path :: "string option"

definition pb_of_file_operation_result :: "file_operation_result \<Rightarrow> pb_file_operation_result" where
  "pb_of_file_operation_result v =
     \<lparr>pfr_call_id = fr_call_id v, pfr_success = fr_success v, pfr_content = fr_content v,
      pfr_error = fr_error v, pfr_path = fr_path v\<rparr>"

definition file_operation_result_of_pb :: "pb_file_operation_result \<Rightarrow> file_operation_result" where
  "file_operation_result_of_pb p =
     \<lparr>fr_call_id = pfr_call_id p, fr_success = pfr_success p, fr_path = pfr_path p,
      fr_content = pfr_content p, fr_error = pfr_error p\<rparr>"

lemma file_operation_result_wire [simp, wire_simps]: "file_operation_result_of_pb (pb_of_file_operation_result v) = v"
  by (cases v) (simp add: file_operation_result_of_pb_def pb_of_file_operation_result_def wire_simps)

datatype pb_observation_kind =
    PoPrompt pb_prompt
  | PoThought pb_thought
  | PoToolOutput pb_tool_output
  | PoShellCommandOutput pb_shell_command_output
  | PoWebFetchOutput pb_web_fetch_output
  | PoFileOperationResult pb_file_operation_result

type_synonym pb_observation = "pb_observation_kind option"

definition pb_of_observation :: "wire_env \<Rightarrow> observation \<Rightarrow> pb_observation" where
  "pb_of_observation W ob = Some (case ob of
        Prompt v \<Rightarrow> PoPrompt (pb_of_prompt v)
      | Thought v \<Rightarrow> PoThought (pb_of_thought v)
      | ToolOutput v \<Rightarrow> PoToolOutput (pb_of_tool_output W v)
      | ShellCommandOutput v \<Rightarrow> PoShellCommandOutput (pb_of_shell_command_output v)
      | WebFetchOutput v \<Rightarrow> PoWebFetchOutput (pb_of_web_fetch_output v)
      | FileOperationResult v \<Rightarrow> PoFileOperationResult (pb_of_file_operation_result v))"

definition observation_of_pb :: "wire_env \<Rightarrow> pb_observation \<Rightarrow> string + observation" where
  "observation_of_pb W p = bind_result (require p ''observation'') (\<lambda>kind. case kind of
        PoPrompt v \<Rightarrow> bind_result (prompt_of_pb v) (\<lambda>d. Inr (Prompt d))
      | PoThought v \<Rightarrow> Inr (Thought (thought_of_pb v))
      | PoToolOutput v \<Rightarrow> Inr (ToolOutput (tool_output_of_pb W v))
      | PoShellCommandOutput v \<Rightarrow> Inr (ShellCommandOutput (shell_command_output_of_pb v))
      | PoWebFetchOutput v \<Rightarrow> Inr (WebFetchOutput (web_fetch_output_of_pb v))
      | PoFileOperationResult v \<Rightarrow> Inr (FileOperationResult (file_operation_result_of_pb v)))"

lemma observation_marked [marked_intros]: "well_marked (observation_of_pb W p)"
  unfolding observation_of_pb_def
  by (intro well_marked_bind well_marked_require) (auto split: pb_observation_kind.splits intro: marked_intros)

section \<open>Verdicts\<close>

record pb_steering =
  pst_instructions :: "string list"
  pst_explanation :: string

definition pb_of_steering :: "steering \<Rightarrow> pb_steering" where
  "pb_of_steering v =
     \<lparr>pst_instructions = st_instructions v, pst_explanation = st_explanation v\<rparr>"

definition steering_of_pb :: "pb_steering \<Rightarrow> steering" where
  "steering_of_pb p =
     \<lparr>st_instructions = pst_instructions p, st_explanation = pst_explanation p\<rparr>"

lemma steering_wire [simp, wire_simps]: "steering_of_pb (pb_of_steering v) = v"
  by (cases v) (simp add: steering_of_pb_def pb_of_steering_def wire_simps)

record pb_policy_metadata =
  ppm_policy_id :: "string option"
  ppm_description :: "string option"
  ppm_escalate :: bool
  ppm_escalate_arg :: "string option"
  ppm_metadata :: "(string \<times> string) list"

definition pb_of_policy_metadata :: "policy_metadata \<Rightarrow> pb_policy_metadata" where
  "pb_of_policy_metadata v =
     \<lparr>ppm_policy_id = pmd_policy_id v, ppm_description = pmd_description v,
      ppm_escalate = pmd_escalate v, ppm_escalate_arg = pmd_escalate_arg v,
      ppm_metadata = pmd_metadata v\<rparr>"

definition policy_metadata_of_pb :: "pb_policy_metadata \<Rightarrow> policy_metadata" where
  "policy_metadata_of_pb p =
     \<lparr>pmd_policy_id = ppm_policy_id p, pmd_description = ppm_description p,
      pmd_escalate = ppm_escalate p, pmd_escalate_arg = ppm_escalate_arg p,
      pmd_metadata = ppm_metadata p\<rparr>"

lemma policy_metadata_wire [simp, wire_simps]: "policy_metadata_of_pb (pb_of_policy_metadata v) = v"
  by (cases v) (simp add: policy_metadata_of_pb_def pb_of_policy_metadata_def wire_simps)

record pb_signature_match =
  psm_rule :: string
  psm_namespace :: "string option"
  psm_metadata :: "(string \<times> string) list"

definition pb_of_signature_match :: "signature_guardrail_match \<Rightarrow> pb_signature_match" where
  "pb_of_signature_match v =
     \<lparr>psm_rule = sgm_rule v, psm_namespace = sgm_namespace v,
      psm_metadata = sgm_metadata v\<rparr>"

definition signature_match_of_pb :: "pb_signature_match \<Rightarrow> signature_guardrail_match" where
  "signature_match_of_pb p =
     \<lparr>sgm_rule = psm_rule p, sgm_namespace = psm_namespace p,
      sgm_metadata = psm_metadata p\<rparr>"

lemma signature_match_wire [simp, wire_simps]: "signature_match_of_pb (pb_of_signature_match v) = v"
  by (cases v) (simp add: signature_match_of_pb_def pb_of_signature_match_def wire_simps)

record pb_signature_result =
  psr_triggered :: bool
  psr_severity :: "string option"
  psr_categories :: "string list"
  psr_matches :: "pb_signature_match list"

definition pb_of_signature_result :: "signature_guardrail_result \<Rightarrow> pb_signature_result" where
  "pb_of_signature_result v =
     \<lparr>psr_triggered = sgr_triggered v, psr_severity = sgr_severity v,
      psr_categories = sgr_categories v,
      psr_matches = map pb_of_signature_match (sgr_matches v)\<rparr>"

definition signature_result_of_pb :: "pb_signature_result \<Rightarrow> signature_guardrail_result" where
  "signature_result_of_pb p =
     \<lparr>sgr_triggered = psr_triggered p, sgr_severity = psr_severity p,
      sgr_categories = psr_categories p,
      sgr_matches = map signature_match_of_pb (psr_matches p)\<rparr>"

lemma signature_result_wire [simp, wire_simps]: "signature_result_of_pb (pb_of_signature_result v) = v"
  by (cases v) (simp add: signature_result_of_pb_def pb_of_signature_result_def wire_simps wire_map_id)

record pb_ifc_result =
  pir_label :: string
  pir_fallback_reason :: "string option"

definition pb_of_ifc_result :: "ifc_guardrail_result \<Rightarrow> pb_ifc_result" where
  "pb_of_ifc_result v =
     \<lparr>pir_label = igr_label v, pir_fallback_reason = igr_fallback_reason v\<rparr>"

definition ifc_result_of_pb :: "pb_ifc_result \<Rightarrow> ifc_guardrail_result" where
  "ifc_result_of_pb p =
     \<lparr>igr_label = pir_label p, igr_fallback_reason = pir_fallback_reason p\<rparr>"

lemma ifc_result_wire [simp, wire_simps]: "ifc_result_of_pb (pb_of_ifc_result v) = v"
  by (cases v) (simp add: ifc_result_of_pb_def pb_of_ifc_result_def wire_simps)

record pb_guardrail_results =
  pgr_signature :: "pb_signature_result option"
  pgr_ifc :: "pb_ifc_result option"

definition pb_of_guardrail_results :: "guardrail_results \<Rightarrow> pb_guardrail_results" where
  "pb_of_guardrail_results v =
     \<lparr>pgr_signature = map_option pb_of_signature_result (gr_signature v),
      pgr_ifc = map_option pb_of_ifc_result (gr_ifc v)\<rparr>"

definition guardrail_results_of_pb :: "pb_guardrail_results \<Rightarrow> guardrail_results" where
  "guardrail_results_of_pb p =
     \<lparr>gr_signature = map_option signature_result_of_pb (pgr_signature p),
      gr_ifc = map_option ifc_result_of_pb (pgr_ifc p)\<rparr>"

lemma guardrail_results_wire [simp, wire_simps]: "guardrail_results_of_pb (pb_of_guardrail_results v) = v"
  by (cases v) (simp add: guardrail_results_of_pb_def pb_of_guardrail_results_def wire_simps wire_map_id)

record pb_adjudicated =
  pad_decision :: i32
  pad_mode :: i32
  pad_reason :: "string option"
  pad_metadata :: "pb_policy_metadata list"
  pad_guardrails :: "pb_guardrail_results option"
  pad_steering :: "pb_steering option"

definition pb_of_adjudicated :: "adjudicated \<Rightarrow> pb_adjudicated" where
  "pb_of_adjudicated v =
     \<lparr>pad_decision = encode_decision (adj_decision v),
      pad_mode = encode_mode (adj_mode v), pad_reason = adj_reason v,
      pad_metadata = map pb_of_policy_metadata (adj_metadata v),
      pad_guardrails = map_option pb_of_guardrail_results (adj_guardrails v),
      pad_steering = map_option pb_of_steering (adj_steering v)\<rparr>"

definition adjudicated_of_pb :: "pb_adjudicated \<Rightarrow> string + adjudicated" where
  "adjudicated_of_pb p =
     bind_result (decode_enum encode_decision every_decision (pad_decision p) ''decision'') (\<lambda>decision.
     bind_result (decode_enum encode_mode every_mode (pad_mode p) ''mode'') (\<lambda>mode.
     Inr \<lparr>adj_decision = decision, adj_mode = mode, adj_reason = pad_reason p,
      adj_metadata = map policy_metadata_of_pb (pad_metadata p),
      adj_guardrails = map_option guardrail_results_of_pb (pad_guardrails p),
      adj_steering = map_option steering_of_pb (pad_steering p)\<rparr>))"

lemma adjudicated_wire [simp, wire_simps]: "adjudicated_of_pb (pb_of_adjudicated v) = Inr v"
  by (cases v) (simp add: adjudicated_of_pb_def pb_of_adjudicated_def wire_simps decode_all_map wire_map_id)

lemma adjudicated_marked [marked_intros]: "well_marked (adjudicated_of_pb p)"
  unfolding adjudicated_of_pb_def by (intro marked_intros)

section \<open>Scans\<close>

record pb_signal =
  psg_focus :: i32
  psg_category :: i32
  psg_severity :: i32
  psg_description :: string
  psg_evidence_indices :: "i32 list"

definition pb_of_signal :: "signal \<Rightarrow> pb_signal" where
  "pb_of_signal v =
     \<lparr>psg_focus = encode_focus (sn_focus v),
      psg_category = encode_category (sn_category v),
      psg_severity = encode_severity (sn_severity v), psg_description = sn_description v,
      psg_evidence_indices = encode_indices (sn_evidence_indices v)\<rparr>"

definition signal_of_pb :: "pb_signal \<Rightarrow> string + signal" where
  "signal_of_pb p =
     bind_result (decode_enum encode_focus every_focus (psg_focus p) ''focus'') (\<lambda>focus.
     bind_result (decode_enum encode_category every_category (psg_category p) ''category'') (\<lambda>category.
     bind_result (decode_enum encode_severity every_severity (psg_severity p) ''severity'') (\<lambda>severity.
     Inr \<lparr>sn_focus = focus, sn_category = category, sn_severity = severity,
      sn_description = psg_description p,
      sn_evidence_indices = decode_indices (psg_evidence_indices p)\<rparr>)))"

definition signal_fits :: "signal \<Rightarrow> bool" where
  "signal_fits v \<longleftrightarrow> list_all small (sn_evidence_indices v)"

lemma signal_wire [wire_simps]: "signal_fits v \<Longrightarrow> signal_of_pb (pb_of_signal v) = Inr v"
  by (cases v) (simp add: signal_of_pb_def pb_of_signal_def wire_simps signal_fits_def
      indices_round_trip)

lemma signal_marked [marked_intros]: "well_marked (signal_of_pb p)"
  unfolding signal_of_pb_def by (intro marked_intros)

record pb_event_scan =
  pes_explanation :: string
  pes_message_type :: i32
  pes_intent :: i32
  pes_description :: string
  pes_key_entities :: "string list"
  pes_is_side_effecting :: bool
  pes_signals :: "pb_signal list"
  pes_confidence :: f64
  pes_embedding :: "f64 list"

text \<open>\<open>repeated double\<close> has no absent value: no embedding and an empty one are the same.\<close>

definition pb_of_event_scan :: "event_scan_result \<Rightarrow> pb_event_scan" where
  "pb_of_event_scan v =
     \<lparr>pes_explanation = esr_explanation v,
      pes_message_type = encode_message_type (esr_message_type v),
      pes_intent = encode_intent (esr_intent v), pes_description = esr_description v,
      pes_key_entities = esr_key_entities v, pes_is_side_effecting = esr_is_side_effecting v,
      pes_signals = map pb_of_signal (esr_signals v), pes_confidence = esr_confidence v,
      pes_embedding = unwrap_or (esr_embedding v) []\<rparr>"

definition event_scan_of_pb :: "pb_event_scan \<Rightarrow> string + event_scan_result" where
  "event_scan_of_pb p =
     bind_result (decode_enum encode_message_type every_message_type (pes_message_type p)
       ''message_type'') (\<lambda>message_type.
     bind_result (decode_enum encode_intent every_intent (pes_intent p) ''intent'') (\<lambda>intent.
     bind_result (decode_all signal_of_pb (pes_signals p)) (\<lambda>signals.
     Inr \<lparr>esr_explanation = pes_explanation p, esr_message_type = message_type,
       esr_intent = intent, esr_description = pes_description p,
       esr_key_entities = pes_key_entities p, esr_is_side_effecting = pes_is_side_effecting p,
       esr_signals = signals, esr_confidence = pes_confidence p,
       esr_embedding = (if pes_embedding p = [] then None else Some (pes_embedding p))\<rparr>)))"

definition event_scan_fits :: "event_scan_result \<Rightarrow> bool" where
  "event_scan_fits v \<longleftrightarrow> list_all signal_fits (esr_signals v) \<and> esr_embedding v \<noteq> Some []"

lemma event_scan_wire [wire_simps]:
  assumes "event_scan_fits v" shows "event_scan_of_pb (pb_of_event_scan v) = Inr v"
proof -
  have "decode_all signal_of_pb (map pb_of_signal (esr_signals v)) = Inr (esr_signals v)"
    using assms by (intro decode_all_map) (auto simp: event_scan_fits_def list_all_iff wire_simps)
  then show ?thesis using assms
    by (cases v; cases "esr_embedding v")
      (auto simp: event_scan_of_pb_def pb_of_event_scan_def wire_simps event_scan_fits_def)
qed

lemma event_scan_marked [marked_intros]: "well_marked (event_scan_of_pb p)"
  unfolding event_scan_of_pb_def by (intro marked_intros)

record pb_transcript_phase =
  ptp_name :: string
  ptp_description :: string
  ptp_event_indices :: "i32 list"

definition pb_of_transcript_phase :: "transcript_phase \<Rightarrow> pb_transcript_phase" where
  "pb_of_transcript_phase v =
     \<lparr>ptp_name = tp_name v, ptp_description = tp_description v,
      ptp_event_indices = encode_indices (tp_event_indices v)\<rparr>"

definition transcript_phase_of_pb :: "pb_transcript_phase \<Rightarrow> transcript_phase" where
  "transcript_phase_of_pb p =
     \<lparr>tp_name = ptp_name p, tp_description = ptp_description p,
      tp_event_indices = decode_indices (ptp_event_indices p)\<rparr>"

definition phase_fits :: "transcript_phase \<Rightarrow> bool" where
  "phase_fits v \<longleftrightarrow> list_all small (tp_event_indices v)"

lemma transcript_phase_wire: "phase_fits v \<Longrightarrow> transcript_phase_of_pb (pb_of_transcript_phase v) = v"
  by (cases v) (simp add: transcript_phase_of_pb_def pb_of_transcript_phase_def phase_fits_def
      indices_round_trip)

record pb_transcript_digest =
  ptd_trajectory_id :: string
  ptd_title :: string
  ptd_summary :: string
  ptd_interim :: bool
  ptd_phases :: "pb_transcript_phase list"
  ptd_files_modified :: "string list"
  ptd_tools_used :: "string list"
  ptd_total_events :: i32
  ptd_side_effecting_count :: i32

definition pb_of_transcript_digest :: "transcript_digest \<Rightarrow> pb_transcript_digest" where
  "pb_of_transcript_digest v =
     \<lparr>ptd_trajectory_id = td_trajectory_id v, ptd_title = td_title v,
      ptd_summary = td_summary v, ptd_interim = td_interim v,
      ptd_phases = map pb_of_transcript_phase (td_phases v),
      ptd_files_modified = td_files_modified v, ptd_tools_used = td_tools_used v,
      ptd_total_events = u32_to_i32 (td_total_events v),
      ptd_side_effecting_count = u32_to_i32 (td_side_effecting_count v)\<rparr>"

definition transcript_digest_of_pb :: "pb_transcript_digest \<Rightarrow> transcript_digest" where
  "transcript_digest_of_pb p =
     \<lparr>td_trajectory_id = ptd_trajectory_id p, td_title = ptd_title p,
      td_summary = ptd_summary p, td_interim = ptd_interim p,
      td_phases = map transcript_phase_of_pb (ptd_phases p),
      td_files_modified = ptd_files_modified p, td_tools_used = ptd_tools_used p,
      td_total_events = i32_to_u32 (ptd_total_events p),
      td_side_effecting_count = i32_to_u32 (ptd_side_effecting_count p)\<rparr>"

definition digest_fits :: "transcript_digest \<Rightarrow> bool" where
  "digest_fits v \<longleftrightarrow> list_all phase_fits (td_phases v) \<and> small (td_total_events v)
     \<and> small (td_side_effecting_count v)"

lemma transcript_digest_wire:
  assumes "digest_fits v" shows "transcript_digest_of_pb (pb_of_transcript_digest v) = v"
proof -
  have "map (transcript_phase_of_pb \<circ> pb_of_transcript_phase) (td_phases v) = td_phases v"
    using assms by (intro map_idI) (auto simp: digest_fits_def list_all_iff transcript_phase_wire)
  then show ?thesis using assms
    by (cases v) (simp add: transcript_digest_of_pb_def pb_of_transcript_digest_def digest_fits_def
        small_def)
qed

record pb_transcript_scan =
  pts_explanation :: string
  pts_outcome :: i32
  pts_outcome_description :: string
  pts_aggregate_severity :: i32
  pts_signals :: "pb_signal list"
  pts_adjudication_summary :: string
  pts_behavioral_notes :: "string list"
  pts_confidence :: f64

definition pb_of_transcript_scan :: "transcript_scan_result \<Rightarrow> pb_transcript_scan" where
  "pb_of_transcript_scan v =
     \<lparr>pts_explanation = tsr_explanation v, pts_outcome = encode_outcome (tsr_outcome v),
      pts_outcome_description = tsr_outcome_description v,
      pts_aggregate_severity = encode_severity (tsr_aggregate_severity v),
      pts_signals = map pb_of_signal (tsr_signals v),
      pts_adjudication_summary = tsr_adjudication_summary v,
      pts_behavioral_notes = tsr_behavioral_notes v, pts_confidence = tsr_confidence v\<rparr>"

definition transcript_scan_of_pb :: "pb_transcript_scan \<Rightarrow> string + transcript_scan_result" where
  "transcript_scan_of_pb p =
     bind_result (decode_enum encode_outcome every_outcome (pts_outcome p) ''outcome'') (\<lambda>outcome.
     bind_result (decode_enum encode_severity every_severity (pts_aggregate_severity p) ''aggregate_severity'') (\<lambda>aggregate_severity.
     bind_result (decode_all signal_of_pb (pts_signals p)) (\<lambda>signals.
     Inr \<lparr>tsr_explanation = pts_explanation p, tsr_outcome = outcome,
      tsr_outcome_description = pts_outcome_description p,
      tsr_aggregate_severity = aggregate_severity, tsr_signals = signals,
      tsr_adjudication_summary = pts_adjudication_summary p,
      tsr_behavioral_notes = pts_behavioral_notes p, tsr_confidence = pts_confidence p\<rparr>)))"

lemma transcript_scan_wire:
  assumes "list_all signal_fits (tsr_signals v)"
  shows "transcript_scan_of_pb (pb_of_transcript_scan v) = Inr v"
proof -
  have "decode_all signal_of_pb (map pb_of_signal (tsr_signals v)) = Inr (tsr_signals v)"
    using assms by (intro decode_all_map) (auto simp: list_all_iff wire_simps)
  then show ?thesis
    by (cases v) (simp add: transcript_scan_of_pb_def pb_of_transcript_scan_def wire_simps)
qed

lemma transcript_scan_marked [marked_intros]: "well_marked (transcript_scan_of_pb p)"
  unfolding transcript_scan_of_pb_def by (intro marked_intros)

text \<open>\<open>Scanned\<close>: the scan that is set; its result is required inside.\<close>

datatype pb_scan =
    PsMessage string "pb_event_scan option"
  | PsTranscriptDigest string "pb_transcript_digest option"
  | PsTranscriptScan string "pb_transcript_scan option"

type_synonym pb_scanned = "pb_scan option"

definition pb_of_scanned :: "scanned \<Rightarrow> pb_scanned" where
  "pb_of_scanned s = Some (case s of
        ScMessage i r \<Rightarrow> PsMessage i (Some (pb_of_event_scan r))
      | ScTranscriptDigest i r \<Rightarrow> PsTranscriptDigest i (Some (pb_of_transcript_digest r))
      | ScTranscriptScan i r \<Rightarrow> PsTranscriptScan i (Some (pb_of_transcript_scan r)))"

definition scanned_of_pb :: "pb_scanned \<Rightarrow> string + scanned" where
  "scanned_of_pb p = bind_result (require p ''scanned'') (\<lambda>scan. case scan of
        PsMessage i v \<Rightarrow> bind_result (require v ''message.result'') (\<lambda>r.
          bind_result (event_scan_of_pb r) (\<lambda>d. Inr (ScMessage i d)))
      | PsTranscriptDigest i v \<Rightarrow> bind_result (require v ''transcript_digest.result'') (\<lambda>r.
          Inr (ScTranscriptDigest i (transcript_digest_of_pb r)))
      | PsTranscriptScan i v \<Rightarrow> bind_result (require v ''transcript_scan.result'') (\<lambda>r.
          bind_result (transcript_scan_of_pb r) (\<lambda>d. Inr (ScTranscriptScan i d))))"

fun scanned_fits :: "scanned \<Rightarrow> bool" where
  "scanned_fits (ScMessage i r) = event_scan_fits r"
| "scanned_fits (ScTranscriptDigest i r) = digest_fits r"
| "scanned_fits (ScTranscriptScan i r) = list_all signal_fits (tsr_signals r)"

lemma scanned_wire: "scanned_fits s \<Longrightarrow> scanned_of_pb (pb_of_scanned s) = Inr s"
  by (cases s) (simp_all add: scanned_of_pb_def pb_of_scanned_def wire_simps
      transcript_digest_wire transcript_scan_wire)

lemma scanned_marked [marked_intros]: "well_marked (scanned_of_pb p)"
  unfolding scanned_of_pb_def
  by (intro well_marked_bind well_marked_require) (auto split: pb_scan.splits intro: marked_intros)

section \<open>Control\<close>

record pb_started =
  psd_agent :: "pb_agent option"
  psd_task :: "string option"

definition pb_of_started :: "started \<Rightarrow> pb_started" where
  "pb_of_started v = \<lparr>psd_agent = Some (pb_of_agent (sd_agent v)), psd_task = sd_task v\<rparr>"

definition started_of_pb :: "pb_started \<Rightarrow> string + started" where
  "started_of_pb p = bind_result (require (psd_agent p) ''started.agent'') (\<lambda>a.
     Inr \<lparr>sd_agent = agent_of_pb a, sd_task = psd_task p\<rparr>)"

lemma started_wire [simp, wire_simps]: "started_of_pb (pb_of_started v) = Inr v"
  by (cases v) (simp add: started_of_pb_def pb_of_started_def)

lemma started_marked [marked_intros]: "well_marked (started_of_pb p)"
  unfolding started_of_pb_def by (intro marked_intros)

record pb_completed =
  pcm_summary :: "string option"

definition pb_of_completed :: "string option \<Rightarrow> pb_completed" where "pb_of_completed v = \<lparr>pcm_summary = v\<rparr>"
definition completed_of_pb :: "pb_completed \<Rightarrow> string option" where "completed_of_pb p = pcm_summary p"

lemma completed_wire [simp, wire_simps]: "completed_of_pb (pb_of_completed v) = v"
  by (simp add: completed_of_pb_def pb_of_completed_def)

record pb_failed =
  pfl_reason :: string

definition pb_of_failed :: "string \<Rightarrow> pb_failed" where "pb_of_failed v = \<lparr>pfl_reason = v\<rparr>"
definition failed_of_pb :: "pb_failed \<Rightarrow> string" where "failed_of_pb p = pfl_reason p"

lemma failed_wire [simp, wire_simps]: "failed_of_pb (pb_of_failed v) = v"
  by (simp add: failed_of_pb_def pb_of_failed_def)

record pb_terminated =
  ptm_reason :: string
  ptm_terminated_by :: string

definition pb_of_terminated :: "terminated \<Rightarrow> pb_terminated" where
  "pb_of_terminated v =
     \<lparr>ptm_reason = tm_reason v, ptm_terminated_by = tm_terminated_by v\<rparr>"

definition terminated_of_pb :: "pb_terminated \<Rightarrow> terminated" where
  "terminated_of_pb p =
     \<lparr>tm_reason = ptm_reason p, tm_terminated_by = ptm_terminated_by p\<rparr>"

lemma terminated_wire [simp, wire_simps]: "terminated_of_pb (pb_of_terminated v) = v"
  by (cases v) (simp add: terminated_of_pb_def pb_of_terminated_def wire_simps)

record pb_suspended =
  psp_reason :: string

definition pb_of_suspended :: "string \<Rightarrow> pb_suspended" where "pb_of_suspended v = \<lparr>psp_reason = v\<rparr>"
definition suspended_of_pb :: "pb_suspended \<Rightarrow> string" where "suspended_of_pb p = psp_reason p"

lemma suspended_wire [simp, wire_simps]: "suspended_of_pb (pb_of_suspended v) = v"
  by (simp add: suspended_of_pb_def pb_of_suspended_def)

record pb_resumed =
  prs_resumed_by :: string

definition pb_of_resumed :: "string \<Rightarrow> pb_resumed" where "pb_of_resumed v = \<lparr>prs_resumed_by = v\<rparr>"
definition resumed_of_pb :: "pb_resumed \<Rightarrow> string" where "resumed_of_pb p = prs_resumed_by p"

lemma resumed_wire [simp, wire_simps]: "resumed_of_pb (pb_of_resumed v) = v"
  by (simp add: resumed_of_pb_def pb_of_resumed_def)

datatype pb_control_kind =
    PcStarted pb_started
  | PcCompleted pb_completed
  | PcFailed pb_failed
  | PcTerminated pb_terminated
  | PcSuspended pb_suspended
  | PcResumed pb_resumed
  | PcAdjudicated pb_adjudicated
  | PcScanned pb_scanned

type_synonym pb_control = "pb_control_kind option"

definition pb_of_control :: "control \<Rightarrow> pb_control" where
  "pb_of_control c = Some (case c of
        Started v \<Rightarrow> PcStarted (pb_of_started v)
      | Completed v \<Rightarrow> PcCompleted (pb_of_completed v)
      | Failed v \<Rightarrow> PcFailed (pb_of_failed v)
      | Terminated v \<Rightarrow> PcTerminated (pb_of_terminated v)
      | Suspended v \<Rightarrow> PcSuspended (pb_of_suspended v)
      | Resumed v \<Rightarrow> PcResumed (pb_of_resumed v)
      | Adjudicated v \<Rightarrow> PcAdjudicated (pb_of_adjudicated v)
      | Scanned v \<Rightarrow> PcScanned (pb_of_scanned v))"

definition control_of_pb :: "pb_control \<Rightarrow> string + control" where
  "control_of_pb p = bind_result (require p ''control'') (\<lambda>kind. case kind of
        PcStarted v \<Rightarrow> bind_result (started_of_pb v) (\<lambda>d. Inr (Started d))
      | PcCompleted v \<Rightarrow> Inr (Completed (completed_of_pb v))
      | PcFailed v \<Rightarrow> Inr (Failed (failed_of_pb v))
      | PcTerminated v \<Rightarrow> Inr (Terminated (terminated_of_pb v))
      | PcSuspended v \<Rightarrow> Inr (Suspended (suspended_of_pb v))
      | PcResumed v \<Rightarrow> Inr (Resumed (resumed_of_pb v))
      | PcAdjudicated v \<Rightarrow> bind_result (adjudicated_of_pb v) (\<lambda>d. Inr (Adjudicated d))
      | PcScanned v \<Rightarrow> bind_result (scanned_of_pb v) (\<lambda>d. Inr (Scanned d)))"

fun control_fits :: "control \<Rightarrow> bool" where
  "control_fits (Scanned s) = scanned_fits s"
| "control_fits _ = True"

lemma control_wire: "control_fits c \<Longrightarrow> control_of_pb (pb_of_control c) = Inr c"
  by (cases c) (simp_all add: control_of_pb_def pb_of_control_def scanned_wire)

lemma control_marked [marked_intros]: "well_marked (control_of_pb p)"
  unfolding control_of_pb_def
  by (intro well_marked_bind well_marked_require) (auto split: pb_control_kind.splits intro: marked_intros)

section \<open>State\<close>

record pb_snapshot =
  pss_snapshot_id :: string
  pss_working_dir :: "string option"
  pss_open_files :: "string list"
  pss_git_branch :: "string option"
  pss_variables :: "string \<rightharpoonup> pb_value"

definition pb_of_snapshot :: "wire_env \<Rightarrow> snapshot \<Rightarrow> pb_snapshot" where
  "pb_of_snapshot W v =
     \<lparr>pss_snapshot_id = ss_snapshot_id v, pss_working_dir = ss_working_dir v,
      pss_open_files = ss_open_files v, pss_git_branch = ss_git_branch v,
      pss_variables = (\<lambda>k. map_option (json_to_proto_value W) (ss_variables v k))\<rparr>"

definition snapshot_of_pb :: "wire_env \<Rightarrow> pb_snapshot \<Rightarrow> snapshot" where
  "snapshot_of_pb W p =
     \<lparr>ss_snapshot_id = pss_snapshot_id p, ss_working_dir = pss_working_dir p,
      ss_open_files = pss_open_files p, ss_git_branch = pss_git_branch p,
      ss_variables = (\<lambda>k. map_option (proto_value_to_json W) (pss_variables p k))\<rparr>"

definition wire_variables :: "(string \<rightharpoonup> json) \<Rightarrow> (string \<rightharpoonup> json)" where
  "wire_variables m = (\<lambda>k. map_option sort_keys (m k))"

lemma snapshot_wire:
  assumes "\<And>k j. ss_variables v k = Some j \<Longrightarrow> wire_exact W j"
  shows "snapshot_of_pb W (pb_of_snapshot W v) = v\<lparr>ss_variables := wire_variables (ss_variables v)\<rparr>"
proof -
  have "map_option (proto_value_to_json W) (map_option (json_to_proto_value W) (ss_variables v k))
      = map_option sort_keys (ss_variables v k)" for k
    using assms[of k] by (cases "ss_variables v k") (auto simp: proto_value_round_trip)
  then show ?thesis
    by (cases v) (simp add: snapshot_of_pb_def pb_of_snapshot_def wire_variables_def)
qed

text \<open>\<open>State\<close>: its one kind is the snapshot.\<close>

type_synonym pb_state = "pb_snapshot option"

definition pb_of_state :: "wire_env \<Rightarrow> snapshot \<Rightarrow> pb_state" where
  "pb_of_state W v = Some (pb_of_snapshot W v)"

definition state_of_pb :: "wire_env \<Rightarrow> pb_state \<Rightarrow> string + snapshot" where
  "state_of_pb W p = bind_result (require p ''state'') (\<lambda>v. Inr (snapshot_of_pb W v))"

lemma state_marked [marked_intros]: "well_marked (state_of_pb W p)"
  unfolding state_of_pb_def by (intro marked_intros)

end
