(* ===== verification/Service.thy ===== *)
theory Service
  imports Wire
begin

text \<open>
  The event envelope on the wire (\<open>crates/schema/src/event.rs\<close>), the gRPC service in front of
  an engine (\<open>crates/harness/src/rpc.rs\<close>) and the client the hooks speak through
  (\<open>crates/harness/src/client.rs\<close>).

  The engine is any function of an event and the world; the network between client and service
  is a parameter too, which answers a request with a future. What is assumed of it, where
  something is, is that a response it delivers is the one the service computed.
\<close>

section \<open>The envelope\<close>

datatype pb_category =
    PgAction pb_action
  | PgObservation pb_observation
  | PgControl pb_control
  | PgState pb_state

type_synonym pb_trajectory_event = "pb_category option"

definition pb_of_trajectory_event :: "wire_env \<Rightarrow> trajectory_event \<Rightarrow> pb_trajectory_event" where
  "pb_of_trajectory_event W e = Some (case e of
        Action v \<Rightarrow> PgAction (pb_of_action W v)
      | Observation v \<Rightarrow> PgObservation (pb_of_observation W v)
      | Control v \<Rightarrow> PgControl (pb_of_control v)
      | State v \<Rightarrow> PgState (pb_of_state W v))"

definition trajectory_event_of_pb :: "wire_env \<Rightarrow> pb_trajectory_event \<Rightarrow> string + trajectory_event" where
  "trajectory_event_of_pb W p = bind_result (require p ''event.category'') (\<lambda>c. case c of
        PgAction v \<Rightarrow> bind_result (action_of_pb W v) (\<lambda>d. Inr (Action d))
      | PgObservation v \<Rightarrow> bind_result (observation_of_pb W v) (\<lambda>d. Inr (Observation d))
      | PgControl v \<Rightarrow> bind_result (control_of_pb v) (\<lambda>d. Inr (Control d))
      | PgState v \<Rightarrow> bind_result (state_of_pb W v) (\<lambda>d. Inr (State d)))"

record pb_event =
  pe_event_id :: string
  pe_trajectory_id :: string
  pe_agent :: "pb_agent option"
  pe_event_time :: "pb_timestamp option"
  pe_actor :: "pb_actor option"
  pe_causality :: "pb_causality option"
  pe_event :: "pb_trajectory_event option"

definition pb_of_event :: "wire_env \<Rightarrow> event \<Rightarrow> pb_event" where
  "pb_of_event W e =
     \<lparr>pe_event_id = ev_event_id e, pe_trajectory_id = ev_trajectory_id e,
      pe_agent = Some (pb_of_agent (ev_agent e)),
      pe_event_time = Some (datetime_to_timestamp (ev_timestamp e)),
      pe_actor = Some (pb_of_actor (ev_actor e)),
      pe_causality = Some (pb_of_causality (ev_causality e)),
      pe_event = Some (pb_of_trajectory_event W (ev_event e))\<rparr>"

definition event_of_pb :: "wire_env \<Rightarrow> pb_event \<Rightarrow> string + event" where
  "event_of_pb W p =
     bind_result (require (pe_event_time p) ''event_time'') (\<lambda>event_time.
     bind_result (require (pe_agent p) ''agent'') (\<lambda>agent.
     bind_result (ok_or (timestamp_to_datetime W event_time)
       (decode_error (''field '' @ quoted ''event_time'' @ '' is outside the representable range.'')))
       (\<lambda>timestamp.
     bind_result (bind_result (require (pe_event p) ''event'') (trajectory_event_of_pb W)) (\<lambda>event.
     bind_result (bind_result (require (pe_actor p) ''actor'') actor_of_pb) (\<lambda>actor.
     bind_result (require (pe_causality p) ''causality'') (\<lambda>causality.
     Inr \<lparr>ev_event_id = pe_event_id p, ev_trajectory_id = pe_trajectory_id p,
       ev_agent = agent_of_pb agent, ev_timestamp = timestamp, ev_event = event,
       ev_actor = actor, ev_causality = causality_of_pb causality\<rparr>))))))"

text \<open>What the engine is handed for an event a hook sent.\<close>

fun wire_payload :: "trajectory_event \<Rightarrow> trajectory_event" where
  "wire_payload (Action (ToolCall v)) =
     Action (ToolCall (v\<lparr>tc_arguments := wire_arguments (tc_arguments v)\<rparr>))"
| "wire_payload (Observation (ToolOutput v)) =
     Observation (ToolOutput (v\<lparr>to_output := sort_keys (to_output v)\<rparr>))"
| "wire_payload (State v) = State (v\<lparr>ss_variables := wire_variables (ss_variables v)\<rparr>)"
| "wire_payload e = e"

fun payload_fits :: "wire_env \<Rightarrow> trajectory_event \<Rightarrow> bool" where
  "payload_fits W (Action (ToolCall v)) \<longleftrightarrow> wire_exact W (tc_arguments v)"
| "payload_fits W (Observation (ToolOutput v)) \<longleftrightarrow> wire_exact W (to_output v)"
| "payload_fits W (Control c) \<longleftrightarrow> control_fits c"
| "payload_fits W (State v) \<longleftrightarrow> (\<forall>j\<in>ran (ss_variables v). wire_exact W j)"
| "payload_fits W _ \<longleftrightarrow> True"

lemma action_wire:
  "payload_fits W (Action a) \<Longrightarrow>
     bind_result (action_of_pb W (pb_of_action W a)) (\<lambda>d. Inr (Action d)) = Inr (wire_payload (Action a))"
  by (cases a) (simp_all add: action_of_pb_def pb_of_action_def tool_call_wire)

lemma observation_wire:
  "payload_fits W (Observation ob) \<Longrightarrow>
     bind_result (observation_of_pb W (pb_of_observation W ob)) (\<lambda>d. Inr (Observation d))
       = Inr (wire_payload (Observation ob))"
  by (cases ob) (simp_all add: observation_of_pb_def pb_of_observation_def tool_output_wire)

lemma trajectory_event_wire:
  assumes "payload_fits W e"
  shows "trajectory_event_of_pb W (pb_of_trajectory_event W e) = Inr (wire_payload e)"
proof (cases e)
  case (State v)
  then have "snapshot_of_pb W (pb_of_snapshot W v)
      = v\<lparr>ss_variables := wire_variables (ss_variables v)\<rparr>"
    using assms by (intro snapshot_wire) (auto simp: ran_def)
  then show ?thesis using State
    by (simp add: trajectory_event_of_pb_def pb_of_trajectory_event_def state_of_pb_def pb_of_state_def)
qed (use assms in \<open>simp_all add: trajectory_event_of_pb_def pb_of_trajectory_event_def action_wire
       observation_wire control_wire\<close>)

lemma trajectory_event_marked [marked_intros]: "well_marked (trajectory_event_of_pb W p)"
  unfolding trajectory_event_of_pb_def
  by (intro well_marked_bind well_marked_require) (auto split: pb_category.splits intro: marked_intros)

lemma event_wire:
  assumes "payload_fits W (ev_event e)" "date_exact W (ev_timestamp e)"
  shows "event_of_pb W (pb_of_event W e) = Inr (e\<lparr>ev_event := wire_payload (ev_event e)\<rparr>)"
  using assms
  by (cases e) (simp add: event_of_pb_def pb_of_event_def timestamp_round_trip trajectory_event_wire)

lemma well_marked_ok_or [marked_intros]: "well_marked (ok_or v (decode_error r))"
  by (cases v) (auto intro: marked_intros)

lemma event_marked [marked_intros]: "well_marked (event_of_pb W p)"
  unfolding event_of_pb_def by (intro marked_intros)

text \<open>A file operation, a shell command or a fetch crosses unchanged whatever it holds.\<close>

definition self_describing :: "trajectory_event \<Rightarrow> bool" where
  "self_describing e \<longleftrightarrow>
     (case e of Action (ToolCall _) \<Rightarrow> False | Action _ \<Rightarrow> True | _ \<Rightarrow> False)"

lemma self_describing_fits: "self_describing e \<Longrightarrow> payload_fits W e \<and> wire_payload e = e"
  by (cases e) (auto simp: self_describing_def split: action.splits)

section \<open>The verdict on its way back\<close>

text \<open>\<open>now\<close> is \<open>chrono::Utc::now()\<close>.\<close>

definition pb_of_adjudicated_event ::
  "timestamp \<Rightarrow> adjudicated \<Rightarrow> string \<Rightarrow> string \<Rightarrow> string \<Rightarrow> pb_event" where
  "pb_of_adjudicated_event now a source_event source_trajectory source_agent =
     \<lparr>pe_event_id = ''adj-'' @ source_event, pe_trajectory_id = source_trajectory,
      pe_agent = Some \<lparr>pa_id = source_agent, pa_provider = [], pa_platform = []\<rparr>,
      pe_event_time = Some (datetime_to_timestamp now),
      pe_actor = Some (pb_of_actor (actor_policy ''policy-engine'')),
      pe_causality = Some \<lparr>pcs_correlation_id = source_trajectory,
        pcs_causation_id = Some source_event, pcs_parent_id = None\<rparr>,
      pe_event = Some (Some (PgControl (Some (PcAdjudicated (pb_of_adjudicated a)))))\<rparr>"

definition invalid_adjudication :: "pb_event \<Rightarrow> string" where
  "invalid_adjudication p =
     ''invalid adjudication DTO: could not decode payload for event '' @ quoted (pe_event_id p)"

definition adjudicated_of_event :: "pb_event \<Rightarrow> string + adjudicated" where
  "adjudicated_of_event p =
     (case pe_event p of
        Some (Some (PgControl (Some (PcAdjudicated adj)))) \<Rightarrow>
          map_err (\<lambda>_. invalid_adjudication p) (adjudicated_of_pb adj)
      | _ \<Rightarrow> Inl (invalid_adjudication p))"

lemma adjudication_wire [simp]:
  "adjudicated_of_event (pb_of_adjudicated_event now a eid tid aid) = Inr a"
  by (simp add: adjudicated_of_event_def pb_of_adjudicated_event_def)

text \<open>A decision the wire does not name is never read as one.\<close>

lemma adjudicated_of_event_decision:
  assumes "adjudicated_of_event p = Inr a"
  shows "\<exists>adj. pe_event p = Some (Some (PgControl (Some (PcAdjudicated adj))))
    \<and> pad_decision adj = encode_decision (adj_decision a) \<and> pad_decision adj \<noteq> 0"
proof -
  obtain adj where p: "pe_event p = Some (Some (PgControl (Some (PcAdjudicated adj))))"
    "adjudicated_of_pb adj = Inr a"
    using assms by (auto simp: adjudicated_of_event_def split: option.splits pb_category.splits
        pb_control_kind.splits)
  then have "pad_decision adj = encode_decision (adj_decision a)"
    by (auto simp: adjudicated_of_pb_def bind_result_Inr_iff decision_enum.decoded_iff)
  then show ?thesis using p decision_enum.nonzero by simp
qed

section \<open>The service\<close>

type_synonym 'w engine = "event \<Rightarrow> 'w \<Rightarrow> (string + adjudicated) \<times> 'w"

text \<open>
  \<open>adjudicates\<close>: the events in order, each decoded, adjudicated, handed to the scanner when
  there is one, and answered. The first failure ends the call: the answers so far are dropped,
  what the engine did stays done. Besides the answer, the model returns what was dispatched to
  the scanner.
\<close>

fun rpc_loop ::
  "wire_env \<Rightarrow> 'w engine \<Rightarrow> (nat \<Rightarrow> timestamp) \<Rightarrow> bool \<Rightarrow> pb_event list \<Rightarrow> pb_event list
     \<Rightarrow> event list \<Rightarrow> 'w \<Rightarrow> (grpc_status + pb_event list) \<times> event list \<times> 'w" where
  "rpc_loop W E clock scans [] out sent w = (Inr out, sent, w)"
| "rpc_loop W E clock scans (p # ps) out sent w =
     (case event_of_pb W p of
        Inl e \<Rightarrow>
          (Inl \<lparr>gs_code = GcInvalidArgument, gs_message = ''invalid event: '' @ e\<rparr>, sent, w)
      | Inr event \<Rightarrow>
          (case E event w of
             (Inl e, w') \<Rightarrow> (Inl \<lparr>gs_code = GcInternal, gs_message = e\<rparr>, sent, w')
           | (Inr a, w') \<Rightarrow>
               rpc_loop W E clock scans ps
                 (out @ [pb_of_adjudicated_event (clock (length out)) a (ev_event_id event)
                    (ev_trajectory_id event) (ag_id (ev_agent event))])
                 (if scans then sent @ [event] else sent) w'))"

definition rpc_adjudicates ::
  "wire_env \<Rightarrow> 'w engine \<Rightarrow> (nat \<Rightarrow> timestamp) \<Rightarrow> bool \<Rightarrow> pb_event list \<Rightarrow> 'w
     \<Rightarrow> (grpc_status + pb_event list) \<times> event list \<times> 'w" where
  "rpc_adjudicates W E clock scans events w = rpc_loop W E clock scans events [] [] w"

text \<open>What an engine does over a list of events, stopping at the first failure.\<close>

fun engine_all :: "'w engine \<Rightarrow> event list \<Rightarrow> 'w \<Rightarrow> (string + adjudicated list) \<times> 'w" where
  "engine_all E [] w = (Inr [], w)"
| "engine_all E (e # es) w =
     (case E e w of
        (Inl err, w') \<Rightarrow> (Inl err, w')
      | (Inr a, w') \<Rightarrow>
          (case engine_all E es w' of
             (Inl err, w'') \<Rightarrow> (Inl err, w'')
           | (Inr as, w'') \<Rightarrow> (Inr (a # as), w'')))"

lemma rpc_loop_Inr:
  assumes "rpc_loop W E clock scans ps out sent w = (Inr resp, sent', w')"
  shows "\<exists>evs new as. decode_all (event_of_pb W) ps = Inr evs \<and> resp = out @ new
    \<and> engine_all E evs w = (Inr as, w') \<and> decode_all adjudicated_of_event new = Inr as
    \<and> sent' = sent @ (if scans then evs else [])"
  using assms
proof (induction ps arbitrary: out sent w)
  case Nil
  then show ?case by simp
next
  case (Cons p ps)
  from Cons.prems obtain e a w1 where e: "event_of_pb W p = Inr e" "E e w = (Inr a, w1)"
    by (auto split: sum.splits prod.splits)
  let ?o = "pb_of_adjudicated_event (clock (length out)) a (ev_event_id e) (ev_trajectory_id e)
      (ag_id (ev_agent e))"
  from e Cons.prems have "rpc_loop W E clock scans ps (out @ [?o])
      (if scans then sent @ [e] else sent) w1 = (Inr resp, sent', w')" by simp
  from Cons.IH[OF this] obtain evs new as where ih:
    "decode_all (event_of_pb W) ps = Inr evs" "resp = (out @ [?o]) @ new"
    "engine_all E evs w1 = (Inr as, w')" "decode_all adjudicated_of_event new = Inr as"
    "sent' = (if scans then sent @ [e] else sent) @ (if scans then evs else [])"
    by blast
  then show ?case using e
    by (intro exI[of _ "e # evs"] exI[of _ "?o # new"] exI[of _ "a # as"]) simp
qed

section \<open>The client\<close>

text \<open>
  A network: the outcome of the call and the world after it. \<open>honest\<close> is what gRPC gives: a
  response delivered is the service's answer to that request.
\<close>

type_synonym 'w network =
  "pb_event list \<Rightarrow> 'w \<Rightarrow> (grpc_status + pb_event list) future \<times> 'w"

definition honest ::
  "'w network \<Rightarrow> wire_env \<Rightarrow> 'w engine \<Rightarrow> (nat \<Rightarrow> timestamp) \<Rightarrow> bool \<Rightarrow> bool" where
  "honest N W E clock scans \<longleftrightarrow>
     (\<forall>req w n resp w'. N req w = (Ready n (Inr resp), w') \<longrightarrow>
        (\<exists>sent. rpc_adjudicates W E clock scans req w = (Inr resp, sent, w')))"

definition default_timeout :: nat where "default_timeout = 30"

definition client_adjudicates ::
  "wire_env \<Rightarrow> nat \<Rightarrow> 'w network \<Rightarrow> event list \<Rightarrow> 'w
     \<Rightarrow> (harness_client_error + adjudicated list) future \<times> 'w" where
  "client_adjudicates W timeout N events w =
     (case N (map (pb_of_event W) events) w of
        (rpc, w') \<Rightarrow>
          ((case timeout_at timeout 0 rpc of
              Value t None \<Rightarrow> Ready t (Inl HceTimeout)
            | Value t (Some (Inl status)) \<Rightarrow> Ready t (Inl (client_error_of_status status))
            | Value t (Some (Inr resp)) \<Rightarrow>
                Ready t (map_err (\<lambda>e. HceDecode (''cannot decode adjudication response: '' @ e))
                  (decode_all adjudicated_of_event resp))
            | Unwinds t \<Rightarrow> Panics t), w'))"

definition client_adjudicate ::
  "wire_env \<Rightarrow> nat \<Rightarrow> 'w network \<Rightarrow> event \<Rightarrow> 'w
     \<Rightarrow> (harness_client_error + adjudicated) future \<times> 'w" where
  "client_adjudicate W timeout N event w =
     (case client_adjudicates W timeout N [event] w of
        (results, w') \<Rightarrow>
          (and_then_ok results (\<lambda>rs. Ready 0
             (if rs = [] then Inl (HceDecode ''empty adjudicates response'')
              else Inr (last rs))), w'))"

text \<open>
  The verdicts the client returns are the engine's, in order, on the events as the wire carries
  them.
\<close>

lemma client_batch:
  assumes "honest N W E clock scans" "client_adjudicates W timeout N es w = (Ready n (Inr as), w')"
  shows "\<exists>evs. decode_all (event_of_pb W) (map (pb_of_event W) es) = Inr evs
    \<and> engine_all E evs w = (Inr as, w') \<and> n \<le> timeout"
proof -
  let ?req = "map (pb_of_event W) es"
  obtain rpc resp where rpc: "N ?req w = (rpc, w')"
    and resp: "timeout_at timeout 0 rpc = Value n (Some (Inr resp))"
      "decode_all adjudicated_of_event resp = Inr as"
    using assms(2)
    by (auto simp: client_adjudicates_def map_err_def
        split: prod.splits awaited.splits option.splits sum.splits)
  then have "rpc = Ready n (Inr resp)" "n \<le> timeout" by (auto simp: timeout_at_Some)
  then obtain sent where "rpc_adjudicates W E clock scans ?req w = (Inr resp, sent, w')"
    using assms(1) rpc unfolding honest_def by blast
  from rpc_loop_Inr[OF this[unfolded rpc_adjudicates_def]] show ?thesis
    using resp(2) \<open>n \<le> timeout\<close> by auto
qed

text \<open>A verdict the client returns is the engine's, on the event as the wire carries it.\<close>

lemma client_verdict:
  assumes "honest N W E clock scans" "client_adjudicate W timeout N e w = (Ready n (Inr a), w')"
  shows "\<exists>e'. event_of_pb W (pb_of_event W e) = Inr e' \<and> E e' w = (Inr a, w') \<and> n \<le> timeout"
proof -
  obtain rs where rs: "client_adjudicates W timeout N [e] w = (Ready n (Inr rs), w')" "a = last rs"
    using assms(2) by (auto simp: client_adjudicate_def and_then_ok_Inr split: prod.splits if_splits)
  from client_batch[OF assms(1) rs(1)] show ?thesis using rs(2)
    by (auto simp: bind_result_Inr_iff split: prod.splits sum.splits)
qed

lemma client_in_time:
  "client_adjudicate W timeout N e w = (Ready n r, w') \<Longrightarrow> n \<le> timeout"
  by (auto simp: client_adjudicate_def client_adjudicates_def and_then_ok_def and_then_def
      dest: timeout_at_time split: prod.splits awaited.splits option.splits sum.splits future.splits)

end
