(* ===== verification/Hook_Tool.thy ===== *)
theory Hook_Tool
  imports Trajectory
begin

text \<open>
  The tool classifier the bare-envelope providers share (\<open>crates/hooks/core/src/tool.rs\<close>): a
  tool name is folded, looked up, and the call's arguments say what it touches. The mapper
  before a call asks for the action, the one after it whether there would have been one.
\<close>

section \<open>Names\<close>

text \<open>
  \<open>normalize_tool_name\<close>. The characters it drops and the letters it folds are ASCII, so acting
  on bytes is acting on characters.
\<close>

definition normalize_tool_name :: "string \<Rightarrow> string" where
  "normalize_tool_name name =
     map ascii_lower (filter (\<lambda>c. c \<noteq> CHR ''_'' \<and> c \<noteq> CHR ''-'' \<and> c \<noteq> CHR '' '') name)"

definition file_path_keys :: "string list" where
  "file_path_keys =
     [''filePath'', ''file_path'', ''absolutePath'', ''absolute_path'', ''AbsolutePath'',
      ''targetFile'', ''target_file'', ''TargetFile'', ''notebook_path'', ''notebookPath'',
      ''path'', ''Path'', ''file'', ''uri'']"

definition string_arg :: "json \<Rightarrow> string list \<Rightarrow> string option" where
  "string_arg args ks = find_map (\<lambda>k. Option.bind (jget k args) as_str) ks"

definition file_path_arg :: "json \<Rightarrow> string" where
  "file_path_arg args = unwrap_or (string_arg args file_path_keys) []"

definition content_keys :: "string list" where
  "content_keys =
     [''content'', ''file_text'', ''fileText'', ''new_str'', ''newStr'', ''new_string'',
      ''newString'', ''new_content'', ''newContent'', ''text'', ''code'',
      ''insert_line_content'']"

definition old_content_keys :: "string list" where
  "old_content_keys =
     [''old_str'', ''oldStr'', ''old_string'', ''oldString'', ''old_content'', ''oldContent'']"

definition patch_keys :: "string list" where
  "patch_keys =
     [''patch'', ''diff'', ''input'']"

definition patch_tools :: "string list" where
  "patch_tools =
     [''applypatch'', ''patch'', ''applydiff'']"

section \<open>File operations\<close>

definition file_op_for_name :: "string \<Rightarrow> file_op_type option" where
  "file_op_for_name folded =
     (if folded \<in> set [''read'', ''readfile'', ''readfiles'', ''readmanyfiles'', ''view'', ''viewfile'',
           ''openfile'']
      then Some OpRead
      else if folded \<in> set [''write'', ''writefile'', ''create'', ''createfile'', ''newfile'',
           ''savefile'']
      then Some OpWrite
      else if folded \<in> set [''edit'', ''editfile'', ''editfiles'', ''replace'', ''strreplace'',
           ''replaceinfile'', ''replacestringinfile'', ''inserteditintofile'', ''multiedit'',
           ''applypatch'', ''patch'', ''applydiff'']
      then Some OpEdit
      else if folded \<in> set [''delete'', ''deletefile'', ''removefile'', ''rmfile'']
      then Some OpDelete
      else None)"

definition multiplexed_editors :: "string list" where
  "multiplexed_editors =
     [''strreplaceeditor'', ''strreplacebasededittool'', ''texteditor'']"

definition editor_op :: "string \<Rightarrow> file_op_type" where
  "editor_op command =
     (if command = ''view'' \<or> command = ''read'' then OpRead
      else if command = ''create'' \<or> command = ''write'' then OpWrite
      else if command = ''delete'' \<or> command = ''remove'' then OpDelete
      else OpEdit)"

definition file_op_for :: "string \<Rightarrow> json \<Rightarrow> file_op_type option" where
  "file_op_for tool_name args =
     (let folded = normalize_tool_name tool_name in
      if folded \<in> set multiplexed_editors
      then Some (editor_op (unwrap_or (map_option normalize_tool_name
             (string_arg args [''command'', ''subcommand'', ''operation'', ''action''])) []))
      else file_op_for_name folded)"

definition file_operation_for :: "string \<Rightarrow> json \<Rightarrow> string \<Rightarrow> file_operation option" where
  "file_operation_for tool_name args call_id =
     Option.bind (file_op_for tool_name args) (\<lambda>operation.
       let path = file_path_arg args;
           is_patch = normalize_tool_name tool_name \<in> set patch_tools;
           content = opt_else (string_arg args content_keys) (string_arg args patch_keys)
       in if path = [] \<and> \<not> is_patch then None
          else if path = [] \<and> content = None then None
          else Some \<lparr>fo_call_id = call_id, fo_operation = operation, fo_path = path,
            fo_content = content, fo_old_content = string_arg args old_content_keys\<rparr>)"

section \<open>Web fetches\<close>

definition web_tools :: "string list" where
  "web_tools =
     [''webfetch'', ''fetch'', ''fetchwebpage'', ''fetchurl'', ''readurl'', ''readurlcontent'',
      ''weburl'', ''httprequest'', ''http'']"

definition url_keys :: "string list" where
  "url_keys =
     [''url'', ''Url'', ''URL'', ''uri'', ''href'', ''link'']"

definition is_web_tool :: "string \<Rightarrow> bool" where
  "is_web_tool tool_name \<longleftrightarrow> normalize_tool_name tool_name \<in> set web_tools"

definition first_string_in_list :: "json \<Rightarrow> string list \<Rightarrow> string option" where
  "first_string_in_list args ks =
     find_map (\<lambda>k. Option.bind (Option.bind (jget k args) as_array) (find_map as_str)) ks"

definition web_url_arg :: "json \<Rightarrow> string option" where
  "web_url_arg args =
     opt_else (string_arg args url_keys) (first_string_in_list args [''urls'', ''links''])"

definition web_fetch_for :: "string \<Rightarrow> json \<Rightarrow> string \<Rightarrow> web_fetch option" where
  "web_fetch_for tool_name args call_id =
     (if \<not> is_web_tool tool_name then None
      else Option.bind
        (opt_else (string_arg args url_keys) (first_string_in_list args [''urls'', ''links'']))
        (\<lambda>url. Some \<lparr>wf_call_id = call_id, wf_url = url,
          wf_prompt = unwrap_or (string_arg args
            [''prompt'', ''query'', ''question'', ''instructions'']) []\<rparr>))"

definition is_file_operation :: "string \<Rightarrow> json \<Rightarrow> bool" where
  "is_file_operation tool_name args \<longleftrightarrow> file_operation_for tool_name args [] \<noteq> None"

definition is_web_fetch :: "string \<Rightarrow> json \<Rightarrow> bool" where
  "is_web_fetch tool_name args \<longleftrightarrow> web_fetch_for tool_name args [] \<noteq> None"

section \<open>Facts the mappers rely on\<close>

lemma normalize_idem [simp]:
  "normalize_tool_name (normalize_tool_name n) = normalize_tool_name n"
  by (induction n) (auto simp: normalize_tool_name_def ascii_lower_eq_iff is_lower_def)

text \<open>Every spelling of a name classifies alike.\<close>

lemma file_op_spelling:
  "normalize_tool_name n = normalize_tool_name m \<Longrightarrow>
     file_operation_for n args i = file_operation_for m args i"
  by (simp add: file_operation_for_def file_op_for_def)

lemma web_spelling:
  "normalize_tool_name n = normalize_tool_name m \<Longrightarrow>
     web_fetch_for n args i = web_fetch_for m args i"
  by (simp add: web_fetch_for_def is_web_tool_def)

text \<open>The two halves of a call agree, whatever identifier either was given.\<close>

lemma file_operation_iff: "is_file_operation n args \<longleftrightarrow> (\<exists>op. file_operation_for n args i = Some op)"
  by (auto simp: is_file_operation_def file_operation_for_def Let_def split: Option.bind_splits if_splits)

lemma web_fetch_iff: "is_web_fetch n args \<longleftrightarrow> (\<exists>w. web_fetch_for n args i = Some w)"
  by (auto simp: is_web_fetch_def web_fetch_for_def split: Option.bind_splits if_splits)

lemma file_operation_None: "file_operation_for n args i = None \<longleftrightarrow> \<not> is_file_operation n args"
  using file_operation_iff[of n args i] by auto

lemma web_fetch_None: "web_fetch_for n args i = None \<longleftrightarrow> \<not> is_web_fetch n args"
  using web_fetch_iff[of n args i] by auto

lemma classified:
  "file_operation_for n args i = Some op \<Longrightarrow> is_file_operation n args"
  "web_fetch_for n args i = Some w \<Longrightarrow> is_web_fetch n args"
  using file_operation_iff[of n args i] web_fetch_iff[of n args i] by auto

lemma web_fetch_SomeD:
  "web_fetch_for n args i = Some w \<Longrightarrow> wf_call_id w = i \<and> web_url_arg args = Some (wf_url w)"
  by (auto simp: web_fetch_for_def web_url_arg_def split: if_splits Option.bind_splits)

lemma patch_tool_edits:
  assumes "n \<in> set patch_tools" shows "file_op_for_name n = Some OpEdit" "n \<notin> set multiplexed_editors"
proof -
  have "list_all (\<lambda>f. file_op_for_name f = Some OpEdit \<and> f \<notin> set multiplexed_editors) patch_tools"
    by code_simp
  then show "file_op_for_name n = Some OpEdit" "n \<notin> set multiplexed_editors"
    using assms by (auto simp: list_all_iff)
qed

lemma file_operation_SomeD:
  assumes "file_operation_for n args i = Some op"
  shows "fo_call_id op = i" "fo_path op = file_path_arg args"
    "file_op_for n args = Some (fo_operation op)"
    "fo_path op = [] \<Longrightarrow> normalize_tool_name n \<in> set patch_tools \<and> fo_operation op = OpEdit
        \<and> fo_content op \<noteq> None"
  using assms patch_tool_edits[of "normalize_tool_name n"]
  by (auto simp: file_operation_for_def file_op_for_def Let_def split: if_splits Option.bind_splits)

text \<open>The two classifiers never claim the same tool name.\<close>

lemma web_tool_not_file:
  assumes "is_web_tool n" shows "file_op_for n args = None"
proof -
  have "list_all (\<lambda>f. f \<notin> set multiplexed_editors \<and> file_op_for_name f = None) web_tools"
    by code_simp
  then show ?thesis using assms
    by (auto simp: is_web_tool_def file_op_for_def list_all_iff Let_def)
qed

lemma file_and_web_disjoint: "\<not> (is_file_operation n args \<and> is_web_fetch n args)"
proof
  assume both: "is_file_operation n args \<and> is_web_fetch n args"
  then have "is_web_tool n" by (auto simp: is_web_fetch_def web_fetch_for_def split: if_splits)
  then show False using both web_tool_not_file[of n args]
    by (auto simp: is_file_operation_def file_operation_for_def)
qed

end
