(* ===== verification/Hook_Adapter.thy ===== *)
theory Hook_Adapter
  imports Service Hook_Tool
begin

text \<open>
  What the provider adapters (\<open>crates/hooks/*\<close>) have in common: a client that adjudicates one
  event, the two ways a handler uses its answer, the steering text, and the contract that makes
  an adapter enforce. The contract is proved once here, down to the engine behind the service.
\<close>

section \<open>Handlers\<close>

text \<open>\<open>HarnessClient::adjudicate\<close>.\<close>

type_synonym 'w client = "event \<Rightarrow> 'w \<Rightarrow> (harness_client_error + adjudicated) future \<times> 'w"

type_synonym ('r, 'w) handler = "'w \<Rightarrow> (hook_error + 'r) future \<times> 'w"

text \<open>A handler that fails before it asks, and one that answers without asking.\<close>

definition answer :: "hook_error + 'r \<Rightarrow> ('r, 'w) handler" where
  "answer r w = (Ready 0 r, w)"

text \<open>\<open>harness.adjudicate(ev).await?\<close> and a response from the verdict.\<close>

definition enforce :: "'w client \<Rightarrow> event \<Rightarrow> (adjudicated \<Rightarrow> 'r) \<Rightarrow> ('r, 'w) handler" where
  "enforce C ev f w =
     (case C ev w of
        (fut, w') \<Rightarrow> (and_then fut (\<lambda>r. Ready 0
          (case r of Inl e \<Rightarrow> Inl (hook_error_of_client e) | Inr a \<Rightarrow> Inr (f a))), w'))"

text \<open>
  \<open>match harness.adjudicate(ev).await\<close> where an error is logged and answered too: \<open>g\<close> is the
  response without a verdict.
\<close>

definition observe :: "'w client \<Rightarrow> event \<Rightarrow> (adjudicated \<Rightarrow> 'r) \<Rightarrow> 'r \<Rightarrow> ('r, 'w) handler" where
  "observe C ev f g w =
     (case C ev w of
        (fut, w') \<Rightarrow> (and_then fut (\<lambda>r. Ready 0
          (Inr (case r of Inl _ \<Rightarrow> g | Inr a \<Rightarrow> f a))), w'))"

lemma enforce_Inr:
  assumes "enforce C ev f w = (Ready n (Inr r), w')"
  shows "\<exists>a. C ev w = (Ready n (Inr a), w') \<and> r = f a"
  using assms
  by (auto simp: enforce_def and_then_def split: prod.splits future.splits sum.splits)

text \<open>A failed observation is never an error of the hook.\<close>

lemma observe_no_error: "observe C ev f g w \<noteq> (Ready n (Inl e), w')"
  by (auto simp: observe_def and_then_def split: prod.splits future.splits)

text \<open>
  \<open>serde_json::from_value(raw)?\<close>, \<open>event.validate()?\<close> and the handler of the event.
\<close>

definition parsed :: "string + 'e \<Rightarrow> ('e \<Rightarrow> hook_error + unit) \<Rightarrow> ('e \<Rightarrow> ('r, 'w) handler) \<Rightarrow> ('r, 'w) handler"
  where
  "parsed r validate handle =
     (case bind_result (map_err HeJson r) (\<lambda>e. bind_result (validate e) (\<lambda>_. Inr e)) of
        Inl err \<Rightarrow> answer (Inl err)
      | Inr e \<Rightarrow> handle e)"

lemma parsed_Inr:
  assumes "parsed r validate handle w = (Ready k (Inr x), w')"
  shows "\<exists>e. r = Inr e \<and> validate e = Inr () \<and> handle e w = (Ready k (Inr x), w')"
  using assms by (auto simp: parsed_def answer_def bind_result_def map_err_def split: sum.splits)

abbreviation no_check :: "'e \<Rightarrow> hook_error + unit" where "no_check \<equiv> (\<lambda>_. Inr ())"

text \<open>The \<open>connect\<close> closure: \<open>connect_harness_for_hook(..).await?\<close>.\<close>

definition connected :: "(harness_client_error + 'h) future \<Rightarrow> (hook_error + 'h) future" where
  "connected connection = and_then connection (\<lambda>r. Ready 0 (map_err hook_error_of_client r))"

lemma connected_Inr: "connected connection = Ready n (Inr h) \<longleftrightarrow> connection = Ready n (Inr h)"
  by (auto simp: connected_def and_then_def map_err_def split: future.splits sum.splits)

text \<open>An adapter that connects inside its dispatch: the connection, then the handler.\<close>

definition connecting ::
  "(harness_client_error + 'w client) future \<Rightarrow> ('w client \<Rightarrow> ('r, 'w) handler) \<Rightarrow> ('r, 'w) handler"
  where
  "connecting conn handle w =
     (case conn of
        Ready n (Inl e) \<Rightarrow> (Ready n (Inl (hook_error_of_client e)), w)
      | Ready n (Inr C) \<Rightarrow>
          (case handle C w of (fut, w') \<Rightarrow> (and_then (Ready n ()) (\<lambda>_. fut), w'))
      | Panics n \<Rightarrow> (Panics n, w)
      | Never \<Rightarrow> (Never, w))"

lemma connecting_Inr:
  assumes "connecting conn handle w = (Ready k (Inr r), w')"
  shows "\<exists>n C m. conn = Ready n (Inr C) \<and> handle C w = (Ready m (Inr r), w')"
  using assms
  by (auto simp: connecting_def and_then_def split: future.splits sum.splits prod.splits)

text \<open>Handlers in sequence: \<open>h.await?\<close> and then what its value selects.\<close>

definition and_next ::
  "('w \<Rightarrow> ('e + 'a) future \<times> 'w) \<Rightarrow> ('a \<Rightarrow> 'w \<Rightarrow> ('e + 'r) future \<times> 'w) \<Rightarrow> 'w \<Rightarrow> ('e + 'r) future \<times> 'w"
  where
  "and_next h f w =
     (case h w of
        (Ready n (Inr a), w') \<Rightarrow> (case f a w' of (fut, w'') \<Rightarrow> (and_then (Ready n ()) (\<lambda>_. fut), w''))
      | (Ready n (Inl e), w') \<Rightarrow> (Ready n (Inl e), w')
      | (Panics n, w') \<Rightarrow> (Panics n, w')
      | (Never, w') \<Rightarrow> (Never, w'))"

lemma and_next_Inr:
  assumes "and_next h f w = (Ready k (Inr r), w')"
  shows "\<exists>n a w1 m. h w = (Ready n (Inr a), w1) \<and> f a w1 = (Ready m (Inr r), w')"
  using assms
  by (auto simp: and_next_def and_then_def split: future.splits sum.splits prod.splits)

text \<open>
  A loop that adjudicates events one after the other and returns early with the response \<open>f\<close>
  gives for a verdict, if it gives one.
\<close>

fun ask_in_turn ::
  "'w client \<Rightarrow> (event \<times> (adjudicated \<Rightarrow> 'r option)) list \<Rightarrow> ('r option, 'w) handler" where
  "ask_in_turn C [] = answer (Inr None)"
| "ask_in_turn C ((ev, f) # rest) =
     and_next (enforce C ev f)
       (\<lambda>r. case r of Some x \<Rightarrow> answer (Inr (Some x)) | None \<Rightarrow> ask_in_turn C rest)"

text \<open>Every event was answered, in this order, by a verdict the loop goes on after.\<close>

fun all_passed ::
  "'w client \<Rightarrow> (event \<times> (adjudicated \<Rightarrow> 'r option)) list \<Rightarrow> 'w \<Rightarrow> 'w \<Rightarrow> bool" where
  "all_passed C [] w w' \<longleftrightarrow> w = w'"
| "all_passed C ((ev, f) # rest) w w' \<longleftrightarrow>
     (\<exists>n a w1. C ev w = (Ready n (Inr a), w1) \<and> f a = None \<and> all_passed C rest w1 w')"

lemma answer_Inr: "answer x w = (Ready k (Inr r), w') \<longleftrightarrow> k = 0 \<and> x = Inr r \<and> w' = w"
  by (auto simp: answer_def)

lemma ask_in_turn_None:
  "ask_in_turn C evs w = (Ready k (Inr None), w') \<Longrightarrow> all_passed C evs w w'"
proof (induction C evs arbitrary: w k rule: ask_in_turn.induct)
  case (1 C)
  then show ?case by (simp add: answer_Inr)
next
  case (2 C ev f rest)
  from and_next_Inr[OF "2.prems"[unfolded ask_in_turn.simps]] obtain n x w1 m where
    x: "enforce C ev f w = (Ready n (Inr x), w1)"
    "(case x of Some y \<Rightarrow> answer (Inr (Some y)) | None \<Rightarrow> ask_in_turn C rest) w1 = (Ready m (Inr None), w')"
    by blast
  then have "x = None" by (cases x) (auto simp: answer_Inr)
  then show ?case using enforce_Inr[OF x(1)] x(2) "2.IH"[of w1 m] by auto
qed

lemma ask_in_turn_Some:
  "ask_in_turn C evs w = (Ready k (Inr (Some r)), w') \<Longrightarrow> \<exists>ev f a. (ev, f) \<in> set evs \<and> f a = Some r"
proof (induction C evs arbitrary: w k rule: ask_in_turn.induct)
  case (1 C)
  then show ?case by (simp add: answer_Inr)
next
  case (2 C ev f rest)
  from and_next_Inr[OF "2.prems"[unfolded ask_in_turn.simps]] obtain n x w1 m where
    x: "enforce C ev f w = (Ready n (Inr x), w1)"
    "(case x of Some y \<Rightarrow> answer (Inr (Some y)) | None \<Rightarrow> ask_in_turn C rest) w1 = (Ready m (Inr (Some r)), w')"
    by blast
  show ?case
  proof (cases x)
    case None
    then show ?thesis using "2.IH"[of w1 m] x(2) by auto
  next
    case (Some y)
    then have "x = Some r" using x(2) by (auto simp: answer_Inr)
    moreover obtain a where "x = f a" using enforce_Inr[OF x(1)] by blast
    ultimately show ?thesis by (intro exI[of _ ev] exI[of _ f] exI[of _ a]) auto
  qed
qed

text \<open>A handler that panics: the \<open>unreachable!()\<close> of a command handled before dispatch.\<close>

definition unreachable :: "('r, 'w) handler" where
  "unreachable w = (Panics 0, w)"

lemma unreachable_no_response [simp]: "unreachable w \<noteq> (Ready k x, w')"
  by (simp add: unreachable_def)

text \<open>
  \<open>steering_context\<close>, the same function in several adapters: the explanation unless it is
  blank, then the instructions, on lines of their own.
\<close>

definition steering_context :: "adjudicated \<Rightarrow> string option" where
  "steering_context a =
     Option.bind (adj_steering a) (\<lambda>s.
       let parts = (if trim (st_explanation s) = [] then [] else [st_explanation s])
             @ (if st_instructions s = [] then [] else [join [CHR 0x0A] (st_instructions s)])
       in if parts = [] then None else Some (join [CHR 0x0A] parts))"

text \<open>The first string-valued field under some keys, as a handler reads a value.\<close>

definition str_field :: "string list \<Rightarrow> json \<Rightarrow> string option" where
  "str_field ks v = find_map (\<lambda>k. Option.bind (jget k v) as_str) ks"

definition int_field :: "string list \<Rightarrow> json \<Rightarrow> i64 option" where
  "int_field ks v = find_map (\<lambda>k. Option.bind (jget k v) as_i64) ks"

text \<open>
  Writing and reading responses: a field \<open>serde\<close> leaves out when it is absent, and whether the
  JSON says something at a path.
\<close>

definition opt_field :: "string \<Rightarrow> json option \<Rightarrow> (string \<times> json) list" where
  "opt_field k v = (case v of None \<Rightarrow> [] | Some x \<Rightarrow> [(k, x)])"

definition json_says :: "json \<Rightarrow> string list \<Rightarrow> string \<Rightarrow> bool" where
  "json_says v path s \<longleftrightarrow>
     foldl (\<lambda>v k. Option.bind v (jget k)) (Some v) path = Some (JStr s)"

text \<open>\<open>serde_json::from_str\<close> into a value.\<close>

type_synonym json_reader = "string \<Rightarrow> json option"

text \<open>The cast \<open>code as i32\<close> keeps the low 32 bits.\<close>

definition as_i32 :: "i64 \<Rightarrow> i32" where "as_i32 c = ucast c"

text \<open>\<open>i32::try_from\<close> of a 64-bit integer.\<close>

definition i32_try_from :: "i64 \<Rightarrow> i32 option" where
  "i32_try_from n = (if - (2 ^ 31) \<le> sint n \<and> sint n < 2 ^ 31 then Some (ucast n) else None)"

definition nonempty :: "string \<Rightarrow> string option" where
  "nonempty s = (if s = [] then None else Some s)"

text \<open>The two halves of a call name the same kind of thing.\<close>

definition answers_action :: "action \<Rightarrow> observation \<Rightarrow> bool" where
  "answers_action a ob \<longleftrightarrow>
     (case (a, ob) of
        (ShellCommand c, ShellCommandOutput r) \<Rightarrow> sco_call_id r = shc_call_id c
      | (FileOperation op, FileOperationResult r) \<Rightarrow>
          fr_call_id r = fo_call_id op \<and> unwrap_or (fr_path r) [] = fo_path op
      | (WebFetch f, WebFetchOutput r) \<Rightarrow> wfo_call_id r = wf_call_id f \<and> wfo_url r = wf_url f
      | (ToolCall c, ToolOutput r) \<Rightarrow> to_call_id r = tc_call_id c
      | _ \<Rightarrow> False)"

text \<open>Less: the same kind, whatever the identifiers.\<close>

fun same_half :: "action \<Rightarrow> observation \<Rightarrow> bool" where
  "same_half (ShellCommand _) (ShellCommandOutput _) = True"
| "same_half (FileOperation _) (FileOperationResult _) = True"
| "same_half (WebFetch _) (WebFetchOutput _) = True"
| "same_half (ToolCall _) (ToolOutput _) = True"
| "same_half _ _ = False"

lemma nonempty_unwrap [simp]: "unwrap_or (nonempty s) [] = s"
  by (simp add: nonempty_def)

text \<open>
  A hook process up to its response: the run loop around the adapter's handlers, in the world
  they start from.
\<close>

definition run_hook ::
  "string option \<Rightarrow> 'c \<Rightarrow> ('c \<Rightarrow> hook_error \<Rightarrow> 'r) \<Rightarrow> ('h \<Rightarrow> 'c \<Rightarrow> json \<Rightarrow> ('r, 'w) handler)
     \<Rightarrow> (hook_error + json) future \<Rightarrow> (hook_error + 'h) future \<Rightarrow> 'w \<Rightarrow> (nat \<times> 'r) option" where
  "run_hook env c degraded dispatch stdin connect w =
     resolve_hook env c degraded stdin connect (\<lambda>h c v. fst (dispatch h c v w))"

text \<open>
  What follows a response: it is handed to stdout, which may be closed (\<open>stdout\<close> is the outcome of
  writing and flushing it), and the process exits with 2 for a denial under the adapters that
  enforce by exit code. A write that fails is the error of \<open>run\<close>: nothing is printed and the process
  exits with 1, denial or not.
\<close>

definition output_response :: "hook_error + unit \<Rightarrow> json \<Rightarrow> hook_error + json" where
  "output_response stdout response = map_sum id (\<lambda>_. response) stdout"

definition exit_after :: "hook_error + unit \<Rightarrow> json \<Rightarrow> bool \<Rightarrow> json option \<times> nat" where
  "exit_after stdout response denied =
     (case output_response stdout response of
        Inl _ \<Rightarrow> (None, 1)
      | Inr out \<Rightarrow> (Some out, if denied then 2 else 0))"

lemma exit_after_simps [simp]:
  "exit_after (Inr ()) response denied = (Some response, if denied then 2 else 0)"
  "exit_after (Inl err) response denied = (None, 1)"
  by (simp_all add: exit_after_def output_response_def)

section \<open>The contract of an enforcing adapter\<close>

text \<open>
  The client answered an event a command is adjudicated by, read from stdin, with a verdict of
  some kind; most often, with Allow.
\<close>

definition answered_by ::
  "(hook_error + json) future \<Rightarrow> (json \<Rightarrow> event \<Rightarrow> bool) \<Rightarrow> 'w client \<Rightarrow> 'w \<Rightarrow> (adjudicated \<Rightarrow> bool) \<Rightarrow> bool"
  where
  "answered_by stdin asks C w kind \<longleftrightarrow>
     (\<exists>n v ev k a w'. stdin = Ready n (Inr v) \<and> asks v ev \<and> C ev w = (Ready k (Inr a), w') \<and> kind a)"

definition answered_allow ::
  "(hook_error + json) future \<Rightarrow> (json \<Rightarrow> event \<Rightarrow> bool) \<Rightarrow> 'w client \<Rightarrow> 'w \<Rightarrow> bool" where
  "answered_allow stdin asks C w \<longleftrightarrow> answered_by stdin asks C w (\<lambda>a. adj_decision a = Allow)"

lemma answered_by_mono:
  "answered_by stdin asks C w K \<Longrightarrow> (\<And>a. K a \<Longrightarrow> K' a) \<Longrightarrow> answered_by stdin asks C w K'"
  unfolding answered_by_def by blast

text \<open>
  \<open>dispatch\<close> runs the handler of a command with what the connection gave. \<open>justifies\<close> says what an
  enforcement command must have been told, between two worlds, for a response that does not deny.
\<close>

locale justified = fail_closed is_adjudication degraded is_deny
  for is_adjudication :: "'c \<Rightarrow> bool" and degraded :: "'c \<Rightarrow> hook_error \<Rightarrow> 'r"
    and is_deny :: "'r \<Rightarrow> bool" +
  fixes dispatch :: "'h \<Rightarrow> 'c \<Rightarrow> json \<Rightarrow> ('r, 'w) handler"
    and justifies :: "'h \<Rightarrow> 'c \<Rightarrow> json \<Rightarrow> 'r \<Rightarrow> 'w \<Rightarrow> 'w \<Rightarrow> bool"
  assumes justification: "is_adjudication c \<Longrightarrow> \<not> is_deny r \<Longrightarrow>
      dispatch h c v w = (Ready k (Inr r), w') \<Longrightarrow> justifies h c v r w w'"
begin

lemma run_justified:
  assumes "is_adjudication c" "\<not> is_deny r" "run_hook env c degraded dispatch stdin connect w = Some (t, r)"
  shows "\<exists>n v m h w'. stdin = Ready n (Inr v) \<and> connect = Ready m (Inr h) \<and> justifies h c v r w w'"
proof -
  obtain n v m h k where h: "stdin = Ready n (Inr v)" "connect = Ready m (Inr h)"
    "fst (dispatch h c v w) = Ready k (Inr r)"
    using not_denied_is_handled[OF assms(1,2) assms(3)[unfolded run_hook_def]]
    unfolding handled_within_def by blast
  then have "dispatch h c v w = (Ready k (Inr r), snd (dispatch h c v w))"
    by (metis prod.collapse)
  from justification[OF assms(1,2) this] h(1,2) show ?thesis by blast
qed

end

text \<open>
  Most adapters ask once. \<open>reaches\<close> says which client the connection gave, and \<open>asks\<close> which event a
  command is adjudicated by; a response that does not deny was answered by a verdict that \<open>passes\<close>.
\<close>

definition asked_once ::
  "('h \<Rightarrow> 'w client \<Rightarrow> bool) \<Rightarrow> ('c \<Rightarrow> json \<Rightarrow> event \<Rightarrow> bool) \<Rightarrow> ('c \<Rightarrow> 'r \<Rightarrow> adjudicated \<Rightarrow> bool)
     \<Rightarrow> 'h \<Rightarrow> 'c \<Rightarrow> json \<Rightarrow> 'r \<Rightarrow> 'w \<Rightarrow> 'w \<Rightarrow> bool" where
  "asked_once reaches asks passes h c v r w w' \<longleftrightarrow>
     (\<exists>C ev n a. reaches h C \<and> asks c v ev \<and> C ev w = (Ready n (Inr a), w') \<and> passes c r a)"

locale gating = fail_closed is_adjudication degraded is_deny
  for is_adjudication :: "'c \<Rightarrow> bool" and degraded :: "'c \<Rightarrow> hook_error \<Rightarrow> 'r"
    and is_deny :: "'r \<Rightarrow> bool" +
  fixes dispatch :: "'h \<Rightarrow> 'c \<Rightarrow> json \<Rightarrow> ('r, 'w) handler"
    and reaches :: "'h \<Rightarrow> 'w client \<Rightarrow> bool"
    and asks :: "'c \<Rightarrow> json \<Rightarrow> event \<Rightarrow> bool"
    and passes :: "'c \<Rightarrow> 'r \<Rightarrow> adjudicated \<Rightarrow> bool"
  assumes gated: "is_adjudication c \<Longrightarrow> \<not> is_deny r \<Longrightarrow>
      dispatch h c v w = (Ready k (Inr r), w') \<Longrightarrow>
      \<exists>C ev n a. reaches h C \<and> asks c v ev \<and> C ev w = (Ready n (Inr a), w') \<and> passes c r a"

sublocale gating \<subseteq> justified is_adjudication degraded is_deny dispatch "asked_once reaches asks passes"
  by unfold_locales (unfold asked_once_def, rule gated)

context gating
begin

lemma run_gated:
  assumes "is_adjudication c" "\<not> is_deny r" "run_hook env c degraded dispatch stdin connect w = Some (t, r)"
  shows "\<exists>n v m h C ev k a w'. stdin = Ready n (Inr v) \<and> connect = Ready m (Inr h)
    \<and> reaches h C \<and> asks c v ev \<and> C ev w = (Ready k (Inr a), w') \<and> passes c r a"
  using run_justified[OF assms] unfolding asked_once_def by blast

lemma run_answered:
  assumes "is_adjudication c" "\<not> is_deny r" "run_hook env c degraded dispatch stdin connect w = Some (t, r)"
    "\<And>m h C'. connect = Ready m (Inr h) \<Longrightarrow> reaches h C' \<Longrightarrow> C' = C"
  shows "answered_by stdin (asks c) C w (passes c r)"
  using run_gated[OF assms(1-3)] assms(4) unfolding answered_by_def by blast

text \<open>With the gRPC client, the verdict is the engine's on the event as it crossed the wire.\<close>

lemma run_engine_answered:
  assumes "is_adjudication c" "\<not> is_deny r" "run_hook env c degraded dispatch stdin connect w = Some (t, r)"
    "honest N W E clock scans"
    "\<And>m h C. connect = Ready m (Inr h) \<Longrightarrow> reaches h C \<Longrightarrow> C = client_adjudicate W timeout N"
  shows "\<exists>n v ev e' a w'. stdin = Ready n (Inr v) \<and> asks c v ev
    \<and> event_of_pb W (pb_of_event W ev) = Inr e' \<and> E e' w = (Inr a, w') \<and> passes c r a"
proof -
  obtain n v m h C ev k a w' where r: "stdin = Ready n (Inr v)" "connect = Ready m (Inr h)"
    "reaches h C" "asks c v ev" "C ev w = (Ready k (Inr a), w')" "passes c r a"
    using run_gated[OF assms(1-3)] by blast
  then have "client_adjudicate W timeout N ev w = (Ready k (Inr a), w')" using assms(5) by blast
  from client_verdict[OF assms(4) this] r show ?thesis by blast
qed

end

text \<open>An adapter enforces when only Allow passes.\<close>

locale enforcing = fail_closed is_adjudication degraded is_deny
  for is_adjudication :: "'c \<Rightarrow> bool" and degraded :: "'c \<Rightarrow> hook_error \<Rightarrow> 'r"
    and is_deny :: "'r \<Rightarrow> bool" +
  fixes dispatch :: "'h \<Rightarrow> 'c \<Rightarrow> json \<Rightarrow> ('r, 'w) handler"
    and reaches :: "'h \<Rightarrow> 'w client \<Rightarrow> bool"
    and asks :: "'c \<Rightarrow> json \<Rightarrow> event \<Rightarrow> bool"
  assumes allowed: "is_adjudication c \<Longrightarrow> \<not> is_deny r \<Longrightarrow>
      dispatch h c v w = (Ready k (Inr r), w') \<Longrightarrow>
      \<exists>C ev n a. reaches h C \<and> asks c v ev \<and> C ev w = (Ready n (Inr a), w')
        \<and> adj_decision a = Allow"

sublocale enforcing \<subseteq> gating is_adjudication degraded is_deny dispatch reaches asks
  "\<lambda>_ _ a. adj_decision a = Allow"
  by unfold_locales (rule allowed)

context enforcing
begin

lemma run_cleared:
  assumes "is_adjudication c" "\<not> is_deny r" "run_hook env c degraded dispatch stdin connect w = Some (t, r)"
    "\<And>m h C'. connect = Ready m (Inr h) \<Longrightarrow> reaches h C' \<Longrightarrow> C' = C"
  shows "answered_allow stdin (asks c) C w"
  unfolding answered_allow_def by (rule run_answered[OF assms])

end

end
