(* ===== verification/Openhands.thy ===== *)
theory Openhands
  imports Hook_Adapter
begin

text \<open>
  The OpenHands adapter (\<open>crates/hooks/openhands/src/{types,hooks,lib}.rs\<close>): the events the
  SDK sends, the six handlers, the degraded responses and the exit code. Reading an event out
  of JSON is \<open>serde\<close>'s and a parameter, as are the JSON writer and the process's directory.
\<close>

section \<open>Events\<close>

record oh_common =
  ohc_event_type :: string
  ohc_session_id :: string
  ohc_working_dir :: string
  ohc_model :: "string option"
  ohc_metadata :: "string \<rightharpoonup> json"

record oh_session_start =
  ohs_common :: oh_common

record oh_pre_tool_use =
  ohp_common :: oh_common
  ohp_tool_name :: string
  ohp_tool_input :: json
  ohp_tool_call_id :: string

record oh_post_tool_use =
  oho_common :: oh_common
  oho_tool_name :: string
  oho_tool_input :: json
  oho_tool_response :: json
  oho_tool_call_id :: string

record oh_user_prompt_submit =
  ohu_common :: oh_common
  ohu_message :: string

record oh_stop =
  oht_common :: oh_common
  oht_reason :: "string option"
  oht_message :: "string option"

record oh_session_end =
  ohe_common :: oh_common
  ohe_reason :: "string option"

definition oh_trajectory_key :: "oh_common \<Rightarrow> string" where
  "oh_trajectory_key c =
     (if trim (ohc_session_id c) \<noteq> [] then ohc_session_id c
      else if trim (ohc_working_dir c) \<noteq> [] then ohc_working_dir c
      else ''openhands-session'')"

text \<open>\<open>cwd\<close> is \<open>std::env::current_dir()\<close>, when it is known.\<close>

definition oh_working_dir_or_current :: "string option \<Rightarrow> oh_common \<Rightarrow> string" where
  "oh_working_dir_or_current cwd c =
     (if trim (ohc_working_dir c) = [] then unwrap_or cwd [] else ohc_working_dir c)"

definition oh_metadata_string :: "oh_common \<Rightarrow> string \<Rightarrow> string option" where
  "oh_metadata_string c k = Option.bind (ohc_metadata c k) as_str"

text \<open>\<open>validate\<close> of a tool event; the other events have nothing to reject.\<close>

definition oh_validate_tool :: "string \<Rightarrow> hook_error + unit" where
  "oh_validate_tool tool_name =
     (if trim tool_name = [] then Inl (HeMessage ''tool_name cannot be empty'') else Inr ())"

definition oh_call_id :: "string \<Rightarrow> oh_common \<Rightarrow> string \<Rightarrow> string" where
  "oh_call_id explicit c tool_name =
     (if trim explicit \<noteq> [] then explicit
      else case find_map (oh_metadata_string c) [''tool_call_id'', ''tool_use_id'', ''call_id'', ''id'']
        of Some value \<Rightarrow> value
         | None \<Rightarrow> oh_trajectory_key c @ '':'' @ tool_name)"

definition oh_stop_reason :: "oh_stop \<Rightarrow> string option" where
  "oh_stop_reason e = opt_else (oht_reason e) (oh_metadata_string (oht_common e) ''reason'')"

definition oh_end_reason :: "oh_session_end \<Rightarrow> string option" where
  "oh_end_reason e = opt_else (ohe_reason e) (oh_metadata_string (ohe_common e) ''reason'')"

section \<open>Reading the payload\<close>

definition oh_is_shell_tool :: "string \<Rightarrow> bool" where
  "oh_is_shell_tool tool_name \<longleftrightarrow>
     to_ascii_lowercase tool_name \<in> set [''terminal'', ''bash'', ''shell'']"

definition oh_command_from_input :: "json_writer \<Rightarrow> json \<Rightarrow> string" where
  "oh_command_from_input J input =
     (case as_str input of
        Some command \<Rightarrow> command
      | None \<Rightarrow> unwrap_or (str_field [''command'', ''cmd'', ''input''] input) (J input))"

definition oh_exit_code_from_response :: "json \<Rightarrow> i32" where
  "oh_exit_code_from_response response =
     (case int_field [''exit_code'', ''exitCode'', ''status''] response of
        Some code \<Rightarrow> as_i32 code | None \<Rightarrow> 0)"

definition oh_status_from_response :: "json \<Rightarrow> i32" where
  "oh_status_from_response response =
     (case int_field [''status_code'', ''statusCode'', ''status'', ''code''] response of
        Some code \<Rightarrow> as_i32 code | None \<Rightarrow> 200)"

definition oh_string_field :: "json_writer \<Rightarrow> json \<Rightarrow> string list \<Rightarrow> string" where
  "oh_string_field J response ks =
     (case as_str response of
        Some s \<Rightarrow> s
      | None \<Rightarrow>
          (case str_field ks response of
             Some s \<Rightarrow> s
           | None \<Rightarrow> if ''stdout'' \<in> set ks \<or> ''output'' \<in> set ks then J response else []))"

section \<open>Mappers\<close>

definition oh_pre_action :: "json_writer \<Rightarrow> string option \<Rightarrow> oh_pre_tool_use \<Rightarrow> action" where
  "oh_pre_action J cwd e =
     (let tool_name = ohp_tool_name e;
          call_id = oh_call_id (ohp_tool_call_id e) (ohp_common e) tool_name
      in if oh_is_shell_tool tool_name then
           ShellCommand \<lparr>shc_call_id = call_id,
             shc_command = oh_command_from_input J (ohp_tool_input e),
             shc_working_dir = Some (oh_working_dir_or_current cwd (ohp_common e))\<rparr>
         else case file_operation_for tool_name (ohp_tool_input e) call_id of
             Some file_op \<Rightarrow> FileOperation file_op
           | None \<Rightarrow>
               (case web_fetch_for tool_name (ohp_tool_input e) call_id of
                  Some fetch \<Rightarrow> WebFetch fetch
                | None \<Rightarrow> ToolCall \<lparr>tc_call_id = call_id, tc_tool = tool_name,
                    tc_arguments = ohp_tool_input e\<rparr>))"

definition oh_file_result :: "json_writer \<Rightarrow> string \<Rightarrow> json \<Rightarrow> json \<Rightarrow> file_operation_result" where
  "oh_file_result J call_id tool_input response =
     (let error = oh_string_field J response [''error''];
          content = oh_string_field J response [''content'', ''output'', ''stdout'', ''text'']
      in \<lparr>fr_call_id = call_id, fr_success = (error = []),
          fr_path = nonempty (file_path_arg tool_input), fr_content = nonempty content,
          fr_error = nonempty error\<rparr>)"

definition oh_post_observation :: "json_writer \<Rightarrow> oh_post_tool_use \<Rightarrow> observation" where
  "oh_post_observation J e =
     (let tool_name = oho_tool_name e; response = oho_tool_response e;
          call_id = oh_call_id (oho_tool_call_id e) (oho_common e) tool_name
      in if oh_is_shell_tool tool_name then
           ShellCommandOutput \<lparr>sco_call_id = call_id,
             sco_exit_code = oh_exit_code_from_response response,
             sco_stdout = oh_string_field J response [''stdout'', ''output'', ''content''],
             sco_stderr = oh_string_field J response [''stderr'', ''error'']\<rparr>
         else if is_file_operation tool_name (oho_tool_input e) then
           FileOperationResult (oh_file_result J call_id (oho_tool_input e) response)
         else if is_web_fetch tool_name (oho_tool_input e) then
           WebFetchOutput \<lparr>wfo_call_id = call_id,
             wfo_url = unwrap_or (web_url_arg (oho_tool_input e)) [],
             wfo_code = oh_status_from_response response,
             wfo_result = oh_string_field J response [''content'', ''output'', ''text'', ''body'']\<rparr>
         else ToolOutput (tool_output_success call_id response))"

section \<open>Responses\<close>

definition oh_deny_response :: "adjudicated \<Rightarrow> string \<Rightarrow> decision_envelope" where
  "oh_deny_response a fallback =
     (let msg = deny_message a fallback in
      case steering_context a of
        Some ctx \<Rightarrow> envelope_deny_with_context msg ctx
      | None \<Rightarrow> envelope_deny msg)"

definition oh_blocking_response :: "string \<Rightarrow> string \<Rightarrow> adjudicated \<Rightarrow> decision_envelope" where
  "oh_blocking_response deny escalate a =
     (case adj_decision a of
        Allow \<Rightarrow> (case steering_context a of
            Some ctx \<Rightarrow> envelope_additional_context ctx | None \<Rightarrow> envelope_ok)
      | Deny \<Rightarrow> oh_deny_response a deny
      | Escalate \<Rightarrow> oh_deny_response a escalate)"

section \<open>Handlers\<close>

text \<open>What a process of the adapter has: its identity, fresh values, its directory, the writer.\<close>

record oh_env =
  oh_agent :: agent
  oh_fresh :: fresh
  oh_cwd :: "string option"
  oh_json :: json_writer

definition oh_event :: "oh_env \<Rightarrow> string \<Rightarrow> trajectory_event \<Rightarrow> event" where
  "oh_event V tid e = event_new (oh_fresh V) (oh_agent V) tid e"

definition oh_start_event :: "oh_env \<Rightarrow> oh_session_start \<Rightarrow> event" where
  "oh_start_event V e =
     oh_event V (oh_trajectory_key (ohs_common e)) (Control (Started (started_new (oh_agent V))))"

definition oh_pre_event :: "oh_env \<Rightarrow> oh_pre_tool_use \<Rightarrow> event" where
  "oh_pre_event V e =
     oh_event V (oh_trajectory_key (ohp_common e)) (Action (oh_pre_action (oh_json V) (oh_cwd V) e))"

definition oh_post_event :: "oh_env \<Rightarrow> oh_post_tool_use \<Rightarrow> event" where
  "oh_post_event V e =
     oh_event V (oh_trajectory_key (oho_common e)) (Observation (oh_post_observation (oh_json V) e))"

definition oh_prompt_event :: "oh_env \<Rightarrow> oh_user_prompt_submit \<Rightarrow> event" where
  "oh_prompt_event V e =
     with_actor (oh_event V (oh_trajectory_key (ohu_common e))
         (Observation (Prompt (prompt_user (ohu_message e)))))
       (actor_human (ag_id (oh_agent V)))"

definition oh_stop_event :: "oh_env \<Rightarrow> oh_stop \<Rightarrow> event" where
  "oh_stop_event V e =
     oh_event V (oh_trajectory_key (oht_common e))
       (Control (Completed (Some (unwrap_or (opt_else (oht_message e) (oh_stop_reason e))
          ''OpenHands requested stop''))))"

definition oh_end_event :: "oh_env \<Rightarrow> oh_session_end \<Rightarrow> event" where
  "oh_end_event V e =
     oh_event V (oh_trajectory_key (ohe_common e)) (Control (Completed (oh_end_reason e)))"

definition oh_handle_session_start ::
  "oh_env \<Rightarrow> 'w client \<Rightarrow> oh_session_start \<Rightarrow> (decision_envelope, 'w) handler" where
  "oh_handle_session_start V C e = observe C (oh_start_event V e) (\<lambda>_. envelope_ok) envelope_ok"

definition oh_handle_pre_tool_use ::
  "oh_env \<Rightarrow> 'w client \<Rightarrow> oh_pre_tool_use \<Rightarrow> (decision_envelope, 'w) handler" where
  "oh_handle_pre_tool_use V C e = enforce C (oh_pre_event V e)
     (oh_blocking_response ''Tool use blocked by policy'' ''Tool use requires review'')"

definition oh_handle_post_tool_use ::
  "oh_env \<Rightarrow> 'w client \<Rightarrow> oh_post_tool_use \<Rightarrow> (decision_envelope, 'w) handler" where
  "oh_handle_post_tool_use V C e = observe C (oh_post_event V e) (\<lambda>_. envelope_ok) envelope_ok"

definition oh_handle_user_prompt_submit ::
  "oh_env \<Rightarrow> 'w client \<Rightarrow> oh_user_prompt_submit \<Rightarrow> (decision_envelope, 'w) handler" where
  "oh_handle_user_prompt_submit V C e = enforce C (oh_prompt_event V e)
     (oh_blocking_response ''Prompt blocked by policy'' ''Prompt requires review'')"

definition oh_handle_stop ::
  "oh_env \<Rightarrow> 'w client \<Rightarrow> oh_stop \<Rightarrow> (decision_envelope, 'w) handler" where
  "oh_handle_stop V C e = enforce C (oh_stop_event V e)
     (oh_blocking_response ''Stop blocked by policy; continue working''
        ''Stop requires review; continue working'')"

definition oh_handle_session_end ::
  "oh_env \<Rightarrow> 'w client \<Rightarrow> oh_session_end \<Rightarrow> (decision_envelope, 'w) handler" where
  "oh_handle_session_end V C e = observe C (oh_end_event V e) (\<lambda>_. envelope_ok) envelope_ok"

section \<open>The command\<close>

datatype oh_command =
    OhInstall | OhUninstall | OhSessionStart | OhPreToolUse | OhPostToolUse | OhUserPromptSubmit
  | OhStop | OhSessionEnd

definition oh_is_adjudication :: "oh_command \<Rightarrow> bool" where
  "oh_is_adjudication c \<longleftrightarrow> c = OhPreToolUse \<or> c = OhUserPromptSubmit \<or> c = OhStop"

definition oh_degraded_response :: "oh_command \<Rightarrow> hook_error \<Rightarrow> decision_envelope" where
  "oh_degraded_response c error =
     (if oh_is_adjudication c then envelope_deny (fail_closed_reason error) else envelope_ok)"

text \<open>\<open>serde_json::from_value\<close> at the six event types; an error is its text.\<close>

record oh_serde =
  ohsd_session_start :: "json \<Rightarrow> string + oh_session_start"
  ohsd_pre_tool_use :: "json \<Rightarrow> string + oh_pre_tool_use"
  ohsd_post_tool_use :: "json \<Rightarrow> string + oh_post_tool_use"
  ohsd_user_prompt_submit :: "json \<Rightarrow> string + oh_user_prompt_submit"
  ohsd_stop :: "json \<Rightarrow> string + oh_stop"
  ohsd_session_end :: "json \<Rightarrow> string + oh_session_end"

fun oh_dispatch ::
  "oh_serde \<Rightarrow> oh_env \<Rightarrow> 'w client \<Rightarrow> oh_command \<Rightarrow> json \<Rightarrow> (decision_envelope, 'w) handler" where
  "oh_dispatch P V C OhInstall raw = unreachable"
| "oh_dispatch P V C OhUninstall raw = unreachable"
| "oh_dispatch P V C OhSessionStart raw =
     parsed (ohsd_session_start P raw) (\<lambda>_. Inr ()) (oh_handle_session_start V C)"
| "oh_dispatch P V C OhPreToolUse raw =
     parsed (ohsd_pre_tool_use P raw) (\<lambda>e. oh_validate_tool (ohp_tool_name e))
       (oh_handle_pre_tool_use V C)"
| "oh_dispatch P V C OhPostToolUse raw =
     parsed (ohsd_post_tool_use P raw) (\<lambda>e. oh_validate_tool (oho_tool_name e))
       (oh_handle_post_tool_use V C)"
| "oh_dispatch P V C OhUserPromptSubmit raw =
     parsed (ohsd_user_prompt_submit P raw) (\<lambda>_. Inr ()) (oh_handle_user_prompt_submit V C)"
| "oh_dispatch P V C OhStop raw = parsed (ohsd_stop P raw) (\<lambda>_. Inr ()) (oh_handle_stop V C)"
| "oh_dispatch P V C OhSessionEnd raw =
     parsed (ohsd_session_end P raw) (\<lambda>_. Inr ()) (oh_handle_session_end V C)"

text \<open>
  \<open>run\<close> for a hook command: the JSON printed and the exit code, 2 for a denial. The installers
  return before this point.
\<close>

definition oh_run ::
  "string option \<Rightarrow> oh_serde \<Rightarrow> oh_env \<Rightarrow> oh_command \<Rightarrow> (hook_error + json) future
     \<Rightarrow> (harness_client_error + 'w client) future \<Rightarrow> hook_error + unit \<Rightarrow> 'w
     \<Rightarrow> (json option \<times> nat) option" where
  "oh_run env P V c stdin connection stdout w =
     map_option (\<lambda>(_, response). exit_after stdout (envelope_json response) (envelope_is_deny response))
       (run_hook env c oh_degraded_response (oh_dispatch P V) stdin
          (connected connection) w)"

section \<open>The contract\<close>

lemma oh_blocking_allows: "\<not> envelope_is_deny (oh_blocking_response d e a) \<longleftrightarrow> adj_decision a = Allow"
  by (simp add: oh_blocking_response_def oh_deny_response_def Let_def split: decision.split option.split)

text \<open>The event an enforcement command is adjudicated by.\<close>

definition oh_asks :: "oh_serde \<Rightarrow> oh_env \<Rightarrow> oh_command \<Rightarrow> json \<Rightarrow> event \<Rightarrow> bool" where
  "oh_asks P V c raw ev \<longleftrightarrow>
     (case c of
        OhPreToolUse \<Rightarrow> \<exists>e. ohsd_pre_tool_use P raw = Inr e \<and> ev = oh_pre_event V e
      | OhUserPromptSubmit \<Rightarrow> \<exists>e. ohsd_user_prompt_submit P raw = Inr e \<and> ev = oh_prompt_event V e
      | OhStop \<Rightarrow> \<exists>e. ohsd_stop P raw = Inr e \<and> ev = oh_stop_event V e
      | _ \<Rightarrow> False)"

interpretation oh_matrix: fail_closed_exactly oh_is_adjudication oh_degraded_response envelope_is_deny
  by unfold_locales (simp_all add: oh_degraded_response_def)

interpretation oh: enforcing oh_is_adjudication oh_degraded_response envelope_is_deny
  "oh_dispatch P V" "(=)" "oh_asks P V"
proof unfold_locales
  fix c r h v w k w'
  assume c: "oh_is_adjudication c" and r: "\<not> envelope_is_deny r"
    and d: "oh_dispatch P V h c v w = (Ready k (Inr r), w')"
  show "\<exists>C ev n a. h = C \<and> oh_asks P V c v ev \<and> C ev w = (Ready n (Inr a), w') \<and> adj_decision a = Allow"
    using c d r
    by (cases c)
      (auto simp: oh_is_adjudication_def oh_asks_def oh_handle_pre_tool_use_def
        oh_handle_user_prompt_submit_def oh_handle_stop_def oh_blocking_allows
        dest!: parsed_Inr enforce_Inr)
qed

lemma oh_exit_code:
  assumes "oh_run env P V c stdin connection stdout w = Some (out, code)"
  shows "case stdout of
      Inl _ \<Rightarrow> out = None \<and> code = 1
    | Inr _ \<Rightarrow> \<exists>r j. out = Some j \<and> envelope_of_json j = Some r
        \<and> (code = 2 \<longleftrightarrow> envelope_is_deny r) \<and> (code = 0 \<or> code = 2)"
  using assms envelope_json_round_trip by (cases stdout) (auto simp: oh_run_def)

text \<open>The two halves of a call agree.\<close>

lemma oh_halves_agree:
  assumes "ohp_common e = oho_common e'" "ohp_tool_name e = oho_tool_name e'"
    "ohp_tool_input e = oho_tool_input e'" "ohp_tool_call_id e = oho_tool_call_id e'"
  shows "answers_action (oh_pre_action J cwd e) (oh_post_observation J e')"
  using assms
  by (auto simp: oh_pre_action_def oh_post_observation_def answers_action_def Let_def
      file_operation_None web_fetch_None tool_output_success_def oh_file_result_def
      dest: file_operation_SomeD web_fetch_SomeD classified split: option.splits)

text \<open>
  A response that is a plain string is read under every key, \<open>error\<close> included: the result of a
  file operation that answers with its content is recorded as a failure carrying it.
\<close>

lemma oh_string_response_fails:
  assumes "\<not> oh_is_shell_tool (oho_tool_name e)"
    "is_file_operation (oho_tool_name e) (oho_tool_input e)" "oho_tool_response e = JStr body" "body \<noteq> []"
  shows "\<exists>r. oh_post_observation J e = FileOperationResult r \<and> \<not> fr_success r
    \<and> fr_error r = Some body \<and> fr_content r = Some body"
  using assms by (simp add: oh_post_observation_def oh_file_result_def oh_string_field_def nonempty_def Let_def)

lemma oh_run_cleared:
  assumes "oh_is_adjudication c" "oh_run env P V c stdin (Ready m (Inr C)) stdout w = Some (Some out, code)" "code \<noteq> 2"
  shows "answered_allow stdin (oh_asks P V c) C w"
proof -
  obtain t r where "run_hook env c oh_degraded_response (oh_dispatch P V) stdin
      (connected (Ready m (Inr C))) w = Some (t, r)" "\<not> envelope_is_deny r"
    using assms(2,3) by (cases stdout) (auto simp: oh_run_def split: if_splits)
  from oh.run_cleared[OF assms(1) this(2,1)] show ?thesis by (simp add: connected_Inr)
qed

end
