(* ===== verification/Hermes.thy ===== *)
theory Hermes
  imports Hook_Adapter
begin

text \<open>
  The Hermes adapter (\<open>crates/hooks/hermes/src/{types,hooks,response,lib}.rs\<close>): one permissive
  event for every hook, handlers that enforce (\<open>pre_tool_call\<close>, \<open>pre_verify\<close>) or only
  advise, and a connection made inside the dispatch because the agent's identity comes from the
  event. Reading and writing JSON, the directory and the user name are parameters.
\<close>

section \<open>Responses\<close>

record hm_response =
  hmr_action :: "string option"
  hmr_message :: "string option"
  hmr_context :: "string option"

definition hm_ok :: hm_response where
  "hm_ok = \<lparr>hmr_action = None, hmr_message = None, hmr_context = None\<rparr>"

definition hm_block :: "string \<Rightarrow> hm_response" where
  "hm_block m = \<lparr>hmr_action = Some ''block'', hmr_message = Some m, hmr_context = None\<rparr>"

definition hm_context :: "string \<Rightarrow> hm_response" where
  "hm_context c = hm_ok\<lparr>hmr_context := Some c\<rparr>"

definition hm_continue_turn :: "string \<Rightarrow> hm_response" where
  "hm_continue_turn m = \<lparr>hmr_action = Some ''continue'', hmr_message = Some m, hmr_context = None\<rparr>"

definition hm_is_enforcing :: "hm_response \<Rightarrow> bool" where
  "hm_is_enforcing r \<longleftrightarrow> hmr_action r = Some ''block'' \<or> hmr_action r = Some ''continue''"

lemma hm_is_enforcing_simps [simp]:
  "\<not> hm_is_enforcing hm_ok" "hm_is_enforcing (hm_block m)" "\<not> hm_is_enforcing (hm_context c)"
  "hm_is_enforcing (hm_continue_turn m)"
  by (simp_all add: hm_is_enforcing_def hm_ok_def hm_block_def hm_context_def hm_continue_turn_def)

section \<open>The event\<close>

record hm_event =
  hme_hook_event_name :: string
  hme_tool_name :: "string option"
  hme_tool_input :: "json option"
  hme_session_id :: string
  hme_cwd :: string
  hme_extra :: "(string \<times> json) list"

text \<open>The accessor \<open>tool_name()\<close>: a blank name is none.\<close>

definition hm_tool_name :: "hm_event \<Rightarrow> string option" where
  "hm_tool_name e =
     Option.bind (hme_tool_name e) (\<lambda>n. if trim n = [] then None else Some n)"

definition hm_tool_input :: "hm_event \<Rightarrow> json" where
  "hm_tool_input e = unwrap_or (hme_tool_input e) JNull"

definition hm_validate_tool_event :: "hm_event \<Rightarrow> hook_error + unit" where
  "hm_validate_tool_event e =
     (if hm_tool_name e = None
      then Inl (HeMessage ''tool_name cannot be empty for Hermes tool hooks'') else Inr ())"

definition hm_trajectory_key :: "hm_event \<Rightarrow> string" where
  "hm_trajectory_key e =
     (if trim (hme_session_id e) \<noteq> [] then hme_session_id e
      else if trim (hme_cwd e) \<noteq> [] then hme_cwd e
      else ''hermes-session'')"

definition hm_working_dir_or_current :: "string option \<Rightarrow> hm_event \<Rightarrow> string" where
  "hm_working_dir_or_current cwd e = (if trim (hme_cwd e) = [] then unwrap_or cwd [] else hme_cwd e)"

definition hm_extra_value :: "hm_event \<Rightarrow> string \<Rightarrow> json option" where
  "hm_extra_value e k =
     opt_else (map_of (hme_extra e) k)
       (Option.bind (Option.bind (map_of (hme_extra e) ''extra'') as_object)
          (\<lambda>nested. map_of nested k))"

definition hm_extra_string :: "hm_event \<Rightarrow> string \<Rightarrow> string option" where
  "hm_extra_string e k = Option.bind (hm_extra_value e k) as_str"

definition hm_extra_i32 :: "hm_event \<Rightarrow> string \<Rightarrow> i32 option" where
  "hm_extra_i32 e k = Option.bind (Option.bind (hm_extra_value e k) as_i64) i32_try_from"

definition hm_call_id :: "hm_event \<Rightarrow> string" where
  "hm_call_id e =
     (case find_map (hm_extra_string e) [''tool_call_id'', ''tool_use_id'', ''call_id'', ''id''] of
        Some value \<Rightarrow> value
      | None \<Rightarrow> hm_trajectory_key e @ '':'' @ unwrap_or (hm_tool_name e) ''event'')"

definition hm_user_message :: "hm_event \<Rightarrow> string option" where
  "hm_user_message e = opt_else (hm_extra_string e ''user_message'') (hm_extra_string e ''message'')"

definition hm_assistant_response :: "hm_event \<Rightarrow> string option" where
  "hm_assistant_response e =
     opt_else (opt_else (hm_extra_string e ''assistant_response'') (hm_extra_string e ''response_text''))
       (hm_extra_string e ''response'')"

definition hm_tool_result :: "hm_event \<Rightarrow> string option" where
  "hm_tool_result e =
     opt_else (opt_else (hm_extra_string e ''result'') (hm_extra_string e ''tool_result''))
       (hm_extra_string e ''output'')"

definition hm_terminal_output :: "hm_event \<Rightarrow> string" where
  "hm_terminal_output e =
     unwrap_or (opt_else (opt_else (hm_extra_string e ''output'') (hm_extra_string e ''stdout''))
       (hm_tool_result e)) []"

definition hm_terminal_stderr :: "hm_event \<Rightarrow> string" where
  "hm_terminal_stderr e = unwrap_or (hm_extra_string e ''stderr'') []"

definition hm_terminal_exit_code :: "hm_event \<Rightarrow> i32" where
  "hm_terminal_exit_code e = unwrap_or (hm_extra_i32 e ''exit_code'') 0"

definition hm_command_from_value :: "json \<Rightarrow> string option" where
  "hm_command_from_value input =
     opt_else (as_str input) (str_field [''command'', ''cmd'', ''input''] input)"

section \<open>Reading a result\<close>

text \<open>A result is text that may hold JSON.\<close>

definition hm_value_from_result :: "json_reader \<Rightarrow> string \<Rightarrow> json" where
  "hm_value_from_result R result = unwrap_or (R result) (JStr result)"

definition hm_int_from_result :: "json_reader \<Rightarrow> string list \<Rightarrow> i32 \<Rightarrow> string \<Rightarrow> i32" where
  "hm_int_from_result R ks d result =
     unwrap_or (Option.bind (Option.bind (R result) (int_field ks)) i32_try_from) d"

definition hm_exit_code_from_result :: "json_reader \<Rightarrow> string \<Rightarrow> i32" where
  "hm_exit_code_from_result R = hm_int_from_result R [''exit_code'', ''exitCode'', ''status''] 0"

definition hm_status_from_result :: "json_reader \<Rightarrow> string \<Rightarrow> i32" where
  "hm_status_from_result R =
     hm_int_from_result R [''status_code'', ''statusCode'', ''status'', ''code''] 200"

definition hm_stdout_from_result :: "json_reader \<Rightarrow> string \<Rightarrow> string" where
  "hm_stdout_from_result R result =
     unwrap_or (Option.bind (R result) (str_field [''stdout'', ''output''])) result"

definition hm_content_from_result :: "json_reader \<Rightarrow> string \<Rightarrow> string" where
  "hm_content_from_result R result =
     unwrap_or (Option.bind (R result) (str_field [''content'', ''text'', ''stdout'', ''output''])) result"

definition hm_stderr_from_result :: "json_reader \<Rightarrow> string \<Rightarrow> string" where
  "hm_stderr_from_result R result =
     unwrap_or (Option.bind (R result) (str_field [''stderr'', ''error''])) []"

definition hm_is_shell_tool :: "string \<Rightarrow> bool" where
  "hm_is_shell_tool tool_name \<longleftrightarrow>
     to_ascii_lowercase tool_name \<in> set [''terminal'', ''bash'', ''shell'']"

section \<open>Mappers\<close>

record hm_env =
  hm_username :: string
  hm_fresh :: fresh
  hm_cwd :: "string option"
  hm_json :: json_writer
  hm_read :: json_reader

definition hm_pre_action :: "hm_env \<Rightarrow> hm_event \<Rightarrow> action" where
  "hm_pre_action V e =
     (let tool_name = unwrap_or (hm_tool_name e) []; call_id = hm_call_id e;
          tool_input = hm_tool_input e
      in if hm_is_shell_tool tool_name then
           ShellCommand \<lparr>shc_call_id = call_id,
             shc_command = unwrap_or (hm_command_from_value tool_input) (hm_json V tool_input),
             shc_working_dir = Some (hm_working_dir_or_current (hm_cwd V) e)\<rparr>
         else case file_operation_for tool_name tool_input call_id of
             Some file_op \<Rightarrow> FileOperation file_op
           | None \<Rightarrow>
               (case web_fetch_for tool_name tool_input call_id of
                  Some fetch \<Rightarrow> WebFetch fetch
                | None \<Rightarrow> ToolCall \<lparr>tc_call_id = call_id, tc_tool = tool_name,
                    tc_arguments = tool_input\<rparr>))"

definition hm_post_observation :: "hm_env \<Rightarrow> hm_event \<Rightarrow> observation" where
  "hm_post_observation V e =
     (let tool_name = unwrap_or (hm_tool_name e) []; R = hm_read V;
          result = unwrap_or (hm_tool_result e) []; stderr = hm_terminal_stderr e;
          call_id = hm_call_id e; tool_input = hm_tool_input e
      in if hm_is_shell_tool tool_name then
           ShellCommandOutput \<lparr>sco_call_id = call_id,
             sco_exit_code = hm_exit_code_from_result R result,
             sco_stdout = hm_stdout_from_result R result,
             sco_stderr = (if stderr = [] then hm_stderr_from_result R result else stderr)\<rparr>
         else if is_file_operation tool_name tool_input then
           FileOperationResult
             (let content = hm_content_from_result R result; error = hm_stderr_from_result R result
              in \<lparr>fr_call_id = call_id, fr_success = (error = []),
                  fr_path = nonempty (file_path_arg tool_input), fr_content = nonempty content,
                  fr_error = nonempty error\<rparr>)
         else if is_web_fetch tool_name tool_input then
           WebFetchOutput \<lparr>wfo_call_id = call_id, wfo_url = unwrap_or (web_url_arg tool_input) [],
             wfo_code = hm_status_from_result R result,
             wfo_result = hm_content_from_result R result\<rparr>
         else ToolOutput (tool_output_success call_id (hm_value_from_result R result)))"

definition hermes_agent :: "hm_env \<Rightarrow> string option \<Rightarrow> agent" where
  "hermes_agent V session =
     \<lparr>ag_id = (case Option.bind session (\<lambda>s. if trim s = [] then None else Some s) of
          Some s \<Rightarrow> ''hermes-'' @ s
        | None \<Rightarrow> ''hermes-'' @ hm_username V),
      ag_provider = ''hermes'', ag_platform = ''hermes-agent''\<rparr>"

text \<open>The agent of the dispatch: named after the event's session when it has one.\<close>

definition hm_agent_of :: "hm_env \<Rightarrow> hm_event \<Rightarrow> agent" where
  "hm_agent_of V e =
     hermes_agent V (if trim (hme_session_id e) \<noteq> [] then Some (hme_session_id e) else None)"

definition hm_trajectory_event :: "hm_env \<Rightarrow> hm_event \<Rightarrow> trajectory_event \<Rightarrow> event" where
  "hm_trajectory_event V e te = event_new (hm_fresh V) (hm_agent_of V e) (hm_trajectory_key e) te"

definition hm_thought :: "hm_env \<Rightarrow> hm_event \<Rightarrow> string \<Rightarrow> event" where
  "hm_thought V e s = hm_trajectory_event V e (Observation (Thought s))"

definition hm_human_prompt :: "hm_env \<Rightarrow> hm_event \<Rightarrow> string \<Rightarrow> event" where
  "hm_human_prompt V e m =
     with_actor (hm_trajectory_event V e (Observation (Prompt (prompt_user m))))
       (actor_human (ag_id (hm_agent_of V e)))"

section \<open>Handlers\<close>

definition hm_blocking_response :: "string \<Rightarrow> string \<Rightarrow> adjudicated \<Rightarrow> hm_response" where
  "hm_blocking_response deny escalate a =
     (case adj_decision a of
        Allow \<Rightarrow> hm_ok
      | Deny \<Rightarrow> hm_block (deny_message a deny)
      | Escalate \<Rightarrow> hm_block (deny_message a escalate))"

definition hm_advisory_context_response :: "adjudicated \<Rightarrow> hm_response" where
  "hm_advisory_context_response a =
     (case steering_context a of
        Some ctx \<Rightarrow> hm_context ctx
      | None \<Rightarrow>
          if adj_decision a = Allow then hm_ok
          else hm_context (deny_message a
            ''Sondera policy advisory: adjust this turn before continuing.''))"

definition hm_verify_response :: "adjudicated \<Rightarrow> hm_response" where
  "hm_verify_response a =
     (if adj_decision a = Allow then hm_ok
      else hm_continue_turn (deny_message a ''Verification blocked; continue working''))"

definition hm_pre_event :: "hm_env \<Rightarrow> hm_event \<Rightarrow> event" where
  "hm_pre_event V e = hm_trajectory_event V e (Action (hm_pre_action V e))"

definition hm_verify_event :: "hm_env \<Rightarrow> hm_event \<Rightarrow> event" where
  "hm_verify_event V e =
     hm_thought V e (unwrap_or (opt_else (hm_extra_string e ''summary'')
       (hm_extra_string e ''verification'')) ''Hermes pre-verification checkpoint'')"

definition hm_pre_tool_call :: "hm_env \<Rightarrow> hm_event \<Rightarrow> 'w client \<Rightarrow> (hm_response, 'w) handler" where
  "hm_pre_tool_call V e C =
     (case hm_validate_tool_event e of
        Inl err \<Rightarrow> answer (Inl err)
      | Inr _ \<Rightarrow> enforce C (hm_pre_event V e)
          (hm_blocking_response ''Tool call blocked by policy'' ''Tool call requires review''))"

definition hm_record :: "'w client \<Rightarrow> event \<Rightarrow> (hm_response, 'w) handler" where
  "hm_record C ev = observe C ev (\<lambda>_. hm_ok) hm_ok"

definition hm_tool_observation :: "hm_env \<Rightarrow> hm_event \<Rightarrow> 'w client \<Rightarrow> (hm_response, 'w) handler" where
  "hm_tool_observation V e C =
     (case hm_validate_tool_event e of
        Inl err \<Rightarrow> answer (Inl err)
      | Inr _ \<Rightarrow> hm_record C (hm_trajectory_event V e (Observation (hm_post_observation V e))))"

definition hm_transform_terminal_output ::
  "hm_env \<Rightarrow> hm_event \<Rightarrow> 'w client \<Rightarrow> (hm_response, 'w) handler" where
  "hm_transform_terminal_output V e C =
     hm_record C (hm_trajectory_event V e (Observation (ShellCommandOutput
       \<lparr>sco_call_id = hm_call_id e, sco_exit_code = hm_terminal_exit_code e,
        sco_stdout = hm_terminal_output e, sco_stderr = hm_terminal_stderr e\<rparr>)))"

definition hm_pre_llm_call :: "hm_env \<Rightarrow> hm_event \<Rightarrow> 'w client \<Rightarrow> (hm_response, 'w) handler" where
  "hm_pre_llm_call V e C =
     (case hm_user_message e of
        None \<Rightarrow> answer (Inr hm_ok)
      | Some m \<Rightarrow> observe C (hm_human_prompt V e m) hm_advisory_context_response hm_ok)"

definition hm_assistant_observation ::
  "hm_env \<Rightarrow> hm_event \<Rightarrow> 'w client \<Rightarrow> (hm_response, 'w) handler" where
  "hm_assistant_observation V e C =
     (let response = unwrap_or (hm_assistant_response e) [] in
      if response = [] then answer (Inr hm_ok)
      else hm_record C (hm_trajectory_event V e
        (Observation (Prompt \<lparr>pr_content = response, pr_role = RoleAssistant\<rparr>))))"

definition hm_approval_observation ::
  "hm_env \<Rightarrow> string \<Rightarrow> hm_event \<Rightarrow> 'w client \<Rightarrow> (hm_response, 'w) handler" where
  "hm_approval_observation V hook e C =
     hm_record C (hm_thought V e (unwrap_or (opt_else (hm_extra_string e ''command'')
       (hm_extra_string e ''message'')) (''Hermes '' @ hook)))"

definition hm_pre_verify :: "hm_env \<Rightarrow> hm_event \<Rightarrow> 'w client \<Rightarrow> (hm_response, 'w) handler" where
  "hm_pre_verify V e C = enforce C (hm_verify_event V e) hm_verify_response"

definition hm_pre_gateway_dispatch ::
  "hm_env \<Rightarrow> hm_event \<Rightarrow> 'w client \<Rightarrow> (hm_response, 'w) handler" where
  "hm_pre_gateway_dispatch V e C =
     (let message = unwrap_or (opt_else (hm_user_message e) (hm_extra_string e ''text'')) [] in
      if message = [] then answer (Inr hm_ok) else hm_record C (hm_human_prompt V e message))"

definition hm_lifecycle :: "hm_env \<Rightarrow> hm_event \<Rightarrow> 'w client \<Rightarrow> (hm_response, 'w) handler" where
  "hm_lifecycle V e C =
     hm_record C (hm_thought V e
       (if hme_hook_event_name e = [] then ''Hermes lifecycle event'' else hme_hook_event_name e))"

section \<open>The command\<close>

datatype hm_command =
    HmInstall bool | HmUninstall | HmPreToolCall | HmPostToolCall | HmTransformToolResult
  | HmPreLlmCall | HmPostLlmCall | HmTransformLlmOutput | HmTransformTerminalOutput
  | HmPreApprovalRequest | HmPostApprovalResponse | HmPreVerify | HmOnSessionStart
  | HmOnSessionEnd | HmOnSessionFinalize | HmOnSessionReset | HmSubagentStart | HmSubagentStop
  | HmPreGatewayDispatch

definition hm_is_adjudication :: "hm_command \<Rightarrow> bool" where
  "hm_is_adjudication c \<longleftrightarrow> c = HmPreToolCall \<or> c = HmPreVerify"

definition hm_degraded_response :: "hm_command \<Rightarrow> hook_error \<Rightarrow> hm_response" where
  "hm_degraded_response c error =
     (let reason = fail_closed_reason error in
      case c of
        HmPreToolCall \<Rightarrow> hm_block reason
      | HmPreVerify \<Rightarrow> hm_continue_turn reason
      | _ \<Rightarrow> hm_ok)"

fun hm_handle :: "hm_env \<Rightarrow> hm_command \<Rightarrow> hm_event \<Rightarrow> 'w client \<Rightarrow> (hm_response, 'w) handler" where
  "hm_handle V (HmInstall _) e C = unreachable"
| "hm_handle V HmUninstall e C = unreachable"
| "hm_handle V HmPreToolCall e C = hm_pre_tool_call V e C"
| "hm_handle V HmPostToolCall e C = hm_tool_observation V e C"
| "hm_handle V HmTransformToolResult e C = hm_tool_observation V e C"
| "hm_handle V HmPreLlmCall e C = hm_pre_llm_call V e C"
| "hm_handle V HmPostLlmCall e C = hm_assistant_observation V e C"
| "hm_handle V HmTransformLlmOutput e C = hm_assistant_observation V e C"
| "hm_handle V HmTransformTerminalOutput e C = hm_transform_terminal_output V e C"
| "hm_handle V HmPreApprovalRequest e C = hm_approval_observation V ''pre_approval_request'' e C"
| "hm_handle V HmPostApprovalResponse e C = hm_approval_observation V ''post_approval_response'' e C"
| "hm_handle V HmPreVerify e C = hm_pre_verify V e C"
| "hm_handle V HmPreGatewayDispatch e C = hm_pre_gateway_dispatch V e C"
| "hm_handle V HmOnSessionStart e C = hm_lifecycle V e C"
| "hm_handle V HmOnSessionEnd e C = hm_lifecycle V e C"
| "hm_handle V HmOnSessionFinalize e C = hm_lifecycle V e C"
| "hm_handle V HmOnSessionReset e C = hm_lifecycle V e C"
| "hm_handle V HmSubagentStart e C = hm_lifecycle V e C"
| "hm_handle V HmSubagentStop e C = hm_lifecycle V e C"

text \<open>The dispatch of \<open>run\<close>: parse, connect, handle. \<open>P\<close> is \<open>serde\<close> at the event type.\<close>

definition hm_dispatch ::
  "(json \<Rightarrow> string + hm_event) \<Rightarrow> hm_env \<Rightarrow> (harness_client_error + 'w client) future
     \<Rightarrow> unit \<Rightarrow> hm_command \<Rightarrow> json \<Rightarrow> (hm_response, 'w) handler" where
  "hm_dispatch P V conn _ c raw =
     parsed (P raw) (\<lambda>_. Inr ()) (\<lambda>e. connecting conn (hm_handle V c e))"

definition hm_run ::
  "string option \<Rightarrow> (json \<Rightarrow> string + hm_event) \<Rightarrow> hm_env \<Rightarrow> (harness_client_error + 'w client) future
     \<Rightarrow> hm_command \<Rightarrow> (hook_error + json) future \<Rightarrow> 'w \<Rightarrow> (nat \<times> hm_response) option" where
  "hm_run env P V conn c stdin w =
     run_hook env c hm_degraded_response (hm_dispatch P V conn) stdin (Ready 0 (Inr ())) w"

section \<open>The contract\<close>

definition hm_asks :: "(json \<Rightarrow> string + hm_event) \<Rightarrow> hm_env \<Rightarrow> hm_command \<Rightarrow> json \<Rightarrow> event \<Rightarrow> bool" where
  "hm_asks P V c raw ev \<longleftrightarrow>
     (\<exists>e. P raw = Inr e \<and> (c = HmPreToolCall \<and> ev = hm_pre_event V e
        \<or> c = HmPreVerify \<and> ev = hm_verify_event V e))"

lemma hm_allows:
  "\<not> hm_is_enforcing (hm_blocking_response d x a) \<longleftrightarrow> adj_decision a = Allow"
  "\<not> hm_is_enforcing (hm_verify_response a) \<longleftrightarrow> adj_decision a = Allow"
  by (simp_all add: hm_blocking_response_def hm_verify_response_def split: decision.split)

interpretation hm_matrix: fail_closed_exactly hm_is_adjudication hm_degraded_response hm_is_enforcing
  by unfold_locales (auto simp: hm_degraded_response_def hm_is_adjudication_def Let_def split: hm_command.splits)

interpretation hm: enforcing hm_is_adjudication hm_degraded_response hm_is_enforcing
  "hm_dispatch P V conn" "\<lambda>_ C. \<exists>n. conn = Ready n (Inr C)" "hm_asks P V"
proof unfold_locales
  fix c r h v w k w'
  assume c: "hm_is_adjudication c" and r: "\<not> hm_is_enforcing r"
    and d: "hm_dispatch P V conn h c v w = (Ready k (Inr r), w')"
  from d obtain e where e: "P v = Inr e" "connecting conn (hm_handle V c e) w = (Ready k (Inr r), w')"
    by (auto simp: hm_dispatch_def dest!: parsed_Inr)
  from connecting_Inr[OF e(2)] obtain n C m where C: "conn = Ready n (Inr C)"
    "hm_handle V c e C w = (Ready m (Inr r), w')" by blast
  then have "\<exists>ev j a. hm_asks P V c v ev \<and> C ev w = (Ready j (Inr a), w') \<and> adj_decision a = Allow"
    using c r e(1)
    by (auto simp: hm_is_adjudication_def hm_asks_def hm_pre_tool_call_def hm_pre_verify_def
        answer_def hm_allows dest!: enforce_Inr split: sum.splits)
  with C(1) show "\<exists>C ev j a. (\<exists>n. conn = Ready n (Inr C)) \<and> hm_asks P V c v ev
      \<and> C ev w = (Ready j (Inr a), w') \<and> adj_decision a = Allow" by blast
qed

lemma hm_halves_agree:
  assumes "hm_call_id e = hm_call_id e'" "hm_tool_name e = hm_tool_name e'"
    "hm_tool_input e = hm_tool_input e'"
  shows "answers_action (hm_pre_action V e) (hm_post_observation V e')"
  using assms
  by (auto simp: hm_pre_action_def hm_post_observation_def answers_action_def Let_def
      file_operation_None web_fetch_None tool_output_success_def
      dest: file_operation_SomeD web_fetch_SomeD classified split: option.splits)

lemma hm_run_cleared:
  assumes "hm_is_adjudication c" "hm_run env P V (Ready m (Inr C)) c stdin w = Some (t, r)"
    "\<not> hm_is_enforcing r"
  shows "answered_allow stdin (hm_asks P V c) C w"
  by (rule hm.run_cleared[OF assms(1,3) assms(2)[unfolded hm_run_def]]) simp

end
