(* ===== verification/Codex.thy ===== *)
theory Codex
  imports Hook_Adapter
begin

text \<open>
  The Codex adapter (\<open>crates/hooks/codex/src/{types,hooks,response,lib}.rs\<close>): enforcement on
  tool use, permission requests and prompts; a post-tool hook that can block the output; a
  subagent that can be told to go on. Codex reads three response shapes.
\<close>

section \<open>Responses\<close>

record cx_pre_output =
  cxp_hook_event_name :: string
  cxp_permission_decision :: string
  cxp_permission_decision_reason :: "string option"
  cxp_updated_input :: "json option"

record cx_permission_decision =
  cxd_behavior :: string
  cxd_message :: "string option"

record cx_flat =
  cxf_decision :: "string option"
  cxf_reason :: "string option"

text \<open>\<open>HookResponse\<close>: untagged, so each variant is written as its content.\<close>

datatype cx_response =
    CxPreToolUse "cx_pre_output option"
  | CxPermissionRequest string cx_permission_decision
  | CxFlatDecision cx_flat
  | CxNoOutput

definition cx_ok :: cx_response where "cx_ok = CxNoOutput"

definition cx_pre_response :: "string \<Rightarrow> string \<Rightarrow> cx_response" where
  "cx_pre_response decision reason =
     CxPreToolUse (Some \<lparr>cxp_hook_event_name = ''PreToolUse'', cxp_permission_decision = decision,
       cxp_permission_decision_reason = Some reason, cxp_updated_input = None\<rparr>)"

definition cx_deny_tool :: "string \<Rightarrow> cx_response" where
  "cx_deny_tool reason = cx_pre_response ''deny'' reason"

definition cx_ask_tool :: "string \<Rightarrow> cx_response" where
  "cx_ask_tool reason = cx_pre_response ''ask'' reason"

definition cx_block :: "string \<Rightarrow> cx_response" where
  "cx_block reason = CxFlatDecision \<lparr>cxf_decision = Some ''block'', cxf_reason = Some reason\<rparr>"

definition cx_allow_permission :: cx_response where
  "cx_allow_permission =
     CxPermissionRequest ''PermissionRequest'' \<lparr>cxd_behavior = ''allow'', cxd_message = None\<rparr>"

definition cx_deny_permission :: "string \<Rightarrow> cx_response" where
  "cx_deny_permission reason =
     CxPermissionRequest ''PermissionRequest'' \<lparr>cxd_behavior = ''deny'', cxd_message = Some reason\<rparr>"

text \<open>What \<open>serde\<close> writes, with the field names in camel case and absent fields left out.\<close>

fun cx_json :: "cx_response \<Rightarrow> json" where
  "cx_json (CxPreToolUse out) =
     JObj (opt_field ''hookSpecificOutput'' (map_option (\<lambda>p. JObj
       ([(''hookEventName'', JStr (cxp_hook_event_name p)),
         (''permissionDecision'', JStr (cxp_permission_decision p))]
        @ opt_field ''permissionDecisionReason'' (map_option JStr (cxp_permission_decision_reason p))
        @ opt_field ''updatedInput'' (cxp_updated_input p))) out))"
| "cx_json (CxPermissionRequest name d) =
     JObj [(''hookSpecificOutput'', JObj [(''hookEventName'', JStr name),
       (''decision'', JObj ((''behavior'', JStr (cxd_behavior d))
          # opt_field ''message'' (map_option JStr (cxd_message d))))])]"
| "cx_json (CxFlatDecision f) =
     JObj (opt_field ''decision'' (map_option JStr (cxf_decision f))
       @ opt_field ''reason'' (map_option JStr (cxf_reason f)))"
| "cx_json CxNoOutput = JObj []"

text \<open>The responses that hold something back, as Codex reads them.\<close>

fun cx_is_deny :: "cx_response \<Rightarrow> bool" where
  "cx_is_deny (CxPreToolUse out) \<longleftrightarrow> (case out of None \<Rightarrow> False
     | Some p \<Rightarrow> cxp_permission_decision p = ''deny'')"
| "cx_is_deny (CxPermissionRequest name d) \<longleftrightarrow> cxd_behavior d = ''deny''"
| "cx_is_deny (CxFlatDecision f) \<longleftrightarrow> cxf_decision f = Some ''block''"
| "cx_is_deny CxNoOutput \<longleftrightarrow> False"

lemma cx_json_deny:
  "cx_is_deny r \<longleftrightarrow> json_says (cx_json r) [''hookSpecificOutput'', ''permissionDecision''] ''deny''
     \<or> json_says (cx_json r) [''hookSpecificOutput'', ''decision'', ''behavior''] ''deny''
     \<or> json_says (cx_json r) [''decision''] ''block''"
  by (cases r) (auto simp: json_says_def opt_field_def split: option.splits)

text \<open>An allow is never written out for a tool: the answer is the empty object.\<close>

lemma cx_simps [simp]:
  "\<not> cx_is_deny cx_ok" "cx_is_deny (cx_deny_tool m)" "cx_is_deny (cx_block m)"
  "\<not> cx_is_deny cx_allow_permission" "cx_is_deny (cx_deny_permission m)" "\<not> cx_is_deny (cx_ask_tool m)"
  by (simp_all add: cx_ok_def cx_deny_tool_def cx_pre_response_def cx_block_def
      cx_allow_permission_def cx_deny_permission_def cx_ask_tool_def)

section \<open>Events\<close>

text \<open>The fields no handler reads (models, modes, paths, what \<open>serde\<close> flattens) are left out.\<close>

record cx_common =
  cxc_session_id :: string
  cxc_cwd :: string

record cx_session_start =
  cxss_common :: cx_common

record cx_session_end =
  cxse_common :: cx_common
  cxse_reason :: string

record cx_subagent_start =
  cxsa_common :: cx_common
  cxsa_agent_type :: string

record cx_permission_request =
  cxpr_common :: cx_common
  cxpr_turn_id :: string
  cxpr_tool_name :: string
  cxpr_tool_input :: json

record cx_compact =
  cxco_common :: cx_common
  cxco_trigger :: string

record cx_subagent_stop =
  cxst_common :: cx_common
  cxst_agent_type :: string
  cxst_stop_hook_active :: bool
  cxst_last_assistant_message :: "string option"

record cx_pre_tool_use =
  cxpt_common :: cx_common
  cxpt_tool_name :: string
  cxpt_tool_use_id :: string
  cxpt_tool_input :: json

record cx_post_tool_use =
  cxpo_common :: cx_common
  cxpo_tool_name :: string
  cxpo_tool_use_id :: string
  cxpo_tool_input :: json
  cxpo_tool_response :: json

record cx_user_prompt_submit =
  cxup_common :: cx_common
  cxup_prompt :: string

record cx_stop =
  cxsp_common :: cx_common
  cxsp_stop_hook_active :: bool
  cxsp_last_assistant_message :: "string option"

definition cx_validate_tool :: "string \<Rightarrow> hook_error + unit" where
  "cx_validate_tool tool_name =
     (if trim tool_name = [] then Inl (HeMessage ''tool_name cannot be empty'') else Inr ())"

definition cx_trajectory_key :: "cx_common \<Rightarrow> string" where
  "cx_trajectory_key c = (if cxc_session_id c \<noteq> [] then cxc_session_id c else cxc_cwd c)"

section \<open>Mappers\<close>

definition cx_is_shell_tool :: "string \<Rightarrow> bool" where
  "cx_is_shell_tool tool_name \<longleftrightarrow> normalize_tool_name tool_name
     \<in> set [''bash'', ''shell'', ''exec'', ''localshell'', ''runcommand'']"

text \<open>A command is a string or an argument vector, whose strings are joined with spaces.\<close>

definition cx_command_from_input :: "json \<Rightarrow> string" where
  "cx_command_from_input tool_input =
     (case string_arg tool_input [''command'', ''cmd'', ''script''] of
        Some command \<Rightarrow> command
      | None \<Rightarrow>
          (case Option.bind (jget ''command'' tool_input) as_array of
             Some argv \<Rightarrow> join '' '' (List.map_filter as_str argv)
           | None \<Rightarrow> []))"

text \<open>
  \<open>status_from_response\<close>: the first integer under the keys decides; one outside 32 bits reads
  as 200.
\<close>

definition cx_status_from_response :: "json \<Rightarrow> i32" where
  "cx_status_from_response response =
     (case int_field [''status_code'', ''statusCode'', ''status'', ''code''] response of
        Some code \<Rightarrow> unwrap_or (i32_try_from code) 200 | None \<Rightarrow> 200)"

definition cx_action_from_tool :: "string \<Rightarrow> json \<Rightarrow> string \<Rightarrow> string \<Rightarrow> action" where
  "cx_action_from_tool tool_name tool_input call_id cwd =
     (if cx_is_shell_tool tool_name then
        ShellCommand \<lparr>shc_call_id = call_id, shc_command = cx_command_from_input tool_input,
          shc_working_dir = Some cwd\<rparr>
      else case file_operation_for tool_name tool_input call_id of
          Some file_op \<Rightarrow> FileOperation file_op
        | None \<Rightarrow>
            (case web_fetch_for tool_name tool_input call_id of
               Some fetch \<Rightarrow> WebFetch fetch
             | None \<Rightarrow> ToolCall \<lparr>tc_call_id = call_id, tc_tool = tool_name,
                 tc_arguments = tool_input\<rparr>))"

text \<open>The body of a response: the string, a string field, or the JSON itself.\<close>

definition cx_body :: "json_writer \<Rightarrow> string list \<Rightarrow> json \<Rightarrow> string" where
  "cx_body J ks response =
     (case response of JStr s \<Rightarrow> s | other \<Rightarrow> unwrap_or (string_arg other ks) (J other))"

definition cx_post_observation :: "json_writer \<Rightarrow> cx_post_tool_use \<Rightarrow> observation" where
  "cx_post_observation J e =
     (let tool_name = cxpo_tool_name e; tool_input = cxpo_tool_input e;
          response = cxpo_tool_response e; call_id = cxpo_tool_use_id e
      in if cx_is_shell_tool tool_name then
           ShellCommandOutput \<lparr>sco_call_id = call_id, sco_exit_code = 0,
             sco_stdout = (case response of JStr s \<Rightarrow> s | other \<Rightarrow> J other), sco_stderr = []\<rparr>
         else if is_file_operation tool_name tool_input then
           FileOperationResult \<lparr>fr_call_id = call_id, fr_success = True,
             fr_path = nonempty (file_path_arg tool_input),
             fr_content = nonempty (cx_body J [''content'', ''output'', ''stdout'', ''text''] response),
             fr_error = None\<rparr>
         else if is_web_fetch tool_name tool_input then
           WebFetchOutput \<lparr>wfo_call_id = call_id, wfo_url = unwrap_or (web_url_arg tool_input) [],
             wfo_code = cx_status_from_response response,
             wfo_result = cx_body J [''content'', ''output'', ''text'', ''body''] response\<rparr>
         else ToolOutput (tool_output_success call_id (JStr (J response))))"

section \<open>Handlers\<close>

record cx_env =
  cx_agent :: agent
  cx_fresh :: fresh
  cx_write :: json_writer

definition cx_event :: "cx_env \<Rightarrow> cx_common \<Rightarrow> trajectory_event \<Rightarrow> event" where
  "cx_event V c te = event_new (cx_fresh V) (cx_agent V) (cx_trajectory_key c) te"

definition cx_tool_verdict :: "string \<Rightarrow> adjudicated \<Rightarrow> cx_response" where
  "cx_tool_verdict tool_name a =
     (case adj_decision a of
        Allow \<Rightarrow> cx_ok
      | Deny \<Rightarrow> cx_deny_tool (deny_message a
          (''Tool '' @ quoted tool_name @ '' execution denied by policy''))
      | Escalate \<Rightarrow> cx_deny_tool (deny_message a
          (''Tool '' @ quoted tool_name @ '' execution requires approval'')))"

definition cx_permission_verdict :: "adjudicated \<Rightarrow> cx_response" where
  "cx_permission_verdict a =
     (if adj_decision a = Allow then cx_allow_permission
      else cx_deny_permission (deny_message a ''Permission request denied by policy''))"

definition cx_block_verdict :: "string \<Rightarrow> string \<Rightarrow> adjudicated \<Rightarrow> cx_response" where
  "cx_block_verdict deny escalate a =
     (case adj_decision a of
        Allow \<Rightarrow> cx_ok
      | Deny \<Rightarrow> cx_block (deny_message a deny)
      | Escalate \<Rightarrow> cx_block (deny_message a escalate))"

definition cx_record :: "'w client \<Rightarrow> event \<Rightarrow> (cx_response, 'w) handler" where
  "cx_record C ev = observe C ev (\<lambda>_. cx_ok) cx_ok"

definition cx_session_start_event :: "cx_env \<Rightarrow> cx_session_start \<Rightarrow> event" where
  "cx_session_start_event V e =
     cx_event V (cxss_common e) (Control (Started (started_new (cx_agent V))))"

definition cx_session_end_event :: "cx_env \<Rightarrow> cx_session_end \<Rightarrow> event" where
  "cx_session_end_event V e =
     cx_event V (cxse_common e) (Control (Completed (Some (cxse_reason e))))"

definition cx_subagent_start_event :: "cx_env \<Rightarrow> cx_subagent_start \<Rightarrow> event" where
  "cx_subagent_start_event V e =
     cx_event V (cxsa_common e) (Control (Started \<lparr>sd_agent = cx_agent V,
       sd_task = (if trim (cxsa_agent_type e) \<noteq> [] then Some (cxsa_agent_type e) else None)\<rparr>))"

definition cx_pre_event :: "cx_env \<Rightarrow> cx_pre_tool_use \<Rightarrow> event" where
  "cx_pre_event V e =
     cx_event V (cxpt_common e) (Action (cx_action_from_tool (cxpt_tool_name e) (cxpt_tool_input e)
       (cxpt_tool_use_id e) (cxc_cwd (cxpt_common e))))"

definition cx_permission_event :: "cx_env \<Rightarrow> cx_permission_request \<Rightarrow> event" where
  "cx_permission_event V e =
     cx_event V (cxpr_common e) (Action (cx_action_from_tool (cxpr_tool_name e) (cxpr_tool_input e)
       (cxpr_turn_id e) (cxc_cwd (cxpr_common e))))"

definition cx_post_event :: "cx_env \<Rightarrow> cx_post_tool_use \<Rightarrow> event" where
  "cx_post_event V e = cx_event V (cxpo_common e) (Observation (cx_post_observation (cx_write V) e))"

definition cx_prompt_event :: "cx_env \<Rightarrow> cx_user_prompt_submit \<Rightarrow> event" where
  "cx_prompt_event V e =
     with_actor (cx_event V (cxup_common e) (Observation (Prompt (prompt_user (cxup_prompt e)))))
       (actor_human (ag_id (cx_agent V)))"

definition cx_assistant :: "string \<Rightarrow> trajectory_event" where
  "cx_assistant m = Observation (Prompt \<lparr>pr_content = m, pr_role = RoleAssistant\<rparr>)"

definition cx_handle_compact ::
  "cx_env \<Rightarrow> 'w client \<Rightarrow> string \<Rightarrow> cx_compact \<Rightarrow> (cx_response, 'w) handler" where
  "cx_handle_compact V C hook_name e =
     cx_record C (cx_event V (cxco_common e)
       (Observation (Thought (''Codex '' @ hook_name @ '' trigger='' @ cxco_trigger e))))"

definition cx_handle_subagent_stop ::
  "cx_env \<Rightarrow> 'w client \<Rightarrow> cx_subagent_stop \<Rightarrow> (cx_response, 'w) handler" where
  "cx_handle_subagent_stop V C e =
     (if cxst_stop_hook_active e then answer (Inr cx_ok)
      else observe C (cx_event V (cxst_common e) (cx_assistant (unwrap_or (cxst_last_assistant_message e)
             (''Codex subagent '' @ cxst_agent_type e @ '' completed''))))
        (cx_block_verdict ''Subagent must continue working'' ''Subagent must continue working'') cx_ok)"

definition cx_handle_stop :: "cx_env \<Rightarrow> 'w client \<Rightarrow> cx_stop \<Rightarrow> (cx_response, 'w) handler" where
  "cx_handle_stop V C e =
     (if cxsp_stop_hook_active e then answer (Inr cx_ok)
      else case cxsp_last_assistant_message e of
          Some message \<Rightarrow> cx_record C (cx_event V (cxsp_common e) (cx_assistant message))
        | None \<Rightarrow> answer (Inr cx_ok))"

definition cx_handle_post_tool_use ::
  "cx_env \<Rightarrow> 'w client \<Rightarrow> cx_post_tool_use \<Rightarrow> (cx_response, 'w) handler" where
  "cx_handle_post_tool_use V C e = observe C (cx_post_event V e)
     (cx_block_verdict ''Tool output blocked by policy'' ''Tool output requires review'') cx_ok"

section \<open>The command\<close>

datatype cx_command =
    CxInstall bool bool | CxUninstall bool bool | CxSessionStart | CxSessionEnd | CxSubagentStart
  | CxPreToolUseCmd | CxPermissionRequestCmd | CxPostToolUse | CxPreCompact | CxPostCompact
  | CxUserPromptSubmit | CxSubagentStop | CxStop

definition cx_is_adjudication :: "cx_command \<Rightarrow> bool" where
  "cx_is_adjudication c \<longleftrightarrow>
     c = CxPreToolUseCmd \<or> c = CxPermissionRequestCmd \<or> c = CxUserPromptSubmit"

definition cx_degraded_response :: "cx_command \<Rightarrow> hook_error \<Rightarrow> cx_response" where
  "cx_degraded_response c error =
     (let reason = fail_closed_reason error in
      if c = CxPreToolUseCmd then cx_deny_tool reason
      else if c = CxPermissionRequestCmd then cx_deny_permission reason
      else if c = CxUserPromptSubmit then cx_block reason
      else if cx_is_adjudication c then cx_block reason
      else cx_ok)"

record cx_serde =
  cxsd_session_start :: "json \<Rightarrow> string + cx_session_start"
  cxsd_session_end :: "json \<Rightarrow> string + cx_session_end"
  cxsd_subagent_start :: "json \<Rightarrow> string + cx_subagent_start"
  cxsd_pre_tool_use :: "json \<Rightarrow> string + cx_pre_tool_use"
  cxsd_permission_request :: "json \<Rightarrow> string + cx_permission_request"
  cxsd_post_tool_use :: "json \<Rightarrow> string + cx_post_tool_use"
  cxsd_compact :: "json \<Rightarrow> string + cx_compact"
  cxsd_user_prompt_submit :: "json \<Rightarrow> string + cx_user_prompt_submit"
  cxsd_subagent_stop :: "json \<Rightarrow> string + cx_subagent_stop"
  cxsd_stop :: "json \<Rightarrow> string + cx_stop"

fun cx_dispatch ::
  "cx_serde \<Rightarrow> cx_env \<Rightarrow> 'w client \<Rightarrow> cx_command \<Rightarrow> json \<Rightarrow> (cx_response, 'w) handler" where
  "cx_dispatch P V C (CxInstall _ _) raw = unreachable"
| "cx_dispatch P V C (CxUninstall _ _) raw = unreachable"
| "cx_dispatch P V C CxSessionStart raw =
     parsed (cxsd_session_start P raw) no_check (\<lambda>e. cx_record C (cx_session_start_event V e))"
| "cx_dispatch P V C CxSessionEnd raw =
     parsed (cxsd_session_end P raw) no_check (\<lambda>e. cx_record C (cx_session_end_event V e))"
| "cx_dispatch P V C CxSubagentStart raw =
     parsed (cxsd_subagent_start P raw) no_check (\<lambda>e. cx_record C (cx_subagent_start_event V e))"
| "cx_dispatch P V C CxPreToolUseCmd raw =
     parsed (cxsd_pre_tool_use P raw) (\<lambda>e. cx_validate_tool (cxpt_tool_name e))
       (\<lambda>e. enforce C (cx_pre_event V e) (cx_tool_verdict (cxpt_tool_name e)))"
| "cx_dispatch P V C CxPermissionRequestCmd raw =
     parsed (cxsd_permission_request P raw) (\<lambda>e. cx_validate_tool (cxpr_tool_name e))
       (\<lambda>e. enforce C (cx_permission_event V e) cx_permission_verdict)"
| "cx_dispatch P V C CxPostToolUse raw =
     parsed (cxsd_post_tool_use P raw) (\<lambda>e. cx_validate_tool (cxpo_tool_name e))
       (cx_handle_post_tool_use V C)"
| "cx_dispatch P V C CxPreCompact raw =
     parsed (cxsd_compact P raw) no_check (cx_handle_compact V C ''PreCompact'')"
| "cx_dispatch P V C CxPostCompact raw =
     parsed (cxsd_compact P raw) no_check (cx_handle_compact V C ''PostCompact'')"
| "cx_dispatch P V C CxUserPromptSubmit raw =
     parsed (cxsd_user_prompt_submit P raw) no_check
       (\<lambda>e. enforce C (cx_prompt_event V e)
          (cx_block_verdict ''Prompt blocked by policy'' ''Prompt escalated for review''))"
| "cx_dispatch P V C CxSubagentStop raw =
     parsed (cxsd_subagent_stop P raw) no_check (cx_handle_subagent_stop V C)"
| "cx_dispatch P V C CxStop raw = parsed (cxsd_stop P raw) no_check (cx_handle_stop V C)"

text \<open>\<open>run\<close> for a hook command: the JSON printed. The process exits with 0.\<close>

definition cx_run ::
  "string option \<Rightarrow> cx_serde \<Rightarrow> cx_env \<Rightarrow> cx_command \<Rightarrow> (hook_error + json) future
     \<Rightarrow> (harness_client_error + 'w client) future \<Rightarrow> 'w \<Rightarrow> json option" where
  "cx_run env P V c stdin connection w =
     map_option (\<lambda>(_, response). cx_json response)
       (run_hook env c cx_degraded_response (cx_dispatch P V) stdin
          (connected connection) w)"

section \<open>The contract\<close>

lemma cx_allows:
  "\<not> cx_is_deny (cx_tool_verdict t a) \<longleftrightarrow> adj_decision a = Allow"
  "\<not> cx_is_deny (cx_permission_verdict a) \<longleftrightarrow> adj_decision a = Allow"
  "\<not> cx_is_deny (cx_block_verdict d x a) \<longleftrightarrow> adj_decision a = Allow"
  by (simp_all add: cx_tool_verdict_def cx_permission_verdict_def cx_block_verdict_def
      split: decision.split)

definition cx_asks :: "cx_serde \<Rightarrow> cx_env \<Rightarrow> cx_command \<Rightarrow> json \<Rightarrow> event \<Rightarrow> bool" where
  "cx_asks P V c raw ev \<longleftrightarrow>
     (case c of
        CxPreToolUseCmd \<Rightarrow> \<exists>e. cxsd_pre_tool_use P raw = Inr e \<and> ev = cx_pre_event V e
      | CxPermissionRequestCmd \<Rightarrow>
          \<exists>e. cxsd_permission_request P raw = Inr e \<and> ev = cx_permission_event V e
      | CxUserPromptSubmit \<Rightarrow>
          \<exists>e. cxsd_user_prompt_submit P raw = Inr e \<and> ev = cx_prompt_event V e
      | _ \<Rightarrow> False)"

interpretation cx_matrix: fail_closed_exactly cx_is_adjudication cx_degraded_response cx_is_deny
  by unfold_locales (auto simp: cx_degraded_response_def cx_is_adjudication_def Let_def)

interpretation cx: enforcing cx_is_adjudication cx_degraded_response cx_is_deny
  "cx_dispatch P V" "(=)" "cx_asks P V"
proof unfold_locales
  fix c r h v w k w'
  assume c: "cx_is_adjudication c" and r: "\<not> cx_is_deny r"
    and d: "cx_dispatch P V h c v w = (Ready k (Inr r), w')"
  show "\<exists>C ev n a. h = C \<and> cx_asks P V c v ev \<and> C ev w = (Ready n (Inr a), w') \<and> adj_decision a = Allow"
    using c d r
    by (cases c)
      (auto simp: cx_is_adjudication_def cx_asks_def cx_allows dest!: parsed_Inr enforce_Inr)
qed

lemma cx_halves_agree:
  "answers_action (cx_action_from_tool (cxpo_tool_name e) (cxpo_tool_input e) (cxpo_tool_use_id e) cwd)
     (cx_post_observation J e)"
  by (auto simp: cx_action_from_tool_def cx_post_observation_def answers_action_def Let_def
      file_operation_None web_fetch_None tool_output_success_def
      dest: file_operation_SomeD web_fetch_SomeD classified split: option.splits)

text \<open>
  A file operation after the fact always succeeded, whatever the response says: the adapter
  reads no error out of it.
\<close>

lemma cx_file_result_succeeds:
  "cx_post_observation J e = FileOperationResult r \<Longrightarrow> fr_success r \<and> fr_error r = None"
  by (auto simp: cx_post_observation_def Let_def split: if_splits)

lemma cx_run_cleared:
  assumes "cx_is_adjudication c" "cx_run env P V c stdin (Ready m (Inr C)) w = Some out"
    "\<not> json_says out [''hookSpecificOutput'', ''permissionDecision''] ''deny''"
    "\<not> json_says out [''hookSpecificOutput'', ''decision'', ''behavior''] ''deny''"
    "\<not> json_says out [''decision''] ''block''"
  shows "answered_allow stdin (cx_asks P V c) C w"
proof -
  obtain t r where r: "run_hook env c cx_degraded_response (cx_dispatch P V) stdin
      (connected (Ready m (Inr C))) w = Some (t, r)" "out = cx_json r"
    using assms(2) by (auto simp: cx_run_def)
  then have "\<not> cx_is_deny r" using assms(3-5) by (simp add: cx_json_deny)
  from cx.run_cleared[OF assms(1) this r(1)] show ?thesis by (simp add: connected_Inr)
qed

end
