(* ===== verification/Opencode.thy ===== *)
theory Opencode
  imports Hook_Adapter
begin

text \<open>
  The OpenCode adapter (\<open>crates/hooks/opencode/src/{lib,sidecar,sidecar/protocol}.rs\<close>): an
  event is normalised into a sidecar request whose criticality says whether it gates an
  operation, mapped onto a trajectory event, adjudicated, and answered; the command-line hook
  turns the answer into the flat envelope and an exit code. The plugin template and its
  installer are not modelled.
\<close>

section \<open>The protocol\<close>

datatype criticality = ObservationOnly | ContextInjectionCapable | AdjudicationCritical

fun is_blocking :: "criticality \<Rightarrow> bool" where
  "is_blocking AdjudicationCritical = True"
| "is_blocking ContextInjectionCapable = False"
| "is_blocking ObservationOnly = False"

record sidecar_event =
  sce_kind :: string
  sce_payload :: json

record sidecar_request =
  scq_id :: string
  scq_provider :: string
  scq_platform :: string
  scq_session_id :: "string option"
  scq_trajectory_id :: "string option"
  scq_criticality :: criticality
  scq_event :: sidecar_event
  scq_metadata :: json

datatype sidecar_decision = SdAllow | SdDeny | SdEscalate

record sidecar_response =
  scr_id :: string
  scr_decision :: sidecar_decision
  scr_reason :: "string option"
  scr_additional_context :: "string option"
  scr_error :: "string option"

definition sidecar_allow :: "string \<Rightarrow> sidecar_response" where
  "sidecar_allow i = \<lparr>scr_id = i, scr_decision = SdAllow, scr_reason = None,
     scr_additional_context = None, scr_error = None\<rparr>"

definition sidecar_deny :: "string \<Rightarrow> string \<Rightarrow> sidecar_response" where
  "sidecar_deny i reason = \<lparr>scr_id = i, scr_decision = SdDeny, scr_reason = Some reason,
     scr_additional_context = None, scr_error = None\<rparr>"

definition with_error :: "sidecar_response \<Rightarrow> string \<Rightarrow> sidecar_response" where
  "with_error r e = r\<lparr>scr_error := Some e\<rparr>"

section \<open>Reading a payload\<close>

definition jpath :: "string list \<Rightarrow> json \<Rightarrow> json option" where
  "jpath path v = foldl (\<lambda>r k. Option.bind r (jget k)) (Some v) path"

fun string_or_number :: "json \<Rightarrow> string option" where
  "string_or_number (JStr s) = Some s"
| "string_or_number (JInt n) = Some (int_to_string n)"
| "string_or_number (JFloat t) = Some t"
| "string_or_number _ = None"

definition string_at :: "json \<Rightarrow> string list \<Rightarrow> string option" where
  "string_at v path = Option.bind (jpath path v) string_or_number"

text \<open>A chain of \<open>string_at(..).or_else(|| string_at(..))\<close>.\<close>

definition string_at_any :: "json \<Rightarrow> string list list \<Rightarrow> string option" where
  "string_at_any v paths = find_map (string_at v) paths"

definition int_at :: "json \<Rightarrow> string list \<Rightarrow> i64 option" where
  "int_at v path = Option.bind (jpath path v) as_i64"

record oc_env =
  oc_username :: string
  oc_fresh :: fresh
  oc_uuid :: string
  oc_now_micros :: int
  oc_cwd :: "string option"
  oc_json :: json_writer

definition OPENCODE_PROVIDER :: string where "OPENCODE_PROVIDER = ''opencode''"
definition OPENCODE_PLATFORM :: string where "OPENCODE_PLATFORM = ''opencode-bun''"

definition criticality_for_event :: "string \<Rightarrow> criticality" where
  "criticality_for_event kind =
     (if kind = ''tool.execute.before'' then AdjudicationCritical
      else if kind = ''permission.ask'' then AdjudicationCritical
      else if kind = ''chat.message'' then ObservationOnly
      else ObservationOnly)"

definition oc_message_content :: "oc_env \<Rightarrow> json \<Rightarrow> string" where
  "oc_message_content V payload =
     unwrap_or (string_at_any payload [[''message'', ''content''], [''content''], [''text'']])
       (oc_json V payload)"

definition oc_tool_name :: "json \<Rightarrow> string" where
  "oc_tool_name payload =
     unwrap_or (string_at_any payload [[''tool'', ''name''], [''tool''], [''name'']]) ''tool''"

definition oc_tool_arguments :: "json \<Rightarrow> json" where
  "oc_tool_arguments payload =
     unwrap_or (find_map (\<lambda>k. jget k payload) [''args'', ''input'', ''tool_input'']) JNull"

definition oc_command_from_payload :: "oc_env \<Rightarrow> json \<Rightarrow> string" where
  "oc_command_from_payload V payload =
     (case string_at_any payload [[''command''], [''cmd''], [''args'', ''command''],
        [''input'', ''command''], [''tool_input'', ''command'']] of
        Some command \<Rightarrow> command
      | None \<Rightarrow> unwrap_or (as_str (oc_tool_arguments payload)) (oc_json V (oc_tool_arguments payload)))"

definition oc_call_id :: "oc_env \<Rightarrow> json \<Rightarrow> string" where
  "oc_call_id V payload =
     unwrap_or (string_at_any payload [[''call_id''], [''callId''], [''tool_call_id''], [''id'']])
       (''call-'' @ oc_uuid V)"

definition oc_status_code :: "json \<Rightarrow> i32" where
  "oc_status_code payload =
     (case find_map (int_at payload) [[''status_code''], [''statusCode''], [''status''], [''code''],
        [''result'', ''status'']] of
        Some code \<Rightarrow> unwrap_or (i32_try_from code) 200 | None \<Rightarrow> 200)"

text \<open>An exit code outside 32 bits saturates.\<close>

definition i32_saturating :: "i64 \<Rightarrow> i32" where
  "i32_saturating code =
     unwrap_or (i32_try_from code) (if sint code < 0 then - (2 ^ 31) else 2 ^ 31 - 1)"

definition oc_exit_code :: "json \<Rightarrow> i32" where
  "oc_exit_code payload =
     (case find_map (int_at payload) [[''exit_code''], [''exitCode''], [''code''], [''status''],
        [''result'', ''exit_code'']] of
        Some code \<Rightarrow> i32_saturating code | None \<Rightarrow> 0)"

definition oc_is_shell_tool :: "string \<Rightarrow> bool" where
  "oc_is_shell_tool tool_name \<longleftrightarrow> to_ascii_lowercase tool_name
     \<in> set [''bash'', ''shell'', ''terminal'', ''sh'', ''run'']"

section \<open>Mappers\<close>

definition oc_action :: "oc_env \<Rightarrow> json \<Rightarrow> action" where
  "oc_action V payload =
     (let tool = oc_tool_name payload; args = oc_tool_arguments payload;
          call_id = oc_call_id V payload
      in if oc_is_shell_tool tool then
           ShellCommand \<lparr>shc_call_id = call_id, shc_command = oc_command_from_payload V payload,
             shc_working_dir = opt_else (string_at_any payload [[''cwd''], [''workspace'']]) (oc_cwd V)\<rparr>
         else case web_fetch_for tool args call_id of
             Some fetch \<Rightarrow> WebFetch fetch
           | None \<Rightarrow>
               (case file_operation_for tool args call_id of
                  Some file_op \<Rightarrow> FileOperation file_op
                | None \<Rightarrow> ToolCall \<lparr>tc_call_id = call_id, tc_tool = tool, tc_arguments = args\<rparr>))"

definition oc_observation :: "oc_env \<Rightarrow> json \<Rightarrow> observation" where
  "oc_observation V payload =
     (let tool = oc_tool_name payload; args = oc_tool_arguments payload;
          call_id = oc_call_id V payload;
          output = string_at_any payload [[''output''], [''content''], [''result'', ''output'']]
      in case string_at payload [''error''] of
           Some error \<Rightarrow> ToolOutput (tool_output_error call_id error)
         | None \<Rightarrow>
             (if oc_is_shell_tool tool then
                ShellCommandOutput \<lparr>sco_call_id = call_id, sco_exit_code = oc_exit_code payload,
                  sco_stdout = unwrap_or
                    (string_at_any payload [[''stdout''], [''output''], [''result'', ''stdout'']]) [],
                  sco_stderr = unwrap_or
                    (string_at_any payload [[''stderr''], [''result'', ''stderr'']]) []\<rparr>
              else if is_file_operation tool args then
                FileOperationResult \<lparr>fr_call_id = call_id, fr_success = True,
                  fr_path = nonempty (file_path_arg args), fr_content = output, fr_error = None\<rparr>
              else if is_web_fetch tool args then
                WebFetchOutput \<lparr>wfo_call_id = call_id, wfo_url = unwrap_or (web_url_arg args) [],
                  wfo_code = oc_status_code payload, wfo_result = unwrap_or output []\<rparr>
              else ToolOutput (tool_output_success call_id
                (unwrap_or (opt_else (jget ''output'' payload) (jget ''result'' payload)) payload))))"

section \<open>The sidecar\<close>

text \<open>The agents of the open sessions, and the key of a session that names none.\<close>

record oc_state =
  ocs_agents :: "string \<rightharpoonup> agent"
  ocs_fallback_session_id :: string

definition oc_state_default :: "oc_env \<Rightarrow> oc_state" where
  "oc_state_default V =
     \<lparr>ocs_agents = Map.empty, ocs_fallback_session_id = ''opencode-sidecar-'' @ oc_uuid V\<rparr>"

definition oc_build_agent :: "oc_env \<Rightarrow> agent" where
  "oc_build_agent V = \<lparr>ag_id = OPENCODE_PROVIDER @ ''-'' @ oc_username V,
     ag_provider = OPENCODE_PROVIDER, ag_platform = OPENCODE_PLATFORM\<rparr>"

definition oc_session_key :: "oc_state \<Rightarrow> string option \<Rightarrow> string" where
  "oc_session_key st session =
     unwrap_or (Option.bind session (\<lambda>s. if trim s = [] then None else Some s))
       (ocs_fallback_session_id st)"

definition oc_current_agent :: "oc_env \<Rightarrow> oc_state \<Rightarrow> string option \<Rightarrow> agent" where
  "oc_current_agent V st session =
     unwrap_or (ocs_agents st (oc_session_key st session)) (oc_build_agent V)"

definition oc_request :: "oc_env \<Rightarrow> string \<Rightarrow> json \<Rightarrow> sidecar_request" where
  "oc_request V kind payload =
     (let session_id = string_at_any payload [[''session_id''], [''sessionID''], [''session'', ''id''],
            [''info'', ''id''], [''properties'', ''sessionID''], [''properties'', ''info'', ''id'']]
      in \<lparr>scq_id = unwrap_or (string_at_any payload [[''id''], [''event_id'']])
            (kind @ '':'' @ int_to_string (oc_now_micros V)),
          scq_provider = OPENCODE_PROVIDER, scq_platform = OPENCODE_PLATFORM,
          scq_session_id = session_id, scq_trajectory_id = session_id,
          scq_criticality = criticality_for_event kind,
          scq_event = \<lparr>sce_kind = kind, sce_payload = payload\<rparr>, scq_metadata = JNull\<rparr>)"

text \<open>
  \<open>map_request_to_event\<close>: the event and the state after it. Its result type allows an error,
  which no branch returns.
\<close>

definition oc_payload_event :: "oc_env \<Rightarrow> agent \<Rightarrow> string \<Rightarrow> json \<Rightarrow> trajectory_event" where
  "oc_payload_event V agent kind payload =
     (if kind = ''session.created'' then Control (Started (started_new (oc_build_agent V)))
      else if kind = ''session.deleted'' then Control (Completed (Some kind))
      else if kind = ''session.idle'' then Observation (Thought ''OpenCode session idle'')
      else if kind = ''session.error'' then
        Control (Failed (unwrap_or (string_at_any payload [[''error''], [''message'']])
          ''OpenCode session error''))
      else if kind = ''session.updated'' then Observation (Thought ''OpenCode session updated'')
      else if kind = ''chat.message'' then
        Observation (Prompt (prompt_user (oc_message_content V payload)))
      else if kind = ''permission.ask'' then
        Action (ToolCall \<lparr>tc_call_id = oc_call_id V payload, tc_tool = ''opencode.permission.ask'',
          tc_arguments = payload\<rparr>)
      else if kind = ''tool.execute.before'' then Action (oc_action V payload)
      else if kind = ''tool.execute.after'' then Observation (oc_observation V payload)
      else Observation (Thought (''OpenCode '' @ kind @ '': '' @ oc_json V payload)))"

definition oc_map_request :: "oc_env \<Rightarrow> oc_state \<Rightarrow> sidecar_request \<Rightarrow> event \<times> oc_state" where
  "oc_map_request V st q =
     (let kind = sce_kind (scq_event q); payload = sce_payload (scq_event q);
          session = scq_session_id q; key = oc_session_key st session;
          trajectory_id = unwrap_or (opt_else (scq_trajectory_id q) session)
            (ocs_fallback_session_id st);
          agent = (if kind = ''session.created'' then oc_build_agent V
                   else oc_current_agent V st session);
          ev = event_new (oc_fresh V) agent trajectory_id (oc_payload_event V agent kind payload)
      in (if kind = ''chat.message'' then with_actor ev (actor_human (ag_id agent)) else ev,
          if kind = ''session.created'' then st\<lparr>ocs_agents := (ocs_agents st)(key \<mapsto> agent)\<rparr>
          else if kind = ''session.deleted'' \<or> kind = ''session.error''
          then st\<lparr>ocs_agents := (ocs_agents st)(key := None)\<rparr>
          else st))"

definition oc_response_from_adjudication :: "string \<Rightarrow> adjudicated \<Rightarrow> sidecar_response" where
  "oc_response_from_adjudication i a =
     \<lparr>scr_id = i,
      scr_decision = (case adj_decision a of Allow \<Rightarrow> SdAllow | Deny \<Rightarrow> SdDeny
        | Escalate \<Rightarrow> SdEscalate),
      scr_reason = (case adj_decision a of
          Allow \<Rightarrow> opt_else (adj_reason a) (format_policy_context a)
        | Deny \<Rightarrow> Some (deny_message a ''OpenCode action blocked by policy'')
        | Escalate \<Rightarrow> Some (deny_message a ''OpenCode action requires review'')),
      scr_additional_context = steering_context a, scr_error = None\<rparr>"

text \<open>
  \<open>handle_sidecar_request\<close>. A harness error denies when the request gates an operation and
  allows, with the error, when it does not.
\<close>

definition oc_handle ::
  "oc_env \<Rightarrow> oc_state \<Rightarrow> 'w client \<Rightarrow> sidecar_request \<Rightarrow> (sidecar_response, 'w) handler" where
  "oc_handle V st C q w =
     (if scq_provider q \<noteq> OPENCODE_PROVIDER
      then answer (Inl (HeMessage (''unsupported sidecar provider: '' @ scq_provider q))) w
      else case C (fst (oc_map_request V st q)) w of
          (fut, w') \<Rightarrow>
            (and_then fut (\<lambda>r. Ready 0 (Inr (case r of
                 Inr a \<Rightarrow> oc_response_from_adjudication (scq_id q) a
               | Inl err \<Rightarrow>
                   (let text = client_error_display err in
                    if is_blocking (scq_criticality q)
                    then with_error (sidecar_deny (scq_id q)
                           (''Governance backend unavailable: '' @ text)) text
                    else with_error (sidecar_allow (scq_id q)) text)))), w'))"

section \<open>The command-line hook\<close>

datatype oc_command =
    OcInstall | OcUninstall | OcSessionCreated | OcSessionUpdated | OcSessionDeleted | OcSessionIdle
  | OcSessionError | OcChatMessage | OcPermissionAsk | OcToolExecuteBefore | OcToolExecuteAfter
  | OcEvent

fun oc_event_kind :: "oc_command \<Rightarrow> string option" where
  "oc_event_kind OcInstall = None"
| "oc_event_kind OcUninstall = None"
| "oc_event_kind OcSessionCreated = Some ''session.created''"
| "oc_event_kind OcSessionUpdated = Some ''session.updated''"
| "oc_event_kind OcSessionDeleted = Some ''session.deleted''"
| "oc_event_kind OcSessionIdle = Some ''session.idle''"
| "oc_event_kind OcSessionError = Some ''session.error''"
| "oc_event_kind OcChatMessage = Some ''chat.message''"
| "oc_event_kind OcPermissionAsk = Some ''permission.ask''"
| "oc_event_kind OcToolExecuteBefore = Some ''tool.execute.before''"
| "oc_event_kind OcToolExecuteAfter = Some ''tool.execute.after''"
| "oc_event_kind OcEvent = None"

definition oc_is_adjudication :: "oc_command \<Rightarrow> bool" where
  "oc_is_adjudication c \<longleftrightarrow> c = OcToolExecuteBefore \<or> c = OcPermissionAsk"

definition oc_degraded_response :: "oc_command \<Rightarrow> hook_error \<Rightarrow> decision_envelope" where
  "oc_degraded_response c error =
     (if oc_is_adjudication c then envelope_deny (fail_closed_reason error) else envelope_ok)"

definition oc_envelope :: "sidecar_response \<Rightarrow> decision_envelope" where
  "oc_envelope s =
     (if scr_decision s = SdAllow
      then (case scr_additional_context s of
          Some ctx \<Rightarrow> envelope_additional_context ctx | None \<Rightarrow> envelope_ok)
      else envelope_deny (unwrap_or (scr_reason s) ''Tool use blocked by Sondera policy''))"

text \<open>The kind and payload of a request: fixed by the command, or named by the event.\<close>

definition oc_kind_payload :: "oc_command \<Rightarrow> json \<Rightarrow> hook_error + string \<times> json" where
  "oc_kind_payload c raw =
     (case oc_event_kind c of
        Some kind \<Rightarrow> Inr (kind, raw)
      | None \<Rightarrow>
          bind_result (ok_or (Option.bind (Option.bind (jget ''kind'' raw) as_str)
              (\<lambda>k. if trim k = [] then None else Some k)) (HeMessage ''OpenCode event kind is required''))
            (\<lambda>kind. Inr (kind, unwrap_or (jget ''payload'' raw) JNull)))"

definition oc_dispatch ::
  "oc_env \<Rightarrow> 'w client \<Rightarrow> oc_command \<Rightarrow> json \<Rightarrow> (decision_envelope, 'w) handler" where
  "oc_dispatch V C c raw w =
     (case oc_kind_payload c raw of
        Inl err \<Rightarrow> answer (Inl err) w
      | Inr (kind, payload) \<Rightarrow>
          (case oc_handle V (oc_state_default V) C (oc_request V kind payload) w of
             (fut, w') \<Rightarrow> (and_then_ok fut (\<lambda>s. Ready 0 (Inr (oc_envelope s))), w')))"

definition oc_run ::
  "string option \<Rightarrow> oc_env \<Rightarrow> oc_command \<Rightarrow> (hook_error + json) future
     \<Rightarrow> (harness_client_error + 'w client) future \<Rightarrow> hook_error + unit \<Rightarrow> 'w
     \<Rightarrow> (json option \<times> nat) option" where
  "oc_run env V c stdin connection stdout w =
     map_option (\<lambda>(_, response). exit_after stdout (envelope_json response) (envelope_is_deny response))
       (run_hook env c oc_degraded_response (oc_dispatch V) stdin
          (connected connection) w)"

section \<open>The contract\<close>

text \<open>The two judgements of what gates an operation agree.\<close>

lemma oc_gates_agree:
  "oc_event_kind c = Some kind \<Longrightarrow> is_blocking (criticality_for_event kind) \<longleftrightarrow> oc_is_adjudication c"
  by (cases c) (auto simp: criticality_for_event_def oc_is_adjudication_def)

lemma oc_envelope_allows: "\<not> envelope_is_deny (oc_envelope s) \<longleftrightarrow> scr_decision s = SdAllow"
  by (simp add: oc_envelope_def split: option.split)

lemma oc_handle_allows:
  assumes "oc_handle V st C q w = (Ready n (Inr s), w')" "is_blocking (scq_criticality q)"
    "scr_decision s = SdAllow"
  shows "\<exists>a. C (fst (oc_map_request V st q)) w = (Ready n (Inr a), w') \<and> adj_decision a = Allow"
  using assms
  by (auto simp: oc_handle_def answer_def and_then_def Let_def with_error_def sidecar_deny_def
      oc_response_from_adjudication_def
      split: if_splits prod.splits future.splits sum.splits decision.splits)

definition oc_asks :: "oc_env \<Rightarrow> oc_command \<Rightarrow> json \<Rightarrow> event \<Rightarrow> bool" where
  "oc_asks V c raw ev \<longleftrightarrow>
     (\<exists>kind. oc_event_kind c = Some kind
        \<and> ev = fst (oc_map_request V (oc_state_default V) (oc_request V kind raw)))"

interpretation oc_matrix: fail_closed_exactly oc_is_adjudication oc_degraded_response envelope_is_deny
  by unfold_locales (simp_all add: oc_degraded_response_def)

interpretation oc: enforcing oc_is_adjudication oc_degraded_response envelope_is_deny
  "oc_dispatch V" "(=)" "oc_asks V"
proof unfold_locales
  fix c r h v w k w'
  assume c: "oc_is_adjudication c" and r: "\<not> envelope_is_deny r"
    and d: "oc_dispatch V h c v w = (Ready k (Inr r), w')"
  obtain kind where kind: "oc_event_kind c = Some kind" "is_blocking (criticality_for_event kind)"
    using c oc_gates_agree[of c] by (cases c) (auto simp: oc_is_adjudication_def)
  let ?q = "oc_request V kind v"
  have q: "scq_criticality ?q = criticality_for_event kind" by (simp add: oc_request_def Let_def)
  from d kind(1) obtain fut where "oc_handle V (oc_state_default V) h ?q w = (fut, w')"
    "and_then_ok fut (\<lambda>s. Ready 0 (Inr (oc_envelope s))) = Ready k (Inr r)"
    by (auto simp: oc_dispatch_def oc_kind_payload_def split: prod.splits)
  then obtain n s where "oc_handle V (oc_state_default V) h ?q w = (Ready n (Inr s), w')"
    "r = oc_envelope s" by (auto simp: and_then_ok_Inr)
  with r kind q show "\<exists>C ev n a. h = C \<and> oc_asks V c v ev \<and> C ev w = (Ready n (Inr a), w')
      \<and> adj_decision a = Allow"
    using oc_handle_allows[of V "oc_state_default V" h ?q w n s w']
    by (auto simp: oc_envelope_allows oc_asks_def)
qed

text \<open>A session's agent is always the adapter's own.\<close>

definition agents_ours :: "oc_env \<Rightarrow> oc_state \<Rightarrow> bool" where
  "agents_ours V st \<longleftrightarrow> ran (ocs_agents st) \<subseteq> {oc_build_agent V}"

lemma agents_ours_kept:
  assumes "agents_ours V st"
  shows "agents_ours V (snd (oc_map_request V st q))"
    "ev_agent (fst (oc_map_request V st q)) = oc_build_agent V"
proof -
  have "oc_current_agent V st s = oc_build_agent V" for s
    using assms by (cases "ocs_agents st (oc_session_key st s)")
      (auto simp: oc_current_agent_def agents_ours_def ran_def)
  then show "agents_ours V (snd (oc_map_request V st q))"
    "ev_agent (fst (oc_map_request V st q)) = oc_build_agent V"
    using assms
    by (auto simp: oc_map_request_def Let_def agents_ours_def ran_def with_actor_def event_new_def
        split: if_splits)
qed

text \<open>
  The halves agree when the tool did not fail. One that failed reports a tool output whatever
  it was.
\<close>

lemma oc_halves_agree:
  assumes "string_at payload' [''error''] = None" "oc_tool_name payload = oc_tool_name payload'"
    "oc_tool_arguments payload = oc_tool_arguments payload'"
    "oc_call_id V payload = oc_call_id V payload'"
  shows "answers_action (oc_action V payload) (oc_observation V payload')"
  using assms file_and_web_disjoint[of "oc_tool_name payload'" "oc_tool_arguments payload'"]
  by (auto simp: oc_action_def oc_observation_def answers_action_def Let_def
      file_operation_None web_fetch_None tool_output_success_def
      dest: file_operation_SomeD web_fetch_SomeD classified split: option.splits)

lemma oc_failed_tool:
  "string_at payload [''error''] = Some e \<Longrightarrow>
     oc_observation V payload = ToolOutput (tool_output_error (oc_call_id V payload) e)"
  by (simp add: oc_observation_def Let_def)

lemma oc_run_cleared:
  assumes "oc_is_adjudication c" "oc_run env V c stdin (Ready m (Inr C)) stdout w = Some (Some out, code)" "code \<noteq> 2"
  shows "answered_allow stdin (oc_asks V c) C w"
proof -
  obtain t r where "run_hook env c oc_degraded_response (oc_dispatch V) stdin
      (connected (Ready m (Inr C))) w = Some (t, r)" "\<not> envelope_is_deny r"
    using assms(2,3) by (cases stdout) (auto simp: oc_run_def split: if_splits)
  from oc.run_cleared[OF assms(1) this(2,1)] show ?thesis by (simp add: connected_Inr)
qed

end
