(* ===== verification/Gemini.thy ===== *)
theory Gemini
  imports Hook_Adapter
begin

text \<open>
  The Gemini adapter (\<open>crates/hooks/gemini/src/{types,hooks,response,lib}.rs\<close>). It maps a
  fixed set of tools, enforces before the agent, the model, the choice of tools and a tool, and
  after the model, and reads four things as a block: a deny, a stop, and tools switched off.
  Response builders no handler uses are left out.
\<close>

section \<open>Responses\<close>

datatype gm_decision = GmAllow | GmDeny | GmBlock

record gm_tool_config =
  gmt_mode :: "string option"
  gmt_allowed_function_names :: "string list option"

record gm_output =
  gmo_additional_context :: "string option"
  gmo_clear_context :: "bool option"
  gmo_tool_input :: "json option"
  gmo_tool_config :: "gm_tool_config option"
  gmo_llm_request :: "json option"
  gmo_llm_response :: "json option"

record gm_response =
  gmr_decision :: "gm_decision option"
  gmr_reason :: "string option"
  gmr_system_message :: "string option"
  gmr_suppress_output :: "bool option"
  gmr_continue_execution :: "bool option"
  gmr_stop_reason :: "string option"
  gmr_hook_specific_output :: "gm_output option"

definition gm_ok :: gm_response where
  "gm_ok = \<lparr>gmr_decision = None, gmr_reason = None, gmr_system_message = None,
     gmr_suppress_output = None, gmr_continue_execution = None, gmr_stop_reason = None,
     gmr_hook_specific_output = None\<rparr>"

definition gm_allow :: gm_response where "gm_allow = gm_ok\<lparr>gmr_decision := Some GmAllow\<rparr>"

definition gm_deny :: "string \<Rightarrow> gm_response" where
  "gm_deny reason = gm_ok\<lparr>gmr_decision := Some GmDeny, gmr_reason := Some reason\<rparr>"

definition gm_deny_with_message :: "string \<Rightarrow> string \<Rightarrow> gm_response" where
  "gm_deny_with_message reason m = (gm_deny reason)\<lparr>gmr_system_message := Some m\<rparr>"

definition gm_output_default :: gm_output where
  "gm_output_default = \<lparr>gmo_additional_context = None, gmo_clear_context = None,
     gmo_tool_input = None, gmo_tool_config = None, gmo_llm_request = None, gmo_llm_response = None\<rparr>"

definition gm_tools :: "string \<Rightarrow> gm_response" where
  "gm_tools mode = gm_ok\<lparr>gmr_hook_specific_output := Some (gm_output_default\<lparr>gmo_tool_config :=
     Some \<lparr>gmt_mode = Some mode, gmt_allowed_function_names = None\<rparr>\<rparr>)\<rparr>"

definition gm_allow_all_tools :: gm_response where "gm_allow_all_tools = gm_tools ''AUTO''"

text \<open>The reason is not sent: this hook's output has no place for one.\<close>

definition gm_disable_all_tools :: "string \<Rightarrow> gm_response" where
  "gm_disable_all_tools reason = gm_tools ''NONE''"

definition gm_retry :: "string \<Rightarrow> gm_response" where "gm_retry feedback = gm_deny feedback"

definition gm_with_system_msg :: "gm_response \<Rightarrow> string \<Rightarrow> gm_response" where
  "gm_with_system_msg r m = r\<lparr>gmr_system_message := Some m\<rparr>"

definition gm_stop :: "string \<Rightarrow> gm_response" where
  "gm_stop reason =
     gm_ok\<lparr>gmr_continue_execution := Some False, gmr_stop_reason := Some reason\<rparr>"

definition gm_is_deny :: "gm_response \<Rightarrow> bool" where
  "gm_is_deny r \<longleftrightarrow>
     gmr_decision r = Some GmDeny \<or> gmr_decision r = Some GmBlock
     \<or> gmr_continue_execution r = Some False
     \<or> Option.bind (Option.bind (gmr_hook_specific_output r) gmo_tool_config) gmt_mode = Some ''NONE''"

lemma gm_is_deny_simps [simp]:
  "\<not> gm_is_deny gm_ok" "\<not> gm_is_deny gm_allow" "gm_is_deny (gm_deny m)"
  "gm_is_deny (gm_deny_with_message m x)" "\<not> gm_is_deny gm_allow_all_tools"
  "gm_is_deny (gm_disable_all_tools m)" "gm_is_deny (gm_stop m)"
  "gm_is_deny (gm_with_system_msg r m) \<longleftrightarrow> gm_is_deny r" "gm_is_deny (gm_retry m)"
  by (simp_all add: gm_is_deny_def gm_ok_def gm_allow_def gm_deny_def gm_deny_with_message_def
      gm_allow_all_tools_def gm_disable_all_tools_def gm_tools_def gm_output_default_def gm_stop_def
      gm_with_system_msg_def gm_retry_def)

section \<open>Tools\<close>

fun words_of :: "string list \<Rightarrow> string \<Rightarrow> string list" where
  "words_of [] acc = (if acc = [] then [] else [acc])"
| "words_of (ch # chs) acc =
     (if is_whitespace ch then (if acc = [] then [] else [acc]) @ words_of chs []
      else words_of chs (acc @ ch))"

definition split_whitespace :: "string \<Rightarrow> string list" where
  "split_whitespace s = words_of (utf8_chars s) []"

definition gm_extract_url :: "string \<Rightarrow> string" where
  "gm_extract_url s =
     unwrap_or (find (\<lambda>word. prefix ''http://'' word \<or> prefix ''https://'' word) (split_whitespace s)) []"

definition gm_first_path :: "json \<Rightarrow> string" where
  "gm_first_path tool_input =
     (let single = file_path_arg tool_input in
      if single \<noteq> [] then single
      else unwrap_or (Option.bind (Option.bind (jget ''paths'' tool_input) as_array)
        (\<lambda>paths. case paths of [] \<Rightarrow> None | p # _ \<Rightarrow> as_str p)) [])"

definition gm_shell_tools :: "string list" where
  "gm_shell_tools = [''runshellcommand'', ''runterminalcmd'', ''shell'']"

definition gm_file_tools :: "string list" where
  "gm_file_tools =
     [''readfile'', ''readmanyfiles'', ''replace'', ''editfile'', ''edit'', ''writefile'']"

definition gm_action_for :: "string \<Rightarrow> string \<Rightarrow> json \<Rightarrow> string \<Rightarrow> action" where
  "gm_action_for uuid tool_name tool_input cwd =
     (let name = normalize_tool_name tool_name; call_id = ''tool-'' @ uuid in
      if name \<in> set gm_shell_tools then
        ShellCommand \<lparr>shc_call_id = call_id,
          shc_command = unwrap_or (string_arg tool_input [''command'']) [],
          shc_working_dir = Some (unwrap_or (string_arg tool_input [''cwd'', ''directory'']) cwd)\<rparr>
      else if name = ''readfile'' \<or> name = ''readmanyfiles'' then
        FileOperation \<lparr>fo_call_id = call_id, fo_operation = OpRead,
          fo_path = gm_first_path tool_input, fo_content = None, fo_old_content = None\<rparr>
      else if name = ''replace'' \<or> name = ''editfile'' \<or> name = ''edit'' then
        FileOperation \<lparr>fo_call_id = call_id, fo_operation = OpEdit,
          fo_path = file_path_arg tool_input,
          fo_content = string_arg tool_input [''new_string'', ''newString''],
          fo_old_content = string_arg tool_input [''old_string'', ''oldString'']\<rparr>
      else if name = ''writefile'' then
        FileOperation \<lparr>fo_call_id = call_id, fo_operation = OpWrite,
          fo_path = file_path_arg tool_input, fo_content = string_arg tool_input [''content''],
          fo_old_content = None\<rparr>
      else if name = ''webfetch'' then
        (let prompt = unwrap_or (string_arg tool_input [''prompt'']) [] in
         WebFetch \<lparr>wf_call_id = call_id,
           wf_url = (case string_arg tool_input [''url''] of Some u \<Rightarrow> u
             | None \<Rightarrow> gm_extract_url prompt),
           wf_prompt = prompt\<rparr>)
      else ToolCall \<lparr>tc_call_id = call_id, tc_tool = tool_name, tc_arguments = tool_input\<rparr>)"

definition gm_no_error :: "json \<Rightarrow> bool" where
  "gm_no_error response \<longleftrightarrow> (case jget ''error'' response of None \<Rightarrow> True | Some v \<Rightarrow> v = JNull)"

definition gm_tool_observation :: "string \<Rightarrow> json \<Rightarrow> json \<Rightarrow> observation" where
  "gm_tool_observation tool_name tool_input response =
     (let name = normalize_tool_name tool_name; call_id = ''tool-'' @ tool_name;
          field = (\<lambda>k. Option.bind (jget k response) as_str)
      in if name \<in> set gm_shell_tools then
           ShellCommandOutput \<lparr>sco_call_id = call_id,
             sco_exit_code = (case Option.bind (jget ''exit_code'' response) as_i64 of
               Some v \<Rightarrow> as_i32 v | None \<Rightarrow> 0),
             sco_stdout = unwrap_or (field ''stdout'') [], sco_stderr = unwrap_or (field ''stderr'') []\<rparr>
         else if name \<in> set gm_file_tools then
           FileOperationResult \<lparr>fr_call_id = call_id, fr_success = gm_no_error response,
             fr_path = nonempty (gm_first_path tool_input), fr_content = field ''content'',
             fr_error = field ''error''\<rparr>
         else if name = ''webfetch'' then
           WebFetchOutput \<lparr>wfo_call_id = call_id,
             wfo_url = (case Option.bind (jget ''url'' tool_input) as_str of Some u \<Rightarrow> u
               | None \<Rightarrow> gm_extract_url (unwrap_or (Option.bind (jget ''prompt'' tool_input) as_str) [])),
             wfo_code = (case Option.bind (jget ''code'' response) as_i64 of
               Some v \<Rightarrow> as_i32 v | None \<Rightarrow> 200),
             wfo_result = unwrap_or (Option.bind
               (opt_else (jget ''result'' response) (jget ''content'' response)) as_str) []\<rparr>
         else ToolOutput \<lparr>to_call_id = call_id, to_success = gm_no_error response,
           to_output = response, to_error = field ''error''\<rparr>)"

text \<open>
  What is adjudicated of a model request: the contents of its messages, except those that are
  blank or mention the session context the CLI injects.
\<close>

definition gm_message_part :: "json \<Rightarrow> string option" where
  "gm_message_part msg =
     Option.bind (Option.bind (jget ''content'' msg) as_str) (\<lambda>content.
       if sublist ''<session_context>'' content then None
       else if trim content = [] then None
       else Some content)"

definition gm_extract_user_messages :: "json_writer \<Rightarrow> json \<Rightarrow> string" where
  "gm_extract_user_messages J llm_request =
     (case Option.bind (jget ''messages'' llm_request) as_array of
        None \<Rightarrow> J llm_request
      | Some messages \<Rightarrow> join [CHR 0x0A] (List.map_filter gm_message_part messages))"

section \<open>Events and handlers\<close>

text \<open>Of the common input the handlers read the session and the directory.\<close>

record gm_common =
  gmc_session_id :: string
  gmc_cwd :: string

record gm_plain = gmpl_common :: gm_common

record gm_before_agent =
  gmba_common :: gm_common
  gmba_prompt :: string

record gm_after_agent =
  gmaa_common :: gm_common
  gmaa_prompt :: string
  gmaa_prompt_response :: string
  gmaa_stop_hook_active :: bool

record gm_before_model =
  gmbm_common :: gm_common
  gmbm_llm_request :: json

record gm_after_model =
  gmam_common :: gm_common
  gmam_llm_request :: json
  gmam_llm_response :: json

record gm_before_tool =
  gmbt_common :: gm_common
  gmbt_tool_name :: string
  gmbt_tool_input :: json

record gm_after_tool =
  gmat_common :: gm_common
  gmat_tool_name :: string
  gmat_tool_input :: json
  gmat_tool_response :: json

record gm_env =
  gm_agent_id :: string
  gm_fresh :: fresh
  gm_uuid :: string
  gm_json :: json_writer

definition gm_agent :: "gm_env \<Rightarrow> agent" where
  "gm_agent V = \<lparr>ag_id = gm_agent_id V, ag_provider = ''gemini'', ag_platform = ''gemini''\<rparr>"

definition gm_event :: "gm_env \<Rightarrow> gm_common \<Rightarrow> trajectory_event \<Rightarrow> event" where
  "gm_event V c te = event_new (gm_fresh V) (gm_agent V) (gmc_session_id c) te"

definition gm_prompt :: "prompt_role \<Rightarrow> string \<Rightarrow> trajectory_event" where
  "gm_prompt role s = Observation (Prompt \<lparr>pr_content = s, pr_role = role\<rparr>)"

definition gm_stop_verdict :: "adjudicated \<Rightarrow> gm_response" where
  "gm_stop_verdict a =
     (case adj_decision a of
        Allow \<Rightarrow> gm_ok
      | Deny \<Rightarrow> gm_stop (deny_message a ''Session start blocked by policy'')
      | Escalate \<Rightarrow> gm_stop (deny_message a ''Session start escalated for review''))"

text \<open>A denial shown to the user as well; an escalation says so first.\<close>

definition gm_message_verdict :: "gm_response \<Rightarrow> string \<Rightarrow> string \<Rightarrow> adjudicated \<Rightarrow> gm_response" where
  "gm_message_verdict ok deny escalate a =
     (case adj_decision a of
        Allow \<Rightarrow> ok
      | Deny \<Rightarrow> (let m = deny_message a deny in gm_deny_with_message m m)
      | Escalate \<Rightarrow> (let m = ''Requires approval: '' @ deny_message a escalate
          in gm_deny_with_message m m))"

definition gm_retry_verdict :: "adjudicated \<Rightarrow> gm_response" where
  "gm_retry_verdict a =
     (case adj_decision a of
        Allow \<Rightarrow> gm_ok
      | Deny \<Rightarrow> (let m = deny_message a ''Agent response denied by policy''
          in gm_with_system_msg (gm_retry m) m)
      | Escalate \<Rightarrow> (let m = ''Requires approval: '' @ deny_message a ''Agent response requires review''
          in gm_with_system_msg (gm_retry m) m))"

definition gm_model_verdict :: "string \<Rightarrow> adjudicated \<Rightarrow> gm_response" where
  "gm_model_verdict deny a =
     (if adj_decision a = Allow then gm_ok else gm_deny (deny_message a deny))"

definition gm_selection_verdict :: "adjudicated \<Rightarrow> gm_response" where
  "gm_selection_verdict a =
     (if adj_decision a = Allow then gm_allow_all_tools
      else gm_disable_all_tools (deny_message a ''Tool access denied by policy''))"

definition gm_start_event :: "gm_env \<Rightarrow> gm_plain \<Rightarrow> event" where
  "gm_start_event V e = gm_event V (gmpl_common e) (Control (Started (started_new (gm_agent V))))"

definition gm_before_agent_event :: "gm_env \<Rightarrow> gm_before_agent \<Rightarrow> event" where
  "gm_before_agent_event V e =
     with_actor (gm_event V (gmba_common e) (gm_prompt RoleUser (gmba_prompt e)))
       (actor_human (gm_agent_id V))"

definition gm_request_event :: "gm_env \<Rightarrow> gm_before_model \<Rightarrow> event" where
  "gm_request_event V e =
     gm_event V (gmbm_common e)
       (gm_prompt RoleSystem (gm_extract_user_messages (gm_json V) (gmbm_llm_request e)))"

definition gm_after_model_event :: "gm_env \<Rightarrow> gm_after_model \<Rightarrow> event" where
  "gm_after_model_event V e =
     gm_event V (gmam_common e) (gm_prompt RoleAssistant (gm_json V (gmam_llm_response e)))"

definition gm_before_tool_event :: "gm_env \<Rightarrow> gm_before_tool \<Rightarrow> event" where
  "gm_before_tool_event V e =
     gm_event V (gmbt_common e) (Action (gm_action_for (gm_uuid V) (gmbt_tool_name e)
       (gmbt_tool_input e) (gmc_cwd (gmbt_common e))))"

definition gm_after_tool_event :: "gm_env \<Rightarrow> gm_after_tool \<Rightarrow> event" where
  "gm_after_tool_event V e =
     gm_event V (gmat_common e) (Observation (gm_tool_observation (gmat_tool_name e)
       (gmat_tool_input e) (gmat_tool_response e)))"

definition gm_handle_after_agent :: "gm_env \<Rightarrow> 'w client \<Rightarrow> gm_after_agent \<Rightarrow> (gm_response, 'w) handler"
  where
  "gm_handle_after_agent V C e =
     (if gmaa_stop_hook_active e then answer (Inr gm_ok)
      else enforce C (gm_event V (gmaa_common e) (gm_prompt RoleSystem (gmaa_prompt_response e)))
        gm_retry_verdict)"

definition gm_validate_tool :: "string \<Rightarrow> hook_error + unit" where
  "gm_validate_tool tool_name =
     (if trim tool_name = [] then Inl (HeMessage ''tool_name cannot be empty'') else Inr ())"

section \<open>The command\<close>

datatype gm_command =
    GmInstall bool bool | GmUninstall bool bool | GmSessionStart | GmSessionEnd | GmBeforeAgent
  | GmAfterAgent | GmBeforeModel | GmAfterModel | GmBeforeToolSelection | GmBeforeTool | GmAfterTool
  | GmPreCompress | GmNotification

definition gm_is_adjudication :: "gm_command \<Rightarrow> bool" where
  "gm_is_adjudication c \<longleftrightarrow>
     c \<in> {GmBeforeAgent, GmBeforeModel, GmAfterModel, GmBeforeToolSelection, GmBeforeTool}"

definition gm_degraded_response :: "gm_command \<Rightarrow> hook_error \<Rightarrow> gm_response" where
  "gm_degraded_response c error =
     (let reason = fail_closed_reason error in
      if c \<in> {GmBeforeAgent, GmBeforeModel, GmAfterModel, GmBeforeTool} then gm_deny reason
      else if c = GmBeforeToolSelection then gm_disable_all_tools reason
      else gm_ok)"

record gm_serde =
  gmsd_session_start :: "json \<Rightarrow> string + gm_plain"
  gmsd_session_end :: "json \<Rightarrow> string + gm_plain"
  gmsd_before_agent :: "json \<Rightarrow> string + gm_before_agent"
  gmsd_after_agent :: "json \<Rightarrow> string + gm_after_agent"
  gmsd_before_model :: "json \<Rightarrow> string + gm_before_model"
  gmsd_after_model :: "json \<Rightarrow> string + gm_after_model"
  gmsd_before_tool_selection :: "json \<Rightarrow> string + gm_before_model"
  gmsd_before_tool :: "json \<Rightarrow> string + gm_before_tool"
  gmsd_after_tool :: "json \<Rightarrow> string + gm_after_tool"
  gmsd_pre_compress :: "json \<Rightarrow> string + gm_plain"
  gmsd_notification :: "json \<Rightarrow> string + gm_plain"

fun gm_dispatch ::
  "gm_serde \<Rightarrow> gm_env \<Rightarrow> 'w client \<Rightarrow> gm_command \<Rightarrow> json \<Rightarrow> (gm_response, 'w) handler" where
  "gm_dispatch P V C (GmInstall _ _) raw = unreachable"
| "gm_dispatch P V C (GmUninstall _ _) raw = unreachable"
| "gm_dispatch P V C GmSessionStart raw =
     parsed (gmsd_session_start P raw) no_check (\<lambda>e. enforce C (gm_start_event V e) gm_stop_verdict)"
| "gm_dispatch P V C GmSessionEnd raw =
     parsed (gmsd_session_end P raw) no_check (\<lambda>_. answer (Inr gm_ok))"
| "gm_dispatch P V C GmBeforeAgent raw =
     parsed (gmsd_before_agent P raw) no_check (\<lambda>e. enforce C (gm_before_agent_event V e)
       (gm_message_verdict gm_allow ''Agent invocation denied by policy''
          ''Agent invocation requires approval''))"
| "gm_dispatch P V C GmAfterAgent raw =
     parsed (gmsd_after_agent P raw) no_check (gm_handle_after_agent V C)"
| "gm_dispatch P V C GmBeforeModel raw =
     parsed (gmsd_before_model P raw) no_check (\<lambda>e. enforce C (gm_request_event V e)
       (gm_model_verdict ''Model request blocked by policy''))"
| "gm_dispatch P V C GmAfterModel raw =
     parsed (gmsd_after_model P raw) no_check (\<lambda>e. enforce C (gm_after_model_event V e)
       (gm_model_verdict ''Model response blocked by policy''))"
| "gm_dispatch P V C GmBeforeToolSelection raw =
     parsed (gmsd_before_tool_selection P raw) no_check (\<lambda>e. enforce C (gm_request_event V e)
       gm_selection_verdict)"
| "gm_dispatch P V C GmBeforeTool raw =
     parsed (gmsd_before_tool P raw) (\<lambda>e. gm_validate_tool (gmbt_tool_name e))
       (\<lambda>e. enforce C (gm_before_tool_event V e) (gm_message_verdict gm_allow
          (''Tool '' @ quoted (gmbt_tool_name e) @ '' execution denied by policy'')
          (''Tool '' @ quoted (gmbt_tool_name e) @ '' requires approval'')))"
| "gm_dispatch P V C GmAfterTool raw =
     parsed (gmsd_after_tool P raw) (\<lambda>e. gm_validate_tool (gmat_tool_name e))
       (\<lambda>e. enforce C (gm_after_tool_event V e) (gm_message_verdict gm_ok
          (''Tool '' @ quoted (gmat_tool_name e) @ '' output blocked by policy'')
          (''Tool '' @ quoted (gmat_tool_name e) @ '' output requires review'')))"
| "gm_dispatch P V C GmPreCompress raw =
     parsed (gmsd_pre_compress P raw) no_check (\<lambda>_. answer (Inr gm_ok))"
| "gm_dispatch P V C GmNotification raw =
     parsed (gmsd_notification P raw) no_check (\<lambda>_. answer (Inr gm_ok))"

definition gm_run ::
  "string option \<Rightarrow> gm_serde \<Rightarrow> gm_env \<Rightarrow> gm_command \<Rightarrow> (hook_error + json) future
     \<Rightarrow> (harness_client_error + 'w client) future \<Rightarrow> 'w \<Rightarrow> (nat \<times> gm_response) option" where
  "gm_run env P V c stdin connection w =
     run_hook env c gm_degraded_response (gm_dispatch P V) stdin (connected connection) w"

section \<open>The contract\<close>

lemma gm_allows:
  "\<not> gm_is_deny ok \<Longrightarrow> \<not> gm_is_deny (gm_message_verdict ok d x a) \<longleftrightarrow> adj_decision a = Allow"
  "\<not> gm_is_deny (gm_model_verdict d a) \<longleftrightarrow> adj_decision a = Allow"
  "\<not> gm_is_deny (gm_selection_verdict a) \<longleftrightarrow> adj_decision a = Allow"
  by (simp_all add: gm_message_verdict_def gm_model_verdict_def gm_selection_verdict_def Let_def
      split: decision.split)

definition gm_asks :: "gm_serde \<Rightarrow> gm_env \<Rightarrow> gm_command \<Rightarrow> json \<Rightarrow> event \<Rightarrow> bool" where
  "gm_asks P V c raw ev \<longleftrightarrow>
     (case c of
        GmBeforeAgent \<Rightarrow> \<exists>e. gmsd_before_agent P raw = Inr e \<and> ev = gm_before_agent_event V e
      | GmBeforeModel \<Rightarrow> \<exists>e. gmsd_before_model P raw = Inr e \<and> ev = gm_request_event V e
      | GmAfterModel \<Rightarrow> \<exists>e. gmsd_after_model P raw = Inr e \<and> ev = gm_after_model_event V e
      | GmBeforeToolSelection \<Rightarrow>
          \<exists>e. gmsd_before_tool_selection P raw = Inr e \<and> ev = gm_request_event V e
      | GmBeforeTool \<Rightarrow> \<exists>e. gmsd_before_tool P raw = Inr e \<and> ev = gm_before_tool_event V e
      | _ \<Rightarrow> False)"

interpretation gm_matrix: fail_closed_exactly gm_is_adjudication gm_degraded_response gm_is_deny
  by unfold_locales (auto simp: gm_degraded_response_def gm_is_adjudication_def Let_def)

interpretation gm: enforcing gm_is_adjudication gm_degraded_response gm_is_deny
  "gm_dispatch P V" "(=)" "gm_asks P V"
proof unfold_locales
  fix c r h v w k w'
  assume c: "gm_is_adjudication c" and r: "\<not> gm_is_deny r"
    and d: "gm_dispatch P V h c v w = (Ready k (Inr r), w')"
  show "\<exists>C ev n a. h = C \<and> gm_asks P V c v ev \<and> C ev w = (Ready n (Inr a), w') \<and> adj_decision a = Allow"
    using c d r
    by (cases c)
      (auto simp: gm_is_adjudication_def gm_asks_def gm_allows dest!: parsed_Inr enforce_Inr)
qed

text \<open>A message that mentions the session context is not part of what is adjudicated.\<close>

lemma gm_session_context_unseen:
  assumes "jget ''content'' msg = Some (JStr s)" "sublist ''<session_context>'' s"
  shows "gm_message_part msg = None"
  using assms by (simp add: gm_message_part_def)

text \<open>The two halves of a call are the same kind; their identifiers never meet.\<close>

fun same_kind :: "action \<Rightarrow> observation \<Rightarrow> bool" where
  "same_kind (ShellCommand _) (ShellCommandOutput _) = True"
| "same_kind (FileOperation _) (FileOperationResult _) = True"
| "same_kind (WebFetch f) (WebFetchOutput r) = (wfo_url r = wf_url f)"
| "same_kind (ToolCall _) (ToolOutput _) = True"
| "same_kind _ _ = False"

lemma gm_halves_agree:
  "same_kind (gm_action_for uuid name input cwd) (gm_tool_observation name input response)"
  by (simp add: gm_action_for_def gm_tool_observation_def gm_file_tools_def gm_shell_tools_def
      string_arg_def Let_def split: option.splits)

lemma gm_run_cleared:
  assumes "gm_is_adjudication c" "gm_run env P V c stdin (Ready m (Inr C)) w = Some (t, r)"
    "\<not> gm_is_deny r"
  shows "answered_allow stdin (gm_asks P V c) C w"
  using gm.run_cleared[OF assms(1,3) assms(2)[unfolded gm_run_def]] by (simp add: connected_Inr)

end
