(* ===== verification/Sample_Hooks.thy ===== *)
theory Sample_Hooks
  imports Sample Openhands Hermes Codex Opencode Gemini
begin

text \<open>
  Concrete hook processes, on which the properties of the adapters are applied: a wire whose
  clock is exact, a network that calls the service, a client that always allows.
\<close>

definition sample_wire :: wire_env where
  "sample_wire = \<lparr>we_f64_of_text = (\<lambda>_. 0), we_number_of_f64 = (\<lambda>_. ''0''),
     we_from_timestamp = (\<lambda>s n. Some (sint s * 10 ^ 9 + sint n))\<rparr>"

definition sample_network :: "world network" where
  "sample_network req w =
     (case rpc_adjudicates sample_wire (adjudicate_event sample_harness sample_fresh ''corr'')
         (\<lambda>_. 0) False req w of (r, _, w') \<Rightarrow> (Ready 1 r, w'))"

lemma sample_network_honest:
  "honest sample_network sample_wire (adjudicate_event sample_harness sample_fresh ''corr'') (\<lambda>_. 0) False"
  by (auto simp: honest_def sample_network_def split: prod.splits)

lemma sample_date: "date_exact sample_wire 0"
  by (simp add: date_exact_def sample_wire_def)

definition sample_client :: "unit client" where
  "sample_client e w = (Ready 1 (Inr adjudicated_allow), w)"

text \<open>A response given after \<open>k\<close> seconds of a process that reads and connects at once.\<close>

lemma run_hook_at_once:
  assumes "dispatch h c v w = (Ready k (Inr r), w')" "k \<le> 30"
  shows "run_hook None c degraded dispatch (Ready 0 (Inr v)) (Ready 0 (Inr h)) w = Some (k, r)"
proof -
  have "parse_hook_budget None = 30"
    by (simp add: parse_hook_budget_def default_hook_budget_def max_hook_budget_def)
  then show ?thesis
    using assms resolve_hook_handled[of "Ready 0 (Inr v)" 0 v "Ready 0 (Inr h)" 0 h
        "\<lambda>h c v. fst (dispatch h c v w)" c k r None degraded]
    by (simp add: run_hook_def)
qed

lemma connected_ready [simp]: "connected (Ready 0 (Inr h)) = Ready 0 (Inr h)"
  by (simp add: connected_Inr)

section \<open>A write under OpenHands\<close>

definition sample_input :: json where
  "sample_input = JObj [(''path'', JStr ''a.txt''), (''content'', JStr ''hi'')]"

definition sample_oh_event :: oh_pre_tool_use where
  "sample_oh_event = \<lparr>ohp_common = \<lparr>ohc_event_type = ''PreToolUse'', ohc_session_id = ''s'',
      ohc_working_dir = ''/w'', ohc_model = None, ohc_metadata = Map.empty\<rparr>,
    ohp_tool_name = ''write_file'', ohp_tool_input = sample_input, ohp_tool_call_id = ''1''\<rparr>"

definition sample_oh_serde :: oh_serde where
  "sample_oh_serde = \<lparr>ohsd_session_start = (\<lambda>_. Inl ''no''), ohsd_pre_tool_use = (\<lambda>_. Inr sample_oh_event),
    ohsd_post_tool_use = (\<lambda>_. Inl ''no''), ohsd_user_prompt_submit = (\<lambda>_. Inl ''no''),
    ohsd_stop = (\<lambda>_. Inl ''no''), ohsd_session_end = (\<lambda>_. Inl ''no'')\<rparr>"

text \<open>The hook draws its ids apart from the service.\<close>

definition sample_hook_fresh :: fresh where
  "sample_hook_fresh = sample_fresh\<lparr>fresh_event_uuid := ''h''\<rparr>"

definition sample_oh_env :: oh_env where
  "sample_oh_env = \<lparr>oh_agent = sample_agent, oh_fresh = sample_hook_fresh, oh_cwd = None, oh_json = (\<lambda>_. ''{}'')\<rparr>"

definition sample_write_op :: file_operation where
  "sample_write_op = \<lparr>fo_call_id = ''1'', fo_operation = OpWrite, fo_path = ''a.txt'',
     fo_content = Some ''hi'', fo_old_content = None\<rparr>"

lemma sample_file_operation:
  "file_operation_for ''write_file'' sample_input ''1'' = Some sample_write_op"
  by code_simp

lemma sample_oh_action:
  "oh_pre_action J cwd sample_oh_event = FileOperation sample_write_op"
proof -
  have "\<not> oh_is_shell_tool ''write_file''" "trim ''1'' = ''1''" by code_simp+
  then show ?thesis using sample_file_operation
    by (simp add: oh_pre_action_def sample_oh_event_def oh_call_id_def Let_def)
qed

definition sample_write_event :: event where
  "sample_write_event = event_new sample_hook_fresh sample_agent ''s'' (Action (FileOperation sample_write_op))"

lemma sample_oh_pre_event: "oh_pre_event sample_oh_env sample_oh_event = sample_write_event"
proof -
  have "trim ''s'' = ''s''" by code_simp
  then show ?thesis
    by (simp add: oh_pre_event_def oh_event_def sample_oh_action sample_write_event_def
        sample_oh_env_def oh_trajectory_key_def) (simp add: sample_oh_event_def)
qed

lemma sample_write_allowed:
  "\<exists>a w. adjudicate_event sample_harness sample_fresh ''corr'' sample_write_event empty_world = (Inr a, w)
     \<and> adj_decision a = Allow"
  by (simp add: engine_eval sample_eval verdict_eval sample_write_event_def sample_write_op_def event_new_def
      sample_hook_fresh_def)

lemma sample_client_answers:
  assumes "event_of_pb sample_wire (pb_of_event sample_wire e) = Inr e'"
    "adjudicate_event sample_harness sample_fresh ''corr'' e' w = (Inr a, w')"
  shows "client_adjudicate sample_wire 30 sample_network e w = (Ready 1 (Inr a), w')"
  using assms
  by (simp add: client_adjudicate_def client_adjudicates_def sample_network_def rpc_adjudicates_def
      timeout_at_def and_then_ok_def and_then_def map_err_def bind_result_def)

lemma sample_write_crosses:
  "event_of_pb sample_wire (pb_of_event sample_wire sample_write_event) = Inr sample_write_event"
  using event_wire[of sample_wire sample_write_event] sample_date
  by (simp add: sample_write_event_def event_new_def sample_hook_fresh_def sample_fresh_def)

lemma sample_oh_run:
  "\<exists>out. oh_run None sample_oh_serde sample_oh_env OhPreToolUse (Ready 0 (Inr JNull))
     (Ready 0 (Inr (client_adjudicate sample_wire 30 sample_network))) (Inr ()) empty_world = Some (Some out, 0)"
proof -
  let ?C = "client_adjudicate sample_wire 30 sample_network"
  obtain a w where a: "adjudicate_event sample_harness sample_fresh ''corr'' sample_write_event empty_world = (Inr a, w)"
    "adj_decision a = Allow" using sample_write_allowed by blast
  have "trim ''write_file'' = ''write_file''" by code_simp
  then have "oh_dispatch sample_oh_serde sample_oh_env ?C OhPreToolUse JNull empty_world
      = (Ready 1 (Inr (oh_blocking_response ''Tool use blocked by policy'' ''Tool use requires review'' a)), w)"
    using sample_client_answers[OF sample_write_crosses a(1)] sample_oh_pre_event
    by (simp add: sample_oh_serde_def parsed_def bind_result_def map_err_def oh_validate_tool_def
        oh_handle_pre_tool_use_def enforce_def and_then_def)
      (simp add: sample_oh_event_def)
  then show ?thesis
    using run_hook_at_once[of "oh_dispatch sample_oh_serde sample_oh_env" ?C OhPreToolUse JNull
        empty_world 1 _ w oh_degraded_response] a(2)
    by (simp add: oh_run_def oh_blocking_allows)
qed

section \<open>The other adapters, over a client that allows\<close>

definition sample_cx_event :: cx_pre_tool_use where
  "sample_cx_event = \<lparr>cxpt_common = \<lparr>cxc_session_id = ''s'', cxc_cwd = ''/w''\<rparr>,
     cxpt_tool_name = ''read_file'', cxpt_tool_use_id = ''1'', cxpt_tool_input = sample_input\<rparr>"

definition sample_cx_serde :: cx_serde where
  "sample_cx_serde = \<lparr>cxsd_session_start = (\<lambda>_. Inl ''no''), cxsd_session_end = (\<lambda>_. Inl ''no''),
     cxsd_subagent_start = (\<lambda>_. Inl ''no''), cxsd_pre_tool_use = (\<lambda>_. Inr sample_cx_event),
     cxsd_permission_request = (\<lambda>_. Inl ''no''), cxsd_post_tool_use = (\<lambda>_. Inl ''no''),
     cxsd_compact = (\<lambda>_. Inl ''no''), cxsd_user_prompt_submit = (\<lambda>_. Inl ''no''),
     cxsd_subagent_stop = (\<lambda>_. Inl ''no''), cxsd_stop = (\<lambda>_. Inl ''no'')\<rparr>"

definition sample_cx_env :: cx_env where
  "sample_cx_env = \<lparr>cx_agent = sample_agent, cx_fresh = sample_fresh, cx_write = (\<lambda>_. ''{}'')\<rparr>"

lemma sample_cx_run:
  "cx_run None sample_cx_serde sample_cx_env CxPreToolUseCmd (Ready 0 (Inr JNull))
     (Ready 0 (Inr sample_client)) () = Some (cx_json cx_ok)"
proof -
  have "trim ''read_file'' = ''read_file''" "trim ''1'' = ''1''" by code_simp+
  then have "cx_dispatch sample_cx_serde sample_cx_env sample_client CxPreToolUseCmd JNull ()
      = (Ready 1 (Inr cx_ok), ())"
    by (simp add: sample_cx_serde_def parsed_def bind_result_def map_err_def cx_validate_tool_def
        enforce_def and_then_def sample_client_def cx_tool_verdict_def adjudicated_allow_def
        adjudicated_new_def sample_cx_event_def)
  then show ?thesis
    using run_hook_at_once[of "cx_dispatch sample_cx_serde sample_cx_env" sample_client
        CxPreToolUseCmd JNull "()" 1 cx_ok "()" cx_degraded_response]
    by (simp add: cx_run_def)
qed

definition sample_hm_event :: hm_event where
  "sample_hm_event = \<lparr>hme_hook_event_name = ''pre_verify'', hme_tool_name = None, hme_tool_input = None,
     hme_session_id = ''s'', hme_cwd = [], hme_extra = []\<rparr>"

definition sample_hm_env :: hm_env where
  "sample_hm_env = \<lparr>hm_username = ''u'', hm_fresh = sample_fresh, hm_cwd = None,
     hm_json = (\<lambda>_. ''{}''), hm_read = (\<lambda>_. None)\<rparr>"

lemma sample_hm_run:
  "hm_run None (\<lambda>_. Inr sample_hm_event) sample_hm_env (Ready 0 (Inr sample_client)) HmPreVerify
     (Ready 0 (Inr JNull)) () = Some (1, hm_ok)"
proof -
  have "hm_dispatch (\<lambda>_. Inr sample_hm_event) sample_hm_env (Ready 0 (Inr sample_client)) () HmPreVerify
      JNull () = (Ready 1 (Inr hm_ok), ())"
    by (simp add: hm_dispatch_def parsed_def bind_result_def map_err_def connecting_def
        hm_pre_verify_def enforce_def and_then_def sample_client_def hm_verify_response_def
        adjudicated_allow_def adjudicated_new_def)
  then show ?thesis
    using run_hook_at_once[of "hm_dispatch (\<lambda>_. Inr sample_hm_event) sample_hm_env
        (Ready 0 (Inr sample_client))" "()" HmPreVerify JNull "()" 1 hm_ok "()" hm_degraded_response]
    by (simp add: hm_run_def)
qed

definition sample_oc_env :: oc_env where
  "sample_oc_env = \<lparr>oc_username = ''u'', oc_fresh = sample_fresh, oc_uuid = ''u'', oc_now_micros = 0,
     oc_cwd = None, oc_json = (\<lambda>_. ''{}'')\<rparr>"

lemma sample_oc_run:
  "\<exists>out. oc_run None sample_oc_env OcToolExecuteBefore (Ready 0 (Inr sample_input))
     (Ready 0 (Inr sample_client)) (Inr ()) () = Some (Some out, 0)"
proof -
  have "\<exists>r. oc_dispatch sample_oc_env sample_client OcToolExecuteBefore sample_input ()
      = (Ready 1 (Inr r), ()) \<and> \<not> envelope_is_deny r"
    by (auto simp: oc_dispatch_def oc_kind_payload_def oc_handle_def oc_request_def sample_client_def
        and_then_def and_then_ok_def oc_response_from_adjudication_def adjudicated_allow_def
        adjudicated_new_def Let_def oc_envelope_def sidecar_allow_def split: prod.splits option.splits)
  then obtain r where "oc_dispatch sample_oc_env sample_client OcToolExecuteBefore sample_input ()
      = (Ready 1 (Inr r), ())" "\<not> envelope_is_deny r" by blast
  then show ?thesis
    using run_hook_at_once[of "oc_dispatch sample_oc_env" sample_client OcToolExecuteBefore sample_input
        "()" 1 r "()" oc_degraded_response]
    by (simp add: oc_run_def)
qed

definition sample_gm_event :: gm_before_tool where
  "sample_gm_event = \<lparr>gmbt_common = \<lparr>gmc_session_id = ''s'', gmc_cwd = ''/w''\<rparr>,
     gmbt_tool_name = ''read_file'', gmbt_tool_input = sample_input\<rparr>"

definition sample_gm_serde :: gm_serde where
  "sample_gm_serde = \<lparr>gmsd_session_start = (\<lambda>_. Inl ''no''), gmsd_session_end = (\<lambda>_. Inl ''no''),
     gmsd_before_agent = (\<lambda>_. Inl ''no''), gmsd_after_agent = (\<lambda>_. Inl ''no''),
     gmsd_before_model = (\<lambda>_. Inl ''no''), gmsd_after_model = (\<lambda>_. Inl ''no''),
     gmsd_before_tool_selection = (\<lambda>_. Inl ''no''), gmsd_before_tool = (\<lambda>_. Inr sample_gm_event),
     gmsd_after_tool = (\<lambda>_. Inl ''no''), gmsd_pre_compress = (\<lambda>_. Inl ''no''),
     gmsd_notification = (\<lambda>_. Inl ''no'')\<rparr>"

definition sample_gm_env :: gm_env where
  "sample_gm_env = \<lparr>gm_agent_id = ''a'', gm_fresh = sample_fresh, gm_uuid = ''u'', gm_json = (\<lambda>_. ''{}'')\<rparr>"

lemma sample_gm_run:
  "gm_run None sample_gm_serde sample_gm_env GmBeforeTool (Ready 0 (Inr JNull))
     (Ready 0 (Inr sample_client)) () = Some (1, gm_allow)"
proof -
  have "trim ''s'' = ''s''" "trim ''read_file'' = ''read_file''" by code_simp+
  then have "gm_dispatch sample_gm_serde sample_gm_env sample_client GmBeforeTool JNull ()
      = (Ready 1 (Inr gm_allow), ())"
    by (simp add: sample_gm_serde_def parsed_def bind_result_def map_err_def gm_validate_tool_def
        enforce_def and_then_def sample_client_def gm_message_verdict_def adjudicated_allow_def
        adjudicated_new_def sample_gm_event_def sample_input_def)
  then show ?thesis
    using run_hook_at_once[of "gm_dispatch sample_gm_serde sample_gm_env" sample_client
        GmBeforeTool JNull "()" 1 gm_allow "()" gm_degraded_response]
    by (simp add: gm_run_def)
qed

end
