(* ===== verification/Copilot.thy ===== *)
theory Copilot
  imports Hook_Adapter
begin

text \<open>
  The GitHub Copilot CLI adapter (\<open>crates/hooks/copilot/src/{types,hooks,response,lib,event}.rs\<close>):
  tool use, permission requests and transformed prompts are enforced; stops and failed tools may
  be asked to go on.
\<close>

section \<open>Responses\<close>

record cp_pre_tool_use_response =
  cpq_permission_decision :: "string option"
  cpq_permission_decision_reason :: "string option"
  cpq_modified_args :: "json option"

record cp_permission_request_response =
  cpm_behavior :: "string option"
  cpm_message :: "string option"
  cpm_interrupt :: "bool option"

record cp_continuation_response =
  cpk_decision :: "string option"
  cpk_reason :: "string option"

datatype cp_response =
    CpPreToolUse cp_pre_tool_use_response
  | CpPermissionRequest cp_permission_request_response
  | CpContinuation cp_continuation_response
  | CpAdditionalContext "string option"
  | CpPromptTransformation "string option"
  | CpNoOutput

definition cp_ok :: cp_response where "cp_ok = CpNoOutput"

definition cp_block_tool :: "string \<Rightarrow> cp_response" where
  "cp_block_tool message = CpPreToolUse \<lparr>cpq_permission_decision = Some ''deny'',
     cpq_permission_decision_reason = Some message, cpq_modified_args = None\<rparr>"

definition cp_allow_tool_with_modified_args :: "json \<Rightarrow> cp_response" where
  "cp_allow_tool_with_modified_args args = CpPreToolUse \<lparr>cpq_permission_decision = Some ''allow'',
     cpq_permission_decision_reason = None, cpq_modified_args = Some args\<rparr>"

definition cp_permission_allow :: "string \<Rightarrow> cp_response" where
  "cp_permission_allow message = CpPermissionRequest \<lparr>cpm_behavior = Some ''allow'',
     cpm_message = Some message, cpm_interrupt = None\<rparr>"

definition cp_permission_deny :: "string \<Rightarrow> cp_response" where
  "cp_permission_deny message = CpPermissionRequest \<lparr>cpm_behavior = Some ''deny'',
     cpm_message = Some message, cpm_interrupt = Some True\<rparr>"

definition cp_block_continuation :: "string \<Rightarrow> cp_response" where
  "cp_block_continuation message =
     CpContinuation \<lparr>cpk_decision = Some ''block'', cpk_reason = Some message\<rparr>"

definition cp_additional_context :: "string \<Rightarrow> cp_response" where
  "cp_additional_context ctx = CpAdditionalContext (Some ctx)"

definition cp_replace_transformed_prompt :: "string \<Rightarrow> cp_response" where
  "cp_replace_transformed_prompt prompt = CpPromptTransformation (Some prompt)"

fun cp_is_deny :: "cp_response \<Rightarrow> bool" where
  "cp_is_deny (CpPreToolUse r) \<longleftrightarrow> cpq_permission_decision r = Some ''deny''"
| "cp_is_deny (CpPermissionRequest r) \<longleftrightarrow> cpm_behavior r = Some ''deny''"
| "cp_is_deny (CpContinuation r) \<longleftrightarrow> cpk_decision r = Some ''block''"
| "cp_is_deny (CpPromptTransformation p) \<longleftrightarrow> p \<noteq> None"
| "cp_is_deny (CpAdditionalContext _) \<longleftrightarrow> False"
| "cp_is_deny CpNoOutput \<longleftrightarrow> False"

lemma cp_simps [simp]:
  "\<not> cp_is_deny cp_ok" "cp_is_deny (cp_block_tool m)" "\<not> cp_is_deny (cp_permission_allow m)"
  "cp_is_deny (cp_permission_deny m)" "cp_is_deny (cp_block_continuation m)"
  "\<not> cp_is_deny (cp_additional_context m)" "cp_is_deny (cp_replace_transformed_prompt m)"
  "\<not> cp_is_deny (cp_allow_tool_with_modified_args a)"
  by (simp_all add: cp_ok_def cp_block_tool_def cp_permission_allow_def cp_permission_deny_def
      cp_block_continuation_def cp_additional_context_def cp_replace_transformed_prompt_def
      cp_allow_tool_with_modified_args_def)

text \<open>What \<open>serde\<close> writes: the variant's own fields, absent ones left out.\<close>

fun cp_json :: "cp_response \<Rightarrow> json" where
  "cp_json (CpPreToolUse r) =
     JObj (opt_field ''permissionDecision'' (map_option JStr (cpq_permission_decision r))
       @ opt_field ''permissionDecisionReason'' (map_option JStr (cpq_permission_decision_reason r))
       @ opt_field ''modifiedArgs'' (cpq_modified_args r))"
| "cp_json (CpPermissionRequest r) =
     JObj (opt_field ''behavior'' (map_option JStr (cpm_behavior r))
       @ opt_field ''message'' (map_option JStr (cpm_message r))
       @ opt_field ''interrupt'' (map_option JBool (cpm_interrupt r)))"
| "cp_json (CpContinuation r) =
     JObj (opt_field ''decision'' (map_option JStr (cpk_decision r))
       @ opt_field ''reason'' (map_option JStr (cpk_reason r)))"
| "cp_json (CpAdditionalContext c) = JObj (opt_field ''additionalContext'' (map_option JStr c))"
| "cp_json (CpPromptTransformation p) =
     JObj (opt_field ''modifiedTransformedPrompt'' (map_option JStr p))"
| "cp_json CpNoOutput = JObj []"

text \<open>The denial is in the JSON the CLI reads.\<close>

lemma cp_json_deny:
  "cp_is_deny r \<longleftrightarrow> json_says (cp_json r) [''permissionDecision''] ''deny''
     \<or> json_says (cp_json r) [''behavior''] ''deny'' \<or> json_says (cp_json r) [''decision''] ''block''
     \<or> jget ''modifiedTransformedPrompt'' (cp_json r) \<noteq> None"
  by (cases r) (auto simp: json_says_def opt_field_def split: option.splits)

section \<open>Events\<close>

text \<open>
  A tool's arguments and results are JSON already: the code's own deserializer parses one that
  comes as a string. \<open>cpo_duration\<close> is the duration as Rust prints it.
\<close>

datatype end_reason =
    EndComplete | EndError | EndAbort | EndTimeout | EndUserExit | EndCompleted | EndAborted
  | EndUnknown

record cp_common =
  cpc_cwd :: string
  cpc_session_id :: "string option"

record cp_session_end =
  cpe_common :: cp_common
  cpe_reason :: "end_reason option"

record cp_prompt =
  cpp_common :: cp_common
  cpp_prompt :: string

record cp_tool =
  cpt_common :: cp_common
  cpt_tool_name :: string
  cpt_tool_args :: json

record cp_post_tool_use =
  cpo_tool :: cp_tool
  cpo_tool_result :: json
  cpo_duration :: string

record cp_post_tool_use_failure =
  cpf_tool :: cp_tool
  cpf_tool_error :: json
  cpf_exit_code :: "i32 option"

record cp_agent_stop =
  cpa_common :: cp_common
  cpa_reason :: "string option"

record cp_subagent_start =
  cpu_common :: cp_common
  cpu_task :: "string option"

definition json_value_from_string_or_value :: "(string \<Rightarrow> json option) \<Rightarrow> json \<Rightarrow> json" where
  "json_value_from_string_or_value R v =
     (case v of JStr raw \<Rightarrow> unwrap_or (R raw) (JStr raw) | other \<Rightarrow> other)"

definition cp_validate_tool :: "string \<Rightarrow> hook_error + unit" where
  "cp_validate_tool tool_name =
     (if trim tool_name = [] then Inl (HeMessage ''tool_name cannot be empty'') else Inr ())"

definition cp_session_key :: "cp_common \<Rightarrow> string" where
  "cp_session_key c =
     (case cpc_session_id c of Some s \<Rightarrow> if s \<noteq> [] then s else cpc_cwd c | None \<Rightarrow> cpc_cwd c)"

section \<open>Mappers\<close>

definition cp_int_field :: "string list \<Rightarrow> json \<Rightarrow> i32 option" where
  "cp_int_field ks v = Option.bind (int_field ks v) i32_try_from"

definition cp_file_op ::
  "string \<Rightarrow> file_op_type \<Rightarrow> json \<Rightarrow> string list \<Rightarrow> string list \<Rightarrow> action" where
  "cp_file_op call_id k args content old =
     FileOperation \<lparr>fo_call_id = call_id, fo_operation = k,
       fo_path = unwrap_or (str_field [''path'', ''file''] args) [],
       fo_content = str_field content args, fo_old_content = str_field old args\<rparr>"

definition cp_action_from_tool :: "string \<Rightarrow> cp_tool \<Rightarrow> string \<Rightarrow> action" where
  "cp_action_from_tool uuid e cwd =
     (let call_id = ''call-'' @ uuid; name = cpt_tool_name e; args = cpt_tool_args e
      in if name = ''bash'' \<or> name = ''powershell'' then
           ShellCommand \<lparr>shc_call_id = call_id,
             shc_command = unwrap_or (str_field [''command'', ''script''] args) [],
             shc_working_dir = Some cwd\<rparr>
         else if name = ''view'' \<or> name = ''read_file'' then cp_file_op call_id OpRead args [] []
         else if name = ''edit'' \<or> name = ''str_replace'' then
           cp_file_op call_id OpEdit args [''new_str'', ''newString'', ''content''] [''old_str'', ''oldString'']
         else if name = ''create'' \<or> name = ''write_file'' then
           cp_file_op call_id OpWrite args [''content''] []
         else case web_fetch_for name args call_id of
             Some fetch \<Rightarrow> WebFetch fetch
           | None \<Rightarrow> ToolCall \<lparr>tc_call_id = call_id, tc_tool = name, tc_arguments = args\<rparr>)"

definition cp_output_from_tool ::
  "json_writer \<Rightarrow> string \<Rightarrow> cp_tool \<Rightarrow> json \<Rightarrow> string \<Rightarrow> bool \<Rightarrow> i32 option \<Rightarrow> observation" where
  "cp_output_from_tool J uuid e result duration success exit_code =
     (let call_id = ''call-'' @ uuid; name = cpt_tool_name e; args = cpt_tool_args e
      in if name = ''bash'' \<or> name = ''powershell'' then
           ShellCommandOutput \<lparr>sco_call_id = call_id,
             sco_exit_code = unwrap_or exit_code (if success then 0 else 1),
             sco_stdout = unwrap_or (str_field [''stdout'', ''output'', ''textResultForLlm'',
                ''text_result_for_llm''] result) (J result),
             sco_stderr = unwrap_or (str_field [''stderr'', ''error''] result) []\<rparr>
         else if name = ''view'' \<or> name = ''read_file'' then
           FileOperationResult \<lparr>fr_call_id = call_id, fr_success = success,
             fr_path = str_field [''file_path'', ''path'', ''file''] args,
             fr_content = (if success
               then Some (unwrap_or (str_field [''content'', ''output''] result) []) else None),
             fr_error = (if success then None else Some (J result))\<rparr>
         else if is_web_fetch name args then
           WebFetchOutput \<lparr>wfo_call_id = call_id, wfo_url = unwrap_or (web_url_arg args) [],
             wfo_code = unwrap_or
               (cp_int_field [''status_code'', ''statusCode'', ''status'', ''code''] result) 200,
             wfo_result = unwrap_or
               (str_field [''content'', ''output'', ''text'', ''body''] result) (J result)\<rparr>
         else ToolOutput (if success then tool_output_success call_id (JStr (J result))
           else tool_output_error call_id (''duration='' @ duration @ ''; '' @ J result)))"

definition cp_stop_control :: "string option \<Rightarrow> trajectory_event" where
  "cp_stop_control reason =
     (let r = trim (unwrap_or reason ''complete'')
      in if to_ascii_lowercase r \<in> set [[], ''complete'', ''completed'', ''success'', ''done'']
         then Control (Completed None) else Control (Failed r))"

fun cp_end_control :: "end_reason \<Rightarrow> trajectory_event" where
  "cp_end_control EndComplete = Control (Completed None)"
| "cp_end_control EndCompleted = Control (Completed None)"
| "cp_end_control EndError = Control (Failed ''error'')"
| "cp_end_control EndAbort = Control (Failed ''aborted'')"
| "cp_end_control EndAborted = Control (Failed ''aborted'')"
| "cp_end_control EndTimeout = Control (Failed ''timeout'')"
| "cp_end_control EndUserExit = Control (Failed ''user_exit'')"
| "cp_end_control EndUnknown = Control (Failed ''unknown'')"

section \<open>Handlers\<close>

record cp_env =
  cp_agent_id :: string
  cp_fresh :: fresh
  cp_uuid :: string
  cp_write :: json_writer

definition cp_agent :: "cp_env \<Rightarrow> agent" where
  "cp_agent V = \<lparr>ag_id = cp_agent_id V, ag_provider = ''github'', ag_platform = ''copilot-cli''\<rparr>"

definition cp_event :: "cp_env \<Rightarrow> cp_common \<Rightarrow> trajectory_event \<Rightarrow> event" where
  "cp_event V c te = event_new (cp_fresh V) (cp_agent V) (cp_session_key c) te"

definition cp_start_event :: "cp_env \<Rightarrow> cp_common \<Rightarrow> event" where
  "cp_start_event V c = cp_event V c (Control (Started (started_new (cp_agent V))))"

definition cp_end_event :: "cp_env \<Rightarrow> cp_session_end \<Rightarrow> event" where
  "cp_end_event V e =
     cp_event V (cpe_common e) (cp_end_control (unwrap_or (cpe_reason e) EndCompleted))"

definition cp_prompt_event :: "cp_env \<Rightarrow> cp_prompt \<Rightarrow> event" where
  "cp_prompt_event V e =
     with_actor (cp_event V (cpp_common e) (Observation (Prompt (prompt_user (cpp_prompt e)))))
       (actor_human (ag_id (cp_agent V)))"

definition cp_tool_event :: "cp_env \<Rightarrow> cp_tool \<Rightarrow> event" where
  "cp_tool_event V e = cp_event V (cpt_common e)
     (Action (cp_action_from_tool (cp_uuid V) e (cpc_cwd (cpt_common e))))"

definition cp_post_event :: "cp_env \<Rightarrow> cp_post_tool_use \<Rightarrow> event" where
  "cp_post_event V e = cp_event V (cpt_common (cpo_tool e))
     (Observation (cp_output_from_tool (cp_write V) (cp_uuid V) (cpo_tool e) (cpo_tool_result e)
        (cpo_duration e) True (cp_int_field [''exitCode'', ''exit_code'', ''code''] (cpo_tool_result e))))"

definition cp_failure_event :: "cp_env \<Rightarrow> cp_post_tool_use_failure \<Rightarrow> event" where
  "cp_failure_event V e = cp_event V (cpt_common (cpf_tool e))
     (Observation (cp_output_from_tool (cp_write V) (cp_uuid V) (cpf_tool e) (cpf_tool_error e) ''0'' False
        (opt_else (cpf_exit_code e)
          (cp_int_field [''exitCode'', ''exit_code'', ''code''] (cpf_tool_error e)))))"

definition cp_subagent_start_event :: "cp_env \<Rightarrow> cp_subagent_start \<Rightarrow> event" where
  "cp_subagent_start_event V e =
     cp_event V (cpu_common e) (Control (Started ((started_new (cp_agent V))\<lparr>sd_task := cpu_task e\<rparr>)))"

definition cp_transformed_verdict :: "adjudicated \<Rightarrow> cp_response" where
  "cp_transformed_verdict a =
     (case adj_decision a of
        Allow \<Rightarrow> cp_ok
      | _ \<Rightarrow> cp_replace_transformed_prompt (''[Sondera policy withheld this prompt: ''
          @ deny_message a ''Prompt blocked by policy'' @ '']''))"

definition cp_tool_verdict :: "string \<Rightarrow> adjudicated \<Rightarrow> cp_response" where
  "cp_tool_verdict tool_name a =
     (case adj_decision a of
        Allow \<Rightarrow> cp_ok
      | _ \<Rightarrow> cp_block_tool (deny_message a
          (''Tool '' @ quoted tool_name @ '' execution denied by policy'')))"

definition cp_permission_verdict :: "adjudicated \<Rightarrow> cp_response" where
  "cp_permission_verdict a =
     (case adj_decision a of
        Allow \<Rightarrow> cp_permission_allow ''Allowed by Sondera policy''
      | _ \<Rightarrow> cp_permission_deny (deny_message a ''Permission request denied by policy''))"

definition cp_retry :: cp_response where
  "cp_retry = cp_additional_context ''Tool failed; retry with safer arguments if appropriate.''"

definition cp_failure_verdict :: "adjudicated \<Rightarrow> cp_response" where
  "cp_failure_verdict a =
     (case adj_decision a of
        Allow \<Rightarrow> cp_retry
      | _ \<Rightarrow> cp_block_continuation (deny_message a ''Tool failure recovery blocked by policy''))"

definition cp_stop_verdict :: "adjudicated \<Rightarrow> cp_response" where
  "cp_stop_verdict a =
     (case adj_decision a of
        Allow \<Rightarrow> cp_ok
      | _ \<Rightarrow> cp_block_continuation (deny_message a ''Continuation blocked by policy''))"

definition cp_handle_stop_like ::
  "cp_env \<Rightarrow> 'w client \<Rightarrow> cp_agent_stop \<Rightarrow> (cp_response, 'w) handler" where
  "cp_handle_stop_like V C e =
     enforce C (cp_event V (cpa_common e) (cp_stop_control (cpa_reason e))) cp_stop_verdict"

section \<open>The command\<close>

datatype cp_command =
    CpInstall bool bool | CpUninstall bool bool | CpSessionStart | CpSessionEnd
  | CpUserPromptSubmitted | CpUserPromptTransformed | CpPreToolUseCmd | CpPostToolUse
  | CpPermissionRequestCmd | CpPostToolUseFailure | CpAgentStop | CpNotification | CpPreCompact
  | CpSubagentStart | CpSubagentStop | CpErrorOccurred

definition cp_is_adjudication :: "cp_command \<Rightarrow> bool" where
  "cp_is_adjudication c \<longleftrightarrow>
     c = CpPreToolUseCmd \<or> c = CpPermissionRequestCmd \<or> c = CpUserPromptTransformed"

definition cp_degraded_response :: "cp_command \<Rightarrow> hook_error \<Rightarrow> cp_response" where
  "cp_degraded_response c error =
     (let reason = fail_closed_reason error in
      if c = CpPreToolUseCmd then cp_block_tool reason
      else if c = CpPermissionRequestCmd then cp_permission_deny reason
      else if c = CpUserPromptTransformed then cp_replace_transformed_prompt
        (''[Sondera policy withheld this prompt because governance was unavailable: '' @ reason @ '']'')
      else cp_ok)"

text \<open>The event matrix the installer writes (\<open>event.rs\<close>): each event and how it behaves.\<close>

datatype cp_behavior = CpAdjudication | CpObservation | CpContinues

definition cp_hook_events :: "(string \<times> string \<times> cp_behavior) list" where
  "cp_hook_events =
     [(''agentStop'', ''agent-stop'', CpContinues),
      (''errorOccurred'', ''error-occurred'', CpObservation),
      (''notification'', ''notification'', CpObservation),
      (''permissionRequest'', ''permission-request'', CpAdjudication),
      (''postToolUse'', ''post-tool-use'', CpObservation),
      (''postToolUseFailure'', ''post-tool-use-failure'', CpContinues),
      (''preCompact'', ''pre-compact'', CpObservation),
      (''preToolUse'', ''pre-tool-use'', CpAdjudication),
      (''sessionEnd'', ''session-end'', CpObservation),
      (''sessionStart'', ''session-start'', CpObservation),
      (''subagentStart'', ''subagent-start'', CpObservation),
      (''subagentStop'', ''subagent-stop'', CpContinues),
      (''userPromptSubmitted'', ''user-prompt-submitted'', CpObservation),
      (''userPromptTransformed'', ''user-prompt-transformed'', CpAdjudication)]"

text \<open>The subcommand of a command, as \<open>clap\<close> spells the variants.\<close>

fun cp_subcommand :: "cp_command \<Rightarrow> string" where
  "cp_subcommand (CpInstall _ _) = ''install''"
| "cp_subcommand (CpUninstall _ _) = ''uninstall''"
| "cp_subcommand CpSessionStart = ''session-start''"
| "cp_subcommand CpSessionEnd = ''session-end''"
| "cp_subcommand CpUserPromptSubmitted = ''user-prompt-submitted''"
| "cp_subcommand CpUserPromptTransformed = ''user-prompt-transformed''"
| "cp_subcommand CpPreToolUseCmd = ''pre-tool-use''"
| "cp_subcommand CpPostToolUse = ''post-tool-use''"
| "cp_subcommand CpPermissionRequestCmd = ''permission-request''"
| "cp_subcommand CpPostToolUseFailure = ''post-tool-use-failure''"
| "cp_subcommand CpAgentStop = ''agent-stop''"
| "cp_subcommand CpNotification = ''notification''"
| "cp_subcommand CpPreCompact = ''pre-compact''"
| "cp_subcommand CpSubagentStart = ''subagent-start''"
| "cp_subcommand CpSubagentStop = ''subagent-stop''"
| "cp_subcommand CpErrorOccurred = ''error-occurred''"

text \<open>The matrix and the run loop agree on what is enforced.\<close>

lemma cp_matrix_behavior:
  "map_of (map (\<lambda>(e, s, b). (s, b)) cp_hook_events) (cp_subcommand c) = Some CpAdjudication
     \<longleftrightarrow> cp_is_adjudication c"
  by (cases c) (simp_all add: cp_hook_events_def cp_is_adjudication_def)

record cp_serde =
  cpsd_session_start :: "json \<Rightarrow> string + cp_common"
  cpsd_session_end :: "json \<Rightarrow> string + cp_session_end"
  cpsd_prompt_submitted :: "json \<Rightarrow> string + cp_prompt"
  cpsd_prompt_transformed :: "json \<Rightarrow> string + cp_prompt"
  cpsd_tool :: "json \<Rightarrow> string + cp_tool"
  cpsd_post_tool_use :: "json \<Rightarrow> string + cp_post_tool_use"
  cpsd_failure :: "json \<Rightarrow> string + cp_post_tool_use_failure"
  cpsd_stop :: "json \<Rightarrow> string + cp_agent_stop"
  cpsd_plain :: "json \<Rightarrow> string + cp_common"
  cpsd_subagent_start :: "json \<Rightarrow> string + cp_subagent_start"

abbreviation cp_check_tool :: "cp_tool \<Rightarrow> hook_error + unit" where
  "cp_check_tool e \<equiv> cp_validate_tool (cpt_tool_name e)"

fun cp_dispatch ::
  "cp_serde \<Rightarrow> cp_env \<Rightarrow> 'w client \<Rightarrow> cp_command \<Rightarrow> json \<Rightarrow> (cp_response, 'w) handler" where
  "cp_dispatch P V C (CpInstall _ _) raw = unreachable"
| "cp_dispatch P V C (CpUninstall _ _) raw = unreachable"
| "cp_dispatch P V C CpSessionStart raw =
     parsed (cpsd_session_start P raw) no_check (\<lambda>e. enforce C (cp_start_event V e) (\<lambda>_. cp_ok))"
| "cp_dispatch P V C CpSessionEnd raw =
     parsed (cpsd_session_end P raw) no_check (\<lambda>e. enforce C (cp_end_event V e) (\<lambda>_. cp_ok))"
| "cp_dispatch P V C CpUserPromptSubmitted raw =
     parsed (cpsd_prompt_submitted P raw) no_check (\<lambda>e. enforce C (cp_prompt_event V e) (\<lambda>_. cp_ok))"
| "cp_dispatch P V C CpUserPromptTransformed raw =
     parsed (cpsd_prompt_transformed P raw) no_check
       (\<lambda>e. enforce C (cp_prompt_event V e) cp_transformed_verdict)"
| "cp_dispatch P V C CpPreToolUseCmd raw =
     parsed (cpsd_tool P raw) cp_check_tool
       (\<lambda>e. enforce C (cp_tool_event V e) (cp_tool_verdict (cpt_tool_name e)))"
| "cp_dispatch P V C CpPostToolUse raw =
     parsed (cpsd_post_tool_use P raw) (\<lambda>e. cp_check_tool (cpo_tool e))
       (\<lambda>e. observe C (cp_post_event V e) (\<lambda>_. cp_ok) cp_ok)"
| "cp_dispatch P V C CpPermissionRequestCmd raw =
     parsed (cpsd_tool P raw) cp_check_tool
       (\<lambda>e. enforce C (cp_tool_event V e) cp_permission_verdict)"
| "cp_dispatch P V C CpPostToolUseFailure raw =
     parsed (cpsd_failure P raw) (\<lambda>e. cp_check_tool (cpf_tool e))
       (\<lambda>e. observe C (cp_failure_event V e) cp_failure_verdict cp_retry)"
| "cp_dispatch P V C CpAgentStop raw = parsed (cpsd_stop P raw) no_check (cp_handle_stop_like V C)"
| "cp_dispatch P V C CpNotification raw = parsed (cpsd_plain P raw) no_check (\<lambda>_. answer (Inr cp_ok))"
| "cp_dispatch P V C CpPreCompact raw = parsed (cpsd_plain P raw) no_check (\<lambda>_. answer (Inr cp_ok))"
| "cp_dispatch P V C CpSubagentStart raw =
     parsed (cpsd_subagent_start P raw) no_check
       (\<lambda>e. enforce C (cp_subagent_start_event V e) (\<lambda>_. cp_ok))"
| "cp_dispatch P V C CpSubagentStop raw = parsed (cpsd_stop P raw) no_check (cp_handle_stop_like V C)"
| "cp_dispatch P V C CpErrorOccurred raw = parsed (cpsd_plain P raw) no_check (\<lambda>_. answer (Inr cp_ok))"

definition cp_run ::
  "string option \<Rightarrow> cp_serde \<Rightarrow> cp_env \<Rightarrow> cp_command \<Rightarrow> (hook_error + json) future
     \<Rightarrow> (harness_client_error + 'w client) future \<Rightarrow> 'w \<Rightarrow> json option" where
  "cp_run env P V c stdin connection w =
     map_option (\<lambda>(_, response). cp_json response)
       (run_hook env c cp_degraded_response (cp_dispatch P V) stdin (connected connection) w)"

section \<open>The contract\<close>

lemma cp_allows:
  "\<not> cp_is_deny (cp_tool_verdict t a) \<longleftrightarrow> adj_decision a = Allow"
  "\<not> cp_is_deny (cp_permission_verdict a) \<longleftrightarrow> adj_decision a = Allow"
  "\<not> cp_is_deny (cp_transformed_verdict a) \<longleftrightarrow> adj_decision a = Allow"
  by (simp_all add: cp_tool_verdict_def cp_permission_verdict_def cp_transformed_verdict_def
      split: decision.split)

definition cp_asks :: "cp_serde \<Rightarrow> cp_env \<Rightarrow> cp_command \<Rightarrow> json \<Rightarrow> event \<Rightarrow> bool" where
  "cp_asks P V c raw ev \<longleftrightarrow>
     (if c = CpUserPromptTransformed
      then \<exists>e. cpsd_prompt_transformed P raw = Inr e \<and> ev = cp_prompt_event V e
      else \<exists>e. cpsd_tool P raw = Inr e \<and> ev = cp_tool_event V e)"

interpretation cp_matrix: fail_closed_exactly cp_is_adjudication cp_degraded_response cp_is_deny
  by unfold_locales (auto simp: cp_degraded_response_def cp_is_adjudication_def Let_def)

interpretation cp: enforcing cp_is_adjudication cp_degraded_response cp_is_deny
  "cp_dispatch P V" "(=)" "cp_asks P V"
proof unfold_locales
  fix c r h v w k w'
  assume c: "cp_is_adjudication c" and r: "\<not> cp_is_deny r"
    and d: "cp_dispatch P V h c v w = (Ready k (Inr r), w')"
  show "\<exists>C ev n a. h = C \<and> cp_asks P V c v ev \<and> C ev w = (Ready n (Inr a), w') \<and> adj_decision a = Allow"
    using c d r
    by (cases c)
      (auto simp: cp_is_adjudication_def cp_asks_def cp_allows dest!: parsed_Inr enforce_Inr)
qed

lemma cp_run_cleared:
  assumes "cp_is_adjudication c" "cp_run env P V c stdin (Ready m (Inr C)) w = Some out"
    "\<not> json_says out [''permissionDecision''] ''deny''" "\<not> json_says out [''behavior''] ''deny''"
    "\<not> json_says out [''decision''] ''block''" "jget ''modifiedTransformedPrompt'' out = None"
  shows "answered_allow stdin (cp_asks P V c) C w"
proof -
  obtain t r where r: "run_hook env c cp_degraded_response (cp_dispatch P V) stdin
      (connected (Ready m (Inr C))) w = Some (t, r)" "out = cp_json r"
    using assms(2) by (auto simp: cp_run_def)
  then have "\<not> cp_is_deny r" using assms(3-6) by (simp add: cp_json_deny)
  from cp.run_cleared[OF assms(1) this r(1)] show ?thesis by (simp add: connected_Inr)
qed

text \<open>
  The two mappers agree on commands, reads, fetches and tool calls; an edit or a write is
  adjudicated as a file operation and observed as a generic tool output.
\<close>

lemma cp_halves_agree:
  assumes "cpt_tool_name e \<notin> set [''edit'', ''str_replace'', ''create'', ''write_file'']"
  shows "case (cp_action_from_tool u e cwd, cp_output_from_tool J u' e result d success code) of
      (ShellCommand c, ShellCommandOutput r) \<Rightarrow> True
    | (FileOperation op, FileOperationResult r) \<Rightarrow> fo_operation op = OpRead
    | (WebFetch f, WebFetchOutput r) \<Rightarrow> wfo_url r = wf_url f
    | (ToolCall c, ToolOutput r) \<Rightarrow> True
    | _ \<Rightarrow> False"
  using assms
  by (auto simp: cp_action_from_tool_def cp_output_from_tool_def cp_file_op_def Let_def web_fetch_None
      dest: web_fetch_SomeD classified split: option.splits)

lemma cp_edits_observed_generic:
  assumes "cpt_tool_name e \<in> set [''edit'', ''str_replace'', ''create'', ''write_file'']"
  shows "(\<exists>op. cp_action_from_tool u e cwd = FileOperation op)
    \<and> (\<exists>r. cp_output_from_tool J u' e result d success code = ToolOutput r)"
proof -
  have "list_all (\<lambda>n. \<not> is_web_tool n) [''edit'', ''str_replace'', ''create'', ''write_file'']"
    by code_simp
  then have "\<not> is_web_fetch (cpt_tool_name e) (cpt_tool_args e)"
    using assms by (auto simp: is_web_fetch_def web_fetch_for_def)
  then show ?thesis using assms
    by (auto simp: cp_action_from_tool_def cp_output_from_tool_def cp_file_op_def Let_def)
qed

lemma cp_halves_iff:
  "same_half (cp_action_from_tool u e cwd) (cp_output_from_tool J u' e result d success code) \<longleftrightarrow>
     cpt_tool_name e \<notin> set [''edit'', ''str_replace'', ''create'', ''write_file'']"
proof (cases "cpt_tool_name e \<in> set [''edit'', ''str_replace'', ''create'', ''write_file'']")
  case True
  then show ?thesis using cp_edits_observed_generic [OF True, of u cwd J u' result d success code] by auto
next
  case False
  then show ?thesis using cp_halves_agree [OF False, of u cwd J u' result d success code]
    by (auto split: action.splits observation.splits)
qed

end
