(* ===== verification/Antigravity.thy ===== *)
theory Antigravity
  imports Hook_Adapter
begin

text \<open>
  The Antigravity adapter (\<open>crates/hooks/antigravity/src/{types,hooks,response,lib}.rs\<close>). Only
  tool use is enforced; a verdict to escalate becomes a question to the user. The advisory events
  are answered without the run loop.
\<close>

section \<open>Responses\<close>

datatype tool_decision = TdAllow | TdDeny | TdAsk | TdForceAsk

fun tool_decision_name :: "tool_decision \<Rightarrow> string" where
  "tool_decision_name TdAllow = ''allow''"
| "tool_decision_name TdDeny = ''deny''"
| "tool_decision_name TdAsk = ''ask''"
| "tool_decision_name TdForceAsk = ''force_ask''"

record ag_pre_response =
  agp_decision :: tool_decision
  agp_reason :: "string option"
  agp_permission_overrides :: "string list option"

record ag_stop_response =
  ags_decision :: string
  ags_reason :: "string option"

text \<open>The two responses that inject steps are built by nothing in the crate and are left out.\<close>

datatype ag_response =
    AgPreToolUse ag_pre_response
  | AgStopResponse ag_stop_response
  | AgEmpty

definition ag_tool_response :: "tool_decision \<Rightarrow> string option \<Rightarrow> ag_response" where
  "ag_tool_response d reason =
     AgPreToolUse \<lparr>agp_decision = d, agp_reason = reason, agp_permission_overrides = None\<rparr>"

definition ag_allow_tool :: ag_response where "ag_allow_tool = ag_tool_response TdAllow None"
definition ag_deny_tool :: "string \<Rightarrow> ag_response" where
  "ag_deny_tool reason = ag_tool_response TdDeny (Some reason)"
definition ag_ask_tool :: "string \<Rightarrow> ag_response" where
  "ag_ask_tool reason = ag_tool_response TdAsk (Some reason)"
definition ag_allow_stop :: ag_response where
  "ag_allow_stop = AgStopResponse \<lparr>ags_decision = ''stop'', ags_reason = None\<rparr>"
definition ag_continue_loop :: "string \<Rightarrow> ag_response" where
  "ag_continue_loop reason =
     AgStopResponse \<lparr>ags_decision = ''continue'', ags_reason = Some reason\<rparr>"
definition ag_ok :: ag_response where "ag_ok = AgEmpty"

fun ag_is_deny :: "ag_response \<Rightarrow> bool" where
  "ag_is_deny (AgPreToolUse r) \<longleftrightarrow> agp_decision r = TdDeny"
| "ag_is_deny _ \<longleftrightarrow> False"

text \<open>A response that leaves the call to the user.\<close>

fun ag_asks_user :: "ag_response \<Rightarrow> bool" where
  "ag_asks_user (AgPreToolUse r) \<longleftrightarrow> agp_decision r = TdAsk"
| "ag_asks_user _ \<longleftrightarrow> False"

lemmas ag_responses = ag_tool_response_def ag_allow_tool_def ag_deny_tool_def ag_ask_tool_def
  ag_allow_stop_def ag_ok_def

fun ag_json :: "ag_response \<Rightarrow> json" where
  "ag_json (AgPreToolUse r) =
     JObj ((''decision'', JStr (tool_decision_name (agp_decision r)))
       # opt_field ''reason'' (map_option JStr (agp_reason r))
       @ opt_field ''permissionOverrides'' (map_option (JArr \<circ> map JStr) (agp_permission_overrides r)))"
| "ag_json (AgStopResponse r) =
     JObj ((''decision'', JStr (ags_decision r)) # opt_field ''reason'' (map_option JStr (ags_reason r)))"
| "ag_json AgEmpty = JObj []"

section \<open>Events\<close>

record ag_pre_tool_use =
  agt_conversation_id :: string
  agt_name :: string
  agt_args :: json

record ag_post_tool_use =
  ago_conversation_id :: string
  ago_step_idx :: i64
  ago_error :: "string option"

definition ag_validate_conversation :: "string \<Rightarrow> hook_error + unit" where
  "ag_validate_conversation conversation_id =
     (if trim conversation_id = [] then Inl (HeMessage ''conversationId cannot be empty'')
      else Inr ())"

definition ag_validate_pre :: "ag_pre_tool_use \<Rightarrow> hook_error + unit" where
  "ag_validate_pre e =
     bind_result (ag_validate_conversation (agt_conversation_id e)) (\<lambda>_.
       if trim (agt_name e) = [] then Inl (HeMessage ''toolCall.name cannot be empty'') else Inr ())"

section \<open>Mappers\<close>

definition opt_str_arg :: "json \<Rightarrow> string \<Rightarrow> string option" where
  "opt_str_arg args k = Option.bind (jget k args) as_str"

definition str_arg :: "json \<Rightarrow> string \<Rightarrow> string" where
  "str_arg args k = unwrap_or (opt_str_arg args k) []"

definition ag_file_op :: "string \<Rightarrow> file_op_type \<Rightarrow> string \<Rightarrow> string option \<Rightarrow> string option \<Rightarrow> action" where
  "ag_file_op call_id k path content old =
     FileOperation \<lparr>fo_call_id = call_id, fo_operation = k, fo_path = path, fo_content = content,
       fo_old_content = old\<rparr>"

definition ag_action_for :: "string \<Rightarrow> string \<Rightarrow> json \<Rightarrow> action" where
  "ag_action_for uuid tool_name args =
     (let call_id = ''tool-'' @ uuid; name = normalize_tool_name tool_name
      in if name = ''runcommand'' then
           ShellCommand \<lparr>shc_call_id = call_id, shc_command = str_arg args ''CommandLine'',
             shc_working_dir = opt_str_arg args ''Cwd''\<rparr>
         else if name = ''viewfile'' then
           ag_file_op call_id OpRead (str_arg args ''AbsolutePath'') None None
         else if name = ''writetofile'' then
           ag_file_op call_id OpWrite (str_arg args ''TargetFile'') (opt_str_arg args ''CodeContent'') None
         else if name = ''replacefilecontent'' then
           ag_file_op call_id OpEdit (str_arg args ''TargetFile'')
             (opt_str_arg args ''ReplacementContent'') (opt_str_arg args ''TargetContent'')
         else if name = ''multireplacefilecontent'' then
           ag_file_op call_id OpEdit (str_arg args ''TargetFile'') None None
         else if name = ''readurlcontent'' then
           WebFetch \<lparr>wf_call_id = call_id, wf_url = str_arg args ''Url'', wf_prompt = []\<rparr>
         else ToolCall \<lparr>tc_call_id = call_id, tc_tool = tool_name, tc_arguments = args\<rparr>)"

section \<open>Handlers\<close>

record ag_env =
  ag_agent_id :: string
  ag_fresh :: fresh
  ag_uuid :: string

definition ag_agent :: "ag_env \<Rightarrow> agent" where
  "ag_agent V = \<lparr>ag_id = ag_agent_id V, ag_provider = ''antigravity'', ag_platform = ''antigravity''\<rparr>"

definition ag_pre_event :: "ag_env \<Rightarrow> ag_pre_tool_use \<Rightarrow> event" where
  "ag_pre_event V e = event_new (ag_fresh V) (ag_agent V) (agt_conversation_id e)
     (Action (ag_action_for (ag_uuid V) (agt_name e) (agt_args e)))"

definition ag_post_event :: "ag_env \<Rightarrow> ag_post_tool_use \<Rightarrow> event" where
  "ag_post_event V e =
     (let error = Option.bind (ago_error e) nonempty
      in event_new (ag_fresh V) (ag_agent V) (ago_conversation_id e)
           (Observation (ToolOutput \<lparr>to_call_id = ''step-'' @ int_to_string (sint (ago_step_idx e)),
              to_success = (error = None), to_output = JObj [], to_error = error\<rparr>)))"

definition ag_verdict :: "string \<Rightarrow> adjudicated \<Rightarrow> ag_response" where
  "ag_verdict tool_name a =
     (case adj_decision a of
        Allow \<Rightarrow> ag_allow_tool
      | Deny \<Rightarrow> ag_deny_tool (deny_message a
          (''Tool '' @ quoted tool_name @ '' execution denied by policy''))
      | Escalate \<Rightarrow> ag_ask_tool (deny_message a (''Tool '' @ quoted tool_name @ '' requires approval'')))"

section \<open>The command\<close>

datatype ag_command =
    AgInstall bool bool | AgUninstall bool bool | AgPreToolUseCmd | AgPostToolUse | AgPreInvocation
  | AgPostInvocation | AgStop

definition ag_is_adjudication :: "ag_command \<Rightarrow> bool" where
  "ag_is_adjudication c \<longleftrightarrow> c = AgPreToolUseCmd"

definition ag_degraded_response :: "ag_command \<Rightarrow> hook_error \<Rightarrow> ag_response" where
  "ag_degraded_response c error =
     (if c = AgPreToolUseCmd then ag_deny_tool (fail_closed_reason error) else ag_ok)"

record ag_serde =
  agsd_pre_tool_use :: "json \<Rightarrow> string + ag_pre_tool_use"
  agsd_post_tool_use :: "json \<Rightarrow> string + ag_post_tool_use"
  agsd_advisory :: "json \<Rightarrow> string + unit"

fun ag_dispatch ::
  "ag_serde \<Rightarrow> ag_env \<Rightarrow> 'w client \<Rightarrow> ag_command \<Rightarrow> json \<Rightarrow> (ag_response, 'w) handler" where
  "ag_dispatch P V C AgPreToolUseCmd raw =
     parsed (agsd_pre_tool_use P raw) ag_validate_pre
       (\<lambda>e. enforce C (ag_pre_event V e) (ag_verdict (agt_name e)))"
| "ag_dispatch P V C AgPostToolUse raw =
     parsed (agsd_post_tool_use P raw) (\<lambda>e. ag_validate_conversation (ago_conversation_id e))
       (\<lambda>e. enforce C (ag_post_event V e) (\<lambda>_. ag_ok))"
| "ag_dispatch P V C _ raw = unreachable"

text \<open>An advisory event is read straight from stdin, which no deadline bounds.\<close>

definition ag_advisory ::
  "ag_serde \<Rightarrow> ag_response \<Rightarrow> (hook_error + json) future \<Rightarrow> (hook_error + json) future" where
  "ag_advisory P r stdin =
     and_then_ok stdin (\<lambda>v. Ready 0 (map_err HeJson (bind_result (agsd_advisory P v)
       (\<lambda>_. Inr (ag_json r)))))"

definition ag_run ::
  "string option \<Rightarrow> ag_serde \<Rightarrow> ag_env \<Rightarrow> ag_command \<Rightarrow> (hook_error + json) future
     \<Rightarrow> (harness_client_error + 'w client) future \<Rightarrow> 'w \<Rightarrow> (hook_error + json) future" where
  "ag_run env P V c stdin connection w =
     (if c = AgPreInvocation \<or> c = AgPostInvocation then ag_advisory P ag_ok stdin
      else if c = AgStop then ag_advisory P ag_allow_stop stdin
      else case run_hook env c ag_degraded_response (ag_dispatch P V) stdin (connected connection) w
        of Some (t, r) \<Rightarrow> Ready t (Inr (ag_json r)) | None \<Rightarrow> Panics 0)"

section \<open>The contract\<close>

definition ag_asks :: "ag_serde \<Rightarrow> ag_env \<Rightarrow> ag_command \<Rightarrow> json \<Rightarrow> event \<Rightarrow> bool" where
  "ag_asks P V c raw ev \<longleftrightarrow> (\<exists>e. agsd_pre_tool_use P raw = Inr e \<and> ev = ag_pre_event V e)"

text \<open>What may pass: Allow, or Escalate when the response asks the user.\<close>

definition ag_passes :: "ag_command \<Rightarrow> ag_response \<Rightarrow> adjudicated \<Rightarrow> bool" where
  "ag_passes c r a \<longleftrightarrow>
     (\<exists>q. r = AgPreToolUse q \<and> adj_decision a = (if agp_decision q = TdAsk then Escalate else Allow))"

lemma ag_verdict_passes:
  "\<not> ag_is_deny (ag_verdict t a) \<Longrightarrow> ag_passes c (ag_verdict t a) a"
  by (cases "adj_decision a") (simp_all add: ag_verdict_def ag_passes_def ag_responses ag_ask_tool_def)

interpretation ag_matrix: fail_closed_exactly ag_is_adjudication ag_degraded_response ag_is_deny
  by unfold_locales (auto simp: ag_degraded_response_def ag_is_adjudication_def ag_responses)

interpretation ag: gating ag_is_adjudication ag_degraded_response ag_is_deny
  "ag_dispatch P V" "(=)" "ag_asks P V" ag_passes
proof unfold_locales
  fix c r h v w k w'
  assume c: "ag_is_adjudication c" and r: "\<not> ag_is_deny r"
    and d: "ag_dispatch P V h c v w = (Ready k (Inr r), w')"
  from d c obtain e a where "agsd_pre_tool_use P v = Inr e" "h (ag_pre_event V e) w = (Ready k (Inr a), w')"
    "r = ag_verdict (agt_name e) a"
    by (auto simp: ag_is_adjudication_def dest!: parsed_Inr enforce_Inr)
  then show "\<exists>C ev n a. h = C \<and> ag_asks P V c v ev \<and> C ev w = (Ready n (Inr a), w') \<and> ag_passes c r a"
    using r ag_verdict_passes unfolding ag_asks_def by blast
qed

text \<open>The decision printed for a tool call: what it says, and what it was.\<close>

lemma ag_json_decision:
  "json_says (ag_json (AgPreToolUse q)) [''decision''] (tool_decision_name d) \<longleftrightarrow> agp_decision q = d"
  by (cases "agp_decision q"; cases d) (simp_all add: json_says_def)

lemmas ag_json_deny = ag_json_decision[of _ TdDeny, unfolded tool_decision_name.simps]
lemmas ag_json_ask = ag_json_decision[of _ TdAsk, unfolded tool_decision_name.simps]

lemma ag_run_answered:
  assumes "ag_run env P V AgPreToolUseCmd stdin (Ready m (Inr C)) w = Ready t (Inr out)"
    "\<not> json_says out [''decision''] ''deny''"
  shows "answered_by stdin (ag_asks P V AgPreToolUseCmd) C w
    (\<lambda>a. adj_decision a = (if json_says out [''decision''] ''ask'' then Escalate else Allow))"
proof -
  obtain r where r: "run_hook env AgPreToolUseCmd ag_degraded_response (ag_dispatch P V) stdin
      (connected (Ready m (Inr C))) w = Some (t, r)" "out = ag_json r"
    using assms(1) by (auto simp: ag_run_def split: option.splits prod.splits)
  have "\<not> ag_is_deny r"
    using assms(2) unfolding r(2) by (cases r) (simp_all add: ag_json_deny del: ag_json.simps)
  then have "answered_by stdin (ag_asks P V AgPreToolUseCmd) C w (ag_passes AgPreToolUseCmd r)"
    using ag.run_answered[OF _ _ r(1)] by (simp add: ag_is_adjudication_def connected_Inr)
  then show ?thesis
    by (rule answered_by_mono) (auto simp: ag_passes_def r(2) ag_json_ask simp del: ag_json.simps)
qed

text \<open>The advisory commands wait for their event however long it takes.\<close>

lemma ag_advisory_waits:
  assumes "c \<in> {AgPreInvocation, AgPostInvocation, AgStop}"
  shows "ag_run env P V c Never connection w = Never"
  using assms by (auto simp: ag_run_def ag_advisory_def and_then_ok_def and_then_def)

end
