(* ===== verification/Cursor.thy ===== *)
theory Cursor
  imports Hook_Adapter
begin

text \<open>
  The Cursor adapter (\<open>crates/hooks/cursor/src/{types,hooks,response,lib}.rs\<close>). Seven events are
  enforced, and a denial is also exit code 2. Where Cursor can ask the user an escalation asks;
  elsewhere it denies, except that an escalated prompt goes through. Response builders no handler
  uses, and the response fields none of them sets, are left out.
\<close>

section \<open>Responses\<close>

datatype cu_permission = CuAllow | CuDeny | CuAsk

fun cu_permission_name :: "cu_permission \<Rightarrow> string" where
  "cu_permission_name CuAllow = ''allow''"
| "cu_permission_name CuDeny = ''deny''"
| "cu_permission_name CuAsk = ''ask''"

record cu_before_execution_response =
  cux_permission :: cu_permission
  cux_user_message :: "string option"
  cux_agent_message :: "string option"

record cu_before_submit_prompt_response =
  cup_continue_execution :: bool
  cup_user_message :: "string option"

record cu_session_start_response =
  cus_continue_execution :: bool
  cus_user_message :: "string option"

record cu_subagent_start_response =
  cug_permission :: cu_permission
  cug_user_message :: "string option"

record cu_pre_tool_use_response =
  cut_permission :: cu_permission
  cut_user_message :: "string option"
  cut_agent_message :: "string option"
  cut_updated_input :: "json option"

datatype cu_response =
    CuBeforeExecution cu_before_execution_response
  | CuBeforeTabFileRead cu_permission
  | CuBeforeSubmitPrompt cu_before_submit_prompt_response
  | CuPreToolUse cu_pre_tool_use_response
  | CuSessionStart cu_session_start_response
  | CuSubagentStart cu_subagent_start_response
  | CuPreCompact "string option"
  | CuStop "string option"
  | CuWorkspaceOpen "string list option"
  | CuNoOutput

definition cu_execution :: "cu_permission \<Rightarrow> string option \<Rightarrow> cu_response" where
  "cu_execution p m =
     CuBeforeExecution \<lparr>cux_permission = p, cux_user_message = m, cux_agent_message = None\<rparr>"

definition cu_allow_execution :: cu_response where "cu_allow_execution = cu_execution CuAllow None"
definition cu_deny_execution :: "string \<Rightarrow> cu_response" where
  "cu_deny_execution m = cu_execution CuDeny (Some m)"
definition cu_ask_execution :: "string \<Rightarrow> cu_response" where
  "cu_ask_execution m = cu_execution CuAsk (Some m)"
definition cu_allow_read_file :: cu_response where "cu_allow_read_file = cu_execution CuAllow None"
definition cu_deny_read_file :: "string \<Rightarrow> cu_response" where
  "cu_deny_read_file m = cu_execution CuDeny (Some m)"
definition cu_allow_tab_read :: cu_response where "cu_allow_tab_read = CuBeforeTabFileRead CuAllow"
definition cu_deny_tab_read :: cu_response where "cu_deny_tab_read = CuBeforeTabFileRead CuDeny"
definition cu_allow_prompt :: cu_response where
  "cu_allow_prompt = CuBeforeSubmitPrompt \<lparr>cup_continue_execution = True, cup_user_message = None\<rparr>"
definition cu_block_prompt :: "string \<Rightarrow> cu_response" where
  "cu_block_prompt m =
     CuBeforeSubmitPrompt \<lparr>cup_continue_execution = False, cup_user_message = Some m\<rparr>"
definition cu_allow_tool_use :: "json option \<Rightarrow> cu_response" where
  "cu_allow_tool_use updated =
     CuPreToolUse \<lparr>cut_permission = CuAllow, cut_user_message = None, cut_agent_message = None,
       cut_updated_input = updated\<rparr>"
definition cu_deny_tool_use :: "string \<Rightarrow> cu_response" where
  "cu_deny_tool_use m =
     CuPreToolUse \<lparr>cut_permission = CuDeny, cut_user_message = Some m, cut_agent_message = Some m,
       cut_updated_input = None\<rparr>"
definition cu_session_start_ok :: cu_response where
  "cu_session_start_ok =
     CuSessionStart \<lparr>cus_continue_execution = True, cus_user_message = None\<rparr>"
definition cu_session_start_block :: "string \<Rightarrow> cu_response" where
  "cu_session_start_block m =
     CuSessionStart \<lparr>cus_continue_execution = False, cus_user_message = Some m\<rparr>"
definition cu_subagent_start_allow :: cu_response where
  "cu_subagent_start_allow = CuSubagentStart \<lparr>cug_permission = CuAllow, cug_user_message = None\<rparr>"
definition cu_subagent_start_deny :: "string \<Rightarrow> cu_response" where
  "cu_subagent_start_deny m =
     CuSubagentStart \<lparr>cug_permission = CuDeny, cug_user_message = Some m\<rparr>"
definition cu_pre_compact_ok :: cu_response where "cu_pre_compact_ok = CuPreCompact None"
definition cu_stop_done :: cu_response where "cu_stop_done = CuStop None"
definition cu_subagent_stop_done :: cu_response where "cu_subagent_stop_done = CuStop None"
definition cu_workspace_open_ok :: cu_response where "cu_workspace_open_ok = CuWorkspaceOpen None"
definition cu_ok :: cu_response where "cu_ok = CuNoOutput"

lemmas cu_responses =
  cu_execution_def cu_allow_execution_def cu_deny_execution_def cu_ask_execution_def
  cu_allow_read_file_def cu_deny_read_file_def cu_allow_tab_read_def cu_deny_tab_read_def
  cu_allow_prompt_def cu_block_prompt_def cu_allow_tool_use_def cu_deny_tool_use_def
  cu_session_start_ok_def cu_session_start_block_def cu_subagent_start_allow_def
  cu_subagent_start_deny_def cu_pre_compact_ok_def cu_stop_done_def cu_subagent_stop_done_def
  cu_workspace_open_ok_def cu_ok_def

fun cu_is_deny :: "cu_response \<Rightarrow> bool" where
  "cu_is_deny (CuBeforeExecution r) \<longleftrightarrow> cux_permission r = CuDeny"
| "cu_is_deny (CuBeforeTabFileRead p) \<longleftrightarrow> p = CuDeny"
| "cu_is_deny (CuBeforeSubmitPrompt r) \<longleftrightarrow> \<not> cup_continue_execution r"
| "cu_is_deny (CuPreToolUse r) \<longleftrightarrow> cut_permission r = CuDeny"
| "cu_is_deny (CuSessionStart r) \<longleftrightarrow> \<not> cus_continue_execution r"
| "cu_is_deny (CuSubagentStart r) \<longleftrightarrow> cug_permission r = CuDeny"
| "cu_is_deny _ \<longleftrightarrow> False"

fun cu_asks_user :: "cu_response \<Rightarrow> bool" where
  "cu_asks_user (CuBeforeExecution r) \<longleftrightarrow> cux_permission r = CuAsk"
| "cu_asks_user _ \<longleftrightarrow> False"

definition permission_field :: "cu_permission \<Rightarrow> string \<times> json" where
  "permission_field p = (''permission'', JStr (cu_permission_name p))"

definition message_field :: "string \<Rightarrow> string option \<Rightarrow> (string \<times> json) list" where
  "message_field k m = opt_field k (map_option JStr m)"

fun cu_json :: "cu_response \<Rightarrow> json" where
  "cu_json (CuBeforeExecution r) =
     JObj (permission_field (cux_permission r) # message_field ''user_message'' (cux_user_message r)
       @ message_field ''agent_message'' (cux_agent_message r))"
| "cu_json (CuBeforeTabFileRead p) = JObj [permission_field p]"
| "cu_json (CuBeforeSubmitPrompt r) =
     JObj ((''continue'', JBool (cup_continue_execution r))
       # message_field ''user_message'' (cup_user_message r))"
| "cu_json (CuPreToolUse r) =
     JObj (permission_field (cut_permission r) # message_field ''user_message'' (cut_user_message r)
       @ message_field ''agent_message'' (cut_agent_message r)
       @ opt_field ''updated_input'' (cut_updated_input r))"
| "cu_json (CuSessionStart r) =
     JObj ((''continue'', JBool (cus_continue_execution r))
       # message_field ''user_message'' (cus_user_message r))"
| "cu_json (CuSubagentStart r) =
     JObj (permission_field (cug_permission r) # message_field ''user_message'' (cug_user_message r))"
| "cu_json (CuPreCompact m) = JObj (message_field ''user_message'' m)"
| "cu_json (CuStop m) = JObj (message_field ''followup_message'' m)"
| "cu_json (CuWorkspaceOpen ps) = JObj (opt_field ''pluginPaths'' (map_option (JArr \<circ> map JStr) ps))"
| "cu_json CuNoOutput = JObj []"

section \<open>Events\<close>

text \<open>Of the common input the handlers read the conversation and the generation.\<close>

record cu_common =
  cuc_conversation_id :: string
  cuc_generation_id :: string

record cu_before_shell =
  cub_common :: cu_common
  cub_command :: string
  cub_cwd :: string

record cu_after_shell =
  cua_common :: cu_common
  cua_command :: string
  cua_output :: string

record cu_before_mcp =
  cum_common :: cu_common
  cum_tool_name :: string
  cum_tool_input :: string

record cu_after_mcp =
  cun_common :: cu_common
  cun_tool_name :: string
  cun_result_json :: string

record cu_file_read =
  cuf_common :: cu_common
  cuf_file_path :: string

text \<open>An edit by the agent or by Tab: of each edit the new text is read.\<close>

record cu_file_edit =
  cue_common :: cu_common
  cue_file_path :: string
  cue_new_strings :: "string list"

record cu_text =
  cux_common :: cu_common
  cux_text :: string

datatype cu_subagent_type = CuGeneralPurpose | CuExplore | CuShell | CuUnknown

fun cu_subagent_type_name :: "cu_subagent_type \<Rightarrow> string" where
  "cu_subagent_type_name CuGeneralPurpose = ''generalPurpose''"
| "cu_subagent_type_name CuExplore = ''explore''"
| "cu_subagent_type_name CuShell = ''shell''"
| "cu_subagent_type_name CuUnknown = ''unknown''"

record cu_subagent_start =
  cug_common :: cu_common
  cug_subagent_type :: cu_subagent_type
  cug_task :: string
  cug_tool_call_id :: string
  cug_subagent_model :: string

record cu_pre_tool_use =
  cuq_common :: cu_common
  cuq_tool_name :: string
  cuq_tool_input :: json
  cuq_tool_use_id :: string
  cuq_cwd :: string

record cu_post_tool_use =
  cuo_common :: cu_common
  cuo_tool_name :: string
  cuo_tool_input :: json
  cuo_tool_output :: json
  cuo_tool_use_id :: string

record cu_failure =
  cuz_common :: cu_common
  cuz_tool_name :: string
  cuz_tool_use_id :: string
  cuz_error_message :: string

definition cu_not_empty :: "string \<Rightarrow> string \<Rightarrow> hook_error + unit" where
  "cu_not_empty name value =
     (if trim value = [] then Inl (HeMessage (name @ '' cannot be empty'')) else Inr ())"

section \<open>Mappers\<close>

text \<open>A payload may be JSON inside a string.\<close>

definition cu_parse_tool_output_payload :: "json_reader \<Rightarrow> json \<Rightarrow> json" where
  "cu_parse_tool_output_payload R out =
     (case Option.bind (as_str out) R of Some v \<Rightarrow> v | None \<Rightarrow> out)"

text \<open>A path into an object, and the first of some values that is a string.\<close>

definition cu_str :: "json option \<Rightarrow> string" where
  "cu_str v = unwrap_or (Option.bind v as_str) []"

definition cu_pre_action :: "string \<Rightarrow> cu_pre_tool_use \<Rightarrow> action" where
  "cu_pre_action uuid e =
     (let name = cuq_tool_name e; field = (\<lambda>k. Option.bind (jget k (cuq_tool_input e)) as_str) in
      if name = ''Shell'' then
        ShellCommand \<lparr>shc_call_id = cuq_tool_use_id e, shc_command = unwrap_or (field ''command'') [],
          shc_working_dir = Some (cuq_cwd e)\<rparr>
      else if name = ''Read'' then
        FileOperation \<lparr>fo_call_id = cuq_tool_use_id e, fo_operation = OpRead,
          fo_path = unwrap_or (field ''file_path'') [], fo_content = None, fo_old_content = None\<rparr>
      else if name = ''Write'' then
        FileOperation \<lparr>fo_call_id = cuq_tool_use_id e, fo_operation = OpWrite,
          fo_path = unwrap_or (field ''file_path'') [], fo_content = field ''content'',
          fo_old_content = None\<rparr>
      else if name = ''WebFetch'' then
        WebFetch \<lparr>wf_call_id = ''call-'' @ uuid, wf_url = unwrap_or (field ''url'') [],
          wf_prompt = unwrap_or (field ''prompt'') []\<rparr>
      else ToolCall \<lparr>tc_call_id = cuq_tool_use_id e, tc_tool = name,
        tc_arguments = cuq_tool_input e\<rparr>)"

definition cu_shell_output :: "string \<Rightarrow> json \<Rightarrow> shell_command_output" where
  "cu_shell_output call_id payload =
     \<lparr>sco_call_id = call_id,
      sco_exit_code = (case Option.bind (opt_else (jget ''exitCode'' payload) (jget ''exit_code'' payload))
        as_i64 of Some c \<Rightarrow> as_i32 c | None \<Rightarrow> 0),
      sco_stdout = cu_str (opt_else (opt_else (jget ''output'' payload) (jget ''stdout'' payload))
        (jget ''result'' payload)),
      sco_stderr = cu_str (jget ''stderr'' payload)\<rparr>"

definition cu_file_result :: "string \<Rightarrow> json \<Rightarrow> json \<Rightarrow> file_operation_result" where
  "cu_file_result call_id input payload =
     \<lparr>fr_call_id = call_id, fr_success = True, fr_path = str_field [''file_path'', ''path''] input,
      fr_content = Option.bind (opt_else (jget ''content'' payload)
        (Option.bind (jget ''file'' payload) (jget ''content''))) as_str,
      fr_error = None\<rparr>"

definition cu_web_output :: "string \<Rightarrow> json \<Rightarrow> json \<Rightarrow> web_fetch_output" where
  "cu_web_output call_id input payload =
     \<lparr>wfo_call_id = call_id, wfo_url = cu_str (jget ''url'' input),
      wfo_code = (case Option.bind (jget ''code'' payload) as_i64 of
        Some c \<Rightarrow> as_i32 c | None \<Rightarrow> 200),
      wfo_result = cu_str (opt_else (jget ''result'' payload) (jget ''output'' payload))\<rparr>"

definition cu_post_observation :: "json_reader \<Rightarrow> cu_post_tool_use \<Rightarrow> observation" where
  "cu_post_observation R e =
     (let payload = cu_parse_tool_output_payload R (cuo_tool_output e); name = cuo_tool_name e;
          call_id = cuo_tool_use_id e
      in if name = ''Shell'' then ShellCommandOutput (cu_shell_output call_id payload)
         else if name \<in> {''Read'', ''Write'', ''Edit''} then
           FileOperationResult (cu_file_result call_id (cuo_tool_input e) payload)
         else if name = ''WebFetch'' then
           WebFetchOutput (cu_web_output call_id (cuo_tool_input e) payload)
         else ToolOutput (tool_output_success call_id payload))"

section \<open>Handlers\<close>

record cu_env =
  cu_agent_id :: string
  cu_fresh :: fresh
  cu_uuid :: string
  cu_read :: json_reader

definition cu_agent :: "cu_env \<Rightarrow> agent" where
  "cu_agent V = \<lparr>ag_id = cu_agent_id V, ag_provider = ''cursor'', ag_platform = ''cursor''\<rparr>"

definition cu_event :: "cu_env \<Rightarrow> cu_common \<Rightarrow> trajectory_event \<Rightarrow> event" where
  "cu_event V c te = event_new (cu_fresh V) (cu_agent V) (cuc_conversation_id c) te"

definition cu_start_event :: "cu_env \<Rightarrow> cu_common \<Rightarrow> event" where
  "cu_start_event V c = cu_event V c (Control (Started (started_new (cu_agent V))))"

definition cu_before_shell_event :: "cu_env \<Rightarrow> cu_before_shell \<Rightarrow> event" where
  "cu_before_shell_event V e =
     cu_event V (cub_common e) (Action (ShellCommand
       \<lparr>shc_call_id = cuc_generation_id (cub_common e), shc_command = cub_command e,
        shc_working_dir = Some (cub_cwd e)\<rparr>))"

definition cu_after_shell_event :: "cu_env \<Rightarrow> cu_after_shell \<Rightarrow> event" where
  "cu_after_shell_event V e =
     cu_event V (cua_common e) (Observation (ShellCommandOutput
       \<lparr>sco_call_id = cuc_generation_id (cua_common e), sco_exit_code = 0, sco_stdout = cua_output e,
        sco_stderr = []\<rparr>))"

definition cu_before_mcp_event :: "cu_env \<Rightarrow> cu_before_mcp \<Rightarrow> event" where
  "cu_before_mcp_event V e =
     cu_event V (cum_common e) (Action (ToolCall
       \<lparr>tc_call_id = cuc_generation_id (cum_common e), tc_tool = cum_tool_name e,
        tc_arguments = unwrap_or (cu_read V (cum_tool_input e)) (JObj [])\<rparr>))"

definition cu_after_mcp_event :: "cu_env \<Rightarrow> cu_after_mcp \<Rightarrow> event" where
  "cu_after_mcp_event V e =
     cu_event V (cun_common e) (Observation (ToolOutput
       (tool_output_success (cuc_generation_id (cun_common e))
          (unwrap_or (cu_read V (cun_result_json e)) (JObj [])))))"

definition cu_file_read_event :: "cu_env \<Rightarrow> cu_file_read \<Rightarrow> event" where
  "cu_file_read_event V e =
     cu_event V (cuf_common e) (Action (FileOperation
       \<lparr>fo_call_id = cuc_generation_id (cuf_common e), fo_operation = OpRead,
        fo_path = cuf_file_path e, fo_content = None, fo_old_content = None\<rparr>))"

definition cu_file_edit_event :: "cu_env \<Rightarrow> cu_file_edit \<Rightarrow> event" where
  "cu_file_edit_event V e =
     cu_event V (cue_common e) (Observation (FileOperationResult
       \<lparr>fr_call_id = cuc_generation_id (cue_common e), fr_success = True,
        fr_path = Some (cue_file_path e), fr_content = Some (join [CHR 0x0A] (cue_new_strings e)),
        fr_error = None\<rparr>))"

definition cu_prompt_event :: "cu_env \<Rightarrow> cu_text \<Rightarrow> event" where
  "cu_prompt_event V e =
     with_actor (cu_event V (cux_common e) (Observation (Prompt (prompt_user (cux_text e)))))
       (actor_human (cu_agent_id V))"

definition cu_agent_response_event :: "cu_env \<Rightarrow> cu_text \<Rightarrow> event" where
  "cu_agent_response_event V e =
     cu_event V (cux_common e)
       (Observation (Prompt \<lparr>pr_content = cux_text e, pr_role = RoleSystem\<rparr>))"

definition cu_subagent_event :: "cu_env \<Rightarrow> cu_subagent_start \<Rightarrow> event" where
  "cu_subagent_event V e =
     cu_event V (cug_common e) (Action (ToolCall
       \<lparr>tc_call_id = (if cug_tool_call_id e = [] then cuc_generation_id (cug_common e)
          else cug_tool_call_id e),
        tc_tool = ''subagent'',
        tc_arguments = JObj
          [(''subagent_type'', JStr (cu_subagent_type_name (cug_subagent_type e))),
           (''task'', JStr (cug_task e)), (''model'', JStr (cug_subagent_model e))]\<rparr>))"

definition cu_pre_event :: "cu_env \<Rightarrow> cu_pre_tool_use \<Rightarrow> event" where
  "cu_pre_event V e = cu_event V (cuq_common e) (Action (cu_pre_action (cu_uuid V) e))"

definition cu_post_event :: "cu_env \<Rightarrow> cu_post_tool_use \<Rightarrow> event" where
  "cu_post_event V e = cu_event V (cuo_common e) (Observation (cu_post_observation (cu_read V) e))"

definition cu_failure_event :: "cu_env \<Rightarrow> cu_failure \<Rightarrow> event" where
  "cu_failure_event V e =
     cu_event V (cuz_common e) (Observation (ToolOutput
       (tool_output_error (cuz_tool_use_id e) (cuz_error_message e))))"

text \<open>The verdicts, each with its fallback messages for a denial and an escalation.\<close>

definition cu_verdict ::
  "cu_response \<Rightarrow> (string \<Rightarrow> cu_response) \<Rightarrow> string \<Rightarrow> (string \<Rightarrow> cu_response) \<Rightarrow> string
     \<Rightarrow> adjudicated \<Rightarrow> cu_response" where
  "cu_verdict allow deny dm escalate em a =
     (case adj_decision a of
        Allow \<Rightarrow> allow
      | Deny \<Rightarrow> deny (deny_message a dm)
      | Escalate \<Rightarrow> escalate (deny_message a em))"

definition cu_session_verdict :: "adjudicated \<Rightarrow> cu_response" where
  "cu_session_verdict = cu_verdict cu_session_start_ok
     cu_session_start_block ''Session start blocked by policy''
     cu_session_start_block ''Session start escalated for review''"

definition cu_shell_verdict :: "adjudicated \<Rightarrow> cu_response" where
  "cu_shell_verdict = cu_verdict cu_allow_execution
     cu_deny_execution ''Shell execution denied by policy''
     cu_ask_execution ''Shell execution requires approval''"

definition cu_mcp_verdict :: "string \<Rightarrow> adjudicated \<Rightarrow> cu_response" where
  "cu_mcp_verdict tool = cu_verdict cu_allow_execution
     cu_deny_execution (''MCP tool '' @ quoted tool @ '' execution denied by policy'')
     cu_ask_execution (''MCP tool '' @ quoted tool @ '' requires approval'')"

definition cu_read_verdict :: "string \<Rightarrow> adjudicated \<Rightarrow> cu_response" where
  "cu_read_verdict path = cu_verdict cu_allow_read_file
     cu_deny_read_file (''File read denied by policy: '' @ path)
     cu_deny_read_file (''File read requires approval: '' @ path)"

definition cu_prompt_verdict :: "adjudicated \<Rightarrow> cu_response" where
  "cu_prompt_verdict a =
     (if adj_decision a = Deny then cu_block_prompt (deny_message a ''Prompt blocked by policy'')
      else cu_allow_prompt)"

definition cu_subagent_verdict :: "adjudicated \<Rightarrow> cu_response" where
  "cu_subagent_verdict = cu_verdict cu_subagent_start_allow
     cu_subagent_start_deny ''Subagent start denied by policy''
     cu_subagent_start_deny ''Subagent start requires approval''"

definition cu_tab_verdict :: "adjudicated \<Rightarrow> cu_response" where
  "cu_tab_verdict a = (if adj_decision a = Allow then cu_allow_tab_read else cu_deny_tab_read)"

definition cu_tool_verdict :: "string \<Rightarrow> adjudicated \<Rightarrow> cu_response" where
  "cu_tool_verdict tool = cu_verdict (cu_allow_tool_use None)
     cu_deny_tool_use (''Tool '' @ quoted tool @ '' execution denied by policy'')
     cu_deny_tool_use (''Tool '' @ quoted tool @ '' execution requires approval'')"

section \<open>The command\<close>

datatype cu_command =
    CuInstall bool bool | CuUninstall bool bool | CuSessionStartCmd | CuSessionEnd
  | CuPreToolUseCmd | CuPostToolUse | CuPostToolUseFailure | CuSubagentStartCmd | CuSubagentStop
  | CuBeforeShellExecution | CuAfterShellExecution | CuBeforeMCPExecution | CuAfterMCPExecution
  | CuBeforeReadFile | CuAfterFileEdit | CuBeforeSubmitPromptCmd | CuAfterAgentResponse
  | CuAfterAgentThought | CuPreCompactCmd | CuStopCmd | CuBeforeTabFileReadCmd | CuAfterTabFileEdit
  | CuWorkspaceOpenCmd

definition cu_is_adjudication :: "cu_command \<Rightarrow> bool" where
  "cu_is_adjudication c \<longleftrightarrow>
     c \<in> {CuPreToolUseCmd, CuBeforeShellExecution, CuBeforeMCPExecution, CuBeforeReadFile,
       CuBeforeSubmitPromptCmd, CuBeforeTabFileReadCmd, CuSubagentStartCmd}"

definition cu_degraded_response :: "cu_command \<Rightarrow> hook_error \<Rightarrow> cu_response" where
  "cu_degraded_response c error =
     (let reason = fail_closed_reason error in
      if c = CuPreToolUseCmd then cu_deny_tool_use reason
      else if c = CuBeforeShellExecution \<or> c = CuBeforeMCPExecution then cu_deny_execution reason
      else if c = CuBeforeReadFile then cu_deny_read_file reason
      else if c = CuBeforeSubmitPromptCmd then cu_block_prompt reason
      else if c = CuBeforeTabFileReadCmd then cu_deny_tab_read
      else if c = CuSubagentStartCmd then cu_subagent_start_deny reason
      else cu_ok)"

record cu_serde =
  cusd_common :: "json \<Rightarrow> string + cu_common"
  cusd_before_shell :: "json \<Rightarrow> string + cu_before_shell"
  cusd_after_shell :: "json \<Rightarrow> string + cu_after_shell"
  cusd_before_mcp :: "json \<Rightarrow> string + cu_before_mcp"
  cusd_after_mcp :: "json \<Rightarrow> string + cu_after_mcp"
  cusd_before_read :: "json \<Rightarrow> string + cu_file_read"
  cusd_after_edit :: "json \<Rightarrow> string + cu_file_edit"
  cusd_prompt :: "json \<Rightarrow> string + cu_text"
  cusd_agent_response :: "json \<Rightarrow> string + cu_text"
  cusd_agent_thought :: "json \<Rightarrow> string + cu_text"
  cusd_session_end :: "json \<Rightarrow> string + cu_common"
  cusd_stop :: "json \<Rightarrow> string + cu_common"
  cusd_subagent_stop :: "json \<Rightarrow> string + cu_common"
  cusd_pre_compact :: "json \<Rightarrow> string + cu_common"
  cusd_subagent :: "json \<Rightarrow> string + cu_subagent_start"
  cusd_tab_read :: "json \<Rightarrow> string + cu_file_read"
  cusd_tab_edit :: "json \<Rightarrow> string + cu_file_edit"
  cusd_workspace :: "json \<Rightarrow> string + cu_common"
  cusd_pre_tool :: "json \<Rightarrow> string + cu_pre_tool_use"
  cusd_post_tool :: "json \<Rightarrow> string + cu_post_tool_use"
  cusd_failure :: "json \<Rightarrow> string + cu_failure"

fun cu_dispatch ::
  "cu_serde \<Rightarrow> cu_env \<Rightarrow> 'w client \<Rightarrow> cu_command \<Rightarrow> json \<Rightarrow> (cu_response, 'w) handler" where
  "cu_dispatch P V C (CuInstall _ _) raw = unreachable"
| "cu_dispatch P V C (CuUninstall _ _) raw = unreachable"
| "cu_dispatch P V C CuWorkspaceOpenCmd raw = unreachable"
| "cu_dispatch P V C CuSessionStartCmd raw =
     parsed (cusd_common P raw) no_check (\<lambda>e. enforce C (cu_start_event V e) cu_session_verdict)"
| "cu_dispatch P V C CuSessionEnd raw =
     parsed (cusd_session_end P raw) no_check (\<lambda>_. answer (Inr cu_ok))"
| "cu_dispatch P V C CuPreToolUseCmd raw =
     parsed (cusd_pre_tool P raw) (\<lambda>e. cu_not_empty ''tool_name'' (cuq_tool_name e))
       (\<lambda>e. enforce C (cu_pre_event V e) (cu_tool_verdict (cuq_tool_name e)))"
| "cu_dispatch P V C CuPostToolUse raw =
     parsed (cusd_post_tool P raw) (\<lambda>e. cu_not_empty ''tool_name'' (cuo_tool_name e))
       (\<lambda>e. enforce C (cu_post_event V e) (\<lambda>_. cu_ok))"
| "cu_dispatch P V C CuPostToolUseFailure raw =
     parsed (cusd_failure P raw) (\<lambda>e. cu_not_empty ''tool_name'' (cuz_tool_name e))
       (\<lambda>e. enforce C (cu_failure_event V e) (\<lambda>_. cu_ok))"
| "cu_dispatch P V C CuSubagentStartCmd raw =
     parsed (cusd_subagent P raw) no_check
       (\<lambda>e. enforce C (cu_subagent_event V e) cu_subagent_verdict)"
| "cu_dispatch P V C CuSubagentStop raw =
     parsed (cusd_subagent_stop P raw) no_check (\<lambda>_. answer (Inr cu_subagent_stop_done))"
| "cu_dispatch P V C CuBeforeShellExecution raw =
     parsed (cusd_before_shell P raw) (\<lambda>e. cu_not_empty ''command'' (cub_command e))
       (\<lambda>e. enforce C (cu_before_shell_event V e) cu_shell_verdict)"
| "cu_dispatch P V C CuAfterShellExecution raw =
     parsed (cusd_after_shell P raw) (\<lambda>e. cu_not_empty ''command'' (cua_command e))
       (\<lambda>e. enforce C (cu_after_shell_event V e) (\<lambda>_. cu_ok))"
| "cu_dispatch P V C CuBeforeMCPExecution raw =
     parsed (cusd_before_mcp P raw) (\<lambda>e. cu_not_empty ''tool_name'' (cum_tool_name e))
       (\<lambda>e. enforce C (cu_before_mcp_event V e) (cu_mcp_verdict (cum_tool_name e)))"
| "cu_dispatch P V C CuAfterMCPExecution raw =
     parsed (cusd_after_mcp P raw) (\<lambda>e. cu_not_empty ''tool_name'' (cun_tool_name e))
       (\<lambda>e. enforce C (cu_after_mcp_event V e) (\<lambda>_. cu_ok))"
| "cu_dispatch P V C CuBeforeReadFile raw =
     parsed (cusd_before_read P raw) (\<lambda>e. cu_not_empty ''file_path'' (cuf_file_path e))
       (\<lambda>e. enforce C (cu_file_read_event V e) (cu_read_verdict (cuf_file_path e)))"
| "cu_dispatch P V C CuAfterFileEdit raw =
     parsed (cusd_after_edit P raw) (\<lambda>e. cu_not_empty ''file_path'' (cue_file_path e))
       (\<lambda>e. enforce C (cu_file_edit_event V e) (\<lambda>_. cu_ok))"
| "cu_dispatch P V C CuBeforeSubmitPromptCmd raw =
     parsed (cusd_prompt P raw) no_check (\<lambda>e. enforce C (cu_prompt_event V e) cu_prompt_verdict)"
| "cu_dispatch P V C CuAfterAgentResponse raw =
     parsed (cusd_agent_response P raw) no_check
       (\<lambda>e. enforce C (cu_agent_response_event V e) (\<lambda>_. cu_ok))"
| "cu_dispatch P V C CuAfterAgentThought raw =
     parsed (cusd_agent_thought P raw) no_check (\<lambda>_. answer (Inr cu_ok))"
| "cu_dispatch P V C CuPreCompactCmd raw =
     parsed (cusd_pre_compact P raw) no_check (\<lambda>_. answer (Inr cu_pre_compact_ok))"
| "cu_dispatch P V C CuStopCmd raw =
     parsed (cusd_stop P raw) no_check (\<lambda>_. answer (Inr cu_stop_done))"
| "cu_dispatch P V C CuBeforeTabFileReadCmd raw =
     parsed (cusd_tab_read P raw) (\<lambda>e. cu_not_empty ''file_path'' (cuf_file_path e))
       (\<lambda>e. enforce C (cu_file_read_event V e) cu_tab_verdict)"
| "cu_dispatch P V C CuAfterTabFileEdit raw =
     parsed (cusd_tab_edit P raw) (\<lambda>e. cu_not_empty ''file_path'' (cue_file_path e))
       (\<lambda>e. enforce C (cu_file_edit_event V e) (\<lambda>_. cu_ok))"

text \<open>The process: the JSON on stdout and the exit code. A workspace event asks nobody.\<close>

definition cu_run ::
  "string option \<Rightarrow> cu_serde \<Rightarrow> cu_env \<Rightarrow> cu_command \<Rightarrow> (hook_error + json) future
     \<Rightarrow> (harness_client_error + 'w client) future \<Rightarrow> 'w \<Rightarrow> (hook_error + json \<times> nat) future" where
  "cu_run env P V c stdin connection w =
     (if c = CuWorkspaceOpenCmd then
        and_then_ok stdin (\<lambda>v. Ready 0 (map_err HeJson (bind_result (cusd_workspace P v)
          (\<lambda>_. Inr (cu_json cu_workspace_open_ok, 0)))))
      else case run_hook env c cu_degraded_response (cu_dispatch P V) stdin (connected connection) w
        of Some (t, r) \<Rightarrow> Ready t (Inr (cu_json r, if cu_is_deny r then 2 else 0))
         | None \<Rightarrow> Panics 0)"

section \<open>The contract\<close>

definition cu_asks :: "cu_serde \<Rightarrow> cu_env \<Rightarrow> cu_command \<Rightarrow> json \<Rightarrow> event \<Rightarrow> bool" where
  "cu_asks P V c raw ev \<longleftrightarrow>
     (case c of
        CuPreToolUseCmd \<Rightarrow> \<exists>e. cusd_pre_tool P raw = Inr e \<and> ev = cu_pre_event V e
      | CuBeforeShellExecution \<Rightarrow> \<exists>e. cusd_before_shell P raw = Inr e \<and> ev = cu_before_shell_event V e
      | CuBeforeMCPExecution \<Rightarrow> \<exists>e. cusd_before_mcp P raw = Inr e \<and> ev = cu_before_mcp_event V e
      | CuBeforeReadFile \<Rightarrow> \<exists>e. cusd_before_read P raw = Inr e \<and> ev = cu_file_read_event V e
      | CuBeforeSubmitPromptCmd \<Rightarrow> \<exists>e. cusd_prompt P raw = Inr e \<and> ev = cu_prompt_event V e
      | CuBeforeTabFileReadCmd \<Rightarrow> \<exists>e. cusd_tab_read P raw = Inr e \<and> ev = cu_file_read_event V e
      | CuSubagentStartCmd \<Rightarrow> \<exists>e. cusd_subagent P raw = Inr e \<and> ev = cu_subagent_event V e
      | _ \<Rightarrow> False)"

text \<open>
  What may pass a command: Allow; Escalate when the response asks the user; and, for a prompt,
  Escalate as well.
\<close>

definition cu_passes :: "cu_command \<Rightarrow> cu_response \<Rightarrow> adjudicated \<Rightarrow> bool" where
  "cu_passes c r a \<longleftrightarrow>
     (if c = CuBeforeSubmitPromptCmd then adj_decision a \<noteq> Deny
      else if cu_asks_user r then adj_decision a = Escalate else adj_decision a = Allow)"

lemma cu_verdict_passes:
  "\<not> cu_is_deny (cu_shell_verdict a) \<Longrightarrow> c \<noteq> CuBeforeSubmitPromptCmd \<Longrightarrow> cu_passes c (cu_shell_verdict a) a"
  "\<not> cu_is_deny (cu_mcp_verdict t a) \<Longrightarrow> c \<noteq> CuBeforeSubmitPromptCmd \<Longrightarrow> cu_passes c (cu_mcp_verdict t a) a"
  "\<not> cu_is_deny (cu_read_verdict p a) \<Longrightarrow> c \<noteq> CuBeforeSubmitPromptCmd \<Longrightarrow> cu_passes c (cu_read_verdict p a) a"
  "\<not> cu_is_deny (cu_subagent_verdict a) \<Longrightarrow> c \<noteq> CuBeforeSubmitPromptCmd \<Longrightarrow> cu_passes c (cu_subagent_verdict a) a"
  "\<not> cu_is_deny (cu_tab_verdict a) \<Longrightarrow> c \<noteq> CuBeforeSubmitPromptCmd \<Longrightarrow> cu_passes c (cu_tab_verdict a) a"
  "\<not> cu_is_deny (cu_tool_verdict t a) \<Longrightarrow> c \<noteq> CuBeforeSubmitPromptCmd \<Longrightarrow> cu_passes c (cu_tool_verdict t a) a"
  "\<not> cu_is_deny (cu_prompt_verdict a) \<Longrightarrow> cu_passes CuBeforeSubmitPromptCmd (cu_prompt_verdict a) a"
  by (cases "adj_decision a"; simp add: cu_passes_def cu_shell_verdict_def cu_mcp_verdict_def
      cu_read_verdict_def cu_subagent_verdict_def cu_tab_verdict_def cu_tool_verdict_def
      cu_prompt_verdict_def cu_verdict_def cu_responses)+

interpretation cu_matrix: fail_closed_exactly cu_is_adjudication cu_degraded_response cu_is_deny
  by unfold_locales (auto simp: cu_degraded_response_def cu_is_adjudication_def cu_responses Let_def)

interpretation cu: gating cu_is_adjudication cu_degraded_response cu_is_deny
  "cu_dispatch P V" "(=)" "cu_asks P V" cu_passes
proof unfold_locales
  fix c r h v w k w'
  assume c: "cu_is_adjudication c" and r: "\<not> cu_is_deny r"
    and d: "cu_dispatch P V h c v w = (Ready k (Inr r), w')"
  show "\<exists>C ev n a. h = C \<and> cu_asks P V c v ev \<and> C ev w = (Ready n (Inr a), w') \<and> cu_passes c r a"
    using c d r
    by (cases c)
      (auto simp: cu_is_adjudication_def cu_asks_def cu_verdict_passes dest!: parsed_Inr enforce_Inr)
qed

text \<open>An enforced command that exits 0 was answered by a verdict that passes it.\<close>

lemma cu_run_answered:
  assumes "cu_is_adjudication c" "cu_run env P V c stdin (Ready m (Inr C)) w = Ready t (Inr (out, 0))"
  shows "\<exists>r. out = cu_json r \<and> answered_by stdin (cu_asks P V c) C w (cu_passes c r)"
proof -
  have "c \<noteq> CuWorkspaceOpenCmd" using assms(1) by (auto simp: cu_is_adjudication_def)
  then obtain r where r: "run_hook env c cu_degraded_response (cu_dispatch P V) stdin
      (connected (Ready m (Inr C))) w = Some (t, r)" "out = cu_json r" "\<not> cu_is_deny r"
    using assms(2) by (auto simp: cu_run_def split: option.splits prod.splits if_splits)
  from cu.run_answered[OF assms(1) r(3,1)] r(2) show ?thesis by (auto simp: connected_Inr)
qed

text \<open>
  The two mappers of a tool agree on its kind, except for an edit: adjudicated as a tool call,
  observed as a file result. The identifiers of a fetch do not meet.
\<close>

lemma cu_halves_agree:
  assumes "cuo_tool_name e' = cuq_tool_name e" "cuq_tool_name e \<noteq> ''Edit''"
  shows "case (cu_pre_action u e, cu_post_observation R e') of
      (ShellCommand c, ShellCommandOutput r) \<Rightarrow>
        shc_call_id c = cuq_tool_use_id e \<and> sco_call_id r = cuo_tool_use_id e'
    | (FileOperation c, FileOperationResult r) \<Rightarrow>
        fo_call_id c = cuq_tool_use_id e \<and> fr_call_id r = cuo_tool_use_id e'
    | (WebFetch c, WebFetchOutput r) \<Rightarrow> True
    | (ToolCall c, ToolOutput r) \<Rightarrow>
        tc_call_id c = cuq_tool_use_id e \<and> to_call_id r = cuo_tool_use_id e'
    | _ \<Rightarrow> False"
  using assms
  by (simp add: cu_pre_action_def cu_post_observation_def Let_def cu_shell_output_def
      cu_file_result_def tool_output_success_def)

lemma cu_edit_split:
  assumes "cuq_tool_name e = ''Edit''" "cuo_tool_name e' = ''Edit''"
  shows "(\<exists>c. cu_pre_action u e = ToolCall c) \<and> (\<exists>r. cu_post_observation R e' = FileOperationResult r)"
  using assms by (simp add: cu_pre_action_def cu_post_observation_def Let_def)

lemma cu_halves_iff:
  assumes "cuo_tool_name e' = cuq_tool_name e"
  shows "same_half (cu_pre_action u e) (cu_post_observation R e') \<longleftrightarrow> cuq_tool_name e \<noteq> ''Edit''"
proof (cases "cuq_tool_name e = ''Edit''")
  case True
  then show ?thesis using cu_edit_split [of e e' u R] assms by auto
next
  case False
  then show ?thesis using cu_halves_agree [OF assms False, of u R]
    by (auto split: action.splits observation.splits)
qed

end
