(* ===== verification/Mention.thy ===== *)
theory Mention
  imports Rust_Text
begin

text \<open>
  The \<open>@file\<close> mentions of a prompt (\<open>crates/hooks/core/src/mention.rs\<close>): which text is a mention,
  which file it names, and how much of the file is read; then the search VS Code adds for a label
  that is not a path (\<open>crates/hooks/vscode/src/mention.rs\<close>). Paths are Unix paths as byte strings.
\<close>

section \<open>Extraction\<close>

abbreviation at_sign :: string where "at_sign \<equiv> [CHR 0x40]"

definition is_boundary :: "string \<Rightarrow> bool" where
  "is_boundary ch \<longleftrightarrow>
     is_whitespace ch \<or>
     ch \<in> {''('', ''['', [CHR 0x7B], ''<'', [CHR 0x22], [CHR 0x27], [CHR 0x60], '','', '';'', ''='', ''>''}"

definition in_mention :: "string \<Rightarrow> bool" where
  "in_mention ch \<longleftrightarrow> \<not> is_whitespace ch \<and> ch \<noteq> at_sign"

definition at_boundary :: "string option \<Rightarrow> bool" where
  "at_boundary prev \<longleftrightarrow> (case prev of None \<Rightarrow> True | Some ch \<Rightarrow> is_boundary ch)"

text \<open>The scan of \<open>extract_mentions\<close>: the character before, and those to come.\<close>

function mentions_from :: "string option \<Rightarrow> string list \<Rightarrow> string list" where
  "mentions_from prev [] = []"
| "mentions_from prev (ch # rest) =
     (if ch = at_sign \<and> at_boundary prev then
        (let body = takeWhile in_mention rest in
         if body = [] then mentions_from (Some ch) rest
         else concat body # mentions_from (Some (last body)) (dropWhile in_mention rest))
      else mentions_from (Some ch) rest)"
  by pat_completeness auto
termination
  by (relation "measure (length \<circ> snd)") (auto simp: length_dropWhile_le less_Suc_eq_le)

definition extract_mentions :: "string \<Rightarrow> string list" where
  "extract_mentions txt = mentions_from None (utf8_chars txt)"

text \<open>
  What a mention is: a maximal run of characters behind an at sign, where the at sign starts the
  text or follows a boundary.
\<close>

definition mention_at :: "string option \<Rightarrow> string list \<Rightarrow> string \<Rightarrow> bool" where
  "mention_at prev chs b \<longleftrightarrow>
     (\<exists>pre body post. chs = pre @ at_sign # body @ post \<and> b = concat body \<and> body \<noteq> []
        \<and> list_all in_mention body \<and> (post = [] \<or> \<not> in_mention (hd post))
        \<and> at_boundary (if pre = [] then prev else Some (last pre)))"

lemma at_sign_not_in_mention [simp]: "\<not> in_mention at_sign"
  by (simp add: in_mention_def)

lemma list_all_takeWhile [simp]: "list_all P (takeWhile P xs)"
  by (induction xs) auto

lemma maximal_run:
  "list_all P xs \<Longrightarrow> ys = [] \<or> \<not> P (hd ys) \<Longrightarrow> takeWhile P (xs @ ys) = xs \<and> dropWhile P (xs @ ys) = ys"
  by (induction xs) (cases ys; auto)+

lemma mention_at_Nil [simp]: "\<not> mention_at prev [] b"
  by (simp add: mention_at_def)

text \<open>A mention behind the first character is one of the rest.\<close>

lemma mention_at_Cons:
  "mention_at prev (ch # rest) b \<longleftrightarrow>
     (ch = at_sign \<and> at_boundary prev \<and> b = concat (takeWhile in_mention rest) \<and> takeWhile in_mention rest \<noteq> [])
     \<or> mention_at (Some ch) rest b" (is "_ \<longleftrightarrow> ?here \<or> ?later")
proof
  assume "mention_at prev (ch # rest) b"
  then obtain pre body post where m: "ch # rest = pre @ at_sign # body @ post" "b = concat body"
    "body \<noteq> []" "list_all in_mention body" "post = [] \<or> \<not> in_mention (hd post)"
    "at_boundary (if pre = [] then prev else Some (last pre))"
    unfolding mention_at_def by blast
  show "?here \<or> ?later"
  proof (cases pre)
    case Nil
    then show ?thesis using m maximal_run[OF m(4,5)] by simp
  next
    case (Cons p pre')
    then have "rest = pre' @ at_sign # body @ post" "at_boundary (if pre' = [] then Some ch else Some (last pre'))"
      using m by (auto split: if_splits)
    then have ?later unfolding mention_at_def using m by blast
    then show ?thesis ..
  qed
next
  assume "?here \<or> ?later"
  then show "mention_at prev (ch # rest) b"
  proof
    assume h: ?here
    have "dropWhile in_mention rest = [] \<or> \<not> in_mention (hd (dropWhile in_mention rest))"
      using hd_dropWhile by blast
    then show ?thesis using h list_all_takeWhile unfolding mention_at_def
      by - (rule exI[of _ "[]"], rule exI[of _ "takeWhile in_mention rest"],
        rule exI[of _ "dropWhile in_mention rest"], simp del: takeWhile_eq_Nil_iff)
  next
    assume ?later
    then obtain pre body post where m: "rest = pre @ at_sign # body @ post" "b = concat body"
      "body \<noteq> []" "list_all in_mention body" "post = [] \<or> \<not> in_mention (hd post)"
      "at_boundary (if pre = [] then Some ch else Some (last pre))"
      unfolding mention_at_def by blast
    then have "ch # rest = (ch # pre) @ at_sign # body @ post"
      "at_boundary (if ch # pre = [] then prev else Some (last (ch # pre)))"
      by (auto split: if_splits)
    then show ?thesis unfolding mention_at_def using m by blast
  qed
qed

text \<open>No mention starts inside a run of mention characters.\<close>

lemma mention_at_skip:
  "list_all in_mention body \<Longrightarrow> body \<noteq> [] \<Longrightarrow>
     mention_at prev (body @ rest) b \<longleftrightarrow> mention_at (Some (last body)) rest b"
proof (induction body arbitrary: prev)
  case (Cons ch body)
  then have "ch \<noteq> at_sign" by auto
  then have "mention_at prev ((ch # body) @ rest) b \<longleftrightarrow> mention_at (Some ch) (body @ rest) b"
    by (simp add: mention_at_Cons)
  then show ?case using Cons by (cases "body = []") auto
qed simp

lemma mentions_from_exact: "b \<in> set (mentions_from prev chs) \<longleftrightarrow> mention_at prev chs b"
proof (induction prev chs rule: mentions_from.induct)
  case (2 prev ch rest)
  let ?body = "takeWhile in_mention rest" and ?rest = "dropWhile in_mention rest"
  show ?case
  proof (cases "ch = at_sign \<and> at_boundary prev")
    case start: True
    show ?thesis
    proof (cases "?body = []")
      case True
      then have "mentions_from prev (ch # rest) = mentions_from (Some ch) rest" using start by simp
      then show ?thesis using True "2.IH"(1)[OF start refl True] by (simp only: mention_at_Cons) simp
    next
      case False
      have "mention_at (Some ch) rest b \<longleftrightarrow> mention_at (Some (last ?body)) ?rest b"
        using mention_at_skip[OF list_all_takeWhile False, of "Some ch" ?rest] by simp
      moreover have "mentions_from prev (ch # rest) = concat ?body # mentions_from (Some (last ?body)) ?rest"
        using start False by (simp add: Let_def del: takeWhile_eq_Nil_iff)
      ultimately show ?thesis using start False "2.IH"(2)[OF start refl False] unfolding mention_at_Cons
        by (metis list.set_intros(1) set_ConsD list.set_intros(2))
    qed
  next
    case False
    then show ?thesis using "2.IH"(3)[OF False] by (auto simp: mention_at_Cons)
  qed
qed simp

lemma extract_mentions_exact: "b \<in> set (extract_mentions txt) \<longleftrightarrow> mention_at None (utf8_chars txt) b"
  by (simp add: extract_mentions_def mentions_from_exact)

text \<open>Two mentions with nothing between them are one mention: the second at sign follows no boundary.\<close>

lemma glued_mentions_lost: "extract_mentions ''@a@b'' = [''a'']"
  by (simp add: extract_mentions_def at_boundary_def in_mention_def is_boundary_def is_whitespace_def
      is_cont_def Let_def)

section \<open>Paths\<close>

abbreviation path_sep :: char where "path_sep \<equiv> CHR 0x2F"

definition is_absolute :: "string \<Rightarrow> bool" where
  "is_absolute p \<longleftrightarrow> p \<noteq> [] \<and> hd p = path_sep"

text \<open>\<open>Path::join\<close>.\<close>

definition path_join :: "string \<Rightarrow> string \<Rightarrow> string" where
  "path_join base p =
     (if is_absolute p then p
      else if base = [] \<or> last base = path_sep then base @ p
      else base @ path_sep # p)"

text \<open>
  \<open>Path::components\<close>, behind the root: empty and \<open>.\<close> parts are not components. (A leading \<open>.\<close> of
  a relative path is one, and \<open>lexically_normalize\<close> drops it.)
\<close>

definition path_parts :: "string \<Rightarrow> string list" where
  "path_parts p = filter (\<lambda>c. c \<noteq> [] \<and> c \<noteq> ''.'') (split_on path_sep p)"

text \<open>The loop of \<open>lexically_normalize\<close>: the parts pushed so far, last first.\<close>

fun collapse_parts :: "string list \<Rightarrow> string list \<Rightarrow> string list" where
  "collapse_parts out [] = rev out"
| "collapse_parts out (c # cs) =
     (if c = ''..'' then collapse_parts (tl out) cs else collapse_parts (c # out) cs)"

definition lexically_normalize :: "string \<Rightarrow> string" where
  "lexically_normalize p =
     (if is_absolute p then [path_sep] else []) @ join [path_sep] (collapse_parts [] (path_parts p))"

definition plain_part :: "string \<Rightarrow> bool" where
  "plain_part c \<longleftrightarrow> c \<noteq> [] \<and> c \<noteq> ''.'' \<and> c \<noteq> ''..'' \<and> path_sep \<notin> set c"

lemma collapse_plain:
  "\<forall>c\<in>set cs. c = ''..'' \<or> plain_part c \<Longrightarrow> list_all plain_part out \<Longrightarrow>
     list_all plain_part (collapse_parts out cs)"
proof (induction out cs rule: collapse_parts.induct)
  case (2 out c cs)
  then show ?case by (cases out) auto
qed (simp add: list_all_rev)

lemma path_parts_plain: "c \<in> set (path_parts p) \<Longrightarrow> c = ''..'' \<or> plain_part c"
  by (auto simp: path_parts_def plain_part_def dest: split_on_no_sep)

lemma lexically_normalize_plain:
  "\<exists>cs. list_all plain_part cs \<and>
     lexically_normalize p = (if is_absolute p then [path_sep] else []) @ join [path_sep] cs"
  unfolding lexically_normalize_def
  using collapse_plain[of "path_parts p" "[]"] path_parts_plain by (metis list.pred_inject(1))

lemma split_on_join_plain:
  "list_all plain_part cs \<Longrightarrow> cs \<noteq> [] \<Longrightarrow> split_on path_sep (join [path_sep] cs) = cs"
proof (induction cs rule: induct_list012)
  case (2 x)
  have "path_sep \<notin> set x \<Longrightarrow> split_on path_sep x = [x]" for x by (induction x) auto
  then show ?case using 2 by (simp add: plain_part_def)
next
  case (3 x y zs)
  have "path_sep \<notin> set x \<Longrightarrow> split_on path_sep (x @ path_sep # t) = x # split_on path_sep t" for x t
    by (induction x) auto
  then show ?case using 3 by (simp add: plain_part_def)
qed simp

lemma collapse_id: "list_all plain_part cs \<Longrightarrow> collapse_parts out cs = rev out @ cs"
  by (induction cs arbitrary: out) (auto simp: plain_part_def)

lemma path_parts_join:
  assumes "list_all plain_part cs" "r = [] \<or> r = [path_sep]"
  shows "path_parts (r @ join [path_sep] cs) = cs"
proof -
  have "filter (\<lambda>c. c \<noteq> [] \<and> c \<noteq> ''.'') cs = cs"
    using assms(1) by (auto simp: filter_id_conv list_all_iff plain_part_def)
  then have "path_parts (join [path_sep] cs) = cs"
    using assms(1) by (cases "cs = []") (simp_all add: path_parts_def split_on_join_plain)
  then show ?thesis using assms(2) by (auto simp: path_parts_def)
qed

lemma plain_join_relative:
  "list_all plain_part cs \<Longrightarrow> \<not> is_absolute (join [path_sep] cs)"
proof (induction cs rule: induct_list012)
  case (2 x)
  then show ?case by (cases x) (auto simp: is_absolute_def plain_part_def)
next
  case (3 x y zs)
  then show ?case by (cases x) (auto simp: is_absolute_def plain_part_def)
qed (simp add: is_absolute_def)

text \<open>Normalising again changes nothing.\<close>

lemma lexically_normalize_idem: "lexically_normalize (lexically_normalize p) = lexically_normalize p"
proof -
  let ?r = "if is_absolute p then [path_sep] else []"
  obtain cs where cs: "list_all plain_part cs" "lexically_normalize p = ?r @ join [path_sep] cs"
    using lexically_normalize_plain by blast
  have "is_absolute (?r @ join [path_sep] cs) \<longleftrightarrow> is_absolute p"
    using plain_join_relative[OF cs(1)] by (auto simp: is_absolute_def)
  moreover have "path_parts (?r @ join [path_sep] cs) = cs" by (rule path_parts_join[OF cs(1)]) simp
  ultimately show ?thesis using cs by (simp add: lexically_normalize_def[of "_ @ _"] collapse_id)
qed

section \<open>Files\<close>

text \<open>What the hook sees of the file system. Entries that cannot be read are \<open>None\<close>.\<close>

record dir_entry =
  de_name :: string
  de_is_dir :: "bool option"

record file_system =
  fs_is_file :: "string \<Rightarrow> bool"
  fs_bytes :: "string \<Rightarrow> string option"
  fs_read_dir :: "string \<Rightarrow> dir_entry option list option"

definition existing_file :: "file_system \<Rightarrow> string \<Rightarrow> string \<Rightarrow> string option" where
  "existing_file F cwd rel_or_abs =
     (if rel_or_abs = [] then None
      else let normalized = lexically_normalize (path_join cwd rel_or_abs)
        in if fs_is_file F normalized then Some normalized else None)"

definition trailing_punctuation :: "string list" where
  "trailing_punctuation =
     [''.'', '','', '';'', '':'', ''!'', ''?'', '')'', '']'', [CHR 0x7D], [CHR 0x27], [CHR 0x22], [CHR 0x60]]"

function resolve_trimmed :: "file_system \<Rightarrow> string \<Rightarrow> string list \<Rightarrow> string option" where
  "resolve_trimmed F cwd chs =
     (case existing_file F cwd (concat chs) of
        Some path \<Rightarrow> Some path
      | None \<Rightarrow> if chs \<noteq> [] \<and> last chs \<in> set trailing_punctuation
          then resolve_trimmed F cwd (butlast chs) else None)"
  by pat_completeness auto
termination by (relation "measure (\<lambda>(_, _, chs). length chs)") auto

declare resolve_trimmed.simps [simp del]

definition resolve_file :: "file_system \<Rightarrow> string \<Rightarrow> string \<Rightarrow> string option" where
  "resolve_file F cwd body = resolve_trimmed F cwd (utf8_chars body)"

lemma resolve_trimmed_Some:
  "resolve_trimmed F cwd chs = Some p \<Longrightarrow>
     \<exists>k. p = lexically_normalize (path_join cwd (concat (take k chs))) \<and> fs_is_file F p
       \<and> set (drop k chs) \<subseteq> set trailing_punctuation"
proof (induction F cwd chs rule: resolve_trimmed.induct)
  case (1 F cwd chs)
  show ?case
  proof (cases "existing_file F cwd (concat chs)")
    case (Some q)
    then show ?thesis using 1(2)
      by (intro exI[of _ "length chs"])
        (auto simp: resolve_trimmed.simps[of F cwd chs] existing_file_def Let_def split: if_splits)
  next
    case None
    then have c: "chs \<noteq> []" "last chs \<in> set trailing_punctuation"
      "resolve_trimmed F cwd (butlast chs) = Some p"
      using 1(2) by (auto simp: resolve_trimmed.simps[of F cwd chs] split: if_splits)
    with 1(1)[OF None] obtain k where k: "p = lexically_normalize (path_join cwd (concat (take k (butlast chs))))"
      "fs_is_file F p" "set (drop k (butlast chs)) \<subseteq> set trailing_punctuation" by blast
    let ?k = "min k (length chs - 1)"
    have "take ?k chs = take k (butlast chs)" by (simp add: take_butlast butlast_conv_take min.commute)
    moreover have "drop ?k chs = drop k (butlast chs) @ [last chs]"
    proof -
      have "chs = butlast chs @ [last chs]" using c(1) by simp
      then have "drop ?k chs = drop ?k (butlast chs) @ [last chs]"
        by (metis append_Nil2 diff_is_0_eq drop0 drop_append length_butlast min.cobounded2)
      then show ?thesis by (simp add: min_def)
    qed
    ultimately show ?thesis using k c(2) by (intro exI[of _ ?k]) auto
  qed
qed

text \<open>A mention names an existing file, up to punctuation behind it, by a path with no dots left.\<close>

lemma resolve_file_Some:
  assumes "resolve_file F cwd body = Some p"
  shows "fs_is_file F p \<and> lexically_normalize p = p
    \<and> (\<exists>k. p = lexically_normalize (path_join cwd (concat (take k (utf8_chars body))))
         \<and> set (drop k (utf8_chars body)) \<subseteq> set trailing_punctuation)"
  using resolve_trimmed_Some[OF assms[unfolded resolve_file_def]] lexically_normalize_idem by blast

text \<open>
  Reading: a file that is not UTF-8 has no text, but a character the bound cut in two is dropped.
\<close>

fun incomplete_char :: "string \<Rightarrow> bool" where
  "incomplete_char [a] \<longleftrightarrow> 194 \<le> byte a \<and> byte a < 245"
| "incomplete_char [a, b] \<longleftrightarrow>
     224 \<le> byte a \<and> byte a < 240 \<and> second3_ok a b \<or> 240 \<le> byte a \<and> byte a < 245 \<and> second4_ok a b"
| "incomplete_char [a, b, c] \<longleftrightarrow> 240 \<le> byte a \<and> byte a < 245 \<and> second4_ok a b \<and> is_cont c"
| "incomplete_char _ \<longleftrightarrow> False"

definition text_of_bytes :: "string \<Rightarrow> string option" where
  "text_of_bytes bytes =
     (let chs = utf8_chars bytes in
      if list_all scalar_ok chs then Some bytes
      else if list_all scalar_ok (butlast chs) \<and> incomplete_char (last chs) then Some (concat (butlast chs))
      else None)"

definition read_file_text :: "file_system \<Rightarrow> string \<Rightarrow> nat \<Rightarrow> string option" where
  "read_file_text F path max_bytes =
     Option.bind (fs_bytes F path) (\<lambda>bytes. text_of_bytes (take max_bytes bytes))"

lemma utf8_chars_single: "\<forall>b\<in>set bs. is_cont b \<Longrightarrow> utf8_chars (a # bs) = [a # bs]"
proof -
  assume "\<forall>b\<in>set bs. is_cont b"
  then have "takeWhile is_cont bs = bs" "dropWhile is_cont bs = []" by auto
  then show ?thesis unfolding utf8_chars.simps(2) by (simp only: utf8_chars.simps(1))
qed

lemma utf8_chars_scalar: "scalar_ok g \<Longrightarrow> utf8_chars g = [g]"
  using scalar_ok_cont utf8_chars_single by (cases g) auto

lemma valid_scalars: "list_all scalar_ok cs \<Longrightarrow> valid_utf8 (concat cs)"
proof (induction cs)
  case (Cons g cs)
  have "valid_utf8 g" using Cons.prems by (simp add: valid_utf8_def utf8_chars_scalar)
  then show ?case using Cons by (simp add: valid_utf8_append)
qed simp

lemma scalar_cut:
  assumes "scalar_ok g" "0 < n" "n < length g"
  shows "utf8_chars (take n g) = [take n g] \<and> incomplete_char (take n g) \<and> \<not> scalar_ok (take n g)"
proof -
  obtain a bs where g: "g = a # bs" using assms(2,3) by (cases g) auto
  have "\<forall>b\<in>set (take (n - 1) bs). is_cont b"
    using scalar_ok_cont[OF assms(1)[unfolded g]] by (auto dest: in_set_takeD)
  then have "utf8_chars (take n g) = [take n g]"
    using g assms(2) utf8_chars_single by (cases n) (auto simp del: utf8_chars.simps)
  moreover have "incomplete_char (take n g) \<and> \<not> scalar_ok (take n g)"
  proof -
    consider "n = 1" | "n = 2" | "n = 3" using assms scalar_ok_length[OF assms(1)] by linarith
    then show ?thesis
      using assms by cases (cases g rule: scalar_ok.cases; auto simp: numeral_eq_Suc)+
  qed
  ultimately show ?thesis ..
qed

lemma chars_of_take:
  "list_all scalar_ok cs \<Longrightarrow>
     \<exists>k r. utf8_chars (take n (concat cs)) = take k cs @ r
       \<and> (r = [] \<or> (\<exists>g. r = [g] \<and> incomplete_char g \<and> \<not> scalar_ok g))"
proof (induction cs arbitrary: n)
  case (Cons g cs)
  then have g: "scalar_ok g" "utf8_chars g = [g]" by (simp_all add: utf8_chars_scalar)
  show ?case
  proof (cases "length g \<le> n")
    case True
    let ?t = "take (n - length g) (concat cs)"
    have "valid_utf8 (concat cs)" using Cons.prems valid_scalars by simp
    then have "?t = [] \<or> \<not> is_cont (hd ?t)"
      using valid_utf8_lead[of "concat cs"] by (cases "concat cs"; cases "n - length g") auto
    then have "utf8_chars (take n (concat (g # cs))) = g # utf8_chars ?t"
      using True g(2) utf8_chars_append[of ?t g] by simp
    moreover obtain k r where "utf8_chars ?t = take k cs @ r"
      "r = [] \<or> (\<exists>g. r = [g] \<and> incomplete_char g \<and> \<not> scalar_ok g)"
      using Cons.IH[of "n - length g"] Cons.prems by auto
    ultimately show ?thesis by (intro exI[of _ "Suc k"] exI[of _ r]) simp
  next
    case False
    then have "take n (concat (g # cs)) = take n g" by simp
    then show ?thesis using scalar_cut[OF g(1), of n] False
      by (cases "n = 0") (auto intro!: exI[of _ 0])
  qed
qed simp

lemma incomplete_char_length: "incomplete_char g \<Longrightarrow> length g \<le> 3"
  by (cases g rule: incomplete_char.cases) auto

text \<open>Of a UTF-8 file all of what fits is read, up to the three bytes of a cut character.\<close>

lemma read_file_text_valid:
  assumes "fs_bytes F p = Some bytes" "valid_utf8 bytes"
  shows "\<exists>t. read_file_text F p n = Some t \<and> valid_utf8 t \<and> t = take (length t) bytes
    \<and> length t \<le> n \<and> min n (length bytes) \<le> length t + 3"
proof -
  let ?cs = "utf8_chars bytes"
  have ok: "list_all scalar_ok ?cs" using assms(2) by (simp add: valid_utf8_def)
  obtain k r where r: "utf8_chars (take n bytes) = take k ?cs @ r"
    "r = [] \<or> (\<exists>g. r = [g] \<and> incomplete_char g \<and> \<not> scalar_ok g)"
    using chars_of_take[OF ok, of n] by auto
  let ?t = "concat (take k ?cs)"
  have okk: "list_all scalar_ok (take k ?cs)" using ok by (auto simp: list_all_iff dest: in_set_takeD)
  have cut: "take n bytes = ?t @ concat r" by (metis concat_append concat_utf8_chars r(1))
  have "read_file_text F p n = Some ?t"
    using r okk cut assms(1) by (auto simp: read_file_text_def text_of_bytes_def Let_def)
  moreover have "valid_utf8 ?t" by (rule valid_scalars[OF okk])
  moreover have "?t = take (length ?t) bytes"
    by (metis append_take_drop_id concat_append concat_utf8_chars append_eq_conv_conj)
  moreover have "length (take n bytes) \<le> length ?t + 3" unfolding cut using r(2) incomplete_char_length by auto
  moreover have "length ?t \<le> n" using arg_cong[OF cut, of length] by simp
  ultimately show ?thesis by (intro exI[of _ ?t]) (auto simp: min.commute)
qed

text \<open>Each distinct file a prompt mentions, in the order of first mention.\<close>

fun distinct_files :: "string list \<Rightarrow> string list \<Rightarrow> string list" where
  "distinct_files seen [] = []"
| "distinct_files seen (p # ps) =
     (if p \<in> set seen then distinct_files seen ps else p # distinct_files (p # seen) ps)"

definition resolve_mentioned_files :: "file_system \<Rightarrow> string \<Rightarrow> string \<Rightarrow> nat \<Rightarrow> (string \<times> string option) list"
  where
  "resolve_mentioned_files F prompt cwd max_bytes =
     map (\<lambda>p. (p, read_file_text F p max_bytes))
       (distinct_files [] (List.map_filter (resolve_file F cwd) (extract_mentions prompt)))"

lemma distinct_files:
  "distinct (distinct_files seen ps) \<and> set (distinct_files seen ps) = set ps - set seen"
  by (induction seen ps rule: distinct_files.induct) auto

text \<open>The files of a prompt are exactly the files its mentions name, each once.\<close>

lemma resolve_mentioned_files_exact:
  "distinct (map fst (resolve_mentioned_files F prompt cwd n)) \<and>
   (p \<in> set (map fst (resolve_mentioned_files F prompt cwd n)) \<longleftrightarrow>
      (\<exists>b. mention_at None (utf8_chars prompt) b \<and> resolve_file F cwd b = Some p))"
  by (auto simp: resolve_mentioned_files_def distinct_files comp_def List.map_filter_def
      extract_mentions_exact image_iff)

end
