(* ===== verification/Mention_Search.thy ===== *)
theory Mention_Search
  imports Mention
begin

text \<open>
  Mentions in VS Code (\<open>crates/hooks/vscode/src/mention.rs\<close>): a \<open>file:\<close> scheme in front, and a label
  that is no path is searched for below the workspace, within bounds on entries, depth and matches.
\<close>

section \<open>Labels\<close>

definition strip_file_scheme :: "string \<Rightarrow> string" where
  "strip_file_scheme body =
     (if 5 \<le> length body \<and> is_char_boundary body 5 \<and> eq_ignore_ascii_case (take 5 body) ''file:''
      then drop 5 body else body)"

text \<open>\<open>A\<close> is \<open>char::is_alphanumeric\<close>.\<close>

function shorter_labels :: "(string \<Rightarrow> bool) \<Rightarrow> string list \<Rightarrow> string list" where
  "shorter_labels A chs =
     (if chs = [] \<or> A (last chs) \<or> butlast chs = [] then []
      else concat (butlast chs) # shorter_labels A (butlast chs))"
  by pat_completeness auto
termination by (relation "measure (length \<circ> snd)") auto

declare shorter_labels.simps [simp del]

definition label_candidates :: "(string \<Rightarrow> bool) \<Rightarrow> string \<Rightarrow> string list" where
  "label_candidates A label = (if label = [] then [] else label # shorter_labels A (utf8_chars label))"

section \<open>The search\<close>

definition skipped_dirs :: "string list" where
  "skipped_dirs = [''.git'', ''node_modules'', ''target'']"

definition max_search_entries :: nat where "max_search_entries = 20000"
definition max_search_depth :: nat where "max_search_depth = 12"
definition max_search_matches :: nat where "max_search_matches = 8"

type_synonym search_state = "(string \<times> nat) list \<times> nat \<times> string list"

text \<open>
  One directory: the queue behind it, the entries visited and the matches so far. \<open>Inl\<close> is an
  early return of the search.
\<close>

fun scan_entries ::
  "file_system \<Rightarrow> string list \<Rightarrow> string \<Rightarrow> nat \<Rightarrow> dir_entry list \<Rightarrow> search_state
     \<Rightarrow> string list + search_state" where
  "scan_entries F candidates dir depth [] s = Inr s"
| "scan_entries F candidates dir depth (e # es) (queue, visited, matches) =
     (if max_search_entries < visited + 1 then Inl matches
      else case de_is_dir e of
        None \<Rightarrow> scan_entries F candidates dir depth es (queue, visited + 1, matches)
      | Some True \<Rightarrow>
          scan_entries F candidates dir depth es
            (if depth < max_search_depth \<and> \<not> (valid_utf8 (de_name e) \<and> de_name e \<in> set skipped_dirs)
             then queue @ [(path_join dir (de_name e), depth + 1)] else queue, visited + 1, matches)
      | Some False \<Rightarrow>
          (let path = path_join dir (de_name e) in
           if valid_utf8 (de_name e) \<and> de_name e \<in> set candidates \<and> fs_is_file F path then
             (let matches' = matches @ [lexically_normalize path] in
              if max_search_matches \<le> length matches' then Inl matches'
              else scan_entries F candidates dir depth es (queue, visited + 1, matches'))
           else scan_entries F candidates dir depth es (queue, visited + 1, matches)))"

lemma scan_entries_Inr:
  "scan_entries F candidates dir depth es (queue, visited, matches) = Inr (queue', visited', matches') \<Longrightarrow>
     visited' = visited + length es \<and> (es = [] \<or> visited' \<le> max_search_entries) \<and> (es = [] \<longrightarrow> queue' = queue)"
proof (induction es arbitrary: queue visited matches)
  case (Cons e es)
  then show ?case
    by (auto simp: Let_def split: option.splits bool.splits if_splits) (fastforce dest: Cons.IH)+
qed simp

text \<open>
  The breadth-first search. It ends: a directory with entries uses up the entries that may still
  be visited, one without shortens the queue.
\<close>

function search_dirs :: "file_system \<Rightarrow> string list \<Rightarrow> search_state \<Rightarrow> string list" where
  "search_dirs F candidates ([], visited, matches) = matches"
| "search_dirs F candidates ((dir, depth) # queue, visited, matches) =
     (case fs_read_dir F dir of
        None \<Rightarrow> search_dirs F candidates (queue, visited, matches)
      | Some entries \<Rightarrow>
          (case scan_entries F candidates dir depth (List.map_filter (\<lambda>e. e) entries) (queue, visited, matches) of
             Inl found \<Rightarrow> found
           | Inr s \<Rightarrow> search_dirs F candidates s))"
  by pat_completeness auto
termination
proof (relation "measures [\<lambda>(_, _, _, v, _). Suc max_search_entries - v, \<lambda>(_, _, q, _). length q]")
  fix F candidates dir depth queue visited matches entries s
  assume "fs_read_dir F dir = Some (entries :: dir_entry option list)"
    "scan_entries F candidates dir depth (List.map_filter (\<lambda>e. e) entries) (queue, visited, matches) = Inr s"
  then obtain q v m where "s = (q, v, m)" "v = visited + length (List.map_filter (\<lambda>e. e) entries)"
    "List.map_filter (\<lambda>e. e) entries = [] \<or> v \<le> max_search_entries"
    "List.map_filter (\<lambda>e. e) entries = [] \<longrightarrow> q = queue"
    by (cases s) (auto dest: scan_entries_Inr)
  then show "((F, candidates, s), F, candidates, (dir, depth) # queue, visited, matches)
    \<in> measures [\<lambda>(_, _, _, v, _). Suc max_search_entries - v, \<lambda>(_, _, q, _). length q]"
    by (cases "List.map_filter (\<lambda>e. e) entries") auto
qed auto

definition find_by_basename :: "file_system \<Rightarrow> string \<Rightarrow> string list \<Rightarrow> string list" where
  "find_by_basename F root candidates = search_dirs F candidates ([(root, 0)], 0, [])"

definition resolve_body :: "file_system \<Rightarrow> (string \<Rightarrow> bool) \<Rightarrow> string \<Rightarrow> string \<Rightarrow> string list" where
  "resolve_body F A cwd body0 =
     (let body = strip_file_scheme body0 in
      case resolve_file F cwd body of
        Some path \<Rightarrow> [path]
      | None \<Rightarrow>
          if path_sep \<in> set body \<or> CHR 0x5C \<in> set body then []
          else (let candidates = label_candidates A body in
            if candidates = [] then [] else find_by_basename F cwd candidates))"

definition resolve_prompt_mentions ::
  "file_system \<Rightarrow> (string \<Rightarrow> bool) \<Rightarrow> string \<Rightarrow> string \<Rightarrow> nat \<Rightarrow> (string \<times> string option) list" where
  "resolve_prompt_mentions F A prompt cwd max_bytes =
     map (\<lambda>p. (p, read_file_text F p max_bytes))
       (distinct_files [] (concat (map (resolve_body F A cwd) (extract_mentions prompt))))"

section \<open>What it finds\<close>

text \<open>The directories the search may look into, with their depth.\<close>

inductive searched :: "file_system \<Rightarrow> string \<Rightarrow> string \<Rightarrow> nat \<Rightarrow> bool"
  for F root where
  root: "searched F root root 0"
| below: "searched F root dir depth \<Longrightarrow> fs_read_dir F dir = Some entries \<Longrightarrow> Some e \<in> set entries \<Longrightarrow>
    de_is_dir e = Some True \<Longrightarrow> de_name e \<notin> set skipped_dirs \<Longrightarrow> depth < max_search_depth \<Longrightarrow>
    searched F root (path_join dir (de_name e)) (depth + 1)"

lemma searched_depth: "searched F root dir depth \<Longrightarrow> depth \<le> max_search_depth"
  by (induction rule: searched.induct) auto

text \<open>A match is a regular file with one of the names, in a directory that is searched.\<close>

definition found_file :: "file_system \<Rightarrow> string \<Rightarrow> string list \<Rightarrow> string \<Rightarrow> bool" where
  "found_file F root candidates p \<longleftrightarrow>
     (\<exists>dir depth name. searched F root dir depth \<and> name \<in> set candidates
        \<and> fs_is_file F (path_join dir name) \<and> p = lexically_normalize (path_join dir name))"

definition search_inv :: "file_system \<Rightarrow> string \<Rightarrow> string list \<Rightarrow> search_state \<Rightarrow> bool" where
  "search_inv F root candidates s =
     (case s of (queue, visited, matches) \<Rightarrow>
        (\<forall>(dir, depth)\<in>set queue. searched F root dir depth)
        \<and> (\<forall>p\<in>set matches. found_file F root candidates p)
        \<and> length matches < max_search_matches)"

lemma skipped_valid: "n \<in> set skipped_dirs \<Longrightarrow> valid_utf8 n"
  by (auto simp: skipped_dirs_def intro!: ascii_valid_utf8) (code_simp+)

lemma scan_entries_inv:
  assumes "searched F root dir depth" "fs_read_dir F dir = Some entries" "Some ` set es \<subseteq> set entries"
    "search_inv F root candidates s"
  shows "case scan_entries F candidates dir depth es s of
      Inl found \<Rightarrow> (\<forall>p\<in>set found. found_file F root candidates p) \<and> length found \<le> max_search_matches
    | Inr s' \<Rightarrow> search_inv F root candidates s'"
  using assms(3,4)
proof (induction es arbitrary: s)
  case (Cons e es)
  obtain queue visited matches where s: "s = (queue, visited, matches)" by (cases s)
  have e: "Some e \<in> set entries" and es: "Some ` set es \<subseteq> set entries" using Cons.prems(1) by auto
  have inv: "(\<forall>(dir, depth)\<in>set queue. searched F root dir depth)"
    "(\<forall>p\<in>set matches. found_file F root candidates p)" "length matches < max_search_matches"
    using Cons.prems(2) by (simp_all add: s search_inv_def)
  show ?case
  proof (cases "max_search_entries < visited + 1")
    case True
    then show ?thesis using inv by (simp add: s)
  next
    case False
    show ?thesis
    proof (cases "de_is_dir e")
      case None
      then show ?thesis using False Cons.IH[OF es] inv by (simp add: s search_inv_def)
    next
      case (Some d)
      show ?thesis
      proof (cases d)
        case True
        let ?q = "if depth < max_search_depth \<and> \<not> (valid_utf8 (de_name e) \<and> de_name e \<in> set skipped_dirs)
             then queue @ [(path_join dir (de_name e), depth + 1)] else queue"
        have "search_inv F root candidates (?q, visited + 1, matches)"
          using inv searched.below[OF assms(1,2) e] Some True skipped_valid by (auto simp: search_inv_def)
        then show ?thesis using Cons.IH[OF es] Some True False by (simp add: s del: One_nat_def)
      next
        case regular: False
        let ?p = "path_join dir (de_name e)"
        show ?thesis
        proof (cases "valid_utf8 (de_name e) \<and> de_name e \<in> set candidates \<and> fs_is_file F ?p")
          case True
          then have "found_file F root candidates (lexically_normalize ?p)"
            unfolding found_file_def using assms(1) by blast
          then show ?thesis using True False regular Some inv Cons.IH[OF es]
            by (auto simp: s search_inv_def Let_def)
        next
          case no: False
          then show ?thesis using False regular Some inv Cons.IH[OF es]
            by (auto simp: s search_inv_def Let_def)
        qed
      qed
    qed
  qed
qed simp

lemma search_dirs_found:
  "search_inv F root candidates s \<Longrightarrow>
     (\<forall>p\<in>set (search_dirs F candidates s). found_file F root candidates p)
     \<and> length (search_dirs F candidates s) \<le> max_search_matches"
proof (induction F candidates s rule: search_dirs.induct)
  case (1 F candidates visited matches)
  then show ?case by (simp add: search_inv_def)
next
  case (2 F candidates dir depth queue visited matches)
  then have dir: "searched F root dir depth" and inv: "search_inv F root candidates (queue, visited, matches)"
    by (auto simp: search_inv_def)
  show ?case
  proof (cases "fs_read_dir F dir")
    case None
    then show ?thesis using "2.IH"(1) inv by simp
  next
    case (Some entries)
    let ?es = "List.map_filter (\<lambda>e. e) entries"
    have "Some ` set ?es \<subseteq> set entries" by (auto simp: List.map_filter_def)
    from scan_entries_inv[OF dir Some this inv] show ?thesis
      using "2.IH"(2)[OF Some] Some
      by (cases "scan_entries F candidates dir depth ?es (queue, visited, matches)") auto
  qed
qed

lemma find_by_basename_found:
  "(\<forall>p\<in>set (find_by_basename F root candidates). found_file F root candidates p)
     \<and> length (find_by_basename F root candidates) \<le> max_search_matches"
  unfolding find_by_basename_def
  by (rule search_dirs_found) (simp add: search_inv_def searched.root max_search_matches_def)

text \<open>A mention names one file directly or at most eight by search, and every one of them exists.\<close>

lemma resolve_body_bounded: "length (resolve_body F A cwd body) \<le> max_search_matches"
  using find_by_basename_found
  by (auto simp: resolve_body_def Let_def max_search_matches_def split: option.split)

lemma resolve_body_direct: "resolve_file F cwd (strip_file_scheme body) = Some p \<Longrightarrow> resolve_body F A cwd body = [p]"
  by (simp add: resolve_body_def Let_def)

text \<open>With the editor's scheme in front, the files of the shared resolver are found as well.\<close>

lemma prompt_mentions_cover:
  assumes "mention_at None (utf8_chars prompt) b" "resolve_file F cwd (strip_file_scheme b) = Some p"
  shows "p \<in> set (map fst (resolve_prompt_mentions F A prompt cwd n))"
proof -
  have "b \<in> set (extract_mentions prompt)" "p \<in> set (resolve_body F A cwd b)"
    using assms by (simp_all add: extract_mentions_exact resolve_body_direct)
  then have "p \<in> set (concat (map (resolve_body F A cwd) (extract_mentions prompt)))"
    unfolding set_concat set_map by blast
  then show ?thesis by (simp add: resolve_prompt_mentions_def comp_def distinct_files)
qed

end
