(* ===== verification/Vscode.thy ===== *)
theory Vscode
  imports Hook_Adapter Mention_Search
begin

text \<open>
  The VS Code adapter (\<open>crates/hooks/vscode/src/{types,hooks,response,lib,event}.rs\<close>): prompts, with
  the files they mention, tool use and tool output are enforced; an escalated tool call asks the
  user. Response builders no handler uses are left out.
\<close>

section \<open>Responses\<close>

record vs_response =
  vsr_continue_execution :: "bool option"
  vsr_stop_reason :: "string option"
  vsr_system_message :: "string option"
  vsr_decision :: "string option"
  vsr_reason :: "string option"
  vsr_hook_specific_output :: "json option"

definition vs_allow :: vs_response where
  "vs_allow = \<lparr>vsr_continue_execution = None, vsr_stop_reason = None, vsr_system_message = None,
     vsr_decision = None, vsr_reason = None, vsr_hook_specific_output = None\<rparr>"

definition vs_is_deny :: "vs_response \<Rightarrow> bool" where
  "vs_is_deny r \<longleftrightarrow>
     vsr_continue_execution r = Some False \<or> vsr_decision r = Some ''block''
     \<or> (case vsr_hook_specific_output r of
          None \<Rightarrow> False
        | Some out \<Rightarrow> Option.bind (jget ''permissionDecision'' out) as_str = Some ''deny''
            \<or> Option.bind (jget ''decision'' out) as_str = Some ''block'')"

definition vs_session_start_context :: "string \<Rightarrow> vs_response" where
  "vs_session_start_context m = vs_allow\<lparr>vsr_hook_specific_output := Some (JObj
     [(''hookEventName'', JStr ''SessionStart''), (''additionalContext'', JStr m)])\<rparr>"

definition vs_user_prompt_deny :: "string \<Rightarrow> vs_response" where
  "vs_user_prompt_deny reason =
     vs_allow\<lparr>vsr_continue_execution := Some False, vsr_stop_reason := Some reason\<rparr>"

definition vs_pre_tool :: "string \<Rightarrow> string \<Rightarrow> vs_response" where
  "vs_pre_tool permission reason = vs_allow\<lparr>vsr_hook_specific_output := Some (JObj
     [(''hookEventName'', JStr ''PreToolUse''), (''permissionDecision'', JStr permission),
      (''permissionDecisionReason'', JStr reason)])\<rparr>"

definition vs_pre_tool_deny :: "string \<Rightarrow> vs_response" where "vs_pre_tool_deny = vs_pre_tool ''deny''"
definition vs_pre_tool_ask :: "string \<Rightarrow> vs_response" where "vs_pre_tool_ask = vs_pre_tool ''ask''"

definition vs_post_tool_block :: "string \<Rightarrow> vs_response" where
  "vs_post_tool_block reason =
     vs_allow\<lparr>vsr_decision := Some ''block'', vsr_reason := Some reason\<rparr>"

lemma vs_is_deny_simps [simp]:
  "\<not> vs_is_deny vs_allow" "\<not> vs_is_deny (vs_session_start_context m)"
  "vs_is_deny (vs_user_prompt_deny m)" "vs_is_deny (vs_pre_tool_deny m)"
  "\<not> vs_is_deny (vs_pre_tool_ask m)" "vs_is_deny (vs_post_tool_block m)"
  by (simp_all add: vs_is_deny_def vs_allow_def vs_session_start_context_def vs_user_prompt_deny_def
      vs_pre_tool_def vs_pre_tool_deny_def vs_pre_tool_ask_def vs_post_tool_block_def)

definition vs_json :: "vs_response \<Rightarrow> json" where
  "vs_json r = JObj
     (opt_field ''continue'' (map_option JBool (vsr_continue_execution r))
      @ opt_field ''stopReason'' (map_option JStr (vsr_stop_reason r))
      @ opt_field ''systemMessage'' (map_option JStr (vsr_system_message r))
      @ opt_field ''decision'' (map_option JStr (vsr_decision r))
      @ opt_field ''reason'' (map_option JStr (vsr_reason r))
      @ opt_field ''hookSpecificOutput'' (vsr_hook_specific_output r))"

text \<open>A response leaves the call to the user.\<close>

definition vs_asks_user :: "vs_response \<Rightarrow> bool" where
  "vs_asks_user r \<longleftrightarrow>
     Option.bind (Option.bind (vsr_hook_specific_output r) (jget ''permissionDecision'')) as_str = Some ''ask''"

lemma vs_asks_user_simps [simp]: "\<not> vs_asks_user vs_allow" "vs_asks_user (vs_pre_tool_ask m)"
  by (simp_all add: vs_asks_user_def vs_allow_def vs_pre_tool_ask_def vs_pre_tool_def)

section \<open>Tools\<close>

definition vs_shell_tools :: "string list" where
  "vs_shell_tools = [''runinterminal'', ''runterminalcommand'', ''terminal'']"

definition vs_edit_tools :: "string list" where
  "vs_edit_tools =
     [''inserteditintofile'', ''replacestringinfile'', ''editnotebookfile'', ''editfiles'', ''editfile'']"

definition vs_file_tools :: "string list" where
  "vs_file_tools =
     [''readfile'', ''readfiles'', ''createfile'', ''writefile'', ''inserteditintofile'',
      ''replacestringinfile'', ''applypatch'', ''editnotebookfile'', ''editfiles'', ''editfile'',
      ''deletefile'']"

definition vs_web_tools :: "string list" where
  "vs_web_tools = [''fetchwebpage'', ''webfetch'', ''fetch'']"

definition vs_first_of :: "string \<Rightarrow> json \<Rightarrow> string option" where
  "vs_first_of key args =
     Option.bind (Option.bind (jget key args) as_array)
       (\<lambda>items. case items of [] \<Rightarrow> None | v # _ \<Rightarrow> as_str v)"

definition vs_file_op ::
  "string \<Rightarrow> file_op_type \<Rightarrow> string \<Rightarrow> string option \<Rightarrow> string option \<Rightarrow> action" where
  "vs_file_op call_id k path content old =
     FileOperation \<lparr>fo_call_id = call_id, fo_operation = k, fo_path = path, fo_content = content,
       fo_old_content = old\<rparr>"

definition vs_pre_action :: "string \<Rightarrow> string \<Rightarrow> string \<Rightarrow> json \<Rightarrow> action" where
  "vs_pre_action tool_name call_id cwd args =
     (let name = normalize_tool_name tool_name in
      if name \<in> set vs_shell_tools then
        ShellCommand \<lparr>shc_call_id = call_id,
          shc_command = unwrap_or (string_arg args [''command'', ''commandLine'']) [],
          shc_working_dir = Some cwd\<rparr>
      else if name \<in> set vs_edit_tools then
        vs_file_op call_id OpEdit
          (unwrap_or (opt_else (string_arg args [''filePath'', ''file_path'', ''path''])
             (vs_first_of ''files'' args)) [])
          (string_arg args [''newString'', ''newStr'', ''new_str'', ''newContent'', ''content'', ''code''])
          (string_arg args [''oldString'', ''oldStr'', ''old_str'', ''oldContent'', ''old_content''])
      else if name = ''applypatch'' then
        vs_file_op call_id OpEdit (file_path_arg args) (string_arg args [''input'', ''patch'', ''content''])
          None
      else if name = ''createfile'' \<or> name = ''writefile'' then
        vs_file_op call_id OpWrite (file_path_arg args) (string_arg args [''content'', ''code'']) None
      else if name = ''readfile'' \<or> name = ''readfiles'' then
        vs_file_op call_id OpRead (file_path_arg args) None None
      else if name = ''deletefile'' then
        vs_file_op call_id OpDelete (file_path_arg args) None None
      else if name \<in> set vs_web_tools then
        WebFetch \<lparr>wf_call_id = call_id,
          wf_url = unwrap_or (opt_else (string_arg args [''url'']) (vs_first_of ''urls'' args)) [],
          wf_prompt = unwrap_or (string_arg args [''query'', ''prompt'']) []\<rparr>
      else ToolCall \<lparr>tc_call_id = call_id, tc_tool = tool_name, tc_arguments = args\<rparr>)"

section \<open>Events\<close>

text \<open>Of the common input the handlers read the session and the directory.\<close>

record vs_common =
  vsc_cwd :: string
  vsc_session_id :: "string option"

datatype vs_session_source = VsNew | VsStartup | VsResume | VsClear | VsUnknown

text \<open>How \<open>Debug\<close> prints it.\<close>

fun vs_source_debug :: "vs_session_source \<Rightarrow> string" where
  "vs_source_debug VsNew = ''New''"
| "vs_source_debug VsStartup = ''Startup''"
| "vs_source_debug VsResume = ''Resume''"
| "vs_source_debug VsClear = ''Clear''"
| "vs_source_debug VsUnknown = ''Unknown''"

record vs_session_start =
  vss_common :: vs_common
  vss_source :: vs_session_source

record vs_user_prompt_submit =
  vsp_common :: vs_common
  vsp_prompt :: string

record vs_pre_tool_use =
  vst_common :: vs_common
  vst_tool_name :: string
  vst_tool_input :: json
  vst_tool_use_id :: string

record vs_post_tool_use =
  vso_common :: vs_common
  vso_tool_name :: string
  vso_tool_input :: json
  vso_tool_response :: json
  vso_tool_use_id :: string

record vs_stop =
  vsk_common :: vs_common
  vsk_stop_hook_active :: bool

definition vs_validate_tool :: "string \<Rightarrow> hook_error + unit" where
  "vs_validate_tool tool_name =
     (if trim tool_name = [] then Inl (HeMessage ''tool_name cannot be empty'') else Inr ())"

definition vs_shell_output :: "string \<Rightarrow> json \<Rightarrow> shell_command_output" where
  "vs_shell_output call_id response =
     \<lparr>sco_call_id = call_id,
      sco_exit_code = (case Option.bind (opt_else (jget ''exitCode'' response) (jget ''exit_code'' response))
        as_i64 of Some c \<Rightarrow> as_i32 c | None \<Rightarrow> 0),
      sco_stdout = unwrap_or (string_arg response [''output'', ''stdout'']) [], sco_stderr = []\<rparr>"

definition vs_file_result :: "string \<Rightarrow> json \<Rightarrow> json \<Rightarrow> file_operation_result" where
  "vs_file_result call_id input response =
     \<lparr>fr_call_id = call_id, fr_success = True, fr_path = nonempty (file_path_arg input),
      fr_content = opt_else (string_arg response [''content'', ''text'', ''output''])
        (Option.bind (Option.bind (jget ''file'' response) (jget ''content'')) as_str),
      fr_error = None\<rparr>"

definition vs_web_output :: "string \<Rightarrow> json \<Rightarrow> json \<Rightarrow> web_fetch_output" where
  "vs_web_output call_id input response =
     \<lparr>wfo_call_id = call_id, wfo_url = unwrap_or (web_url_arg input) [],
      wfo_code = unwrap_or (Option.bind (Option.bind
        (opt_else (jget ''statusCode'' response) (jget ''status'' response)) as_i64) i32_try_from) 200,
      wfo_result = unwrap_or (string_arg response [''content'', ''text'', ''output'', ''body'']) []\<rparr>"

definition vs_post_observation :: "vs_post_tool_use \<Rightarrow> observation" where
  "vs_post_observation e =
     (let name = normalize_tool_name (vso_tool_name e); call_id = vso_tool_use_id e in
      if name \<in> set vs_shell_tools then ShellCommandOutput (vs_shell_output call_id (vso_tool_response e))
      else if name \<in> set vs_file_tools then
        FileOperationResult (vs_file_result call_id (vso_tool_input e) (vso_tool_response e))
      else if name \<in> set vs_web_tools then
        WebFetchOutput (vs_web_output call_id (vso_tool_input e) (vso_tool_response e))
      else ToolOutput (tool_output_success call_id (vso_tool_response e)))"

section \<open>Handlers\<close>

text \<open>
  \<open>vs_fresh i\<close> names the \<open>i\<close>-th event of the process; \<open>vs_hash\<close> is the sixteen hex digits of the
  standard library's hash of a path.
\<close>

record vs_env =
  vs_agent_id :: string
  vs_fresh :: "nat \<Rightarrow> fresh"
  vs_files :: file_system
  vs_alphanumeric :: "string \<Rightarrow> bool"
  vs_hash :: "string \<Rightarrow> string"

definition vs_agent :: "vs_env \<Rightarrow> agent" where
  "vs_agent V = \<lparr>ag_id = vs_agent_id V, ag_provider = ''microsoft'', ag_platform = ''vscode''\<rparr>"

definition vs_session_key :: "vs_common \<Rightarrow> string" where
  "vs_session_key c =
     (case vsc_session_id c of Some s \<Rightarrow> if s = [] then vsc_cwd c else s | None \<Rightarrow> vsc_cwd c)"

definition vs_event :: "vs_env \<Rightarrow> nat \<Rightarrow> vs_common \<Rightarrow> trajectory_event \<Rightarrow> event" where
  "vs_event V i c te = event_new (vs_fresh V i) (vs_agent V) (vs_session_key c) te"

definition vs_start_event :: "vs_env \<Rightarrow> vs_session_start \<Rightarrow> event" where
  "vs_start_event V e = vs_event V 0 (vss_common e) (Control (Started (started_new (vs_agent V))))"

definition vs_start_response :: "vs_session_start \<Rightarrow> vs_response" where
  "vs_start_response e = vs_session_start_context (''Session '' @ vs_session_key (vss_common e)
     @ '' started (source: '' @ vs_source_debug (vss_source e) @ '')'')"

definition max_mention_read_bytes :: nat where "max_mention_read_bytes = 15 * 1024 * 1024"

definition at_mention_call_id :: "(string \<Rightarrow> string) \<Rightarrow> string \<Rightarrow> string \<Rightarrow> string" where
  "at_mention_call_id hash session path = ''atmention-'' @ session @ ''-'' @ hash path"

definition vs_mention_event :: "vs_env \<Rightarrow> nat \<Rightarrow> vs_user_prompt_submit \<Rightarrow> string \<times> string option \<Rightarrow> event"
  where
  "vs_mention_event V i e m =
     (case m of (path, content) \<Rightarrow>
        vs_event V i (vsp_common e) (Action (FileOperation
          \<lparr>fo_call_id = at_mention_call_id (vs_hash V) (vs_session_key (vsp_common e)) path,
           fo_operation = OpRead, fo_path = from_utf8_lossy path, fo_content = content,
           fo_old_content = None\<rparr>)))"

text \<open>A mentioned file that is not allowed blocks the prompt.\<close>

definition mention_verdict :: "(string \<Rightarrow> 'r) \<Rightarrow> string \<Rightarrow> adjudicated \<Rightarrow> 'r option" where
  "mention_verdict block path a =
     (let file = ''@-mentioned file '' @ quoted (from_utf8_lossy path) in
      case adj_decision a of
        Allow \<Rightarrow> None
      | Deny \<Rightarrow> Some (block (deny_message a (file @ '' blocked by policy'')))
      | Escalate \<Rightarrow> Some (block (deny_message a
          (file @ '' requires approval that cannot be granted at prompt submit''))))"

lemma mention_verdict_None [simp]: "mention_verdict block path a = None \<longleftrightarrow> adj_decision a = Allow"
  by (simp add: mention_verdict_def Let_def split: decision.split)

lemma mention_verdict_Some: "mention_verdict block path a = Some r \<Longrightarrow> \<exists>m. r = block m"
  by (auto simp: mention_verdict_def Let_def split: decision.splits)

definition vs_mentions :: "vs_env \<Rightarrow> vs_user_prompt_submit \<Rightarrow> (string \<times> string option) list" where
  "vs_mentions V e =
     resolve_prompt_mentions (vs_files V) (vs_alphanumeric V) (vsp_prompt e) (vsc_cwd (vsp_common e))
       max_mention_read_bytes"

definition vs_mention_asks ::
  "vs_env \<Rightarrow> vs_user_prompt_submit \<Rightarrow> (event \<times> (adjudicated \<Rightarrow> vs_response option)) list" where
  "vs_mention_asks V e =
     map (\<lambda>(i, m). (vs_mention_event V i e m, mention_verdict vs_user_prompt_deny (fst m)))
       (enumerate 0 (vs_mentions V e))"

definition vs_prompt_event :: "vs_env \<Rightarrow> vs_user_prompt_submit \<Rightarrow> event" where
  "vs_prompt_event V e =
     with_actor (vs_event V (length (vs_mentions V e)) (vsp_common e)
       (Observation (Prompt (prompt_user (vsp_prompt e))))) (actor_human (vs_agent_id V))"

definition vs_prompt_verdict :: "adjudicated \<Rightarrow> vs_response" where
  "vs_prompt_verdict a =
     (case adj_decision a of
        Allow \<Rightarrow> vs_allow
      | Deny \<Rightarrow> vs_user_prompt_deny (deny_message a ''Prompt blocked by policy'')
      | Escalate \<Rightarrow> vs_user_prompt_deny (deny_message a ''Prompt escalated for review''))"

definition vs_handle_user_prompt_submit ::
  "vs_env \<Rightarrow> 'w client \<Rightarrow> vs_user_prompt_submit \<Rightarrow> (vs_response, 'w) handler" where
  "vs_handle_user_prompt_submit V C e =
     and_next (ask_in_turn C (vs_mention_asks V e))
       (\<lambda>blocked. case blocked of
          Some block \<Rightarrow> answer (Inr block)
        | None \<Rightarrow> enforce C (vs_prompt_event V e) vs_prompt_verdict)"

definition vs_pre_event :: "vs_env \<Rightarrow> vs_pre_tool_use \<Rightarrow> event" where
  "vs_pre_event V e = vs_event V 0 (vst_common e) (Action
     (vs_pre_action (vst_tool_name e) (vst_tool_use_id e) (vsc_cwd (vst_common e)) (vst_tool_input e)))"

definition vs_pre_verdict :: "string \<Rightarrow> adjudicated \<Rightarrow> vs_response" where
  "vs_pre_verdict tool_name a =
     (case adj_decision a of
        Allow \<Rightarrow> vs_allow
      | Deny \<Rightarrow> vs_pre_tool_deny (deny_message a
          (''Tool '' @ quoted tool_name @ '' execution denied by policy''))
      | Escalate \<Rightarrow> vs_pre_tool_ask (deny_message a
          (''Tool '' @ quoted tool_name @ '' execution requires approval'')))"

definition vs_post_event :: "vs_env \<Rightarrow> vs_post_tool_use \<Rightarrow> event" where
  "vs_post_event V e = vs_event V 0 (vso_common e) (Observation (vs_post_observation e))"

definition vs_post_verdict :: "adjudicated \<Rightarrow> vs_response" where
  "vs_post_verdict a =
     (if adj_decision a = Allow then vs_allow
      else vs_post_tool_block (deny_message a ''Tool output blocked by policy''))"

section \<open>The command\<close>

datatype vs_command =
    VsInstall bool | VsUninstall bool | VsSessionStart | VsUserPromptSubmit | VsPreToolUse
  | VsPostToolUse | VsPreCompact | VsSubagentStart | VsSubagentStop | VsStop

definition vs_is_adjudication :: "vs_command \<Rightarrow> bool" where
  "vs_is_adjudication c \<longleftrightarrow> c \<in> {VsPreToolUse, VsUserPromptSubmit, VsPostToolUse}"

definition vs_degraded_response :: "vs_command \<Rightarrow> hook_error \<Rightarrow> vs_response" where
  "vs_degraded_response c error =
     (let reason = fail_closed_reason error in
      case c of
        VsSessionStart \<Rightarrow> vs_session_start_context (fallback_context error)
      | VsPreToolUse \<Rightarrow> vs_pre_tool_deny reason
      | VsUserPromptSubmit \<Rightarrow> vs_user_prompt_deny reason
      | VsPostToolUse \<Rightarrow> vs_post_tool_block reason
      | _ \<Rightarrow> vs_allow)"

text \<open>The events the installer registers, and the subcommand of each.\<close>

definition vs_hook_events :: "(string \<times> string) list" where
  "vs_hook_events =
     [(''SessionStart'', ''session-start''), (''UserPromptSubmit'', ''user-prompt-submit''),
      (''PreToolUse'', ''pre-tool-use''), (''PostToolUse'', ''post-tool-use''),
      (''PreCompact'', ''pre-compact''), (''SubagentStart'', ''subagent-start''),
      (''SubagentStop'', ''subagent-stop''), (''Stop'', ''stop'')]"

record vs_serde =
  vssd_session_start :: "json \<Rightarrow> string + vs_session_start"
  vssd_user_prompt_submit :: "json \<Rightarrow> string + vs_user_prompt_submit"
  vssd_pre_tool_use :: "json \<Rightarrow> string + vs_pre_tool_use"
  vssd_post_tool_use :: "json \<Rightarrow> string + vs_post_tool_use"
  vssd_pre_compact :: "json \<Rightarrow> string + vs_common"
  vssd_subagent_start :: "json \<Rightarrow> string + vs_common"
  vssd_subagent_stop :: "json \<Rightarrow> string + vs_stop"
  vssd_stop :: "json \<Rightarrow> string + vs_stop"

text \<open>The handlers of a connected hook; \<open>stop_hook_active\<close> changes only what is logged.\<close>

fun vs_handle ::
  "vs_serde \<Rightarrow> vs_env \<Rightarrow> vs_command \<Rightarrow> json \<Rightarrow> 'w client \<Rightarrow> (vs_response, 'w) handler" where
  "vs_handle P V (VsInstall _) raw C = unreachable"
| "vs_handle P V (VsUninstall _) raw C = unreachable"
| "vs_handle P V VsSessionStart raw C =
     parsed (vssd_session_start P raw) no_check
       (\<lambda>e. enforce C (vs_start_event V e) (\<lambda>_. vs_start_response e))"
| "vs_handle P V VsUserPromptSubmit raw C =
     parsed (vssd_user_prompt_submit P raw) no_check (vs_handle_user_prompt_submit V C)"
| "vs_handle P V VsPreToolUse raw C =
     parsed (vssd_pre_tool_use P raw) (\<lambda>e. vs_validate_tool (vst_tool_name e))
       (\<lambda>e. enforce C (vs_pre_event V e) (vs_pre_verdict (vst_tool_name e)))"
| "vs_handle P V VsPostToolUse raw C =
     parsed (vssd_post_tool_use P raw) (\<lambda>e. vs_validate_tool (vso_tool_name e))
       (\<lambda>e. enforce C (vs_post_event V e) vs_post_verdict)"
| "vs_handle P V VsPreCompact raw C =
     parsed (vssd_pre_compact P raw) no_check (\<lambda>_. answer (Inr vs_allow))"
| "vs_handle P V VsSubagentStart raw C =
     parsed (vssd_subagent_start P raw) no_check (\<lambda>_. answer (Inr vs_allow))"
| "vs_handle P V VsSubagentStop raw C =
     parsed (vssd_subagent_stop P raw) no_check (\<lambda>_. answer (Inr vs_allow))"
| "vs_handle P V VsStop raw C = parsed (vssd_stop P raw) no_check (\<lambda>_. answer (Inr vs_allow))"

text \<open>The connection is made inside the dispatch.\<close>

definition vs_dispatch ::
  "vs_serde \<Rightarrow> vs_env \<Rightarrow> (harness_client_error + 'w client) future \<Rightarrow> unit \<Rightarrow> vs_command \<Rightarrow> json
     \<Rightarrow> (vs_response, 'w) handler" where
  "vs_dispatch P V conn h c raw = connecting conn (vs_handle P V c raw)"

definition vs_run ::
  "string option \<Rightarrow> vs_serde \<Rightarrow> vs_env \<Rightarrow> vs_command \<Rightarrow> (hook_error + json) future
     \<Rightarrow> (harness_client_error + 'w client) future \<Rightarrow> 'w \<Rightarrow> json option" where
  "vs_run env P V c stdin connection w =
     map_option (\<lambda>(_, r). vs_json r)
       (run_hook env c vs_degraded_response (vs_dispatch P V connection) stdin (Ready 0 (Inr ())) w)"

section \<open>The contract\<close>

text \<open>
  What lets a command pass: a prompt when every mentioned file and then the prompt was allowed, a
  tool call when it was allowed or is left to the user, a tool's output when it was allowed.
\<close>

definition vs_told ::
  "vs_serde \<Rightarrow> vs_env \<Rightarrow> 'w client \<Rightarrow> vs_command \<Rightarrow> json \<Rightarrow> vs_response \<Rightarrow> 'w \<Rightarrow> 'w \<Rightarrow> bool" where
  "vs_told P V C c raw r w w' \<longleftrightarrow>
     (if c = VsUserPromptSubmit then
        \<exists>e w1 n a. vssd_user_prompt_submit P raw = Inr e \<and> all_passed C (vs_mention_asks V e) w w1
          \<and> C (vs_prompt_event V e) w1 = (Ready n (Inr a), w') \<and> adj_decision a = Allow
      else if c = VsPreToolUse then
        \<exists>e n a. vssd_pre_tool_use P raw = Inr e \<and> C (vs_pre_event V e) w = (Ready n (Inr a), w')
          \<and> adj_decision a = (if vs_asks_user r then Escalate else Allow)
      else \<exists>e n a. vssd_post_tool_use P raw = Inr e \<and> C (vs_post_event V e) w = (Ready n (Inr a), w')
          \<and> adj_decision a = Allow)"

lemma vs_verdicts:
  "\<not> vs_is_deny (vs_prompt_verdict a) \<Longrightarrow> adj_decision a = Allow"
  "\<not> vs_is_deny (vs_pre_verdict t a) \<Longrightarrow>
     adj_decision a = (if vs_asks_user (vs_pre_verdict t a) then Escalate else Allow)"
  "\<not> vs_is_deny (vs_post_verdict a) \<Longrightarrow> adj_decision a = Allow"
  by (cases "adj_decision a"; simp add: vs_prompt_verdict_def vs_pre_verdict_def vs_post_verdict_def)+

lemma vs_mention_asks_block:
  "(ev, f) \<in> set (vs_mention_asks V e) \<Longrightarrow> f a = Some r \<Longrightarrow> vs_is_deny r"
  by (auto simp: vs_mention_asks_def dest: mention_verdict_Some)

lemma vs_prompt_told:
  assumes "vs_handle_user_prompt_submit V C e w = (Ready k (Inr r), w')" "\<not> vs_is_deny r"
  shows "\<exists>w1 n a. all_passed C (vs_mention_asks V e) w w1
    \<and> C (vs_prompt_event V e) w1 = (Ready n (Inr a), w') \<and> adj_decision a = Allow"
proof -
  from and_next_Inr[OF assms(1)[unfolded vs_handle_user_prompt_submit_def]] obtain n x w1 m where
    x: "ask_in_turn C (vs_mention_asks V e) w = (Ready n (Inr x), w1)"
    "(case x of Some block \<Rightarrow> answer (Inr block)
      | None \<Rightarrow> enforce C (vs_prompt_event V e) vs_prompt_verdict) w1 = (Ready m (Inr r), w')" by blast
  show ?thesis
  proof (cases x)
    case None
    then have "enforce C (vs_prompt_event V e) vs_prompt_verdict w1 = (Ready m (Inr r), w')"
      using x(2) by simp
    from enforce_Inr[OF this] obtain a where
      "C (vs_prompt_event V e) w1 = (Ready m (Inr a), w')" "r = vs_prompt_verdict a" by blast
    moreover from this(2) assms(2) have "adj_decision a = Allow" using vs_verdicts(1)[of a] by simp
    moreover have "all_passed C (vs_mention_asks V e) w w1" by (rule ask_in_turn_None[OF x(1)[unfolded None]])
    ultimately show ?thesis by blast
  next
    case (Some block)
    then have "block = r" using x(2) by (simp add: answer_Inr)
    then obtain ev f a where "(ev, f) \<in> set (vs_mention_asks V e)" "f a = Some r"
      using ask_in_turn_Some[OF x(1)[unfolded Some]] by blast
    then have "vs_is_deny r" by (rule vs_mention_asks_block)
    with assms(2) show ?thesis ..
  qed
qed

interpretation vs_matrix: fail_closed_exactly vs_is_adjudication vs_degraded_response vs_is_deny
  by unfold_locales (auto simp: vs_degraded_response_def vs_is_adjudication_def Let_def split: vs_command.splits)

interpretation vs: justified vs_is_adjudication vs_degraded_response vs_is_deny
  "vs_dispatch P V conn" "\<lambda>_ c v r w w'. \<exists>n C. conn = Ready n (Inr C) \<and> vs_told P V C c v r w w'"
proof unfold_locales
  fix c r h v w k w'
  assume c: "vs_is_adjudication c" and r: "\<not> vs_is_deny r"
    and d: "vs_dispatch P V conn h c v w = (Ready k (Inr r), w')"
  from connecting_Inr[OF d[unfolded vs_dispatch_def]] obtain n C m where
    h: "conn = Ready n (Inr C)" "vs_handle P V c v C w = (Ready m (Inr r), w')" by blast
  consider "c = VsUserPromptSubmit" | "c = VsPreToolUse" | "c = VsPostToolUse"
    using c by (auto simp: vs_is_adjudication_def)
  then have "vs_told P V C c v r w w'"
  proof cases
    case 1
    from parsed_Inr[OF h(2)[unfolded 1 vs_handle.simps]] vs_prompt_told[OF _ r] 1 show ?thesis
      unfolding vs_told_def by fastforce
  next
    case 2
    from parsed_Inr[OF h(2)[unfolded 2 vs_handle.simps]] obtain e where
      "vssd_pre_tool_use P v = Inr e"
      "enforce C (vs_pre_event V e) (vs_pre_verdict (vst_tool_name e)) w = (Ready m (Inr r), w')" by blast
    with 2 r show ?thesis using vs_verdicts(2) by (auto simp: vs_told_def dest!: enforce_Inr)
  next
    case 3
    from parsed_Inr[OF h(2)[unfolded 3 vs_handle.simps]] obtain e where
      "vssd_post_tool_use P v = Inr e"
      "enforce C (vs_post_event V e) vs_post_verdict w = (Ready m (Inr r), w')" by blast
    with 3 r show ?thesis using vs_verdicts(3) by (auto simp: vs_told_def dest!: enforce_Inr)
  qed
  with h(1) show "\<exists>n C. conn = Ready n (Inr C) \<and> vs_told P V C c v r w w'" by blast
qed

text \<open>What stops the agent is visible in the output.\<close>

lemma map_of_opt_field:
  "map_of (opt_field k v) j = (if j = k then v else None)"
  by (cases v) (simp_all add: opt_field_def)

lemma says_str: "Option.bind v as_str = Some s \<longleftrightarrow> v = Some (JStr s)"
  by (cases v; cases "the v") auto

lemma vs_json_fields:
  "jget ''continue'' (vs_json r) = map_option JBool (vsr_continue_execution r)"
  "jget ''decision'' (vs_json r) = map_option JStr (vsr_decision r)"
  "jget ''hookSpecificOutput'' (vs_json r) = vsr_hook_specific_output r"
  by (simp_all add: vs_json_def map_of_opt_field map_add_def split: option.split)

lemma vs_json_deny:
  "vs_is_deny r \<longleftrightarrow> jget ''continue'' (vs_json r) = Some (JBool False)
     \<or> json_says (vs_json r) [''decision''] ''block''
     \<or> json_says (vs_json r) [''hookSpecificOutput'', ''permissionDecision''] ''deny''
     \<or> json_says (vs_json r) [''hookSpecificOutput'', ''decision''] ''block''"
  unfolding vs_is_deny_def json_says_def foldl.simps Option.bind.bind_lunit vs_json_fields says_str
  by (auto split: option.split)

lemma vs_run_told:
  assumes "vs_is_adjudication c" "vs_run env P V c stdin (Ready m (Inr C)) w = Some out"
    "jget ''continue'' out \<noteq> Some (JBool False)" "\<not> json_says out [''decision''] ''block''"
    "\<not> json_says out [''hookSpecificOutput'', ''permissionDecision''] ''deny''"
    "\<not> json_says out [''hookSpecificOutput'', ''decision''] ''block''"
  shows "\<exists>n raw r w'. stdin = Ready n (Inr raw) \<and> out = vs_json r \<and> vs_told P V C c raw r w w'"
proof -
  obtain t r where r: "run_hook env c vs_degraded_response (vs_dispatch P V (Ready m (Inr C))) stdin
      (Ready 0 (Inr ())) w = Some (t, r)" "out = vs_json r"
    using assms(2) by (auto simp: vs_run_def)
  then have "\<not> vs_is_deny r" using assms(3-6) by (simp add: vs_json_deny)
  from vs.run_justified[OF assms(1) this r(1)] r(2) show ?thesis by auto
qed

text \<open>The two halves of a call are of the same kind and carry the same identifier.\<close>

lemma vs_file_tools_iff:
  "n \<in> set vs_file_tools \<longleftrightarrow> n \<in> set vs_edit_tools \<or> n = ''applypatch''
     \<or> (n = ''createfile'' \<or> n = ''writefile'') \<or> (n = ''readfile'' \<or> n = ''readfiles'') \<or> n = ''deletefile''"
  by (simp only: vs_file_tools_def vs_edit_tools_def list.set insert_iff empty_iff simp_thms disj_ac)

lemma vs_halves_agree:
  assumes "vso_tool_name e' = tool" "vso_tool_use_id e' = i"
  shows "case (vs_pre_action tool i cwd args, vs_post_observation e') of
      (ShellCommand c, ShellCommandOutput r) \<Rightarrow> sco_call_id r = shc_call_id c
    | (FileOperation c, FileOperationResult r) \<Rightarrow> fr_call_id r = fo_call_id c
    | (WebFetch c, WebFetchOutput r) \<Rightarrow> wfo_call_id r = wf_call_id c
    | (ToolCall c, ToolOutput r) \<Rightarrow> to_call_id r = tc_call_id c
    | _ \<Rightarrow> False"
proof -
  let ?n = "normalize_tool_name tool"
  consider "?n \<in> set vs_shell_tools" | "?n \<notin> set vs_shell_tools" "?n \<in> set vs_file_tools"
    | "?n \<notin> set vs_shell_tools" "?n \<notin> set vs_file_tools" "?n \<in> set vs_web_tools"
    | "?n \<notin> set vs_shell_tools" "?n \<notin> set vs_file_tools" "?n \<notin> set vs_web_tools" by blast
  then show ?thesis
  proof cases
    case 2
    then have "\<exists>c. vs_pre_action tool i cwd args = FileOperation c \<and> fo_call_id c = i"
      unfolding vs_file_tools_iff by (elim disjE) (simp_all add: vs_pre_action_def vs_file_op_def Let_def)
    then show ?thesis using 2 assms by (auto simp: vs_post_observation_def vs_file_result_def Let_def)
  qed (use assms in \<open>simp_all add: vs_pre_action_def vs_post_observation_def vs_file_op_def Let_def
      vs_shell_output_def vs_web_output_def tool_output_success_def vs_file_tools_iff\<close>)
qed

end
