(* ===== verification/Sample_Adapters.thy ===== *)
theory Sample_Adapters
  imports Sample_Hooks Copilot Antigravity Cursor Vscode
begin

text \<open>
  Concrete processes of the Copilot, Antigravity, Cursor and VS Code hooks over a client that
  always allows, and a VS Code prompt that mentions a file.
\<close>

section \<open>Copilot\<close>

definition sample_cp_event :: cp_tool where
  "sample_cp_event = \<lparr>cpt_common = \<lparr>cpc_cwd = ''/w'', cpc_session_id = Some ''s''\<rparr>,
     cpt_tool_name = ''view'', cpt_tool_args = sample_input\<rparr>"

definition sample_cp_serde :: cp_serde where
  "sample_cp_serde = \<lparr>cpsd_session_start = (\<lambda>_. Inl ''no''), cpsd_session_end = (\<lambda>_. Inl ''no''),
     cpsd_prompt_submitted = (\<lambda>_. Inl ''no''), cpsd_prompt_transformed = (\<lambda>_. Inl ''no''),
     cpsd_tool = (\<lambda>_. Inr sample_cp_event), cpsd_post_tool_use = (\<lambda>_. Inl ''no''),
     cpsd_failure = (\<lambda>_. Inl ''no''), cpsd_stop = (\<lambda>_. Inl ''no''), cpsd_plain = (\<lambda>_. Inl ''no''),
     cpsd_subagent_start = (\<lambda>_. Inl ''no'')\<rparr>"

definition sample_cp_env :: cp_env where
  "sample_cp_env = \<lparr>cp_agent_id = ''a'', cp_fresh = sample_fresh, cp_uuid = ''u'', cp_write = (\<lambda>_. ''{}'')\<rparr>"

lemma sample_cp_run:
  "cp_run None sample_cp_serde sample_cp_env CpPreToolUseCmd (Ready 0 (Inr JNull))
     (Ready 0 (Inr sample_client)) () = Some (cp_json cp_ok)"
proof -
  have "trim ''view'' = ''view''" by code_simp
  then have "cp_dispatch sample_cp_serde sample_cp_env sample_client CpPreToolUseCmd JNull ()
      = (Ready 1 (Inr cp_ok), ())"
    by (simp add: sample_cp_serde_def parsed_def bind_result_def map_err_def cp_validate_tool_def
        enforce_def and_then_def sample_client_def cp_tool_verdict_def adjudicated_allow_def
        adjudicated_new_def sample_cp_event_def)
  then show ?thesis
    using run_hook_at_once[of "cp_dispatch sample_cp_serde sample_cp_env" sample_client
        CpPreToolUseCmd JNull "()" 1 cp_ok "()" cp_degraded_response]
    by (simp add: cp_run_def)
qed

section \<open>Antigravity\<close>

definition sample_ag_event :: ag_pre_tool_use where
  "sample_ag_event = \<lparr>agt_conversation_id = ''s'', agt_name = ''view_file'', agt_args = sample_input\<rparr>"

definition sample_ag_serde :: ag_serde where
  "sample_ag_serde = \<lparr>agsd_pre_tool_use = (\<lambda>_. Inr sample_ag_event),
     agsd_post_tool_use = (\<lambda>_. Inl ''no''), agsd_advisory = (\<lambda>_. Inl ''no'')\<rparr>"

definition sample_ag_env :: ag_env where
  "sample_ag_env = \<lparr>ag_agent_id = ''a'', ag_fresh = sample_fresh, ag_uuid = ''u''\<rparr>"

lemma sample_ag_run:
  "ag_run None sample_ag_serde sample_ag_env AgPreToolUseCmd (Ready 0 (Inr JNull))
     (Ready 0 (Inr sample_client)) () = Ready 1 (Inr (ag_json ag_allow_tool))"
proof -
  have "trim ''s'' = ''s''" "trim ''view_file'' = ''view_file''" by code_simp+
  then have "ag_dispatch sample_ag_serde sample_ag_env sample_client AgPreToolUseCmd JNull ()
      = (Ready 1 (Inr ag_allow_tool), ())"
    by (simp add: sample_ag_serde_def parsed_def bind_result_def map_err_def ag_validate_pre_def
        ag_validate_conversation_def enforce_def and_then_def sample_client_def ag_verdict_def
        adjudicated_allow_def adjudicated_new_def sample_ag_event_def)
  then show ?thesis
    using run_hook_at_once[of "ag_dispatch sample_ag_serde sample_ag_env" sample_client
        AgPreToolUseCmd JNull "()" 1 ag_allow_tool "()" ag_degraded_response]
    by (simp add: ag_run_def)
qed

section \<open>Cursor\<close>

definition sample_cu_event :: cu_before_shell where
  "sample_cu_event = \<lparr>cub_common = \<lparr>cuc_conversation_id = ''s'', cuc_generation_id = ''g''\<rparr>,
     cub_command = ''ls'', cub_cwd = ''/w''\<rparr>"

definition sample_cu_serde :: cu_serde where
  "sample_cu_serde = \<lparr>cusd_common = (\<lambda>_. Inl ''no''), cusd_before_shell = (\<lambda>_. Inr sample_cu_event),
     cusd_after_shell = (\<lambda>_. Inl ''no''), cusd_before_mcp = (\<lambda>_. Inl ''no''),
     cusd_after_mcp = (\<lambda>_. Inl ''no''), cusd_before_read = (\<lambda>_. Inl ''no''),
     cusd_after_edit = (\<lambda>_. Inl ''no''), cusd_prompt = (\<lambda>_. Inl ''no''),
     cusd_agent_response = (\<lambda>_. Inl ''no''), cusd_agent_thought = (\<lambda>_. Inl ''no''),
     cusd_session_end = (\<lambda>_. Inl ''no''), cusd_stop = (\<lambda>_. Inl ''no''),
     cusd_subagent_stop = (\<lambda>_. Inl ''no''), cusd_pre_compact = (\<lambda>_. Inl ''no''),
     cusd_subagent = (\<lambda>_. Inl ''no''), cusd_tab_read = (\<lambda>_. Inl ''no''),
     cusd_tab_edit = (\<lambda>_. Inl ''no''), cusd_workspace = (\<lambda>_. Inl ''no''),
     cusd_pre_tool = (\<lambda>_. Inl ''no''), cusd_post_tool = (\<lambda>_. Inl ''no''),
     cusd_failure = (\<lambda>_. Inl ''no'')\<rparr>"

definition sample_cu_env :: cu_env where
  "sample_cu_env = \<lparr>cu_agent_id = ''a'', cu_fresh = sample_fresh, cu_uuid = ''u'', cu_read = (\<lambda>_. None)\<rparr>"

lemma sample_cu_run:
  "cu_run None sample_cu_serde sample_cu_env CuBeforeShellExecution (Ready 0 (Inr JNull))
     (Ready 0 (Inr sample_client)) () = Ready 1 (Inr (cu_json cu_allow_execution, 0))"
proof -
  have "trim ''ls'' = ''ls''" by code_simp
  then have "cu_dispatch sample_cu_serde sample_cu_env sample_client CuBeforeShellExecution JNull ()
      = (Ready 1 (Inr cu_allow_execution), ())"
    by (simp add: sample_cu_serde_def parsed_def bind_result_def map_err_def cu_not_empty_def
        enforce_def and_then_def sample_client_def cu_shell_verdict_def cu_verdict_def
        adjudicated_allow_def adjudicated_new_def sample_cu_event_def)
  then show ?thesis
    using run_hook_at_once[of "cu_dispatch sample_cu_serde sample_cu_env" sample_client
        CuBeforeShellExecution JNull "()" 1 cu_allow_execution "()" cu_degraded_response]
    by (simp add: cu_run_def cu_responses)
qed

section \<open>A prompt with a mention under VS Code\<close>

definition sample_files :: file_system where
  "sample_files = \<lparr>fs_is_file = (\<lambda>p. p = ''/w/a.txt''),
     fs_bytes = (\<lambda>p. if p = ''/w/a.txt'' then Some ''hi'' else None), fs_read_dir = (\<lambda>_. None)\<rparr>"

definition sample_prompt :: vs_user_prompt_submit where
  "sample_prompt = \<lparr>vsp_common = \<lparr>vsc_cwd = ''/w'', vsc_session_id = Some ''s''\<rparr>, vsp_prompt = ''see @a.txt''\<rparr>"

definition sample_vs_serde :: vs_serde where
  "sample_vs_serde = \<lparr>vssd_session_start = (\<lambda>_. Inl ''no''),
     vssd_user_prompt_submit = (\<lambda>_. Inr sample_prompt), vssd_pre_tool_use = (\<lambda>_. Inl ''no''),
     vssd_post_tool_use = (\<lambda>_. Inl ''no''), vssd_pre_compact = (\<lambda>_. Inl ''no''),
     vssd_subagent_start = (\<lambda>_. Inl ''no''), vssd_subagent_stop = (\<lambda>_. Inl ''no''),
     vssd_stop = (\<lambda>_. Inl ''no'')\<rparr>"

definition sample_vs_env :: vs_env where
  "sample_vs_env = \<lparr>vs_agent_id = ''a'', vs_fresh = (\<lambda>_. sample_fresh), vs_files = sample_files,
     vs_alphanumeric = (\<lambda>_. True), vs_hash = (\<lambda>_. ''0'')\<rparr>"

lemma sample_mention: "extract_mentions ''see @a.txt'' = [''a.txt'']"
  by (simp add: extract_mentions_def at_boundary_def in_mention_def is_boundary_def is_whitespace_def
      is_cont_def Let_def)

lemma sample_resolved: "resolve_file sample_files ''/w'' ''a.txt'' = Some ''/w/a.txt''"
  by code_simp

lemma sample_scheme: "strip_file_scheme ''a.txt'' = ''a.txt''"
  by code_simp

lemma sample_vs_mentions: "map fst (vs_mentions sample_vs_env sample_prompt) = [''/w/a.txt'']"
  by (simp add: vs_mentions_def resolve_prompt_mentions_def sample_prompt_def sample_vs_env_def
      sample_mention resolve_body_def sample_resolved sample_scheme comp_def)

lemma sample_asks_allowed: "ask_in_turn sample_client asks () = (Ready (length asks) (Inr None), ())"
  if "\<forall>(ev, f)\<in>set asks. f adjudicated_allow = None"
  using that
  by (induction asks) (auto simp: and_next_def sample_client_def answer_def enforce_def and_then_def)

lemma sample_vs_run:
  "vs_run None sample_vs_serde sample_vs_env VsUserPromptSubmit (Ready 0 (Inr JNull))
     (Ready 0 (Inr sample_client)) () = Some (vs_json vs_allow)"
proof -
  have allow: "adj_decision adjudicated_allow = Allow"
    by (simp add: adjudicated_allow_def adjudicated_new_def)
  have "\<forall>(ev, f)\<in>set (vs_mention_asks sample_vs_env sample_prompt). f adjudicated_allow = None"
    by (auto simp: vs_mention_asks_def allow)
  from sample_asks_allowed[OF this] have asked:
    "ask_in_turn sample_client (vs_mention_asks sample_vs_env sample_prompt) () = (Ready 1 (Inr None), ())"
    using arg_cong[OF sample_vs_mentions, of length] by (simp add: vs_mention_asks_def)
  have "vs_dispatch sample_vs_serde sample_vs_env (Ready 0 (Inr sample_client)) ()
      VsUserPromptSubmit JNull () = (Ready 2 (Inr vs_allow), ())"
    by (simp add: vs_dispatch_def connecting_def sample_vs_serde_def parsed_def bind_result_def map_err_def
        vs_handle_user_prompt_submit_def and_next_def asked enforce_def and_then_def vs_prompt_verdict_def allow)
      (simp add: sample_client_def vs_prompt_verdict_def allow)
  then show ?thesis
    using run_hook_at_once[of "vs_dispatch sample_vs_serde sample_vs_env (Ready 0 (Inr sample_client))"
        "()" VsUserPromptSubmit JNull "()" 2 vs_allow "()" vs_degraded_response]
    by (simp add: vs_run_def)
qed

end
