(* ===== verification/Claude_Response.thy ===== *)
theory Claude_Response
  imports Vscode
begin

text \<open>
  What the Claude Code hook answers (\<open>crates/hooks/claude/src/response.rs\<close>, \<open>event.rs\<close>): the
  response and its JSON, the redaction of a tool's output, the event matrix, and the response
  when governance fails.
\<close>

section \<open>Responses\<close>

datatype cl_permission_decision = ClAllow | ClDeny | ClAsk

fun cl_permission_decision_name :: "cl_permission_decision \<Rightarrow> string" where
  "cl_permission_decision_name ClAllow = ''allow''"
| "cl_permission_decision_name ClDeny = ''deny''"
| "cl_permission_decision_name ClAsk = ''ask''"

datatype cl_behavior = ClBehaviorAllow | ClBehaviorDeny

fun cl_behavior_name :: "cl_behavior \<Rightarrow> string" where
  "cl_behavior_name ClBehaviorAllow = ''allow''"
| "cl_behavior_name ClBehaviorDeny = ''deny''"

record cl_permission_request_decision =
  clr_behavior :: cl_behavior
  clr_updated_input :: "json option"
  clr_message :: "string option"
  clr_interrupt :: "bool option"

record cl_pre_tool_use_output =
  clo_permission_decision :: "cl_permission_decision option"
  clo_permission_decision_reason :: "string option"
  clo_updated_input :: "json option"
  clo_additional_context :: "string option"

record cl_post_tool_use_output =
  clp_additional_context :: "string option"
  clp_updated_tool_output :: "json option"

record cl_session_start_output =
  cls_additional_context :: "string option"
  cls_env :: "(string \<times> string) list option"

text \<open>The hook specific outputs; the event name of each is fixed by its builder.\<close>

datatype cl_specific =
    ClOutPreToolUse cl_pre_tool_use_output
  | ClOutPermissionRequest cl_permission_request_decision
  | ClOutPostToolUse cl_post_tool_use_output
  | ClOutPostToolUseFailure "string option"
  | ClOutUserPromptSubmit "string option"
  | ClOutSessionStart cl_session_start_output
  | ClOutSubagentStart "string option"

record cl_response =
  clx_continue_execution :: bool
  clx_stop_reason :: "string option"
  clx_suppress_output :: bool
  clx_system_message :: "string option"
  clx_block :: bool
  clx_reason :: "string option"
  clx_specific :: "cl_specific option"

text \<open>\<open>decision\<close> is an option of an enumeration with the one value \<open>Block\<close>: \<open>clx_block\<close>.\<close>

definition cl_allow :: cl_response where
  "cl_allow = \<lparr>clx_continue_execution = True, clx_stop_reason = None, clx_suppress_output = False,
     clx_system_message = None, clx_block = False, clx_reason = None, clx_specific = None\<rparr>"

definition cl_stop :: "string \<Rightarrow> cl_response" where
  "cl_stop reason = cl_allow\<lparr>clx_continue_execution := False, clx_stop_reason := Some reason\<rparr>"

definition cl_block :: "string \<Rightarrow> cl_response" where
  "cl_block reason = cl_allow\<lparr>clx_block := True, clx_reason := Some reason\<rparr>"

definition cl_pre_tool :: "cl_permission_decision \<Rightarrow> string \<Rightarrow> cl_response" where
  "cl_pre_tool d reason = cl_allow\<lparr>clx_specific := Some (ClOutPreToolUse
     \<lparr>clo_permission_decision = Some d, clo_permission_decision_reason = Some reason,
      clo_updated_input = None, clo_additional_context = None\<rparr>)\<rparr>"

definition cl_pre_tool_deny :: "string \<Rightarrow> cl_response" where "cl_pre_tool_deny = cl_pre_tool ClDeny"
definition cl_pre_tool_ask :: "string \<Rightarrow> cl_response" where "cl_pre_tool_ask = cl_pre_tool ClAsk"

definition cl_permission :: "bool option \<Rightarrow> string \<Rightarrow> cl_response" where
  "cl_permission interrupt message = cl_allow\<lparr>clx_specific := Some (ClOutPermissionRequest
     \<lparr>clr_behavior = ClBehaviorDeny, clr_updated_input = None, clr_message = Some message,
      clr_interrupt = interrupt\<rparr>)\<rparr>"

definition cl_permission_deny :: "string \<Rightarrow> cl_response" where "cl_permission_deny = cl_permission None"
definition cl_permission_deny_and_interrupt :: "string \<Rightarrow> cl_response" where
  "cl_permission_deny_and_interrupt = cl_permission (Some True)"

definition cl_post_tool_block_with_output :: "string \<Rightarrow> json option \<Rightarrow> cl_response" where
  "cl_post_tool_block_with_output reason out = cl_allow\<lparr>clx_block := True, clx_reason := Some reason,
     clx_specific := Some (ClOutPostToolUse
       \<lparr>clp_additional_context = None, clp_updated_tool_output = out\<rparr>)\<rparr>"

definition cl_post_tool_block :: "string \<Rightarrow> cl_response" where
  "cl_post_tool_block reason = cl_post_tool_block_with_output reason None"

definition cl_post_tool_with_context :: "string \<Rightarrow> cl_response" where
  "cl_post_tool_with_context ctx = cl_allow\<lparr>clx_specific := Some (ClOutPostToolUse
     \<lparr>clp_additional_context = Some ctx, clp_updated_tool_output = None\<rparr>)\<rparr>"

definition cl_prompt_block :: "string \<Rightarrow> cl_response" where
  "cl_prompt_block reason = cl_allow\<lparr>clx_block := True, clx_reason := Some reason,
     clx_specific := Some (ClOutUserPromptSubmit None)\<rparr>"

definition cl_prompt_with_context :: "string \<Rightarrow> cl_response" where
  "cl_prompt_with_context ctx = cl_allow\<lparr>clx_specific := Some (ClOutUserPromptSubmit (Some ctx))\<rparr>"

definition cl_session_start_with_context :: "string \<Rightarrow> cl_response" where
  "cl_session_start_with_context ctx = cl_allow\<lparr>clx_specific := Some (ClOutSessionStart
     \<lparr>cls_additional_context = nonempty ctx, cls_env = None\<rparr>)\<rparr>"

definition cl_session_start_with_env :: "(string \<times> string) list \<Rightarrow> cl_response" where
  "cl_session_start_with_env env = cl_allow\<lparr>clx_specific := Some (ClOutSessionStart
     \<lparr>cls_additional_context = None, cls_env = Some env\<rparr>)\<rparr>"

definition cl_subagent_start_with_context :: "string \<Rightarrow> cl_response" where
  "cl_subagent_start_with_context ctx = cl_allow\<lparr>clx_specific := Some (ClOutSubagentStart (Some ctx))\<rparr>"

definition cl_stop_block :: "string \<Rightarrow> cl_response" where "cl_stop_block = cl_block"
definition cl_subagent_stop_block :: "string \<Rightarrow> cl_response" where "cl_subagent_stop_block = cl_block"

definition cl_post_tool_failure_with_context :: "string \<Rightarrow> cl_response" where
  "cl_post_tool_failure_with_context ctx =
     cl_allow\<lparr>clx_specific := Some (ClOutPostToolUseFailure (Some ctx))\<rparr>"

definition with_suppress_output :: "cl_response \<Rightarrow> cl_response" where
  "with_suppress_output r = r\<lparr>clx_suppress_output := True\<rparr>"

definition with_system_message :: "cl_response \<Rightarrow> string \<Rightarrow> cl_response" where
  "with_system_message r m = r\<lparr>clx_system_message := Some m\<rparr>"

section \<open>The JSON\<close>

fun cl_specific_json :: "cl_specific \<Rightarrow> json" where
  "cl_specific_json (ClOutPreToolUse r) = JObj ((''hookEventName'', JStr ''PreToolUse'')
     # opt_field ''permissionDecision'' (map_option (JStr \<circ> cl_permission_decision_name) (clo_permission_decision r))
     @ opt_field ''permissionDecisionReason'' (map_option JStr (clo_permission_decision_reason r))
     @ opt_field ''updatedInput'' (clo_updated_input r)
     @ opt_field ''additionalContext'' (map_option JStr (clo_additional_context r)))"
| "cl_specific_json (ClOutPermissionRequest d) = JObj [(''hookEventName'', JStr ''PermissionRequest''),
     (''decision'', JObj ((''behavior'', JStr (cl_behavior_name (clr_behavior d)))
        # opt_field ''updatedInput'' (clr_updated_input d)
        @ opt_field ''message'' (map_option JStr (clr_message d))
        @ opt_field ''interrupt'' (map_option JBool (clr_interrupt d))))]"
| "cl_specific_json (ClOutPostToolUse r) = JObj ((''hookEventName'', JStr ''PostToolUse'')
     # opt_field ''additionalContext'' (map_option JStr (clp_additional_context r))
     @ opt_field ''updatedToolOutput'' (clp_updated_tool_output r))"
| "cl_specific_json (ClOutPostToolUseFailure c) = JObj ((''hookEventName'', JStr ''PostToolUseFailure'')
     # opt_field ''additionalContext'' (map_option JStr c))"
| "cl_specific_json (ClOutUserPromptSubmit c) = JObj ((''hookEventName'', JStr ''UserPromptSubmit'')
     # opt_field ''additionalContext'' (map_option JStr c))"
| "cl_specific_json (ClOutSessionStart r) = JObj ((''hookEventName'', JStr ''SessionStart'')
     # opt_field ''additionalContext'' (map_option JStr (cls_additional_context r))
     @ opt_field ''env'' (map_option (JObj \<circ> map (\<lambda>(k, v). (k, JStr v))) (cls_env r)))"
| "cl_specific_json (ClOutSubagentStart c) = JObj ((''hookEventName'', JStr ''SubagentStart'')
     # opt_field ''additionalContext'' (map_option JStr c))"

text \<open>\<open>continue\<close> is left out when true, \<open>suppressOutput\<close> when false.\<close>

definition cl_json :: "cl_response \<Rightarrow> json" where
  "cl_json r = JObj
     (opt_field ''continue'' (if clx_continue_execution r then None else Some (JBool False))
      @ opt_field ''stopReason'' (map_option JStr (clx_stop_reason r))
      @ opt_field ''suppressOutput'' (if clx_suppress_output r then Some (JBool True) else None)
      @ opt_field ''systemMessage'' (map_option JStr (clx_system_message r))
      @ opt_field ''decision'' (if clx_block r then Some (JStr ''block'') else None)
      @ opt_field ''reason'' (map_option JStr (clx_reason r))
      @ opt_field ''hookSpecificOutput'' (map_option cl_specific_json (clx_specific r)))"

text \<open>What Claude Code acts on to stop: \<open>continue\<close>, \<open>decision\<close>, a denied tool call or permission.\<close>

definition cl_is_deny :: "cl_response \<Rightarrow> bool" where
  "cl_is_deny r \<longleftrightarrow> \<not> clx_continue_execution r \<or> clx_block r
     \<or> (case clx_specific r of
          Some (ClOutPreToolUse p) \<Rightarrow> clo_permission_decision p = Some ClDeny
        | Some (ClOutPermissionRequest d) \<Rightarrow> clr_behavior d = ClBehaviorDeny
        | _ \<Rightarrow> False)"

text \<open>The response leaves a tool call to the user.\<close>

definition cl_asks_user :: "cl_response \<Rightarrow> bool" where
  "cl_asks_user r \<longleftrightarrow>
     (case clx_specific r of Some (ClOutPreToolUse p) \<Rightarrow> clo_permission_decision p = Some ClAsk | _ \<Rightarrow> False)"

lemmas cl_builders =
  cl_allow_def cl_stop_def cl_block_def cl_pre_tool_def cl_pre_tool_deny_def cl_pre_tool_ask_def
  cl_permission_def cl_permission_deny_def cl_permission_deny_and_interrupt_def
  cl_post_tool_block_with_output_def cl_post_tool_block_def cl_post_tool_with_context_def
  cl_prompt_block_def cl_prompt_with_context_def cl_session_start_with_context_def
  cl_session_start_with_env_def cl_subagent_start_with_context_def cl_stop_block_def
  cl_subagent_stop_block_def cl_post_tool_failure_with_context_def with_suppress_output_def
  with_system_message_def

lemma cl_is_deny_simps [simp]:
  "\<not> cl_is_deny cl_allow" "cl_is_deny (cl_stop m)" "cl_is_deny (cl_block m)" "cl_is_deny (cl_pre_tool_deny m)"
  "\<not> cl_is_deny (cl_pre_tool_ask m)" "cl_is_deny (cl_permission_deny m)"
  "cl_is_deny (cl_permission_deny_and_interrupt m)" "cl_is_deny (cl_post_tool_block_with_output m out)"
  "cl_is_deny (cl_post_tool_block m)" "cl_is_deny (cl_prompt_block m)"
  "\<not> cl_is_deny (cl_session_start_with_context m)" "cl_is_deny (cl_subagent_stop_block m)"
  "cl_is_deny (with_system_message r m) = cl_is_deny r"
  by (simp_all add: cl_is_deny_def cl_builders)

lemma cl_json_fields:
  "jget ''continue'' (cl_json r) = (if clx_continue_execution r then None else Some (JBool False))"
  "jget ''decision'' (cl_json r) = (if clx_block r then Some (JStr ''block'') else None)"
  "jget ''hookSpecificOutput'' (cl_json r) = map_option cl_specific_json (clx_specific r)"
  by (simp_all add: cl_json_def map_of_opt_field map_add_def split: option.split)

lemma cl_specific_says:
  "json_says (cl_specific_json s) [''permissionDecision''] ''deny'' \<longleftrightarrow>
     (\<exists>p. s = ClOutPreToolUse p \<and> clo_permission_decision p = Some ClDeny)"
  "json_says (cl_specific_json s) [''decision'', ''behavior''] ''deny'' \<longleftrightarrow>
     (\<exists>d. s = ClOutPermissionRequest d \<and> clr_behavior d = ClBehaviorDeny)"
proof -
  have d: "cl_permission_decision_name x = ''deny'' \<longleftrightarrow> x = ClDeny" for x by (cases x) simp_all
  have b: "cl_behavior_name x = ''deny'' \<longleftrightarrow> x = ClBehaviorDeny" for x by (cases x) simp_all
  show "json_says (cl_specific_json s) [''permissionDecision''] ''deny'' \<longleftrightarrow>
     (\<exists>p. s = ClOutPreToolUse p \<and> clo_permission_decision p = Some ClDeny)"
    by (cases s) (auto simp: json_says_def map_of_opt_field map_add_def d split: option.split)
  show "json_says (cl_specific_json s) [''decision'', ''behavior''] ''deny'' \<longleftrightarrow>
     (\<exists>d. s = ClOutPermissionRequest d \<and> clr_behavior d = ClBehaviorDeny)"
    by (cases s) (auto simp: json_says_def map_of_opt_field map_add_def b split: option.split)
qed

lemma json_says_step:
  "json_says v (k # ks) s \<longleftrightarrow> ks \<noteq> [] \<and> (\<exists>x. jget k v = Some x \<and> json_says x ks s)
     \<or> ks = [] \<and> jget k v = Some (JStr s)"
proof -
  have n: "foldl (\<lambda>v k. Option.bind v (jget k)) None js = None" for js by (induction js) simp_all
  show ?thesis by (cases "jget k v") (auto simp: json_says_def n)
qed

lemma cl_json_deny:
  "cl_is_deny r \<longleftrightarrow> jget ''continue'' (cl_json r) = Some (JBool False)
     \<or> json_says (cl_json r) [''decision''] ''block''
     \<or> json_says (cl_json r) [''hookSpecificOutput'', ''permissionDecision''] ''deny''
     \<or> json_says (cl_json r) [''hookSpecificOutput'', ''decision'', ''behavior''] ''deny''"
  unfolding json_says_step[of "cl_json r"] cl_json_fields
  by (auto simp: cl_is_deny_def cl_specific_says split: option.splits cl_specific.splits)

section \<open>Redaction\<close>

definition redact_placeholder :: string where
  "redact_placeholder = ''Output withheld by Sondera policy. See hook block reason.''"

definition preserved_keys :: "string list" where "preserved_keys = [''type'', ''media_type'']"

fun redact_tool_output :: "json \<Rightarrow> json" where
  "redact_tool_output (JArr values) = JArr (map redact_tool_output values)"
| "redact_tool_output (JObj kvs) = JObj (map (\<lambda>(key, value).
     (key, case value of JStr _ \<Rightarrow> if key \<in> set preserved_keys then value else redact_tool_output value
           | _ \<Rightarrow> redact_tool_output value)) kvs)"
| "redact_tool_output (JStr _) = JStr redact_placeholder"
| "redact_tool_output (JInt _) = JInt 0"
| "redact_tool_output (JFloat _) = JFloat ''0.0''"
| "redact_tool_output (JBool _) = JBool False"
| "redact_tool_output JNull = JNull"

definition cl_post_tool_block_with_redacted_output :: "string \<Rightarrow> json \<Rightarrow> cl_response" where
  "cl_post_tool_block_with_redacted_output reason original =
     cl_post_tool_block_with_output reason
       (if original = JNull then None else Some (redact_tool_output original))"

lemma redacted_block_denies [simp]: "cl_is_deny (cl_post_tool_block_with_redacted_output m v)"
  by (simp add: cl_post_tool_block_with_redacted_output_def)

text \<open>
  Two values are alike when they differ in what must not be shown only: the same structure and
  keys, scalars of the same kind, and the same text under the keys that are preserved.
\<close>

inductive alike :: "json \<Rightarrow> json \<Rightarrow> bool" where
  alike_null: "alike JNull JNull"
| alike_bool: "alike (JBool a) (JBool b)"
| alike_int: "alike (JInt i) (JInt j)"
| alike_float: "alike (JFloat x) (JFloat y)"
| alike_str: "alike (JStr s) (JStr t)"
| alike_arr: "list_all2 alike xs ys \<Longrightarrow> alike (JArr xs) (JArr ys)"
| alike_obj: "list_all2 (\<lambda>p q. fst p = fst q \<and> alike (snd p) (snd q)
     \<and> (fst p \<in> set preserved_keys \<longrightarrow> (\<forall>s. snd p = JStr s \<longrightarrow> snd q = JStr s))) fs gs
     \<Longrightarrow> alike (JObj fs) (JObj gs)"
  monos list_all2_mono

lemma redact_string_field:
  "(case v of JStr s \<Rightarrow> if k \<in> set preserved_keys then v else redact_tool_output v
     | _ \<Rightarrow> redact_tool_output v)
   = (if k \<in> set preserved_keys \<and> (\<exists>s. v = JStr s) then v else redact_tool_output v)"
  by (cases v) auto

lemma redact_obj: "redact_tool_output (JObj kvs) = JObj (map (\<lambda>(k, v).
    (k, if k \<in> set preserved_keys \<and> (\<exists>s. v = JStr s) then v else redact_tool_output v)) kvs)"
  unfolding redact_tool_output.simps redact_string_field ..

lemma alike_redacted: "alike v (redact_tool_output v)"
proof (induction v rule: redact_tool_output.induct)
  case (1 vs)
  then show ?case by (auto simp: list_all2_map2 list_all2_same intro: alike.intros)
next
  case (2 kvs)
  have "alike v (redact_tool_output v)" if "(k, v) \<in> set kvs" for k v
    using 2[OF that refl] by - (cases v, auto intro: alike.intros)
  then show ?case unfolding redact_obj
    by (intro alike_obj) (auto simp: list_all2_map2 list_all2_same intro: alike.intros)
qed (auto intro: alike.intros)

lemma map_eq_all2: "list_all2 P xs ys \<Longrightarrow> (\<And>x y. P x y \<Longrightarrow> f x = f y) \<Longrightarrow> map f xs = map f ys"
  by (induction rule: list_all2_induct) auto

lemma alike_JStr: "alike v w \<Longrightarrow> (\<exists>s. v = JStr s) = (\<exists>s. w = JStr s)"
  by (auto elim: alike.cases)

text \<open>Nothing but what alike values share shows in the redaction.\<close>

lemma redacted_alike: "alike v w \<Longrightarrow> redact_tool_output v = redact_tool_output w"
proof (induction rule: alike.induct)
  case (alike_arr xs ys)
  then show ?case by (auto intro!: map_eq_all2)
next
  case (alike_obj fs gs)
  then show ?case unfolding redact_obj json.inject
    by (elim map_eq_all2) (auto dest: alike_JStr)
qed auto

lemma redact_idem: "redact_tool_output (redact_tool_output v) = redact_tool_output v"
  by (rule redacted_alike[OF alike_redacted, symmetric])

section \<open>The event matrix\<close>

datatype cl_support = ClDelivered | ClUnsupported
datatype cl_enforcement = ClFailClosed | ClDegradeOpen | ClObservationOnly | ClUndelivered

text \<open>A line of the matrix; its rationale is documentation and left out.\<close>

record cl_hook_spec =
  clh_event_name :: string
  clh_subcommand :: "string option"
  clh_support :: cl_support
  clh_enforcement :: cl_enforcement

definition cl_delivered :: "string \<Rightarrow> string \<Rightarrow> cl_enforcement \<Rightarrow> cl_hook_spec" where
  "cl_delivered event subcommand e = \<lparr>clh_event_name = event, clh_subcommand = Some subcommand,
     clh_support = ClDelivered, clh_enforcement = e\<rparr>"

definition cl_unsupported :: "string \<Rightarrow> cl_hook_spec" where
  "cl_unsupported event = \<lparr>clh_event_name = event, clh_subcommand = None,
     clh_support = ClUnsupported, clh_enforcement = ClUndelivered\<rparr>"

definition cl_hook_matrix :: "cl_hook_spec list" where
  "cl_hook_matrix =
     [cl_delivered ''ConfigChange'' ''config-change'' ClFailClosed,
      cl_unsupported ''CwdChanged'', cl_unsupported ''DirectoryAdded'', cl_unsupported ''Elicitation'',
      cl_unsupported ''ElicitationResult'', cl_unsupported ''FileChanged'',
      cl_delivered ''InstructionsLoaded'' ''instructions-loaded'' ClObservationOnly,
      cl_unsupported ''MessageDisplay'',
      cl_delivered ''Notification'' ''notification'' ClObservationOnly,
      cl_unsupported ''PermissionDenied'',
      cl_delivered ''PermissionRequest'' ''permission-request'' ClFailClosed,
      cl_unsupported ''PostCompact'', cl_unsupported ''PostToolBatch'',
      cl_delivered ''PostToolUse'' ''post-tool-use'' ClFailClosed,
      cl_delivered ''PostToolUseFailure'' ''post-tool-use-failure'' ClObservationOnly,
      cl_delivered ''PreCompact'' ''pre-compact'' ClFailClosed,
      cl_delivered ''PreToolUse'' ''pre-tool-use'' ClFailClosed,
      cl_delivered ''SessionEnd'' ''session-end'' ClDegradeOpen,
      cl_delivered ''SessionStart'' ''session-start'' ClDegradeOpen,
      cl_unsupported ''Setup'',
      cl_delivered ''Stop'' ''stop'' ClObservationOnly,
      cl_unsupported ''StopFailure'',
      cl_delivered ''SubagentStart'' ''subagent-start'' ClObservationOnly,
      cl_delivered ''SubagentStop'' ''subagent-stop'' ClFailClosed,
      cl_unsupported ''TaskCreated'',
      cl_delivered ''TaskCompleted'' ''task-completed'' ClFailClosed,
      cl_delivered ''TeammateIdle'' ''teammate-idle'' ClFailClosed,
      cl_unsupported ''UserPromptExpansion'',
      cl_delivered ''UserPromptSubmit'' ''user-prompt-submit'' ClFailClosed,
      cl_unsupported ''WorktreeCreate'',
      cl_delivered ''WorktreeRemove'' ''worktree-remove'' ClObservationOnly]"

definition cl_hook_events :: "(string \<times> string) list" where
  "cl_hook_events =
     [(''ConfigChange'', ''config-change''), (''InstructionsLoaded'', ''instructions-loaded''),
      (''Notification'', ''notification''), (''PermissionRequest'', ''permission-request''),
      (''PostToolUse'', ''post-tool-use''), (''PostToolUseFailure'', ''post-tool-use-failure''),
      (''PreCompact'', ''pre-compact''), (''PreToolUse'', ''pre-tool-use''),
      (''SessionEnd'', ''session-end''), (''SessionStart'', ''session-start''), (''Stop'', ''stop''),
      (''SubagentStart'', ''subagent-start''), (''SubagentStop'', ''subagent-stop''),
      (''TaskCompleted'', ''task-completed''), (''TeammateIdle'', ''teammate-idle''),
      (''UserPromptSubmit'', ''user-prompt-submit''), (''WorktreeRemove'', ''worktree-remove'')]"

definition cl_hook_spec_of :: "string \<Rightarrow> cl_hook_spec option" where
  "cl_hook_spec_of event = find (\<lambda>spec. clh_event_name spec = event) cl_hook_matrix"

definition is_fail_closed_hook :: "string \<Rightarrow> bool" where
  "is_fail_closed_hook event \<longleftrightarrow>
     (case cl_hook_spec_of event of None \<Rightarrow> False | Some spec \<Rightarrow> clh_enforcement spec = ClFailClosed)"

text \<open>The installer's list is the delivered part of the matrix.\<close>

lemma cl_hook_events_delivered:
  "set cl_hook_events =
     {(clh_event_name s, c) |s c. s \<in> set cl_hook_matrix \<and> clh_subcommand s = Some c}"
proof -
  have "set cl_hook_events = set (List.map_filter (\<lambda>s. map_option (Pair (clh_event_name s)) (clh_subcommand s))
      cl_hook_matrix)"
    by (simp add: cl_hook_events_def cl_hook_matrix_def cl_delivered_def cl_unsupported_def
        List.map_filter_def insert_commute)
  then show ?thesis by (auto simp: List.map_filter_def image_iff) (metis option.sel option.simps(9))
qed

lemma find_distinct:
  assumes "distinct (map f xs)"
  shows "(case find (\<lambda>x. f x = k) xs of None \<Rightarrow> False | Some x \<Rightarrow> Q x) \<longleftrightarrow> k \<in> set (map f (filter Q xs))"
  using assms by (induction xs) auto

lemma is_fail_closed_hook_iff:
  "is_fail_closed_hook e \<longleftrightarrow> e \<in> set [''ConfigChange'', ''PermissionRequest'', ''PostToolUse'', ''PreCompact'',
     ''PreToolUse'', ''SubagentStop'', ''TaskCompleted'', ''TeammateIdle'', ''UserPromptSubmit'']"
proof -
  have "distinct (map clh_event_name cl_hook_matrix)" by code_simp
  then have "is_fail_closed_hook e \<longleftrightarrow>
      e \<in> set (map clh_event_name (filter (\<lambda>s. clh_enforcement s = ClFailClosed) cl_hook_matrix))"
    unfolding is_fail_closed_hook_def cl_hook_spec_of_def by (rule find_distinct)
  also have "map clh_event_name (filter (\<lambda>s. clh_enforcement s = ClFailClosed) cl_hook_matrix)
      = [''ConfigChange'', ''PermissionRequest'', ''PostToolUse'', ''PreCompact'', ''PreToolUse'',
         ''SubagentStop'', ''TaskCompleted'', ''TeammateIdle'', ''UserPromptSubmit'']"
    by (simp add: cl_hook_matrix_def cl_delivered_def cl_unsupported_def)
  finally show ?thesis .
qed

section \<open>Without governance\<close>

definition lifecycle_hook_budget_timeout_degrades_open :: "string \<Rightarrow> bool" where
  "lifecycle_hook_budget_timeout_degrades_open event \<longleftrightarrow>
     event = ''SubagentStop'' \<or> event = ''TaskCompleted'' \<or> event = ''TeammateIdle''"

definition is_policy_settings_config_change :: "json option \<Rightarrow> bool" where
  "is_policy_settings_config_change input \<longleftrightarrow>
     Option.bind (Option.bind input (\<lambda>v. opt_else (jget ''source'' v) (jget ''config_type'' v))) as_str
       = Some ''policy_settings''"

fun is_budget_exceeded :: "hook_error \<Rightarrow> bool" where
  "is_budget_exceeded (HeBudgetExceeded _) = True"
| "is_budget_exceeded _ = False"

definition cl_fail_closed_response :: "string \<Rightarrow> json option \<Rightarrow> hook_error \<Rightarrow> cl_response option" where
  "cl_fail_closed_response event input error =
     (let reason = fail_closed_reason error in
      if is_budget_exceeded error \<and> lifecycle_hook_budget_timeout_degrades_open event
      then Some (with_system_message cl_allow reason)
      else if event = ''ConfigChange'' then
        (if is_policy_settings_config_change input then None else Some (cl_block reason))
      else if event = ''PreToolUse'' then Some (cl_pre_tool_deny reason)
      else if event = ''PermissionRequest'' then Some (cl_permission_deny_and_interrupt reason)
      else if event = ''PostToolUse'' then
        (case Option.bind input (jget ''tool_response'') of
           Some r \<Rightarrow> Some (if r = JNull then cl_post_tool_block reason
             else cl_post_tool_block_with_redacted_output reason r)
         | None \<Rightarrow> Some (cl_post_tool_block reason))
      else if event = ''PreCompact'' then Some (cl_block reason)
      else if event = ''SubagentStop'' then Some (cl_subagent_stop_block reason)
      else if event = ''TaskCompleted'' \<or> event = ''TeammateIdle'' then Some (cl_stop reason)
      else if event = ''UserPromptSubmit'' then Some (cl_prompt_block reason)
      else None)"

text \<open>The two named exceptions to failing closed.\<close>

definition cl_degrades_open :: "string \<Rightarrow> json option \<Rightarrow> hook_error \<Rightarrow> bool" where
  "cl_degrades_open event input error \<longleftrightarrow>
     is_budget_exceeded error \<and> lifecycle_hook_budget_timeout_degrades_open event
     \<or> event = ''ConfigChange'' \<and> is_policy_settings_config_change input"

lemma cl_fail_closed_response_denies:
  "(\<exists>r. cl_fail_closed_response event input error = Some r \<and> cl_is_deny r)
     \<longleftrightarrow> is_fail_closed_hook event \<and> \<not> cl_degrades_open event input error"
  unfolding is_fail_closed_hook_iff list.set insert_iff empty_iff simp_thms
  by (simp add: cl_fail_closed_response_def cl_degrades_open_def
      lifecycle_hook_budget_timeout_degrades_open_def Let_def split: option.split)

end
