(* ===== verification/Claude_Truncate.thy ===== *)
theory Claude_Truncate
  imports Hook_Adapter
begin

text \<open>
  The cap on the content of one event (\<open>crates/hooks/claude/src/truncate.rs\<close>): every string a user
  or a tool wrote is cut against a budget that the fields of an event share, first come first
  served, so that an event fits the message limit of the transport.
\<close>

definition max_event_text_bytes :: nat where "max_event_text_bytes = 15 * 1024 * 1024"

text \<open>The marker; the ellipsis is its three bytes.\<close>

definition truncation_marker :: string where
  "truncation_marker = [CHR 0x0A, CHR 0x0A] @ ''['' @ [CHR 0xE2, CHR 0x80, CHR 0xA6]
     @ ''truncated by Sondera claude hook to fit gRPC message limit]''"

lemma truncation_marker_length [simp]: "length truncation_marker = 65"
  by (simp add: truncation_marker_def)

lemma truncation_marker_valid: "valid_utf8 truncation_marker"
  by (simp add: truncation_marker_def valid_utf8_def is_cont_def second3_ok_def)

section \<open>Strings and JSON values\<close>

text \<open>The text and whether it was cut (\<open>Cow::Owned\<close>).\<close>

definition truncate_event_text :: "string \<Rightarrow> nat \<Rightarrow> string \<times> bool" where
  "truncate_event_text s max_bytes =
     (if length s \<le> max_bytes then (s, False)
      else (take (floor_boundary s max_bytes) s @ truncation_marker, True))"

definition cap_string :: "string \<Rightarrow> nat \<Rightarrow> string \<times> bool" where
  "cap_string s max_bytes = truncate_event_text s max_bytes"

text \<open>\<open>J\<close> is the JSON printer; the counting writer compares its output with the limit.\<close>

definition json_fits_within :: "json_writer \<Rightarrow> json \<Rightarrow> nat \<Rightarrow> bool" where
  "json_fits_within J v max_bytes \<longleftrightarrow> length (J v) \<le> max_bytes"

definition serialized_json_size :: "json_writer \<Rightarrow> json \<Rightarrow> nat" where
  "serialized_json_size J v = length (J v)"

definition cap_json_value :: "json_writer \<Rightarrow> json \<Rightarrow> nat \<Rightarrow> json \<times> bool" where
  "cap_json_value J v max_bytes =
     (case v of
        JStr s \<Rightarrow> (case cap_string s max_bytes of (s', t) \<Rightarrow> (JStr s', t))
      | _ \<Rightarrow> if json_fits_within J v max_bytes then (v, False)
             else (JStr (fst (truncate_event_text (J v) max_bytes)), True))"

text \<open>Cap a field against what is left of the budget, and charge the content, not the marker.\<close>

definition consume_string_budget :: "string \<Rightarrow> nat \<Rightarrow> string \<times> nat \<times> bool" where
  "consume_string_budget s budget =
     (case cap_string s budget of (s', truncated) \<Rightarrow>
        (s', budget - (if truncated then length s' - length truncation_marker else length s), truncated))"

definition consume_json_budget :: "json_writer \<Rightarrow> json \<Rightarrow> nat \<Rightarrow> json \<times> nat \<times> bool" where
  "consume_json_budget J v budget =
     (case cap_json_value J v budget of (v', truncated) \<Rightarrow>
        (v', budget - (if truncated then (case v' of JStr s \<Rightarrow> length s - length truncation_marker
                         | _ \<Rightarrow> serialized_json_size J v')
                       else serialized_json_size J v'), truncated))"

text \<open>\<open>if let Some(s) = field.as_mut()\<close>.\<close>

definition consume_option_budget :: "string option \<Rightarrow> nat \<Rightarrow> string option \<times> nat \<times> bool" where
  "consume_option_budget field budget =
     (case field of
        None \<Rightarrow> (None, budget, False)
      | Some s \<Rightarrow> (case consume_string_budget s budget of (s', left, t) \<Rightarrow> (Some s', left, t)))"

section \<open>Events\<close>

fun cap_action_strings :: "json_writer \<Rightarrow> action \<Rightarrow> nat \<Rightarrow> action \<times> bool" where
  "cap_action_strings J (ShellCommand cmd) max_bytes =
     (let (c, left, t1) = consume_string_budget (shc_command cmd) max_bytes;
          (d, left, t2) = consume_option_budget (shc_working_dir cmd) left
      in (ShellCommand (cmd\<lparr>shc_command := c, shc_working_dir := d\<rparr>), t1 \<or> t2))"
| "cap_action_strings J (FileOperation op) max_bytes =
     (let (c, left, t1) = consume_option_budget (fo_content op) max_bytes;
          (d, left, t2) = consume_option_budget (fo_old_content op) left
      in (FileOperation (op\<lparr>fo_content := c, fo_old_content := d\<rparr>), t1 \<or> t2))"
| "cap_action_strings J (WebFetch f) max_bytes =
     (let (p, left, t1) = consume_string_budget (wf_prompt f) max_bytes;
          (u, left, t2) = consume_string_budget (wf_url f) left
      in (WebFetch (f\<lparr>wf_prompt := p, wf_url := u\<rparr>), t1 \<or> t2))"
| "cap_action_strings J (ToolCall call) max_bytes =
     (let (v, left, t) = consume_json_budget J (tc_arguments call) max_bytes
      in (ToolCall (call\<lparr>tc_arguments := v\<rparr>), t))"

fun cap_observation_strings :: "json_writer \<Rightarrow> observation \<Rightarrow> nat \<Rightarrow> observation \<times> bool" where
  "cap_observation_strings J (Prompt p) max_bytes =
     (let (c, left, t) = consume_string_budget (pr_content p) max_bytes
      in (Prompt (p\<lparr>pr_content := c\<rparr>), t))"
| "cap_observation_strings J (Thought th) max_bytes =
     (let (c, left, t) = consume_string_budget th max_bytes in (Thought c, t))"
| "cap_observation_strings J (ToolOutput out) max_bytes =
     (let (v, left, t1) = consume_json_budget J (to_output out) max_bytes;
          (e, left, t2) = consume_option_budget (to_error out) left
      in (ToolOutput (out\<lparr>to_output := v, to_error := e\<rparr>), t1 \<or> t2))"
| "cap_observation_strings J (ShellCommandOutput out) max_bytes =
     (let (a, left, t1) = consume_string_budget (sco_stdout out) max_bytes;
          (b, left, t2) = consume_string_budget (sco_stderr out) left
      in (ShellCommandOutput (out\<lparr>sco_stdout := a, sco_stderr := b\<rparr>), t1 \<or> t2))"
| "cap_observation_strings J (WebFetchOutput out) max_bytes =
     (let (r, left, t1) = consume_string_budget (wfo_result out) max_bytes;
          (u, left, t2) = consume_string_budget (wfo_url out) left
      in (WebFetchOutput (out\<lparr>wfo_result := r, wfo_url := u\<rparr>), t1 \<or> t2))"
| "cap_observation_strings J (FileOperationResult res) max_bytes =
     (let (c, left, t1) = consume_option_budget (fr_content res) max_bytes;
          (e, left, t2) = consume_option_budget (fr_error res) left
      in (FileOperationResult (res\<lparr>fr_content := c, fr_error := e\<rparr>), t1 \<or> t2))"

text \<open>Verdicts and scans come from the server and are not capped.\<close>

fun cap_control_strings :: "control \<Rightarrow> nat \<Rightarrow> control \<times> bool" where
  "cap_control_strings (Started s) max_bytes =
     (let (t, left, cut) = consume_option_budget (sd_task s) max_bytes in (Started (s\<lparr>sd_task := t\<rparr>), cut))"
| "cap_control_strings (Completed summary) max_bytes =
     (let (t, left, cut) = consume_option_budget summary max_bytes in (Completed t, cut))"
| "cap_control_strings (Failed reason) max_bytes =
     (let (t, left, cut) = consume_string_budget reason max_bytes in (Failed t, cut))"
| "cap_control_strings (Terminated t) max_bytes =
     (let (r, left, c1) = consume_string_budget (tm_reason t) max_bytes;
          (b, left, c2) = consume_string_budget (tm_terminated_by t) left
      in (Terminated (t\<lparr>tm_reason := r, tm_terminated_by := b\<rparr>), c1 \<or> c2))"
| "cap_control_strings (Suspended reason) max_bytes =
     (let (t, left, cut) = consume_string_budget reason max_bytes in (Suspended t, cut))"
| "cap_control_strings (Resumed who) max_bytes =
     (let (t, left, cut) = consume_string_budget who max_bytes in (Resumed t, cut))"
| "cap_control_strings control max_bytes = (control, False)"

section \<open>What a cut does\<close>

text \<open>A cut text is the longest prefix that fits and splits no character, and the marker.\<close>

lemma truncate_event_text_cut:
  assumes "truncate_event_text s n = (s', t)"
  shows "if t then n < length s \<and> (\<exists>k\<le>n. s' = take k s @ truncation_marker \<and> is_char_boundary s k
      \<and> (valid_utf8 s \<longrightarrow> n < k + 4)) else s' = s \<and> length s \<le> n"
  using assms floor_boundary_le[of s n] floor_boundary_is_boundary[of s n] floor_boundary_close[of s n]
  by (auto simp: truncate_event_text_def split: if_splits)

lemma truncate_event_text_valid:
  assumes "valid_utf8 s" shows "valid_utf8 (fst (truncate_event_text s n))"
proof (cases "length s \<le> n")
  case False
  then have "valid_utf8 (take (floor_boundary s n) s)"
    using assms floor_boundary_is_boundary floor_boundary_le[of s n] by (intro valid_utf8_take) auto
  then show ?thesis
    using False truncation_marker_valid by (simp add: truncate_event_text_def valid_utf8_append)
qed (simp add: truncate_event_text_def assms)

text \<open>
  The law of the budget: what a field carries afterwards, with what is left, exceeds the budget
  by a marker at most; a field that fits is kept and charged in full.
\<close>

lemma consume_string:
  assumes "consume_string_budget s n = (s', left, t)"
  shows "length s' + left \<le> n + 65" "left \<le> n" "\<not> t \<Longrightarrow> s' = s" "valid_utf8 s \<Longrightarrow> valid_utf8 s'"
  using assms floor_boundary_le[of s n] truncate_event_text_valid[of s n]
  by (auto simp: consume_string_budget_def cap_string_def truncate_event_text_def split: if_splits)

lemma consume_string_fits: "length s \<le> n \<Longrightarrow> consume_string_budget s n = (s, n - length s, False)"
  by (simp add: consume_string_budget_def cap_string_def truncate_event_text_def)

definition option_bytes :: "string option \<Rightarrow> nat" where
  "option_bytes v = (case v of None \<Rightarrow> 0 | Some s \<Rightarrow> length s)"

lemma consume_option:
  assumes "consume_option_budget v n = (v', left, t)"
  shows "option_bytes v' + left \<le> n + 65" "left \<le> n" "\<not> t \<Longrightarrow> v' = v"
  using assms
  by (auto simp: consume_option_budget_def option_bytes_def dest: consume_string split: option.splits prod.splits)

lemma consume_option_fits: "option_bytes v \<le> n \<Longrightarrow> consume_option_budget v n = (v, n - option_bytes v, False)"
  by (cases v) (simp_all add: consume_option_budget_def option_bytes_def consume_string_fits)

text \<open>
  What a value puts on the wire: the bytes of a string, the text of anything else. A JSON printer
  writes at least the bytes of a string it prints.
\<close>

definition json_bytes :: "json_writer \<Rightarrow> json \<Rightarrow> nat" where
  "json_bytes J v = (case v of JStr s \<Rightarrow> length s | _ \<Rightarrow> length (J v))"

definition prints_strings :: "json_writer \<Rightarrow> bool" where
  "prints_strings J \<longleftrightarrow> (\<forall>s. length s \<le> length (J (JStr s)))"

lemma min_floor [simp]: "min k (floor_boundary s n) \<le> n"
  using floor_boundary_le[of s n] by simp

lemma cap_json:
  assumes "cap_json_value J v n = (v', t)"
  shows "if t then \<exists>s. v' = JStr s \<and> length s \<le> n + 65 \<and> 65 \<le> length s else v' = v \<and> json_bytes J v \<le> n"
  using assms
  by (cases v) (auto simp: cap_json_value_def cap_string_def json_fits_within_def truncate_event_text_def
      json_bytes_def split: if_splits)

lemma consume_json:
  assumes "consume_json_budget J v n = (v', left, t)" "prints_strings J"
  shows "json_bytes J v' + left \<le> n + 65" "left \<le> n" "\<not> t \<Longrightarrow> v' = v"
proof -
  obtain w where w: "cap_json_value J v n = (w, t)" using assms(1)
    by (auto simp: consume_json_budget_def split: prod.splits)
  have "json_bytes J v \<le> length (J v)" using assms(2) by (cases v) (simp_all add: json_bytes_def prints_strings_def)
  then show "json_bytes J v' + left \<le> n + 65" "left \<le> n" "\<not> t \<Longrightarrow> v' = v"
    using cap_json[OF w] assms(1) w
    by (auto simp: consume_json_budget_def serialized_json_size_def json_bytes_def split: if_splits)
qed

lemma consume_json_fits:
  assumes "length (J v) \<le> n" "prints_strings J"
  shows "consume_json_budget J v n = (v, n - length (J v), False)"
proof -
  have "length s \<le> n" if "v = JStr s" for s
    using assms that by (metis order_trans prints_strings_def)
  then show ?thesis using assms(1)
    by (cases v) (simp_all add: consume_json_budget_def cap_json_value_def cap_string_def
        truncate_event_text_def json_fits_within_def serialized_json_size_def)
qed

section \<open>What it does to an event\<close>

text \<open>The content an event carries, and what it costs before it is capped.\<close>

fun action_bytes :: "(json \<Rightarrow> nat) \<Rightarrow> action \<Rightarrow> nat" where
  "action_bytes B (ShellCommand c) = length (shc_command c) + option_bytes (shc_working_dir c)"
| "action_bytes B (FileOperation op) = option_bytes (fo_content op) + option_bytes (fo_old_content op)"
| "action_bytes B (WebFetch f) = length (wf_prompt f) + length (wf_url f)"
| "action_bytes B (ToolCall c) = B (tc_arguments c)"

fun observation_bytes :: "(json \<Rightarrow> nat) \<Rightarrow> observation \<Rightarrow> nat" where
  "observation_bytes B (Prompt p) = length (pr_content p)"
| "observation_bytes B (Thought t) = length t"
| "observation_bytes B (ToolOutput r) = B (to_output r) + option_bytes (to_error r)"
| "observation_bytes B (ShellCommandOutput r) = length (sco_stdout r) + length (sco_stderr r)"
| "observation_bytes B (WebFetchOutput r) = length (wfo_result r) + length (wfo_url r)"
| "observation_bytes B (FileOperationResult r) = option_bytes (fr_content r) + option_bytes (fr_error r)"

fun control_bytes :: "control \<Rightarrow> nat" where
  "control_bytes (Started s) = option_bytes (sd_task s)"
| "control_bytes (Completed s) = option_bytes s"
| "control_bytes (Failed r) = length r"
| "control_bytes (Terminated t) = length (tm_reason t) + length (tm_terminated_by t)"
| "control_bytes (Suspended r) = length r"
| "control_bytes (Resumed r) = length r"
| "control_bytes _ = 0"

lemma consumed_string:
  "consume_string_budget s n = (s', left, t) \<Longrightarrow> length s' + left \<le> n + 65 \<and> left \<le> n \<and> (t \<or> s' = s)"
  using consume_string[of s n s' left t] by auto

lemma consumed_option:
  "consume_option_budget v n = (v', left, t) \<Longrightarrow> option_bytes v' + left \<le> n + 65 \<and> left \<le> n \<and> (t \<or> v' = v)"
  using consume_option[of v n v' left t] by auto

lemma consumed_json:
  "consume_json_budget J j n = (j', left, t) \<Longrightarrow> prints_strings J \<Longrightarrow>
     json_bytes J j' + left \<le> n + 65 \<and> left \<le> n \<and> (t \<or> j' = j)"
  using consume_json[of J j n j' left t] by auto

lemmas consumed = consumed_string consumed_option consumed_json
lemmas consumed_fits = consume_string_fits consume_option_fits consume_json_fits

lemma capped_action:
  assumes "cap_action_strings J a n = (a', t)" "prints_strings J"
  shows "action_bytes (json_bytes J) a' \<le> n + 2 * 65 \<and> (\<not> t \<longrightarrow> a' = a)"
  using assms
  by (cases a) (auto simp: Let_def split: prod.splits dest!: consumed)

lemma capped_observation:
  assumes "cap_observation_strings J r n = (r', t)" "prints_strings J"
  shows "observation_bytes (json_bytes J) r' \<le> n + 2 * 65 \<and> (\<not> t \<longrightarrow> r' = r)"
  using assms
  by (cases r) (auto simp: Let_def split: prod.splits dest!: consumed)

lemma capped_control:
  assumes "cap_control_strings c n = (c', t)"
  shows "control_bytes c' \<le> n + 2 * 65 \<and> (\<not> t \<longrightarrow> c' = c)"
  using assms
  by (cases c) (auto simp: Let_def split: prod.splits dest!: consumed)

text \<open>An event that fits is not touched.\<close>

lemma fitting_action:
  "action_bytes (length \<circ> J) a \<le> n \<Longrightarrow> prints_strings J \<Longrightarrow> cap_action_strings J a n = (a, False)"
  by (cases a) (simp_all add: consumed_fits)

lemma fitting_observation:
  "observation_bytes (length \<circ> J) r \<le> n \<Longrightarrow> prints_strings J \<Longrightarrow> cap_observation_strings J r n = (r, False)"
  by (cases r) (simp_all add: consumed_fits)

lemma fitting_control: "control_bytes c \<le> n \<Longrightarrow> cap_control_strings c n = (c, False)"
  by (cases c) (simp_all add: consumed_fits)

text \<open>What a call is and what it names stays.\<close>

fun action_name :: "action \<Rightarrow> string \<times> string" where
  "action_name (ShellCommand c) = (shc_call_id c, [])"
| "action_name (FileOperation op) = (fo_call_id op, file_op_to_string (fo_operation op) @ '' '' @ fo_path op)"
| "action_name (WebFetch f) = (wf_call_id f, [])"
| "action_name (ToolCall c) = (tc_call_id c, tc_tool c)"

lemma capped_action_name: "action_name (fst (cap_action_strings J a n)) = action_name a"
  by (cases a) (auto split: prod.splits)

end
