(* ===== verification/Claude_Transcript.thy ===== *)
theory Claude_Transcript
  imports Claude_Truncate
begin

text \<open>
  Claude Code's session transcript (\<open>crates/hooks/claude/src/transcript.rs\<close>): a file of JSON lines
  that only grows, read from byte offsets that are kept per session. What a line deserialises to
  is a parameter; of a line that does, the fields the code reads are kept.
\<close>

section \<open>Lines\<close>

abbreviation line_feed :: char where "line_feed \<equiv> CHR 0x0A"

text \<open>What successive calls of \<open>read_line\<close> return: each line with its line feed.\<close>

function file_lines :: "string \<Rightarrow> string list" where
  "file_lines [] = []"
| "file_lines (c # s) =
     (let rest = dropWhile (\<lambda>x. x \<noteq> line_feed) (c # s)
      in (takeWhile (\<lambda>x. x \<noteq> line_feed) (c # s) @ take 1 rest) # file_lines (drop 1 rest))"
  by pat_completeness auto
termination
  by (relation "measure length")
    (auto simp: Let_def le_imp_less_Suc length_dropWhile_le order.trans[OF diff_le_self])

declare file_lines.simps(2) [simp del]

lemma concat_file_lines [simp]: "concat (file_lines s) = s"
proof (induction s rule: file_lines.induct)
  case (2 c s)
  have "take 1 r @ drop 1 r = r" for r :: string by simp
  then show ?case using 2 by (simp add: file_lines.simps(2) Let_def del: takeWhile.simps dropWhile.simps)
qed simp

definition ends_line :: "string \<Rightarrow> bool" where
  "ends_line s \<longleftrightarrow> s = [] \<or> last s = line_feed"

lemma file_lines_line:
  assumes "line_feed \<notin> set l" shows "file_lines (l @ line_feed # s) = (l @ [line_feed]) # file_lines s"
proof (cases "l @ line_feed # s")
  case (Cons c t)
  have "takeWhile (\<lambda>x. x \<noteq> line_feed) (l @ line_feed # s) = l"
    "dropWhile (\<lambda>x. x \<noteq> line_feed) (l @ line_feed # s) = line_feed # s"
    using assms by (induction l) auto
  then show ?thesis using Cons by (simp add: file_lines.simps(2) Let_def)
qed simp

text \<open>Appending after a complete line appends lines.\<close>

lemma file_lines_append:
  assumes "ends_line a" shows "file_lines (a @ b) = file_lines a @ file_lines b"
  using assms
proof (induction a rule: length_induct)
  case (1 a)
  show ?case
  proof (cases "a = []")
    case False
    then have "line_feed \<in> set a" using "1.prems" by (metis ends_line_def last_in_set)
    then obtain l t where a: "a = l @ line_feed # t" "line_feed \<notin> set l" using split_list_first by metis
    then have "ends_line t" using "1.prems" by (auto simp: ends_line_def split: if_splits)
    then have "file_lines (t @ b) = file_lines t @ file_lines b" using 1 a(1) by simp
    then show ?thesis using a file_lines_line[OF a(2)] by simp
  qed simp
qed

section \<open>Messages\<close>

datatype content_block = TextBlock string | ThinkingBlock string | OtherBlock

record message_payload =
  mp_role :: string
  mp_content :: "content_block list"

record transcript_line =
  tl_type :: string
  tl_timestamp :: timestamp
  tl_message :: "message_payload option"

text \<open>\<open>serde_json::from_str\<close> into a line.\<close>

type_synonym line_reader = "string \<Rightarrow> transcript_line option"

record extracted_event =
  xe_timestamp :: timestamp
  xe_event :: trajectory_event
  xe_cursor_after_line :: nat

fun extractable_block :: "content_block \<Rightarrow> bool" where
  "extractable_block (TextBlock t) = (trim t \<noteq> [])"
| "extractable_block (ThinkingBlock t) = (trim t \<noteq> [])"
| "extractable_block OtherBlock = False"

definition line_has_extractable_assistant_event :: "transcript_line \<Rightarrow> bool" where
  "line_has_extractable_assistant_event l \<longleftrightarrow> tl_type l = ''assistant'' \<and>
     (case tl_message l of None \<Rightarrow> False
      | Some m \<Rightarrow> mp_role m = ''assistant'' \<and> list_ex extractable_block (mp_content m))"

definition prompt_assistant :: "string \<Rightarrow> prompt" where
  "prompt_assistant c = \<lparr>pr_content = c, pr_role = RoleAssistant\<rparr>"

fun block_event :: "content_block \<Rightarrow> trajectory_event option" where
  "block_event (TextBlock t) =
     (if trim t \<noteq> [] then Some (Observation (Prompt (prompt_assistant
        (fst (truncate_event_text t max_event_text_bytes))))) else None)"
| "block_event (ThinkingBlock t) =
     (if trim t \<noteq> [] then Some (Observation (Thought
        (fst (truncate_event_text t max_event_text_bytes)))) else None)"
| "block_event OtherBlock = None"

text \<open>A line that is blank or no JSON of a line is skipped.\<close>

definition read_transcript_line :: "line_reader \<Rightarrow> string \<Rightarrow> transcript_line option" where
  "read_transcript_line D raw = (let trimmed = trim raw in if trimmed = [] then None else D trimmed)"

definition message_events :: "timestamp \<Rightarrow> message_payload \<Rightarrow> nat \<Rightarrow> extracted_event list" where
  "message_events t m after = map (\<lambda>te. \<lparr>xe_timestamp = t, xe_event = te, xe_cursor_after_line = after\<rparr>)
     (List.map_filter block_event (mp_content m))"

definition line_events :: "line_reader \<Rightarrow> string \<Rightarrow> nat \<Rightarrow> extracted_event list" where
  "line_events D raw after =
     (case read_transcript_line D raw of
        None \<Rightarrow> []
      | Some l \<Rightarrow>
          if line_has_extractable_assistant_event l then
            (case tl_message l of
               None \<Rightarrow> []
             | Some m \<Rightarrow> message_events (tl_timestamp l) m after)
          else [])"

section \<open>Parsing\<close>

abbreviation not_utf8 :: hook_error where
  "not_utf8 \<equiv> HeIo ''stream did not contain valid UTF-8''"

text \<open>The loop over lines: the events, and the offset after the last line.\<close>

fun parse_lines :: "line_reader \<Rightarrow> string list \<Rightarrow> nat \<Rightarrow> hook_error + extracted_event list \<times> nat" where
  "parse_lines D [] cursor = Inr ([], cursor)"
| "parse_lines D (raw # rest) cursor =
     (if \<not> valid_utf8 raw then Inl not_utf8
      else let after = cursor + length raw in
        case parse_lines D rest after of
          Inl e \<Rightarrow> Inl e
        | Inr (events, new_cursor) \<Rightarrow> Inr (line_events D raw after @ events, new_cursor))"

text \<open>The file, or the error of opening it.\<close>

definition parse_transcript ::
  "line_reader \<Rightarrow> hook_error + string \<Rightarrow> nat \<Rightarrow> hook_error + extracted_event list \<times> nat" where
  "parse_transcript D file cursor =
     bind_result file (\<lambda>bytes.
       if length bytes \<le> cursor then Inr ([], cursor)
       else parse_lines D (file_lines (drop cursor bytes)) cursor)"

definition newest_assistant_reply ::
  "line_reader \<Rightarrow> hook_error + string \<Rightarrow> nat \<Rightarrow> hook_error + string option" where
  "newest_assistant_reply D file cursor =
     bind_result (parse_transcript D file cursor) (\<lambda>(events, _).
       Inr (find_map (\<lambda>x. case xe_event x of
           Observation (Prompt p) \<Rightarrow> if pr_role p = RoleAssistant then Some (pr_content p) else None
         | _ \<Rightarrow> None) (rev events)))"

text \<open>
  The scan for the last assistant turn: where the current run of assistant lines began, if one is
  open, and where the run of the last extractable line began.
\<close>

fun scan_turn ::
  "line_reader \<Rightarrow> string list \<Rightarrow> nat \<Rightarrow> nat option \<Rightarrow> nat option \<Rightarrow> hook_error + nat option" where
  "scan_turn D [] cursor run_start last_turn_start = Inr last_turn_start"
| "scan_turn D (raw # rest) cursor run_start last_turn_start =
     (if \<not> valid_utf8 raw then Inl not_utf8
      else let after = cursor + length raw in
        case read_transcript_line D raw of
          None \<Rightarrow> scan_turn D rest after run_start last_turn_start
        | Some l \<Rightarrow>
            if tl_type l = ''assistant'' then
              (let run = opt_else run_start (Some cursor) in
               scan_turn D rest after run
                 (if line_has_extractable_assistant_event l then run else last_turn_start))
            else if tl_type l = ''user'' then scan_turn D rest after None last_turn_start
            else scan_turn D rest after run_start last_turn_start)"

definition last_assistant_turn_start :: "line_reader \<Rightarrow> hook_error + string \<Rightarrow> hook_error + nat option" where
  "last_assistant_turn_start D file =
     bind_result file (\<lambda>bytes. scan_turn D (file_lines bytes) 0 None None)"

section \<open>Reading in steps\<close>

lemma parse_lines_append:
  "parse_lines D (a @ b) c =
     (case parse_lines D a c of Inl e \<Rightarrow> Inl e
      | Inr (events, n) \<Rightarrow> (case parse_lines D b n of Inl e \<Rightarrow> Inl e
          | Inr (later, m) \<Rightarrow> Inr (events @ later, m)))"
  by (induction a arbitrary: c) (auto simp: Let_def split: sum.split prod.split)

lemma parse_lines_Cons:
  "parse_lines D (raw # rest) c = Inr (events, n) \<longleftrightarrow> valid_utf8 raw
     \<and> (\<exists>later. parse_lines D rest (c + length raw) = Inr (later, n)
          \<and> events = line_events D raw (c + length raw) @ later)"
proof (cases "parse_lines D rest (c + length raw)")
  case (Inr x)
  then show ?thesis by (cases x) (auto simp: Let_def)
qed (auto simp: Let_def)

lemma line_events_cases: "line_events D raw k = [] \<or> (\<exists>t m. line_events D raw k = message_events t m k)"
  unfolding line_events_def by (auto split: option.split)

lemma line_events_in:
  assumes "x \<in> set (line_events D raw k)"
  shows "xe_cursor_after_line x = k \<and> (\<exists>b. block_event b = Some (xe_event x))"
proof -
  from line_events_cases[of D raw k] assms obtain t m where "x \<in> set (message_events t m k)" by fastforce
  then show ?thesis by (auto simp: message_events_def List.map_filter_def)
qed

lemma line_events_after: "x \<in> set (line_events D raw c) \<Longrightarrow> xe_cursor_after_line x = c"
  by (simp add: line_events_in)

lemma parse_lines_cursor:
  "parse_lines D ls c = Inr (events, n) \<Longrightarrow> n = c + length (concat ls)
     \<and> (\<forall>x\<in>set events. c \<le> xe_cursor_after_line x \<and> xe_cursor_after_line x \<le> n)
     \<and> sorted (map xe_cursor_after_line events)"
proof (induction D ls c arbitrary: events n rule: parse_lines.induct)
  case (2 D raw rest c)
  then obtain later where m: "parse_lines D rest (c + length raw) = Inr (later, n)"
    "events = line_events D raw (c + length raw) @ later" "valid_utf8 raw"
    unfolding parse_lines_Cons by blast
  have "sorted (map xe_cursor_after_line (line_events D raw k))" for k
    using line_events_after[of _ D raw k] by (auto simp: sorted_iff_nth_mono intro: nth_mem)
  then show ?case using "2.IH"[OF _ refl m(1)] m(2,3)
    by (auto simp: sorted_append dest!: line_events_after)
qed simp

text \<open>
  A transcript read in two steps is read as a whole: when it grew by whole lines since, the events
  of the first read, then those from the offset it returned, are those of one read.
\<close>

lemma parse_transcript_incremental:
  assumes "ends_line (drop c a)" "c \<le> length a"
    "parse_transcript D (Inr a) c = Inr (events, n)"
  shows "n = length a
    \<and> parse_transcript D (Inr (a @ b)) c =
        (case parse_transcript D (Inr (a @ b)) n of Inl e \<Rightarrow> Inl e | Inr (later, m) \<Rightarrow> Inr (events @ later, m))"
proof -
  have p: "parse_transcript D (Inr t) k = parse_lines D (file_lines (drop k t)) k" if "k \<le> length t" for t k
    using that by (simp add: parse_transcript_def bind_result_def)
  have first: "parse_lines D (file_lines (drop c a)) c = Inr (events, n)"
    using assms(2,3) by (simp add: p)
  then have n: "n = length a" using parse_lines_cursor[OF first] assms(2) by simp
  have "parse_transcript D (Inr (a @ b)) c = parse_lines D (file_lines (drop c a) @ file_lines b) c"
    using assms(1,2) by (simp add: p file_lines_append)
  also have "\<dots> = (case parse_lines D (file_lines b) n of Inl e \<Rightarrow> Inl e
      | Inr (later, m) \<Rightarrow> Inr (events @ later, m))"
    by (simp add: parse_lines_append first)
  finally show ?thesis using n by (simp add: p)
qed

text \<open>
  The condition matters: a last line still being written, which does not read as a transcript line
  yet, is consumed as malformed; what is read next starts in its middle, so the events of the whole
  line are in neither read.
\<close>

lemma file_lines_partial:
  assumes "l \<noteq> []" "line_feed \<notin> set l" shows "file_lines l = [l]"
proof (cases l)
  case (Cons c s)
  have all: "\<forall>x\<in>set (c # s). x \<noteq> line_feed" using assms(2) unfolding Cons by blast
  have "takeWhile (\<lambda>x. x \<noteq> line_feed) (c # s) = c # s" "dropWhile (\<lambda>x. x \<noteq> line_feed) (c # s) = []"
    using takeWhile_eq_all_conv [THEN iffD2, OF all] dropWhile_eq_Nil_conv [THEN iffD2, OF all] .
  then show ?thesis unfolding Cons file_lines.simps(2) Let_def by (simp only: take_Nil drop_Nil append_Nil2 file_lines.simps(1))
qed (use assms in simp)

lemma partial_line_lost:
  assumes "l \<noteq> []" "line_feed \<notin> set l" "valid_utf8 l" "read_transcript_line D l = None" "r \<noteq> []"
  shows "parse_transcript D (Inr l) 0 = Inr ([], length l)
    \<and> parse_transcript D (Inr (l @ r)) (length l) = parse_lines D (file_lines r) (length l)"
  using assms
  by (simp add: parse_transcript_def bind_result_def file_lines_partial line_events_def)

text \<open>What is extracted fits: every text was cut.\<close>

lemma parse_lines_capped:
  "parse_lines D ls c = Inr (events, n) \<Longrightarrow> x \<in> set events \<Longrightarrow>
     \<exists>r. xe_event x = Observation r \<and> observation_bytes (json_bytes J) r \<le> max_event_text_bytes + 65"
proof (induction D ls c arbitrary: events n rule: parse_lines.induct)
  case (2 D raw rest c)
  have cut: "length (fst (truncate_event_text t k)) \<le> k + 65" for t k
    by (simp add: truncate_event_text_def)
  have "\<exists>r. te = Observation r \<and> observation_bytes (json_bytes J) r \<le> max_event_text_bytes + 65"
    if "block_event b = Some te" for b te
    using that by (cases b) (auto simp: prompt_assistant_def cut split: if_splits)
  then have "\<exists>r. xe_event y = Observation r \<and> observation_bytes (json_bytes J) r \<le> max_event_text_bytes + 65"
    if "y \<in> set (line_events D raw k)" for y k
    using that line_events_in by blast
  then show ?case using "2.IH"[OF _ refl] "2.prems" unfolding parse_lines_Cons by auto
qed simp

section \<open>The last turn\<close>

definition line_of_type :: "line_reader \<Rightarrow> string \<Rightarrow> string \<Rightarrow> bool" where
  "line_of_type D k raw \<longleftrightarrow> map_option tl_type (read_transcript_line D raw) = Some k"

definition extractable_line :: "line_reader \<Rightarrow> string \<Rightarrow> bool" where
  "extractable_line D raw \<longleftrightarrow>
     (case read_transcript_line D raw of None \<Rightarrow> False | Some l \<Rightarrow> line_has_extractable_assistant_event l)"

text \<open>No run of assistant lines is open after these lines: a user line closed each.\<close>

definition closed_runs :: "line_reader \<Rightarrow> string list \<Rightarrow> bool" where
  "closed_runs D ls \<longleftrightarrow> (\<forall>p r q. ls = p @ r # q \<longrightarrow> line_of_type D ''assistant'' r \<longrightarrow>
     (\<exists>u\<in>set q. line_of_type D ''user'' u))"

definition open_run :: "line_reader \<Rightarrow> string list \<Rightarrow> nat \<Rightarrow> string list \<Rightarrow> bool" where
  "open_run D ls s run \<longleftrightarrow> (\<exists>pre. ls = pre @ run \<and> s = length (concat pre) \<and> closed_runs D pre)
     \<and> run \<noteq> [] \<and> line_of_type D ''assistant'' (hd run) \<and> (\<forall>r\<in>set run. \<not> line_of_type D ''user'' r)"

text \<open>
  The turn that starts at \<open>s\<close>: an unbroken run from its first assistant line, up to the last
  line of the file with an event in it.
\<close>

definition last_turn :: "line_reader \<Rightarrow> string list \<Rightarrow> nat \<Rightarrow> bool" where
  "last_turn D ls s \<longleftrightarrow> (\<exists>before run after. ls = before @ after \<and> open_run D before s run
     \<and> extractable_line D (last run) \<and> (\<forall>r\<in>set after. \<not> extractable_line D r))"

lemma extractable_assistant: "extractable_line D r \<Longrightarrow> line_of_type D ''assistant'' r"
  by (auto simp: extractable_line_def line_of_type_def line_has_extractable_assistant_event_def
      split: option.splits)

lemma closed_runs_Nil [simp]: "closed_runs D []"
  by (simp add: closed_runs_def)

lemma snoc_eq_append_Cons:
  "ls @ [u] = p @ r # q \<longleftrightarrow> q = [] \<and> ls = p \<and> r = u \<or> (\<exists>q'. q = q' @ [u] \<and> ls = p @ r # q')"
  by (cases q rule: rev_cases) auto

lemma closed_runs_snoc:
  "closed_runs D (ls @ [u]) \<longleftrightarrow> line_of_type D ''user'' u \<or> closed_runs D ls \<and> \<not> line_of_type D ''assistant'' u"
proof
  have n: "line_of_type D ''user'' u \<Longrightarrow> \<not> line_of_type D ''assistant'' u" by (auto simp: line_of_type_def)
  assume c: "closed_runs D (ls @ [u])"
  then have "\<not> line_of_type D ''assistant'' u" unfolding closed_runs_def by fastforce
  moreover have "\<exists>v\<in>set q. line_of_type D ''user'' v"
    if "\<not> line_of_type D ''user'' u" "ls = p @ r # q" "line_of_type D ''assistant'' r" for p r q
    using c[unfolded closed_runs_def, rule_format, of p r "q @ [u]"] that by auto
  ultimately show "line_of_type D ''user'' u \<or> closed_runs D ls \<and> \<not> line_of_type D ''assistant'' u"
    unfolding closed_runs_def by blast
next
  have n: "line_of_type D ''user'' u \<Longrightarrow> \<not> line_of_type D ''assistant'' u" by (auto simp: line_of_type_def)
  assume c: "line_of_type D ''user'' u \<or> closed_runs D ls \<and> \<not> line_of_type D ''assistant'' u"
  have "\<exists>v\<in>set q. line_of_type D ''user'' v"
    if e: "ls @ [u] = p @ r # q" and r: "line_of_type D ''assistant'' r" for p r q
    using e[unfolded snoc_eq_append_Cons] c n r unfolding closed_runs_def by auto
  then show "closed_runs D (ls @ [u])" unfolding closed_runs_def by blast
qed

lemma assistant_not_user: "line_of_type D ''assistant'' r \<Longrightarrow> \<not> line_of_type D ''user'' r"
  by (auto simp: line_of_type_def)

lemma open_run_snoc:
  "open_run D ls s run \<Longrightarrow> \<not> line_of_type D ''user'' u \<Longrightarrow> open_run D (ls @ [u]) s (run @ [u])"
  by (auto simp: open_run_def)

lemma open_run_start:
  "closed_runs D ls \<Longrightarrow> line_of_type D ''assistant'' u \<Longrightarrow> open_run D (ls @ [u]) (length (concat ls)) [u]"
  using assistant_not_user by (auto simp: open_run_def)

lemma last_turn_snoc:
  assumes "last_turn D ls s" "\<not> extractable_line D u" shows "last_turn D (ls @ [u]) s"
proof -
  obtain before run after where "ls = before @ after" "open_run D before s run"
    "extractable_line D (last run)" "\<forall>r\<in>set after. \<not> extractable_line D r"
    using assms(1) unfolding last_turn_def by blast
  then show ?thesis using assms(2) unfolding last_turn_def
    by (intro exI[of _ before] exI[of _ run] exI[of _ "after @ [u]"]) auto
qed

lemma last_turn_here: "open_run D ls s run \<Longrightarrow> extractable_line D (last run) \<Longrightarrow> last_turn D ls s"
  unfolding last_turn_def by (intro exI[of _ ls] exI[of _ run] exI[of _ "[]"]) simp

definition run_scanned :: "line_reader \<Rightarrow> string list \<Rightarrow> nat option \<Rightarrow> bool" where
  "run_scanned D seen run \<longleftrightarrow>
     (case run of None \<Rightarrow> closed_runs D seen | Some s \<Rightarrow> \<exists>t. open_run D seen s t)"

definition turn_scanned :: "line_reader \<Rightarrow> string list \<Rightarrow> nat option \<Rightarrow> bool" where
  "turn_scanned D seen turn \<longleftrightarrow>
     (case turn of None \<Rightarrow> \<forall>r\<in>set seen. \<not> extractable_line D r | Some s \<Rightarrow> last_turn D seen s)"

lemma turn_scanned_skip:
  "turn_scanned D seen turn \<Longrightarrow> \<not> extractable_line D u \<Longrightarrow> turn_scanned D (seen @ [u]) turn"
  by (auto simp: turn_scanned_def last_turn_snoc split: option.splits)

lemma run_scanned_skip:
  "run_scanned D seen run \<Longrightarrow> \<not> line_of_type D ''assistant'' u \<Longrightarrow> \<not> line_of_type D ''user'' u \<Longrightarrow>
     run_scanned D (seen @ [u]) run"
  by (auto simp: run_scanned_def closed_runs_snoc intro: open_run_snoc split: option.splits)

lemma run_scanned_assistant:
  assumes "run_scanned D seen run" "line_of_type D ''assistant'' u"
  shows "\<exists>s t. opt_else run (Some (length (concat seen))) = Some s \<and> open_run D (seen @ [u]) s (t @ [u])"
proof (cases run)
  case None
  then show ?thesis using assms open_run_start[of D seen u]
    by (intro exI[of _ "length (concat seen)"] exI[of _ "[]"]) (simp add: run_scanned_def opt_else_def)
next
  case (Some s)
  then show ?thesis using assms open_run_snoc[OF _ assistant_not_user[OF assms(2)]]
    by (auto simp: run_scanned_def opt_else_def)
qed

lemma scan_turn_scanned:
  assumes "scan_turn D ls (length (concat seen)) run turn = Inr x" "run_scanned D seen run"
    "turn_scanned D seen turn"
  shows "turn_scanned D (seen @ ls) x"
  using assms
proof (induction ls arbitrary: seen run turn)
  case (Cons u ls)
  let ?scan = "scan_turn D ls (length (concat (seen @ [u])))"
  have valid: "valid_utf8 u" using Cons.prems(1) by (auto split: if_splits)
  note kind = line_of_type_def extractable_line_def
  have goal: ?case if "?scan run' turn' = Inr x" "run_scanned D (seen @ [u]) run'" "turn_scanned D (seen @ [u]) turn'"
    for run' turn' using Cons.IH[OF that] by simp
  consider (skip) "\<not> line_of_type D ''assistant'' u" "\<not> line_of_type D ''user'' u" "?scan run turn = Inr x"
    | (user) "line_of_type D ''user'' u" "?scan None turn = Inr x"
    | (assistant) l where "line_of_type D ''assistant'' u" "read_transcript_line D u = Some l"
        "?scan (opt_else run (Some (length (concat seen))))
          (if extractable_line D u then opt_else run (Some (length (concat seen))) else turn) = Inr x"
    using Cons.prems(1) valid by (cases "read_transcript_line D u") (auto simp: Let_def kind split: if_splits)
  then show ?case
  proof cases
    case skip
    with goal[OF skip(3)] Cons.prems show ?thesis
      using run_scanned_skip turn_scanned_skip extractable_assistant by blast
  next
    case user
    have "run_scanned D (seen @ [u]) None" using user by (simp add: run_scanned_def closed_runs_snoc)
    moreover have "\<not> extractable_line D u" using user assistant_not_user extractable_assistant by blast
    ultimately show ?thesis using goal[OF user(2)] Cons.prems turn_scanned_skip by blast
  next
    case assistant
    obtain s t where s: "opt_else run (Some (length (concat seen))) = Some s" "open_run D (seen @ [u]) s (t @ [u])"
      using run_scanned_assistant[OF Cons.prems(2) assistant(1)] by blast
    have "run_scanned D (seen @ [u]) (Some s)" using s(2) by (auto simp: run_scanned_def)
    moreover have "turn_scanned D (seen @ [u]) (if extractable_line D u then Some s else turn)"
      using turn_scanned_skip[OF Cons.prems(3)] last_turn_here[OF s(2)] by (simp add: turn_scanned_def)
    ultimately show ?thesis using goal assistant(3) unfolding s(1) by blast
  qed
qed simp

text \<open>What the scan finds is the start of the last turn, or there is no event in the file.\<close>

lemma last_assistant_turn_start_exact:
  assumes "last_assistant_turn_start D (Inr bytes) = Inr x"
  shows "case x of None \<Rightarrow> \<forall>r\<in>set (file_lines bytes). \<not> extractable_line D r
    | Some s \<Rightarrow> last_turn D (file_lines bytes) s"
  using scan_turn_scanned[of D "file_lines bytes" "[]" None None x] assms
  by (simp add: last_assistant_turn_start_def bind_result_def run_scanned_def turn_scanned_def)

end
