(* ===== verification/Claude_Cursor.thy ===== *)
theory Claude_Cursor
  imports Claude_Transcript
begin

text \<open>
  The offsets of \<open>crates/hooks/claude/src/transcript.rs\<close>: a directory with one small file per
  session for how far its transcript was adjudicated, one more when an adjudication has to be
  tried again, and a marker of when old files were last removed. A file is its text and the
  second it was written in.
\<close>

record cursor_dir =
  cd_files :: "string \<Rightarrow> (string \<times> nat) option"
  cd_home :: bool
  cd_writable :: bool
  cd_now :: nat

text \<open>
  \<open>cd_home\<close>: the home directory is known and the directory exists in it or can be made;
  \<open>cd_writable\<close>: files can be written and renamed in it.
\<close>

definition cursor_retention :: nat where "cursor_retention = 60 * 60 * 24 * 30"
definition cursor_prune_interval :: nat where "cursor_prune_interval = 60 * 60 * 24"
definition cursor_prune_marker :: string where "cursor_prune_marker = ''.last_prune''"

definition cursor_dir_of :: "cursor_dir \<Rightarrow> hook_error + unit" where
  "cursor_dir_of d =
     (if cd_home d then Inr () else Inl (HeMessage ''Could not determine home directory''))"

definition cursor_path :: "cursor_dir \<Rightarrow> string \<Rightarrow> hook_error + string" where
  "cursor_path d session = bind_result (cursor_dir_of d) (\<lambda>_. Inr (session @ ''.cursor''))"

definition retry_cursor_path :: "cursor_dir \<Rightarrow> string \<Rightarrow> hook_error + string" where
  "retry_cursor_path d session = bind_result (cursor_dir_of d) (\<lambda>_. Inr (session @ ''.retry.cursor''))"

section \<open>Removing old files\<close>

text \<open>\<open>path.extension() == Some("cursor")\<close>: a name before the last dot, and \<open>cursor\<close> after it.\<close>

definition cursor_file_name :: "string \<Rightarrow> bool" where
  "cursor_file_name name \<longleftrightarrow> 7 < length name \<and> drop (length name - 7) name = ''.cursor''"

definition prune_stale_cursor_files :: "cursor_dir \<Rightarrow> cursor_dir" where
  "prune_stale_cursor_files d = d\<lparr>cd_files := (\<lambda>name. case cd_files d name of
       None \<Rightarrow> None
     | Some (text, modified) \<Rightarrow>
         if cursor_file_name name \<and> modified + cursor_retention < cd_now d then None
         else Some (text, modified))\<rparr>"

text \<open>The marker's age is known when it exists and was not written in the future.\<close>

definition maybe_prune_stale_cursor_files :: "cursor_dir \<Rightarrow> cursor_dir" where
  "maybe_prune_stale_cursor_files d =
     (let should_prune = (case cd_files d cursor_prune_marker of
            None \<Rightarrow> True
          | Some (_, modified) \<Rightarrow> cd_now d < modified \<or> cursor_prune_interval \<le> cd_now d - modified)
      in if \<not> should_prune then d
         else let d' = prune_stale_cursor_files d in
           if cd_writable d then d'\<lparr>cd_files := (cd_files d')(cursor_prune_marker \<mapsto> ([], cd_now d))\<rparr> else d')"

section \<open>Reading and writing\<close>

definition read_offset_if_present :: "cursor_dir \<Rightarrow> hook_error + string \<Rightarrow> nat option" where
  "read_offset_if_present d path =
     (case path of
        Inl _ \<Rightarrow> None
      | Inr name \<Rightarrow> (case cd_files d name of None \<Rightarrow> None | Some (text, _) \<Rightarrow> parse_u64 (trim text)))"

definition read_cursor_if_present :: "cursor_dir \<Rightarrow> string \<Rightarrow> nat option" where
  "read_cursor_if_present d session = read_offset_if_present d (cursor_path d session)"

definition read_cursor :: "cursor_dir \<Rightarrow> string \<Rightarrow> nat" where
  "read_cursor d session = unwrap_or (read_cursor_if_present d session) 0"

definition read_retry_cursor_if_present :: "cursor_dir \<Rightarrow> string \<Rightarrow> nat option" where
  "read_retry_cursor_if_present d session = read_offset_if_present d (retry_cursor_path d session)"

definition read_retry_cursor_if_active :: "cursor_dir \<Rightarrow> string \<Rightarrow> nat \<Rightarrow> nat option" where
  "read_retry_cursor_if_active d session transcript_len =
     Option.bind (read_retry_cursor_if_present d session)
       (\<lambda>cursor. if cursor < transcript_len then Some cursor else None)"

text \<open>
  \<open>write_offset\<close> writes a temporary file and renames it: the old file stays when either fails.
\<close>

definition write_offset :: "cursor_dir \<Rightarrow> string \<Rightarrow> nat \<Rightarrow> (hook_error + unit) \<times> cursor_dir" where
  "write_offset d name offset =
     (if \<not> cd_writable d then (Inl (HeIo ''write failed''), d)
      else (Inr (), maybe_prune_stale_cursor_files
        (d\<lparr>cd_files := (cd_files d)(name \<mapsto> (nat_to_string offset, cd_now d))\<rparr>)))"

definition write_cursor :: "cursor_dir \<Rightarrow> string \<Rightarrow> nat \<Rightarrow> (hook_error + unit) \<times> cursor_dir" where
  "write_cursor d session offset =
     (case cursor_path d session of Inl e \<Rightarrow> (Inl e, d) | Inr name \<Rightarrow> write_offset d name offset)"

definition write_retry_cursor :: "cursor_dir \<Rightarrow> string \<Rightarrow> nat \<Rightarrow> (hook_error + unit) \<times> cursor_dir" where
  "write_retry_cursor d session offset =
     (case retry_cursor_path d session of Inl e \<Rightarrow> (Inl e, d) | Inr name \<Rightarrow> write_offset d name offset)"

definition remove_retry_cursor :: "cursor_dir \<Rightarrow> string \<Rightarrow> cursor_dir" where
  "remove_retry_cursor d session =
     (case retry_cursor_path d session of Inl _ \<Rightarrow> d
      | Inr name \<Rightarrow> if cd_writable d then d\<lparr>cd_files := (cd_files d)(name := None)\<rparr> else d)"

definition remove_cursor :: "cursor_dir \<Rightarrow> string \<Rightarrow> cursor_dir" where
  "remove_cursor d session =
     remove_retry_cursor
       (case cursor_path d session of Inl _ \<Rightarrow> d
        | Inr name \<Rightarrow> if cd_writable d then d\<lparr>cd_files := (cd_files d)(name := None)\<rparr> else d) session"

section \<open>The contract\<close>

text \<open>What is written is read back, in decimal.\<close>

lemma nat_to_string_digits: "nat_to_string n \<noteq> [] \<and> list_all is_digit (nat_to_string n) \<and> digits_value (nat_to_string n) = n"
proof (induction n rule: nat_to_string.induct)
  case (1 n)
  have d: "byte (char_of (48 + k) :: char) - 48 = k" "is_digit (char_of (48 + k) :: char)" if "k < 10" for k :: nat
    using that by (simp_all add: is_digit_def)
  show ?case
  proof (cases "n < 10")
    case True
    then show ?thesis by (simp add: nat_to_string.simps[of n] digits_value_def d)
  next
    case False
    have m: "n mod 10 < 10" by simp
    show ?thesis using 1[OF False] d[OF m] False
      by (simp add: nat_to_string.simps[of n] digits_value_def)
  qed
qed

lemma is_digit_plain: "is_digit c \<Longrightarrow> is_ascii c \<and> \<not> is_whitespace [c] \<and> c \<noteq> CHR ''+''"
  by (auto simp: is_digit_def is_ascii_def is_whitespace_def)

lemma dropWhile_none: "list_all (\<lambda>x. \<not> P x) xs \<Longrightarrow> dropWhile P xs = xs"
  by (cases xs) simp_all

lemma trim_plain:
  assumes "list_all (\<lambda>c. is_ascii c \<and> \<not> is_whitespace [c]) s" shows "trim s = s"
proof -
  have "list_all is_ascii s" using assms by (simp add: list_all_iff)
  then have "utf8_chars s = map (\<lambda>c. [c]) s"
  proof (induction s)
    case (Cons c s)
    have "\<not> is_cont x" if "is_ascii x" for x using that by (simp add: is_ascii_def is_cont_def)
    then have "takeWhile is_cont s = []" "dropWhile is_cont s = s" using Cons.prems by (cases s; simp)+
    then show ?case using Cons by simp
  qed simp
  moreover have "list_all (\<lambda>x. \<not> is_whitespace x) (map (\<lambda>c. [c]) s)" using assms by (simp add: list_all_iff)
  ultimately show ?thesis by (simp add: trim_def dropWhile_none list_all_rev o_def)
qed

lemma offset_round_trip: "n < 2 ^ 64 \<Longrightarrow> parse_u64 (trim (nat_to_string n)) = Some n"
proof -
  assume n: "n < 2 ^ 64"
  note d = nat_to_string_digits[of n]
  have "list_all (\<lambda>c. is_ascii c \<and> \<not> is_whitespace [c]) (nat_to_string n)"
    using d is_digit_plain by (simp add: list_all_iff)
  moreover obtain c t where "nat_to_string n = c # t" "c \<noteq> CHR ''+''"
    using d is_digit_plain by (cases "nat_to_string n") auto
  ultimately show ?thesis using d n by (simp add: trim_plain parse_u64_def Let_def)
qed

text \<open>Removing old files touches the marker and old cursors only.\<close>

lemma prune_keeps:
  assumes "cd_files d name = Some (text, modified)" "cd_now d \<le> modified + cursor_retention"
    "name \<noteq> cursor_prune_marker"
  shows "cd_files (maybe_prune_stale_cursor_files d) name = Some (text, modified)"
  using assms by (simp add: maybe_prune_stale_cursor_files_def prune_stale_cursor_files_def Let_def)

lemma prune_absent:
  "cd_files d name = None \<Longrightarrow> name \<noteq> cursor_prune_marker \<Longrightarrow>
     cd_files (maybe_prune_stale_cursor_files d) name = None"
  by (simp add: maybe_prune_stale_cursor_files_def prune_stale_cursor_files_def Let_def)

lemma prune_rest [simp]:
  "cd_home (maybe_prune_stale_cursor_files d) = cd_home d"
  "cd_writable (maybe_prune_stale_cursor_files d) = cd_writable d"
  "cd_now (maybe_prune_stale_cursor_files d) = cd_now d"
  by (simp_all add: maybe_prune_stale_cursor_files_def prune_stale_cursor_files_def Let_def)

lemma not_marker: "session @ ''.cursor'' \<noteq> cursor_prune_marker" "session @ ''.retry.cursor'' \<noteq> cursor_prune_marker"
proof -
  have "last (s @ ''.cursor'') \<noteq> last cursor_prune_marker" for s :: string
    by (simp add: cursor_prune_marker_def)
  then show "session @ ''.cursor'' \<noteq> cursor_prune_marker" by metis
  have "last (s @ ''.retry.cursor'') \<noteq> last cursor_prune_marker" for s :: string
    by (simp add: cursor_prune_marker_def)
  then show "session @ ''.retry.cursor'' \<noteq> cursor_prune_marker" by metis
qed

lemma write_cursor_Inr:
  assumes "write_cursor d session n = (Inr (), d')" "n < 2 ^ 64"
  shows "read_cursor_if_present d' session = Some n" "cd_home d'" "cd_writable d'" "cd_now d' = cd_now d"
proof -
  have h: "cd_home d" and w: "cd_writable d" and d': "d' = maybe_prune_stale_cursor_files
      (d\<lparr>cd_files := (cd_files d)(session @ ''.cursor'' \<mapsto> (nat_to_string n, cd_now d))\<rparr>)"
    using assms(1) by (auto simp: write_cursor_def cursor_path_def cursor_dir_of_def bind_result_def
        write_offset_def split: if_splits)
  show "cd_home d'" "cd_writable d'" "cd_now d' = cd_now d" using h w d' by simp_all
  have "cd_files d' (session @ ''.cursor'') = Some (nat_to_string n, cd_now d)"
    unfolding d' by (rule prune_keeps) (simp_all add: not_marker)
  then show "read_cursor_if_present d' session = Some n"
    using h d' by (simp add: read_cursor_if_present_def read_offset_if_present_def cursor_path_def
        cursor_dir_of_def bind_result_def offset_round_trip[OF assms(2)])
qed

lemma write_retry_cursor_Inr:
  assumes "write_retry_cursor d session n = (Inr (), d')" "n < 2 ^ 64"
  shows "read_retry_cursor_if_present d' session = Some n"
proof -
  have h: "cd_home d" and d': "d' = maybe_prune_stale_cursor_files
      (d\<lparr>cd_files := (cd_files d)(session @ ''.retry.cursor'' \<mapsto> (nat_to_string n, cd_now d))\<rparr>)"
    using assms(1) by (auto simp: write_retry_cursor_def retry_cursor_path_def cursor_dir_of_def bind_result_def
        write_offset_def split: if_splits)
  have "cd_files d' (session @ ''.retry.cursor'') = Some (nat_to_string n, cd_now d)"
    unfolding d' by (rule prune_keeps) (simp_all add: not_marker)
  then show ?thesis
    using h d' by (simp add: read_retry_cursor_if_present_def read_offset_if_present_def retry_cursor_path_def
        cursor_dir_of_def bind_result_def offset_round_trip[OF assms(2)])
qed

lemma remove_retry_cursor_gone:
  "cd_writable d \<Longrightarrow> read_retry_cursor_if_present (remove_retry_cursor d session) session = None"
  by (simp add: remove_retry_cursor_def read_retry_cursor_if_present_def read_offset_if_present_def
      retry_cursor_path_def cursor_dir_of_def bind_result_def)

lemma remove_retry_cursor_keeps:
  "read_cursor_if_present (remove_retry_cursor d session) session = read_cursor_if_present d session"
  by (simp add: remove_retry_cursor_def read_cursor_if_present_def read_offset_if_present_def
      cursor_path_def retry_cursor_path_def cursor_dir_of_def bind_result_def)

text \<open>The two files of one session are different files, but not those of any two sessions.\<close>

lemma cursor_paths_clash: "cursor_path d (session @ ''.retry'') = retry_cursor_path d session"
  by (simp add: cursor_path_def retry_cursor_path_def)

end
