(* ===== verification/Claude_Stop.thy ===== *)
theory Claude_Stop
  imports Claude_Response Claude_Cursor
begin

text \<open>
  The Stop hook of Claude Code (\<open>crates/hooks/claude/src/hooks.rs\<close>): wait until the reply the user
  saw is in the transcript, read the assistant's turn from where the last Stop ended, have it
  adjudicated in batches, and keep the offset to go on from or to try again from. A Stop is never
  blocked.

  The file and the clock are what the hook sees of them: \<open>cl_transcript i\<close> is the transcript at the
  \<open>i\<close>-th look (one look does not see the file change), \<open>cl_poll_cost i\<close> the milliseconds the \<open>i\<close>-th
  poll takes. The cursor files change only by this hook, while it runs.
\<close>

section \<open>What the hook needs\<close>

text \<open>\<open>HarnessClient\<close>: one event, or a batch.\<close>

record 'w harness_client =
  hc_adjudicate :: "'w client"
  hc_adjudicates :: "event list \<Rightarrow> 'w \<Rightarrow> (harness_client_error + adjudicated list) future \<times> 'w"

text \<open>A look at the transcript: its metadata and its content may each fail to be read.\<close>

record transcript_view =
  vw_len :: "hook_error + nat"
  vw_file :: "hook_error + string"

record cl_env =
  cl_agent_id :: string
  cl_fresh :: "nat \<Rightarrow> fresh"
  cl_json_text :: json_writer
  cl_files :: file_system
  cl_home_dir :: "string option"
  cl_current_dir :: "string option"
  cl_canonicalize :: "string \<Rightarrow> string option"
  cl_hash :: "string \<Rightarrow> string"
  cl_lines :: line_reader
  cl_transcript :: "nat \<Rightarrow> transcript_view"
  cl_poll_cost :: "nat \<Rightarrow> nat"
  cl_catchup_timeout :: nat

definition cl_agent :: "cl_env \<Rightarrow> agent" where
  "cl_agent V = \<lparr>ag_id = cl_agent_id V, ag_provider = ''anthropic'', ag_platform = ''claude-code''\<rparr>"

definition cl_event :: "cl_env \<Rightarrow> nat \<Rightarrow> string \<Rightarrow> trajectory_event \<Rightarrow> event" where
  "cl_event V i session te = event_new (cl_fresh V i) (cl_agent V) session te"

record cl_stop_event =
  clk_session_id :: string
  clk_transcript_path :: string
  clk_stop_hook_active :: bool
  clk_last_assistant_message :: "string option"

definition stop_transcript_adjudicate_timeout :: nat where
  "stop_transcript_adjudicate_timeout = 2"

definition stop_transcript_catchup_timeout :: nat where
  "stop_transcript_catchup_timeout = 2000" \<comment> \<open>milliseconds\<close>

definition stop_transcript_catchup_poll_interval :: nat where
  "stop_transcript_catchup_poll_interval = 10"

definition stop_transcript_adjudicate_batch_size :: nat where
  "stop_transcript_adjudicate_batch_size = 32"

record pending_transcript_event =
  pte_event :: event
  pte_cursor_start :: nat
  pte_cursor_after_line :: nat

section \<open>Where to read from\<close>

datatype stop_read_plan = NoAssistantTurn nat | ReadFrom nat

definition resolve_stop_read_plan ::
  "line_reader \<Rightarrow> transcript_view \<Rightarrow> cursor_dir \<Rightarrow> string \<Rightarrow> hook_error + stop_read_plan" where
  "resolve_stop_read_plan D view d session =
     bind_result (vw_len view) (\<lambda>transcript_len.
     bind_result (last_assistant_turn_start D (vw_file view)) (\<lambda>start.
       case start of
         None \<Rightarrow> Inr (NoAssistantTurn transcript_len)
       | Some last_turn_start \<Rightarrow>
           Inr (ReadFrom
             (case read_retry_cursor_if_active d session transcript_len of
                Some cursor \<Rightarrow> cursor
              | None \<Rightarrow>
                  (case read_cursor_if_present d session of
                     Some cursor \<Rightarrow> if last_turn_start < cursor \<and> cursor \<le> transcript_len
                       then cursor else last_turn_start
                   | None \<Rightarrow> last_turn_start)))))"

section \<open>Waiting for the reply\<close>

text \<open>The errors of the polls: how many, and the last one.\<close>

type_synonym poll_errors = "nat \<times> string option"

definition note_poll_error :: "poll_errors \<Rightarrow> string \<Rightarrow> poll_errors" where
  "note_poll_error errs message = (fst errs + 1, Some message)"

text \<open>
  One poll: the reply landed and is to be read from an offset, or the length to skip the next
  look at, if the file does not grow, and the errors so far.
\<close>

datatype poll = Landed nat | Waiting "nat option" poll_errors

definition poll_once ::
  "line_reader \<Rightarrow> transcript_view \<Rightarrow> cursor_dir \<Rightarrow> string \<Rightarrow> string \<Rightarrow> nat option \<Rightarrow> poll_errors \<Rightarrow> poll" where
  "poll_once D view d session expected checked errs =
     (case vw_len view of
        Inl err \<Rightarrow> Waiting None (note_poll_error errs
          (''Failed to stat Claude transcript while waiting for Stop reply: '' @ hook_error_display err))
      | Inr len \<Rightarrow>
          if checked = Some len then Waiting checked errs
          else (case resolve_stop_read_plan D view d session of
              Inl err \<Rightarrow> Waiting None (note_poll_error errs
                (''Failed to resolve Claude Stop read offset while waiting: '' @ hook_error_display err))
            | Inr (NoAssistantTurn _) \<Rightarrow> Waiting (Some len) errs
            | Inr (ReadFrom cursor) \<Rightarrow>
                (case newest_assistant_reply D (vw_file view) cursor of
                   Inl err \<Rightarrow> Waiting None (note_poll_error errs
                     (''Failed to read Claude transcript while waiting for Stop reply: '' @ hook_error_display err))
                 | Inr None \<Rightarrow> Waiting (Some len) errs
                 | Inr (Some reply) \<Rightarrow>
                     if trim reply = expected then Landed cursor else Waiting (Some len) errs)))"

text \<open>
  The loop, from the \<open>i\<close>-th look and the milliseconds elapsed; with its result, the look it ended
  with and the time.
\<close>

function poll_from ::
  "cl_env \<Rightarrow> cursor_dir \<Rightarrow> string \<Rightarrow> string \<Rightarrow> nat \<Rightarrow> nat \<Rightarrow> nat option \<Rightarrow> poll_errors
     \<Rightarrow> (poll_errors + nat) \<times> nat \<times> nat" where
  "poll_from V d session expected i elapsed checked errs =
     (let now = elapsed + cl_poll_cost V i in
      case poll_once (cl_lines V) (cl_transcript V i) d session expected checked errs of
        Landed cursor \<Rightarrow> (Inr cursor, i, now)
      | Waiting checked' errs' \<Rightarrow>
          if cl_catchup_timeout V \<le> now then (Inl errs', i, now)
          else poll_from V d session expected (i + 1) (now + stop_transcript_catchup_poll_interval)
            checked' errs')"
  by pat_completeness auto
termination
  by (relation "measure (\<lambda>(V, _, _, _, _, elapsed, _, _). cl_catchup_timeout V - elapsed)")
    (auto simp: stop_transcript_catchup_poll_interval_def)

declare poll_from.simps [simp del]

definition wait_for_transcript_catch_up ::
  "cl_env \<Rightarrow> cursor_dir \<Rightarrow> string \<Rightarrow> string \<Rightarrow> (poll_errors + nat) \<times> nat \<times> nat" where
  "wait_for_transcript_catch_up V d session expected =
     poll_from V d session (trim (fst (truncate_event_text expected max_event_text_bytes))) 0 0 None (0, None)"

section \<open>Reading\<close>

definition read_stop_events_from ::
  "cl_env \<Rightarrow> transcript_view \<Rightarrow> string \<Rightarrow> nat \<Rightarrow> cursor_dir
     \<Rightarrow> (hook_error + pending_transcript_event list) \<times> cursor_dir" where
  "read_stop_events_from V view session cursor d =
     (case parse_transcript (cl_lines V) (vw_file view) cursor of
        Inl e \<Rightarrow> (Inl e, d)
      | Inr (extracted, new_cursor) \<Rightarrow>
          if extracted = [] then
            (case (if new_cursor \<noteq> cursor then write_cursor d session new_cursor else (Inr (), d)) of
               (Inl e, d') \<Rightarrow> (Inl e, d')
             | (Inr _, d') \<Rightarrow> (Inr [], remove_retry_cursor d' session))
          else (Inr (map (\<lambda>(i, x). \<lparr>pte_event = with_timestamp (cl_event V i session (xe_event x)) (xe_timestamp x),
              pte_cursor_start = cursor, pte_cursor_after_line = xe_cursor_after_line x\<rparr>)
            (enumerate 0 extracted)), d))"

definition extract_transcript_events ::
  "cl_env \<Rightarrow> string \<Rightarrow> cursor_dir \<Rightarrow> (hook_error + pending_transcript_event list) \<times> cursor_dir" where
  "extract_transcript_events V session d =
     (case resolve_stop_read_plan (cl_lines V) (cl_transcript V 0) d session of
        Inl e \<Rightarrow> (Inl e, d)
      | Inr (NoAssistantTurn transcript_len) \<Rightarrow>
          (case write_cursor d session transcript_len of
             (Inl e, d') \<Rightarrow> (Inl e, d')
           | (Inr _, d') \<Rightarrow> (Inr [], remove_retry_cursor d' session))
      | Inr (ReadFrom cursor) \<Rightarrow> read_stop_events_from V (cl_transcript V 1) session cursor d)"

section \<open>Recording the reply of the payload\<close>

text \<open>
  \<open>tokio::time::timeout\<close> around a call whose result is only logged: done at the latest when the
  time is over, unless the call panics.
\<close>

definition within :: "nat \<Rightarrow> 'a future \<Rightarrow> (hook_error + unit) future" where
  "within limit fut = (case timeout_at limit 0 fut of Value t _ \<Rightarrow> Ready t (Inr ()) | Unwinds t \<Rightarrow> Panics t)"

definition record_last_assistant_message ::
  "cl_env \<Rightarrow> 'w harness_client \<Rightarrow> cl_stop_event \<Rightarrow> string \<Rightarrow> 'w \<Rightarrow> (hook_error + unit) future \<times> 'w" where
  "record_last_assistant_message V C e message w =
     (let body = fst (truncate_event_text message max_event_text_bytes);
          ev = cl_event V 0 (clk_session_id e) (Observation (Prompt (prompt_assistant body)))
      in case hc_adjudicate C ev w of (fut, w') \<Rightarrow> (within stop_transcript_adjudicate_timeout fut, w'))"

text \<open>A retry cursor that will re-read this turn keeps the payload from being recorded twice.\<close>

definition retry_pending ::
  "line_reader \<Rightarrow> transcript_view \<Rightarrow> string \<Rightarrow> cursor_dir \<Rightarrow> bool \<times> cursor_dir" where
  "retry_pending D view session d =
     (case vw_len view of
        Inl _ \<Rightarrow> (read_retry_cursor_if_present d session \<noteq> None, d)
      | Inr transcript_len \<Rightarrow>
          if last_assistant_turn_start D (vw_file view) = Inr None
          then (False, remove_retry_cursor (snd (write_cursor d session transcript_len)) session)
          else (read_retry_cursor_if_active d session transcript_len \<noteq> None, d))"

definition handle_catch_up_timeout ::
  "cl_env \<Rightarrow> 'w harness_client \<Rightarrow> cl_stop_event \<Rightarrow> string \<Rightarrow> transcript_view \<Rightarrow> 'w \<times> cursor_dir
     \<Rightarrow> (hook_error + unit) future \<times> 'w \<times> cursor_dir" where
  "handle_catch_up_timeout V C e reply view = (\<lambda>(w, d).
     case retry_pending (cl_lines V) view (clk_session_id e) d of
       (True, d') \<Rightarrow> (Ready 0 (Inr ()), w, d')
     | (False, d') \<Rightarrow>
         (case record_last_assistant_message V C e reply w of (fut, w') \<Rightarrow> (fut, w', d')))"

section \<open>The events of a Stop\<close>

text \<open>A parse failure is logged and gives no events.\<close>

definition logged_events ::
  "(hook_error + pending_transcript_event list) \<times> cursor_dir \<Rightarrow> pending_transcript_event list \<times> cursor_dir" where
  "logged_events r = ((case fst r of Inl _ \<Rightarrow> [] | Inr events \<Rightarrow> events), snd r)"

definition collect_stop_events ::
  "cl_env \<Rightarrow> 'w harness_client \<Rightarrow> cl_stop_event
     \<Rightarrow> (pending_transcript_event list, 'w \<times> cursor_dir) handler" where
  "collect_stop_events V C e = (\<lambda>(w, d).
     let expected = Option.bind (clk_last_assistant_message e)
           (\<lambda>reply. if trim reply = [] then None else Some reply)
     in if clk_transcript_path e = [] then
          (case expected of
             None \<Rightarrow> (Ready 0 (Inr []), w, d)
           | Some reply \<Rightarrow>
               and_next (\<lambda>(w, d). case record_last_assistant_message V C e reply w of (fut, w') \<Rightarrow> (fut, w', d))
                 (\<lambda>_. answer (Inr [])) (w, d))
        else case expected of
          Some reply \<Rightarrow>
            (case wait_for_transcript_catch_up V d (clk_session_id e) reply of
               (Inr cursor, i, elapsed) \<Rightarrow>
                 (case logged_events (read_stop_events_from V (cl_transcript V (i + 1)) (clk_session_id e) cursor d)
                  of (events, d') \<Rightarrow> (Ready (elapsed div 1000) (Inr events), w, d'))
             | (Inl _, i, elapsed) \<Rightarrow>
                 and_next (\<lambda>w. (Ready (elapsed div 1000) (Inr ()), w))
                   (\<lambda>_. and_next (handle_catch_up_timeout V C e reply (cl_transcript V (i + 1)))
                      (\<lambda>_. answer (Inr []))) (w, d))
        | None \<Rightarrow>
            (case logged_events (extract_transcript_events V (clk_session_id e) d) of
               (events, d') \<Rightarrow> (Ready 0 (Inr events), w, d')))"

section \<open>Batches\<close>

definition adjudicate_stop_batch ::
  "'w harness_client \<Rightarrow> event list \<Rightarrow> 'w \<Rightarrow> (harness_client_error + adjudicated list) future \<times> 'w" where
  "adjudicate_stop_batch C events = and_next (hc_adjudicates C events) (\<lambda>adjudications w. (Ready 0
     (if length adjudications \<noteq> length events
      then Inl (HceDecode (''Expected '' @ nat_to_string (length events)
        @ '' Stop transcript adjudications, received '' @ nat_to_string (length adjudications)))
      else Inr adjudications), w))"

text \<open>
  The loop over the events with the batch filled so far, in the seconds left: a future that is
  not done by then is dropped, and no further batch is sent.
\<close>

definition send_batch ::
  "'w harness_client \<Rightarrow> nat \<Rightarrow> event list \<Rightarrow> (nat \<Rightarrow> 'w \<Rightarrow> (harness_client_error + unit) future \<times> 'w)
     \<Rightarrow> 'w \<Rightarrow> (harness_client_error + unit) future \<times> 'w" where
  "send_batch C left batch next w =
     (case adjudicate_stop_batch C batch w of
        (Ready n (Inr _), w') \<Rightarrow>
          if left < n then (Never, w')
          else (case next (left - n) w' of (fut, w'') \<Rightarrow> (and_then (Ready n ()) (\<lambda>_. fut), w''))
      | (Ready n (Inl e), w') \<Rightarrow> (Ready n (Inl e), w')
      | (Panics n, w') \<Rightarrow> (Panics n, w')
      | (Never, w') \<Rightarrow> (Never, w'))"

fun stop_batches ::
  "'w harness_client \<Rightarrow> nat \<Rightarrow> event list \<Rightarrow> event list \<Rightarrow> 'w \<Rightarrow> (harness_client_error + unit) future \<times> 'w" where
  "stop_batches C left batch [] w =
     (if batch = [] then (Ready 0 (Inr ()), w)
      else send_batch C left batch (\<lambda>_ w. (Ready 0 (Inr ()), w)) w)"
| "stop_batches C left batch (ev # rest) w =
     (let batch' = batch @ [ev] in
      if length batch' = stop_transcript_adjudicate_batch_size
      then send_batch C left batch' (\<lambda>left. stop_batches C left [] rest) w
      else stop_batches C left batch' rest w)"

definition adjudicate_stop_transcript_events ::
  "'w harness_client \<Rightarrow> string \<Rightarrow> pending_transcript_event list \<Rightarrow> (unit, 'w \<times> cursor_dir) handler" where
  "adjudicate_stop_transcript_events C session events = (\<lambda>(w, d).
     if events = [] then (Ready 0 (Inr ()), w, d)
     else let retry_cursor = pte_cursor_start (hd events);
              cursor_after_line = pte_cursor_after_line (last events)
       in case stop_batches C stop_transcript_adjudicate_timeout [] (map pte_event events) w of
         (fut, w') \<Rightarrow>
           (case timeout_at stop_transcript_adjudicate_timeout 0 fut of
              Value t (Some (Inr _)) \<Rightarrow>
                (case write_cursor d session cursor_after_line of
                   (Inl e, d') \<Rightarrow> (Ready t (Inl e), w', d')
                 | (Inr _, d') \<Rightarrow> (Ready t (Inr ()), w', remove_retry_cursor d' session))
            | Value t _ \<Rightarrow> (Ready t (Inr ()), w', snd (write_retry_cursor d session retry_cursor))
            | Unwinds t \<Rightarrow> (Panics t, w', d)))"

definition handle_stop ::
  "cl_env \<Rightarrow> 'w harness_client \<Rightarrow> cl_stop_event \<Rightarrow> (cl_response, 'w \<times> cursor_dir) handler" where
  "handle_stop V C e =
     (if clk_stop_hook_active e then answer (Inr cl_allow)
      else and_next (collect_stop_events V C e) (\<lambda>events.
        and_next (adjudicate_stop_transcript_events C (clk_session_id e) events) (\<lambda>_. answer (Inr cl_allow))))"

text \<open>A Stop is never denied.\<close>

lemma handle_stop_allows: "handle_stop V C e s = (Ready k (Inr r), s') \<Longrightarrow> r = cl_allow"
  unfolding handle_stop_def by (auto simp: answer_Inr split: if_splits dest!: and_next_Inr)

section \<open>Every event, in bounded batches\<close>

fun batches_answered :: "'w harness_client \<Rightarrow> event list list \<Rightarrow> 'w \<Rightarrow> 'w \<Rightarrow> bool" where
  "batches_answered C [] w w' \<longleftrightarrow> w = w'"
| "batches_answered C (b # bs) w w' \<longleftrightarrow>
     (\<exists>n as w1. hc_adjudicates C b w = (Ready n (Inr as), w1) \<and> length as = length b
        \<and> batches_answered C bs w1 w')"

definition adjudicated_in_batches :: "'w harness_client \<Rightarrow> event list \<Rightarrow> 'w \<Rightarrow> 'w \<Rightarrow> bool" where
  "adjudicated_in_batches C events w w' \<longleftrightarrow>
     (\<exists>bs. concat bs = events \<and> (\<forall>b\<in>set bs. b \<noteq> [] \<and> length b \<le> stop_transcript_adjudicate_batch_size)
        \<and> batches_answered C bs w w')"

lemma adjudicate_stop_batch_Inr:
  "adjudicate_stop_batch C b w = (Ready n (Inr as), w') \<Longrightarrow>
     \<exists>m. hc_adjudicates C b w = (Ready m (Inr as), w') \<and> length as = length b"
  unfolding adjudicate_stop_batch_def by (drule and_next_Inr) (auto split: if_splits)

lemma send_batch_Inr:
  assumes "send_batch C left b next w = (Ready k (Inr ()), w')"
  shows "\<exists>n as w1 l m. hc_adjudicates C b w = (Ready n (Inr as), w1) \<and> length as = length b
    \<and> next l w1 = (Ready m (Inr ()), w')"
proof -
  from assms obtain n as w1 where a: "adjudicate_stop_batch C b w = (Ready n (Inr as), w1)"
    by (auto simp: send_batch_def split: prod.splits future.splits sum.splits)
  then have "\<exists>m. next (left - n) w1 = (Ready m (Inr ()), w')"
    using assms by (auto simp: send_batch_def and_then_def split: if_splits prod.splits future.splits)
  with adjudicate_stop_batch_Inr[OF a] show ?thesis by blast
qed

lemma adjudicated_Cons:
  assumes "hc_adjudicates C b w = (Ready n (Inr as), w1)" "length as = length b" "b \<noteq> []"
    "length b \<le> stop_transcript_adjudicate_batch_size" "adjudicated_in_batches C rest w1 w'"
  shows "adjudicated_in_batches C (b @ rest) w w'"
proof -
  from assms(5) obtain bs where "concat bs = rest" "batches_answered C bs w1 w'"
    "\<forall>b\<in>set bs. b \<noteq> [] \<and> length b \<le> stop_transcript_adjudicate_batch_size"
    unfolding adjudicated_in_batches_def by blast
  then show ?thesis unfolding adjudicated_in_batches_def
    using assms(1-4) by (intro exI[of _ "b # bs"]) auto
qed

lemma adjudicated_Nil: "adjudicated_in_batches C [] w w"
  unfolding adjudicated_in_batches_def by (intro exI[of _ "[]"]) simp

lemma stop_batches_Inr:
  "stop_batches C left batch events w = (Ready k (Inr ()), w') \<Longrightarrow>
     length batch < stop_transcript_adjudicate_batch_size \<Longrightarrow>
     adjudicated_in_batches C (batch @ events) w w'"
proof (induction C left batch events w arbitrary: k rule: stop_batches.induct)
  case (1 C left batch w)
  show ?case
  proof (cases "batch = []")
    case True
    then show ?thesis using 1 by (simp add: adjudicated_Nil)
  next
    case False
    with 1 obtain n as where "hc_adjudicates C batch w = (Ready n (Inr as), w')" "length as = length batch"
      by (auto dest!: send_batch_Inr)
    from adjudicated_Cons[OF this False _ adjudicated_Nil] 1 show ?thesis by simp
  qed
next
  case (2 C left batch ev rest w)
  show ?case
  proof (cases "length (batch @ [ev]) = stop_transcript_adjudicate_batch_size")
    case True
    with "2.prems" obtain n as w1 l m where a: "hc_adjudicates C (batch @ [ev]) w = (Ready n (Inr as), w1)"
      "length as = length (batch @ [ev])" "stop_batches C l [] rest w1 = (Ready m (Inr ()), w')"
      by (auto simp: Let_def dest!: send_batch_Inr)
    have "adjudicated_in_batches C rest w1 w'"
      using "2.IH"(1)[OF refl True a(3)] by (simp add: stop_transcript_adjudicate_batch_size_def)
    from adjudicated_Cons[OF a(1,2) _ _ this] True show ?thesis by simp
  next
    case False
    then show ?thesis using "2.prems" "2.IH"(2)[OF refl False] by (simp add: Let_def)
  qed
qed

section \<open>Nothing is lost\<close>

text \<open>
  The tail of a Stop is either adjudicated as a whole, and the cursor is after it, or the retry
  cursor is at its start and the next Stop reads from there.
\<close>

lemma stop_tail:
  assumes "adjudicate_stop_transcript_events C session events (w, d) = (Ready t r, w', d')" "events \<noteq> []"
    "pte_cursor_start (hd events) < 2 ^ 64" "pte_cursor_after_line (last events) < 2 ^ 64"
    "cd_home d" "cd_writable d"
  shows "r = Inr () \<and> (adjudicated_in_batches C (map pte_event events) w w'
       \<and> read_cursor_if_present d' session = Some (pte_cursor_after_line (last events))
       \<and> read_retry_cursor_if_present d' session = None
     \<or> read_retry_cursor_if_present d' session = Some (pte_cursor_start (hd events)))"
proof -
  obtain fut where b: "stop_batches C stop_transcript_adjudicate_timeout [] (map pte_event events) w = (fut, w')"
    and v: "(case timeout_at stop_transcript_adjudicate_timeout 0 fut of
        Value t (Some (Inr _)) \<Rightarrow>
          (case write_cursor d session (pte_cursor_after_line (last events)) of
             (Inl e, d') \<Rightarrow> (Ready t (Inl e), w', d')
           | (Inr _, d') \<Rightarrow> (Ready t (Inr ()), w', remove_retry_cursor d' session))
      | Value t _ \<Rightarrow> (Ready t (Inr ()), w', snd (write_retry_cursor d session (pte_cursor_start (hd events))))
      | Unwinds t \<Rightarrow> (Panics t, w', d)) = (Ready t r, w', d')"
    using assms(1,2) by (auto simp: adjudicate_stop_transcript_events_def Let_def
        split: prod.splits awaited.splits option.splits sum.splits)
  have ok: "fst (write_cursor d session n) = Inr ()" "fst (write_retry_cursor d session n) = Inr ()" for n
    using assms(5,6) by (simp_all add: write_cursor_def write_retry_cursor_def cursor_path_def
        retry_cursor_path_def cursor_dir_of_def bind_result_def write_offset_def)
  obtain d1 where d1: "write_cursor d session (pte_cursor_after_line (last events)) = (Inr (), d1)"
    using ok(1) by (metis prod.collapse)
  obtain d2 where d2: "write_retry_cursor d session (pte_cursor_start (hd events)) = (Inr (), d2)"
    using ok(2) by (metis prod.collapse)
  note c1 = write_cursor_Inr[OF d1 assms(4)]
  have retry: ?thesis if "r = Inr ()" "d' = d2"
    using that write_retry_cursor_Inr[OF d2 assms(3)] by simp
  show ?thesis
  proof (cases "timeout_at stop_transcript_adjudicate_timeout 0 fut")
    case (Value u x)
    show ?thesis
    proof (cases "\<exists>y. x = Some (Inr y)")
      case True
      then have "fut = Ready u (Inr ())" using Value by (auto simp: timeout_at_Some)
      then have "adjudicated_in_batches C (map pte_event events) w w'"
        using stop_batches_Inr[OF b[unfolded \<open>fut = _\<close>]] by (simp add: stop_transcript_adjudicate_batch_size_def)
      then show ?thesis using v Value True d1 c1
        by (auto simp: remove_retry_cursor_gone remove_retry_cursor_keeps)
    next
      case False
      then have "r = Inr () \<and> d' = d2" using v Value d2 by (auto split: option.splits sum.splits)
      then show ?thesis using retry by blast
    qed
  qed (use v in simp)
qed

text \<open>A retry cursor in the file is where the next Stop starts.\<close>

lemma retry_is_read:
  assumes "read_retry_cursor_if_present d session = Some c" "vw_len view = Inr len" "c < len"
    "last_assistant_turn_start D (vw_file view) = Inr (Some start)"
  shows "resolve_stop_read_plan D view d session = Inr (ReadFrom c)"
  using assms by (simp add: resolve_stop_read_plan_def bind_result_def read_retry_cursor_if_active_def)

section \<open>The wait ends, and ends with the reply\<close>

definition reply_at :: "line_reader \<Rightarrow> transcript_view \<Rightarrow> cursor_dir \<Rightarrow> string \<Rightarrow> string \<Rightarrow> nat \<Rightarrow> bool" where
  "reply_at D view d session expected cursor \<longleftrightarrow>
     resolve_stop_read_plan D view d session = Inr (ReadFrom cursor)
     \<and> (\<exists>reply. newest_assistant_reply D (vw_file view) cursor = Inr (Some reply) \<and> trim reply = expected)"

lemma poll_once_Landed:
  "poll_once D view d session x checked errs = Landed c \<longleftrightarrow>
     (\<exists>n. vw_len view = Inr n \<and> checked \<noteq> Some n) \<and> reply_at D view d session x c"
  unfolding poll_once_def reply_at_def
  by (auto split: sum.split stop_read_plan.split option.split)

lemma poll_once_Waiting:
  assumes "poll_once D view d session x checked errs = Waiting checked' errs'"
    "\<And>n. checked = Some n \<Longrightarrow> vw_len view = Inr n \<Longrightarrow> \<not> (\<exists>c. reply_at D view d session x c)"
  shows "checked' = None \<or> (\<exists>n. checked' = Some n \<and> vw_len view = Inr n \<and> \<not> (\<exists>c. reply_at D view d session x c))"
  using assms unfolding poll_once_def reply_at_def
  by (auto split: sum.splits stop_read_plan.splits option.splits if_splits)

lemma poll_from_result:
  "poll_from V d session x i el checked errs = (r, j, t) \<Longrightarrow>
     i \<le> j \<and> (j = i \<and> t = el + cl_poll_cost V j \<or>
       10 * (j - i) + el < cl_catchup_timeout V + 10 \<and> t < cl_catchup_timeout V + 10 + cl_poll_cost V j)
     \<and> (\<forall>c. r = Inr c \<longrightarrow> reply_at (cl_lines V) (cl_transcript V j) d session x c)"
proof (induction V d session x i el checked errs rule: poll_from.induct)
  case (1 V d session x i el checked errs)
  let ?now = "el + cl_poll_cost V i"
  show ?case
  proof (cases "poll_once (cl_lines V) (cl_transcript V i) d session x checked errs")
    case (Landed c)
    then have "r = Inr c" "j = i" "t = ?now" using "1.prems" by (auto simp: poll_from.simps[of V d session x i] Let_def)
    then show ?thesis using Landed by (simp add: poll_once_Landed)
  next
    case (Waiting checked' errs')
    show ?thesis
    proof (cases "cl_catchup_timeout V \<le> ?now")
      case True
      then have "r = Inl errs'" "j = i" "t = ?now"
        using "1.prems" Waiting by (auto simp: poll_from.simps[of V d session x i] Let_def)
      then show ?thesis by simp
    next
      case False
      then have p: "poll_from V d session x (i + 1) (?now + 10) checked' errs' = (r, j, t)"
        using "1.prems" Waiting
        by (simp add: poll_from.simps[of V d session x i] Let_def stop_transcript_catchup_poll_interval_def)
      show ?thesis
        using "1.IH"[OF refl Waiting False, unfolded stop_transcript_catchup_poll_interval_def, OF p] False by auto
    qed
  qed
qed

text \<open>When the \<open>i\<close>-th look begins.\<close>

definition look_start :: "cl_env \<Rightarrow> nat \<Rightarrow> nat" where
  "look_start V i = (\<Sum>k<i. cl_poll_cost V k + stop_transcript_catchup_poll_interval)"

text \<open>
  A transcript whose content changes only with its length is polled as often as it has to be: when
  the reply is there at a look before the time is over, the wait ends with it.
\<close>

lemma poll_from_lands:
  assumes len: "\<And>i k n. vw_len (cl_transcript V i) = Inr n \<Longrightarrow> vw_len (cl_transcript V k) = Inr n
      \<Longrightarrow> cl_transcript V i = cl_transcript V k"
    and time: "\<And>k. k < j \<Longrightarrow> look_start V k + cl_poll_cost V k < cl_catchup_timeout V"
    and reply: "vw_len (cl_transcript V j) = Inr m" "reply_at (cl_lines V) (cl_transcript V j) d session x c0"
  shows "i \<le> j \<Longrightarrow> (\<And>n. checked = Some n \<Longrightarrow> \<exists>k. vw_len (cl_transcript V k) = Inr n
      \<and> \<not> (\<exists>c. reply_at (cl_lines V) (cl_transcript V k) d session x c))
    \<Longrightarrow> \<exists>c l t. poll_from V d session x i (look_start V i) checked errs = (Inr c, l, t) \<and> l \<le> j"
proof (induction "j - i" arbitrary: i checked errs)
  case (0 i)
  then have i: "i = j" by simp
  have "checked \<noteq> Some m" using 0(3)[of m] len[OF reply(1)] reply(2) by metis
  then have "poll_once (cl_lines V) (cl_transcript V j) d session x checked errs = Landed c0"
    using reply by (simp add: poll_once_Landed)
  then show ?case by (simp add: poll_from.simps[of V d session x j] Let_def i)
next
  case (Suc n i)
  show ?case
  proof (cases "poll_once (cl_lines V) (cl_transcript V i) d session x checked errs")
    case (Landed c)
    then show ?thesis using Suc(3) by (simp add: poll_from.simps[of V d session x i] Let_def)
  next
    case (Waiting checked' errs')
    have "\<not> (\<exists>c. reply_at (cl_lines V) (cl_transcript V i) d session x c)"
      if "checked = Some n" "vw_len (cl_transcript V i) = Inr n" for n
      using Suc(4)[OF that(1)] len[OF that(2)] by metis
    then have c: "checked' = Some n \<Longrightarrow> \<exists>k. vw_len (cl_transcript V k) = Inr n
        \<and> \<not> (\<exists>c. reply_at (cl_lines V) (cl_transcript V k) d session x c)" for n
      using poll_once_Waiting[OF Waiting] by (metis option.distinct(1) option.inject)
    have i: "i < j" using Suc(2) by simp
    then have "\<exists>c l t. poll_from V d session x (i + 1) (look_start V (i + 1)) checked' errs' = (Inr c, l, t) \<and> l \<le> j"
      using Suc(1)[of "i + 1" checked' errs'] Suc(2) c by simp
    then show ?thesis using Waiting time[OF i]
      by (simp add: poll_from.simps[of V d session x i] Let_def look_start_def add.assoc)
  qed
qed

end
