(* ===== verification/Json_Map.thy ===== *)
theory Json_Map
  imports Json
begin

text \<open>
  The operations of \<open>serde_json::Map\<close> with \<open>preserve_order\<close>, over association lists with distinct
  keys: \<open>insert\<close> keeps the place of a key, \<open>remove\<close> moves the last entry into the place of the
  removed one. The lemmas say what each does to a lookup.
\<close>

text \<open>\<open>Map::insert\<close>: a key that is there keeps its place.\<close>

primrec json_insert :: "string \<Rightarrow> json \<Rightarrow> (string \<times> json) list \<Rightarrow> (string \<times> json) list" where
  "json_insert k v [] = [(k, v)]"
| "json_insert k v (p # kvs) = (if fst p = k then (k, v) # kvs else p # json_insert k v kvs)"

text \<open>\<open>Map::remove\<close>, which is \<open>swap_remove\<close>.\<close>

definition json_remove :: "string \<Rightarrow> (string \<times> json) list \<Rightarrow> (string \<times> json) list" where
  "json_remove k kvs =
     (if k \<in> set (map fst kvs)
      then if fst (last kvs) = k then butlast kvs
           else map (\<lambda>p. if fst p = k then last kvs else p) (butlast kvs)
      else kvs)"

abbreviation keys :: "(string \<times> json) list \<Rightarrow> string list" where "keys \<equiv> map fst"

lemma map_of_json_insert' [simp]: "map_of (json_insert k v kvs) = (map_of kvs)(k \<mapsto> v)"
  by (induction kvs) (auto simp: fun_eq_iff)

lemma map_of_json_insert: "map_of (json_insert k v kvs) k' = (if k' = k then Some v else map_of kvs k')"
  by simp

lemma keys_json_insert: "keys (json_insert k v kvs) = (if k \<in> set (keys kvs) then keys kvs else keys kvs @ [k])"
  by (induction kvs) auto

lemma json_insert_same: "map_of kvs k = Some v \<Longrightarrow> json_insert k v kvs = kvs"
  by (induction kvs) (auto split: if_splits)

lemma json_insert_twice [simp]: "json_insert k v (json_insert k w kvs) = json_insert k v kvs"
  by (induction kvs) auto

lemma distinct_json_insert [simp]: "distinct (keys kvs) \<Longrightarrow> distinct (keys (json_insert k v kvs))"
  by (simp add: keys_json_insert)

lemma json_remove_absent: "k \<notin> set (keys kvs) \<Longrightarrow> json_remove k kvs = kvs"
  by (simp add: json_remove_def)

text \<open>Where the key stands: at the end, or before a last entry that takes its place.\<close>

lemma json_remove_last: "distinct (keys (xs @ [(k, v)])) \<Longrightarrow> json_remove k (xs @ [(k, v)]) = xs"
  by (simp add: json_remove_def)

lemma json_remove_inner:
  assumes "distinct (keys (xs @ (k, v) # ys @ [p]))"
  shows "json_remove k (xs @ (k, v) # ys @ [p]) = xs @ p # ys"
proof -
  have "map (\<lambda>q. if fst q = k then p else q) xs = xs" "map (\<lambda>q. if fst q = k then p else q) ys = ys" "fst p \<noteq> k"
    using assms by (auto intro!: map_idI) (metis fst_conv image_eqI)+
  then show ?thesis by (simp add: json_remove_def butlast_append last_append cong: if_cong)
qed

lemma json_remove_cases:
  assumes "k \<in> set (keys kvs)"
  obtains (last) xs v where "kvs = xs @ [(k, v)]"
    | (inner) xs v ys p where "kvs = xs @ (k, v) # ys @ [p]"
proof -
  obtain xs v ys where split: "kvs = xs @ (k, v) # ys" using assms by (auto simp: in_set_conv_decomp)
  show thesis
  proof (cases ys rule: rev_exhaust)
    case Nil
    then show ?thesis using split last by simp
  next
    case (snoc zs p)
    then show ?thesis using split inner by simp
  qed
qed

lemma map_of_swap:
  assumes "distinct (keys (xs @ (k, v) # ys @ [p]))"
  shows "map_of (xs @ p # ys) = (map_of (xs @ (k, v) # ys @ [p]))(k := None)"
proof -
  have "map_of (xs @ p # ys) = map_of (xs @ ys @ [p])"
    using assms by (intro map_of_inject_set [THEN iffD2]) auto
  also have "\<dots> = (map_of (xs @ (k, v) # ys @ [p]))(k := None)"
  proof (rule ext)
    fix x
    have "map_of (xs @ ys @ [p]) k = None" using assms by (simp add: map_of_eq_None_iff image_Un)
    then show "map_of (xs @ ys @ [p]) x = ((map_of (xs @ (k, v) # ys @ [p]))(k := None)) x"
      by (auto simp: map_add_def split: option.split)
  qed
  finally show ?thesis .
qed

lemma map_of_json_remove [simp]:
  assumes "distinct (keys kvs)" shows "map_of (json_remove k kvs) = (map_of kvs)(k := None)"
proof (cases "k \<in> set (keys kvs)")
  case True
  then show ?thesis
  proof (cases rule: json_remove_cases)
    case (last xs v)
    then have "map_of xs k = None" using assms by (simp add: map_of_eq_None_iff)
    then show ?thesis using assms last
      by (auto simp: json_remove_last fun_eq_iff map_add_def split: option.split)
  next
    case (inner xs v ys p)
    then have "json_remove k kvs = xs @ p # ys" "map_of (xs @ p # ys) = (map_of kvs)(k := None)"
      using assms json_remove_inner map_of_swap by blast+
    then show ?thesis by simp
  qed
next
  case False
  then show ?thesis by (simp add: json_remove_absent fun_eq_iff map_of_eq_None_iff [symmetric])
qed

lemma distinct_json_remove [simp]:
  assumes "distinct (keys kvs)" shows "distinct (keys (json_remove k kvs))"
proof (cases "k \<in> set (keys kvs)")
  case True
  then show ?thesis
  proof (cases rule: json_remove_cases)
    case (last xs v)
    then show ?thesis using assms by (simp add: json_remove_last)
  next
    case (inner xs v ys p)
    then show ?thesis using assms by (simp add: json_remove_inner)
  qed
qed (simp add: json_remove_absent assms)

lemma set_keys_json_remove:
  assumes "distinct (keys kvs)" shows "set (keys (json_remove k kvs)) = set (keys kvs) - {k}"
proof -
  have "set (keys xs) = dom (map_of xs)" for xs :: "(string \<times> json) list" by (simp add: dom_map_of_conv_image_fst)
  then show ?thesis using assms by simp
qed

end
