(* ===== verification/Claude_Tools.thy ===== *)
theory Claude_Tools
  imports Claude_Stop Json_Map
begin

text \<open>
  The events of Claude Code (\<open>crates/hooks/claude/src/types.rs\<close>) and what the hook makes of them
  (\<open>hooks.rs\<close>): the action of a tool call, the observation of its result, the event of every other
  hook, each cut to fit a message, and the response to its verdict. Fields no handler reads are
  left out.
\<close>

section \<open>Events\<close>

datatype cl_notification_type =
    ClnPermissionPrompt | ClnIdlePrompt | ClnAuthSuccess | ClnElicitationDialog
  | ClnElicitationComplete | ClnElicitationResponse | ClnAgentNeedsInput | ClnAgentCompleted | ClnUnknown

fun cl_notification_debug :: "cl_notification_type \<Rightarrow> string" where
  "cl_notification_debug ClnPermissionPrompt = ''PermissionPrompt''"
| "cl_notification_debug ClnIdlePrompt = ''IdlePrompt''"
| "cl_notification_debug ClnAuthSuccess = ''AuthSuccess''"
| "cl_notification_debug ClnElicitationDialog = ''ElicitationDialog''"
| "cl_notification_debug ClnElicitationComplete = ''ElicitationComplete''"
| "cl_notification_debug ClnElicitationResponse = ''ElicitationResponse''"
| "cl_notification_debug ClnAgentNeedsInput = ''AgentNeedsInput''"
| "cl_notification_debug ClnAgentCompleted = ''AgentCompleted''"
| "cl_notification_debug ClnUnknown = ''Unknown''"

datatype cl_compact_trigger = ClcManual | ClcAuto | ClcUnknown

fun cl_compact_debug :: "cl_compact_trigger \<Rightarrow> string" where
  "cl_compact_debug ClcManual = ''Manual''"
| "cl_compact_debug ClcAuto = ''Auto''"
| "cl_compact_debug ClcUnknown = ''Unknown''"

datatype cl_end_reason = CleClear | CleLogout | ClePromptInputExit | CleBypassPermissionsDisabled | CleOther

datatype cl_config_type =
    ClgUserSettings | ClgProjectSettings | ClgLocalSettings | ClgPolicySettings | ClgSkills | ClgUnknown

fun cl_config_debug :: "cl_config_type \<Rightarrow> string" where
  "cl_config_debug ClgUserSettings = ''UserSettings''"
| "cl_config_debug ClgProjectSettings = ''ProjectSettings''"
| "cl_config_debug ClgLocalSettings = ''LocalSettings''"
| "cl_config_debug ClgPolicySettings = ''PolicySettings''"
| "cl_config_debug ClgSkills = ''Skills''"
| "cl_config_debug ClgUnknown = ''Unknown''"

text \<open>A tool call, of the tool and of the permission event alike.\<close>

record cl_tool_use =
  clt_session_id :: string
  clt_cwd :: string
  clt_tool_name :: string
  clt_tool_input :: json
  clt_tool_use_id :: string

record cl_tool_result =
  clq_session_id :: string
  clq_tool_name :: string
  clq_tool_input :: json
  clq_tool_response :: json
  clq_tool_use_id :: string

record cl_tool_failure =
  clf_session_id :: string
  clf_error :: string
  clf_tool_use_id :: string

record cl_notification =
  cln_session_id :: string
  cln_message :: string
  cln_type :: cl_notification_type

record cl_user_prompt =
  clu_session_id :: string
  clu_cwd :: string
  clu_prompt :: string

record cl_subagent_run =
  cla_session_id :: string
  cla_stop_hook_active :: bool
  cla_agent_id :: string
  cla_agent_type :: string

record cl_teammate_idle =
  clm_session_id :: string
  clm_teammate_name :: string

record cl_task_completed =
  clj_session_id :: string
  clj_task_subject :: string

record cl_pre_compact =
  clc_session_id :: string
  clc_trigger :: cl_compact_trigger
  clc_custom_instructions :: string

record cl_config_change =
  clg_session_id :: string
  clg_config_type :: cl_config_type

record cl_session_end =
  cle_session_id :: string
  cle_reason :: cl_end_reason

text \<open>A started session, loaded instructions, a removed worktree: only the session matters.\<close>

record cl_session =
  cls_session_id :: string

section \<open>Plan files\<close>

definition path_starts_with :: "string \<Rightarrow> string \<Rightarrow> bool" where
  "path_starts_with p base \<longleftrightarrow>
     is_absolute p = is_absolute base \<and> prefix (path_parts base) (path_parts p)"

definition is_plan_file :: "cl_env \<Rightarrow> string \<Rightarrow> bool" where
  "is_plan_file V file_path =
     (if file_path = [] then False
      else case cl_home_dir V of
        None \<Rightarrow> False
      | Some home \<Rightarrow>
          (let plans = path_join (path_join home ''.claude'') ''plans'';
               plans_dir = unwrap_or (cl_canonicalize V plans) plans;
               absolute = (if is_absolute file_path then file_path
                 else case cl_current_dir V of Some cwd \<Rightarrow> path_join cwd file_path | None \<Rightarrow> file_path);
               resolved = unwrap_or (cl_canonicalize V file_path) (lexically_normalize absolute)
           in path_starts_with resolved plans_dir))"

definition enrich_with_plan_file_flag :: "cl_env \<Rightarrow> json \<Rightarrow> json" where
  "enrich_with_plan_file_flag V args =
     (case args of
        JObj kvs \<Rightarrow>
          (case Option.bind (opt_else (map_of kvs ''file_path'') (map_of kvs ''notebook_path'')) as_str of
             Some path \<Rightarrow> JObj (json_insert ''is_plan_file'' (JBool (is_plan_file V path)) kvs)
           | None \<Rightarrow> args)
      | _ \<Rightarrow> args)"

text \<open>The flag is computed for three tools, and no field of their action is read from it.\<close>

lemma plan_file_flag_unseen:
  assumes "''is_plan_file'' \<notin> set ks" shows "str_field ks (enrich_with_plan_file_flag V args) = str_field ks args"
proof -
  have "jget k (enrich_with_plan_file_flag V args) = jget k args" if "k \<in> set ks" for k
    using that assms by (auto simp: enrich_with_plan_file_flag_def map_of_json_insert split: json.split option.split)
  then show ?thesis unfolding str_field_def using assms by (induction ks) (auto split: option.split)
qed

section \<open>Tools\<close>

definition cl_file_operation :: "string \<Rightarrow> file_op_type \<Rightarrow> string \<Rightarrow> string option \<Rightarrow> string option \<Rightarrow> action" where
  "cl_file_operation call_id op path content old_content = FileOperation
     \<lparr>fo_call_id = call_id, fo_operation = op, fo_path = path, fo_content = content,
      fo_old_content = old_content\<rparr>"

definition cl_path_keys :: "string list" where
  "cl_path_keys = [''file_path'', ''path'', ''notebook_path'']"

definition normalize_pre_tool_action :: "cl_env \<Rightarrow> string \<Rightarrow> string \<Rightarrow> string \<Rightarrow> json \<Rightarrow> action" where
  "normalize_pre_tool_action V name call_id cwd input =
     (let field = (\<lambda>ks. str_field ks input); text = (\<lambda>ks. unwrap_or (str_field ks input) []);
          enriched = enrich_with_plan_file_flag V input
      in if name = ''Bash'' \<or> name = ''Shell'' then
        ShellCommand \<lparr>shc_call_id = call_id, shc_command = text [''command''], shc_working_dir = Some cwd\<rparr>
      else if name = ''Read'' then cl_file_operation call_id OpRead (text cl_path_keys) None None
      else if name = ''Edit'' then
        cl_file_operation call_id OpEdit (unwrap_or (str_field cl_path_keys enriched) [])
          (str_field [''new_string'', ''content'', ''new_content''] enriched)
          (str_field [''old_string'', ''old_content''] enriched)
      else if name = ''Write'' then
        cl_file_operation call_id OpWrite (unwrap_or (str_field cl_path_keys enriched) [])
          (str_field [''content'', ''new_string'', ''new_content''] enriched) None
      else if name = ''Glob'' \<or> name = ''Grep'' then
        cl_file_operation call_id OpRead (unwrap_or (field [''path'']) cwd) (field [''pattern'']) None
      else if name = ''NotebookEdit'' then
        cl_file_operation call_id OpEdit
          (unwrap_or (str_field [''notebook_path'', ''file_path'', ''path''] enriched) [])
          (str_field [''new_source'', ''content'', ''new_content''] enriched) None
      else if name = ''WebFetch'' then
        WebFetch \<lparr>wf_call_id = call_id, wf_url = text [''url''], wf_prompt = text [''prompt'']\<rparr>
      else ToolCall \<lparr>tc_call_id = call_id, tc_tool = name, tc_arguments = input\<rparr>)"

definition cl_post_observation :: "cl_tool_result \<Rightarrow> observation" where
  "cl_post_observation e =
     (let name = clq_tool_name e; out = clq_tool_response e; call_id = clq_tool_use_id e;
          text = (\<lambda>k. unwrap_or (str_field [k] out) [])
      in if name = ''Bash'' \<or> name = ''Shell'' then
        ShellCommandOutput \<lparr>sco_call_id = call_id,
          sco_exit_code = (if jget ''interrupted'' out = Some (JBool True) then - 1 else 0),
          sco_stdout = text ''stdout'', sco_stderr = text ''stderr''\<rparr>
      else if name = ''WebFetch'' then
        WebFetchOutput \<lparr>wfo_call_id = call_id, wfo_url = text ''url'',
          wfo_code = as_i32 (unwrap_or (int_field [''code''] out) 0), wfo_result = text ''result''\<rparr>
      else if name = ''Read'' \<or> name = ''Edit'' \<or> name = ''Write'' then
        FileOperationResult \<lparr>fr_call_id = call_id, fr_success = True,
          fr_path = str_field [''file_path'', ''path''] (clq_tool_input e),
          fr_content = Option.bind (Option.bind (jget ''file'' out) (jget ''content'')) as_str,
          fr_error = None\<rparr>
      else ToolOutput (tool_output_success call_id out))"

end
