(* ===== verification/Claude.thy ===== *)
theory Claude
  imports Claude_Tools
begin

text \<open>
  The Claude Code hook process (\<open>crates/hooks/claude/src/{hooks,lib}.rs\<close>): one handler per event,
  the dispatch of a command, the response when governance fails, and the contract of the whole.
  Nine commands are enforced. A response is printed whatever happens, within the budget.
\<close>

section \<open>Events sent\<close>

definition cl_capped_action :: "cl_env \<Rightarrow> nat \<Rightarrow> string \<Rightarrow> action \<Rightarrow> event" where
  "cl_capped_action V i session a =
     cl_event V i session (Action (fst (cap_action_strings (cl_json_text V) a max_event_text_bytes)))"

definition cl_capped_observation :: "cl_env \<Rightarrow> nat \<Rightarrow> string \<Rightarrow> observation \<Rightarrow> event" where
  "cl_capped_observation V i session ob =
     cl_event V i session (Observation (fst (cap_observation_strings (cl_json_text V) ob max_event_text_bytes)))"

definition cl_capped_control :: "cl_env \<Rightarrow> nat \<Rightarrow> string \<Rightarrow> control \<Rightarrow> event" where
  "cl_capped_control V i session c =
     cl_event V i session (Control (fst (cap_control_strings c max_event_text_bytes)))"

definition cl_system :: actor where "cl_system = actor_system ''claude-code''"

definition prompt_system :: "string \<Rightarrow> prompt" where
  "prompt_system c = \<lparr>pr_content = c, pr_role = RoleSystem\<rparr>"

text \<open>Subagents and teammates report as the agent they run under.\<close>

definition cl_subagent :: "cl_env \<Rightarrow> string \<Rightarrow> agent" where
  "cl_subagent V agent_type = cl_agent V"

definition cl_start_event :: "cl_env \<Rightarrow> cl_session \<Rightarrow> event" where
  "cl_start_event V e = cl_event V 0 (cls_session_id e) (Control (Started (started_new (cl_agent V))))"

definition cl_terminal_control :: "cl_end_reason \<Rightarrow> control option" where
  "cl_terminal_control reason =
     (case reason of
        CleClear \<Rightarrow> Some (Terminated \<lparr>tm_reason = ''session cleared'', tm_terminated_by = ''user''\<rparr>)
      | CleLogout \<Rightarrow> Some (Terminated \<lparr>tm_reason = ''user logged out'', tm_terminated_by = ''user''\<rparr>)
      | CleBypassPermissionsDisabled \<Rightarrow>
          Some (Terminated \<lparr>tm_reason = ''bypass permissions disabled'', tm_terminated_by = ''system''\<rparr>)
      | _ \<Rightarrow> None)"

definition cl_pre_event :: "cl_env \<Rightarrow> cl_tool_use \<Rightarrow> event" where
  "cl_pre_event V e = cl_capped_action V 0 (clt_session_id e)
     (normalize_pre_tool_action V (clt_tool_name e) (clt_tool_use_id e) (clt_cwd e) (clt_tool_input e))"

definition cl_permission_event :: "cl_env \<Rightarrow> cl_tool_use \<Rightarrow> event" where
  "cl_permission_event V e = cl_capped_action V 0 (clt_session_id e) (ToolCall
     \<lparr>tc_call_id = clt_tool_use_id e, tc_tool = clt_tool_name e @ ''_permission'',
      tc_arguments = clt_tool_input e\<rparr>)"

definition cl_post_event :: "cl_env \<Rightarrow> cl_tool_result \<Rightarrow> event" where
  "cl_post_event V e = cl_capped_observation V 0 (clq_session_id e) (cl_post_observation e)"

definition cl_failure_event :: "cl_env \<Rightarrow> cl_tool_failure \<Rightarrow> event" where
  "cl_failure_event V e = cl_capped_observation V 0 (clf_session_id e)
     (ToolOutput (tool_output_error (clf_tool_use_id e) (clf_error e)))"

definition cl_notification_event :: "cl_env \<Rightarrow> cl_notification \<Rightarrow> event" where
  "cl_notification_event V e = with_actor (cl_capped_observation V 0 (cln_session_id e) (Prompt (prompt_system
     (''[notification:'' @ cl_notification_debug (cln_type e) @ ''] '' @ cln_message e)))) cl_system"

definition cl_mentions :: "cl_env \<Rightarrow> cl_user_prompt \<Rightarrow> (string \<times> string option) list" where
  "cl_mentions V e = resolve_mentioned_files (cl_files V) (clu_prompt e) (clu_cwd e) max_event_text_bytes"

definition cl_mention_event :: "cl_env \<Rightarrow> nat \<Rightarrow> cl_user_prompt \<Rightarrow> string \<times> string option \<Rightarrow> event" where
  "cl_mention_event V i e m =
     (case m of (path, content) \<Rightarrow> cl_capped_action V i (clu_session_id e)
        (cl_file_operation (at_mention_call_id (cl_hash V) (clu_session_id e) path) OpRead
           (from_utf8_lossy path) content None))"

definition cl_mention_asks :: "cl_env \<Rightarrow> cl_user_prompt \<Rightarrow> (event \<times> (adjudicated \<Rightarrow> cl_response option)) list" where
  "cl_mention_asks V e =
     map (\<lambda>(i, m). (cl_mention_event V i e m, mention_verdict cl_prompt_block (fst m)))
       (enumerate 0 (cl_mentions V e))"

definition cl_prompt_event :: "cl_env \<Rightarrow> cl_user_prompt \<Rightarrow> event" where
  "cl_prompt_event V e = with_actor (cl_capped_observation V (length (cl_mentions V e)) (clu_session_id e)
     (Prompt (prompt_user (clu_prompt e)))) (actor_human (cl_agent_id V))"

definition cl_subagent_start_event :: "cl_env \<Rightarrow> cl_subagent_run \<Rightarrow> event" where
  "cl_subagent_start_event V e = event_new (cl_fresh V 0) (cl_subagent V (cla_agent_type e)) (cla_session_id e)
     (Control (Started (started_new (cl_subagent V (cla_agent_type e)))))"

definition cl_subagent_stop_event :: "cl_env \<Rightarrow> cl_subagent_run \<Rightarrow> event" where
  "cl_subagent_stop_event V e = event_new (cl_fresh V 0)
     (cl_subagent V (if cla_agent_type e = [] then cla_agent_id e else cla_agent_type e)) (cla_session_id e)
     (Control (Completed None))"

definition cl_teammate_event :: "cl_env \<Rightarrow> cl_teammate_idle \<Rightarrow> event" where
  "cl_teammate_event V e = event_new (cl_fresh V 0) (cl_subagent V (clm_teammate_name e)) (clm_session_id e)
     (Control (Suspended ''teammate idle''))"

definition cl_task_event :: "cl_env \<Rightarrow> cl_task_completed \<Rightarrow> event" where
  "cl_task_event V e = cl_capped_control V 0 (clj_session_id e) (Completed (Some (clj_task_subject e)))"

definition cl_config_context :: "cl_config_change \<Rightarrow> string" where
  "cl_config_context e = ''Configuration changed ('' @ cl_config_debug (clg_config_type e) @ '')''"

definition cl_config_event :: "cl_env \<Rightarrow> cl_config_change \<Rightarrow> event" where
  "cl_config_event V e = with_actor (cl_capped_observation V 0 (clg_session_id e)
     (Prompt (prompt_system (cl_config_context e)))) cl_system"

definition cl_compact_event :: "cl_env \<Rightarrow> cl_pre_compact \<Rightarrow> event" where
  "cl_compact_event V e = with_actor (cl_capped_observation V 0 (clc_session_id e) (Prompt (prompt_system
     (''Compaction requested ('' @ cl_compact_debug (clc_trigger e) @ '')''
      @ (if clc_custom_instructions e = [] then []
         else '' with instructions: '' @ clc_custom_instructions e))))) cl_system"

section \<open>Responses to a verdict\<close>

definition cl_verdict :: "(string \<Rightarrow> cl_response) \<Rightarrow> string \<Rightarrow> (string \<Rightarrow> cl_response) \<Rightarrow> string \<Rightarrow> adjudicated \<Rightarrow> cl_response"
  where
  "cl_verdict deny deny_reason escalate escalate_reason a =
     (case adj_decision a of
        Allow \<Rightarrow> cl_allow
      | Deny \<Rightarrow> deny (deny_message a deny_reason)
      | Escalate \<Rightarrow> escalate (deny_message a escalate_reason))"

definition cl_start_verdict :: "adjudicated \<Rightarrow> cl_response" where
  "cl_start_verdict = cl_verdict cl_stop ''Session start blocked by policy''
     cl_stop ''Session start escalated for review''"

definition cl_pre_verdict :: "string \<Rightarrow> adjudicated \<Rightarrow> cl_response" where
  "cl_pre_verdict tool = cl_verdict cl_pre_tool_deny (''Tool '' @ quoted tool @ '' execution denied by policy'')
     cl_pre_tool_ask (''Tool '' @ quoted tool @ '' execution requires approval'')"

definition cl_permission_verdict :: "string \<Rightarrow> adjudicated \<Rightarrow> cl_response" where
  "cl_permission_verdict tool a =
     (if adj_decision a = Allow then cl_allow
      else cl_permission_deny (deny_message a (''Permission for tool '' @ quoted tool @ '' denied by policy'')))"

definition cl_post_verdict :: "json \<Rightarrow> adjudicated \<Rightarrow> cl_response" where
  "cl_post_verdict out = cl_verdict
     (\<lambda>m. cl_post_tool_block_with_redacted_output m out) ''Tool output blocked by policy''
     (\<lambda>m. cl_post_tool_block_with_redacted_output m out) ''Tool output requires review''"

definition cl_prompt_verdict :: "adjudicated \<Rightarrow> cl_response" where
  "cl_prompt_verdict = cl_verdict cl_prompt_block ''Prompt blocked by policy''
     cl_prompt_block ''Prompt escalated for review''"

definition lifecycle_block_response ::
  "adjudicated \<Rightarrow> string \<Rightarrow> string \<Rightarrow> (string \<Rightarrow> cl_response) \<Rightarrow> cl_response option" where
  "lifecycle_block_response a deny_reason escalate_reason build =
     (case adj_decision a of
        Allow \<Rightarrow> None
      | Deny \<Rightarrow> Some (build (deny_message a deny_reason))
      | Escalate \<Rightarrow> Some (build (deny_message a escalate_reason)))"

definition cl_subagent_stop_verdict :: "adjudicated \<Rightarrow> cl_response" where
  "cl_subagent_stop_verdict a = unwrap_or (lifecycle_block_response a ''Subagent stop blocked by policy''
     ''Subagent stop escalated for review'' cl_subagent_stop_block) cl_allow"

definition cl_teammate_verdict :: "adjudicated \<Rightarrow> cl_response" where
  "cl_teammate_verdict a = unwrap_or (lifecycle_block_response a ''Teammate idle blocked by policy''
     ''Teammate idle escalated for review'' cl_stop) cl_allow"

definition cl_task_verdict :: "adjudicated \<Rightarrow> cl_response" where
  "cl_task_verdict a = unwrap_or (lifecycle_block_response a ''Task completion blocked by policy''
     ''Task completion escalated for review'' cl_stop) cl_allow"

definition cl_config_verdict :: "cl_config_change \<Rightarrow> adjudicated \<Rightarrow> cl_response" where
  "cl_config_verdict e a =
     (let allow = with_system_message cl_allow (cl_config_context e) in
      if clg_config_type e = ClgPolicySettings then allow
      else unwrap_or (lifecycle_block_response a ''Configuration change blocked by policy''
        ''Configuration change escalated for review'' cl_block) allow)"

definition cl_compact_verdict :: "adjudicated \<Rightarrow> cl_response" where
  "cl_compact_verdict a = unwrap_or (lifecycle_block_response a ''Compaction blocked by policy''
     ''Compaction escalated for review'' cl_block) cl_allow"

lemmas cl_verdicts =
  cl_verdict_def cl_start_verdict_def cl_pre_verdict_def cl_permission_verdict_def cl_post_verdict_def
  cl_prompt_verdict_def cl_subagent_stop_verdict_def cl_teammate_verdict_def cl_task_verdict_def
  cl_config_verdict_def cl_compact_verdict_def lifecycle_block_response_def

section \<open>Handlers\<close>

text \<open>\<open>PostToolUse\<close> answers a harness error itself: \<open>g\<close> is the response to it.\<close>

definition settle :: "'w client \<Rightarrow> event \<Rightarrow> (adjudicated \<Rightarrow> 'r) \<Rightarrow> (harness_client_error \<Rightarrow> 'r) \<Rightarrow> ('r, 'w) handler" where
  "settle C ev f g w =
     (case C ev w of
        (fut, w') \<Rightarrow> (and_then fut (\<lambda>r. Ready 0 (Inr (case r of Inl e \<Rightarrow> g e | Inr a \<Rightarrow> f a))), w'))"

lemma settle_Inr:
  assumes "settle C ev f g w = (Ready n (Inr r), w')"
  shows "(\<exists>a. C ev w = (Ready n (Inr a), w') \<and> r = f a) \<or> (\<exists>e. C ev w = (Ready n (Inl e), w') \<and> r = g e)"
  using assms by (auto simp: settle_def and_then_def split: prod.splits future.splits sum.splits)

definition handle_session_start :: "cl_env \<Rightarrow> 'w client \<Rightarrow> cl_session \<Rightarrow> (cl_response, 'w) handler" where
  "handle_session_start V C e = enforce C (cl_start_event V e) cl_start_verdict"

definition handle_session_end :: "cl_env \<Rightarrow> 'w client \<Rightarrow> cl_session_end \<Rightarrow> (cl_response, 'w) handler" where
  "handle_session_end V C e =
     (case cl_terminal_control (cle_reason e) of
        None \<Rightarrow> answer (Inr cl_allow)
      | Some control \<Rightarrow> enforce C (cl_event V 0 (cle_session_id e) (Control control)) (\<lambda>_. cl_allow))"

definition handle_pre_tool_use :: "cl_env \<Rightarrow> 'w client \<Rightarrow> cl_tool_use \<Rightarrow> (cl_response, 'w) handler" where
  "handle_pre_tool_use V C e = enforce C (cl_pre_event V e) (cl_pre_verdict (clt_tool_name e))"

definition handle_permission_request :: "cl_env \<Rightarrow> 'w client \<Rightarrow> cl_tool_use \<Rightarrow> (cl_response, 'w) handler" where
  "handle_permission_request V C e =
     enforce C (cl_permission_event V e) (cl_permission_verdict (clt_tool_name e))"

definition handle_post_tool_use :: "cl_env \<Rightarrow> 'w client \<Rightarrow> cl_tool_result \<Rightarrow> (cl_response, 'w) handler" where
  "handle_post_tool_use V C e = settle C (cl_post_event V e) (cl_post_verdict (clq_tool_response e))
     (\<lambda>err. cl_post_tool_block_with_redacted_output
        (fail_closed_reason_post_tool (hook_error_of_client err)) (clq_tool_response e))"

definition handle_notification :: "cl_env \<Rightarrow> 'w client \<Rightarrow> cl_notification \<Rightarrow> (cl_response, 'w) handler" where
  "handle_notification V C e = enforce C (cl_notification_event V e) (\<lambda>_. cl_allow)"

definition handle_user_prompt_submit :: "cl_env \<Rightarrow> 'w client \<Rightarrow> cl_user_prompt \<Rightarrow> (cl_response, 'w) handler" where
  "handle_user_prompt_submit V C e =
     and_next (ask_in_turn C (cl_mention_asks V e))
       (\<lambda>blocked. case blocked of
          Some block \<Rightarrow> answer (Inr block)
        | None \<Rightarrow> enforce C (cl_prompt_event V e) cl_prompt_verdict)"

definition handle_subagent_start :: "cl_env \<Rightarrow> 'w client \<Rightarrow> cl_subagent_run \<Rightarrow> (cl_response, 'w) handler" where
  "handle_subagent_start V C e = enforce C (cl_subagent_start_event V e) (\<lambda>_. cl_allow)"

definition handle_subagent_stop :: "cl_env \<Rightarrow> 'w client \<Rightarrow> cl_subagent_run \<Rightarrow> (cl_response, 'w) handler" where
  "handle_subagent_stop V C e =
     (if cla_stop_hook_active e then answer (Inr cl_allow)
      else enforce C (cl_subagent_stop_event V e) cl_subagent_stop_verdict)"

definition handle_teammate_idle :: "cl_env \<Rightarrow> 'w client \<Rightarrow> cl_teammate_idle \<Rightarrow> (cl_response, 'w) handler" where
  "handle_teammate_idle V C e = enforce C (cl_teammate_event V e) cl_teammate_verdict"

definition handle_task_completed :: "cl_env \<Rightarrow> 'w client \<Rightarrow> cl_task_completed \<Rightarrow> (cl_response, 'w) handler" where
  "handle_task_completed V C e = enforce C (cl_task_event V e) cl_task_verdict"

definition handle_post_tool_use_failure :: "cl_env \<Rightarrow> 'w client \<Rightarrow> cl_tool_failure \<Rightarrow> (cl_response, 'w) handler" where
  "handle_post_tool_use_failure V C e = enforce C (cl_failure_event V e) (\<lambda>_. cl_allow)"

definition handle_config_change :: "cl_env \<Rightarrow> 'w client \<Rightarrow> cl_config_change \<Rightarrow> (cl_response, 'w) handler" where
  "handle_config_change V C e = enforce C (cl_config_event V e) (cl_config_verdict e)"

definition handle_instructions_loaded :: "cl_session \<Rightarrow> (cl_response, 'w) handler" where
  "handle_instructions_loaded e = answer (Inr cl_allow)"

definition handle_worktree_remove :: "cl_session \<Rightarrow> (cl_response, 'w) handler" where
  "handle_worktree_remove e = answer (Inr cl_allow)"

definition handle_pre_compact :: "cl_env \<Rightarrow> 'w client \<Rightarrow> cl_pre_compact \<Rightarrow> (cl_response, 'w) handler" where
  "handle_pre_compact V C e = enforce C (cl_compact_event V e) cl_compact_verdict"

section \<open>The command\<close>

datatype cl_command =
    ClInstall bool bool | ClUninstall bool bool | ClPreToolUse | ClPermissionRequest | ClPostToolUse
  | ClPostToolUseFailure | ClNotification | ClUserPromptSubmit | ClStop | ClSubagentStart
  | ClSubagentStop | ClTeammateIdle | ClTaskCompleted | ClConfigChange | ClInstructionsLoaded
  | ClWorktreeRemove | ClPreCompact | ClSessionStart | ClSessionEnd

fun cl_hook_event_name :: "cl_command \<Rightarrow> string option" where
  "cl_hook_event_name (ClInstall _ _) = None"
| "cl_hook_event_name (ClUninstall _ _) = None"
| "cl_hook_event_name ClPreToolUse = Some ''PreToolUse''"
| "cl_hook_event_name ClPermissionRequest = Some ''PermissionRequest''"
| "cl_hook_event_name ClPostToolUse = Some ''PostToolUse''"
| "cl_hook_event_name ClPostToolUseFailure = Some ''PostToolUseFailure''"
| "cl_hook_event_name ClNotification = Some ''Notification''"
| "cl_hook_event_name ClUserPromptSubmit = Some ''UserPromptSubmit''"
| "cl_hook_event_name ClStop = Some ''Stop''"
| "cl_hook_event_name ClSubagentStart = Some ''SubagentStart''"
| "cl_hook_event_name ClSubagentStop = Some ''SubagentStop''"
| "cl_hook_event_name ClTeammateIdle = Some ''TeammateIdle''"
| "cl_hook_event_name ClTaskCompleted = Some ''TaskCompleted''"
| "cl_hook_event_name ClConfigChange = Some ''ConfigChange''"
| "cl_hook_event_name ClInstructionsLoaded = Some ''InstructionsLoaded''"
| "cl_hook_event_name ClWorktreeRemove = Some ''WorktreeRemove''"
| "cl_hook_event_name ClPreCompact = Some ''PreCompact''"
| "cl_hook_event_name ClSessionStart = Some ''SessionStart''"
| "cl_hook_event_name ClSessionEnd = Some ''SessionEnd''"

definition cl_is_adjudication :: "cl_command \<Rightarrow> bool" where
  "cl_is_adjudication c \<longleftrightarrow> (case cl_hook_event_name c of None \<Rightarrow> False | Some name \<Rightarrow> is_fail_closed_hook name)"

definition cl_degraded_response :: "json option \<Rightarrow> cl_command \<Rightarrow> hook_error \<Rightarrow> cl_response" where
  "cl_degraded_response input c error =
     (case cl_fail_closed_response (unwrap_or (cl_hook_event_name c) ''unknown'') input error of
        Some r \<Rightarrow> r
      | None \<Rightarrow> if c = ClSessionStart then cl_session_start_with_context (fallback_context error) else cl_allow)"

record cl_serde =
  clsd_tool :: "json \<Rightarrow> string + cl_tool_use"
  clsd_permission :: "json \<Rightarrow> string + cl_tool_use"
  clsd_result :: "json \<Rightarrow> string + cl_tool_result"
  clsd_failure :: "json \<Rightarrow> string + cl_tool_failure"
  clsd_notification :: "json \<Rightarrow> string + cl_notification"
  clsd_prompt :: "json \<Rightarrow> string + cl_user_prompt"
  clsd_stop :: "json \<Rightarrow> string + cl_stop_event"
  clsd_subagent_start :: "json \<Rightarrow> string + cl_subagent_run"
  clsd_subagent_stop :: "json \<Rightarrow> string + cl_subagent_run"
  clsd_teammate :: "json \<Rightarrow> string + cl_teammate_idle"
  clsd_task :: "json \<Rightarrow> string + cl_task_completed"
  clsd_config :: "json \<Rightarrow> string + cl_config_change"
  clsd_instructions :: "json \<Rightarrow> string + cl_session"
  clsd_worktree :: "json \<Rightarrow> string + cl_session"
  clsd_compact :: "json \<Rightarrow> string + cl_pre_compact"
  clsd_session_start :: "json \<Rightarrow> string + cl_session"
  clsd_session_end :: "json \<Rightarrow> string + cl_session_end"

text \<open>A handler that keeps no cursor.\<close>

definition beside :: "('r, 'w) handler \<Rightarrow> ('r, 'w \<times> 'd) handler" where
  "beside h = (\<lambda>(w, d). case h w of (fut, w') \<Rightarrow> (fut, w', d))"

lemma beside_Inr: "beside h (w, d) = (Ready k x, w', d') \<longleftrightarrow> h w = (Ready k x, w') \<and> d' = d"
  by (auto simp: beside_def split: prod.split)

fun cl_dispatch ::
  "cl_serde \<Rightarrow> cl_env \<Rightarrow> 'w harness_client \<Rightarrow> cl_command \<Rightarrow> json \<Rightarrow> (cl_response, 'w \<times> cursor_dir) handler" where
  "cl_dispatch P V H (ClInstall _ _) raw = unreachable"
| "cl_dispatch P V H (ClUninstall _ _) raw = unreachable"
| "cl_dispatch P V H ClPreToolUse raw =
     beside (parsed (clsd_tool P raw) no_check (handle_pre_tool_use V (hc_adjudicate H)))"
| "cl_dispatch P V H ClPermissionRequest raw =
     beside (parsed (clsd_permission P raw) no_check (handle_permission_request V (hc_adjudicate H)))"
| "cl_dispatch P V H ClPostToolUse raw =
     beside (parsed (clsd_result P raw) no_check (handle_post_tool_use V (hc_adjudicate H)))"
| "cl_dispatch P V H ClPostToolUseFailure raw =
     beside (parsed (clsd_failure P raw) no_check (handle_post_tool_use_failure V (hc_adjudicate H)))"
| "cl_dispatch P V H ClNotification raw =
     beside (parsed (clsd_notification P raw) no_check (handle_notification V (hc_adjudicate H)))"
| "cl_dispatch P V H ClUserPromptSubmit raw =
     beside (parsed (clsd_prompt P raw) no_check (handle_user_prompt_submit V (hc_adjudicate H)))"
| "cl_dispatch P V H ClStop raw = parsed (clsd_stop P raw) no_check (handle_stop V H)"
| "cl_dispatch P V H ClSubagentStart raw =
     beside (parsed (clsd_subagent_start P raw) no_check (handle_subagent_start V (hc_adjudicate H)))"
| "cl_dispatch P V H ClSubagentStop raw =
     beside (parsed (clsd_subagent_stop P raw) no_check (handle_subagent_stop V (hc_adjudicate H)))"
| "cl_dispatch P V H ClTeammateIdle raw =
     beside (parsed (clsd_teammate P raw) no_check (handle_teammate_idle V (hc_adjudicate H)))"
| "cl_dispatch P V H ClTaskCompleted raw =
     beside (parsed (clsd_task P raw) no_check (handle_task_completed V (hc_adjudicate H)))"
| "cl_dispatch P V H ClConfigChange raw =
     beside (parsed (clsd_config P raw) no_check (handle_config_change V (hc_adjudicate H)))"
| "cl_dispatch P V H ClInstructionsLoaded raw =
     beside (parsed (clsd_instructions P raw) no_check handle_instructions_loaded)"
| "cl_dispatch P V H ClWorktreeRemove raw =
     beside (parsed (clsd_worktree P raw) no_check handle_worktree_remove)"
| "cl_dispatch P V H ClPreCompact raw =
     beside (parsed (clsd_compact P raw) no_check (handle_pre_compact V (hc_adjudicate H)))"
| "cl_dispatch P V H ClSessionStart raw =
     beside (parsed (clsd_session_start P raw) no_check (handle_session_start V (hc_adjudicate H)))"
| "cl_dispatch P V H ClSessionEnd raw =
     beside (parsed (clsd_session_end P raw) no_check (handle_session_end V (hc_adjudicate H)))"

text \<open>
  The body inside the deadline: a connection that fails is answered there, by the degraded
  response.
\<close>

definition cl_handle ::
  "cl_serde \<Rightarrow> cl_env \<Rightarrow> (harness_client_error + 'w harness_client) future \<Rightarrow> cl_command \<Rightarrow> json
     \<Rightarrow> (cl_response, 'w \<times> cursor_dir) handler" where
  "cl_handle P V connection c raw s =
     (case connection of
        Ready n (Inl e) \<Rightarrow> (Ready n (Inr (cl_degraded_response (Some raw) c (hook_error_of_client e))), s)
      | Ready n (Inr H) \<Rightarrow>
          (case cl_dispatch P V H c raw s of (fut, s') \<Rightarrow> (and_then (Ready n ()) (\<lambda>_. fut), s'))
      | Panics n \<Rightarrow> (Panics n, s)
      | Never \<Rightarrow> (Never, s))"

text \<open>The process of a hook command, up to its response and the instant of it.\<close>

definition cl_main ::
  "string option \<Rightarrow> cl_serde \<Rightarrow> cl_env \<Rightarrow> cl_command \<Rightarrow> (hook_error + json) future
     \<Rightarrow> (harness_client_error + 'w harness_client) future \<Rightarrow> 'w \<times> cursor_dir \<Rightarrow> (nat \<times> cl_response) option" where
  "cl_main env P V c stdin connection s =
     (let budget = parse_hook_budget env in
      case read_event_within budget budget 0 stdin of
        (t, Inl error) \<Rightarrow> Some (t, cl_degraded_response None c error)
      | (t, Inr raw) \<Rightarrow>
          (case timeout_at budget t (catch_hook_panic (fst (cl_handle P V connection c raw s))) of
             Value t' (Some (Some (Inr response))) \<Rightarrow> Some (t', response)
           | Value t' (Some (Some (Inl error))) \<Rightarrow> Some (t', cl_degraded_response (Some raw) c error)
           | Value t' (Some None) \<Rightarrow> Some (t', cl_degraded_response (Some raw) c HePanicked)
           | Value t' None \<Rightarrow> Some (t', cl_degraded_response (Some raw) c (HeBudgetExceeded budget))
           | Unwinds t' \<Rightarrow> None))"

definition cl_run ::
  "string option \<Rightarrow> cl_serde \<Rightarrow> cl_env \<Rightarrow> cl_command \<Rightarrow> (hook_error + json) future
     \<Rightarrow> (harness_client_error + 'w harness_client) future \<Rightarrow> 'w \<times> cursor_dir \<Rightarrow> json option" where
  "cl_run env P V c stdin connection s = map_option (\<lambda>(_, r). cl_json r) (cl_main env P V c stdin connection s)"

section \<open>The contract\<close>

lemma cl_is_adjudication_iff:
  "cl_is_adjudication c \<longleftrightarrow>
     c \<in> {ClConfigChange, ClPermissionRequest, ClPostToolUse, ClPreCompact, ClPreToolUse, ClSubagentStop,
       ClTaskCompleted, ClTeammateIdle, ClUserPromptSubmit}"
  by (cases c) (simp_all add: cl_is_adjudication_def is_fail_closed_hook_iff)

text \<open>
  What an enforced command must have been told for a response that does not deny: Allow, but for
  a tool call left to the user (Escalate), a stop that is already being handled, and managed
  settings, whose change cannot be blocked.
\<close>

definition cl_allowed :: "'w client \<Rightarrow> event \<Rightarrow> 'w \<Rightarrow> 'w \<Rightarrow> bool" where
  "cl_allowed C ev w w' \<longleftrightarrow> (\<exists>n a. C ev w = (Ready n (Inr a), w') \<and> adj_decision a = Allow)"

definition cl_told ::
  "cl_serde \<Rightarrow> cl_env \<Rightarrow> 'w client \<Rightarrow> cl_command \<Rightarrow> json \<Rightarrow> cl_response \<Rightarrow> 'w \<Rightarrow> 'w \<Rightarrow> bool" where
  "cl_told P V C c raw r w w' \<longleftrightarrow>
     (case c of
        ClUserPromptSubmit \<Rightarrow> \<exists>e w1. clsd_prompt P raw = Inr e \<and> all_passed C (cl_mention_asks V e) w w1
          \<and> cl_allowed C (cl_prompt_event V e) w1 w'
      | ClPreToolUse \<Rightarrow> \<exists>e n a. clsd_tool P raw = Inr e \<and> C (cl_pre_event V e) w = (Ready n (Inr a), w')
          \<and> adj_decision a = (if cl_asks_user r then Escalate else Allow)
      | ClPermissionRequest \<Rightarrow> \<exists>e. clsd_permission P raw = Inr e \<and> cl_allowed C (cl_permission_event V e) w w'
      | ClPostToolUse \<Rightarrow> \<exists>e. clsd_result P raw = Inr e \<and> cl_allowed C (cl_post_event V e) w w'
      | ClPreCompact \<Rightarrow> \<exists>e. clsd_compact P raw = Inr e \<and> cl_allowed C (cl_compact_event V e) w w'
      | ClTeammateIdle \<Rightarrow> \<exists>e. clsd_teammate P raw = Inr e \<and> cl_allowed C (cl_teammate_event V e) w w'
      | ClTaskCompleted \<Rightarrow> \<exists>e. clsd_task P raw = Inr e \<and> cl_allowed C (cl_task_event V e) w w'
      | ClSubagentStop \<Rightarrow> \<exists>e. clsd_subagent_stop P raw = Inr e
          \<and> (cla_stop_hook_active e \<or> cl_allowed C (cl_subagent_stop_event V e) w w')
      | ClConfigChange \<Rightarrow> \<exists>e. clsd_config P raw = Inr e
          \<and> (clg_config_type e = ClgPolicySettings \<or> cl_allowed C (cl_config_event V e) w w')
      | _ \<Rightarrow> False)"

lemma cl_not_denied:
  "\<not> cl_is_deny (cl_permission_verdict t a) \<Longrightarrow> adj_decision a = Allow"
  "\<not> cl_is_deny (cl_post_verdict v a) \<Longrightarrow> adj_decision a = Allow"
  "\<not> cl_is_deny (cl_prompt_verdict a) \<Longrightarrow> adj_decision a = Allow"
  "\<not> cl_is_deny (cl_subagent_stop_verdict a) \<Longrightarrow> adj_decision a = Allow"
  "\<not> cl_is_deny (cl_teammate_verdict a) \<Longrightarrow> adj_decision a = Allow"
  "\<not> cl_is_deny (cl_task_verdict a) \<Longrightarrow> adj_decision a = Allow"
  "\<not> cl_is_deny (cl_compact_verdict a) \<Longrightarrow> adj_decision a = Allow"
  "\<not> cl_is_deny (cl_config_verdict e a) \<Longrightarrow> clg_config_type e = ClgPolicySettings \<or> adj_decision a = Allow"
  "\<not> cl_is_deny (cl_pre_verdict t a) \<Longrightarrow>
     adj_decision a = (if cl_asks_user (cl_pre_verdict t a) then Escalate else Allow)"
  by (cases "adj_decision a"; simp add: cl_verdicts Let_def cl_asks_user_def cl_allow_def cl_pre_tool_def
      cl_pre_tool_ask_def split: if_splits)+

lemma enforce_allowed:
  assumes "enforce C ev f w = (Ready k (Inr r), w')" "\<And>a. r = f a \<Longrightarrow> adj_decision a = Allow"
  shows "cl_allowed C ev w w'"
  using enforce_Inr[OF assms(1)] assms(2) unfolding cl_allowed_def by blast

lemma cl_prompt_told:
  assumes "handle_user_prompt_submit V C e w = (Ready k (Inr r), w')" "\<not> cl_is_deny r"
  shows "\<exists>w1. all_passed C (cl_mention_asks V e) w w1 \<and> cl_allowed C (cl_prompt_event V e) w1 w'"
proof -
  from and_next_Inr[OF assms(1)[unfolded handle_user_prompt_submit_def]] obtain n x w1 m where
    x: "ask_in_turn C (cl_mention_asks V e) w = (Ready n (Inr x), w1)"
    "(case x of Some block \<Rightarrow> answer (Inr block)
      | None \<Rightarrow> enforce C (cl_prompt_event V e) cl_prompt_verdict) w1 = (Ready m (Inr r), w')" by blast
  show ?thesis
  proof (cases x)
    case None
    then have e: "enforce C (cl_prompt_event V e) cl_prompt_verdict w1 = (Ready m (Inr r), w')"
      using x(2) by simp
    have "cl_allowed C (cl_prompt_event V e) w1 w'"
      by (rule enforce_allowed[OF e]) (use assms(2) cl_not_denied(3) in blast)
    with ask_in_turn_None[OF x(1)[unfolded None]] show ?thesis by blast
  next
    case (Some block)
    then have "block = r" using x(2) by (simp add: answer_Inr)
    then obtain ev f a where "(ev, f) \<in> set (cl_mention_asks V e)" "f a = Some r"
      using ask_in_turn_Some[OF x(1)[unfolded Some]] by blast
    then have "\<exists>m. r = cl_prompt_block m" by (auto simp: cl_mention_asks_def dest: mention_verdict_Some)
    with assms(2) show ?thesis by auto
  qed
qed

lemma cl_post_told:
  assumes "handle_post_tool_use V C e w = (Ready k (Inr r), w')" "\<not> cl_is_deny r"
  shows "cl_allowed C (cl_post_event V e) w w'"
  using settle_Inr[OF assms(1)[unfolded handle_post_tool_use_def]] assms(2) cl_not_denied(2)
  unfolding cl_allowed_def by (metis redacted_block_denies)

lemma beside_parsed:
  assumes "beside (parsed p no_check h) (w, d) = (Ready k (Inr r), w', d')"
  shows "\<exists>e. p = Inr e \<and> h e w = (Ready k (Inr r), w')"
  using assms by (auto simp: beside_Inr dest: parsed_Inr)

lemma cl_dispatch_told:
  assumes c: "cl_is_adjudication c" and r: "\<not> cl_is_deny r"
    and d: "cl_dispatch P V H c raw (w, d) = (Ready k (Inr r), w', d')"
  shows "cl_told P V (hc_adjudicate H) c raw r w w'"
proof -
  have allowed: "cl_allowed C ev w w'" if "enforce C ev f w = (Ready k (Inr r), w')"
    "\<And>a. \<not> cl_is_deny (f a) \<Longrightarrow> adj_decision a = Allow" for C ev f
    by (rule enforce_allowed[OF that(1)]) (use that(2) r in blast)
  consider "c = ClConfigChange" | "c = ClPermissionRequest" | "c = ClPostToolUse" | "c = ClPreCompact"
    | "c = ClPreToolUse" | "c = ClSubagentStop" | "c = ClTaskCompleted" | "c = ClTeammateIdle"
    | "c = ClUserPromptSubmit" using c by (auto simp: cl_is_adjudication_iff)
  then show ?thesis
  proof cases
    case 1
    from beside_parsed[OF d[unfolded 1 cl_dispatch.simps]] obtain e where e: "clsd_config P raw = Inr e"
      "enforce (hc_adjudicate H) (cl_config_event V e) (cl_config_verdict e) w = (Ready k (Inr r), w')"
      unfolding handle_config_change_def by blast
    have "clg_config_type e = ClgPolicySettings \<or> cl_allowed (hc_adjudicate H) (cl_config_event V e) w w'"
      using enforce_Inr[OF e(2)] r cl_not_denied(8) unfolding cl_allowed_def by blast
    with e(1) 1 show ?thesis by (simp add: cl_told_def)
  next
    case 2
    from beside_parsed[OF d[unfolded 2 cl_dispatch.simps]] show ?thesis
      using 2 allowed[OF _ cl_not_denied(1)] by (auto simp: cl_told_def handle_permission_request_def)
  next
    case 3
    from beside_parsed[OF d[unfolded 3 cl_dispatch.simps]] show ?thesis
      using 3 cl_post_told[OF _ r] by (auto simp: cl_told_def)
  next
    case 4
    from beside_parsed[OF d[unfolded 4 cl_dispatch.simps]] show ?thesis
      using 4 allowed[OF _ cl_not_denied(7)] by (auto simp: cl_told_def handle_pre_compact_def)
  next
    case 5
    from beside_parsed[OF d[unfolded 5 cl_dispatch.simps]] obtain e where e: "clsd_tool P raw = Inr e"
      "enforce (hc_adjudicate H) (cl_pre_event V e) (cl_pre_verdict (clt_tool_name e)) w = (Ready k (Inr r), w')"
      unfolding handle_pre_tool_use_def by blast
    from enforce_Inr[OF e(2)] r cl_not_denied(9) e(1) 5 show ?thesis by (auto simp: cl_told_def)
  next
    case 6
    from beside_parsed[OF d[unfolded 6 cl_dispatch.simps]] show ?thesis
      using 6 allowed[OF _ cl_not_denied(4)] by (auto simp: cl_told_def handle_subagent_stop_def split: if_splits)
  next
    case 7
    from beside_parsed[OF d[unfolded 7 cl_dispatch.simps]] show ?thesis
      using 7 allowed[OF _ cl_not_denied(6)] by (auto simp: cl_told_def handle_task_completed_def)
  next
    case 8
    from beside_parsed[OF d[unfolded 8 cl_dispatch.simps]] show ?thesis
      using 8 allowed[OF _ cl_not_denied(5)] by (auto simp: cl_told_def handle_teammate_idle_def)
  next
    case 9
    from beside_parsed[OF d[unfolded 9 cl_dispatch.simps]] show ?thesis
      using 9 cl_prompt_told[OF _ r] by (auto simp: cl_told_def)
  qed
qed

section \<open>The whole process\<close>

lemma cl_main_returns:
  "\<exists>t r. cl_main env P V c stdin connection s = Some (t, r) \<and> t \<le> parse_hook_budget env"
proof -
  let ?b = "parse_hook_budget env"
  obtain t0 x where x: "read_event_within ?b ?b 0 stdin = (t0, x)" by fastforce
  then have t0: "t0 \<le> ?b" by (rule read_event_time)
  show ?thesis
  proof (cases x)
    case (Inl e)
    then show ?thesis using x t0 by (simp add: cl_main_def Let_def)
  next
    case (Inr raw)
    obtain t1 y where y: "timeout_at ?b t0 (catch_hook_panic (fst (cl_handle P V connection c raw s))) = Value t1 y"
      using timeout_at_catch_value by blast
    with timeout_at_time[OF y t0] x Inr show ?thesis
      by (auto simp: cl_main_def Let_def split: option.splits sum.splits)
  qed
qed

lemma cl_handle_Inr:
  assumes "cl_handle P V connection c raw s = (Ready k (Inr r), s')"
  shows "(\<exists>m H j. connection = Ready m (Inr H) \<and> cl_dispatch P V H c raw s = (Ready j (Inr r), s'))
    \<or> (\<exists>e. r = cl_degraded_response (Some raw) c e \<and> \<not> is_budget_exceeded e)"
proof -
  have b: "\<not> is_budget_exceeded (hook_error_of_client e)" for e by (cases e) simp_all
  show ?thesis using assms b
    by (auto simp: cl_handle_def and_then_def split: future.splits sum.splits prod.splits)
qed

lemma cl_main_cases:
  assumes "cl_main env P V c stdin connection s = Some (t, r)"
  shows "(\<exists>n raw m H k s'. stdin = Ready n (Inr raw) \<and> connection = Ready m (Inr H)
       \<and> cl_dispatch P V H c raw s = (Ready k (Inr r), s'))
    \<or> (\<exists>e. r = cl_degraded_response None c e)
    \<or> (\<exists>n raw e. stdin = Ready n (Inr raw) \<and> r = cl_degraded_response (Some raw) c e)"
proof -
  let ?b = "parse_hook_budget env"
  obtain t0 x where x: "read_event_within ?b ?b 0 stdin = (t0, x)" by fastforce
  show ?thesis
  proof (cases x)
    case (Inl e)
    then show ?thesis using assms x by (auto simp: cl_main_def Let_def)
  next
    case (Inr raw)
    then obtain n where n: "stdin = Ready n (Inr raw)" using read_event_Inr[of ?b ?b 0 stdin t0 raw] x by auto
    let ?h = "cl_handle P V connection c raw s"
    have "(\<exists>k. fst ?h = Ready k (Inr r)) \<or> (\<exists>e. r = cl_degraded_response (Some raw) c e)"
      using assms x Inr
      by (auto simp: cl_main_def Let_def timeout_at_Some split: awaited.splits option.splits sum.splits)
    moreover have "(\<exists>m H j s'. connection = Ready m (Inr H) \<and> cl_dispatch P V H c raw s = (Ready j (Inr r), s'))
        \<or> (\<exists>e. r = cl_degraded_response (Some raw) c e)" if "fst ?h = Ready k (Inr r)" for k
      using cl_handle_Inr[of P V connection c raw s k r "snd ?h"] that by (metis prod.collapse)
    ultimately show ?thesis using n by blast
  qed
qed

text \<open>The degraded response of an enforced command denies, with two named exceptions.\<close>

definition cl_lets_through :: "cl_command \<Rightarrow> json option \<Rightarrow> cl_response \<Rightarrow> bool" where
  "cl_lets_through c input r \<longleftrightarrow>
     c \<in> {ClSubagentStop, ClTaskCompleted, ClTeammateIdle} \<and> r = with_system_message cl_allow fail_closed_hook_timeout
     \<or> c = ClConfigChange \<and> is_policy_settings_config_change input \<and> r = cl_allow"

lemma cl_degraded_denies:
  assumes "cl_is_adjudication c" "\<not> cl_is_deny (cl_degraded_response input c e)"
  shows "cl_lets_through c input (cl_degraded_response input c e)"
proof -
  obtain name where n: "cl_hook_event_name c = Some name" "is_fail_closed_hook name"
    using assms(1) by (auto simp: cl_is_adjudication_def split: option.splits)
  have "\<not> (\<exists>r. cl_fail_closed_response name input e = Some r \<and> cl_is_deny r)"
    using assms(2) n(1) by (auto simp: cl_degraded_response_def)
  then have "cl_degrades_open name input e" using cl_fail_closed_response_denies n(2) by blast
  then consider (budget) "is_budget_exceeded e" "lifecycle_hook_budget_timeout_degrades_open name"
    | (policy) "name = ''ConfigChange''" "is_policy_settings_config_change input"
    unfolding cl_degrades_open_def by blast
  then show ?thesis
  proof cases
    case budget
    obtain k where "e = HeBudgetExceeded k" using budget(1) by (cases e) simp_all
    moreover have "lifecycle_hook_budget_timeout_degrades_open (unwrap_or (cl_hook_event_name c) [])"
      using budget(2) n(1) by simp
    then have "c = ClSubagentStop \<or> c = ClTaskCompleted \<or> c = ClTeammateIdle"
      by (cases c) (simp_all add: lifecycle_hook_budget_timeout_degrades_open_def)
    ultimately show ?thesis
      by (elim disjE) (simp_all add: cl_lets_through_def cl_degraded_response_def
          cl_fail_closed_response_def Let_def lifecycle_hook_budget_timeout_degrades_open_def)
  next
    case policy
    have "unwrap_or (cl_hook_event_name c) [] = ''ConfigChange''" using policy(1) n(1) by simp
    then have "c = ClConfigChange" by (cases c) simp_all
    moreover have "\<not> lifecycle_hook_budget_timeout_degrades_open ''ConfigChange''"
      by (simp add: lifecycle_hook_budget_timeout_degrades_open_def)
    ultimately show ?thesis using policy(2)
      by (simp add: cl_lets_through_def cl_degraded_response_def cl_fail_closed_response_def Let_def)
  qed
qed

lemma cl_enforces:
  assumes "cl_is_adjudication c" "\<not> cl_is_deny r" "cl_main env P V c stdin connection (w, d) = Some (t, r)"
  shows "(\<exists>n raw m H w'. stdin = Ready n (Inr raw) \<and> connection = Ready m (Inr H)
       \<and> cl_told P V (hc_adjudicate H) c raw r w w')
    \<or> (\<exists>input. (input = None \<or> (\<exists>n raw. stdin = Ready n (Inr raw) \<and> input = Some raw)) \<and> cl_lets_through c input r)"
  using cl_main_cases[OF assms(3)]
proof (elim disjE exE conjE)
  fix n raw m H k s'
  assume s: "stdin = Ready n (Inr raw)" "connection = Ready m (Inr H)"
    "cl_dispatch P V H c raw (w, d) = (Ready k (Inr r), s')"
  obtain w' d' where "s' = (w', d')" by fastforce
  from cl_dispatch_told[OF assms(1,2) s(3)[unfolded this]]
  show ?thesis using s(1,2) by (intro disjI1 exI conjI)
next
  fix e assume e: "r = cl_degraded_response None c e"
  have "cl_lets_through c None r" unfolding e by (rule cl_degraded_denies[OF assms(1)]) (use assms(2) e in simp)
  then show ?thesis by (intro disjI2 exI[of _ None]) simp
next
  fix n raw e assume e: "stdin = Ready n (Inr raw)" "r = cl_degraded_response (Some raw) c e"
  have "cl_lets_through c (Some raw) r"
    unfolding e by (rule cl_degraded_denies[OF assms(1)]) (use assms(2) e in simp)
  then show ?thesis using e(1) by (intro disjI2 exI[of _ "Some raw"]) simp
qed

text \<open>A tool's output that is not allowed is never shown: the response replaces what is not preserved.\<close>

lemma cl_post_withheld:
  assumes "handle_post_tool_use V C e w = (Ready k (Inr r), w')" "\<not> cl_allowed C (cl_post_event V e) w w'"
    "clq_tool_response e \<noteq> JNull"
  shows "\<exists>p. clx_specific r = Some (ClOutPostToolUse p)
    \<and> clp_updated_tool_output p = Some (redact_tool_output (clq_tool_response e))"
proof -
  have v: "\<exists>m. cl_post_verdict out a = cl_post_tool_block_with_redacted_output m out"
    if "adj_decision a \<noteq> Allow" for out a
    using that by (cases "adj_decision a") (auto simp: cl_post_verdict_def cl_verdict_def)
  have "\<exists>m. r = cl_post_tool_block_with_redacted_output m (clq_tool_response e)"
    using settle_Inr[OF assms(1)[unfolded handle_post_tool_use_def]] assms(2) v
    unfolding cl_allowed_def by blast
  then show ?thesis using assms(3)
    by (auto simp: cl_post_tool_block_with_redacted_output_def cl_builders)
qed

section \<open>Every event fits\<close>

fun content_bytes :: "json_writer \<Rightarrow> trajectory_event \<Rightarrow> nat" where
  "content_bytes J (Action a) = action_bytes (json_bytes J) a"
| "content_bytes J (Observation ob) = observation_bytes (json_bytes J) ob"
| "content_bytes J (Control c) = control_bytes c"
| "content_bytes J (State _) = 0"

lemma max_event_fits: "max_event_text_bytes + 2 * 65 < 16 * 1024 * 1024"
  by (simp add: max_event_text_bytes_def)

lemma cl_capped_bytes:
  assumes "prints_strings (cl_json_text V)"
  shows "content_bytes (cl_json_text V) (ev_event (cl_capped_action V i session a)) < 16 * 1024 * 1024"
    "content_bytes (cl_json_text V) (ev_event (cl_capped_observation V i session ob)) < 16 * 1024 * 1024"
    "content_bytes (cl_json_text V) (ev_event (cl_capped_control V i session c)) < 16 * 1024 * 1024"
  using capped_action[OF prod.collapse[symmetric] assms, of a max_event_text_bytes]
    capped_observation[OF prod.collapse[symmetric] assms, of ob max_event_text_bytes]
    capped_control[OF prod.collapse[symmetric], of c max_event_text_bytes] max_event_fits
  by (simp_all add: cl_capped_action_def cl_capped_observation_def cl_capped_control_def cl_event_def
      event_new_def)

text \<open>The events with no text of a caller, and the reply a Stop carries.\<close>

lemma cl_plain_events:
  "content_bytes J (ev_event (cl_start_event V s)) = 0"
  "content_bytes J (ev_event (cl_subagent_start_event V ag)) = 0"
  "content_bytes J (ev_event (cl_subagent_stop_event V ag)) = 0"
  "content_bytes J (ev_event (cl_teammate_event V tm)) = length ''teammate idle''"
  by (simp_all add: cl_start_event_def cl_subagent_start_event_def cl_subagent_stop_event_def
      cl_teammate_event_def cl_event_def event_new_def started_new_def option_bytes_def)

lemma reply_content_fits:
  "content_bytes (cl_json_text V) (ev_event (cl_event V 0 session
     (Observation (Prompt (prompt_assistant (fst (truncate_event_text reply max_event_text_bytes)))))))
   < 16 * 1024 * 1024"
proof -
  have "length (fst (truncate_event_text reply max_event_text_bytes)) \<le> max_event_text_bytes + 65"
    by (simp add: truncate_event_text_def)
  then show ?thesis using max_event_fits by (simp add: cl_event_def event_new_def prompt_assistant_def)
qed

lemma transcript_content_fits:
  assumes "parse_transcript D file cursor = Inr (events, n)" "y \<in> set events"
  shows "content_bytes J (xe_event y) < 16 * 1024 * 1024"
proof -
  obtain bytes where "events = [] \<or> parse_lines D (file_lines (drop cursor bytes)) cursor = Inr (events, n)"
    using assms(1) by (auto simp: parse_transcript_def bind_result_def split: sum.splits if_splits)
  then have "\<exists>ls. parse_lines D ls cursor = Inr (events, n)" using assms(2) by auto
  then obtain r where "xe_event y = Observation r"
    "observation_bytes (json_bytes J) r \<le> max_event_text_bytes + 65"
    using parse_lines_capped[OF _ assms(2)] by blast
  then show ?thesis using max_event_fits by simp
qed

end
