(* ===== verification/Sample_Claude.thy ===== *)
theory Sample_Claude
  imports Sample_Adapters Claude
begin

text \<open>
  A concrete Claude Code hook: a prompt that mentions a file and is allowed, an output that is
  withheld, a transcript that gains its reply after the first look, and a Stop.
\<close>

section \<open>The process\<close>

definition sample_cl_json :: json_writer where
  "sample_cl_json v = (case v of JStr s \<Rightarrow> CHR 0x22 # s @ [CHR 0x22] | _ \<Rightarrow> ''{}'')"

definition sample_line :: string where "sample_line = ''hi'' @ [line_feed]"

definition sample_reader :: line_reader where
  "sample_reader s = (if s = ''hi'' then Some \<lparr>tl_type = ''assistant'', tl_timestamp = 0,
     tl_message = Some \<lparr>mp_role = ''assistant'', mp_content = [TextBlock ''yo'']\<rparr>\<rparr> else None)"

text \<open>The file is empty at the first look.\<close>

definition sample_looks :: "nat \<Rightarrow> transcript_view" where
  "sample_looks i = (let bytes = (if i = 0 then [] else sample_line)
     in \<lparr>vw_len = Inr (length bytes), vw_file = Inr bytes\<rparr>)"

definition sample_cl_env :: cl_env where
  "sample_cl_env = \<lparr>cl_agent_id = ''a'', cl_fresh = (\<lambda>_. sample_fresh), cl_json_text = sample_cl_json,
     cl_files = sample_files, cl_home_dir = None, cl_current_dir = None, cl_canonicalize = (\<lambda>_. None),
     cl_hash = (\<lambda>_. ''0''), cl_lines = sample_reader, cl_transcript = sample_looks, cl_poll_cost = (\<lambda>_. 1),
     cl_catchup_timeout = stop_transcript_catchup_timeout\<rparr>"

definition sample_harness_client :: "unit harness_client" where
  "sample_harness_client = \<lparr>hc_adjudicate = sample_client,
     hc_adjudicates = (\<lambda>evs w. (Ready 1 (Inr (map (\<lambda>_. adjudicated_allow) evs)), w))\<rparr>"

definition sample_dir :: cursor_dir where
  "sample_dir = \<lparr>cd_files = Map.empty, cd_home = True, cd_writable = True, cd_now = 0\<rparr>"

definition sample_user_prompt :: cl_user_prompt where
  "sample_user_prompt = \<lparr>clu_session_id = ''s'', clu_cwd = ''/w'', clu_prompt = ''see @a.txt''\<rparr>"

definition sample_cl_serde :: cl_serde where
  "sample_cl_serde = \<lparr>clsd_tool = (\<lambda>_. Inl ''no''), clsd_permission = (\<lambda>_. Inl ''no''),
     clsd_result = (\<lambda>_. Inl ''no''), clsd_failure = (\<lambda>_. Inl ''no''), clsd_notification = (\<lambda>_. Inl ''no''),
     clsd_prompt = (\<lambda>_. Inr sample_user_prompt), clsd_stop = (\<lambda>_. Inl ''no''),
     clsd_subagent_start = (\<lambda>_. Inl ''no''), clsd_subagent_stop = (\<lambda>_. Inl ''no''),
     clsd_teammate = (\<lambda>_. Inl ''no''), clsd_task = (\<lambda>_. Inl ''no''), clsd_config = (\<lambda>_. Inl ''no''),
     clsd_instructions = (\<lambda>_. Inl ''no''), clsd_worktree = (\<lambda>_. Inl ''no''), clsd_compact = (\<lambda>_. Inl ''no''),
     clsd_session_start = (\<lambda>_. Inl ''no''), clsd_session_end = (\<lambda>_. Inl ''no'')\<rparr>"

lemma sample_cl_mentions: "map fst (cl_mentions sample_cl_env sample_user_prompt) = [''/w/a.txt'']"
  by (simp add: cl_mentions_def resolve_mentioned_files_def sample_user_prompt_def sample_cl_env_def
      sample_mention List.map_filter_simps sample_resolved)

lemma sample_allow: "adj_decision adjudicated_allow = Allow"
  by (simp add: adjudicated_allow_def adjudicated_new_def)

lemma sample_cl_main:
  "cl_main None sample_cl_serde sample_cl_env ClUserPromptSubmit (Ready 0 (Inr JNull))
     (Ready 0 (Inr sample_harness_client)) ((), sample_dir) = Some (2, cl_allow)"
proof -
  have "\<forall>(ev, f)\<in>set (cl_mention_asks sample_cl_env sample_user_prompt). f adjudicated_allow = None"
    by (auto simp: cl_mention_asks_def sample_allow)
  from sample_asks_allowed[OF this] have asked:
    "ask_in_turn sample_client (cl_mention_asks sample_cl_env sample_user_prompt) () = (Ready 1 (Inr None), ())"
    using arg_cong[OF sample_cl_mentions, of length] by (simp add: cl_mention_asks_def)
  have "fst (cl_handle sample_cl_serde sample_cl_env (Ready 0 (Inr sample_harness_client)) ClUserPromptSubmit
      JNull ((), sample_dir)) = Ready 2 (Inr cl_allow)"
    by (simp add: cl_handle_def sample_harness_client_def sample_cl_serde_def parsed_def beside_def
        handle_user_prompt_submit_def and_next_def asked enforce_def and_then_def)
      (simp add: sample_client_def cl_prompt_verdict_def cl_verdict_def sample_allow)
  then show ?thesis
    by (simp add: cl_main_def read_event_within_def timeout_at_def parse_hook_budget_def
        default_hook_budget_def max_hook_budget_def Let_def)
qed

section \<open>An output\<close>

definition denying_client :: "unit client" where
  "denying_client e w = (Ready 1 (Inr adjudicated_deny), w)"

definition sample_output :: cl_tool_result where
  "sample_output = \<lparr>clq_session_id = ''s'', clq_tool_name = ''Bash'', clq_tool_input = JObj [],
     clq_tool_response = JObj [(''stdout'', JStr ''secret'')], clq_tool_use_id = ''1''\<rparr>"

lemma sample_withheld:
  "\<exists>r. handle_post_tool_use sample_cl_env denying_client sample_output () = (Ready 1 (Inr r), ())"
  "\<not> cl_allowed denying_client ev () ()"
  by (simp_all add: handle_post_tool_use_def settle_def denying_client_def and_then_def cl_allowed_def
      adjudicated_deny_def adjudicated_new_def)

section \<open>The transcript\<close>

lemma sample_lines: "file_lines sample_line = [sample_line]"
  using file_lines_line[of "''hi''" "[]"] by (simp add: sample_line_def)

lemma sample_trims: "trim sample_line = ''hi''" "trim ''yo'' = ''yo''" "valid_utf8 sample_line"
  by code_simp+

lemma sample_read_line: "read_transcript_line sample_reader sample_line = sample_reader ''hi''"
  by (simp add: read_transcript_line_def sample_trims)

lemma sample_yo: "truncate_event_text ''yo'' max_event_text_bytes = (''yo'', False)"
  by (simp add: truncate_event_text_def max_event_text_bytes_def)

lemma sample_parsed:
  "\<exists>x. parse_transcript sample_reader (Inr sample_line) 0 = Inr ([x], 3)
     \<and> xe_event x = Observation (Prompt (prompt_assistant ''yo''))"
  by (simp add: parse_transcript_def bind_result_def sample_lines sample_trims line_events_def sample_read_line
      sample_reader_def line_has_extractable_assistant_event_def message_events_def List.map_filter_simps sample_yo)
    (simp add: sample_line_def)

lemma sample_turn_start: "last_assistant_turn_start sample_reader (Inr sample_line) = Inr (Some 0)"
  by (simp add: last_assistant_turn_start_def bind_result_def sample_lines sample_trims sample_read_line
      sample_reader_def line_has_extractable_assistant_event_def opt_else_def)

lemma sample_reply: "0 < i \<Longrightarrow> reply_at sample_reader (sample_looks i) sample_dir ''s'' ''yo'' 0"
proof -
  assume i: "0 < i"
  obtain x where x: "parse_transcript sample_reader (Inr sample_line) 0 = Inr ([x], 3)"
    "xe_event x = Observation (Prompt (prompt_assistant ''yo''))" using sample_parsed by blast
  show ?thesis using i x
    by (simp add: reply_at_def resolve_stop_read_plan_def sample_looks_def bind_result_def sample_turn_start
        newest_assistant_reply_def prompt_assistant_def sample_trims read_retry_cursor_if_active_def
        read_retry_cursor_if_present_def read_cursor_if_present_def read_offset_if_present_def
        retry_cursor_path_def cursor_path_def cursor_dir_of_def sample_dir_def)
qed

section \<open>A tail\<close>

definition sample_tail :: "pending_transcript_event list" where
  "sample_tail = [\<lparr>pte_event = cl_event sample_cl_env 0 ''s'' (Observation (Prompt (prompt_assistant ''yo''))),
     pte_cursor_start = 0, pte_cursor_after_line = 3\<rparr>]"

lemma sample_tail_adjudicated:
  "\<exists>t r d'. adjudicate_stop_transcript_events sample_harness_client ''s'' sample_tail ((), sample_dir)
     = (Ready t r, (), d')"
  by (simp add: adjudicate_stop_transcript_events_def sample_tail_def stop_transcript_adjudicate_batch_size_def
      stop_transcript_adjudicate_timeout_def send_batch_def adjudicate_stop_batch_def and_next_def and_then_def
      sample_harness_client_def timeout_at_def Let_def split: prod.split sum.split)

end
