(* ===== verification/Install_Command.thy ===== *)
theory Install_Command
  imports Json_Map Path_Url
begin

text \<open>
  The command a provider's config holds (\<open>crates/hooks/core/src/install/binary.rs\<close>,
  \<open>install/command.rs\<close>): how the installers render the path of the binary for the shell that
  runs it, and how they recognise the result as a command of theirs. The path of the binary is
  its bytes; what finds it (the file system and \<open>PATH\<close>) is left out.
\<close>

section \<open>Rendering the binary\<close>

abbreviation quote :: char where "quote \<equiv> CHR 0x27"
abbreviation dquote :: char where "dquote \<equiv> CHR 0x22"
abbreviation space :: char where "space \<equiv> CHR 0x20"

datatype command_shell = ShPosix | ShWindowsCmd | ShPowerShell

definition strip_verbatim_prefix :: "string \<Rightarrow> string" where
  "strip_verbatim_prefix rendered =
     (case strip_prefix [backslash, backslash, CHR 0x3F, backslash] rendered of
        None \<Rightarrow> rendered
      | Some rest \<Rightarrow>
          (if 2 \<le> length rest \<and> is_alpha (rest ! 0) \<and> rest ! 1 = CHR '':'' then rest else rendered))"

text \<open>\<open>ResolvedBinary::from_exe_path\<close>: the path it holds.\<close>

definition from_exe_path :: "string \<Rightarrow> string" where
  "from_exe_path path =
     (if valid_utf8 path
      then let simplified = strip_verbatim_prefix path
           in if length simplified \<noteq> length path then simplified else path
      else path)"

definition portable_str :: "string \<Rightarrow> string" where
  "portable_str path =
     (let rendered = strip_verbatim_prefix (from_utf8_lossy path)
      in case find_map (\<lambda>suffix. strip_suffix suffix rendered) [''.exe'', ''.EXE''] of
           Some stripped \<Rightarrow> stripped
         | None \<Rightarrow> rendered)"

definition with_exe :: "string \<Rightarrow> string" where
  "with_exe rendered =
     (if suffix ''.exe'' rendered \<or> suffix ''.EXE'' rendered then rendered else rendered @ ''.exe'')"

definition is_posix_significant :: "string \<Rightarrow> bool" where
  "is_posix_significant ch \<longleftrightarrow> is_whitespace ch \<or>
     ch \<in> {[quote], [dquote], [backslash], ''$'', [CHR 0x60], ''!'', ''&'', '';'', ''('', '')'', ''<'', ''>'',
       ''|'', ''*'', ''?'', ''['', '']'', ''{'', ''}'', ''~'', ''#''}"

text \<open>\<open>value.replace('\'', by)\<close>.\<close>

definition replace_quote :: "string \<Rightarrow> string \<Rightarrow> string" where
  "replace_quote by_text s = concat (map (\<lambda>c. if c = quote then by_text else [c]) s)"

definition posix_quote :: "string \<Rightarrow> string" where
  "posix_quote s =
     (if list_ex is_posix_significant (utf8_chars s)
      then quote # replace_quote [quote, backslash, quote, quote] s @ [quote]
      else s)"

definition windows_double_quote :: "string \<Rightarrow> string" where
  "windows_double_quote s = (if list_ex is_whitespace (utf8_chars s) then dquote # s @ [dquote] else s)"

definition powershell_quote :: "string \<Rightarrow> string" where
  "powershell_quote s =
     (if list_ex (\<lambda>ch. is_whitespace ch \<or> ch = [quote]) (utf8_chars s)
      then quote # replace_quote [quote, quote] s @ [quote]
      else s)"

definition render_binary :: "command_shell \<Rightarrow> string \<Rightarrow> string" where
  "render_binary shell path =
     (let windows_exe = with_exe (strip_verbatim_prefix (from_utf8_lossy path))
      in case shell of
           ShPosix \<Rightarrow> posix_quote (portable_str path)
         | ShWindowsCmd \<Rightarrow> windows_double_quote windows_exe
         | ShPowerShell \<Rightarrow> ''& '' @ powershell_quote windows_exe)"

section \<open>Reading a command back\<close>

text \<open>
  One token: whether one was seen, its text, and what is left to read. \<open>sg\<close> and \<open>db\<close> say whether
  the scan is inside single and double quotes.
\<close>

fun scan_token :: "bool \<Rightarrow> bool \<Rightarrow> bool \<Rightarrow> string \<Rightarrow> string list \<Rightarrow> bool \<times> string \<times> string list" where
  "scan_token saw sg db tok [] = (saw, tok, [])"
| "scan_token saw sg db tok (ch # cs) =
     (if \<not> sg \<and> \<not> db \<and> is_whitespace ch
      then (if saw then (True, tok, cs) else scan_token False sg db tok cs)
      else if ch = [quote] \<and> \<not> db then scan_token True (\<not> sg) db tok cs
      else if ch = [dquote] \<and> \<not> sg then scan_token True sg (\<not> db) tok cs
      else if ch = [backslash] \<and> \<not> sg then
        (case cs of
           next # cs' \<Rightarrow>
             (if is_whitespace next \<or> next = [quote] \<or> next = [dquote] \<or> next = [backslash]
              then scan_token True sg db (tok @ next) cs'
              else scan_token True sg db (tok @ [backslash]) cs)
         | [] \<Rightarrow> (True, tok @ [backslash], []))
      else scan_token True sg db (tok @ ch) cs)"

fun scan_tokens :: "nat \<Rightarrow> string list \<Rightarrow> string list" where
  "scan_tokens max_tokens cs =
     (if max_tokens = 0 then []
      else case scan_token False False False [] cs of
             (saw, token, rest) \<Rightarrow> (if saw then token # scan_tokens (max_tokens - 1) rest else []))"

declare scan_tokens.simps [simp del]

definition shell_tokens :: "string \<Rightarrow> nat \<Rightarrow> string list" where
  "shell_tokens command max_tokens = scan_tokens max_tokens (dropWhile is_whitespace (utf8_chars command))"

definition usize_max :: nat where "usize_max = 2 ^ 64 - 1"

definition is_sondera_binary_name :: "string \<Rightarrow> bool" where
  "is_sondera_binary_name name \<longleftrightarrow> name \<in> {''sondera'', ''sondera.exe''}"

definition token_basename :: "string \<Rightarrow> string" where
  "token_basename token = after_last {slash, backslash} token"

definition is_sondera_token :: "string \<Rightarrow> bool" where
  "is_sondera_token token \<longleftrightarrow> is_sondera_binary_name (token_basename token)"

definition command_targets_sondera :: "string \<Rightarrow> bool" where
  "command_targets_sondera command \<longleftrightarrow> list_ex is_sondera_token (shell_tokens command usize_max)"

record hook_command =
  hc_binary :: string
  hc_provider :: string
  hc_subcommand :: "string option"

definition is_transparent_prefix_token :: "string \<Rightarrow> bool" where
  "is_transparent_prefix_token token \<longleftrightarrow>
     token = ''&'' \<or> token = ''env''
     \<or> \<not> prefix ''-'' token \<and> (slash \<in> set token \<or> backslash \<in> set token)
     \<or> (case split_once (CHR ''='') token of
          None \<Rightarrow> False
        | Some (var, _) \<Rightarrow> var \<noteq> [] \<and> \<not> prefix ''-'' token \<and> slash \<notin> set var)"

definition parse_hook_command :: "string \<Rightarrow> hook_command option" where
  "parse_hook_command command =
     (let tokens = shell_tokens command usize_max
      in case find (\<lambda>i. is_sondera_token (tokens ! i) \<and> list_all is_transparent_prefix_token (take i tokens))
                [0..<length tokens] of
           None \<Rightarrow> None
         | Some i \<Rightarrow>
             (case filter (\<lambda>token. token \<noteq> ''--verbose'') (drop (i + 1) tokens) of
                verb # provider # tail \<Rightarrow>
                  (if verb \<noteq> ''hook'' then None
                   else Some \<lparr>hc_binary = tokens ! i, hc_provider = provider,
                     hc_subcommand = (case tail of [] \<Rightarrow> None | s # _ \<Rightarrow> Some s)\<rparr>)
              | _ \<Rightarrow> None))"

definition command_targets_provider :: "string \<Rightarrow> string \<Rightarrow> bool" where
  "command_targets_provider command provider \<longleftrightarrow>
     (case parse_hook_command command of Some parsed \<Rightarrow> hc_provider parsed = provider | None \<Rightarrow> False)"

definition command_keys :: "string list" where
  "command_keys = [''command'', ''bash'', ''powershell'']"

fun value_targets_provider :: "json \<Rightarrow> string \<Rightarrow> bool" where
  "value_targets_provider (JArr items) provider = list_ex (\<lambda>item. value_targets_provider item provider) items"
| "value_targets_provider (JObj kvs) provider =
     list_ex (\<lambda>(key, child).
       key \<in> set command_keys
         \<and> (case as_str child of Some command \<Rightarrow> command_targets_provider command provider | None \<Rightarrow> False)
       \<or> value_targets_provider child provider) kvs"
| "value_targets_provider _ provider = False"

text \<open>The one shape of command the installers write.\<close>

definition hook_command_line :: "command_shell \<Rightarrow> string \<Rightarrow> string \<Rightarrow> bool \<Rightarrow> string \<Rightarrow> string" where
  "hook_command_line shell path provider verbose subcommand =
     render_binary shell path @ '' hook '' @ provider @ (if verbose then '' --verbose'' else [])
       @ space # subcommand"

section \<open>A rendered command is recognised\<close>

text \<open>Scalars a token takes as they are, and words made of them.\<close>

definition plain_char :: "string \<Rightarrow> bool" where
  "plain_char ch \<longleftrightarrow> \<not> is_whitespace ch \<and> ch \<notin> {[quote], [dquote], [backslash]}"

definition plain_word :: "string \<Rightarrow> bool" where
  "plain_word w \<longleftrightarrow> w \<noteq> [] \<and> list_all is_ascii w \<and> list_all plain_char (utf8_chars w)"

lemma scan_plain:
  "list_all plain_char ws \<Longrightarrow>
   scan_token saw False False tok (ws @ cs) = scan_token (saw \<or> ws \<noteq> []) False False (tok @ concat ws) cs"
  by (induction ws arbitrary: saw tok) (auto simp: plain_char_def)

lemma is_whitespace_space [simp]: "is_whitespace [space]" by (simp add: is_whitespace_def)
lemma quote_not_whitespace [simp]: "\<not> is_whitespace [quote]" by (simp add: is_whitespace_def)
lemma backslash_not_whitespace [simp]: "\<not> is_whitespace [backslash]" by (simp add: is_whitespace_def)

text \<open>Inside single quotes every scalar is literal, and \<open>'\''\<close> stands for a quote.\<close>

definition posix_escape :: "string \<Rightarrow> string list" where
  "posix_escape ch = (if ch = [quote] then [[quote], [backslash], [quote], [quote]] else [ch])"

lemma scan_quoted:
  "scan_token True True False tok (concat (map posix_escape ws) @ cs) = scan_token True True False (tok @ concat ws) cs"
  by (induction ws arbitrary: tok) (simp_all add: posix_escape_def)

lemma quote_not_cont [simp]: "\<not> is_cont quote" by (simp add: is_cont_def)

lemma utf8_chars_scalar_append:
  assumes "scalar_ok g" "t = [] \<or> \<not> is_cont (hd t)" shows "utf8_chars (g @ t) = g # utf8_chars t"
proof -
  obtain c r where g: "g = c # r" using assms(1) by (cases g) auto
  have "\<forall>b\<in>set r. is_cont b" using scalar_ok_cont assms(1) g by blast
  then have "utf8_chars g = [g]" by (simp add: g takeWhile_eq_all_conv [THEN iffD2] dropWhile_eq_Nil_conv [THEN iffD2])
  then show ?thesis using utf8_chars_append [OF assms(2), of g] by simp
qed

lemma utf8_chars_all_ascii: "is_ascii c \<Longrightarrow> t = [] \<or> \<not> is_cont (hd t) \<Longrightarrow> utf8_chars (c # t) = [c] # utf8_chars t"
  using utf8_chars_scalar_append [of "[c]" t] by (simp add: is_ascii_def)

text \<open>Escaping the quotes byte by byte is escaping them scalar by scalar.\<close>

lemma replace_quote_scalar:
  assumes "scalar_ok g" shows "replace_quote b g = (if g = [quote] then b else g)"
proof (cases "quote \<in> set g")
  case True
  then obtain c r where g: "g = c # r" "\<forall>b\<in>set r. is_cont b" "quote \<in> set (c # r)"
    using assms scalar_ok_cont by (cases g) auto
  then have "c = quote" using quote_not_cont by auto
  moreover from this have "r = []" using assms g(1) by (cases "g" rule: scalar_ok.cases) auto
  ultimately show ?thesis using g by (simp add: replace_quote_def)
next
  case False
  then have "map (\<lambda>c. if c = quote then b else [c]) g = map (\<lambda>c. [c]) g" by (intro map_cong) auto
  then have "replace_quote b g = concat (map (\<lambda>c. [c]) g)" unfolding replace_quote_def by (rule arg_cong)
  moreover have "g \<noteq> [quote]" using False by auto
  ultimately show ?thesis by simp
qed

lemma replace_quote_chars:
  "list_all scalar_ok gs \<Longrightarrow>
   replace_quote [quote, backslash, quote, quote] (concat gs) = concat (concat (map posix_escape gs))"
proof (induction gs)
  case (Cons g gs)
  then have "replace_quote [quote, backslash, quote, quote] (concat (g # gs))
      = replace_quote [quote, backslash, quote, quote] g @ replace_quote [quote, backslash, quote, quote] (concat gs)"
    by (simp add: replace_quote_def)
  then show ?case using Cons by (simp add: replace_quote_scalar posix_escape_def)
qed (simp add: replace_quote_def)

lemma utf8_chars_concat: "list_all scalar_ok gs \<Longrightarrow> utf8_chars (concat gs) = gs"
proof (induction gs)
  case (Cons g gs)
  then have "valid_utf8 (concat gs)" by (simp add: valid_utf8_def)
  then have "utf8_chars (g @ concat gs) = g # utf8_chars (concat gs)"
    using Cons.prems by (intro utf8_chars_scalar_append valid_utf8_lead) simp_all
  then show ?case using Cons by simp
qed simp

lemma scalar_ok_posix_escape:
  "list_all scalar_ok gs \<Longrightarrow> list_all scalar_ok (concat (map posix_escape gs))"
  by (induction gs) (auto simp: posix_escape_def)

text \<open>The scalars of a quoted path, and of what follows it.\<close>

lemma utf8_chars_posix_quote:
  assumes "valid_utf8 p" "t = [] \<or> \<not> is_cont (hd t)"
  shows "utf8_chars (posix_quote p @ t) =
    (if list_ex is_posix_significant (utf8_chars p)
     then [quote] # concat (map posix_escape (utf8_chars p)) @ [quote] # utf8_chars t
     else utf8_chars p @ utf8_chars t)"
proof -
  have ok: "list_all scalar_ok (utf8_chars p)" using assms(1) by (simp add: valid_utf8_def)
  let ?e = "concat (map posix_escape (utf8_chars p))"
  have "utf8_chars (concat ([quote] # ?e @ [[quote]])) = [quote] # ?e @ [[quote]]"
    using scalar_ok_posix_escape [OF ok] by (intro utf8_chars_concat) simp
  then have "utf8_chars (posix_quote p) =
      (if list_ex is_posix_significant (utf8_chars p) then [quote] # ?e @ [[quote]] else utf8_chars p)"
    using replace_quote_chars [OF ok] by (simp add: posix_quote_def del: utf8_chars.simps)
  then show ?thesis using utf8_chars_append [OF assms(2), of "posix_quote p"] by simp
qed

text \<open>A rendered path followed by words reads back as the path and the words.\<close>

definition spaced :: "string list \<Rightarrow> string" where
  "spaced ws = concat (map (\<lambda>w. space # w) ws)"

lemma spaced_lead: "spaced ws = [] \<or> \<not> is_cont (hd (spaced ws))"
  by (cases ws) (simp_all add: spaced_def is_cont_def)

lemma utf8_chars_word: "list_all is_ascii w \<Longrightarrow> t = [] \<or> \<not> is_cont (hd t) \<Longrightarrow>
   utf8_chars (w @ t) = map (\<lambda>c. [c]) w @ utf8_chars t"
proof (induction w)
  case (Cons c w)
  then have "w @ t = [] \<or> \<not> is_cont (hd (w @ t))" by (cases w) (auto simp: is_ascii_def is_cont_def)
  then show ?case using Cons utf8_chars_all_ascii [of c "w @ t"] by simp
qed simp

text \<open>What is left to read once the blank before the first word is consumed.\<close>

definition words_left :: "string list \<Rightarrow> string list" where
  "words_left ws = tl (utf8_chars (spaced ws))"

lemma utf8_chars_spaced:
  assumes "list_all plain_word ws" shows "utf8_chars (spaced ws) = (if ws = [] then [] else [space] # words_left ws)"
proof (cases ws)
  case (Cons w vs)
  then have "utf8_chars (spaced ws) = map (\<lambda>c. [c]) (space # w) @ utf8_chars (spaced vs)"
    using utf8_chars_word [of "space # w" "spaced vs"] assms spaced_lead
    by (simp add: spaced_def plain_word_def is_ascii_def del: utf8_chars.simps)
  then show ?thesis using Cons by (simp add: words_left_def)
qed (simp add: spaced_def)

lemma words_left_Cons:
  assumes "plain_word w" shows "words_left (w # ws) = map (\<lambda>c. [c]) w @ utf8_chars (spaced ws)"
  using utf8_chars_word [of "space # w" "spaced ws"] assms spaced_lead
  by (simp add: words_left_def spaced_def plain_word_def is_ascii_def del: utf8_chars.simps)

lemma scan_token_end:
  "list_all plain_word ws \<Longrightarrow> scan_token True False False tok (utf8_chars (spaced ws)) = (True, tok, words_left ws)"
  by (cases "ws = []") (simp add: spaced_def words_left_def, simp add: utf8_chars_spaced)

lemma plain_word_chars: "plain_word w \<Longrightarrow> w \<noteq> [] \<and> list_all plain_char (map (\<lambda>c. [c]) w)"
  using utf8_chars_word [of w "[]"] by (simp add: plain_word_def)

lemma scan_words: "list_all plain_word ws \<Longrightarrow> length ws \<le> n \<Longrightarrow> scan_tokens n (words_left ws) = ws"
proof (induction ws arbitrary: n)
  case Nil
  then show ?case by (simp add: spaced_def words_left_def scan_tokens.simps)
next
  case (Cons w ws)
  have "scan_token False False False [] (words_left (w # ws)) = (True, w, words_left ws)"
    using Cons.prems plain_word_chars [of w]
    by (simp add: words_left_Cons scan_plain scan_token_end del: utf8_chars.simps)
  moreover have "scan_tokens (n - 1) (words_left ws) = ws" "n \<noteq> 0" using Cons by auto
  ultimately show ?case by (subst scan_tokens.simps) simp
qed

lemma shell_tokens_rendered:
  assumes "valid_utf8 p" "p \<noteq> []" "list_all plain_word ws" "length ws < n"
  shows "shell_tokens (posix_quote p @ spaced ws) n = p # ws"
proof -
  let ?t = "utf8_chars (spaced ws)"
  have "dropWhile is_whitespace (utf8_chars (posix_quote p @ spaced ws)) = utf8_chars (posix_quote p @ spaced ws)
    \<and> scan_token False False False [] (utf8_chars (posix_quote p @ spaced ws)) = (True, p, words_left ws)"
  proof (cases "list_ex is_posix_significant (utf8_chars p)")
    case True
    then show ?thesis
      by (simp add: utf8_chars_posix_quote [OF assms(1) spaced_lead] scan_quoted scan_token_end assms(3))
  next
    case False
    then have plain: "list_all plain_char (utf8_chars p)"
      by (auto simp: list_ex_iff list_all_iff plain_char_def is_posix_significant_def)
    have ne: "utf8_chars p \<noteq> []" using assms(2) by (cases p) simp_all
    then have "scan_token False False False [] (utf8_chars p @ ?t) = (True, p, words_left ws)"
      using scan_plain [OF plain, of False "[]" ?t] by (simp add: scan_token_end assms(3) del: utf8_chars.simps)
    moreover have "dropWhile is_whitespace (utf8_chars p @ ?t) = utf8_chars p @ ?t"
      using ne plain by (cases "utf8_chars p") (simp_all add: plain_char_def)
    ultimately show ?thesis using False utf8_chars_posix_quote [OF assms(1) spaced_lead] by simp
  qed
  then show ?thesis using scan_words [OF assms(3), of "n - 1"] assms(4)
    by (simp add: shell_tokens_def scan_tokens.simps [of n])
qed

text \<open>
  The path a POSIX command names is the one without \<open>.exe\<close>, and it is still the binary.
\<close>

lemma valid_utf8_append_ascii:
  assumes "valid_utf8 (s @ t)" "t = [] \<or> \<not> is_cont (hd t)" shows "valid_utf8 s" "valid_utf8 t"
  using assms utf8_chars_append [OF assms(2), of s] by (simp_all add: valid_utf8_def)

lemma valid_strip_verbatim_prefix:
  assumes "valid_utf8 p" shows "valid_utf8 (strip_verbatim_prefix p)"
proof (cases "strip_verbatim_prefix p = p")
  case False
  then obtain rest where p: "p = [backslash, backslash, CHR 0x3F, backslash] @ rest"
    and rest: "strip_verbatim_prefix p = rest" "2 \<le> length rest" "is_alpha (rest ! 0)"
    by (auto simp: strip_verbatim_prefix_def strip_prefix_def prefix_def split: option.splits if_splits)
  then have "rest = [] \<or> \<not> is_cont (hd rest)" by (cases rest) (auto simp: byte_defs)
  then show ?thesis using valid_utf8_append_ascii assms p rest(1) by metis
qed (use assms in simp)

lemma valid_strip_suffix:
  assumes "valid_utf8 s" "strip_suffix e s = Some r" "e = [] \<or> \<not> is_cont (hd e)" shows "valid_utf8 r"
proof -
  have "s = r @ e" using assms(2) by (auto simp: strip_suffix_def suffix_def split: if_splits)
  then show ?thesis using valid_utf8_append_ascii(1) assms(1,3) by blast
qed

lemma valid_portable_str: "valid_utf8 path \<Longrightarrow> valid_utf8 (portable_str path)"
  unfolding portable_str_def Let_def from_utf8_lossy_valid
  by (auto split: option.splits simp: valid_strip_verbatim_prefix is_cont_def elim!: valid_strip_suffix [rotated])

text \<open>The file name decides: neither the verbatim prefix nor \<open>.exe\<close> hides the binary.\<close>

lemma after_last_append: "after_last seps (xs @ ys) = (if set ys \<inter> seps = {} then after_last seps xs @ ys else after_last seps ys)"
proof (cases "set ys \<inter> seps = {}")
  case True
  then have "takeWhile (\<lambda>c. c \<notin> seps) (rev ys @ rev xs) = rev ys @ takeWhile (\<lambda>c. c \<notin> seps) (rev xs)"
    by (intro takeWhile_append2) auto
  with True show ?thesis by (simp add: after_last_def)
next
  case False
  then obtain c where "c \<in> set (rev ys)" "\<not> c \<notin> seps" by auto
  then have "takeWhile (\<lambda>c. c \<notin> seps) (rev ys @ rev xs) = takeWhile (\<lambda>c. c \<notin> seps) (rev ys)"
    by (rule takeWhile_append1)
  with False show ?thesis by (simp add: after_last_def)
qed

lemma token_basename_strip_verbatim: "token_basename (strip_verbatim_prefix p) = token_basename p"
proof (cases "strip_verbatim_prefix p = p")
  case False
  then obtain rest where p: "p = [backslash, backslash, CHR 0x3F, backslash] @ rest" "strip_verbatim_prefix p = rest"
    by (auto simp: strip_verbatim_prefix_def strip_prefix_def prefix_def split: option.splits if_splits)
  have "after_last {slash, backslash} [backslash, backslash, CHR 0x3F, backslash] = []" by (simp add: after_last_def)
  moreover have "after_last {slash, backslash} rest = rest" if "set rest \<inter> {slash, backslash} = {}"
  proof -
    have "takeWhile (\<lambda>c. c \<notin> {slash, backslash}) (rev rest) = rev rest" using that by (intro takeWhile_eq_all_conv [THEN iffD2]) auto
    then show ?thesis unfolding after_last_def by (rule trans [OF arg_cong [of _ _ rev]]) simp
  qed
  ultimately have "after_last {slash, backslash} ([backslash, backslash, CHR 0x3F, backslash] @ rest) = after_last {slash, backslash} rest"
    unfolding after_last_append by auto
  then show ?thesis using p by (simp add: token_basename_def)
qed simp

lemma sondera_portable:
  assumes "valid_utf8 path" "token_basename path \<in> {''sondera'', ''sondera.exe'', ''sondera.EXE''}"
  shows "is_sondera_token (portable_str path)"
proof -
  let ?r = "strip_verbatim_prefix path"
  have base: "token_basename ?r \<in> {''sondera'', ''sondera.exe'', ''sondera.EXE''}"
    using assms(2) by (simp add: token_basename_strip_verbatim)
  have cut: "token_basename ?r = token_basename r @ e" if "strip_suffix e ?r = Some r" "e \<in> {''.exe'', ''.EXE''}" for e r
  proof -
    have "?r = r @ e" using that(1) by (auto simp: strip_suffix_def suffix_def split: if_splits)
    then show ?thesis using that(2) by (auto simp: token_basename_def after_last_append)
  qed
  have keep: "\<not> suffix e (token_basename ?r)" if "strip_suffix e ?r = None" for e
  proof -
    have "suffix (token_basename ?r) ?r"
      by (simp add: token_basename_def after_last_def suffix_def) (metis rev_append rev_rev_ident takeWhile_dropWhile_id)
    then show ?thesis using that suffix_order.trans by (auto simp: strip_suffix_def split: if_splits)
  qed
  show ?thesis
  proof (cases "strip_suffix ''.exe'' ?r")
    case (Some r)
    then have "token_basename r = ''sondera''" using cut [OF Some] base by auto
    then show ?thesis using Some
      by (simp add: portable_str_def from_utf8_lossy_valid assms(1) is_sondera_token_def is_sondera_binary_name_def)
  next
    case none: None
    then show ?thesis
    proof (cases "strip_suffix ''.EXE'' ?r")
      case (Some r)
      then have "token_basename r = ''sondera''" using cut [OF Some] base by auto
      then show ?thesis using Some none
        by (simp add: portable_str_def from_utf8_lossy_valid assms(1) is_sondera_token_def is_sondera_binary_name_def)
    next
      case None
      then have "token_basename ?r = ''sondera''" using keep [OF none] keep [OF None] base by (auto simp: suffix_def)
      then show ?thesis using None none
        by (simp add: portable_str_def from_utf8_lossy_valid assms(1) is_sondera_token_def is_sondera_binary_name_def)
    qed
  qed
qed

definition sondera_path :: "string \<Rightarrow> bool" where
  "sondera_path path \<longleftrightarrow>
     valid_utf8 path \<and> token_basename path \<in> {''sondera'', ''sondera.exe'', ''sondera.EXE''}"

lemma posix_command_parses:
  assumes "sondera_path path"
    and "plain_word provider" "provider \<noteq> ''--verbose''" "plain_word sub" "sub \<noteq> ''--verbose''"
  shows "parse_hook_command (hook_command_line ShPosix path provider verbose sub) =
    Some \<lparr>hc_binary = portable_str path, hc_provider = provider, hc_subcommand = Some sub\<rparr>"
proof -
  let ?ws = "[''hook'', provider] @ (if verbose then [''--verbose''] else []) @ [sub]"
  have bin: "is_sondera_token (portable_str path)" and valid: "valid_utf8 path"
    using assms(1) sondera_portable by (simp_all add: sondera_path_def)
  then have ne: "portable_str path \<noteq> []" by (auto simp: is_sondera_token_def token_basename_def after_last_def is_sondera_binary_name_def)
  have words: "list_all plain_word ?ws" using assms(2,4) by (simp add: plain_word_def plain_char_def is_ascii_def is_whitespace_def is_cont_def)
  have line: "hook_command_line ShPosix path provider verbose sub = posix_quote (portable_str path) @ spaced ?ws"
    by (simp add: hook_command_line_def render_binary_def spaced_def Let_def)
  have toks: "shell_tokens (hook_command_line ShPosix path provider verbose sub) usize_max = portable_str path # ?ws"
    unfolding line by (rule shell_tokens_rendered) (use words ne valid_portable_str valid in \<open>simp_all add: usize_max_def\<close>)
  show ?thesis using assms bin by (simp add: parse_hook_command_def toks upt_rec [of 0])
qed

lemma posix_command_targets:
  assumes "sondera_path path" "plain_word provider" "provider \<noteq> ''--verbose''" "plain_word sub" "sub \<noteq> ''--verbose''"
  shows "command_targets_provider (hook_command_line ShPosix path provider verbose sub) p \<longleftrightarrow> p = provider"
  using posix_command_parses [OF assms] by (auto simp: command_targets_provider_def)

text \<open>
  The other two renderings are recognised too, but what is read back need not be the path: a
  backslash before a backslash and a doubled quote are taken for escapes.
\<close>

lemma windows_path_misread:
  "parse_hook_command (hook_command_line ShWindowsCmd ([backslash, backslash] @ ''srv'' @ [backslash] @ ''sondera.exe'')
      ''vscode'' True ''stop'')
   = Some \<lparr>hc_binary = [backslash] @ ''srv'' @ [backslash] @ ''sondera.exe'', hc_provider = ''vscode'',
       hc_subcommand = Some ''stop''\<rparr>"
  by (simp add: hook_command_line_def render_binary_def strip_verbatim_prefix_def strip_prefix_def with_exe_def
    windows_double_quote_def powershell_quote_def replace_quote_def is_whitespace_def is_cont_def suffix_def
    parse_hook_command_def shell_tokens_def scan_tokens.simps usize_max_def is_sondera_token_def
    is_sondera_binary_name_def token_basename_def after_last_def is_transparent_prefix_token_def upt_rec Let_def)

lemma powershell_path_misread:
  "parse_hook_command (hook_command_line ShPowerShell (''C:/O'' @ [quote] @ ''B/sondera.exe'') ''copilot'' True ''stop'')
   = Some \<lparr>hc_binary = ''C:/OB/sondera.exe'', hc_provider = ''copilot'', hc_subcommand = Some ''stop''\<rparr>"
  by (simp add: hook_command_line_def render_binary_def strip_verbatim_prefix_def strip_prefix_def with_exe_def
    windows_double_quote_def powershell_quote_def replace_quote_def is_whitespace_def is_cont_def suffix_def
    parse_hook_command_def shell_tokens_def scan_tokens.simps usize_max_def is_sondera_token_def
    is_sondera_binary_name_def token_basename_def after_last_def is_transparent_prefix_token_def upt_rec Let_def)

end
