(* ===== verification/Install_Config.thy ===== *)
theory Install_Config
  imports Install_Command Event
begin

text \<open>
  What surrounds a provider's splice (\<open>crates/hooks/core/src/install.rs\<close>, \<open>install/config.rs\<close>): the
  backup, reading and writing of its config document, the sweep of our entries out of an event
  map and the merge of fresh ones into it. The document format is a parameter: a decoder and an
  encoder of the text of a file.
\<close>

section \<open>The event map\<close>

text \<open>
  Every provider removes its entries in a loop over the event names: an answer of \<open>decide\<close> says
  whether the value of an event is left alone, removed, or replaced.
\<close>

fun sweep :: "(json \<Rightarrow> json option option) \<Rightarrow> string list \<Rightarrow> (string \<times> json) list \<Rightarrow> (string \<times> json) list \<times> bool" where
  "sweep decide [] m = (m, False)"
| "sweep decide (k # ks) m =
     (case Option.bind (map_of m k) decide of
        None \<Rightarrow> sweep decide ks m
      | Some None \<Rightarrow> (fst (sweep decide ks (json_remove k m)), True)
      | Some (Some v) \<Rightarrow> (fst (sweep decide ks (json_insert k v m)), True))"

text \<open>The rules of an event: none when its value is missing or no array.\<close>

definition rules_of :: "(string \<times> json) list \<Rightarrow> string \<Rightarrow> json list" where
  "rules_of m k = (case map_of m k of Some (JArr rs) \<Rightarrow> rs | _ \<Rightarrow> [])"

text \<open>Fresh rules are joined to those that stay; a value that is no array is replaced.\<close>

fun merge_events :: "(json list \<Rightarrow> json list \<Rightarrow> json list) \<Rightarrow> (string \<times> json) list \<Rightarrow> (string \<times> json) list \<Rightarrow> (string \<times> json) list" where
  "merge_events put [] m = m"
| "merge_events put ((e, v) # new) m =
     (case v of
        JArr fresh \<Rightarrow> merge_events put new (json_insert e
          (case map_of m e of Some (JArr old) \<Rightarrow> JArr (put fresh old) | _ \<Rightarrow> v) m)
      | _ \<Rightarrow> merge_events put new m)"

lemma map_of_sweep:
  assumes "distinct (keys m)" "distinct ks"
  shows "map_of (fst (sweep decide ks m)) k =
    (if k \<in> set ks then (case Option.bind (map_of m k) decide of None \<Rightarrow> map_of m k | Some r \<Rightarrow> r) else map_of m k)"
  using assms
  by (induction decide ks m rule: sweep.induct) (auto split: option.split bind_splits)

lemma distinct_sweep [simp]: "distinct (keys m) \<Longrightarrow> distinct (keys (fst (sweep decide ks m)))"
  by (induction decide ks m rule: sweep.induct) (auto split: option.split)

lemma sweep_changed:
  assumes "distinct (keys m)" "distinct ks"
  shows "snd (sweep decide ks m) \<longleftrightarrow> (\<exists>k\<in>set ks. Option.bind (map_of m k) decide \<noteq> None)"
  using assms by (induction decide ks m rule: sweep.induct) (auto split: option.split)

lemma sweep_unchanged: "\<not> snd (sweep decide ks m) \<Longrightarrow> fst (sweep decide ks m) = m"
  by (induction decide ks m rule: sweep.induct) (auto split: option.splits)

text \<open>A sweep over the event names of the map itself.\<close>

lemma map_of_sweep_all:
  assumes "distinct (keys m)"
  shows "map_of (fst (sweep decide (keys m) m)) k =
    (case Option.bind (map_of m k) decide of None \<Rightarrow> map_of m k | Some r \<Rightarrow> r)"
proof (cases "k \<in> set (keys m)")
  case False
  then have "map_of m k = None" by (simp add: map_of_eq_None_iff)
  then show ?thesis using assms False by (simp add: map_of_sweep del: set_map)
qed (simp add: map_of_sweep assms del: set_map)

lemma distinct_merge [simp]: "distinct (keys m) \<Longrightarrow> distinct (keys (merge_events put new m))"
  by (induction put new m rule: merge_events.induct) (auto split: json.split)

definition array_values :: "(string \<times> json) list \<Rightarrow> bool" where
  "array_values new \<longleftrightarrow> list_all (\<lambda>(e, v). \<exists>rs. v = JArr rs) new"

lemma map_of_merge:
  assumes "distinct (keys new)" "array_values new"
  shows "map_of (merge_events put new m) k =
    (case map_of new k of
       None \<Rightarrow> map_of m k
     | Some _ \<Rightarrow> Some (case map_of m k of
         Some (JArr old) \<Rightarrow> JArr (put (rules_of new k) old) | _ \<Rightarrow> JArr (rules_of new k)))"
  using assms
proof (induction put new m rule: merge_events.induct)
  case (2 put e v new m)
  then obtain fresh where v: "v = JArr fresh" by (auto simp: array_values_def)
  let ?m = "json_insert e (case map_of m e of Some (JArr old) \<Rightarrow> JArr (put fresh old) | _ \<Rightarrow> JArr fresh) m"
  have IH: "map_of (merge_events put new ?m) k = (case map_of new k of None \<Rightarrow> map_of ?m k
      | Some _ \<Rightarrow> Some (case map_of ?m k of Some (JArr old) \<Rightarrow> JArr (put (rules_of new k) old) | _ \<Rightarrow> JArr (rules_of new k)))"
    using "2.IH" "2.prems" unfolding v by (simp add: array_values_def)
  have e: "map_of new e = None" using "2.prems" by (simp add: map_of_eq_None_iff)
  show ?case
  proof (cases "k = e")
    case True
    then show ?thesis using IH e v by (auto simp: rules_of_def split: option.split json.split)
  next
    case False
    then have "rules_of ((e, JArr fresh) # new) k = rules_of new k" "map_of ?m k = map_of m k"
      by (simp_all add: rules_of_def)
    then show ?thesis using IH False unfolding v by (simp only: merge_events.simps json.case map_of.simps fst_conv fun_upd_apply if_False)
  qed
qed simp

section \<open>The splice\<close>

text \<open>The event map of a config document, and what JSON guarantees of one.\<close>

definition hooks_of :: "(string \<times> json) list \<Rightarrow> (string \<times> json) list" where
  "hooks_of config = (case map_of config ''hooks'' of Some (JObj m) \<Rightarrow> m | _ \<Rightarrow> [])"

definition config_ok :: "(string \<times> json) list \<Rightarrow> bool" where
  "config_ok config \<longleftrightarrow> distinct (keys config) \<and> distinct (keys (hooks_of config))"

text \<open>
  The splice of most providers: the event map is swept and fresh rules merged into it, a value
  of \<open>hooks\<close> that is no object is replaced. Revoking drops an event map that became empty.
\<close>

definition apply_events ::
  "((string \<times> json) list \<Rightarrow> (string \<times> json) list \<times> bool) \<Rightarrow> (json list \<Rightarrow> json list \<Rightarrow> json list)
   \<Rightarrow> (string \<times> json) list \<Rightarrow> (string \<times> json) list \<Rightarrow> (string \<times> json) list" where
  "apply_events remove put new config =
     json_insert ''hooks''
       (case unwrap_or (map_of config ''hooks'') (JObj []) of
          JObj m \<Rightarrow> JObj (merge_events put new (fst (remove m)))
        | _ \<Rightarrow> JObj new) config"

definition revoke_events ::
  "((string \<times> json) list \<Rightarrow> (string \<times> json) list \<times> bool) \<Rightarrow> (string \<times> json) list \<Rightarrow> (string \<times> json) list \<times> bool" where
  "revoke_events remove config =
     (case map_of config ''hooks'' of
        Some (JObj m) \<Rightarrow>
          (case remove m of (m', changed) \<Rightarrow>
             if \<not> changed then (config, False)
             else if m' = [] then (json_remove ''hooks'' config, True)
             else (json_insert ''hooks'' (JObj m') config, True))
      | _ \<Rightarrow> (config, False))"

definition swept :: "(json \<Rightarrow> json option option) \<Rightarrow> (string \<times> json) list \<Rightarrow> (string \<times> json) list \<times> bool" where
  "swept decide m = sweep decide (keys m) m"

text \<open>
  What a provider promises of its splice. \<open>remove\<close> takes our entries out of an event map, \<open>new\<close> are
  the fresh rules for a binary that is \<open>fit\<close>, and \<open>put\<close> joins them to the rules that stay. Of an
  array of rules \<open>clean\<close> are those that stay and \<open>changed\<close> says whether it is rewritten; rules that
  are \<open>tidy\<close> are only dropped when they are ours. Fresh rules are swept out again, wherever \<open>put\<close>
  placed them.
\<close>

locale hook_splice =
  fixes remove :: "(string \<times> json) list \<Rightarrow> (string \<times> json) list \<times> bool"
    and decide :: "json \<Rightarrow> json option option"
    and clean :: "json list \<Rightarrow> json list"
    and changed :: "json list \<Rightarrow> bool"
    and tidy :: "json list \<Rightarrow> bool"
    and put :: "json list \<Rightarrow> json list \<Rightarrow> json list"
    and fit :: "'b \<Rightarrow> bool"
    and new :: "'b \<Rightarrow> (string \<times> json) list"
  assumes removed: "distinct (keys m) \<Longrightarrow> map_of (fst (remove m)) k =
      (case Option.bind (map_of m k) decide of None \<Rightarrow> map_of m k | Some r \<Rightarrow> r)"
    and removed_unchanged: "\<not> snd (remove m) \<Longrightarrow> fst (remove m) = m"
    and removed_distinct: "distinct (keys m) \<Longrightarrow> distinct (keys (fst (remove m)))"
    and decide_array: "decide (JArr rs) =
      (if changed rs then Some (if clean rs = [] then None else Some (JArr (clean rs))) else None)"
    and decide_other: "(\<And>rs. v \<noteq> JArr rs) \<Longrightarrow> decide v = None \<or> decide v = Some None"
    and clean_nil: "clean [] = []"
    and clean_clean: "clean (clean rs) = clean rs"
    and tidy_unchanged: "tidy rs \<Longrightarrow> \<not> changed rs \<Longrightarrow> clean rs = rs"
    and new_distinct: "distinct (keys (new b))"
    and new_arrays: "array_values (new b)"
    and fresh_clean: "fit b \<Longrightarrow> map_of (new b) e = Some (JArr fresh) \<Longrightarrow>
      changed (put fresh old) \<and> clean (put fresh old) = clean old"
    and put_nil: "put fresh [] = fresh"
begin

lemma removed_cong:
  "distinct (keys a) \<Longrightarrow> distinct (keys b) \<Longrightarrow> map_of a k = map_of b k
   \<Longrightarrow> map_of (fst (remove a)) k = map_of (fst (remove b)) k"
  by (simp add: removed cong: option.case_cong)

lemma removed_value:
  assumes "distinct (keys m)" "tidy (rules_of m k)"
  shows "map_of (fst (remove m)) k =
    (case map_of m k of
       Some (JArr rs) \<Rightarrow> if changed rs \<and> clean rs = [] then None else Some (JArr (clean rs))
     | Some v \<Rightarrow> if decide v = None then Some v else None
     | None \<Rightarrow> None)"
proof (cases "map_of m k")
  case (Some v)
  have "decide v = None \<or> decide v = Some None" if "\<And>rs. v \<noteq> JArr rs" using decide_other that by blast
  then show ?thesis using assms Some tidy_unchanged
    by (cases v) (auto simp: removed decide_array rules_of_def)
qed (simp add: removed assms)

lemma removed_rules:
  assumes "distinct (keys m)" "tidy (rules_of m k)"
  shows "rules_of (fst (remove m)) k = clean (rules_of m k)"
  unfolding rules_of_def removed_value [OF assms]
  by (auto simp: clean_nil split: option.split json.split)

abbreviation joined :: "'b \<Rightarrow> (string \<times> json) list \<Rightarrow> (string \<times> json) list" where
  "joined b m \<equiv> merge_events put (new b) (fst (remove m))"

lemma distinct_joined: "distinct (keys m) \<Longrightarrow> distinct (keys (joined b m))"
  by (simp add: removed_distinct)

lemma fresh_array: "map_of (new b) k = Some v \<Longrightarrow> v = JArr (rules_of (new b) k)"
  using new_arrays [of b] by (fastforce simp: array_values_def list_all_iff rules_of_def dest: map_of_SomeD)

text \<open>After the splice: in the events we install, the fresh rules joined to those that stay.\<close>

lemma joined_event:
  assumes "distinct (keys m)" "tidy (rules_of m k)" "map_of (new b) k \<noteq> None"
  shows "map_of (joined b m) k = Some (JArr (put (rules_of (new b) k) (clean (rules_of m k))))"
proof -
  have "map_of (joined b m) k = Some (JArr (put (rules_of (new b) k) (rules_of (fst (remove m)) k)))"
    using assms(3) unfolding map_of_merge [OF new_distinct new_arrays]
    by (auto simp: rules_of_def put_nil split: option.split json.split)
  then show ?thesis by (simp add: removed_rules assms)
qed

lemma joined_other: "map_of (new b) k = None \<Longrightarrow> map_of (joined b m) k = map_of (fst (remove m)) k"
  by (simp add: map_of_merge new_distinct new_arrays)

lemma joined_rules:
  assumes "distinct (keys m)" "tidy (rules_of m k)"
  shows "rules_of (joined b m) k =
    (if map_of (new b) k = None then clean (rules_of m k) else put (rules_of (new b) k) (clean (rules_of m k)))"
  using joined_event [OF assms, of b] joined_other [of b k m] removed_rules [OF assms]
  by (simp add: rules_of_def [of "joined b m"] rules_of_def [of "fst (remove m)"])

lemma removed_removed:
  assumes "distinct (keys m)" "tidy (rules_of m k)"
  shows "map_of (fst (remove (fst (remove m)))) k = map_of (fst (remove m)) k"
proof -
  have "\<not> changed rs \<Longrightarrow> clean rs = [] \<Longrightarrow> rs = []" if "map_of m k = Some (JArr rs)" for rs
    using tidy_unchanged assms(2) that by (simp add: rules_of_def)
  then show ?thesis
    unfolding removed [OF removed_distinct [OF assms(1)]] removed_value [OF assms]
    by (auto simp: decide_array clean_clean clean_nil split: option.split json.split)
qed

text \<open>A second splice finds what the first one wrote and changes nothing.\<close>

lemma joined_twice:
  assumes "distinct (keys m)" "\<forall>k. tidy (rules_of m k)" "fit b"
  shows "map_of (joined b (joined b m)) = map_of (joined b m)"
proof (rule ext)
  fix k
  let ?m = "joined b m"
  have d: "distinct (keys ?m)" using assms(1) by (rule distinct_joined)
  show "map_of (joined b ?m) k = map_of ?m k"
  proof (cases "map_of (new b) k")
    case None
    then have m: "map_of ?m k = map_of (fst (remove m)) k" by (rule joined_other)
    have "map_of (joined b ?m) k = map_of (fst (remove ?m)) k" by (rule joined_other [OF None])
    also have "\<dots> = map_of (fst (remove (fst (remove m)))) k"
      using d removed_distinct [OF assms(1)] m by (rule removed_cong)
    finally show ?thesis using removed_removed assms m by simp
  next
    case (Some v)
    then have v: "map_of (new b) k = Some (JArr (rules_of (new b) k))" using fresh_array by metis
    let ?rs = "put (rules_of (new b) k) (clean (rules_of m k))"
    have m: "map_of ?m k = Some (JArr ?rs)" using joined_event assms Some by simp
    have "changed ?rs" "clean ?rs = clean (rules_of m k)" using fresh_clean [OF assms(3) v] clean_clean by simp_all
    then have "rules_of (fst (remove ?m)) k = clean (rules_of m k)"
      using m by (simp add: rules_of_def removed d decide_array)
    then show ?thesis using Some m unfolding map_of_merge [OF new_distinct new_arrays, of put b "fst (remove ?m)"]
      by (auto simp: rules_of_def put_nil split: option.splits json.splits)
  qed
qed

text \<open>Taking our entries out after a splice leaves the rules that doing so before it leaves.\<close>

lemma removed_joined:
  assumes "distinct (keys m)" "\<forall>k. tidy (rules_of m k)" "fit b"
  shows "rules_of (fst (remove (joined b m))) k = rules_of (fst (remove m)) k"
proof (cases "map_of (new b) k")
  case None
  let ?m = "joined b m"
  have "map_of (fst (remove ?m)) k = map_of (fst (remove (fst (remove m)))) k"
    using distinct_joined removed_distinct joined_other [OF None] assms(1) by (intro removed_cong) simp_all
  then have "map_of (fst (remove ?m)) k = map_of (fst (remove m)) k" using removed_removed assms by simp
  then show ?thesis by (simp add: rules_of_def)
next
  case (Some v)
  let ?m = "joined b m"
  have v: "map_of (new b) k = Some (JArr (rules_of (new b) k))" using Some fresh_array by metis
  have m: "map_of ?m k = Some (JArr (put (rules_of (new b) k) (clean (rules_of m k))))" using joined_event assms Some by simp
  then have "rules_of (fst (remove ?m)) k = clean (rules_of m k)"
    using fresh_clean [OF assms(3) v, of "clean (rules_of m k)"] clean_clean distinct_joined [OF assms(1)]
    by (simp add: rules_of_def removed decide_array)
  then show ?thesis using removed_rules assms by simp
qed

lemma removed_nil: "fst (remove []) = []"
proof -
  have "map_of (fst (remove [])) = Map.empty" using removed [of "[]"] by (simp add: fun_eq_iff)
  then show ?thesis by simp
qed

lemma joined_cong:
  assumes "distinct (keys a)" "distinct (keys c)" "map_of a = map_of c" shows "map_of (joined b a) = map_of (joined b c)"
proof (rule ext)
  fix k
  have "map_of (fst (remove a)) k = map_of (fst (remove c)) k" using assms by (intro removed_cong) simp_all
  then show "map_of (joined b a) k = map_of (joined b c) k"
    unfolding map_of_merge [OF new_distinct new_arrays] by (simp cong: option.case_cong)
qed

lemma joined_nil: "map_of (joined b []) = map_of (new b)"
proof (rule ext)
  fix k
  show "map_of (joined b []) k = map_of (new b) k"
    using fresh_array [of b k] unfolding map_of_merge [OF new_distinct new_arrays] removed_nil
    by (cases "map_of (new b) k") auto
qed

text \<open>The two splices act on the event map as the operations above.\<close>

lemma apply_events_hooks:
  assumes "config_ok config"
  shows "map_of (hooks_of (apply_events remove put (new b) config)) = map_of (joined b (hooks_of config))"
proof (cases "map_of config ''hooks''")
  case None
  then show ?thesis by (simp add: apply_events_def hooks_of_def)
next
  case (Some v)
  then show ?thesis using joined_nil [of b] by (cases v) (simp_all add: apply_events_def hooks_of_def)
qed

lemma apply_events_ok:
  assumes "config_ok config" shows "config_ok (apply_events remove put (new b) config)"
proof -
  have "distinct (keys (hooks_of (apply_events remove put (new b) config)))"
  proof (cases "map_of config ''hooks''")
    case None
    then show ?thesis by (simp add: apply_events_def hooks_of_def removed_nil)
  next
    case (Some v)
    then show ?thesis using assms new_distinct
      by (cases v) (simp_all add: apply_events_def hooks_of_def config_ok_def removed_distinct)
  qed
  then show ?thesis using assms by (simp add: config_ok_def apply_events_def)
qed

lemma revoke_events_hooks:
  assumes "config_ok config" shows "hooks_of (fst (revoke_events remove config)) = fst (remove (hooks_of config))"
proof (cases "map_of config ''hooks''")
  case (Some v)
  then show ?thesis using assms
  proof (cases v)
    case (JObj m)
    then show ?thesis using Some assms removed_unchanged [of m]
      by (auto simp: revoke_events_def hooks_of_def config_ok_def split: prod.split)
  qed (simp_all add: revoke_events_def hooks_of_def removed_nil)
qed (simp add: revoke_events_def hooks_of_def removed_nil)

text \<open>
  Any installer that acts on the event map this way can be run twice, and its removal leaves the
  same rules whether it ran or not.
\<close>

lemma applied_twice:
  assumes ap: "\<And>c. config_ok c \<Longrightarrow> map_of (hooks_of (ap c)) = map_of (joined b (hooks_of c))"
    and ok: "\<And>c. config_ok c \<Longrightarrow> config_ok (ap c)"
    and c: "config_ok config" "\<forall>k. tidy (rules_of (hooks_of config) k)" "fit b"
  shows "map_of (hooks_of (ap (ap config))) = map_of (hooks_of (ap config))"
proof -
  have "map_of (hooks_of (ap (ap config))) = map_of (joined b (hooks_of (ap config)))" using ap ok c(1) by blast
  also have "\<dots> = map_of (joined b (joined b (hooks_of config)))"
    using ok [OF c(1)] c(1) by (intro joined_cong distinct_joined ap) (auto simp: config_ok_def)
  also have "\<dots> = map_of (joined b (hooks_of config))" using c by (intro joined_twice) (simp_all add: config_ok_def)
  finally show ?thesis using ap c(1) by simp
qed

lemma rules_of_cong: "map_of a k = map_of c k \<Longrightarrow> rules_of a k = rules_of c k"
  by (simp add: rules_of_def)

lemma applied_revoked:
  assumes ap: "\<And>c. config_ok c \<Longrightarrow> map_of (hooks_of (ap c)) = map_of (joined b (hooks_of c))"
    and ok: "\<And>c. config_ok c \<Longrightarrow> config_ok (ap c)"
    and rv: "\<And>c. config_ok c \<Longrightarrow> map_of (hooks_of (rv c)) = map_of (fst (remove (hooks_of c)))"
    and c: "config_ok config" "\<forall>k. tidy (rules_of (hooks_of config) k)" "fit b"
  shows "rules_of (hooks_of (rv (ap config))) k = rules_of (hooks_of (rv config)) k"
proof -
  have "map_of (fst (remove (hooks_of (ap config)))) k = map_of (fst (remove (joined b (hooks_of config)))) k"
    using ok [OF c(1)] c(1) ap [OF c(1)] by (intro removed_cong distinct_joined) (simp_all add: config_ok_def)
  then have "rules_of (hooks_of (rv (ap config))) k = rules_of (fst (remove (joined b (hooks_of config)))) k"
    using rv [OF ok [OF c(1)]] by (intro rules_of_cong) simp
  also have "\<dots> = rules_of (fst (remove (hooks_of config))) k"
    using c by (intro removed_joined) (simp_all add: config_ok_def)
  also have "\<dots> = rules_of (hooks_of (rv config)) k" using rv [OF c(1)] by (intro rules_of_cong) simp
  finally show ?thesis .
qed

end

text \<open>A sweep is such a removal.\<close>

lemma map_of_swept:
  "distinct (keys m) \<Longrightarrow> map_of (fst (swept decide m)) k =
     (case Option.bind (map_of m k) decide of None \<Rightarrow> map_of m k | Some r \<Rightarrow> r)"
  unfolding swept_def by (rule map_of_sweep_all)

lemma distinct_swept [simp]: "distinct (keys m) \<Longrightarrow> distinct (keys (fst (swept decide m)))"
  by (simp add: swept_def)

lemma swept_changed:
  assumes "distinct (keys m)" "map_of m k = Some v" "decide v \<noteq> None" shows "snd (swept decide m)"
proof -
  have "k \<in> set (keys m)" using assms(2) by (metis map_of_eq_None_iff not_None_eq set_map)
  then show ?thesis using assms unfolding swept_def by (auto simp del: set_map simp: sweep_changed intro!: bexI [of _ k])
qed

lemma swept_unchanged: "\<not> snd (swept decide m) \<Longrightarrow> fst (swept decide m) = m"
  unfolding swept_def by (rule sweep_unchanged)

text \<open>
  Most providers sweep rule by rule: an array keeps the rules that are not \<open>managed\<close>. Copilot also
  drops a value that is no array but holds a command of ours (\<open>scalar\<close>).
\<close>

definition keep_unmanaged :: "bool \<Rightarrow> (json \<Rightarrow> bool) \<Rightarrow> json \<Rightarrow> json option option" where
  "keep_unmanaged scalar managed v =
     (case v of
        JArr rules \<Rightarrow>
          (let kept = filter (\<lambda>r. \<not> managed r) rules
           in if length kept \<noteq> length rules then Some (if kept = [] then None else Some (JArr kept)) else None)
      | _ \<Rightarrow> (if scalar \<and> managed v then Some None else None))"

locale managed_rules =
  fixes scalar :: bool
    and managed :: "json \<Rightarrow> bool"
    and put :: "json list \<Rightarrow> json list \<Rightarrow> json list"
    and fit :: "'b \<Rightarrow> bool"
    and new :: "'b \<Rightarrow> (string \<times> json) list"
  assumes generated_distinct: "distinct (keys (new b))"
    and generated_arrays: "array_values (new b)"
    and fresh_managed: "fit b \<Longrightarrow> map_of (new b) e = Some (JArr fresh) \<Longrightarrow> fresh \<noteq> [] \<and> list_all managed fresh"
    and put_mixes: "put fresh old = fresh @ old \<or> put fresh old = old @ fresh"

sublocale managed_rules \<subseteq> hook_splice "swept (keep_unmanaged scalar managed)" "keep_unmanaged scalar managed"
  "filter (\<lambda>r. \<not> managed r)" "list_ex managed" "\<lambda>_. True" put fit new
proof (unfold_locales, goal_cases)
  case (4 rs)
  have "length (filter (\<lambda>r. \<not> managed r) rs) \<noteq> length rs \<longleftrightarrow> list_ex managed rs"
    by (metis (no_types, lifting) filter_id_conv length_filter_less less_irrefl list_ex_iff)
  then show ?case by (simp add: keep_unmanaged_def)
next
  case (11 b e fresh old)
  have "filter (\<lambda>r. \<not> managed r) fresh = []" "list_ex managed fresh"
    using fresh_managed [OF 11] by (auto simp: filter_empty_conv list_all_iff list_ex_iff neq_Nil_conv)
  then show ?case using put_mixes [of fresh old] by auto
next
  case (12 fresh)
  then show ?case using put_mixes [of fresh "[]"] by auto
qed (auto simp: map_of_swept swept_unchanged keep_unmanaged_def generated_distinct generated_arrays filter_empty_conv
  list_ex_iff filter_id_conv split: json.split)

section \<open>The config file\<close>

text \<open>
  Files are a map from paths to contents. An operation of the file system that fails is an answer
  of the environment; a failed write or copy leaves what it says behind.
\<close>

type_synonym disk = "string \<Rightarrow> string option"

record install_env =
  ie_timestamp :: string
  ie_copy_error :: "string \<Rightarrow> string option option"
  ie_read_error :: "string \<Rightarrow> bool"
  ie_mkdir_error :: "string \<Rightarrow> bool"
  ie_write_error :: "string \<Rightarrow> string option option"
  ie_remove_error :: "string \<Rightarrow> bool"

datatype install_error =
    IeBackup | IeRead | IeParse | IeNotAnObject | IeMkdir | IeSerialize | IeWrite | IeRemove
  | IeNoBinary | IeNoHome | IeNoCwd | IeInspect | IeNonRegular | IeDisappeared | IeOwner | IeIncompatible | IeUser | IePanic

record config_document =
  cd_parse :: "string \<Rightarrow> json option"
  cd_print :: "(string \<times> json) list \<Rightarrow> string option"

record config_installer =
  ci_path :: string
  ci_document :: config_document
  ci_remove_when :: "(string \<times> json) list \<Rightarrow> bool"

record revoked =
  rv_backup :: "string option"
  rv_deleted :: bool

text \<open>\<open>Path::file_stem\<close> and \<open>extension\<close> of the last component of a path.\<close>

definition file_name_part :: "string \<Rightarrow> string" where "file_name_part path = after_last {slash} path"

definition split_file_name :: "string \<Rightarrow> string \<times> string option" where
  "split_file_name name =
     (let after = after_last {CHR ''.''} name; before = take (length name - length after - 1) name
      in if length after = length name \<or> before = [] then (name, None) else (before, Some after))"

definition backup_path :: "string \<Rightarrow> string \<Rightarrow> string" where
  "backup_path path timestamp =
     (let name = file_name_part path;
          dir = take (length path - length name) path;
          (stem, ext) = split_file_name name;
          extension = (case ext of Some e \<Rightarrow> if valid_utf8 e then e else ''json'' | None \<Rightarrow> ''json'')
      in dir @ stem @ ''.backup.'' @ timestamp @ ''.'' @ extension)"

definition backup_at :: "install_env \<Rightarrow> disk \<Rightarrow> string \<Rightarrow> disk \<times> (install_error + string option)" where
  "backup_at V fs path =
     (case fs path of
        None \<Rightarrow> (fs, Inr None)
      | Some content \<Rightarrow>
          (let copy = backup_path path (ie_timestamp V)
           in case ie_copy_error V copy of
                Some left \<Rightarrow> (fs(copy := left), Inl IeBackup)
              | None \<Rightarrow> (fs(copy \<mapsto> content), Inr (Some copy))))"

definition read_to_object_source :: "install_env \<Rightarrow> disk \<Rightarrow> string \<Rightarrow> install_error + string option" where
  "read_to_object_source V fs path =
     (case fs path of
        None \<Rightarrow> Inr None
      | Some content \<Rightarrow>
          (if ie_read_error V path then Inl IeRead
           else Inr (if trim content = [] then None else Some content)))"

definition read_object :: "config_document \<Rightarrow> install_env \<Rightarrow> disk \<Rightarrow> string \<Rightarrow> install_error + (string \<times> json) list" where
  "read_object D V fs path =
     bind_result (read_to_object_source V fs path) (\<lambda>source.
       case source of
         None \<Rightarrow> Inr []
       | Some content \<Rightarrow>
           (case cd_parse D content of
              None \<Rightarrow> Inl IeParse
            | Some (JObj kvs) \<Rightarrow> Inr kvs
            | Some _ \<Rightarrow> Inl IeNotAnObject))"

definition write_object ::
  "config_document \<Rightarrow> install_env \<Rightarrow> disk \<Rightarrow> string \<Rightarrow> (string \<times> json) list \<Rightarrow> disk \<times> (install_error + unit)" where
  "write_object D V fs path kvs =
     (if ie_mkdir_error V path then (fs, Inl IeMkdir)
      else case cd_print D kvs of
             None \<Rightarrow> (fs, Inl IeSerialize)
           | Some content \<Rightarrow>
               (case ie_write_error V path of
                  Some left \<Rightarrow> (fs(path := left), Inl IeWrite)
                | None \<Rightarrow> (fs(path \<mapsto> content), Inr ())))"

text \<open>\<open>HookConfigInstaller::apply\<close>, \<open>revoke\<close>.\<close>

definition apply_splice ::
  "config_installer \<Rightarrow> install_env \<Rightarrow> ((string \<times> json) list \<Rightarrow> (string \<times> json) list) \<Rightarrow> disk
   \<Rightarrow> disk \<times> (install_error + string option)" where
  "apply_splice I V edit fs =
     (case backup_at V fs (ci_path I) of
        (fs1, Inl e) \<Rightarrow> (fs1, Inl e)
      | (fs1, Inr backup) \<Rightarrow>
          (case read_object (ci_document I) V fs1 (ci_path I) of
             Inl e \<Rightarrow> (fs1, Inl e)
           | Inr config \<Rightarrow>
               (case write_object (ci_document I) V fs1 (ci_path I) (edit config) of
                  (fs2, Inl e) \<Rightarrow> (fs2, Inl e)
                | (fs2, Inr _) \<Rightarrow> (fs2, Inr backup))))"

definition revoke_splice ::
  "config_installer \<Rightarrow> install_env \<Rightarrow> ((string \<times> json) list \<Rightarrow> (string \<times> json) list \<times> bool) \<Rightarrow> disk
   \<Rightarrow> disk \<times> (install_error + revoked option)" where
  "revoke_splice I V revoke fs =
     (if fs (ci_path I) = None then (fs, Inr None)
      else case read_object (ci_document I) V fs (ci_path I) of
             Inl e \<Rightarrow> (fs, Inl e)
           | Inr config \<Rightarrow>
               (case revoke config of (config', changed) \<Rightarrow>
                  if \<not> changed then (fs, Inr None)
                  else case backup_at V fs (ci_path I) of
                         (fs1, Inl e) \<Rightarrow> (fs1, Inl e)
                       | (fs1, Inr backup) \<Rightarrow>
                           (if ci_remove_when I config'
                            then if ie_remove_error V (ci_path I) then (fs1, Inl IeRemove)
                                 else (fs1(ci_path I := None), Inr (Some \<lparr>rv_backup = backup, rv_deleted = True\<rparr>))
                            else case write_object (ci_document I) V fs1 (ci_path I) config' of
                                   (fs2, Inl e) \<Rightarrow> (fs2, Inl e)
                                 | (fs2, Inr _) \<Rightarrow> (fs2, Inr (Some \<lparr>rv_backup = backup, rv_deleted = False\<rparr>)))))"

text \<open>\<open>install\<close> and \<open>uninstall\<close>, without the narration.\<close>

definition install_config ::
  "config_installer \<Rightarrow> install_env \<Rightarrow> string option
   \<Rightarrow> (string \<Rightarrow> (string \<times> json) list \<Rightarrow> (string \<times> json) list) \<Rightarrow> disk \<Rightarrow> disk \<times> (install_error + unit)" where
  "install_config I V binary edit fs =
     (case binary of
        None \<Rightarrow> (fs, Inl IeNoBinary)
      | Some b \<Rightarrow> (case apply_splice I V (edit b) fs of (fs', r) \<Rightarrow> (fs', map_sum id (\<lambda>_. ()) r)))"

definition uninstall_config ::
  "config_installer \<Rightarrow> install_env \<Rightarrow> ((string \<times> json) list \<Rightarrow> (string \<times> json) list \<times> bool) \<Rightarrow> disk
   \<Rightarrow> disk \<times> (install_error + unit)" where
  "uninstall_config I V revoke fs =
     (if fs (ci_path I) = None then (fs, Inr ())
      else case revoke_splice I V revoke fs of (fs', r) \<Rightarrow> (fs', map_sum id (\<lambda>_. ()) r))"

section \<open>No rewrite without a backup\<close>

lemma after_last_split:
  obtains "after_last {d} s = s" "d \<notin> set s" | before where "s = before @ d # after_last {d} s"
proof (cases "d \<in> set s")
  case True
  then obtain xs ys where s: "s = xs @ d # ys" "d \<notin> set ys" using split_list_last by metis
  have "after_last {d} s = ys"
    using s after_last_append [of "{d}" "xs @ [d]" ys] by (auto simp: after_last_def)
  then show thesis using s that by simp
next
  case False
  then have "takeWhile (\<lambda>c. c \<notin> {d}) (rev s) = rev s" by (intro takeWhile_eq_all_conv [THEN iffD2]) auto
  then have "after_last {d} s = s" unfolding after_last_def by (rule trans [OF arg_cong [of _ _ rev]]) simp
  then show thesis using False that by blast
qed

lemma split_file_name_join:
  assumes "split_file_name name = (stem, ext)"
  shows "name = stem @ (case ext of None \<Rightarrow> [] | Some e \<Rightarrow> CHR ''.'' # e) \<and> (\<forall>e. ext = Some e \<longrightarrow> CHR ''.'' \<notin> set e)"
proof (rule after_last_split [of "CHR ''.''" name])
  fix before assume n: "name = before @ CHR ''.'' # after_last {CHR ''.''} name"
  have "CHR ''.'' \<notin> set (after_last {CHR ''.''} name)" using after_last_no_sep by blast
  moreover have "take (length name - length (after_last {CHR ''.''} name) - 1) name = before"
    by (subst (3) n, subst n) simp
  ultimately show ?thesis using assms n by (auto simp: split_file_name_def Let_def split: if_splits)
qed (use assms in \<open>auto simp: split_file_name_def Let_def\<close>)

lemma backup_path_fresh: "backup_path path ts \<noteq> path"
proof
  assume eq: "backup_path path ts = path"
  let ?name = "file_name_part path"
  obtain stem ext where s: "split_file_name ?name = (stem, ext)" by fastforce
  note name = split_file_name_join [OF s]
  obtain dir where dir: "path = dir @ ?name"
    by (rule after_last_split [of slash path]) (metis append_Nil append_Cons append_assoc file_name_part_def)+
  then have "length path - length ?name = length dir" by (metis length_append add_diff_cancel_right')
  then have "take (length path - length ?name) path = dir" using dir by (metis append_eq_conv_conj)
  then have whole: "backup_path path ts = dir @ stem @ ''.backup.'' @ ts @ ''.'' @ (case ext of Some e \<Rightarrow> if valid_utf8 e then e else ''json'' | None \<Rightarrow> ''json'')"
    using s by (simp add: backup_path_def Let_def)
  have "dir @ stem @ ''.backup.'' @ ts @ ''.'' @ (case ext of Some e \<Rightarrow> if valid_utf8 e then e else ''json'' | None \<Rightarrow> ''json'')
      = dir @ ?name" by (rule trans [OF whole [symmetric] trans [OF eq dir]])
  then have "stem @ ''.backup.'' @ ts @ ''.'' @ (case ext of Some e \<Rightarrow> if valid_utf8 e then e else ''json'' | None \<Rightarrow> ''json'') = ?name" unfolding same_append_eq .
  then have "stem @ ''.backup.'' @ ts @ ''.'' @ (case ext of Some e \<Rightarrow> if valid_utf8 e then e else ''json'' | None \<Rightarrow> ''json'') = stem @ (case ext of None \<Rightarrow> [] | Some e \<Rightarrow> CHR ''.'' # e)"
    by (rule trans [OF _ conjunct1 [OF name]])
  then have "''.backup.'' @ ts @ ''.'' @ (case ext of Some e \<Rightarrow> if valid_utf8 e then e else ''json'' | None \<Rightarrow> ''json'') = (case ext of None \<Rightarrow> [] | Some e \<Rightarrow> CHR ''.'' # e)" unfolding same_append_eq .
  then obtain e rest where e: "ext = Some e" "''backup.'' @ rest = e" by (cases ext) auto
  then have "CHR ''.'' \<in> set e" by auto
  then show False using conjunct2 [OF name] e(1) by simp
qed

text \<open>Reading and editing touch nothing; writing touches the config and its backup.\<close>

lemma backup_at_disk:
  assumes "backup_at V fs path = (fs', r)"
  shows "fs' path = fs path" "p \<noteq> backup_path path (ie_timestamp V) \<Longrightarrow> fs' p = fs p"
    and "r = Inr b \<Longrightarrow> fs path = Some old \<Longrightarrow> b = Some (backup_path path (ie_timestamp V)) \<and> fs' (backup_path path (ie_timestamp V)) = Some old"
  using assms backup_path_fresh [of path "ie_timestamp V"]
  by (auto simp: backup_at_def Let_def split: option.splits)

lemma write_object_disk:
  assumes "write_object D V fs path kvs = (fs', r)" "p \<noteq> path" shows "fs' p = fs p"
  using assms by (auto simp: write_object_def split: option.splits if_splits)

lemma write_after_backup:
  assumes "backup_at V fs path = (fs1, b)" "write_object D V fs1 path kvs = (fs2, w)"
    "p \<noteq> path" "p \<noteq> backup_path path (ie_timestamp V)"
  shows "fs2 p = fs p"
  using write_object_disk [OF assms(2,3)] backup_at_disk(2) [OF assms(1,4)] by simp

lemma write_object_content:
  "write_object D V fs path kvs = (fs', Inr u) \<Longrightarrow> \<exists>content. cd_print D kvs = Some content \<and> fs' = fs(path \<mapsto> content)"
  by (auto simp: write_object_def split: option.splits if_splits)

lemma read_object_holds:
  assumes "read_object D V fs path = Inr kvs" "fs path = Some old"
  shows "trim old = [] \<and> kvs = [] \<or> cd_parse D old = Some (JObj kvs)"
proof -
  have src: "read_to_object_source V fs path =
      (if ie_read_error V path then Inl IeRead else Inr (if trim old = [] then None else Some old))"
    using assms(2) by (simp add: read_to_object_source_def)
  show ?thesis using assms(1)
    by (cases "ie_read_error V path"; cases "trim old = []"; cases "cd_parse D old")
      (auto simp: read_object_def src split: json.splits)
qed

lemma apply_splice_cases:
  assumes "apply_splice I V edit fs = (fs', r)"
  obtains (failed) fs1 b where "backup_at V fs (ci_path I) = (fs1, b)" "fs' = fs1"
    | (written) fs1 b kvs w where "backup_at V fs (ci_path I) = (fs1, Inr b)"
        "read_object (ci_document I) V fs1 (ci_path I) = Inr kvs"
        "write_object (ci_document I) V fs1 (ci_path I) (edit kvs) = (fs', w)"
  using assms unfolding apply_splice_def by (auto split: prod.splits sum.splits)

lemma apply_splice_disk:
  assumes "apply_splice I V edit fs = (fs', r)"
  shows "p \<noteq> ci_path I \<Longrightarrow> p \<noteq> backup_path (ci_path I) (ie_timestamp V) \<Longrightarrow> fs' p = fs p"
    and "fs (ci_path I) = Some old \<Longrightarrow> fs' (ci_path I) \<noteq> Some old \<Longrightarrow>
      fs' (backup_path (ci_path I) (ie_timestamp V)) = Some old \<and>
      (trim old = [] \<or> (\<exists>kvs. cd_parse (ci_document I) old = Some (JObj kvs)))"
proof -
  note fresh = backup_path_fresh [of "ci_path I" "ie_timestamp V"]
  show "fs' p = fs p" if "p \<noteq> ci_path I" "p \<noteq> backup_path (ci_path I) (ie_timestamp V)"
    using assms that by (cases rule: apply_splice_cases) (auto intro: backup_at_disk(2) write_after_backup)
  show "fs' (backup_path (ci_path I) (ie_timestamp V)) = Some old \<and>
      (trim old = [] \<or> (\<exists>kvs. cd_parse (ci_document I) old = Some (JObj kvs)))"
    if old: "fs (ci_path I) = Some old" "fs' (ci_path I) \<noteq> Some old"
    using assms
  proof (cases rule: apply_splice_cases)
    case (failed fs1 b)
    then show ?thesis using old backup_at_disk(1) by metis
  next
    case (written fs1 b kvs w)
    note b = backup_at_disk [OF written(1)]
    have "fs' (backup_path (ci_path I) (ie_timestamp V)) = Some old"
      using write_object_disk [OF written(3) fresh] b(3) [OF refl old(1)] by simp
    moreover have "fs1 (ci_path I) = Some old" using b(1) old(1) by simp
    ultimately show ?thesis using read_object_holds [OF written(2)] by blast
  qed
qed

lemma revoke_splice_disk:
  assumes "revoke_splice I V rv fs = (fs', r)"
  shows "p \<noteq> ci_path I \<Longrightarrow> p \<noteq> backup_path (ci_path I) (ie_timestamp V) \<Longrightarrow> fs' p = fs p"
    and "fs (ci_path I) = Some old \<Longrightarrow> fs' (ci_path I) \<noteq> Some old \<Longrightarrow>
      fs' (backup_path (ci_path I) (ie_timestamp V)) = Some old \<and>
      (trim old = [] \<or> (\<exists>kvs. cd_parse (ci_document I) old = Some (JObj kvs)))"
proof -
  note fresh = backup_path_fresh [of "ci_path I" "ie_timestamp V"]
  show "fs' p = fs p" if "p \<noteq> ci_path I" "p \<noteq> backup_path (ci_path I) (ie_timestamp V)"
    using assms that unfolding revoke_splice_def
    by (auto split: prod.splits sum.splits if_splits intro: backup_at_disk(2) write_after_backup)
  show "fs' (backup_path (ci_path I) (ie_timestamp V)) = Some old \<and>
      (trim old = [] \<or> (\<exists>kvs. cd_parse (ci_document I) old = Some (JObj kvs)))"
    if old: "fs (ci_path I) = Some old" "fs' (ci_path I) \<noteq> Some old"
  proof -
    obtain kvs where kvs: "read_object (ci_document I) V fs (ci_path I) = Inr kvs"
      using assms old unfolding revoke_splice_def by (auto split: sum.splits)
    obtain fs1 b where b: "backup_at V fs (ci_path I) = (fs1, b)" by fastforce
    have "\<exists>c. b = Inr c" and keep: "fs' (backup_path (ci_path I) (ie_timestamp V)) = fs1 (backup_path (ci_path I) (ie_timestamp V))"
      using assms old kvs b backup_at_disk(1) [OF b] fresh unfolding revoke_splice_def
      by (auto split: prod.splits sum.splits if_splits dest: write_object_disk)
    then show ?thesis using backup_at_disk(3) [OF b _ old(1)] read_object_holds [OF kvs old(1)] by auto
  qed
qed

text \<open>What a successful install leaves in the file.\<close>

lemma apply_splice_written:
  assumes "apply_splice I V edit fs = (fs', Inr b)"
  obtains kvs content where "read_object (ci_document I) V fs (ci_path I) = Inr kvs"
    "cd_print (ci_document I) (edit kvs) = Some content" "fs' (ci_path I) = Some content"
proof -
  obtain fs1 c kvs where s: "backup_at V fs (ci_path I) = (fs1, Inr c)"
      "read_object (ci_document I) V fs1 (ci_path I) = Inr kvs"
      "write_object (ci_document I) V fs1 (ci_path I) (edit kvs) = (fs', Inr ())"
    using assms unfolding apply_splice_def by (auto split: prod.splits sum.splits)
  have "read_object (ci_document I) V fs (ci_path I) = Inr kvs"
    using s(2) backup_at_disk(1) [OF s(1)] by (simp add: read_object_def read_to_object_source_def)
  then show thesis using write_object_content [OF s(3)] that by auto
qed

text \<open>The same of whole runs.\<close>

lemma config_run_disk:
  assumes "run = fst (install_config I V binary edit fs) \<or> run = fst (uninstall_config I V revoke fs)"
  shows "p \<noteq> ci_path I \<longrightarrow> p \<noteq> backup_path (ci_path I) (ie_timestamp V) \<longrightarrow> run p = fs p"
    and "fs (ci_path I) = Some old \<longrightarrow> run (ci_path I) \<noteq> Some old \<longrightarrow>
      run (backup_path (ci_path I) (ie_timestamp V)) = Some old
      \<and> (trim old = [] \<or> (\<exists>kvs. cd_parse (ci_document I) old = Some (JObj kvs)))"
proof -
  obtain fs1 r1 fs2 r2 where ar: "apply_splice I V (edit (the binary)) fs = (fs1, r1)" "revoke_splice I V revoke fs = (fs2, r2)"
    by fastforce
  have "run = fs \<or> run = fs1 \<or> run = fs2"
    using assms ar by (cases binary) (auto simp: install_config_def uninstall_config_def)
  then consider "run = fs" | b r where "apply_splice I V (edit b) fs = (run, r)" | r where "revoke_splice I V revoke fs = (run, r)"
    using ar by blast
  note cases = this
  show "p \<noteq> ci_path I \<longrightarrow> p \<noteq> backup_path (ci_path I) (ie_timestamp V) \<longrightarrow> run p = fs p"
    by (rule cases) (blast dest: apply_splice_disk(1) revoke_splice_disk(1))+
  show "fs (ci_path I) = Some old \<longrightarrow> run (ci_path I) \<noteq> Some old \<longrightarrow>
      run (backup_path (ci_path I) (ie_timestamp V)) = Some old
      \<and> (trim old = [] \<or> (\<exists>kvs. cd_parse (ci_document I) old = Some (JObj kvs)))"
    by (rule cases) (blast dest: apply_splice_disk(2) revoke_splice_disk(2))+
qed

end
