(* ===== verification/Install_Hooks.thy ===== *)
theory Install_Hooks
  imports Install_Config Copilot Vscode
begin

text \<open>
  The installers of the providers whose hook configuration is spliced by
  \<open>HookConfigInstaller\<close> (\<open>crates/hooks/{openhands,codex,hermes,copilot,antigravity,cursor,gemini,vscode}/src/install.rs\<close>):
  the document each writes, how it finds its own entries again, and where the document lives.
  The home and working directories are given; what is printed is left out.
\<close>

section \<open>Words of a command\<close>

definition kebab :: "string \<Rightarrow> bool" where
  "kebab w \<longleftrightarrow> w \<noteq> [] \<and> is_lower (hd w) \<and> list_all (\<lambda>c. is_lower c \<or> c \<in> {CHR ''-'', CHR ''_''}) w"

lemma kebab_char: "is_lower c \<or> c \<in> {CHR ''-'', CHR ''_''} \<Longrightarrow> is_ascii c \<and> plain_char [c]"
  by (auto simp: plain_char_def is_whitespace_def byte_defs)

lemma kebab_word: "kebab w \<Longrightarrow> plain_word w \<and> w \<noteq> ''--verbose''"
proof -
  assume k: "kebab w"
  then have "list_all is_ascii w" "list_all plain_char (map (\<lambda>c. [c]) w)"
    unfolding list_all_iff kebab_def using kebab_char by auto
  then show ?thesis using k utf8_chars_word [of w "[]"] by (auto simp: plain_word_def kebab_def is_lower_def)
qed

lemma our_command:
  "sondera_path path \<Longrightarrow> kebab provider \<Longrightarrow> kebab sub \<Longrightarrow>
   command_targets_provider (hook_command_line ShPosix path provider verbose sub) p \<longleftrightarrow> p = provider"
  using kebab_word posix_command_targets by metis

record install_dirs =
  id_home :: "string option"
  id_cwd :: "string option"

definition in_home :: "install_dirs \<Rightarrow> string list \<Rightarrow> install_error + string" where
  "in_home D parts = map_sum id (\<lambda>home. foldl path_join home parts) (ok_or (id_home D) IeNoHome)"

definition in_cwd :: "install_dirs \<Rightarrow> string list \<Rightarrow> install_error + string" where
  "in_cwd D parts = map_sum id (\<lambda>cwd. foldl path_join cwd parts) (ok_or (id_cwd D) IeNoCwd)"

text \<open>The JSON format, and a file removed when nothing is left in it.\<close>

definition json_document :: "(string \<Rightarrow> json option) \<Rightarrow> ((string \<times> json) list \<Rightarrow> string option) \<Rightarrow> config_document" where
  "json_document parse print = \<lparr>cd_parse = parse, cd_print = print\<rparr>"

abbreviation fresh_first :: "json list \<Rightarrow> json list \<Rightarrow> json list" where "fresh_first fresh old \<equiv> fresh @ old"
abbreviation fresh_last :: "json list \<Rightarrow> json list \<Rightarrow> json list" where "fresh_last fresh old \<equiv> old @ fresh"

definition with_installer ::
  "install_error + config_installer \<Rightarrow> (config_installer \<Rightarrow> disk \<times> (install_error + 'a)) \<Rightarrow> disk
   \<Rightarrow> disk \<times> (install_error + 'a)" where
  "with_installer r run fs = (case r of Inl e \<Rightarrow> (fs, Inl e) | Inr I \<Rightarrow> run I)"

section \<open>OpenHands\<close>

definition oh_hook_events :: "(string \<times> string \<times> string) list" where
  "oh_hook_events =
     [(''SessionStart'', ''session-start'', ''*''), (''PreToolUse'', ''pre-tool-use'', ''*''),
      (''PostToolUse'', ''post-tool-use'', ''*''), (''UserPromptSubmit'', ''user-prompt-submit'', ''*''),
      (''Stop'', ''stop'', ''*''), (''SessionEnd'', ''session-end'', ''*'')]"

definition oh_project_hooks_path :: "install_dirs \<Rightarrow> install_error + string" where
  "oh_project_hooks_path D = in_cwd D [''.openhands'', ''hooks.json'']"

definition oh_generate_hooks_config :: "string \<Rightarrow> (string \<times> json) list" where
  "oh_generate_hooks_config path =
     map (\<lambda>(event, sub, matcher). (event, JArr [JObj [(''matcher'', JStr matcher), (''hooks'', JArr [JObj [
       (''type'', JStr ''command''),
       (''command'', JStr (hook_command_line ShPosix path ''openhands'' True sub)),
       (''timeout'', JInt 30)]])]])) oh_hook_events"

definition oh_is_managed :: "json \<Rightarrow> bool" where
  "oh_is_managed rules = value_targets_provider rules ''openhands''"

definition oh_remove_managed_entries :: "(string \<times> json) list \<Rightarrow> (string \<times> json) list \<times> bool" where
  "oh_remove_managed_entries = swept (keep_unmanaged False oh_is_managed)"

definition oh_apply_hooks :: "string \<Rightarrow> (string \<times> json) list \<Rightarrow> (string \<times> json) list" where
  "oh_apply_hooks path config =
     apply_events oh_remove_managed_entries fresh_last (oh_generate_hooks_config path) config"

definition oh_revoke_hooks :: "(string \<times> json) list \<Rightarrow> (string \<times> json) list \<times> bool" where
  "oh_revoke_hooks config = revoke_events oh_remove_managed_entries config"

definition oh_installer :: "config_document \<Rightarrow> install_dirs \<Rightarrow> install_error + config_installer" where
  "oh_installer J D =
     map_sum id (\<lambda>p. \<lparr>ci_path = p, ci_document = J, ci_remove_when = (\<lambda>c. c = [])\<rparr>) (oh_project_hooks_path D)"

definition oh_install_hooks ::
  "config_document \<Rightarrow> install_dirs \<Rightarrow> install_env \<Rightarrow> string option \<Rightarrow> disk \<Rightarrow> disk \<times> (install_error + unit)" where
  "oh_install_hooks J D V binary fs =
     with_installer (oh_installer J D) (\<lambda>I. install_config I V binary oh_apply_hooks fs) fs"

definition oh_uninstall_hooks ::
  "config_document \<Rightarrow> install_dirs \<Rightarrow> install_env \<Rightarrow> disk \<Rightarrow> disk \<times> (install_error + unit)" where
  "oh_uninstall_hooks J D V fs =
     with_installer (oh_installer J D) (\<lambda>I. uninstall_config I V oh_revoke_hooks fs) fs"

lemma oh_fresh:
  assumes "sondera_path path" "(e, JArr fresh) \<in> set (oh_generate_hooks_config path)"
  shows "fresh \<noteq> [] \<and> list_all oh_is_managed fresh"
proof -
  have "list_all (\<lambda>(event, sub, matcher). kebab sub) oh_hook_events" "kebab ''openhands''"
    by (simp_all add: oh_hook_events_def kebab_def byte_defs)
  then show ?thesis using assms our_command [of path "''openhands''"]
    by (fastforce simp: oh_generate_hooks_config_def oh_is_managed_def command_keys_def list_all_iff)
qed

interpretation oh: managed_rules False oh_is_managed fresh_last sondera_path oh_generate_hooks_config
proof (unfold_locales, goal_cases)
  case (1 b)
  then show ?case by (simp add: oh_generate_hooks_config_def oh_hook_events_def)
next
  case (2 b)
  then show ?case by (simp add: oh_generate_hooks_config_def oh_hook_events_def array_values_def)
next
  case (3 b e fresh)
  then show ?case using oh_fresh map_of_SomeD by metis
qed simp

lemma oh_apply_events: "config_ok c \<Longrightarrow> map_of (hooks_of (oh_apply_hooks path c)) =
    map_of (merge_events fresh_last (oh_generate_hooks_config path) (fst (oh_remove_managed_entries (hooks_of c))))"
  unfolding oh_apply_hooks_def oh_remove_managed_entries_def by (rule oh.apply_events_hooks)

section \<open>Hermes\<close>

definition hm_hook_events :: "string list" where
  "hm_hook_events =
     [''pre_tool_call'', ''post_tool_call'', ''pre_llm_call'', ''post_llm_call'', ''pre_verify'',
      ''on_session_start'', ''on_session_end'', ''on_session_finalize'', ''on_session_reset'',
      ''subagent_start'', ''subagent_stop'', ''pre_gateway_dispatch'', ''pre_approval_request'',
      ''post_approval_response'', ''transform_tool_result'', ''transform_terminal_output'',
      ''transform_llm_output'']"

definition hm_user_config_path :: "install_dirs \<Rightarrow> install_error + string" where
  "hm_user_config_path D = in_home D [''.hermes'', ''config.yaml'']"

definition hm_hook_entry :: "string \<Rightarrow> string \<Rightarrow> bool \<Rightarrow> json" where
  "hm_hook_entry path event verbose =
     JObj ([(''command'', JStr (hook_command_line ShPosix path ''hermes'' verbose event)), (''timeout'', JInt 30)]
       @ (if event \<in> {''pre_tool_call'', ''post_tool_call''} then [(''matcher'', JStr ''.*'')] else []))"

definition hm_generate_hooks_config :: "string \<times> bool \<Rightarrow> (string \<times> json) list" where
  "hm_generate_hooks_config b =
     map (\<lambda>event. (event, JArr [hm_hook_entry (fst b) event (snd b)])) hm_hook_events"

definition hm_entry_contains_sondera :: "json \<Rightarrow> bool" where
  "hm_entry_contains_sondera entry = value_targets_provider entry ''hermes''"

definition hm_remove_sondera_entries :: "(string \<times> json) list \<Rightarrow> (string \<times> json) list \<times> bool" where
  "hm_remove_sondera_entries = swept (keep_unmanaged False hm_entry_contains_sondera)"

definition auto_accept_managed_key :: string where
  "auto_accept_managed_key = ''sondera_hooks_auto_accept_managed''"

fun as_bool :: "json \<Rightarrow> bool option" where
  "as_bool (JBool b) = Some b"
| "as_bool _ = None"

definition hm_grant_consent :: "(string \<times> json) list \<Rightarrow> (string \<times> json) list" where
  "hm_grant_consent config =
     (let previously = unwrap_or (Option.bind (map_of config ''hooks_auto_accept'') as_bool) False;
          granted = json_insert ''hooks_auto_accept'' (JBool True) config
      in if previously then granted else json_insert auto_accept_managed_key (JBool True) granted)"

definition hm_apply_hooks :: "bool \<Rightarrow> string \<times> bool \<Rightarrow> (string \<times> json) list \<Rightarrow> (string \<times> json) list" where
  "hm_apply_hooks auto_accept b config =
     (let spliced = apply_events hm_remove_sondera_entries fresh_first (hm_generate_hooks_config b) config
      in if auto_accept then hm_grant_consent spliced else spliced)"

definition hm_revoke_consent :: "(string \<times> json) list \<Rightarrow> (string \<times> json) list" where
  "hm_revoke_consent config =
     (let managed = unwrap_or (Option.bind (map_of config auto_accept_managed_key) as_bool) False;
          config' = json_remove auto_accept_managed_key config
      in if managed then json_remove ''hooks_auto_accept'' config' else config')"

definition hm_revoke_hooks :: "(string \<times> json) list \<Rightarrow> (string \<times> json) list \<times> bool" where
  "hm_revoke_hooks config =
     (case map_of config ''hooks'' of
        Some (JObj m) \<Rightarrow>
          (case hm_remove_sondera_entries m of (m', removed) \<Rightarrow>
             if \<not> removed then (config, False)
             else let config' = hm_revoke_consent (json_insert ''hooks'' (JObj m') config)
                  in (if m' = [] then json_remove ''hooks'' config' else config', True))
      | _ \<Rightarrow> (config, False))"

definition hm_installer :: "config_document \<Rightarrow> install_dirs \<Rightarrow> install_error + config_installer" where
  "hm_installer Y D =
     map_sum id (\<lambda>p. \<lparr>ci_path = p, ci_document = Y, ci_remove_when = (\<lambda>c. c = [])\<rparr>) (hm_user_config_path D)"

definition hm_install_hooks ::
  "config_document \<Rightarrow> install_dirs \<Rightarrow> install_env \<Rightarrow> string option \<Rightarrow> bool \<Rightarrow> bool \<Rightarrow> disk \<Rightarrow> disk \<times> (install_error + unit)" where
  "hm_install_hooks Y D V binary auto_accept verbose fs =
     with_installer (hm_installer Y D)
       (\<lambda>I. install_config I V binary (\<lambda>path. hm_apply_hooks auto_accept (path, verbose)) fs) fs"

definition hm_uninstall_hooks ::
  "config_document \<Rightarrow> install_dirs \<Rightarrow> install_env \<Rightarrow> disk \<Rightarrow> disk \<times> (install_error + unit)" where
  "hm_uninstall_hooks Y D V fs =
     with_installer (hm_installer Y D) (\<lambda>I. uninstall_config I V hm_revoke_hooks fs) fs"

lemma hm_fresh:
  assumes "sondera_path (fst b)" "(e, JArr fresh) \<in> set (hm_generate_hooks_config b)"
  shows "fresh \<noteq> [] \<and> list_all hm_entry_contains_sondera fresh"
proof -
  have "list_all kebab hm_hook_events" "kebab ''hermes''" by (simp_all add: hm_hook_events_def kebab_def byte_defs)
  then show ?thesis using assms our_command [of "fst b" "''hermes''"]
    by (fastforce simp: hm_generate_hooks_config_def hm_hook_entry_def hm_entry_contains_sondera_def command_keys_def list_all_iff)
qed

interpretation hm: managed_rules False hm_entry_contains_sondera fresh_first "\<lambda>b. sondera_path (fst b)" hm_generate_hooks_config
proof (unfold_locales, goal_cases)
  case (1 b)
  then show ?case by (simp add: hm_generate_hooks_config_def hm_hook_events_def)
next
  case (2 b)
  then show ?case by (simp add: hm_generate_hooks_config_def hm_hook_events_def array_values_def)
next
  case (3 b e fresh)
  then show ?case using hm_fresh map_of_SomeD by metis
qed simp

text \<open>The consent flags are beside the hooks.\<close>

lemma hm_consent_hooks [simp]:
  "hooks_of (hm_grant_consent config) = hooks_of config"
  "config_ok config \<Longrightarrow> hooks_of (hm_revoke_consent config) = hooks_of config"
  by (auto simp: hooks_of_def hm_grant_consent_def hm_revoke_consent_def config_ok_def auto_accept_managed_key_def Let_def)

lemma hm_apply_events: "config_ok c \<Longrightarrow> map_of (hooks_of (hm_apply_hooks a b c)) =
    map_of (merge_events fresh_first (hm_generate_hooks_config b) (fst (hm_remove_sondera_entries (hooks_of c))))"
  using hm.apply_events_hooks [of c b] by (simp add: hm_apply_hooks_def hm_remove_sondera_entries_def Let_def)

lemma hm_grant_ok: "config_ok c \<Longrightarrow> config_ok (hm_grant_consent c)"
  using hm_consent_hooks(1) [of c] by (simp add: config_ok_def) (simp add: hm_grant_consent_def Let_def)

lemma hm_apply_ok: "config_ok c \<Longrightarrow> config_ok (hm_apply_hooks a b c)"
  using hm.apply_events_ok [of c b] hm_grant_ok
  by (simp add: hm_apply_hooks_def hm_remove_sondera_entries_def Let_def)

lemma hm_revoke_events:
  assumes "config_ok c"
  shows "hooks_of (fst (hm_revoke_hooks c)) = fst (hm_remove_sondera_entries (hooks_of c))"
proof (cases "map_of c ''hooks''")
  case (Some v)
  then show ?thesis
  proof (cases v)
    case (JObj m)
    then have ok: "config_ok (json_insert ''hooks'' (JObj (fst (hm_remove_sondera_entries m))) c)"
      using assms Some by (auto simp: config_ok_def hooks_of_def hm_remove_sondera_entries_def)
    then have "hooks_of (hm_revoke_consent (json_insert ''hooks'' (JObj (fst (hm_remove_sondera_entries m))) c))
        = fst (hm_remove_sondera_entries m)" by (simp add: hooks_of_def [of "json_insert _ _ _"])
    moreover have "hooks_of (json_remove ''hooks'' (hm_revoke_consent (json_insert ''hooks'' (JObj []) c))) = []"
      using assms by (simp add: config_ok_def hooks_of_def hm_revoke_consent_def Let_def)
    moreover have "hooks_of c = m" using Some JObj by (simp add: hooks_of_def)
    ultimately show ?thesis using Some JObj hm.removed_unchanged [of m]
      by (auto simp: hm_revoke_hooks_def hm_remove_sondera_entries_def Let_def split: prod.split)
  qed (use Some hm.removed_nil in \<open>simp_all add: hm_revoke_hooks_def hooks_of_def hm_remove_sondera_entries_def\<close>)
qed (use hm.removed_nil in \<open>simp add: hm_revoke_hooks_def hooks_of_def hm_remove_sondera_entries_def\<close>)

text \<open>
  Consent is given back: what the flag meant before is what it means after an install and an
  uninstall, unless a record of ours was already there.
\<close>

definition auto_accepts :: "(string \<times> json) list \<Rightarrow> bool" where
  "auto_accepts config \<longleftrightarrow> unwrap_or (Option.bind (map_of config ''hooks_auto_accept'') as_bool) False"

lemma hm_consent_restored:
  assumes "config_ok c" "map_of c auto_accept_managed_key = None"
  shows "auto_accepts (hm_revoke_consent (hm_grant_consent c)) = auto_accepts c"
  using assms by (auto simp: auto_accepts_def hm_revoke_consent_def hm_grant_consent_def auto_accept_managed_key_def
    config_ok_def Let_def)

text \<open>
  But consent is only looked at when there are hooks to remove: with none left in the file, it
  stays granted.
\<close>

lemma hm_consent_outlives_hooks:
  "hm_revoke_hooks (hm_grant_consent [(''model'', JStr ''m'')]) = (hm_grant_consent [(''model'', JStr ''m'')], False)
   \<and> auto_accepts (hm_grant_consent [(''model'', JStr ''m'')])"
  by (simp add: hm_revoke_hooks_def hm_grant_consent_def auto_accepts_def auto_accept_managed_key_def)

section \<open>Copilot\<close>

datatype ih_scope = ScopeUser | ScopeProject | ScopeLocal

definition cp_is_managed_sondera_hook :: "json \<Rightarrow> bool" where
  "cp_is_managed_sondera_hook v = value_targets_provider v ''copilot''"

definition cp_remove_managed_sondera_hooks :: "(string \<times> json) list \<Rightarrow> (string \<times> json) list \<times> bool" where
  "cp_remove_managed_sondera_hooks = swept (keep_unmanaged True cp_is_managed_sondera_hook)"

definition cp_make_hook :: "string \<Rightarrow> string \<Rightarrow> json" where
  "cp_make_hook path event = JArr [JObj [
     (''type'', JStr ''command''),
     (''bash'', JStr (hook_command_line ShPosix path ''copilot'' True event)),
     (''powershell'', JStr (hook_command_line ShPowerShell path ''copilot'' True event)),
     (''cwd'', JStr ''.''),
     (''timeoutSec'', JInt 30)]]"

definition cp_generated_hooks :: "string \<Rightarrow> (string \<times> json) list" where
  "cp_generated_hooks path = map (\<lambda>(event, sub, _). (event, cp_make_hook path sub)) cp_hook_events"

definition cp_generate_hooks_config_with_disable :: "string \<Rightarrow> bool \<Rightarrow> json" where
  "cp_generate_hooks_config_with_disable path disable_all_hooks = JObj [
     (''version'', JInt 1), (''disableAllHooks'', JBool disable_all_hooks), (''hooks'', JObj (cp_generated_hooks path))]"

definition cp_hooks_path :: "install_dirs \<Rightarrow> string option \<Rightarrow> ih_scope \<Rightarrow> install_error + string" where
  "cp_hooks_path D copilot_home scope =
     (case scope of
        ScopeUser \<Rightarrow>
          (case copilot_home of
             Some h \<Rightarrow> if h \<noteq> [] then Inr (path_join (path_join h ''hooks'') ''hooks.json'')
                       else in_home D [''.copilot'', ''hooks'', ''hooks.json'']
           | None \<Rightarrow> in_home D [''.copilot'', ''hooks'', ''hooks.json''])
      | _ \<Rightarrow> in_cwd D [''.github'', ''hooks'', ''hooks.json''])"

definition cp_apply_hooks :: "string \<Rightarrow> (string \<times> json) list \<Rightarrow> (string \<times> json) list" where
  "cp_apply_hooks path top_level =
     (let disable_all_hooks = unwrap_or (Option.bind (map_of top_level ''disableAllHooks'') as_bool) False;
          generated_hooks = unwrap_or (Option.bind
            (jget ''hooks'' (cp_generate_hooks_config_with_disable path disable_all_hooks)) as_object) [];
          hooks = unwrap_or (Option.bind (map_of top_level ''hooks'') as_object) [];
          merged = merge_events fresh_first generated_hooks (fst (cp_remove_managed_sondera_hooks hooks))
      in json_insert ''hooks'' (JObj merged)
           (json_insert ''disableAllHooks'' (JBool disable_all_hooks)
             (json_insert ''version'' (JInt 1) (json_remove ''hooks'' top_level))))"

definition cp_revoke_hooks :: "(string \<times> json) list \<Rightarrow> (string \<times> json) list \<times> bool" where
  "cp_revoke_hooks top_level = revoke_events cp_remove_managed_sondera_hooks top_level"

definition cp_is_husk :: "(string \<times> json) list \<Rightarrow> bool" where
  "cp_is_husk top_level \<longleftrightarrow> top_level = []
     \<or> length top_level = 2 \<and> map_of top_level ''version'' = Some (JInt 1)
       \<and> map_of top_level ''disableAllHooks'' = Some (JBool False)"

definition cp_installer :: "config_document \<Rightarrow> install_dirs \<Rightarrow> string option \<Rightarrow> ih_scope \<Rightarrow> install_error + config_installer" where
  "cp_installer J D copilot_home scope =
     map_sum id (\<lambda>p. \<lparr>ci_path = p, ci_document = J, ci_remove_when = cp_is_husk\<rparr>) (cp_hooks_path D copilot_home scope)"

definition cp_install_hooks ::
  "config_document \<Rightarrow> install_dirs \<Rightarrow> string option \<Rightarrow> install_env \<Rightarrow> string option \<Rightarrow> ih_scope \<Rightarrow> disk
   \<Rightarrow> disk \<times> (install_error + unit)" where
  "cp_install_hooks J D copilot_home V binary scope fs =
     with_installer (cp_installer J D copilot_home scope) (\<lambda>I. install_config I V binary cp_apply_hooks fs) fs"

definition cp_uninstall_hooks ::
  "config_document \<Rightarrow> install_dirs \<Rightarrow> string option \<Rightarrow> install_env \<Rightarrow> ih_scope \<Rightarrow> disk
   \<Rightarrow> disk \<times> (install_error + unit)" where
  "cp_uninstall_hooks J D copilot_home V scope fs =
     with_installer (cp_installer J D copilot_home scope) (\<lambda>I. uninstall_config I V cp_revoke_hooks fs) fs"

lemma cp_fresh:
  assumes "sondera_path path" "(e, JArr fresh) \<in> set (cp_generated_hooks path)"
  shows "fresh \<noteq> [] \<and> list_all cp_is_managed_sondera_hook fresh"
proof -
  have "list_all (\<lambda>(event, sub, _). kebab sub) cp_hook_events" "kebab ''copilot''"
    by (simp_all add: cp_hook_events_def kebab_def byte_defs)
  then show ?thesis using assms our_command [of path "''copilot''"]
    by (fastforce simp: cp_generated_hooks_def cp_make_hook_def cp_is_managed_sondera_hook_def command_keys_def list_all_iff)
qed

interpretation cp: managed_rules True cp_is_managed_sondera_hook fresh_first sondera_path cp_generated_hooks
proof (unfold_locales, goal_cases)
  case (1 b)
  then show ?case by (simp add: cp_generated_hooks_def cp_hook_events_def)
next
  case (2 b)
  then show ?case by (simp add: cp_generated_hooks_def cp_make_hook_def cp_hook_events_def array_values_def)
next
  case (3 b e fresh)
  then show ?case using cp_fresh map_of_SomeD by metis
qed simp

lemma cp_apply_events: "hooks_of (cp_apply_hooks path c) =
    merge_events fresh_first (cp_generated_hooks path) (fst (cp_remove_managed_sondera_hooks (hooks_of c)))"
proof -
  have "unwrap_or (Option.bind (map_of c ''hooks'') as_object) [] = hooks_of c"
    by (cases "map_of c ''hooks''") (auto simp: hooks_of_def split: json.split)
  then show ?thesis
    by (simp add: cp_apply_hooks_def cp_generate_hooks_config_with_disable_def Let_def hooks_of_def [of "json_insert _ _ _"])
qed

lemma cp_apply_ok: "config_ok c \<Longrightarrow> config_ok (cp_apply_hooks path c)"
  by (simp add: config_ok_def cp_apply_events cp_remove_managed_sondera_hooks_def)
    (simp add: cp_apply_hooks_def Let_def)

text \<open>The user's switch is kept, and a file that held nothing else is a husk again.\<close>

lemma cp_keeps_switch:
  "unwrap_or (Option.bind (map_of (cp_apply_hooks path c) ''disableAllHooks'') as_bool) False
   = unwrap_or (Option.bind (map_of c ''disableAllHooks'') as_bool) False"
  by (simp add: cp_apply_hooks_def Let_def)

section \<open>Antigravity, Cursor and Gemini\<close>

text \<open>Antigravity owns one named hook of the file, Cursor and Gemini the whole \<open>hooks\<close> key.\<close>

definition ag_tool_events :: "(string \<times> string) list" where
  "ag_tool_events = [(''PreToolUse'', ''pre-tool-use''), (''PostToolUse'', ''post-tool-use'')]"

definition ag_flat_events :: "(string \<times> string) list" where
  "ag_flat_events =
     [(''PreInvocation'', ''pre-invocation''), (''PostInvocation'', ''post-invocation''), (''Stop'', ''stop'')]"

definition ag_hooks_path :: "install_dirs \<Rightarrow> ih_scope \<Rightarrow> install_error + string" where
  "ag_hooks_path D scope =
     (case scope of ScopeUser \<Rightarrow> in_home D [''.gemini'', ''config'', ''hooks.json'']
                  | _ \<Rightarrow> in_cwd D [''.agents'', ''hooks.json''])"

definition ag_handler :: "string \<Rightarrow> string \<Rightarrow> json" where
  "ag_handler path sub = JObj [(''type'', JStr ''command''),
     (''command'', JStr (hook_command_line ShPosix path ''antigravity'' True sub)), (''timeout'', JInt 30)]"

definition ag_generate_sondera_hook :: "string \<Rightarrow> json" where
  "ag_generate_sondera_hook path = JObj
     (map (\<lambda>(event, sub). (event, JArr [JObj [(''matcher'', JStr ''*''), (''hooks'', JArr [ag_handler path sub])]])) ag_tool_events
      @ map (\<lambda>(event, sub). (event, JArr [ag_handler path sub])) ag_flat_events)"

definition ag_apply_hooks :: "string \<Rightarrow> (string \<times> json) list \<Rightarrow> (string \<times> json) list" where
  "ag_apply_hooks path config = json_insert ''sondera'' (ag_generate_sondera_hook path) config"

definition ag_revoke_hooks :: "(string \<times> json) list \<Rightarrow> (string \<times> json) list \<times> bool" where
  "ag_revoke_hooks config = (json_remove ''sondera'' config, map_of config ''sondera'' \<noteq> None)"

definition ag_installer :: "config_document \<Rightarrow> install_dirs \<Rightarrow> ih_scope \<Rightarrow> install_error + config_installer" where
  "ag_installer J D scope =
     map_sum id (\<lambda>p. \<lparr>ci_path = p, ci_document = J, ci_remove_when = (\<lambda>c. c = [])\<rparr>) (ag_hooks_path D scope)"

definition ag_install_hooks ::
  "config_document \<Rightarrow> install_dirs \<Rightarrow> install_env \<Rightarrow> string option \<Rightarrow> ih_scope \<Rightarrow> disk \<Rightarrow> disk \<times> (install_error + unit)" where
  "ag_install_hooks J D V binary scope fs =
     with_installer (ag_installer J D scope) (\<lambda>I. install_config I V binary ag_apply_hooks fs) fs"

definition ag_uninstall_hooks ::
  "config_document \<Rightarrow> install_dirs \<Rightarrow> install_env \<Rightarrow> ih_scope \<Rightarrow> disk \<Rightarrow> disk \<times> (install_error + unit)" where
  "ag_uninstall_hooks J D V scope fs =
     with_installer (ag_installer J D scope) (\<lambda>I. uninstall_config I V ag_revoke_hooks fs) fs"

definition cu_hook_events :: "(string \<times> string) list" where
  "cu_hook_events =
     [(''sessionStart'', ''session-start''), (''sessionEnd'', ''session-end''), (''preToolUse'', ''pre-tool-use''),
      (''postToolUse'', ''post-tool-use''), (''postToolUseFailure'', ''post-tool-use-failure''),
      (''subagentStart'', ''subagent-start''), (''subagentStop'', ''subagent-stop''),
      (''beforeShellExecution'', ''before-shell-execution''), (''afterShellExecution'', ''after-shell-execution''),
      (''beforeMCPExecution'', ''before-mcp-execution''), (''afterMCPExecution'', ''after-mcp-execution''),
      (''beforeReadFile'', ''before-read-file''), (''afterFileEdit'', ''after-file-edit''),
      (''beforeSubmitPrompt'', ''before-submit-prompt''), (''afterAgentResponse'', ''after-agent-response''),
      (''afterAgentThought'', ''after-agent-thought''), (''preCompact'', ''pre-compact''), (''stop'', ''stop''),
      (''beforeTabFileRead'', ''before-tab-file-read''), (''afterTabFileEdit'', ''after-tab-file-edit''),
      (''workspaceOpen'', ''workspace-open'')]"

definition cu_fail_closed_event :: "string \<Rightarrow> bool" where
  "cu_fail_closed_event event \<longleftrightarrow> event \<in> {''preToolUse'', ''subagentStart'', ''beforeShellExecution'',
     ''beforeMCPExecution'', ''beforeReadFile'', ''beforeSubmitPrompt'', ''beforeTabFileRead''}"

definition cu_hooks_path :: "install_dirs \<Rightarrow> ih_scope \<Rightarrow> install_error + string" where
  "cu_hooks_path D scope =
     (case scope of ScopeUser \<Rightarrow> in_home D [''.cursor'', ''hooks.json''] | _ \<Rightarrow> in_cwd D [''.cursor'', ''hooks.json''])"

definition cu_generate_hooks_config :: "string \<Rightarrow> json" where
  "cu_generate_hooks_config path = JObj (map (\<lambda>(event, sub). (event, JArr [JObj (
     (''command'', JStr (hook_command_line ShPosix path ''cursor'' True sub))
     # (if cu_fail_closed_event event then [(''failClosed'', JBool True)] else []))])) cu_hook_events)"

definition cu_apply_hooks :: "string \<Rightarrow> (string \<times> json) list \<Rightarrow> (string \<times> json) list" where
  "cu_apply_hooks path config =
     json_insert ''hooks'' (cu_generate_hooks_config path) (json_insert ''version'' (JInt 1) config)"

definition cu_revoke_hooks :: "(string \<times> json) list \<Rightarrow> (string \<times> json) list \<times> bool" where
  "cu_revoke_hooks config = (json_remove ''hooks'' config, map_of config ''hooks'' \<noteq> None)"

definition cu_installer :: "config_document \<Rightarrow> install_dirs \<Rightarrow> ih_scope \<Rightarrow> install_error + config_installer" where
  "cu_installer J D scope =
     map_sum id (\<lambda>p. \<lparr>ci_path = p, ci_document = J, ci_remove_when = (\<lambda>_. False)\<rparr>) (cu_hooks_path D scope)"

definition cu_install_hooks ::
  "config_document \<Rightarrow> install_dirs \<Rightarrow> install_env \<Rightarrow> string option \<Rightarrow> ih_scope \<Rightarrow> disk \<Rightarrow> disk \<times> (install_error + unit)" where
  "cu_install_hooks J D V binary scope fs =
     with_installer (cu_installer J D scope) (\<lambda>I. install_config I V binary cu_apply_hooks fs) fs"

definition cu_uninstall_hooks ::
  "config_document \<Rightarrow> install_dirs \<Rightarrow> install_env \<Rightarrow> ih_scope \<Rightarrow> disk \<Rightarrow> disk \<times> (install_error + unit)" where
  "cu_uninstall_hooks J D V scope fs =
     with_installer (cu_installer J D scope) (\<lambda>I. uninstall_config I V cu_revoke_hooks fs) fs"

definition gm_hook_events :: "(string \<times> string \<times> string) list" where
  "gm_hook_events =
     [(''SessionStart'', ''session-start'', ''Initialize Sondera trajectory tracking''),
      (''SessionEnd'', ''session-end'', ''Finalize Sondera session and cleanup''),
      (''BeforeAgent'', ''before-agent'', ''Validate prompts before agent processing''),
      (''AfterAgent'', ''after-agent'', ''Audit agent responses and handle retries''),
      (''BeforeModel'', ''before-model'', ''Control LLM requests before submission''),
      (''AfterModel'', ''after-model'', ''Filter and redact LLM responses''),
      (''BeforeToolSelection'', ''before-tool-selection'', ''Filter available tools based on policy''),
      (''BeforeTool'', ''before-tool'', ''Validate tool invocations and enforce security''),
      (''AfterTool'', ''after-tool'', ''Audit tool results and inject context''),
      (''PreCompress'', ''pre-compress'', ''Handle context compression notifications''),
      (''Notification'', ''notification'', ''Handle system notifications'')]"

definition gm_settings_path :: "install_dirs \<Rightarrow> ih_scope \<Rightarrow> install_error + string" where
  "gm_settings_path D scope =
     (case scope of
        ScopeUser \<Rightarrow> in_home D [''.gemini'', ''settings.json'']
      | ScopeProject \<Rightarrow> in_cwd D [''.gemini'', ''settings.json'']
      | ScopeLocal \<Rightarrow> in_cwd D [''.gemini'', ''settings.local.json''])"

definition gm_generate_hooks_config :: "string \<Rightarrow> json" where
  "gm_generate_hooks_config path = JObj (map (\<lambda>(event, sub, description). (event, JArr [JObj [
     (''matcher'', JStr ''*''), (''hooks'', JArr [JObj [
       (''type'', JStr ''command''), (''name'', JStr (''sondera-'' @ sub)), (''description'', JStr description),
       (''command'', JStr (hook_command_line ShPosix path ''gemini'' True sub)), (''timeout'', JInt 30000)]])]])) gm_hook_events)"

definition gm_apply_hooks :: "string \<Rightarrow> (string \<times> json) list \<Rightarrow> (string \<times> json) list" where
  "gm_apply_hooks path config = json_insert ''hooks'' (gm_generate_hooks_config path) config"

definition gm_revoke_hooks :: "(string \<times> json) list \<Rightarrow> (string \<times> json) list \<times> bool" where
  "gm_revoke_hooks config = (json_remove ''hooks'' config, map_of config ''hooks'' \<noteq> None)"

definition gm_installer :: "config_document \<Rightarrow> install_dirs \<Rightarrow> ih_scope \<Rightarrow> install_error + config_installer" where
  "gm_installer J D scope =
     map_sum id (\<lambda>p. \<lparr>ci_path = p, ci_document = J, ci_remove_when = (\<lambda>_. False)\<rparr>) (gm_settings_path D scope)"

definition gm_install_hooks ::
  "config_document \<Rightarrow> install_dirs \<Rightarrow> install_env \<Rightarrow> string option \<Rightarrow> ih_scope \<Rightarrow> disk \<Rightarrow> disk \<times> (install_error + unit)" where
  "gm_install_hooks J D V binary scope fs =
     with_installer (gm_installer J D scope) (\<lambda>I. install_config I V binary gm_apply_hooks fs) fs"

definition gm_uninstall_hooks ::
  "config_document \<Rightarrow> install_dirs \<Rightarrow> install_env \<Rightarrow> ih_scope \<Rightarrow> disk \<Rightarrow> disk \<times> (install_error + unit)" where
  "gm_uninstall_hooks J D V scope fs =
     with_installer (gm_installer J D scope) (\<lambda>I. uninstall_config I V gm_revoke_hooks fs) fs"

text \<open>Antigravity leaves the named hooks of others alone; Cursor and Gemini replace and remove them.\<close>

lemma ag_round_trip:
  assumes "distinct (keys config)"
  shows "map_of (fst (ag_revoke_hooks (ag_apply_hooks path config))) = (map_of config)(''sondera'' := None)"
  using assms by (simp add: ag_revoke_hooks_def ag_apply_hooks_def)

lemma overwritten_hooks_lost:
  assumes "distinct (keys config)"
  shows "hooks_of (fst (cu_revoke_hooks (cu_apply_hooks path config))) = []"
    and "hooks_of (fst (gm_revoke_hooks (gm_apply_hooks path config))) = []"
    and "map_of config ''hooks'' \<noteq> None \<Longrightarrow> snd (gm_revoke_hooks config) \<and> snd (cu_revoke_hooks config)"
  using assms by (simp_all add: hooks_of_def cu_revoke_hooks_def cu_apply_hooks_def gm_revoke_hooks_def gm_apply_hooks_def)

end
