(* ===== verification/Install_Claude.thy ===== *)
theory Install_Claude
  imports Install_Hooks Claude_Response
begin

text \<open>
  The Claude Code installer on a settings document (\<open>crates/hooks/claude/src/install.rs\<close>): the
  hooks it generates, which commands are managed or retired, their removal entry by entry, and
  the merge of fresh hooks in front of what stays.
\<close>

section \<open>Generated hooks\<close>

definition cl_hook_command_entry :: "string \<Rightarrow> string \<Rightarrow> bool \<Rightarrow> json" where
  "cl_hook_command_entry path sub verbose = JArr [JObj [(''matcher'', JStr ''*''), (''hooks'', JArr [JObj [
     (''type'', JStr ''command''),
     (''command'', JStr (hook_command_line ShPosix path ''claude'' verbose sub)),
     (''timeout'', JInt 30)]])]]"

definition cl_generate_hooks_config :: "string \<times> bool \<Rightarrow> (string \<times> json) list" where
  "cl_generate_hooks_config b =
     map (\<lambda>(event_name, sub). (event_name, cl_hook_command_entry (fst b) sub (snd b))) cl_hook_events"

definition cl_required_hook_subcommands :: "string list" where
  "cl_required_hook_subcommands = map snd cl_hook_events"

section \<open>Managed commands\<close>

definition retired_managed_hook_subcommands :: "string list" where
  "retired_managed_hook_subcommands = [''worktree-create'']"

definition command_matches_sondera_hook_subcommand :: "string \<Rightarrow> string \<Rightarrow> bool" where
  "command_matches_sondera_hook_subcommand command sub \<longleftrightarrow>
     (case parse_hook_command command of
        Some cmd \<Rightarrow> hc_provider cmd = ''claude'' \<and> hc_subcommand cmd = Some sub
      | None \<Rightarrow> False)"

definition is_managed_by_binary :: "string \<Rightarrow> bool" where
  "is_managed_by_binary command \<longleftrightarrow>
     list_ex (command_matches_sondera_hook_subcommand command)
       (map snd cl_hook_events @ retired_managed_hook_subcommands)"

definition is_managed_sondera_hook_command :: "string \<Rightarrow> bool" where
  "is_managed_sondera_hook_command command \<longleftrightarrow>
     sublist ''sondera-hook.sh'' command \<or> is_managed_by_binary command"

definition is_retired_managed_sondera_hook_command :: "string \<Rightarrow> bool" where
  "is_retired_managed_sondera_hook_command command \<longleftrightarrow>
     list_ex (command_matches_sondera_hook_subcommand command) retired_managed_hook_subcommands"

definition entry_has_command :: "(string \<Rightarrow> bool) \<Rightarrow> json \<Rightarrow> bool" where
  "entry_has_command P entry \<longleftrightarrow>
     (case Option.bind (jget ''command'' entry) as_str of Some command \<Rightarrow> P command | None \<Rightarrow> False)"

section \<open>Removal\<close>

text \<open>
  One rule, and one event: what stays, and whether anything changed. Nothing stays of a rule
  whose entries, or an event whose rules, are empty in the end.
\<close>

definition cl_clean_rule :: "(string \<Rightarrow> bool) \<Rightarrow> json \<Rightarrow> json option \<times> bool" where
  "cl_clean_rule should_remove rule =
     (case Option.bind (as_object rule) (\<lambda>obj. Option.bind (map_of obj ''hooks'') as_array) of
        None \<Rightarrow> (Some rule, False)
      | Some entries \<Rightarrow>
          (let kept = filter (\<lambda>entry. \<not> entry_has_command should_remove entry) entries
           in if kept = [] then (None, True)
              else (Some (JObj (json_insert ''hooks'' (JArr kept) (unwrap_or (as_object rule) []))),
                    length kept \<noteq> length entries)))"

definition cl_clean_rules :: "(string \<Rightarrow> bool) \<Rightarrow> json list \<Rightarrow> json list" where
  "cl_clean_rules should_remove rules = List.map_filter (\<lambda>r. fst (cl_clean_rule should_remove r)) rules"

definition cl_clean_event :: "(string \<Rightarrow> bool) \<Rightarrow> json \<Rightarrow> json option \<times> bool" where
  "cl_clean_event should_remove v =
     (case v of
        JArr rules \<Rightarrow>
          (let kept = cl_clean_rules should_remove rules
           in (if kept = [] then None else Some (JArr kept),
               list_ex (\<lambda>r. snd (cl_clean_rule should_remove r)) rules \<or> kept = []))
      | _ \<Rightarrow> (Some v, False))"

definition cl_clean_hooks :: "(string \<Rightarrow> bool) \<Rightarrow> (string \<times> json) list \<Rightarrow> (string \<times> json) list \<times> bool" where
  "cl_clean_hooks should_remove hooks =
     (let changed = list_ex (\<lambda>(e, v). snd (cl_clean_event should_remove v)) hooks;
          cleaned = List.map_filter (\<lambda>(e, v). map_option (Pair e) (fst (cl_clean_event should_remove v))) hooks
      in if changed then (cleaned, True) else (hooks, False))"

definition remove_matching_hook_commands ::
  "(string \<Rightarrow> bool) \<Rightarrow> (string \<times> json) list \<Rightarrow> (string \<times> json) list \<times> bool" where
  "remove_matching_hook_commands should_remove settings =
     (case map_of settings ''hooks'' of
        Some (JObj hooks) \<Rightarrow>
          (case cl_clean_hooks should_remove hooks of (cleaned, changed) \<Rightarrow>
             if \<not> changed then (settings, False)
             else if cleaned = [] then (json_remove ''hooks'' settings, True)
             else (json_insert ''hooks'' (JObj cleaned) settings, True))
      | _ \<Rightarrow> (settings, False))"

definition cl_remove_managed_sondera_hooks :: "(string \<times> json) list \<Rightarrow> (string \<times> json) list \<times> bool" where
  "cl_remove_managed_sondera_hooks settings = remove_matching_hook_commands is_managed_sondera_hook_command settings"

definition cl_remove_retired_hooks :: "(string \<times> json) list \<Rightarrow> (string \<times> json) list \<times> bool" where
  "cl_remove_retired_hooks settings = remove_matching_hook_commands is_retired_managed_sondera_hook_command settings"

definition settings_have_matching_hook_command :: "(string \<Rightarrow> bool) \<Rightarrow> (string \<times> json) list \<Rightarrow> bool" where
  "settings_have_matching_hook_command P settings \<longleftrightarrow>
     (case Option.bind (map_of settings ''hooks'') as_object of
        None \<Rightarrow> False
      | Some hooks \<Rightarrow> list_ex (\<lambda>(e, v).
          (case as_array v of
             None \<Rightarrow> False
           | Some rules \<Rightarrow> list_ex (\<lambda>rule.
               (case Option.bind (jget ''hooks'' rule) as_array of
                  None \<Rightarrow> False
                | Some entries \<Rightarrow> list_ex (entry_has_command P) entries)) rules)) hooks)"

section \<open>The merge\<close>

definition merge_managed_sondera_hooks ::
  "(string \<times> json) list \<Rightarrow> string \<times> bool \<Rightarrow> (string \<times> json) list" where
  "merge_managed_sondera_hooks settings b =
     (let new_hooks = cl_generate_hooks_config b;
          cleared = fst (cl_remove_managed_sondera_hooks settings);
          rest = json_remove ''hooks'' cleared
      in json_insert ''hooks''
           (case map_of cleared ''hooks'' of
              Some (JObj existing) \<Rightarrow> JObj (merge_events fresh_first new_hooks existing)
            | _ \<Rightarrow> JObj new_hooks) rest)"

section \<open>The laws of a splice\<close>

definition cl_decide :: "json \<Rightarrow> json option option" where
  "cl_decide v = (case v of JArr _ \<Rightarrow> Some (fst (cl_clean_event is_managed_sondera_hook_command v)) | _ \<Rightarrow> None)"

lemma cl_clean_rule_kept:
  assumes "cl_clean_rule P r = (Some r', b)" shows "cl_clean_rule P r' = (Some r', False)"
proof (cases "Option.bind (as_object r) (\<lambda>obj. Option.bind (map_of obj ''hooks'') as_array)")
  case (Some entries)
  then obtain obj where "r = JObj obj" by (cases r) auto
  then show ?thesis using assms Some
    by (auto simp: cl_clean_rule_def Let_def filter_empty_conv split: if_splits)
qed (use assms in \<open>auto simp: cl_clean_rule_def\<close>)

lemma cl_clean_rule_same:
  assumes "\<not> snd (cl_clean_rule P r)" shows "fst (cl_clean_rule P r) = Some r"
proof (cases "Option.bind (as_object r) (\<lambda>obj. Option.bind (map_of obj ''hooks'') as_array)")
  case (Some entries)
  then obtain obj where obj: "r = JObj obj" "map_of obj ''hooks'' = Some (JArr entries)"
    by (cases r) (auto simp: bind_eq_Some_conv elim: as_array.elims)
  let ?kept = "filter (\<lambda>entry. \<not> entry_has_command P entry) entries"
  have "?kept \<noteq> []" "length ?kept = length entries" using assms Some by (auto simp: cl_clean_rule_def Let_def split: if_splits)
  moreover from this(2) have "?kept = entries" by (metis filter_id_conv length_filter_less less_irrefl)
  ultimately show ?thesis using Some obj json_insert_same [OF obj(2)] by (simp add: cl_clean_rule_def Let_def)
qed (simp add: cl_clean_rule_def)

lemma cl_clean_rules_simps [simp]:
  "cl_clean_rules P [] = []"
  "cl_clean_rules P (r # rs) = (case fst (cl_clean_rule P r) of None \<Rightarrow> [] | Some r' \<Rightarrow> [r']) @ cl_clean_rules P rs"
  by (simp_all add: cl_clean_rules_def map_filter_simps split: option.split)

lemma cl_clean_rules_append [simp]: "cl_clean_rules P (rs @ rs') = cl_clean_rules P rs @ cl_clean_rules P rs'"
  by (induction rs) simp_all

lemma cl_clean_rules_idem: "cl_clean_rules P (cl_clean_rules P rs) = cl_clean_rules P rs"
proof (induction rs)
  case (Cons r rs)
  obtain o' b where r: "cl_clean_rule P r = (o', b)" by fastforce
  then show ?case using Cons cl_clean_rule_kept [of P r _ b] by (cases o') simp_all
qed simp

lemma cl_clean_rules_same:
  "\<not> list_ex (\<lambda>r. snd (cl_clean_rule P r)) rs \<Longrightarrow> cl_clean_rules P rs = rs"
  by (induction rs) (auto simp: cl_clean_rule_same)

lemma map_of_map_filter_value:
  "distinct (keys m) \<Longrightarrow>
   map_of (List.map_filter (\<lambda>(e, v). map_option (Pair e) (f v)) m) k = Option.bind (map_of m k) f"
proof (induction m)
  case (Cons p m)
  obtain e v where p: "p = (e, v)" by fastforce
  have "map_of (List.map_filter (\<lambda>(e, v). map_option (Pair e) (f v)) m) e = None" if "k = e"
    using Cons p that by (simp add: map_of_eq_None_iff [symmetric])
  then show ?case using Cons p by (cases "f v") (auto simp: map_filter_simps)
qed (simp add: map_filter_simps)

lemma keys_map_filter_value: "set (keys (List.map_filter (\<lambda>(e, v). map_option (Pair e) (f v)) m)) \<subseteq> set (keys m)"
  by (induction m) (auto simp: map_filter_simps split: option.split)

lemma distinct_map_filter_value:
  "distinct (keys m) \<Longrightarrow> distinct (keys (List.map_filter (\<lambda>(e, v). map_option (Pair e) (f v)) m))"
proof (induction m)
  case (Cons p m)
  then show ?case using keys_map_filter_value [of f m] by (cases p) (auto simp: map_filter_simps split: option.split)
qed (simp add: map_filter_simps)

lemma cl_clean_event_same: "\<not> snd (cl_clean_event P v) \<Longrightarrow> fst (cl_clean_event P v) = Some v"
  using cl_clean_rules_same [of P] by (cases v) (auto simp: cl_clean_event_def Let_def)

lemma map_of_cl_clean_hooks:
  assumes "distinct (keys m)"
  shows "map_of (fst (cl_clean_hooks P m)) k = Option.bind (map_of m k) (\<lambda>v. fst (cl_clean_event P v))"
proof (cases "list_ex (\<lambda>(e, v). snd (cl_clean_event P v)) m")
  case True
  then show ?thesis using assms by (simp add: cl_clean_hooks_def map_of_map_filter_value)
next
  case False
  then have "fst (cl_clean_event P v) = Some v" if "map_of m k = Some v" for v
    using that cl_clean_event_same by (fastforce simp: list_ex_iff dest: map_of_SomeD)
  then show ?thesis using False by (cases "map_of m k") (simp_all add: cl_clean_hooks_def)
qed

lemma cl_clean_event_other: "(\<And>rs. v \<noteq> JArr rs) \<Longrightarrow> cl_clean_event P v = (Some v, False)"
  by (cases v) (auto simp: cl_clean_event_def)

lemma cl_decide_clean:
  "Option.bind x (\<lambda>v. fst (cl_clean_event is_managed_sondera_hook_command v))
   = (case Option.bind x cl_decide of None \<Rightarrow> x | Some r \<Rightarrow> r)"
proof (cases x)
  case (Some v)
  then show ?thesis by (cases v) (simp_all add: cl_decide_def cl_clean_event_other)
qed simp

lemma cl_fresh:
  assumes "sondera_path (fst b)" "(e, JArr fresh) \<in> set (cl_generate_hooks_config b)"
  shows "fresh \<noteq> [] \<and> cl_clean_rules is_managed_sondera_hook_command fresh = []"
proof -
  have k: "list_all (\<lambda>(event, sub). kebab sub) cl_hook_events" "kebab ''claude''"
    by (simp_all add: cl_hook_events_def kebab_def byte_defs)
  obtain sub where sub: "(e, sub) \<in> set cl_hook_events" "JArr fresh = cl_hook_command_entry (fst b) sub (snd b)"
    using assms(2) by (auto simp: cl_generate_hooks_config_def)
  then have "kebab sub" using k by (auto simp: list_all_iff)
  then have "parse_hook_command (hook_command_line ShPosix (fst b) ''claude'' (snd b) sub)
      = Some \<lparr>hc_binary = portable_str (fst b), hc_provider = ''claude'', hc_subcommand = Some sub\<rparr>"
    using kebab_word k(2) assms(1) by (intro posix_command_parses) blast+
  moreover have "sub \<in> set (map snd cl_hook_events)" using sub(1) by force
  ultimately have "is_managed_sondera_hook_command (hook_command_line ShPosix (fst b) ''claude'' (snd b) sub)"
    by (auto simp: is_managed_sondera_hook_command_def is_managed_by_binary_def
        command_matches_sondera_hook_subcommand_def list_ex_iff)
  then show ?thesis using sub(2)
    by (simp add: cl_hook_command_entry_def cl_clean_rule_def entry_has_command_def)
qed

interpretation cl: hook_splice "cl_clean_hooks is_managed_sondera_hook_command" cl_decide
  "cl_clean_rules is_managed_sondera_hook_command" "\<lambda>_. True" "\<lambda>_. True" fresh_first
  "\<lambda>b. sondera_path (fst b)" cl_generate_hooks_config
proof (unfold_locales, goal_cases)
  case (1 m k)
  then show ?case by (simp add: map_of_cl_clean_hooks cl_decide_clean)
next
  case (2 m)
  then show ?case by (auto simp: cl_clean_hooks_def Let_def split: if_splits)
next
  case (3 m)
  then show ?case by (simp add: cl_clean_hooks_def Let_def distinct_map_filter_value)
next
  case (4 rs)
  then show ?case by (simp add: cl_decide_def cl_clean_event_def Let_def)
next
  case (5 v)
  then show ?case by (cases v) (auto simp: cl_decide_def)
next
  case (9 b)
  then show ?case by (simp add: cl_generate_hooks_config_def cl_hook_events_def)
next
  case (10 b)
  then show ?case by (simp add: cl_generate_hooks_config_def cl_hook_command_entry_def cl_hook_events_def array_values_def)
next
  case (11 b e fresh old)
  then show ?case using cl_fresh map_of_SomeD by fastforce
qed (simp_all add: cl_clean_rules_idem)

lemma cl_merge_events:
  assumes "config_ok c"
  shows "map_of (hooks_of (merge_managed_sondera_hooks c b)) = map_of (cl.joined b (hooks_of c))"
proof -
  have cleared: "hooks_of (fst (cl_remove_managed_sondera_hooks c)) = fst (cl_clean_hooks is_managed_sondera_hook_command (hooks_of c))"
    using cl.revoke_events_hooks [OF assms]
    by (simp add: revoke_events_def cl_remove_managed_sondera_hooks_def remove_matching_hook_commands_def)
  let ?c = "fst (cl_remove_managed_sondera_hooks c)"
  have "map_of (hooks_of (merge_managed_sondera_hooks c b)) = map_of (merge_events fresh_first (cl_generate_hooks_config b) (hooks_of ?c))"
  proof (cases "map_of ?c ''hooks''")
    case None
    then show ?thesis using cl.joined_nil [of b] cl.removed_nil
      by (simp add: merge_managed_sondera_hooks_def Let_def hooks_of_def)
  next
    case (Some v)
    then show ?thesis using cl.joined_nil [of b] cl.removed_nil
      by (cases v) (simp_all add: merge_managed_sondera_hooks_def Let_def hooks_of_def)
  qed
  then show ?thesis unfolding cleared .
qed

lemma cl_remove_events: "config_ok c \<Longrightarrow>
   hooks_of (fst (cl_remove_managed_sondera_hooks c)) = fst (cl_clean_hooks is_managed_sondera_hook_command (hooks_of c))"
  using cl.revoke_events_hooks [of c]
  by (simp add: revoke_events_def cl_remove_managed_sondera_hooks_def remove_matching_hook_commands_def)

lemma cl_remove_ok: "config_ok c \<Longrightarrow> config_ok (fst (cl_remove_managed_sondera_hooks c))"
  using cl.removed_distinct [of "hooks_of c"] cl_remove_events [of c]
  by (auto simp: config_ok_def cl_remove_managed_sondera_hooks_def remove_matching_hook_commands_def
      split: option.splits json.splits prod.splits)

lemma cl_remove_other:
  assumes "distinct (keys c)" "k \<noteq> ''hooks''"
  shows "map_of (fst (remove_matching_hook_commands P c)) k = map_of c k"
  using assms by (auto simp: remove_matching_hook_commands_def split: option.split json.split prod.split)

lemma cl_merge_ok:
  assumes "config_ok c" shows "config_ok (merge_managed_sondera_hooks c b)"
proof -
  let ?c = "fst (cl_remove_managed_sondera_hooks c)"
  have c: "distinct (keys ?c)" "distinct (keys (hooks_of ?c))" using cl_remove_ok [OF assms] by (simp_all add: config_ok_def)
  have "distinct (keys (hooks_of (merge_managed_sondera_hooks c b)))"
  proof (cases "map_of ?c ''hooks''")
    case None
    then show ?thesis using cl.new_distinct by (simp add: merge_managed_sondera_hooks_def Let_def hooks_of_def)
  next
    case (Some v)
    then show ?thesis using cl.new_distinct c(2)
      by (cases v) (simp_all add: merge_managed_sondera_hooks_def Let_def hooks_of_def)
  qed
  then show ?thesis using c(1) by (simp add: config_ok_def merge_managed_sondera_hooks_def Let_def)
qed

lemma cl_merge_other:
  assumes "distinct (keys c)" "k \<noteq> ''hooks''"
  shows "map_of (merge_managed_sondera_hooks c b) k = map_of c k"
proof -
  have "distinct (keys (fst (cl_remove_managed_sondera_hooks c)))" using assms(1)
    by (auto simp: cl_remove_managed_sondera_hooks_def remove_matching_hook_commands_def split: option.splits json.splits prod.splits)
  then show ?thesis using cl_remove_other [OF assms, of is_managed_sondera_hook_command] assms(2)
    by (simp add: merge_managed_sondera_hooks_def Let_def cl_remove_managed_sondera_hooks_def)
qed

text \<open>After a removal no command that should go is left.\<close>

lemma cl_clean_rule_clean:
  "fst (cl_clean_rule P r) = Some r' \<Longrightarrow> Option.bind (jget ''hooks'' r') as_array = Some entries
   \<Longrightarrow> \<not> list_ex (entry_has_command P) entries"
  by (cases r) (auto simp: cl_clean_rule_def Let_def list_ex_iff split: option.splits if_splits)

lemma cl_clean_rules_clean:
  "r \<in> set (cl_clean_rules P rs) \<Longrightarrow> Option.bind (jget ''hooks'' r) as_array = Some entries
   \<Longrightarrow> \<not> list_ex (entry_has_command P) entries"
  by (induction rs) (auto dest: cl_clean_rule_clean cl_clean_rule_clean [OF sym] split: option.splits)

lemma case_array_iff: "(case as_array v of None \<Rightarrow> False | Some rs \<Rightarrow> Q rs) \<longleftrightarrow> (\<exists>rs. v = JArr rs \<and> Q rs)"
  by (cases v) auto

lemma settings_have_matching_iff:
  "settings_have_matching_hook_command P c \<longleftrightarrow>
   (\<exists>h e rules rule entries. map_of c ''hooks'' = Some (JObj h) \<and> (e, JArr rules) \<in> set h \<and> rule \<in> set rules
      \<and> Option.bind (jget ''hooks'' rule) as_array = Some entries \<and> list_ex (entry_has_command P) entries)"
proof -
  have rule: "(case x of None \<Rightarrow> False | Some y \<Rightarrow> Q y) \<longleftrightarrow> (\<exists>y. x = Some y \<and> Q y)" for x :: "json list option" and Q
    by (cases x) auto
  have obj: "(case Option.bind x as_object of None \<Rightarrow> False | Some h \<Rightarrow> Q h) \<longleftrightarrow> (\<exists>h. x = Some (JObj h) \<and> Q h)" for x Q
    by (cases x; cases "the x") auto
  show ?thesis unfolding settings_have_matching_hook_command_def obj case_array_iff
    unfolding rule list_ex_iff by fastforce
qed

lemma remove_matching_hooks_of:
  assumes "config_ok c" shows "hooks_of (fst (remove_matching_hook_commands P c)) = fst (cl_clean_hooks P (hooks_of c))"
proof (cases "map_of c ''hooks''")
  case (Some v)
  then show ?thesis
  proof (cases v)
    case (JObj m)
    have "\<not> snd (cl_clean_hooks P m) \<Longrightarrow> fst (cl_clean_hooks P m) = m"
      by (auto simp: cl_clean_hooks_def Let_def split: if_splits)
    then show ?thesis using Some JObj assms
      by (auto simp: remove_matching_hook_commands_def hooks_of_def config_ok_def split: prod.split)
  qed (simp_all add: remove_matching_hook_commands_def hooks_of_def cl_clean_hooks_def map_filter_simps)
qed (simp add: remove_matching_hook_commands_def hooks_of_def cl_clean_hooks_def map_filter_simps)

lemma removed_no_match:
  assumes "config_ok c"
  shows "\<not> settings_have_matching_hook_command P (fst (remove_matching_hook_commands P c))"
proof
  assume "settings_have_matching_hook_command P (fst (remove_matching_hook_commands P c))"
  then obtain h e rules rule entries where h: "map_of (fst (remove_matching_hook_commands P c)) ''hooks'' = Some (JObj h)"
    and e: "(e, JArr rules) \<in> set h" "rule \<in> set rules"
      "Option.bind (jget ''hooks'' rule) as_array = Some entries" "list_ex (entry_has_command P) entries"
    unfolding settings_have_matching_iff by blast
  have h': "h = fst (cl_clean_hooks P (hooks_of c))"
    using remove_matching_hooks_of [OF assms, of P] h by (simp add: hooks_of_def)
  have dist: "distinct (keys (hooks_of c))" using assms by (simp add: config_ok_def)
  then have dh: "distinct (keys h)" by (simp add: h' cl_clean_hooks_def Let_def distinct_map_filter_value)
  have "map_of h e = Some (JArr rules)" using dh e(1) by simp
  then obtain v where "fst (cl_clean_event P v) = Some (JArr rules)"
    using dist by (auto simp: h' map_of_cl_clean_hooks bind_eq_Some_conv)
  then have "\<exists>rs. rules = cl_clean_rules P rs"
    by (cases v) (auto simp: cl_clean_event_def Let_def split: if_splits)
  then show False using cl_clean_rules_clean e(2-4) by blast
qed

text \<open>An empty third-party rule is dropped with nothing of ours in the file, and reported as a change.\<close>

lemma empty_rule_dropped:
  "cl_remove_managed_sondera_hooks [(''hooks'', JObj [(''Stop'', JArr [])])] = ([], True)"
  by (simp add: cl_remove_managed_sondera_hooks_def remove_matching_hook_commands_def cl_clean_hooks_def
      cl_clean_event_def json_remove_def map_filter_simps)

end
