(* ===== verification/Install_Claude_Files.thy ===== *)
theory Install_Claude_Files
  imports Install_Claude Gemini "HOL-Library.Char_ord" "HOL-Library.List_Lexorder"
begin

text \<open>
  The Claude Code installer on the file system (\<open>crates/hooks/claude/src/install.rs\<close>): which settings
  files there are, the check of the binary, the backups, and the three commands \<open>install\<close>,
  \<open>uninstall\<close> and the clean-up of one file. What the process finds (identity, environment, directories,
  kinds of files, the output of \<open>--help\<close>) are fields of one record; paths are those of Linux.
\<close>

section \<open>The process and its files\<close>

text \<open>What \<open>symlink_metadata\<close> says of an entry; for a link, whether its target is a regular file.\<close>

datatype file_kind = FkRegular | FkSymlink "bool option" | FkOther | FkError

record cl_install_env = install_env +
  cie_document :: config_document
  cie_elevated :: bool
  cie_sudo_user :: "string option"
  cie_user_home :: "string \<Rightarrow> install_error + string"
  cie_sudo_ids :: bool
  cie_home :: "string option"
  cie_cwd :: "string option"
  cie_force :: "string option"
  cie_plugin_dir :: "string option"
  cie_exists :: "string \<Rightarrow> bool"
  cie_entries :: "string \<Rightarrow> string list"
  cie_kind :: "string \<Rightarrow> file_kind"
  cie_target :: "string \<Rightarrow> string"
  cie_stat_error :: "string \<Rightarrow> bool"
  cie_chown_error :: "string \<Rightarrow> bool"
  cie_help :: "string \<Rightarrow> install_error + bool \<times> string"

text \<open>
  The file a path names: where its links end (\<open>cie_target\<close>), and itself when it is no link. Reading,
  writing and copying follow links; the disk maps names of files to contents. A directory or another
  entry that is no file is there with a content that cannot be read. Links in the parents of a path
  are taken as resolved.
\<close>

definition cell :: "cl_install_env \<Rightarrow> string \<Rightarrow> string" where
  "cell V path = (case cie_kind V path of FkSymlink _ \<Rightarrow> cie_target V path | _ \<Rightarrow> path)"

definition read_settings :: "cl_install_env \<Rightarrow> disk \<Rightarrow> string \<Rightarrow> install_error + (string \<times> json) list" where
  "read_settings V fs path = read_object (cie_document V) (install_env.truncate V) fs (cell V path)"

definition write_settings :: "cl_install_env \<Rightarrow> disk \<Rightarrow> string \<Rightarrow> (string \<times> json) list \<Rightarrow> disk \<times> (install_error + unit)" where
  "write_settings V fs path settings =
     write_object (cie_document V) (install_env.truncate V) fs (cell V path) settings"

text \<open>\<open>fs::copy\<close>: a file copied onto itself is emptied.\<close>

definition copy_file :: "cl_install_env \<Rightarrow> disk \<Rightarrow> string \<Rightarrow> string \<Rightarrow> disk" where
  "copy_file V fs source copy =
     fs(cell V copy := (if cell V copy = cell V source then Some [] else fs (cell V source)))"

section \<open>Where settings live\<close>

definition settings_path_for_scope :: "ih_scope \<Rightarrow> string \<Rightarrow> string \<Rightarrow> string" where
  "settings_path_for_scope scope home cwd =
     (case scope of
        ScopeUser \<Rightarrow> path_join (path_join home ''.claude'') ''settings.json''
      | ScopeProject \<Rightarrow> path_join (path_join cwd ''.claude'') ''settings.json''
      | ScopeLocal \<Rightarrow> path_join (path_join cwd ''.claude'') ''settings.local.json'')"

definition sudo_invoking_user_home :: "cl_install_env \<Rightarrow> install_error + string option" where
  "sudo_invoking_user_home V =
     (if \<not> cie_elevated V then Inr None
      else case cie_sudo_user V of
             None \<Rightarrow> Inr None
           | Some user \<Rightarrow>
               (if user = [] \<or> user = ''root'' then Inr None
                else if \<not> valid_utf8 user then Inl IeUser
                else map_sum id Some (cie_user_home V user)))"

definition settings_home_dir :: "cl_install_env \<Rightarrow> install_error + string" where
  "settings_home_dir V =
     bind_result (sudo_invoking_user_home V) (\<lambda>h.
       case h of Some home \<Rightarrow> Inr home | None \<Rightarrow> ok_or (cie_home V) IeNoHome)"

definition get_settings_path :: "cl_install_env \<Rightarrow> ih_scope \<Rightarrow> install_error + string" where
  "get_settings_path V scope =
     (case scope of
        ScopeUser \<Rightarrow> bind_result (settings_home_dir V) (\<lambda>home. Inr (settings_path_for_scope scope home home))
      | _ \<Rightarrow> bind_result (ok_or (cie_cwd V) IeNoCwd) (\<lambda>cwd. Inr (settings_path_for_scope scope cwd cwd)))"

record cl_location =
  loc_label :: string
  loc_path :: string
  loc_read_only :: bool

definition push_settings_location :: "string \<Rightarrow> bool \<Rightarrow> string \<Rightarrow> cl_location list \<Rightarrow> cl_location list" where
  "push_settings_location label read_only path locations =
     (if list_ex (\<lambda>l. loc_path l = path) locations then locations
      else locations @ [\<lparr>loc_label = label, loc_path = path, loc_read_only = read_only\<rparr>])"

definition managed_settings_paths_for_base :: "cl_install_env \<Rightarrow> string \<Rightarrow> string list" where
  "managed_settings_paths_for_base V base =
     (let drop_in_dir = path_join base ''managed-settings.d'';
          found = filter (\<lambda>p. snd (split_file_name (file_name_part p)) = Some ''json'' \<and> \<not> prefix ''.'' (file_name_part p))
            (map (path_join drop_in_dir) (cie_entries V drop_in_dir))
      in remdups_adj (sort_key path_parts
           ([path_join base ''managed-settings.json'', path_join drop_in_dir ''sondera-hooks.json''] @ found)))"

definition managed_settings_paths :: "cl_install_env \<Rightarrow> string list" where
  "managed_settings_paths V =
     remdups_adj (sort_key path_parts (managed_settings_paths_for_base V ''/etc/claude-code''))"

text \<open>\<open>PathBuf::pop\<close> until there is no parent; the working directory has no trailing separator.\<close>

definition path_parent :: "string \<Rightarrow> string option" where
  "path_parent p =
     (let name = file_name_part p; dir = take (length p - length name) p;
          stem = rev (dropWhile (\<lambda>c. c = slash) (rev dir))
      in if name = [] then None else Some (if stem = [] \<and> dir \<noteq> [] then [slash] else stem))"

lemma path_parent_shorter:
  assumes "path_parent p = Some q" shows "length q < length p"
proof -
  define name where "name = file_name_part p"
  define dir where "dir = take (length p - length name) p"
  define stem where "stem = rev (dropWhile (\<lambda>c. c = slash) (rev dir))"
  have q: "name \<noteq> []" "q = (if stem = [] \<and> dir \<noteq> [] then [slash] else stem)"
    using assms unfolding path_parent_def Let_def
    unfolding name_def [symmetric] dir_def [symmetric] stem_def [symmetric] by (simp_all split: if_splits)
  have "length (takeWhile (\<lambda>c. c \<notin> {slash}) (rev p)) \<le> length (rev p)" by (rule length_takeWhile_le)
  then have "length name \<le> length p" by (simp add: name_def file_name_part_def after_last_def)
  moreover have "0 < length name" using q(1) by (rule length_greater_0_conv [THEN iffD2])
  moreover have "length dir = length p - length name" by (simp add: dir_def)
  ultimately have dir: "length dir < length p" by linarith
  have "length stem \<le> length dir"
    unfolding stem_def by (metis length_dropWhile_le length_rev)
  moreover have "length [slash] \<le> length dir" if "dir \<noteq> []" using that by (cases dir) simp_all
  ultimately have "length q \<le> length dir" unfolding q(2) by auto
  then show ?thesis using dir by linarith
qed

function path_ancestors :: "string \<Rightarrow> string list" where
  "path_ancestors p = p # (case path_parent p of None \<Rightarrow> [] | Some q \<Rightarrow> path_ancestors q)"
  by pat_completeness auto
termination by (relation "measure length") (simp_all add: path_parent_shorter)

declare path_ancestors.simps [simp del]

definition project_roots_from :: "cl_install_env \<Rightarrow> string \<Rightarrow> string list" where
  "project_roots_from V cwd =
     filter (\<lambda>dir. cie_exists V (path_join dir ''.git'') \<or> cie_exists V (path_join dir ''.claude'')) (path_ancestors cwd)"

definition push_project_locations :: "string \<Rightarrow> string \<Rightarrow> cl_location list \<Rightarrow> cl_location list" where
  "push_project_locations kind dir locations =
     push_settings_location (kind @ '' project settings'') False (settings_path_for_scope ScopeProject dir dir)
       (push_settings_location (kind @ '' local project settings'') False (settings_path_for_scope ScopeLocal dir dir) locations)"

definition diagnostic_settings_locations ::
  "cl_install_env \<Rightarrow> string option \<Rightarrow> string option \<Rightarrow> string list \<Rightarrow> cl_location list" where
  "diagnostic_settings_locations V home cwd managed_paths =
     (let project = (case cwd of
            None \<Rightarrow> []
          | Some dir \<Rightarrow> fold (push_project_locations ''ancestor'') (project_roots_from V dir)
              (push_project_locations ''current'' dir []));
          user = (case home of
            None \<Rightarrow> project
          | Some h \<Rightarrow> push_settings_location ''user settings'' False (settings_path_for_scope ScopeUser h h) project)
      in fold (push_settings_location ''enterprise managed settings'' True) managed_paths user)"

section \<open>Looking for hooks\<close>

text \<open>\<open>symlink_metadata\<close>: nothing there, something of a kind, or an error.\<close>

definition inspect_entry :: "cl_install_env \<Rightarrow> disk \<Rightarrow> string \<Rightarrow> install_error + file_kind option" where
  "inspect_entry V fs path =
     (case cie_kind V path of
        FkError \<Rightarrow> Inl IeInspect
      | FkSymlink t \<Rightarrow> Inr (Some (FkSymlink t))
      | k \<Rightarrow> Inr (if fs path = None then None else Some k))"

definition settings_file_contains_managed_hooks :: "cl_install_env \<Rightarrow> disk \<Rightarrow> string \<Rightarrow> install_error + bool" where
  "settings_file_contains_managed_hooks V fs path =
     bind_result (inspect_entry V fs path) (\<lambda>k.
       case k of
         None \<Rightarrow> Inr False
       | Some _ \<Rightarrow> bind_result (read_settings V fs path) (\<lambda>settings.
           Inr (settings_have_matching_hook_command is_managed_sondera_hook_command settings)))"

definition managed_sondera_hook_locations :: "cl_install_env \<Rightarrow> disk \<Rightarrow> cl_location list \<Rightarrow> cl_location list" where
  "managed_sondera_hook_locations V fs locations =
     filter (\<lambda>l. settings_file_contains_managed_hooks V fs (loc_path l) = Inr True) locations"

definition hook_locations_remain :: "cl_install_env \<Rightarrow> disk \<Rightarrow> cl_location list \<Rightarrow> bool" where
  "hook_locations_remain V fs locations \<longleftrightarrow> managed_sondera_hook_locations V fs locations \<noteq> []"

definition contains_retired_managed_hooks_at :: "cl_install_env \<Rightarrow> disk \<Rightarrow> string \<Rightarrow> install_error + bool" where
  "contains_retired_managed_hooks_at V fs path =
     (if fs (cell V path) = None then Inr False
      else bind_result (read_settings V fs path) (\<lambda>settings.
        Inr (settings_have_matching_hook_command is_retired_managed_sondera_hook_command settings)))"

section \<open>Backups\<close>

definition preserve_backup_owner :: "cl_install_env \<Rightarrow> string \<Rightarrow> string \<Rightarrow> install_error + unit" where
  "preserve_backup_owner V source backup =
     (if cie_elevated V \<and> (cie_stat_error V source \<or> cie_chown_error V backup) then Inl IeOwner else Inr ())"

definition copy_settings :: "cl_install_env \<Rightarrow> disk \<Rightarrow> string \<Rightarrow> string \<Rightarrow> disk \<times> (install_error + string option)" where
  "copy_settings V fs path backup =
     (case ie_copy_error V backup of
        Some left \<Rightarrow> (fs(cell V backup := left), Inl IeBackup)
      | None \<Rightarrow> (copy_file V fs path backup, map_sum id (\<lambda>_. Some backup) (preserve_backup_owner V path backup)))"

definition backup_settings :: "cl_install_env \<Rightarrow> disk \<Rightarrow> string \<Rightarrow> disk \<times> (install_error + string option)" where
  "backup_settings V fs path =
     (if fs (cell V path) = None then (fs, Inr None)
      else copy_settings V fs path (backup_path path (ie_timestamp V)))"

text \<open>The counter is a \<open>u32\<close>; more taken names than it counts do not occur.\<close>

fun first_free :: "(nat \<Rightarrow> bool) \<Rightarrow> nat \<Rightarrow> nat \<Rightarrow> nat option" where
  "first_free taken fuel c =
     (if \<not> taken c then Some c else if fuel = 0 then None else first_free taken (fuel - 1) (c + 1))"

declare first_free.simps [simp del]

definition drop_in_backup_name :: "string \<Rightarrow> string \<Rightarrow> nat \<Rightarrow> string" where
  "drop_in_backup_name path timestamp counter =
     path @ ''.backup.'' @ timestamp @ (if counter = 0 then [] else CHR ''.'' # nat_to_string counter)"

definition is_managed_drop_in :: "string \<Rightarrow> bool" where
  "is_managed_drop_in path \<longleftrightarrow>
     (case path_parent path of Some dir \<Rightarrow> file_name_part dir = ''managed-settings.d'' | None \<Rightarrow> False)"

definition backup_settings_for_cleanup :: "cl_install_env \<Rightarrow> disk \<Rightarrow> string \<Rightarrow> disk \<times> (install_error + string option)" where
  "backup_settings_for_cleanup V fs path =
     (if \<not> is_managed_drop_in path then backup_settings V fs path
      else if fs (cell V path) = None then (fs, Inr None)
      else case first_free (\<lambda>c. fs (cell V (drop_in_backup_name path (ie_timestamp V) c)) \<noteq> None) (2 ^ 32) 0 of
             None \<Rightarrow> (fs, Inl IeBackup)
           | Some c \<Rightarrow> copy_settings V fs path (drop_in_backup_name path (ie_timestamp V) c))"

section \<open>Cleaning one file\<close>

datatype symlink_handling = SymReject | SymFollowRegularTarget

definition is_regular_settings :: "file_kind \<Rightarrow> symlink_handling \<Rightarrow> install_error + bool" where
  "is_regular_settings kind handling =
     (case kind of
        FkRegular \<Rightarrow> Inr True
      | FkSymlink t \<Rightarrow> (if handling = SymFollowRegularTarget then ok_or t IeInspect else Inr False)
      | _ \<Rightarrow> Inr False)"

definition cleanup_sondera_hooks_at ::
  "cl_install_env \<Rightarrow> symlink_handling \<Rightarrow> string \<Rightarrow> disk \<Rightarrow> disk \<times> (install_error + string option)" where
  "cleanup_sondera_hooks_at V handling path fs =
     (case inspect_entry V fs path of
        Inl e \<Rightarrow> (fs, Inl e)
      | Inr None \<Rightarrow> (fs, Inr None)
      | Inr (Some kind) \<Rightarrow>
          (case is_regular_settings kind handling of
             Inl e \<Rightarrow> (fs, Inl e)
           | Inr False \<Rightarrow> (fs, Inl IeNonRegular)
           | Inr True \<Rightarrow>
               (case read_settings V fs path of
                  Inl e \<Rightarrow> (fs, Inl e)
                | Inr settings \<Rightarrow>
                    (if (case map_of settings ''hooks'' of Some (JObj _) \<Rightarrow> False | None \<Rightarrow> False | _ \<Rightarrow> True)
                     then (fs, Inr None)
                     else case cl_remove_managed_sondera_hooks settings of (settings', changed) \<Rightarrow>
                       (if \<not> changed then (fs, Inr None)
                        else case backup_settings_for_cleanup V fs path of
                               (fs1, Inl e) \<Rightarrow> (fs1, Inl e)
                             | (fs1, Inr None) \<Rightarrow> (fs1, Inl IeDisappeared)
                             | (fs1, Inr (Some backup)) \<Rightarrow>
                                 (case write_settings V fs1 path settings' of
                                    (fs2, Inl e) \<Rightarrow> (fs2, Inl e)
                                  | (fs2, Inr _) \<Rightarrow> (fs2, Inr (Some backup))))))))"

definition cleanup_managed_sondera_hooks_at ::
  "cl_install_env \<Rightarrow> string \<Rightarrow> disk \<Rightarrow> disk \<times> (install_error + string option)" where
  "cleanup_managed_sondera_hooks_at V path fs = cleanup_sondera_hooks_at V SymReject path fs"

definition cleanup_retired_managed_hooks_at ::
  "cl_install_env \<Rightarrow> string \<Rightarrow> disk \<Rightarrow> disk \<times> (install_error + string option option)" where
  "cleanup_retired_managed_hooks_at V path fs =
     (if fs (cell V path) = None then (fs, Inr None)
      else case read_settings V fs path of
             Inl e \<Rightarrow> (fs, Inl e)
           | Inr settings \<Rightarrow>
               (case cl_remove_retired_hooks settings of (settings', changed) \<Rightarrow>
                  if \<not> changed then (fs, Inr None)
                  else case backup_settings V fs path of
                         (fs1, Inl e) \<Rightarrow> (fs1, Inl e)
                       | (fs1, Inr backup) \<Rightarrow>
                           (case write_settings V fs1 path settings' of
                              (fs2, Inl e) \<Rightarrow> (fs2, Inl e)
                            | (fs2, Inr _) \<Rightarrow> (fs2, Inr (Some backup)))))"

text \<open>With privileges every managed file is cleaned; an error is a warning.\<close>

definition reconcile_managed_settings_paths :: "cl_install_env \<Rightarrow> string list \<Rightarrow> disk \<Rightarrow> disk" where
  "reconcile_managed_settings_paths V paths fs =
     (if cie_elevated V then fold (\<lambda>path fs. fst (cleanup_managed_sondera_hooks_at V path fs)) paths fs else fs)"

section \<open>The plugin and the binary\<close>

definition parse_true_like :: "string \<Rightarrow> bool" where
  "parse_true_like v \<longleftrightarrow> to_ascii_lowercase v \<in> {''1'', ''true'', ''yes'', ''on''}"

definition plugin_manifest_has_sondera_hooks :: "cl_install_env \<Rightarrow> disk \<Rightarrow> string \<Rightarrow> bool" where
  "plugin_manifest_has_sondera_hooks V fs plugin_root =
     (let manifest_path = path_join (path_join plugin_root ''.claude-plugin'') ''plugin.json''
      in case fs (cell V manifest_path) of
           None \<Rightarrow> False
         | Some content \<Rightarrow>
             (if ie_read_error V manifest_path then False
              else case cd_parse (cie_document V) content of
                     None \<Rightarrow> False
                   | Some plugin \<Rightarrow>
                       settings_have_matching_hook_command (sublist ''sondera-hook.sh'') (unwrap_or (as_object plugin) [])))"

definition resolve_plugin_root :: "cl_install_env \<Rightarrow> disk \<Rightarrow> string \<Rightarrow> string option" where
  "resolve_plugin_root V fs cwd =
     (if (case cie_force V of Some v \<Rightarrow> parse_true_like v | None \<Rightarrow> False) then None
      else case cie_plugin_dir V of
             None \<Rightarrow> None
           | Some plugin_dir \<Rightarrow>
               (let resolved = (if is_absolute plugin_dir then plugin_dir else path_join cwd plugin_dir)
                in if plugin_manifest_has_sondera_hooks V fs resolved then Some resolved else None))"

definition should_dedupe_with_plugin :: "ih_scope \<Rightarrow> bool" where
  "should_dedupe_with_plugin scope \<longleftrightarrow> scope \<noteq> ScopeUser"

definition subcommand_char :: "string \<Rightarrow> bool" where
  "subcommand_char ch \<longleftrightarrow> (\<exists>c\<in>set ch. ch = [c] \<and> (is_alnum c \<or> c = CHR ''-''))"

definition trim_to_subcommand :: "string \<Rightarrow> string" where
  "trim_to_subcommand token =
     concat (rev (dropWhile (\<lambda>ch. \<not> subcommand_char ch) (rev (dropWhile (\<lambda>ch. \<not> subcommand_char ch) (utf8_chars token)))))"

definition help_contains_subcommand :: "string \<Rightarrow> string \<Rightarrow> bool" where
  "help_contains_subcommand help sub \<longleftrightarrow> list_ex (\<lambda>token. trim_to_subcommand token = sub) (split_whitespace help)"

definition missing_subcommands :: "string \<Rightarrow> string list \<Rightarrow> string list" where
  "missing_subcommands help required = filter (\<lambda>sub. \<not> help_contains_subcommand help sub) required"

definition ensure_binary_supports_hooks :: "cl_install_env \<Rightarrow> string \<Rightarrow> string list \<Rightarrow> install_error + unit" where
  "ensure_binary_supports_hooks V binary required =
     bind_result (cie_help V binary) (\<lambda>(success, help).
       if \<not> success then Inl IeIncompatible
       else if missing_subcommands help required \<noteq> [] then Inl IeIncompatible
       else Inr ())"

section \<open>Install and uninstall\<close>

definition preserve_new_user_settings_owner :: "cl_install_env \<Rightarrow> string \<Rightarrow> bool \<Rightarrow> install_error + unit" where
  "preserve_new_user_settings_owner V path parent_existed =
     (if \<not> (cie_elevated V \<and> cie_sudo_ids V) then Inr ()
      else if cie_chown_error V path then Inl IeOwner
      else if \<not> parent_existed then
        (case path_parent path of
           Some parent \<Rightarrow> if cie_chown_error V parent then Inl IeOwner else Inr ()
         | None \<Rightarrow> Inr ())
      else Inr ())"

text \<open>The end of an install: the settings are written, and their new file given to its user.\<close>

definition write_installed ::
  "cl_install_env \<Rightarrow> bool \<Rightarrow> bool \<Rightarrow> string \<Rightarrow> (string \<times> json) list \<Rightarrow> disk \<Rightarrow> disk \<times> (install_error + unit)" where
  "write_installed V existed parent_existed path settings fs =
     (case write_settings V fs path settings of
        (fs1, Inl e) \<Rightarrow> (fs1, Inl e)
      | (fs1, Inr _) \<Rightarrow>
          (fs1, if existed then Inr () else preserve_new_user_settings_owner V path parent_existed))"

definition install_into ::
  "cl_install_env \<Rightarrow> ih_scope \<Rightarrow> bool \<Rightarrow> string \<Rightarrow> string \<Rightarrow> disk \<Rightarrow> disk \<times> (install_error + string)" where
  "install_into V scope verbose binary path fs =
     (let existed = fs (cell V path) \<noteq> None;
          parent_existed = (case path_parent path of None \<Rightarrow> True | Some dir \<Rightarrow> cie_exists V dir);
          reconciled = (\<lambda>fs. (reconcile_managed_settings_paths V (managed_settings_paths V) fs, Inr path))
      in case backup_settings V fs path of
           (fs1, Inl e) \<Rightarrow> (fs1, Inl e)
         | (fs1, Inr _) \<Rightarrow>
             (case read_settings V fs1 path of
                Inl e \<Rightarrow> (fs1, Inl e)
              | Inr settings \<Rightarrow>
                  (case (if should_dedupe_with_plugin scope
                         then map_sum id (resolve_plugin_root V fs1) (ok_or (cie_cwd V) IeNoCwd) else Inr None) of
                     Inl e \<Rightarrow> (fs1, Inl e)
                   | Inr (Some plugin_root) \<Rightarrow>
                       (case cl_remove_managed_sondera_hooks settings of (settings', changed) \<Rightarrow>
                          if \<not> changed then reconciled fs1
                          else case write_installed V existed parent_existed path settings' fs1 of
                                 (fs2, Inl e) \<Rightarrow> (fs2, Inl e)
                               | (fs2, Inr _) \<Rightarrow> reconciled fs2)
                   | Inr None \<Rightarrow>
                       (case write_installed V existed parent_existed path
                               (merge_managed_sondera_hooks settings (binary, verbose)) fs1 of
                          (fs2, Inl e) \<Rightarrow> (fs2, Inl e)
                        | (fs2, Inr _) \<Rightarrow> reconciled fs2))))"

definition cl_install_hooks ::
  "cl_install_env \<Rightarrow> string option \<Rightarrow> ih_scope \<Rightarrow> bool \<Rightarrow> disk \<Rightarrow> disk \<times> (install_error + string)" where
  "cl_install_hooks V found scope verbose fs =
     (case bind_result (ok_or found IeNoBinary) (\<lambda>binary.
             bind_result (ensure_binary_supports_hooks V binary cl_required_hook_subcommands) (\<lambda>_.
               map_sum id (Pair binary) (get_settings_path V scope))) of
        Inl e \<Rightarrow> (fs, Inl e)
      | Inr (binary, path) \<Rightarrow> install_into V scope verbose binary path fs)"

text \<open>The clean-up of an uninstall: what was removed, and whether a location failed.\<close>

fun cleanup_locations ::
  "cl_install_env \<Rightarrow> string \<Rightarrow> cl_location list \<Rightarrow> nat \<times> bool \<Rightarrow> disk \<Rightarrow> disk \<times> (install_error + nat \<times> bool)" where
  "cleanup_locations V selected [] acc fs = (fs, Inr acc)"
| "cleanup_locations V selected (l # ls) (removed, failed) fs =
     (case (if cie_elevated V then cleanup_managed_sondera_hooks_at V (loc_path l) fs
            else cleanup_sondera_hooks_at V SymFollowRegularTarget (loc_path l) fs) of
        (fs1, Inr (Some _)) \<Rightarrow> cleanup_locations V selected ls (removed + 1, failed) fs1
      | (fs1, Inr None) \<Rightarrow> cleanup_locations V selected ls (removed, failed) fs1
      | (fs1, Inl e) \<Rightarrow>
          (if cie_elevated V \<or> loc_path l \<noteq> selected then cleanup_locations V selected ls (removed, True) fs1
           else (fs1, Inl e)))"

definition cleanup_uninstall_locations ::
  "cl_install_env \<Rightarrow> string \<Rightarrow> cl_location list \<Rightarrow> disk \<Rightarrow> disk \<times> (install_error + nat \<times> bool)" where
  "cleanup_uninstall_locations V selected locations fs =
     cleanup_locations V selected
       (if cie_elevated V then locations
        else [\<lparr>loc_label = ''selected'', loc_path = selected, loc_read_only = False\<rparr>]) (0, False) fs"

text \<open>What an uninstall reports in the end.\<close>

datatype uninstall_report = HooksRemain | CouldNotVerify | NoneFound | AllRemoved

definition cl_uninstall_hooks :: "cl_install_env \<Rightarrow> ih_scope \<Rightarrow> disk \<Rightarrow> disk \<times> (install_error + uninstall_report)" where
  "cl_uninstall_hooks V scope fs =
     (case bind_result (get_settings_path V scope) (\<lambda>path.
             bind_result (settings_home_dir V) (\<lambda>home.
               map_sum id (\<lambda>cwd. (path, home, cwd)) (ok_or (cie_cwd V) IeNoCwd))) of
        Inl e \<Rightarrow> (fs, Inl e)
      | Inr (path, home, cwd) \<Rightarrow>
          (let locations = diagnostic_settings_locations V (Some home) (Some cwd) (managed_settings_paths V)
           in case cleanup_uninstall_locations V path locations fs of
                (fs1, Inl e) \<Rightarrow> (fs1, Inl e)
              | (fs1, Inr (removed, failed)) \<Rightarrow>
                  (fs1, Inr (if hook_locations_remain V fs1 locations then HooksRemain
                             else if failed then CouldNotVerify
                             else if removed = 0 then NoneFound else AllRemoved))))"

section \<open>What the clean-up guarantees\<close>

text \<open>The name a backup gets, of a drop-in and of any other settings file.\<close>

lemma first_free_Some: "first_free taken n c = Some d \<Longrightarrow> \<not> taken d"
  by (induction taken n c rule: first_free.induct) (subst (asm) (2) first_free.simps, auto split: if_splits)

definition backup_name :: "cl_install_env \<Rightarrow> string \<Rightarrow> string \<Rightarrow> bool" where
  "backup_name V path copy \<longleftrightarrow>
     copy = backup_path path (ie_timestamp V) \<or> (\<exists>c. copy = drop_in_backup_name path (ie_timestamp V) c)"

lemma cell_regular: "cie_kind V path = FkRegular \<Longrightarrow> cell V path = path"
  by (simp add: cell_def)

text \<open>
  A backup changes the file its name stands for and no other; when that is not the file copied, it
  holds its content afterwards. The backup of a drop-in never replaces a file.
\<close>

lemma copy_settings_disk:
  assumes "copy_settings V fs path copy = (fs', r)"
  shows "p \<noteq> cell V copy \<Longrightarrow> fs' p = fs p"
    and "r = Inr b \<Longrightarrow> b = Some copy \<and> (cell V copy \<noteq> cell V path \<longrightarrow> fs' (cell V copy) = fs (cell V path))"
  using assms by (auto simp: copy_settings_def copy_file_def preserve_backup_owner_def split: option.splits if_splits)

lemma backup_for_cleanup_disk:
  assumes "backup_settings_for_cleanup V fs path = (fs', r)"
  shows "\<exists>copy. backup_name V path copy \<and> (\<forall>p. p \<noteq> cell V copy \<longrightarrow> fs' p = fs p)
    \<and> (\<forall>b. r = Inr (Some b) \<longrightarrow> cell V copy \<noteq> cell V path \<longrightarrow> fs' (cell V copy) = fs (cell V path))"
proof -
  have name: "backup_name V path (backup_path path (ie_timestamp V))" by (simp add: backup_name_def)
  consider "fs' = fs" "\<And>b. r \<noteq> Inr (Some b)"
    | copy where "copy_settings V fs path copy = (fs', r)" "backup_name V path copy"
    using assms name
    by (auto simp: backup_settings_for_cleanup_def backup_settings_def backup_name_def split: if_splits option.splits)
  then show ?thesis
  proof cases
    case 1
    then show ?thesis using name by blast
  next
    case (2 copy)
    then show ?thesis using copy_settings_disk [OF 2(1)] by blast
  qed
qed

text \<open>
  The clean-up of one file, from what it was: it was a file (and with privileges no link), held an
  object with commands of ours, was copied, and holds the settings without them, or what a failed
  write left.
\<close>

definition cleaned_from :: "cl_install_env \<Rightarrow> symlink_handling \<Rightarrow> string \<Rightarrow> string \<Rightarrow> disk \<Rightarrow> disk \<Rightarrow> bool" where
  "cleaned_from V handling path copy fs fs' \<longleftrightarrow>
     (\<exists>settings. cie_kind V path \<noteq> FkOther \<and> (handling = SymReject \<longrightarrow> cie_kind V path = FkRegular)
        \<and> read_settings V fs path = Inr settings \<and> snd (cl_remove_managed_sondera_hooks settings)
        \<and> fs' (cell V copy) = fs (cell V path)
        \<and> (fs' (cell V path) = cd_print (cie_document V) (fst (cl_remove_managed_sondera_hooks settings))
           \<or> ie_write_error V (cell V path) = Some (fs' (cell V path))))"

lemma write_settings_disk:
  assumes "write_settings V fs path settings = (fs', r)"
  shows "p \<noteq> cell V path \<Longrightarrow> fs' p = fs p"
    and "fs' (cell V path) = fs (cell V path) \<or> fs' (cell V path) = cd_print (cie_document V) settings
      \<or> ie_write_error V (cell V path) = Some (fs' (cell V path))"
    and "r = Inr u \<Longrightarrow> \<exists>content. cd_print (cie_document V) settings = Some content \<and> fs' (cell V path) = Some content"
  using assms by (auto simp: write_settings_def write_object_def install_env.defs split: option.splits if_splits)

lemma cleanup_cases:
  assumes "cleanup_sondera_hooks_at V handling path fs = (fs', r)"
  obtains (untouched) "fs' = fs"
    | (edited) kind settings fs1 rb where "inspect_entry V fs path = Inr (Some kind)"
        "is_regular_settings kind handling = Inr True" "read_settings V fs path = Inr settings"
        "snd (cl_remove_managed_sondera_hooks settings)" "backup_settings_for_cleanup V fs path = (fs1, rb)"
        "fs' = fs1 \<or> (\<exists>b w. rb = Inr (Some b)
           \<and> write_settings V fs1 path (fst (cl_remove_managed_sondera_hooks settings)) = (fs', w))"
proof -
  consider "fs' = fs" | kind settings where "inspect_entry V fs path = Inr (Some kind)"
      "is_regular_settings kind handling = Inr True" "read_settings V fs path = Inr settings"
      "snd (cl_remove_managed_sondera_hooks settings)"
      "(case backup_settings_for_cleanup V fs path of
          (fs1, Inl e) \<Rightarrow> (fs1, Inl e)
        | (fs1, Inr None) \<Rightarrow> (fs1, Inl IeDisappeared)
        | (fs1, Inr (Some backup)) \<Rightarrow>
            (case write_settings V fs1 path (fst (cl_remove_managed_sondera_hooks settings)) of
               (fs2, Inl e) \<Rightarrow> (fs2, Inl e)
             | (fs2, Inr _) \<Rightarrow> (fs2, Inr (Some backup)))) = (fs', r)"
    using assms unfolding cleanup_sondera_hooks_at_def
    by (cases "inspect_entry V fs path"; cases "projr (inspect_entry V fs path)";
        cases "is_regular_settings (the (projr (inspect_entry V fs path))) handling";
        cases "read_settings V fs path";
        cases "cl_remove_managed_sondera_hooks (projr (read_settings V fs path))")
      (auto split: bool.splits if_splits)
  then show thesis
  proof cases
    case 1
    then show ?thesis by (rule untouched)
  next
    case (2 kind settings)
    obtain fs1 rb where b: "backup_settings_for_cleanup V fs path = (fs1, rb)" by fastforce
    have "fs' = fs1 \<or> (\<exists>b w. rb = Inr (Some b)
        \<and> write_settings V fs1 path (fst (cl_remove_managed_sondera_hooks settings)) = (fs', w))"
      using 2(5) unfolding b by (auto split: sum.splits option.splits prod.splits)
    then show ?thesis using edited 2(1-4) b by blast
  qed
qed

lemma cleanup_disk:
  assumes "cleanup_sondera_hooks_at V handling path fs = (fs', r)"
  shows "\<exists>copy. backup_name V path copy
    \<and> (\<forall>p. p \<noteq> cell V path \<longrightarrow> p \<noteq> cell V copy \<longrightarrow> fs' p = fs p)
    \<and> (cell V copy \<noteq> cell V path \<longrightarrow> fs' (cell V path) \<noteq> fs (cell V path) \<longrightarrow>
        cleaned_from V handling path copy fs fs')"
  using assms
proof (cases rule: cleanup_cases)
  case untouched
  have "backup_name V path (backup_path path (ie_timestamp V))" by (simp add: backup_name_def)
  then show ?thesis using untouched by blast
next
  case (edited kind settings fs1 rb)
  have kind: "cie_kind V path \<noteq> FkOther" "handling = SymReject \<longrightarrow> cie_kind V path = FkRegular"
    using edited(1,2) by (auto simp: inspect_entry_def is_regular_settings_def split: file_kind.splits if_splits)
  obtain copy where copy: "backup_name V path copy" "\<And>p. p \<noteq> cell V copy \<Longrightarrow> fs1 p = fs p"
    "\<And>b. rb = Inr (Some b) \<Longrightarrow> cell V copy \<noteq> cell V path \<Longrightarrow> fs1 (cell V copy) = fs (cell V path)"
    using backup_for_cleanup_disk [OF edited(5)] by blast
  show ?thesis using edited(6)
  proof
    assume "fs' = fs1"
    then show ?thesis using copy(1,2) by (intro exI [of _ copy]) auto
  next
    assume "\<exists>b w. rb = Inr (Some b) \<and> write_settings V fs1 path (fst (cl_remove_managed_sondera_hooks settings)) = (fs', w)"
    then obtain b w where b: "rb = Inr (Some b)"
      and w: "write_settings V fs1 path (fst (cl_remove_managed_sondera_hooks settings)) = (fs', w)" by blast
    note d = write_settings_disk [OF w]
    have "cleaned_from V handling path copy fs fs'"
      if "cell V copy \<noteq> cell V path" "fs' (cell V path) \<noteq> fs (cell V path)"
      unfolding cleaned_from_def using that kind edited(3,4) copy(3) [OF b that(1)] copy(2) [of "cell V path"]
        d(1) [of "cell V copy"] d(2) by metis
    then show ?thesis using copy(1,2) d(1) by (intro exI [of _ copy]) auto
  qed
qed

text \<open>A clean-up that succeeds leaves no command of ours in the file it wrote.\<close>

lemma cleanup_written:
  assumes "cleanup_sondera_hooks_at V handling path fs = (fs', Inr (Some b))"
  obtains settings content where "read_settings V fs path = Inr settings"
    "cd_print (cie_document V) (fst (cl_remove_managed_sondera_hooks settings)) = Some content" "fs' (cell V path) = Some content"
  using assms unfolding cleanup_sondera_hooks_at_def
  by (auto split: sum.splits option.splits bool.splits prod.splits if_splits dest!: write_settings_disk(3))

section \<open>What an uninstall leaves\<close>

text \<open>Without privileges an uninstall looks at every known location and edits the selected one.\<close>

lemma uninstall_unprivileged:
  assumes "cl_uninstall_hooks V scope fs = (fs', r)" "\<not> cie_elevated V" "get_settings_path V scope = Inr path"
  shows "\<exists>copy. backup_name V path copy
    \<and> (\<forall>p. p \<noteq> cell V path \<longrightarrow> p \<noteq> cell V copy \<longrightarrow> fs' p = fs p)
    \<and> (cell V copy \<noteq> cell V path \<longrightarrow> fs' (cell V path) \<noteq> fs (cell V path) \<longrightarrow>
        cleaned_from V SymFollowRegularTarget path copy fs fs')"
proof -
  obtain fs1 rc where c: "cleanup_sondera_hooks_at V SymFollowRegularTarget path fs = (fs1, rc)" by fastforce
  have one: "fst (cleanup_uninstall_locations V path ls fs) = fs1" for ls
    using c assms(2) by (auto simp: cleanup_uninstall_locations_def split: sum.split option.split)
  have "fs' = fs \<or> fs' = fs1"
  proof (cases "settings_home_dir V")
    case (Inr home)
    then show ?thesis
    proof (cases "cie_cwd V")
      case (Some cwd)
      obtain fs2 rr where u: "cleanup_uninstall_locations V path
          (diagnostic_settings_locations V (Some home) (Some cwd) (managed_settings_paths V)) fs = (fs2, rr)" by fastforce
      then have "fs2 = fs1" using one by (metis fst_conv)
      then show ?thesis using assms(1,3) Inr Some u
        by (simp add: cl_uninstall_hooks_def split: sum.splits prod.splits)
    qed (use assms(1,3) Inr in \<open>simp add: cl_uninstall_hooks_def\<close>)
  qed (use assms(1,3) in \<open>simp add: cl_uninstall_hooks_def\<close>)
  moreover have "backup_name V path (backup_path path (ie_timestamp V))" by (simp add: backup_name_def)
  ultimately show ?thesis using cleanup_disk [OF c] by blast
qed

text \<open>\<open>AllRemoved\<close> is only said when no location it can read holds a command of ours.\<close>

lemma uninstall_report:
  assumes "cl_uninstall_hooks V scope fs = (fs', Inr rep)" "rep \<noteq> HooksRemain"
    and "settings_home_dir V = Inr home" "cie_cwd V = Some cwd"
    and "l \<in> set (diagnostic_settings_locations V (Some home) (Some cwd) (managed_settings_paths V))"
  shows "settings_file_contains_managed_hooks V fs' (loc_path l) \<noteq> Inr True"
  using assms unfolding cl_uninstall_hooks_def
  by (auto simp: Let_def hook_locations_remain_def managed_sondera_hook_locations_def filter_empty_conv
      bind_result_Inr_iff split: sum.splits prod.splits if_splits)

section \<open>What an install leaves\<close>

lemma backup_keeps_read:
  assumes "backup_settings V fs path = (fs1, r)" "cell V (backup_path path (ie_timestamp V)) \<noteq> cell V path"
  shows "read_settings V fs1 path = read_settings V fs path"
proof -
  have "fs1 (cell V path) = fs (cell V path)"
    using assms copy_settings_disk(1) by (fastforce simp: backup_settings_def split: if_splits)
  then show ?thesis by (simp add: read_settings_def read_object_def read_to_object_source_def)
qed

lemma write_installed_content:
  assumes "write_installed V existed parent_existed path settings fs = (fs', Inr u)"
  shows "\<exists>content. cd_print (cie_document V) settings = Some content \<and> fs' (cell V path) = Some content"
proof -
  obtain fs1 w where w: "write_settings V fs path settings = (fs1, w)" by fastforce
  then obtain v where "w = Inr v" "fs' = fs1" using assms by (cases w) (auto simp: write_installed_def)
  then show ?thesis using write_settings_disk(3) w by blast
qed

lemma install_writes_merge:
  assumes "install_into V scope verbose binary path fs = (fs', Inr p)" "\<not> cie_elevated V"
    and "cell V (backup_path path (ie_timestamp V)) \<noteq> cell V path"
    and "scope = ScopeUser \<or> (\<exists>cwd. cie_cwd V = Some cwd \<and> (\<forall>fs. resolve_plugin_root V fs cwd = None))"
  obtains settings content where "read_settings V fs path = Inr settings"
    "cd_print (cie_document V) (merge_managed_sondera_hooks settings (binary, verbose)) = Some content"
    "fs' (cell V path) = Some content"
proof -
  obtain fs1 b where b: "backup_settings V fs path = (fs1, b)" by fastforce
  have plugin: "(if should_dedupe_with_plugin scope
      then map_sum id (resolve_plugin_root V fs1) (ok_or (cie_cwd V) IeNoCwd) else Inr None) = Inr None"
    using assms(4) by (auto simp: should_dedupe_with_plugin_def)
  have "reconcile_managed_settings_paths V (managed_settings_paths V) fs = fs" for fs
    using assms(2) by (simp add: reconcile_managed_settings_paths_def)
  note run = assms(1) [unfolded install_into_def Let_def b plugin this prod.case]
  obtain settings where s: "read_settings V fs1 path = Inr settings"
    using run by (cases b; cases "read_settings V fs1 path") simp_all
  obtain fs2 w where w: "write_installed V (fs (cell V path) \<noteq> None)
      (case path_parent path of None \<Rightarrow> True | Some dir \<Rightarrow> cie_exists V dir) path
      (merge_managed_sondera_hooks settings (binary, verbose)) fs1 = (fs2, w)" by fastforce
  then obtain u where "w = Inr u" "fs' = fs2" using run s by (cases b; cases w) simp_all
  then show thesis using write_installed_content w that s backup_keeps_read [OF b assms(3)] by metis
qed

end
