(* ===== verification/Install_Codex.thy ===== *)
theory Install_Codex
  imports Install_Hooks
begin

text \<open>
  The Codex installer (\<open>crates/hooks/codex/src/install.rs\<close>): hooks removed entry by entry and appended,
  the feature flag of \<open>config.toml\<close>, and the entry of the plugin marketplace. A TOML table is held as
  a JSON object, with a parser and a printer of its own; its key order is not observed.
\<close>

section \<open>The hooks file\<close>

definition cx_hook_events :: "string list" where
  "cx_hook_events =
     [''SessionStart'', ''SessionEnd'', ''SubagentStart'', ''PreToolUse'', ''PermissionRequest'', ''PostToolUse'',
      ''PreCompact'', ''PostCompact'', ''UserPromptSubmit'', ''SubagentStop'', ''Stop'']"

definition cx_handler :: "string \<Rightarrow> string \<Rightarrow> string option \<Rightarrow> json" where
  "cx_handler path sub status_message =
     JObj ([(''type'', JStr ''command''),
       (''command'', JStr (hook_command_line ShPosix path ''codex'' True sub)), (''timeout'', JInt 30)]
       @ (case status_message of Some message \<Rightarrow> [(''statusMessage'', JStr message)] | None \<Rightarrow> []))"

definition cx_group :: "string option \<Rightarrow> json \<Rightarrow> json" where
  "cx_group matcher hook =
     JArr [JObj ((''hooks'', JArr [hook]) # (case matcher of Some m \<Rightarrow> [(''matcher'', JStr m)] | None \<Rightarrow> []))]"

definition cx_generated_hooks :: "string \<Rightarrow> (string \<times> json) list" where
  "cx_generated_hooks path =
     map (\<lambda>(event, matcher, sub, message). (event, cx_group matcher (cx_handler path sub message)))
     [(''SessionStart'', Some ''startup|resume|clear|compact'', ''session-start'', Some ''Initializing governance session...''),
      (''SessionEnd'', None, ''session-end'', None),
      (''SubagentStart'', None, ''subagent-start'', None),
      (''PreToolUse'', Some ''*'', ''pre-tool-use'', Some ''Evaluating policy...''),
      (''PermissionRequest'', Some ''*'', ''permission-request'', Some ''Evaluating permission policy...''),
      (''PostToolUse'', Some ''*'', ''post-tool-use'', None),
      (''PreCompact'', Some ''manual|auto'', ''pre-compact'', None),
      (''PostCompact'', Some ''manual|auto'', ''post-compact'', None),
      (''UserPromptSubmit'', None, ''user-prompt-submit'', None),
      (''SubagentStop'', None, ''subagent-stop'', None),
      (''Stop'', None, ''stop'', None)]"

definition cx_generate_hooks_config :: "string \<Rightarrow> json" where
  "cx_generate_hooks_config path = JObj [(''hooks'', JObj (cx_generated_hooks path))]"

definition rules_contain_sondera :: "json \<Rightarrow> bool" where
  "rules_contain_sondera rules = value_targets_provider rules ''codex''"

text \<open>One rule: what stays of it, and whether its event changed.\<close>

definition cx_clean_rule :: "json \<Rightarrow> json option \<times> bool" where
  "cx_clean_rule rule =
     (case Option.bind (as_object rule) (\<lambda>obj. Option.bind (map_of obj ''hooks'') as_array) of
        None \<Rightarrow> (if rules_contain_sondera rule then (None, True) else (Some rule, False))
      | Some entries \<Rightarrow>
          (let kept = filter (\<lambda>entry. \<not> rules_contain_sondera entry) entries
           in (if kept = [] then None
               else Some (JObj (json_insert ''hooks'' (JArr kept) (unwrap_or (as_object rule) []))),
               length kept \<noteq> length entries)))"

definition cx_clean_rules :: "json list \<Rightarrow> json list" where
  "cx_clean_rules rules = List.map_filter (\<lambda>r. fst (cx_clean_rule r)) rules"

definition cx_event_changed :: "json list \<Rightarrow> bool" where
  "cx_event_changed rules \<longleftrightarrow> list_ex (\<lambda>r. snd (cx_clean_rule r)) rules"

definition cx_decide :: "json \<Rightarrow> json option option" where
  "cx_decide v =
     (case v of
        JArr rules \<Rightarrow>
          (let kept = cx_clean_rules rules
           in if \<not> cx_event_changed rules then None
              else Some (if kept = [] then None else Some (JArr kept)))
      | _ \<Rightarrow> None)"

definition cx_remove_sondera_entries :: "(string \<times> json) list \<Rightarrow> (string \<times> json) list \<times> bool" where
  "cx_remove_sondera_entries = swept cx_decide"

definition cx_merge_hooks :: "(string \<times> json) list \<Rightarrow> (string \<times> json) list \<Rightarrow> (string \<times> json) list" where
  "cx_merge_hooks existing new_hooks = merge_events fresh_last new_hooks (fst (cx_remove_sondera_entries existing))"

definition cx_apply_hooks :: "string \<Rightarrow> (string \<times> json) list \<Rightarrow> (string \<times> json) list" where
  "cx_apply_hooks path existing =
     (let new_hooks = unwrap_or (Option.bind (jget ''hooks'' (cx_generate_hooks_config path)) as_object) []
      in json_insert ''hooks''
           (case unwrap_or (map_of existing ''hooks'') (JObj []) of
              JObj m \<Rightarrow> JObj (cx_merge_hooks m new_hooks)
            | _ \<Rightarrow> JObj new_hooks) existing)"

definition cx_revoke_hooks :: "(string \<times> json) list \<Rightarrow> (string \<times> json) list \<times> bool" where
  "cx_revoke_hooks top_level = revoke_events cx_remove_sondera_entries top_level"

section \<open>The laws of its splice\<close>

text \<open>A rule with no entries is dropped when its event changes for another reason; a tidy one has some.\<close>

definition cx_tidy_rule :: "json \<Rightarrow> bool" where
  "cx_tidy_rule rule \<longleftrightarrow> jget ''hooks'' rule \<noteq> Some (JArr [])"

lemma cx_rule_entries:
  assumes "Option.bind (as_object r) (\<lambda>obj. Option.bind (map_of obj ''hooks'') as_array) = Some entries"
  obtains obj where "r = JObj obj" "map_of obj ''hooks'' = Some (JArr entries)"
  using assms by (cases r) (auto simp: bind_eq_Some_conv elim: as_array.elims)

lemma cx_clean_rule_kept: "fst (cx_clean_rule r) = Some r' \<Longrightarrow> cx_clean_rule r' = (Some r', False)"
proof (cases "Option.bind (as_object r) (\<lambda>obj. Option.bind (map_of obj ''hooks'') as_array)")
  case (Some entries)
  assume kept: "fst (cx_clean_rule r) = Some r'"
  obtain obj where "r = JObj obj" using Some by (rule cx_rule_entries)
  then show ?thesis using kept Some by (auto simp: cx_clean_rule_def Let_def filter_empty_conv split: if_splits)
qed (auto simp: cx_clean_rule_def split: if_splits)

lemma cx_clean_rule_same:
  assumes "\<not> snd (cx_clean_rule r)" "cx_tidy_rule r" shows "fst (cx_clean_rule r) = Some r"
proof (cases "Option.bind (as_object r) (\<lambda>obj. Option.bind (map_of obj ''hooks'') as_array)")
  case (Some entries)
  obtain obj where obj: "r = JObj obj" "map_of obj ''hooks'' = Some (JArr entries)" using Some by (rule cx_rule_entries)
  let ?kept = "filter (\<lambda>entry. \<not> rules_contain_sondera entry) entries"
  have "length ?kept = length entries" using assms(1) Some by (simp add: cx_clean_rule_def Let_def)
  then have "?kept = entries" by (metis filter_id_conv length_filter_less less_irrefl)
  moreover have "entries \<noteq> []" using assms(2) obj by (auto simp: cx_tidy_rule_def)
  ultimately show ?thesis using Some obj json_insert_same [OF obj(2)] by (simp add: cx_clean_rule_def Let_def)
qed (use assms in \<open>auto simp: cx_clean_rule_def split: if_splits\<close>)

lemma cx_clean_rules_simps [simp]:
  "cx_clean_rules [] = []"
  "cx_clean_rules (r # rs) = (case fst (cx_clean_rule r) of None \<Rightarrow> [] | Some r' \<Rightarrow> [r']) @ cx_clean_rules rs"
  by (simp_all add: cx_clean_rules_def map_filter_simps split: option.split)

lemma cx_clean_rules_append [simp]: "cx_clean_rules (rs @ rs') = cx_clean_rules rs @ cx_clean_rules rs'"
  by (induction rs) simp_all

lemma cx_clean_rules_idem: "cx_clean_rules (cx_clean_rules rs) = cx_clean_rules rs"
  by (induction rs) (auto simp: cx_clean_rule_kept split: option.split)

lemma cx_clean_rules_same: "list_all cx_tidy_rule rs \<Longrightarrow> \<not> cx_event_changed rs \<Longrightarrow> cx_clean_rules rs = rs"
  by (induction rs) (auto simp: cx_clean_rule_same cx_event_changed_def)

lemma cx_fresh:
  assumes "sondera_path path" "(e, JArr fresh) \<in> set (cx_generated_hooks path)"
  shows "cx_event_changed fresh \<and> cx_clean_rules fresh = []"
proof -
  have ours: "rules_contain_sondera (cx_handler path sub message)" if "kebab sub" for sub message
    using our_command [OF assms(1), of "''codex''" sub] that
    by (simp add: rules_contain_sondera_def cx_handler_def command_keys_def kebab_def byte_defs)
  have all: "list_all kebab [''session-start'', ''session-end'', ''subagent-start'', ''pre-tool-use'',
      ''permission-request'', ''post-tool-use'', ''pre-compact'', ''post-compact'', ''user-prompt-submit'',
      ''subagent-stop'', ''stop'']" by (simp add: kebab_def byte_defs)
  obtain matcher sub message where "JArr fresh = cx_group matcher (cx_handler path sub message)" "kebab sub"
    using assms(2) all by (auto simp: cx_generated_hooks_def)
  then show ?thesis using ours [of sub message]
    by (simp add: cx_group_def cx_clean_rule_def cx_event_changed_def)
qed

interpretation cx: hook_splice "swept cx_decide" cx_decide cx_clean_rules cx_event_changed "list_all cx_tidy_rule"
  fresh_last sondera_path cx_generated_hooks
proof (unfold_locales, goal_cases)
  case (4 rs)
  then show ?case by (simp add: cx_decide_def Let_def)
next
  case (5 v)
  then show ?case by (cases v) (auto simp: cx_decide_def)
next
  case (8 rs)
  then show ?case by (rule cx_clean_rules_same)
next
  case (9 b)
  then show ?case by (simp add: cx_generated_hooks_def)
next
  case (10 b)
  then show ?case by (simp add: cx_generated_hooks_def cx_group_def array_values_def)
next
  case (11 b e fresh old)
  then have "cx_event_changed fresh \<and> cx_clean_rules fresh = []" using cx_fresh map_of_SomeD by metis
  then show ?case by (simp add: cx_event_changed_def)
qed (simp_all add: map_of_swept swept_unchanged cx_clean_rules_idem)

lemma cx_apply_hooks_eq: "cx_apply_hooks path c = apply_events (swept cx_decide) fresh_last (cx_generated_hooks path) c"
  by (simp add: cx_apply_hooks_def apply_events_def cx_generate_hooks_config_def cx_merge_hooks_def cx_remove_sondera_entries_def
    Let_def cong: json.case_cong)

lemma cx_apply_events: "config_ok c \<Longrightarrow> map_of (hooks_of (cx_apply_hooks path c)) =
    map_of (merge_events fresh_last (cx_generated_hooks path) (fst (cx_remove_sondera_entries (hooks_of c))))"
  unfolding cx_apply_hooks_eq cx_remove_sondera_entries_def by (rule cx.apply_events_hooks)

text \<open>
  An empty rule stays through a first install and goes with the second, which is the one that finds
  hooks of ours to remove.
\<close>

lemma cx_empty_rule_lost:
  fixes path :: string
  defines "c \<equiv> [(''hooks'', JObj [(''Stop'', JArr [JObj [(''hooks'', JArr [])]])])]"
  assumes "sondera_path path"
  shows "JObj [(''hooks'', JArr [])] \<in> set (rules_of (hooks_of (cx_apply_hooks path c)) ''Stop'')"
    and "rules_of (hooks_of (cx_apply_hooks path (cx_apply_hooks path c))) ''Stop'' = rules_of (cx_generated_hooks path) ''Stop''"
proof -
  let ?g = "rules_of (cx_generated_hooks path) ''Stop''" and ?e = "JObj [(''hooks'', JArr [])]"
  have ok: "config_ok c" by (simp add: c_def config_ok_def hooks_of_def)
  have stop: "map_of (cx_generated_hooks path) ''Stop'' = Some (JArr ?g)"
    by (simp add: cx_generated_hooks_def rules_of_def cx_group_def)
  have "cx_decide (JArr [?e]) = None" by (simp add: cx_decide_def cx_event_changed_def cx_clean_rule_def)
  then have "map_of (fst (cx_remove_sondera_entries (hooks_of c))) ''Stop'' = Some (JArr [?e])"
    by (simp add: cx_remove_sondera_entries_def map_of_swept c_def hooks_of_def)
  then have one: "map_of (hooks_of (cx_apply_hooks path c)) ''Stop'' = Some (JArr ([?e] @ ?g))"
    unfolding cx_apply_events [OF ok] map_of_merge [OF cx.new_distinct cx.new_arrays] by (simp add: stop)
  then show "?e \<in> set (rules_of (hooks_of (cx_apply_hooks path c)) ''Stop'')" by (simp add: rules_of_def)
  have ok2: "config_ok (cx_apply_hooks path c)" unfolding cx_apply_hooks_eq using ok by (rule cx.apply_events_ok)
  have g: "cx_event_changed ?g" "cx_clean_rules ?g = []"
    using cx.fresh_clean [OF assms(2) stop, of "[]"] by simp_all
  have e: "fst (cx_clean_rule ?e) = None" by (simp add: cx_clean_rule_def)
  have "cx_decide (JArr ([?e] @ ?g)) = Some None"
    using g e by (auto simp: cx_decide_def cx_event_changed_def)
  then have "map_of (fst (cx_remove_sondera_entries (hooks_of (cx_apply_hooks path c)))) ''Stop'' = None"
    using ok2 one by (simp add: cx_remove_sondera_entries_def map_of_swept config_ok_def)
  then have "map_of (hooks_of (cx_apply_hooks path (cx_apply_hooks path c))) ''Stop'' = Some (JArr ?g)"
    unfolding cx_apply_events [OF ok2] map_of_merge [OF cx.new_distinct cx.new_arrays] by (simp add: stop)
  then show "rules_of (hooks_of (cx_apply_hooks path (cx_apply_hooks path c))) ''Stop'' = ?g" by (simp add: rules_of_def)
qed

section \<open>The feature flag\<close>

record toml_format =
  tf_parse :: "string \<Rightarrow> json option"
  tf_print :: "json \<Rightarrow> string option"

definition check_feature_flag_at :: "toml_format \<Rightarrow> install_env \<Rightarrow> disk \<Rightarrow> string \<Rightarrow> bool" where
  "check_feature_flag_at T V fs path =
     (case fs path of
        None \<Rightarrow> False
      | Some content \<Rightarrow>
          (if ie_read_error V path then False
           else case Option.bind (tf_parse T content) (jget ''features'') of
                  Some (JObj features) \<Rightarrow>
                    list_ex (\<lambda>key. Option.bind (map_of features key) as_bool = Some True) [''hooks'', ''codex_hooks'']
                | _ \<Rightarrow> False))"

definition check_feature_flag :: "toml_format \<Rightarrow> install_env \<Rightarrow> install_dirs \<Rightarrow> disk \<Rightarrow> bool" where
  "check_feature_flag T V D fs =
     list_ex (\<lambda>root. case root of
        None \<Rightarrow> False
      | Some dir \<Rightarrow> check_feature_flag_at T V fs (path_join (path_join dir ''.codex'') ''config.toml''))
     [id_home D, id_cwd D]"

definition write_text :: "install_env \<Rightarrow> disk \<Rightarrow> string \<Rightarrow> string \<Rightarrow> disk \<times> (install_error + unit)" where
  "write_text V fs path content =
     (case ie_write_error V path of
        Some left \<Rightarrow> (fs(path := left), Inl IeWrite)
      | None \<Rightarrow> (fs(path \<mapsto> content), Inr ()))"

definition enable_feature_flag :: "toml_format \<Rightarrow> install_env \<Rightarrow> string \<Rightarrow> disk \<Rightarrow> disk \<times> (install_error + unit)" where
  "enable_feature_flag T V path fs =
     (if check_feature_flag_at T V fs path then (fs, Inr ())
      else if ie_mkdir_error V path then (fs, Inl IeMkdir)
      else case fs path of
             None \<Rightarrow> write_text V fs path (''[features]'' @ [CHR 0x0A] @ ''hooks = true'' @ [CHR 0x0A])
           | Some content \<Rightarrow>
               (if ie_read_error V path then (fs, Inl IeRead)
                else case tf_parse T content of
                       None \<Rightarrow> (fs, Inl IeParse)
                     | Some (JObj table) \<Rightarrow>
                         (let features = unwrap_or (map_of table ''features'') (JObj []);
                              table' = json_insert ''features''
                                (case features of JObj fts \<Rightarrow> JObj (json_insert ''hooks'' (JBool True) fts) | v \<Rightarrow> v) table
                          in case tf_print T (JObj table') of
                               None \<Rightarrow> (fs, Inl IeSerialize)
                             | Some text' \<Rightarrow> write_text V fs path text')
                     | Some _ \<Rightarrow> (fs, Inl IeNotAnObject)))"

text \<open>
  The flag is on afterwards when \<open>features\<close> is a table or missing. When it is something else the
  file is rewritten as it was, and success reported.
\<close>

lemma enable_feature_flag_on:
  assumes "enable_feature_flag T V path fs = (fs', Inr ())" "\<not> ie_read_error V path"
    and "\<And>v s. tf_print T v = Some s \<Longrightarrow> tf_parse T s = Some v"
    and "tf_parse T (''[features]'' @ [CHR 0x0A] @ ''hooks = true'' @ [CHR 0x0A]) = Some (JObj [(''features'', JObj [(''hooks'', JBool True)])])"
    and "\<And>content table v. fs path = Some content \<Longrightarrow> tf_parse T content = Some (JObj table)
      \<Longrightarrow> map_of table ''features'' = Some v \<Longrightarrow> \<exists>fts. v = JObj fts"
  shows "check_feature_flag_at T V fs' path"
proof (cases "check_feature_flag_at T V fs path")
  case True
  then show ?thesis using assms(1) by (simp add: enable_feature_flag_def)
next
  case False
  show ?thesis
  proof (cases "fs path")
    case None
    then have "fs' path = Some (''[features]'' @ [CHR 0x0A] @ ''hooks = true'' @ [CHR 0x0A])"
      using assms(1) False by (auto simp: enable_feature_flag_def write_text_def split: if_splits option.splits)
    then show ?thesis using assms(2,4) by (simp add: check_feature_flag_at_def)
  next
    case (Some content)
    then obtain table where table: "tf_parse T content = Some (JObj table)"
      using assms(1,2) False by (auto simp: enable_feature_flag_def split: if_splits option.splits json.splits)
    obtain fts where fts: "unwrap_or (map_of table ''features'') (JObj []) = JObj fts"
      using assms(5) [OF Some table] by (cases "map_of table ''features''") auto
    obtain s where s: "tf_print T (JObj (json_insert ''features'' (JObj (json_insert ''hooks'' (JBool True) fts)) table)) = Some s"
        "fs' path = Some s"
      using assms(1,2) False Some table fts
      by (auto simp: enable_feature_flag_def Let_def write_text_def split: if_splits option.splits)
    then show ?thesis using assms(2,3) by (simp add: check_feature_flag_at_def)
  qed
qed

section \<open>The marketplace\<close>

definition sondera_plugin :: json where
  "sondera_plugin = JObj [(''name'', JStr ''sondera-codex''),
     (''source'', JObj [(''source'', JStr ''local''), (''path'', JStr ''./sondera'')]),
     (''policy'', JObj [(''installation'', JStr ''AVAILABLE'')]),
     (''category'', JStr ''Security'')]"

definition generate_marketplace_entry :: json where
  "generate_marketplace_entry = JObj [(''name'', JStr ''sondera-tools''),
     (''interface'', JObj [(''displayName'', JStr ''Sondera Governance Tools'')]),
     (''plugins'', JArr [sondera_plugin])]"

definition is_sondera_plugin :: "json \<Rightarrow> bool" where
  "is_sondera_plugin p \<longleftrightarrow> Option.bind (jget ''name'' p) as_str = Some ''sondera-codex''"

fun replace_first :: "('a \<Rightarrow> bool) \<Rightarrow> 'a \<Rightarrow> 'a list \<Rightarrow> 'a list" where
  "replace_first P y [] = []"
| "replace_first P y (x # xs) = (if P x then y # xs else x # replace_first P y xs)"

text \<open>
  \<open>doc["plugins"] = \<dots>\<close> on a document: \<open>null\<close> becomes an object, any other scalar or array panics.
\<close>

definition add_marketplace_plugin :: "json \<Rightarrow> install_error + json" where
  "add_marketplace_plugin doc =
     (case Option.bind (jget ''plugins'' doc) as_array of
        Some plugins \<Rightarrow>
          (let plugins' = (if list_ex is_sondera_plugin plugins
                           then replace_first is_sondera_plugin sondera_plugin plugins
                           else plugins @ [sondera_plugin])
           in Inr (JObj (json_insert ''plugins'' (JArr plugins') (unwrap_or (as_object doc) []))))
      | None \<Rightarrow>
          (case doc of
             JObj kvs \<Rightarrow> Inr (JObj (json_insert ''plugins'' (JArr [sondera_plugin]) kvs))
           | JNull \<Rightarrow> Inr (JObj [(''plugins'', JArr [sondera_plugin])])
           | _ \<Rightarrow> Inl IePanic))"

definition write_marketplace_entry_at :: "toml_format \<Rightarrow> install_env \<Rightarrow> string \<Rightarrow> disk \<Rightarrow> disk \<times> (install_error + unit)" where
  "write_marketplace_entry_at J V path fs =
     (if ie_mkdir_error V path then (fs, Inl IeMkdir)
      else case (case fs path of
                   None \<Rightarrow> Inr generate_marketplace_entry
                 | Some content \<Rightarrow>
                     (if ie_read_error V path then Inl IeRead
                      else bind_result (ok_or (tf_parse J content) IeParse) add_marketplace_plugin)) of
             Inl e \<Rightarrow> (fs, Inl e)
           | Inr doc \<Rightarrow>
               (case tf_print J doc of
                  None \<Rightarrow> (fs, Inl IeSerialize)
                | Some content \<Rightarrow> write_text V fs path content))"

definition marketplace_path_for_home :: "string \<Rightarrow> string" where
  "marketplace_path_for_home home = foldl path_join home [''.agents'', ''plugins'', ''marketplace.json'']"

definition write_marketplace_entry ::
  "toml_format \<Rightarrow> install_env \<Rightarrow> install_dirs \<Rightarrow> disk \<Rightarrow> disk \<times> (install_error + unit)" where
  "write_marketplace_entry J V D fs =
     (case id_home D of
        None \<Rightarrow> (fs, Inl IeNoHome)
      | Some home \<Rightarrow> write_marketplace_entry_at J V (marketplace_path_for_home home) fs)"

definition remove_marketplace_entry ::
  "toml_format \<Rightarrow> install_env \<Rightarrow> install_dirs \<Rightarrow> disk \<Rightarrow> disk \<times> (install_error + unit)" where
  "remove_marketplace_entry J V D fs =
     (case id_home D of
        None \<Rightarrow> (fs, Inl IeNoHome)
      | Some home \<Rightarrow>
          (let path = marketplace_path_for_home home
           in case fs path of
                None \<Rightarrow> (fs, Inr ())
              | Some content \<Rightarrow>
                  (if ie_read_error V path then (fs, Inl IeRead)
                   else case tf_parse J content of
                          None \<Rightarrow> (fs, Inl IeParse)
                        | Some doc \<Rightarrow>
                            (case Option.bind (jget ''plugins'' doc) as_array of
                               None \<Rightarrow> (fs, Inr ())
                             | Some plugins \<Rightarrow>
                                 (let kept = filter (\<lambda>p. \<not> is_sondera_plugin p) plugins
                                  in if length kept = length plugins then (fs, Inr ())
                                     else if kept = [] then
                                       (if ie_remove_error V path then (fs, Inl IeRemove) else (fs(path := None), Inr ()))
                                     else case tf_print J (JObj (json_insert ''plugins'' (JArr kept) (unwrap_or (as_object doc) []))) of
                                            None \<Rightarrow> (fs, Inl IeSerialize)
                                          | Some content' \<Rightarrow> write_text V fs path content')))))"

text \<open>Adding twice is adding once, and removing takes out exactly ours.\<close>

definition plugins_of :: "json \<Rightarrow> json list" where
  "plugins_of doc = unwrap_or (Option.bind (jget ''plugins'' doc) as_array) []"

lemma sondera_plugin_ours [simp]: "is_sondera_plugin sondera_plugin"
  by (simp add: is_sondera_plugin_def sondera_plugin_def)

lemma replace_first_id: "list_ex P xs \<Longrightarrow> P y \<Longrightarrow> replace_first P y (replace_first P y xs) = replace_first P y xs"
  by (induction xs) auto

lemma list_ex_replace_first: "list_ex P xs \<Longrightarrow> P y \<Longrightarrow> list_ex P (replace_first P y xs)"
  by (induction xs) auto

lemma replace_first_append: "\<not> list_ex P xs \<Longrightarrow> P x \<Longrightarrow> replace_first P y (xs @ [x]) = xs @ [y]"
  by (induction xs) auto

lemma filter_replace_first:
  "list_ex P xs \<Longrightarrow> P y \<Longrightarrow> filter (\<lambda>x. \<not> P x) (replace_first P y xs) = filter (\<lambda>x. \<not> P x) xs"
  by (induction xs) auto

lemma add_marketplace_plugins:
  assumes "add_marketplace_plugin doc = Inr doc'"
  shows "plugins_of doc' = (if list_ex is_sondera_plugin (plugins_of doc)
      then replace_first is_sondera_plugin sondera_plugin (plugins_of doc) else plugins_of doc @ [sondera_plugin])"
    and "Option.bind (jget ''plugins'' doc') as_array \<noteq> None"
  using assms by (cases doc; auto simp: add_marketplace_plugin_def plugins_of_def Let_def split: option.splits)+

lemma marketplace_idempotent:
  assumes "add_marketplace_plugin doc = Inr doc'" shows "add_marketplace_plugin doc' = Inr doc'"
proof -
  obtain kvs where kvs: "doc' = JObj kvs" using assms
    by (cases doc) (auto simp: add_marketplace_plugin_def Let_def split: option.splits)
  let ?ps = "plugins_of doc'"
  have ps: "map_of kvs ''plugins'' = Some (JArr ?ps)"
    using add_marketplace_plugins(2) [OF assms] kvs by (auto simp: plugins_of_def bind_eq_Some_conv elim!: as_array.elims)
  have "list_ex is_sondera_plugin ?ps \<and> replace_first is_sondera_plugin sondera_plugin ?ps = ?ps"
    using add_marketplace_plugins(1) [OF assms] by (auto simp: replace_first_id list_ex_replace_first replace_first_append)
  then show ?thesis using kvs ps json_insert_same [OF ps] by (simp add: add_marketplace_plugin_def)
qed

lemma marketplace_removal_exact:
  "add_marketplace_plugin doc = Inr doc' \<Longrightarrow>
   filter (\<lambda>p. \<not> is_sondera_plugin p) (plugins_of doc') = filter (\<lambda>p. \<not> is_sondera_plugin p) (plugins_of doc)"
  by (auto simp: add_marketplace_plugins filter_replace_first)

text \<open>A marketplace file that is an array ends the process.\<close>

lemma marketplace_array_panics: "add_marketplace_plugin (JArr xs) = Inl IePanic"
  by (simp add: add_marketplace_plugin_def)

section \<open>The commands\<close>

definition cx_hooks_path :: "install_dirs \<Rightarrow> bool \<Rightarrow> install_error + string" where
  "cx_hooks_path D project =
     (if project then in_cwd D [''.codex'', ''hooks.json''] else in_home D [''.codex'', ''hooks.json''])"

definition cx_installer :: "config_document \<Rightarrow> install_dirs \<Rightarrow> bool \<Rightarrow> install_error + config_installer" where
  "cx_installer J D project =
     map_sum id (\<lambda>p. \<lparr>ci_path = p, ci_document = J, ci_remove_when = (\<lambda>c. c = [])\<rparr>) (cx_hooks_path D project)"

text \<open>The flag and the marketplace are best effort: their errors are warnings, a panic is not.\<close>

definition cx_install_hooks ::
  "config_document \<Rightarrow> toml_format \<Rightarrow> toml_format \<Rightarrow> install_dirs \<Rightarrow> install_env \<Rightarrow> string option \<Rightarrow> bool \<Rightarrow> disk
   \<Rightarrow> disk \<times> (install_error + unit)" where
  "cx_install_hooks J T M D V binary project fs =
     (case with_installer (cx_installer J D project) (\<lambda>I. install_config I V binary cx_apply_hooks fs) fs of
        (fs1, Inl e) \<Rightarrow> (fs1, Inl e)
      | (fs1, Inr _) \<Rightarrow>
          (let fs2 = (if check_feature_flag T V D fs1 then fs1
                      else case in_home D [''.codex'', ''config.toml''] of
                             Inl _ \<Rightarrow> fs1
                           | Inr path \<Rightarrow> fst (enable_feature_flag T V path fs1))
           in case write_marketplace_entry M V D fs2 of
                (fs3, Inl IePanic) \<Rightarrow> (fs3, Inl IePanic)
              | (fs3, _) \<Rightarrow> (fs3, Inr ())))"

definition cx_uninstall_hooks ::
  "config_document \<Rightarrow> toml_format \<Rightarrow> install_dirs \<Rightarrow> install_env \<Rightarrow> bool \<Rightarrow> disk \<Rightarrow> disk \<times> (install_error + unit)" where
  "cx_uninstall_hooks J M D V project fs =
     (case with_installer (cx_installer J D project) (\<lambda>I. uninstall_config I V cx_revoke_hooks fs) fs of
        (fs1, Inl e) \<Rightarrow> (fs1, Inl e)
      | (fs1, Inr _) \<Rightarrow> (fst (remove_marketplace_entry M V D fs1), Inr ()))"

end
