(* ===== verification/Install_Vscode.thy ===== *)
theory Install_Vscode
  imports Install_Hooks
begin

text \<open>
  The VS Code installer (\<open>crates/hooks/vscode/src/install.rs\<close>): a hooks file that is wholly ours, the
  entry of the user settings that makes VS Code look for it, and the reader of settings with comments.
\<close>

abbreviation line_feed :: char where "line_feed \<equiv> CHR 0x0A"

section \<open>The hooks file\<close>

datatype vs_scope = VsUser | VsLocal

datatype vs_platform = VpMacos | VpLinux | VpWindows | VpOther

definition vs_generate_hooks_config_for_shell :: "string \<Rightarrow> bool \<Rightarrow> command_shell \<Rightarrow> json" where
  "vs_generate_hooks_config_for_shell binary_path verbose shell =
     JObj [(''hooks'', JObj (map (\<lambda>(event_name, subcommand).
       (event_name, JArr [JObj [(''type'', JStr ''command''),
          (''command'', JStr (hook_command_line shell binary_path ''vscode'' verbose subcommand)),
          (''timeout'', JInt 30)]])) vs_hook_events))]"

definition vs_generate_hooks_config :: "vs_platform \<Rightarrow> string \<Rightarrow> bool \<Rightarrow> json" where
  "vs_generate_hooks_config host binary_path verbose =
     vs_generate_hooks_config_for_shell binary_path verbose (if host = VpWindows then ShWindowsCmd else ShPosix)"

definition vs_hooks_path :: "install_dirs \<Rightarrow> vs_scope \<Rightarrow> install_error + string" where
  "vs_hooks_path D scope =
     (case scope of
        VsLocal \<Rightarrow> in_cwd D [''.github'', ''hooks'', ''sondera.json'']
      | VsUser \<Rightarrow> in_home D [''.sondera'', ''vscode'', ''hooks'', ''sondera.json''])"

text \<open>\<open>config\<close> is the configuration directory of the platform.\<close>

definition vs_user_settings_path :: "vs_platform \<Rightarrow> install_dirs \<Rightarrow> string option \<Rightarrow> install_error + string" where
  "vs_user_settings_path host D config =
     (case host of
        VpMacos \<Rightarrow> in_home D [''Library/Application Support/Code/User/settings.json'']
      | VpOther \<Rightarrow> in_home D [''.config'', ''Code/User/settings.json'']
      | _ \<Rightarrow> map_sum id (\<lambda>dir. path_join dir ''Code/User/settings.json'') (ok_or config IeNoHome))"

section \<open>Settings with comments\<close>

definition is_comment :: "string \<Rightarrow> bool" where
  "is_comment ch \<longleftrightarrow> ch \<in> {''/'', ''*''}"

text \<open>What a line comment and a block comment leave, and where the text goes on.\<close>

fun line_comment :: "string list \<Rightarrow> string list \<times> string list" where
  "line_comment [] = ([], [])"
| "line_comment (c # chs) = (if c = [line_feed] then ([[line_feed]], chs) else line_comment chs)"

fun block_comment :: "string \<Rightarrow> string list \<Rightarrow> string list \<times> string list" where
  "block_comment previous [] = ([], [])"
| "block_comment previous (c # chs) =
     (let nl = (if c = [line_feed] then [[line_feed]] else [])
      in if previous = ''*'' \<and> c = ''/'' then (nl, chs)
         else case block_comment c chs of (out, rest) \<Rightarrow> (nl @ out, rest))"

lemma line_comment_shorter: "length (snd (line_comment chs)) \<le> length chs"
  by (induction chs rule: line_comment.induct) auto

lemma block_comment_shorter: "length (snd (block_comment previous chs)) \<le> length chs"
proof (induction chs arbitrary: previous)
  case (Cons c chs)
  show ?case using Cons.IH [of c] by (auto simp: Let_def split: prod.splits)
qed simp

function strip_comments :: "bool \<Rightarrow> bool \<Rightarrow> string list \<Rightarrow> string list" where
  "strip_comments in_string escaped [] = []"
| "strip_comments in_string escaped (ch # chs) =
     (if in_string
      then ch # (if escaped then strip_comments True False chs
                 else if ch = [backslash] then strip_comments True True chs
                 else strip_comments (ch \<noteq> [dquote]) False chs)
      else if ch = [dquote] then ch # strip_comments True escaped chs
      else if ch = ''/'' \<and> chs \<noteq> [] \<and> hd chs = ''/''
           then case line_comment (tl chs) of (out, rest) \<Rightarrow> out @ strip_comments False escaped rest
      else if ch = ''/'' \<and> chs \<noteq> [] \<and> hd chs = ''*''
           then case block_comment [CHR 0x00] (tl chs) of (out, rest) \<Rightarrow> out @ strip_comments False escaped rest
      else ch # strip_comments False escaped chs)"
  by pat_completeness auto
termination
proof (relation "measure (\<lambda>(s, e, chs). length chs)", goal_cases)
  case (6 in_string escaped ch chs x y)
  then have "length y \<le> length chs - 1" "chs \<noteq> []" using line_comment_shorter [of "tl chs"] by (auto simp: prod_eq_iff)
  then show ?case by simp
next
  case (7 in_string escaped ch chs x y)
  then have "length y \<le> length chs - 1" "chs \<noteq> []" using block_comment_shorter [of "[CHR 0x00]" "tl chs"] by (auto simp: prod_eq_iff)
  then show ?case by simp
qed auto

definition strip_jsonc_comments :: "string \<Rightarrow> string" where
  "strip_jsonc_comments text = concat (strip_comments False False (utf8_chars text))"

text \<open>A comma goes when the next scalar that is no white space closes a list or an object.\<close>

definition closes_next :: "string list \<Rightarrow> bool" where
  "closes_next chs \<longleftrightarrow> (case dropWhile is_whitespace chs of [] \<Rightarrow> False | ch # _ \<Rightarrow> ch \<in> {''}'', '']''})"

fun strip_commas :: "bool \<Rightarrow> bool \<Rightarrow> string list \<Rightarrow> string list" where
  "strip_commas in_string escaped [] = []"
| "strip_commas in_string escaped (ch # chs) =
     (if in_string
      then ch # (if escaped then strip_commas True False chs
                 else if ch = [backslash] then strip_commas True True chs
                 else strip_commas (ch \<noteq> [dquote]) False chs)
      else if ch = [dquote] then ch # strip_commas True escaped chs
      else if ch = '','' \<and> closes_next chs then strip_commas False escaped chs
      else ch # strip_commas False escaped chs)"

definition strip_trailing_json_commas :: "string \<Rightarrow> string" where
  "strip_trailing_json_commas text = concat (strip_commas False False (utf8_chars text))"

definition parse_json_or_jsonc :: "config_document \<Rightarrow> string \<Rightarrow> json option" where
  "parse_json_or_jsonc J content =
     (case cd_parse J content of
        Some v \<Rightarrow> Some v
      | None \<Rightarrow> cd_parse J (strip_trailing_json_commas (strip_jsonc_comments content)))"

definition vs_read_json_object :: "config_document \<Rightarrow> install_env \<Rightarrow> disk \<Rightarrow> string \<Rightarrow> install_error + (string \<times> json) list" where
  "vs_read_json_object J V fs path =
     (case fs path of
        None \<Rightarrow> Inr []
      | Some content \<Rightarrow>
          (if ie_read_error V path then Inl IeRead
           else case parse_json_or_jsonc J content of
                  None \<Rightarrow> Inl IeParse
                | Some (JObj kvs) \<Rightarrow> Inr kvs
                | Some _ \<Rightarrow> Inl IeNotAnObject))"

section \<open>Registration\<close>

definition locations_key :: string where "locations_key = ''chat.hookFilesLocations''"
definition user_hooks_dir_tilde :: string where "user_hooks_dir_tilde = ''~/.sondera/vscode/hooks''"

definition vs_add_location :: "(string \<times> json) list \<Rightarrow> (string \<times> json) list" where
  "vs_add_location settings =
     json_insert locations_key
       (case unwrap_or (map_of settings locations_key) (JObj []) of
          JObj obj \<Rightarrow> JObj (json_insert user_hooks_dir_tilde (JBool True) obj)
        | v \<Rightarrow> v) settings"

definition vs_drop_location :: "(string \<times> json) list \<Rightarrow> (string \<times> json) list option" where
  "vs_drop_location settings =
     (case map_of settings locations_key of
        Some (JObj locations) \<Rightarrow>
          (if map_of locations user_hooks_dir_tilde = None then None
           else Some (json_insert locations_key (JObj (json_remove user_hooks_dir_tilde locations)) settings))
      | _ \<Rightarrow> None)"

definition register_hooks_directory ::
  "config_document \<Rightarrow> install_env \<Rightarrow> string \<Rightarrow> disk \<Rightarrow> disk \<times> (install_error + unit)" where
  "register_hooks_directory J V path fs =
     (case backup_at V fs path of
        (fs1, Inl e) \<Rightarrow> (fs1, Inl e)
      | (fs1, Inr _) \<Rightarrow>
          (case vs_read_json_object J V fs1 path of
             Inl e \<Rightarrow> (fs1, Inl e)
           | Inr settings \<Rightarrow> write_object J V fs1 path (vs_add_location settings)))"

definition deregister_hooks_directory ::
  "config_document \<Rightarrow> install_env \<Rightarrow> string \<Rightarrow> disk \<Rightarrow> disk \<times> (install_error + unit)" where
  "deregister_hooks_directory J V path fs =
     (if fs path = None then (fs, Inr ())
      else case vs_read_json_object J V fs path of
             Inl e \<Rightarrow> (fs, Inl e)
           | Inr settings \<Rightarrow>
               (case vs_drop_location settings of
                  None \<Rightarrow> (fs, Inr ())
                | Some settings' \<Rightarrow> write_object J V fs path settings'))"

section \<open>The commands\<close>

definition vs_installer :: "config_document \<Rightarrow> install_dirs \<Rightarrow> vs_scope \<Rightarrow> install_error + config_installer" where
  "vs_installer J D scope =
     map_sum id (\<lambda>p. \<lparr>ci_path = p, ci_document = J, ci_remove_when = (\<lambda>c. c = [])\<rparr>) (vs_hooks_path D scope)"

definition vs_settings_step ::
  "(string \<Rightarrow> disk \<Rightarrow> disk \<times> (install_error + unit)) \<Rightarrow> vs_platform \<Rightarrow> install_dirs \<Rightarrow> string option \<Rightarrow> vs_scope
   \<Rightarrow> disk \<times> (install_error + unit) \<Rightarrow> disk \<times> (install_error + unit)" where
  "vs_settings_step step host D config scope run =
     (case run of
        (fs1, Inl e) \<Rightarrow> (fs1, Inl e)
      | (fs1, Inr _) \<Rightarrow>
          (if scope \<noteq> VsUser then (fs1, Inr ())
           else case vs_user_settings_path host D config of
                  Inl e \<Rightarrow> (fs1, Inl e)
                | Inr path \<Rightarrow> step path fs1))"

definition vs_install_hooks ::
  "config_document \<Rightarrow> vs_platform \<Rightarrow> install_dirs \<Rightarrow> string option \<Rightarrow> install_env \<Rightarrow> string option \<Rightarrow> vs_scope \<Rightarrow> bool
   \<Rightarrow> disk \<Rightarrow> disk \<times> (install_error + unit)" where
  "vs_install_hooks J host D config V binary scope verbose fs =
     vs_settings_step (register_hooks_directory J V) host D config scope
       (with_installer (vs_installer J D scope) (\<lambda>I. install_config I V binary
          (\<lambda>b _. unwrap_or (as_object (vs_generate_hooks_config host b verbose)) []) fs) fs)"

definition vs_uninstall_hooks ::
  "config_document \<Rightarrow> vs_platform \<Rightarrow> install_dirs \<Rightarrow> string option \<Rightarrow> install_env \<Rightarrow> vs_scope \<Rightarrow> disk
   \<Rightarrow> disk \<times> (install_error + unit)" where
  "vs_uninstall_hooks J host D config V scope fs =
     vs_settings_step (deregister_hooks_directory J V) host D config scope
       (with_installer (vs_installer J D scope) (\<lambda>I. uninstall_config I V (\<lambda>hooks_file. ([], hooks_file \<noteq> [])) fs) fs)"

section \<open>What stripping keeps\<close>

text \<open>How the scanner goes on at a scalar.\<close>

lemma strip_comments_at:
  obtains (string) "in_string" | (quote) "\<not> in_string" "ch = [dquote]"
    | (line) "\<not> in_string" "ch = ''/''" "chs \<noteq> []" "hd chs = ''/''"
    | (block) "\<not> in_string" "ch = ''/''" "chs \<noteq> []" "hd chs = ''*''"
    | (slash) "\<not> in_string" "ch = ''/''" "chs = [] \<or> \<not> is_comment (hd chs)"
    | (other) "\<not> in_string" "ch \<noteq> [dquote]" "ch \<noteq> ''/''"
  by (auto simp: is_comment_def)

lemma line_comment_out: "set (fst (line_comment chs)) \<subseteq> {[line_feed]}"
  by (induction chs rule: line_comment.induct) auto

lemma block_comment_out: "set (fst (block_comment previous chs)) \<subseteq> {[line_feed]}"
  by (induction previous chs rule: block_comment.induct) (auto simp: Let_def split: prod.splits if_splits)

lemma line_comment_lines:
  "filter ((=) [line_feed]) (fst (line_comment chs) @ snd (line_comment chs)) = filter ((=) [line_feed]) chs"
  by (induction chs rule: line_comment.induct) auto

lemma block_comment_lines:
  "filter ((=) [line_feed]) (fst (block_comment previous chs) @ snd (block_comment previous chs)) = filter ((=) [line_feed]) chs"
  by (induction previous chs rule: block_comment.induct) (auto simp: Let_def split: prod.splits)

lemma strip_comments_lines:
  "filter ((=) [line_feed]) (strip_comments s e chs) = filter ((=) [line_feed]) chs"
proof (induction s e chs rule: strip_comments.induct)
  case (2 in_string escaped ch chs)
  obtain lo lr where l: "line_comment (tl chs) = (lo, lr)" by fastforce
  obtain bo br where b: "block_comment [CHR 0x00] (tl chs) = (bo, br)" by fastforce
  have "filter ((=) [line_feed]) (tl chs) = filter ((=) [line_feed]) chs" if "chs \<noteq> []" "hd chs \<noteq> [line_feed]"
    using that by (cases chs) auto
  then show ?case
    using 2 l b line_comment_lines [of "tl chs"] block_comment_lines [of "[CHR 0x00]" "tl chs"]
    by (cases rule: strip_comments_at [where ?in_string = in_string and ?ch = ch and ?chs = chs]) (auto simp: is_comment_def)
qed simp

text \<open>Nothing is left to strip: a slash that stays is followed by the scalar that followed it.\<close>

lemma strip_newlines: "set nls \<subseteq> {[line_feed]} \<Longrightarrow> strip_comments False e (nls @ chs) = nls @ strip_comments False e chs"
  by (induction nls) auto

lemma strip_comments_slash:
  assumes "strip_comments False e chs = chs'" "chs = [] \<or> \<not> is_comment (hd chs)"
  shows "strip_comments False e (''/'' # chs') = ''/'' # strip_comments False e chs'"
proof (cases chs)
  case (Cons c rest)
  then have "\<exists>rest'. chs' = c # rest'" using assms by (auto simp: is_comment_def)
  then show ?thesis using assms(2) Cons by (auto simp: is_comment_def)
qed (use assms in simp)

lemma strip_comments_idem: "strip_comments s e (strip_comments s e chs) = strip_comments s e chs"
proof (induction s e chs rule: strip_comments.induct)
  case (2 in_string escaped ch chs)
  obtain lo lr where l: "line_comment (tl chs) = (lo, lr)" by fastforce
  obtain bo br where b: "block_comment [CHR 0x00] (tl chs) = (bo, br)" by fastforce
  have lo: "set lo \<subseteq> {[line_feed]}" using line_comment_out [of "tl chs"] l by auto
  have bo: "set bo \<subseteq> {[line_feed]}" using block_comment_out [of "[CHR 0x00]" "tl chs"] b by auto
  show ?case
  proof (cases rule: strip_comments_at [where ?in_string = in_string and ?ch = ch and ?chs = chs])
    case slash
    then have "strip_comments in_string escaped (ch # chs) = ''/'' # strip_comments False escaped chs"
      by (auto simp: is_comment_def)
    moreover have "strip_comments False escaped (strip_comments False escaped chs) = strip_comments False escaped chs"
      using 2 slash by (auto simp: is_comment_def)
    ultimately show ?thesis using slash strip_comments_slash [OF refl slash(3)] by simp
  qed (use 2 l b strip_newlines [OF lo] strip_newlines [OF bo] in auto)
qed simp

text \<open>Text: a document stripped once has no comment left, and every line stays where it was.\<close>

lemma line_comment_rest: "set (snd (line_comment xs)) \<subseteq> set xs"
  by (induction xs rule: line_comment.induct) auto

lemma block_comment_rest: "set (snd (block_comment p xs)) \<subseteq> set xs"
proof (induction xs arbitrary: p)
  case (Cons c xs)
  show ?case using Cons.IH [of c] by (auto simp: Let_def split: prod.splits)
qed simp

lemma strip_comments_set: "set (strip_comments s e chs) \<subseteq> insert [line_feed] (set chs)"
proof -
  note sub = line_comment_rest block_comment_rest
  show ?thesis
  proof (induction s e chs rule: strip_comments.induct)
    case (2 in_string escaped ch chs)
    obtain lo lr where l: "line_comment (tl chs) = (lo, lr)" by fastforce
    obtain bo br where b: "block_comment [CHR 0x00] (tl chs) = (bo, br)" by fastforce
    have "set lo \<subseteq> {[line_feed]}" "set bo \<subseteq> {[line_feed]}" "set lr \<subseteq> set (tl chs)" "set br \<subseteq> set (tl chs)"
      using line_comment_out [of "tl chs"] block_comment_out [of "[CHR 0x00]" "tl chs"] sub(1) [of "tl chs"] sub(2) [of "[CHR 0x00]" "tl chs"] l b
      by (metis fst_conv snd_conv)+
    moreover have "set (tl chs) \<subseteq> set chs" by (cases chs) auto
    ultimately show ?case using 2 l b
      by (cases rule: strip_comments_at [where ?in_string = in_string and ?ch = ch and ?chs = chs])
        (auto simp: is_comment_def)
  qed simp
qed

lemma strip_comments_ok:
  "valid_utf8 text \<Longrightarrow> list_all scalar_ok (strip_comments False False (utf8_chars text))"
  using strip_comments_set [of False False "utf8_chars text"] by (auto simp: valid_utf8_def list_all_iff is_ascii_def)

lemma strip_jsonc_idem:
  "valid_utf8 text \<Longrightarrow> strip_jsonc_comments (strip_jsonc_comments text) = strip_jsonc_comments text"
  by (simp add: strip_jsonc_comments_def utf8_chars_concat strip_comments_ok strip_comments_idem)

lemma strip_jsonc_lines:
  assumes "valid_utf8 text"
  shows "filter ((=) [line_feed]) (utf8_chars (strip_jsonc_comments text)) = filter ((=) [line_feed]) (utf8_chars text)"
  by (simp add: strip_jsonc_comments_def utf8_chars_concat strip_comments_ok [OF assms] strip_comments_lines)

lemma strip_commas_set: "set (strip_commas s e chs) \<subseteq> set chs"
  by (induction s e chs rule: strip_commas.induct) auto

lemma strip_commas_kept: "filter (\<lambda>ch. ch \<noteq> '','') (strip_commas s e chs) = filter (\<lambda>ch. ch \<noteq> '','') chs"
  by (induction s e chs rule: strip_commas.induct) auto

lemma strip_trailing_kept:
  assumes "valid_utf8 text"
  shows "filter (\<lambda>ch. ch \<noteq> '','') (utf8_chars (strip_trailing_json_commas text)) = filter (\<lambda>ch. ch \<noteq> '','') (utf8_chars text)"
proof -
  have "list_all scalar_ok (strip_commas False False (utf8_chars text))"
    using assms strip_commas_set [of False False "utf8_chars text"] by (auto simp: valid_utf8_def list_all_iff)
  then show ?thesis by (simp add: strip_trailing_json_commas_def utf8_chars_concat strip_commas_kept)
qed

section \<open>The entry of the settings\<close>

lemma json_insert_absent: "k \<notin> set (keys kvs) \<Longrightarrow> json_insert k v kvs = kvs @ [(k, v)]"
  by (induction kvs) auto

lemma json_removed_inserted: "distinct (keys kvs) \<Longrightarrow> k \<notin> set (keys kvs) \<Longrightarrow> json_remove k (json_insert k v kvs) = kvs"
  by (simp add: json_insert_absent json_remove_last)

text \<open>Taking the entry out again restores the settings, but for the object made to hold it.\<close>

lemma vs_added_dropped:
  assumes "map_of settings locations_key = Some (JObj locations)"
    "distinct (keys locations)" "user_hooks_dir_tilde \<notin> set (keys locations)"
  shows "vs_drop_location (vs_add_location settings) = Some settings"
  using assms by (simp add: vs_add_location_def vs_drop_location_def json_removed_inserted json_insert_twice json_insert_same)

lemma vs_added_dropped_new:
  assumes "map_of settings locations_key = None"
  shows "vs_drop_location (vs_add_location settings) = Some (settings @ [(locations_key, JObj [])])"
proof -
  have "json_insert locations_key v settings = settings @ [(locations_key, v)]" for v
    using assms by (intro json_insert_absent) (simp add: map_of_eq_None_iff)
  then have "vs_add_location settings = settings @ [(locations_key, JObj [(user_hooks_dir_tilde, JBool True)])]"
    using assms by (simp add: vs_add_location_def)
  moreover have "json_insert k w (kvs @ [(k, v)]) = kvs @ [(k, w)]" if "k \<notin> set (keys kvs)" for k w v kvs
    using that by (induction kvs) auto
  ultimately show ?thesis using assms
    by (simp add: vs_drop_location_def map_add_def json_remove_def, simp add: map_of_eq_None_iff)
qed

text \<open>A value of that key that is no object stays, and nothing is registered.\<close>

lemma vs_not_added:
  "map_of settings locations_key = Some v \<Longrightarrow> as_object v = None \<Longrightarrow> vs_add_location settings = settings"
  by (cases v) (simp_all add: vs_add_location_def json_insert_same)

lemma vs_dropped_again:
  assumes "\<And>l. map_of settings locations_key = Some (JObj l) \<Longrightarrow> distinct (keys l) \<and> user_hooks_dir_tilde \<notin> set (keys l)"
  shows "vs_drop_location (vs_add_location settings) =
      (case map_of settings locations_key of
         None \<Rightarrow> Some (settings @ [(locations_key, JObj [])])
       | Some (JObj l) \<Rightarrow> Some settings
       | _ \<Rightarrow> None)"
proof (cases "map_of settings locations_key")
  case (Some v)
  show ?thesis
  proof (cases v)
    case (JObj l)
    then show ?thesis using Some vs_added_dropped [of settings l] assms [of l] by simp
  qed (use Some vs_not_added [OF Some] in \<open>simp_all add: vs_drop_location_def\<close>)
qed (simp add: vs_added_dropped_new)

lemma vs_added_twice: "vs_add_location (vs_add_location settings) = vs_add_location settings"
proof (cases "unwrap_or (map_of settings locations_key) (JObj [])")
  case (JObj l)
  then show ?thesis by (simp add: vs_add_location_def json_insert_twice)
qed (simp_all add: vs_add_location_def json_insert_twice)

text \<open>Registering keeps a copy of the settings; deregistering keeps none.\<close>

lemma register_disk:
  assumes "register_hooks_directory J V path fs = (fs', r)" "fs path = Some old" "fs' path \<noteq> Some old"
  shows "fs' (backup_path path (ie_timestamp V)) = Some old"
proof -
  obtain fs1 b where b: "backup_at V fs path = (fs1, b)" by fastforce
  note d = backup_at_disk [OF b] and fresh = backup_path_fresh [of path "ie_timestamp V"]
  show ?thesis using assms b d(1) d(3) fresh unfolding register_hooks_directory_def
    by (auto split: sum.splits dest: write_object_disk)
qed

end
