(* ===== verification/Install_Laws.thy ===== *)
theory Install_Laws
  imports Install_Claude_Files Install_Codex Install_Vscode
begin

text \<open>
  What the splices of the providers have in common, read off the interpretations of the locale
  \<open>hook_splice\<close>, and a concrete configuration and machine to evaluate them on.
\<close>

section \<open>Rules after an install\<close>

context hook_splice
begin

lemma applied_rules:
  assumes "config_ok config" "map_of (hooks_of config') = map_of (joined b (hooks_of config))"
    and "tidy (rules_of (hooks_of config) k)" "\<And>xs. put [] xs = xs"
  shows "rules_of (hooks_of config') k = put (rules_of (new b) k) (clean (rules_of (hooks_of config) k))"
proof -
  have "rules_of (hooks_of config') k = rules_of (joined b (hooks_of config)) k"
    using assms(2) by (intro rules_of_cong) simp
  moreover have "map_of (new b) k = None \<Longrightarrow> rules_of (new b) k = []" by (simp add: rules_of_def)
  ultimately show ?thesis using assms joined_rules [of "hooks_of config" k b] by (auto simp: config_ok_def)
qed

lemma revoked_rules:
  assumes "config_ok config" "hooks_of config' = fst (remove (hooks_of config))" "tidy (rules_of (hooks_of config) k)"
  shows "rules_of (hooks_of config') k = clean (rules_of (hooks_of config) k)"
  using assms removed_rules [of "hooks_of config" k] by (simp add: config_ok_def)

end

lemma oh_apply_ok: "config_ok c \<Longrightarrow> config_ok (oh_apply_hooks path c)"
  using oh.apply_events_ok [of c path] by (simp add: oh_apply_hooks_def oh_remove_managed_entries_def)

lemma cx_apply_ok: "config_ok c \<Longrightarrow> config_ok (cx_apply_hooks path c)"
  using cx.apply_events_ok [of c path] by (simp add: cx_apply_hooks_eq)

lemma oh_revoke_events: "config_ok c \<Longrightarrow> hooks_of (fst (oh_revoke_hooks c)) = fst (oh_remove_managed_entries (hooks_of c))"
  using oh.revoke_events_hooks [of c] by (simp add: oh_revoke_hooks_def oh_remove_managed_entries_def)

lemma cx_revoke_events: "config_ok c \<Longrightarrow> hooks_of (fst (cx_revoke_hooks c)) = fst (cx_remove_sondera_entries (hooks_of c))"
  using cx.revoke_events_hooks [of c] by (simp add: cx_revoke_hooks_def cx_remove_sondera_entries_def)

lemma cp_revoke_events: "config_ok c \<Longrightarrow> hooks_of (fst (cp_revoke_hooks c)) = fst (cp_remove_managed_sondera_hooks (hooks_of c))"
  using cp.revoke_events_hooks [of c] by (simp add: cp_revoke_hooks_def cp_remove_managed_sondera_hooks_def)

lemmas remove_defs = oh_remove_managed_entries_def hm_remove_sondera_entries_def cx_remove_sondera_entries_def
  cp_remove_managed_sondera_hooks_def

text \<open>What of the rules of one event is not ours.\<close>

abbreviation others :: "(json \<Rightarrow> bool) \<Rightarrow> (string \<times> json) list \<Rightarrow> string \<Rightarrow> json list" where
  "others managed c e \<equiv> filter (\<lambda>r. \<not> managed r) (rules_of (hooks_of c) e)"

lemma oh_applied: "config_ok c \<Longrightarrow> rules_of (hooks_of (oh_apply_hooks path c)) e =
    others oh_is_managed c e @ rules_of (oh_generate_hooks_config path) e"
  by (rule oh.applied_rules [OF _ oh_apply_events [unfolded remove_defs]]) simp_all

lemma hm_applied: "config_ok c \<Longrightarrow> rules_of (hooks_of (hm_apply_hooks auto b c)) e =
    rules_of (hm_generate_hooks_config b) e @ others hm_entry_contains_sondera c e"
  by (rule hm.applied_rules [OF _ hm_apply_events [unfolded remove_defs]]) simp_all

lemma cp_applied: "config_ok c \<Longrightarrow> rules_of (hooks_of (cp_apply_hooks path c)) e =
    rules_of (cp_generated_hooks path) e @ others cp_is_managed_sondera_hook c e"
  using cp.applied_rules [of c "cp_apply_hooks path c" path e] by (simp add: cp_apply_events remove_defs)

lemma cx_applied: "config_ok c \<Longrightarrow> list_all cx_tidy_rule (rules_of (hooks_of c) e) \<Longrightarrow>
    rules_of (hooks_of (cx_apply_hooks path c)) e = cx_clean_rules (rules_of (hooks_of c) e) @ rules_of (cx_generated_hooks path) e"
  by (rule cx.applied_rules [OF _ cx_apply_events [unfolded remove_defs]]) simp_all

lemma cl_applied: "config_ok c \<Longrightarrow> rules_of (hooks_of (merge_managed_sondera_hooks c b)) e =
    rules_of (cl_generate_hooks_config b) e @ cl_clean_rules is_managed_sondera_hook_command (rules_of (hooks_of c) e)"
  by (rule cl.applied_rules [OF _ cl_merge_events]) simp_all

lemma oh_revoked: "config_ok c \<Longrightarrow> rules_of (hooks_of (fst (oh_revoke_hooks c))) e = others oh_is_managed c e"
  by (rule oh.revoked_rules [OF _ oh_revoke_events [unfolded remove_defs]]) simp_all

lemma hm_revoked: "config_ok c \<Longrightarrow> rules_of (hooks_of (fst (hm_revoke_hooks c))) e = others hm_entry_contains_sondera c e"
  by (rule hm.revoked_rules [OF _ hm_revoke_events [unfolded remove_defs]]) simp_all

lemma cp_revoked: "config_ok c \<Longrightarrow> rules_of (hooks_of (fst (cp_revoke_hooks c))) e = others cp_is_managed_sondera_hook c e"
  by (rule cp.revoked_rules [OF _ cp_revoke_events [unfolded remove_defs]]) simp_all

lemma cx_revoked: "config_ok c \<Longrightarrow> list_all cx_tidy_rule (rules_of (hooks_of c) e) \<Longrightarrow>
    rules_of (hooks_of (fst (cx_revoke_hooks c))) e = cx_clean_rules (rules_of (hooks_of c) e)"
  by (rule cx.revoked_rules [OF _ cx_revoke_events [unfolded remove_defs]]) simp_all

lemma cl_revoked: "config_ok c \<Longrightarrow> rules_of (hooks_of (fst (cl_remove_managed_sondera_hooks c))) e =
    cl_clean_rules is_managed_sondera_hook_command (rules_of (hooks_of c) e)"
  by (rule cl.revoked_rules [OF _ cl_remove_events]) simp_all

text \<open>Settings beside the hooks.\<close>

lemma cp_kept: "distinct (keys c) \<Longrightarrow> k \<notin> {''hooks'', ''version'', ''disableAllHooks''} \<Longrightarrow>
    map_of (cp_apply_hooks path c) k = map_of c k"
  by (simp add: cp_apply_hooks_def Let_def)

lemma hm_kept: "k \<notin> {''hooks'', ''hooks_auto_accept'', auto_accept_managed_key} \<Longrightarrow>
    map_of (hm_apply_hooks auto b c) k = map_of c k"
  by (simp add: hm_apply_hooks_def hm_grant_consent_def apply_events_def Let_def)

text \<open>
  The keys an install sets beside the hooks: Copilot's version, and its switch, which keeps the
  user's boolean and is written as off when there is none; Hermes' consent, when it is asked for, with
  a mark when it was not given before.
\<close>

lemma cp_set:
  "map_of (cp_apply_hooks path c) ''version'' = Some (JInt 1)"
  "map_of (cp_apply_hooks path c) ''disableAllHooks'' =
     Some (JBool (unwrap_or (Option.bind (map_of c ''disableAllHooks'') as_bool) False))"
  by (simp_all add: cp_apply_hooks_def Let_def)

lemma hm_set:
  "map_of (hm_apply_hooks auto b c) ''hooks_auto_accept'' =
     (if auto then Some (JBool True) else map_of c ''hooks_auto_accept'')"
  "map_of (hm_apply_hooks auto b c) auto_accept_managed_key =
     (if auto \<and> \<not> unwrap_or (Option.bind (map_of c ''hooks_auto_accept'') as_bool) False
      then Some (JBool True) else map_of c auto_accept_managed_key)"
  by (simp_all add: hm_apply_hooks_def hm_grant_consent_def apply_events_def auto_accept_managed_key_def Let_def)

lemma hm_rest:
  "k \<noteq> ''hooks'' \<Longrightarrow> map_of (hm_apply_hooks auto b c) k =
     (if auto \<and> k = ''hooks_auto_accept'' then Some (JBool True)
      else if auto \<and> k = auto_accept_managed_key
          \<and> \<not> unwrap_or (Option.bind (map_of c ''hooks_auto_accept'') as_bool) False then Some (JBool True)
      else map_of c k)"
  by (simp add: hm_apply_hooks_def hm_grant_consent_def apply_events_def auto_accept_managed_key_def Let_def)

lemma oh_kept: "k \<noteq> ''hooks'' \<Longrightarrow> map_of (oh_apply_hooks path c) k = map_of c k"
  by (simp add: oh_apply_hooks_def apply_events_def)

lemma cx_kept: "k \<noteq> ''hooks'' \<Longrightarrow> map_of (cx_apply_hooks path c) k = map_of c k"
  by (simp add: cx_apply_hooks_eq apply_events_def)

section \<open>Twice, and there and back\<close>

lemma hm_twice_rest:
  assumes "k \<noteq> ''hooks''"
  shows "map_of (hm_apply_hooks auto b (hm_apply_hooks auto b c)) k = map_of (hm_apply_hooks auto b c) k"
proof -
  consider "k = ''hooks_auto_accept''" | "k = auto_accept_managed_key"
    | "k \<notin> {''hooks'', ''hooks_auto_accept'', auto_accept_managed_key}" using assms by auto
  then show ?thesis by cases (auto simp: hm_set hm_kept)
qed

lemma cp_twice_rest:
  assumes "k \<noteq> ''hooks''" "config_ok c"
  shows "map_of (cp_apply_hooks path (cp_apply_hooks path c)) k = map_of (cp_apply_hooks path c) k"
proof -
  have d: "distinct (keys c)" "distinct (keys (cp_apply_hooks path c))"
    using assms(2) cp_apply_ok [OF assms(2)] by (simp_all add: config_ok_def)
  consider "k = ''version''" | "k = ''disableAllHooks''" | "k \<notin> {''hooks'', ''version'', ''disableAllHooks''}"
    using assms(1) by auto
  then show ?thesis by cases (simp_all add: cp_set cp_kept d)
qed

lemma oh_twice: "config_ok c \<Longrightarrow> sondera_path path \<Longrightarrow>
    map_of (hooks_of (oh_apply_hooks path (oh_apply_hooks path c))) = map_of (hooks_of (oh_apply_hooks path c))"
  by (rule oh.applied_twice [OF oh_apply_events [unfolded remove_defs] oh_apply_ok]) simp_all

lemma hm_twice: "config_ok c \<Longrightarrow> sondera_path (fst b) \<Longrightarrow>
    map_of (hooks_of (hm_apply_hooks auto b (hm_apply_hooks auto b c))) = map_of (hooks_of (hm_apply_hooks auto b c))"
  by (rule hm.applied_twice [OF hm_apply_events [unfolded remove_defs] hm_apply_ok]) simp_all

lemma cp_twice: "config_ok c \<Longrightarrow> sondera_path path \<Longrightarrow>
    map_of (hooks_of (cp_apply_hooks path (cp_apply_hooks path c))) = map_of (hooks_of (cp_apply_hooks path c))"
  by (rule cp.applied_twice [OF _ cp_apply_ok]) (simp_all add: cp_apply_events remove_defs)

lemma cx_twice: "config_ok c \<Longrightarrow> sondera_path path \<Longrightarrow> \<forall>e. list_all cx_tidy_rule (rules_of (hooks_of c) e) \<Longrightarrow>
    map_of (hooks_of (cx_apply_hooks path (cx_apply_hooks path c))) = map_of (hooks_of (cx_apply_hooks path c))"
  by (rule cx.applied_twice [OF cx_apply_events [unfolded remove_defs] cx_apply_ok]) simp_all

lemma cl_twice: "config_ok c \<Longrightarrow> sondera_path (fst b) \<Longrightarrow>
    map_of (hooks_of (merge_managed_sondera_hooks (merge_managed_sondera_hooks c b) b))
    = map_of (hooks_of (merge_managed_sondera_hooks c b))"
  by (rule cl.applied_twice [OF cl_merge_events cl_merge_ok]) simp_all

lemma oh_undone: "config_ok c \<Longrightarrow> sondera_path path \<Longrightarrow>
    rules_of (hooks_of (fst (oh_revoke_hooks (oh_apply_hooks path c)))) e = others oh_is_managed c e"
  by (rule trans [OF oh.applied_revoked [where rv = "\<lambda>c. fst (oh_revoke_hooks c)", OF oh_apply_events [unfolded remove_defs] oh_apply_ok] oh_revoked])
    (simp_all add: oh_revoke_events remove_defs)

lemma hm_undone: "config_ok c \<Longrightarrow> sondera_path (fst b) \<Longrightarrow>
    rules_of (hooks_of (fst (hm_revoke_hooks (hm_apply_hooks auto b c)))) e = others hm_entry_contains_sondera c e"
  by (rule trans [OF hm.applied_revoked [where rv = "\<lambda>c. fst (hm_revoke_hooks c)", OF hm_apply_events [unfolded remove_defs] hm_apply_ok] hm_revoked])
    (simp_all add: hm_revoke_events remove_defs)

lemma cp_undone: "config_ok c \<Longrightarrow> sondera_path path \<Longrightarrow>
    rules_of (hooks_of (fst (cp_revoke_hooks (cp_apply_hooks path c)))) e = others cp_is_managed_sondera_hook c e"
  by (rule trans [OF cp.applied_revoked [where rv = "\<lambda>c. fst (cp_revoke_hooks c)", OF _ cp_apply_ok] cp_revoked])
    (simp_all add: cp_revoke_events cp_apply_events remove_defs)

lemma cx_undone: "config_ok c \<Longrightarrow> sondera_path path \<Longrightarrow> \<forall>e. list_all cx_tidy_rule (rules_of (hooks_of c) e) \<Longrightarrow>
    rules_of (hooks_of (fst (cx_revoke_hooks (cx_apply_hooks path c)))) e = cx_clean_rules (rules_of (hooks_of c) e)"
  by (rule trans [OF cx.applied_revoked [where rv = "\<lambda>c. fst (cx_revoke_hooks c)", OF cx_apply_events [unfolded remove_defs] cx_apply_ok] cx_revoked])
    (simp_all add: cx_revoke_events remove_defs)

lemma cl_undone: "config_ok c \<Longrightarrow> sondera_path (fst b) \<Longrightarrow>
    rules_of (hooks_of (fst (cl_remove_managed_sondera_hooks (merge_managed_sondera_hooks c b)))) e =
    cl_clean_rules is_managed_sondera_hook_command (rules_of (hooks_of c) e)"
  by (rule trans [OF cl.applied_revoked [where rv = "\<lambda>c. fst (cl_remove_managed_sondera_hooks c)", OF cl_merge_events cl_merge_ok] cl_revoked])
    (simp_all add: cl_remove_events)

end
