(* ===== verification/Sample_Install.thy ===== *)
theory Sample_Install
  imports Install_Laws
begin

text \<open>A configuration with the hook of another tool, and a machine to install on.\<close>

definition lint_rule :: json where
  "lint_rule = JObj [(''matcher'', JStr ''*''), (''hooks'', JArr [JObj [(''command'', JStr ''lint'')]])]"

definition sample_config :: "(string \<times> json) list" where
  "sample_config = [(''hooks'', JObj [(''PreToolUse'', JArr [lint_rule])]), (''model'', JStr ''m'')]"

definition sample_sondera :: string where "sample_sondera = ''/opt/sondera''"

lemma sample_sondera_path: "sondera_path sample_sondera"
  by (simp add: sondera_path_def sample_sondera_def valid_utf8_def is_cont_def token_basename_def after_last_def)

lemma sample_config_ok: "config_ok sample_config"
  by (simp add: config_ok_def sample_config_def hooks_of_def)

lemma lint_unparsed: "parse_hook_command ''lint'' = None"
  by (simp add: parse_hook_command_def shell_tokens_def is_cont_def is_whitespace_def scan_tokens.simps usize_max_def
    is_sondera_token_def is_sondera_binary_name_def token_basename_def after_last_def Let_def)

lemma lint_not_ours: "\<not> value_targets_provider lint_rule p"
  by (simp add: lint_rule_def command_keys_def command_targets_provider_def lint_unparsed)

lemma lint_unmanaged: "\<not> is_managed_sondera_hook_command ''lint''"
  by (simp add: is_managed_sondera_hook_command_def is_managed_by_binary_def list_ex_iff
    command_matches_sondera_hook_subcommand_def lint_unparsed sublist_code)

lemma sample_tidy: "list_all cx_tidy_rule (rules_of (hooks_of sample_config) e)"
  by (simp add: rules_of_def hooks_of_def sample_config_def cx_tidy_rule_def lint_rule_def)

definition sample_document :: config_document where
  "sample_document = \<lparr>cd_parse = (\<lambda>s. if s = ''{}'' then Some (JObj []) else None), cd_print = (\<lambda>kvs. Some ''new'')\<rparr>"

definition sample_install_env :: install_env where
  "sample_install_env = \<lparr>ie_timestamp = ''1'', ie_copy_error = (\<lambda>_. None), ie_read_error = (\<lambda>_. False),
     ie_mkdir_error = (\<lambda>_. False), ie_write_error = (\<lambda>_. None), ie_remove_error = (\<lambda>_. False)\<rparr>"

definition sample_installer :: config_installer where
  "sample_installer = \<lparr>ci_path = ''/c.json'', ci_document = sample_document, ci_remove_when = (\<lambda>c. c = [])\<rparr>"

definition sample_disk :: disk where "sample_disk = [''/c.json'' \<mapsto> ''{}'']"

lemma sample_copy: "backup_path ''/c.json'' ''1'' = ''/c.backup.1.json''"
  by (simp add: backup_path_def file_name_part_def split_file_name_def after_last_def valid_utf8_def is_cont_def)

lemma sample_installed:
  "fst (install_config sample_installer sample_install_env (Some sample_sondera) gm_apply_hooks sample_disk) ''/c.json'' = Some ''new''"
  by (simp add: install_config_def apply_splice_def backup_at_def sample_installer_def sample_install_env_def sample_disk_def
    sample_copy read_object_def read_to_object_source_def sample_document_def trim_def is_whitespace_def is_cont_def
    bind_result_def write_object_def Let_def)

text \<open>The user's settings are a link.\<close>

definition sample_install_machine :: cl_install_env where
  "sample_install_machine = install_env.extend sample_install_env
     \<lparr>cie_document = sample_document, cie_elevated = False, cie_sudo_user = None, cie_user_home = (\<lambda>_. Inl IeUser),
      cie_sudo_ids = False, cie_home = Some ''/h'', cie_cwd = Some ''/w'', cie_force = None, cie_plugin_dir = None,
      cie_exists = (\<lambda>_. False), cie_entries = (\<lambda>_. []), cie_kind = (\<lambda>p. if p = ''/h/.claude/settings.json'' then FkSymlink (Some True) else FkRegular),
      cie_target = (\<lambda>_. ''/c.json''), cie_stat_error = (\<lambda>_. False),
      cie_chown_error = (\<lambda>_. False), cie_help = (\<lambda>_. Inl IeUser)\<rparr>"

lemma sample_settings_path: "get_settings_path sample_install_machine ScopeUser = Inr ''/h/.claude/settings.json''"
  by (simp add: get_settings_path_def settings_home_dir_def sample_install_machine_def install_env.defs settings_path_for_scope_def
    path_join_def bind_result_def ok_or_def sudo_invoking_user_home_def is_absolute_def)

lemma sample_cell: "cell sample_install_machine ''/h/.claude/settings.json'' = ''/c.json''"
  by (simp add: cell_def sample_install_machine_def install_env.defs)

end
