(* ===== verification/Event_Rows.thy ===== *)
theory Event_Rows
  imports Summary Entity_Store
begin

text \<open>
  The rows of the event table (\<open>crates/storage/src/turso/mod.rs\<close>, \<open>trajectory.rs\<close>): which columns
  an event is written to, how a row is read back, and the order a run is read in. A run read back
  is the run as written, in time order and without the agents' platforms, which have no column.
  The text forms of payloads and instants belong to serde and chrono and are parameters.
\<close>

section \<open>The columns\<close>

record row_codec =
  rw_event_json :: "trajectory_event \<Rightarrow> string option"
  rw_parse_event :: "string \<Rightarrow> trajectory_event option"
  rw_rfc3339 :: "timestamp \<Rightarrow> string"
  rw_parse_time :: "string \<Rightarrow> timestamp option"

record event_row =
  er_event_id :: string
  er_trajectory_id :: string
  er_agent_id :: string
  er_agent_provider :: string
  er_timestamp :: string
  er_event_category :: string
  er_event_type :: string
  er_event_json :: string
  er_actor_id :: string
  er_actor_type :: string
  er_correlation_id :: string
  er_causation_id :: string
  er_parent_id :: string

fun extract_event_info :: "trajectory_event \<Rightarrow> string \<times> string option" where
  "extract_event_info (Action action) =
     (''Action'', Some (case action of
        ToolCall _ \<Rightarrow> ''ToolCall'' | ShellCommand _ \<Rightarrow> ''ShellCommand'' | WebFetch _ \<Rightarrow> ''WebFetch''
      | FileOperation _ \<Rightarrow> ''FileOperation''))"
| "extract_event_info (Observation obs) =
     (''Observation'', Some (case obs of
        Prompt _ \<Rightarrow> ''Prompt'' | Thought _ \<Rightarrow> ''Thought'' | ToolOutput _ \<Rightarrow> ''ToolOutput''
      | ShellCommandOutput _ \<Rightarrow> ''ShellCommandOutput'' | FileOperationResult _ \<Rightarrow> ''FileOperationResult''
      | WebFetchOutput _ \<Rightarrow> ''WebFetchOutput''))"
| "extract_event_info (Control ctrl) =
     (''Control'', Some (case ctrl of
        Started _ \<Rightarrow> ''Started'' | Completed _ \<Rightarrow> ''Completed'' | Failed _ \<Rightarrow> ''Failed''
      | Suspended _ \<Rightarrow> ''Suspended'' | Resumed _ \<Rightarrow> ''Resumed'' | Terminated _ \<Rightarrow> ''Terminated''
      | Adjudicated _ \<Rightarrow> ''Adjudicated'' | Scanned _ \<Rightarrow> ''Scanned''))"
| "extract_event_info (State _) = (''State'', Some ''Snapshot'')"

text \<open>\<open>{:?}\<close> of an actor type.\<close>

primrec actor_type_debug :: "actor_type \<Rightarrow> string" where
  "actor_type_debug AtHuman = ''Human''"
| "actor_type_debug AtAgent = ''Agent''"
| "actor_type_debug AtSystem = ''System''"
| "actor_type_debug AtPolicy = ''Policy''"

definition insert_params :: "row_codec \<Rightarrow> event \<Rightarrow> event_row option" where
  "insert_params C e =
     (case extract_event_info (ev_event e) of (category, event_type) \<Rightarrow>
      map_option (\<lambda>json.
        \<lparr>er_event_id = ev_event_id e, er_trajectory_id = ev_trajectory_id e, er_agent_id = ag_id (ev_agent e),
         er_agent_provider = ag_provider (ev_agent e), er_timestamp = rw_rfc3339 C (ev_timestamp e),
         er_event_category = category, er_event_type = unwrap_or event_type [], er_event_json = json,
         er_actor_id = ac_id (ev_actor e), er_actor_type = actor_type_debug (ac_type (ev_actor e)),
         er_correlation_id = cs_correlation_id (ev_causality e),
         er_causation_id = unwrap_or (cs_causation_id (ev_causality e)) [],
         er_parent_id = unwrap_or (cs_parent_id (ev_causality e)) []\<rparr>)
        (rw_event_json C (ev_event e)))"

section \<open>Reading a row\<close>

definition optional_text :: "string \<Rightarrow> string option" where
  "optional_text t = (if t = [] then None else Some t)"

definition actor_type_read :: "string \<Rightarrow> actor_type" where
  "actor_type_read t =
     (if t = ''Human'' then AtHuman else if t = ''System'' then AtSystem
      else if t = ''Policy'' then AtPolicy else AtAgent)"

definition unreadable_event :: trajectory_event where
  "unreadable_event = Observation (Thought ''Failed to deserialize event'')"

definition row_to_event :: "row_codec \<Rightarrow> timestamp \<Rightarrow> event_row \<Rightarrow> event" where
  "row_to_event C now r =
     \<lparr>ev_event_id = er_event_id r, ev_trajectory_id = er_trajectory_id r,
      ev_agent = \<lparr>ag_id = er_agent_id r, ag_provider = er_agent_provider r, ag_platform = []\<rparr>,
      ev_timestamp = unwrap_or (rw_parse_time C (er_timestamp r)) now,
      ev_event = unwrap_or (rw_parse_event C (er_event_json r)) unreadable_event,
      ev_actor = \<lparr>ac_id = er_actor_id r,
        ac_type = actor_type_read (er_actor_type r)\<rparr>,
      ev_causality = \<lparr>cs_correlation_id = er_correlation_id r, cs_causation_id = optional_text (er_causation_id r),
        cs_parent_id = optional_text (er_parent_id r)\<rparr>\<rparr>"

text \<open>The rows of a run \<open>ORDER BY timestamp ASC, id ASC\<close>; the table is kept in the order of its ids.\<close>

definition run_rows :: "event_row list \<Rightarrow> string \<Rightarrow> event_row list" where
  "run_rows table tid = sort_key er_timestamp (filter (\<lambda>r. er_trajectory_id r = tid) table)"

definition read_events :: "row_codec \<Rightarrow> timestamp \<Rightarrow> event_row list \<Rightarrow> string \<Rightarrow> event list" where
  "read_events C now table tid = map (row_to_event C now) (run_rows table tid)"

section \<open>Reading back what was written\<close>

text \<open>What survives: everything but the platform.\<close>

definition row_form :: "event \<Rightarrow> event" where
  "row_form e = e\<lparr>ev_agent := (ev_agent e)\<lparr>ag_platform := []\<rparr>\<rparr>"

definition causality_plain :: "causality \<Rightarrow> bool" where
  "causality_plain c \<longleftrightarrow> cs_causation_id c \<noteq> Some [] \<and> cs_parent_id c \<noteq> Some []"

definition row_readable :: "row_codec \<Rightarrow> event \<Rightarrow> bool" where
  "row_readable C e \<longleftrightarrow>
     (\<exists>j. rw_event_json C (ev_event e) = Some j \<and> rw_parse_event C j = Some (ev_event e))
     \<and> rw_parse_time C (rw_rfc3339 C (ev_timestamp e)) = Some (ev_timestamp e)
     \<and> causality_plain (ev_causality e)"

lemma optional_text_unwrap [simp]: "c \<noteq> Some [] \<Longrightarrow> optional_text (unwrap_or c []) = c"
  by (cases c) (auto simp: optional_text_def unwrap_or_def)

lemma actor_type_debug_read [simp]: "actor_type_read (actor_type_debug t) = t"
  by (cases t) (simp_all add: actor_type_read_def)

lemma event_row_round_trip:
  assumes "row_readable C e"
  shows "\<exists>r. insert_params C e = Some r \<and> row_to_event C now r = row_form e
     \<and> er_trajectory_id r = ev_trajectory_id e \<and> er_timestamp r = rw_rfc3339 C (ev_timestamp e)"
proof -
  obtain j where j: "rw_event_json C (ev_event e) = Some j" "rw_parse_event C j = Some (ev_event e)"
    using assms by (auto simp: row_readable_def)
  obtain r where r: "insert_params C e = Some r"
    using j(1) by (cases "extract_event_info (ev_event e)") (simp add: insert_params_def)
  moreover have "row_to_event C now r = row_form e"
    using r j assms
    by (cases "extract_event_info (ev_event e)")
      (auto simp: insert_params_def row_to_event_def row_form_def row_readable_def causality_plain_def
        unwrap_or_def[of "Some _"])
  ultimately show ?thesis
    using j(1) by (cases "extract_event_info (ev_event e)") (auto simp: insert_params_def)
qed

text \<open>The table after a run of inserts, one row an event.\<close>

definition written_rows :: "row_codec \<Rightarrow> event list \<Rightarrow> event_row list" where
  "written_rows C es = concat (map (\<lambda>e. case insert_params C e of None \<Rightarrow> [] | Some r \<Rightarrow> [r]) es)"

lemma sort_key_map: "sort_key k (map f xs) = map f (sort_key (\<lambda>x. k (f x)) xs)"
proof (induction xs)
  case (Cons x xs)
  have "insort_key k (f x) (map f ys) = map f (insort_key (\<lambda>x. k (f x)) x ys)" for ys
    by (induction ys) simp_all
  then show ?case using Cons by simp
qed simp

lemma insort_key_order:
  "\<forall>a\<in>set (x # xs). \<forall>b\<in>set (x # xs). k a \<le> k b \<longleftrightarrow> k' a \<le> k' b \<Longrightarrow> insort_key k x xs = insort_key k' x xs"
  for k :: "'a \<Rightarrow> 'b::linorder" and k' :: "'a \<Rightarrow> 'c::linorder"
  by (induction xs) auto

lemma sort_key_order:
  "\<forall>a\<in>set xs. \<forall>b\<in>set xs. k a \<le> k b \<longleftrightarrow> k' a \<le> k' b \<Longrightarrow> sort_key k xs = sort_key k' xs"
  for k :: "'a \<Rightarrow> 'b::linorder" and k' :: "'a \<Rightarrow> 'c::linorder"
proof (induction xs)
  case (Cons x xs)
  have "sort_key k xs = sort_key k' xs" using Cons by simp
  moreover have "insort_key k x (sort_key k' xs) = insort_key k' x (sort_key k' xs)"
    by (rule insort_key_order) (use Cons.prems in simp)
  ultimately show ?case by simp
qed simp

theorem read_events_written:
  assumes "\<forall>e\<in>set es. row_readable C e"
    and "\<forall>a\<in>set es. \<forall>b\<in>set es. rw_rfc3339 C (ev_timestamp a) \<le> rw_rfc3339 C (ev_timestamp b)
      \<longleftrightarrow> ev_timestamp a \<le> ev_timestamp b"
  shows "read_events C now (written_rows C es) tid
    = map row_form (sort_key ev_timestamp (filter (\<lambda>e. ev_trajectory_id e = tid) es))"
proof -
  define row where "row e = the (insert_params C e)" for e
  have row: "insert_params C e = Some (row e)" "row_to_event C now (row e) = row_form e"
      "er_trajectory_id (row e) = ev_trajectory_id e" "er_timestamp (row e) = rw_rfc3339 C (ev_timestamp e)"
    if "e \<in> set es" for e
    using event_row_round_trip[of C e now] assms(1) that by (auto simp: row_def)
  let ?run = "filter (\<lambda>e. ev_trajectory_id e = tid) es"
  have written: "written_rows C es = map row es" using row(1) by (induction es) (auto simp: written_rows_def)
  have "filter (\<lambda>r. er_trajectory_id r = tid) (map row es) = map row ?run"
    using row(3) by (auto simp: filter_map intro!: arg_cong[of _ _ "map row"] filter_cong)
  then have "run_rows (written_rows C es) tid = map row (sort_key (\<lambda>e. er_timestamp (row e)) ?run)"
    by (simp add: run_rows_def written sort_key_map)
  also have "sort_key (\<lambda>e. er_timestamp (row e)) ?run = sort_key ev_timestamp ?run"
    by (rule sort_key_order) (use row(4) assms(2) in simp)
  finally show ?thesis using row(2) by (simp add: read_events_def)
qed

end
