(* ===== verification/Scan_Store.thy ===== *)
theory Scan_Store
  imports Event_Rows
begin

text \<open>
  The scan tables (\<open>crates/storage/src/turso/scan.rs\<close>): one per scan granularity, keyed by the event
  that triggered the scan. A table is the list of its rows in \<open>rowid\<close> order; writes upsert, reads
  take the newest row of a run. A statement of the database happens whole or fails and changes
  nothing; which one fails is the fault schedule of the store. JSON text is a parameter.
\<close>

section \<open>Tables\<close>

record scan_source =
  so_event_id :: string
  so_trajectory_id :: string
  so_agent_id :: string

definition source_of :: "event \<Rightarrow> scan_source" where
  "source_of e =
     \<lparr>so_event_id = ev_event_id e, so_trajectory_id = ev_trajectory_id e, so_agent_id = ag_id (ev_agent e)\<rparr>"

text \<open>The columns every table has, and those of its own.\<close>

record 'c scan_row =
  sr_event_id :: string
  sr_trajectory_id :: string
  sr_agent_id :: string
  sr_columns :: 'c
  sr_scan_json :: string
  sr_created_at :: string

record event_scan_columns =
  ec_message_type :: string
  ec_intent :: string
  ec_description :: string
  ec_confidence :: f64

record digest_columns =
  dc_title :: string
  dc_interim :: int

record scan_columns =
  bc_outcome :: string
  bc_aggregate_severity :: string
  bc_confidence :: f64

record scan_state =
  tb_world :: world
  tb_events :: "event_scan_columns scan_row list"
  tb_digests :: "digest_columns scan_row list"
  tb_scans :: "scan_columns scan_row list"

record scan_codec =
  sk_event_json :: "event_scan_result \<Rightarrow> string option"
  sk_digest_json :: "transcript_digest \<Rightarrow> string option"
  sk_scan_json :: "transcript_scan_result \<Rightarrow> string option"
  sk_parse_event :: "string \<Rightarrow> event_scan_result option"
  sk_parse_digest :: "string \<Rightarrow> transcript_digest option"
  sk_parse_scan :: "string \<Rightarrow> transcript_scan_result option"
  sk_message_type :: "message_type \<Rightarrow> json option"
  sk_intent :: "agent_intent \<Rightarrow> json option"
  sk_outcome :: "transcript_outcome \<Rightarrow> json option"
  sk_severity :: "signal_severity \<Rightarrow> json option"

definition variant_name :: "('a \<Rightarrow> json option) \<Rightarrow> 'a \<Rightarrow> string" where
  "variant_name to_value v = unwrap_or (Option.bind (to_value v) as_str) []"

section \<open>Statements\<close>

type_synonym 'a scan_io = "scan_state \<Rightarrow> (string + 'a) \<times> scan_state"

text \<open>One statement on the scan tables, counted with the accesses of the ledger.\<close>

definition scan_op :: "faults \<Rightarrow> (scan_state \<Rightarrow> 'a \<times> scan_state) \<Rightarrow> 'a scan_io" where
  "scan_op F f s =
     (let s1 = s\<lparr>tb_world := (tb_world s)\<lparr>w_ops := Suc (w_ops (tb_world s))\<rparr>\<rparr>
      in case F (w_ops (tb_world s)) of
           Some e \<Rightarrow> (Inl e, s1)
         | None \<Rightarrow> (case f s1 of (a, s2) \<Rightarrow> (Inr a, s2)))"

definition scan_bind :: "'a scan_io \<Rightarrow> ('a \<Rightarrow> 'b scan_io) \<Rightarrow> 'b scan_io" where
  "scan_bind m f s = (case m s of (Inl e, s') \<Rightarrow> (Inl e, s') | (Inr a, s') \<Rightarrow> f a s')"

definition scan_return :: "'a \<Rightarrow> 'a scan_io" where "scan_return a s = (Inr a, s)"

text \<open>An operation of the ledger, on the same database.\<close>

definition on_ledger :: "'a io \<Rightarrow> 'a scan_io" where
  "on_ledger m s = (case m (tb_world s) of (r, w) \<Rightarrow> (r, s\<lparr>tb_world := w\<rparr>))"

text \<open>\<open>ON CONFLICT(event_id) DO UPDATE\<close>: the row keeps its place.\<close>

definition upsert_row :: "'c scan_row \<Rightarrow> 'c scan_row list \<Rightarrow> 'c scan_row list" where
  "upsert_row row rows =
     (if \<exists>r\<in>set rows. sr_event_id r = sr_event_id row
      then map (\<lambda>r. if sr_event_id r = sr_event_id row then row else r) rows
      else rows @ [row])"

definition row_of_source :: "scan_source \<Rightarrow> 'c \<Rightarrow> string \<Rightarrow> string \<Rightarrow> 'c scan_row" where
  "row_of_source source columns json now =
     \<lparr>sr_event_id = so_event_id source, sr_trajectory_id = so_trajectory_id source, sr_agent_id = so_agent_id source,
      sr_columns = columns, sr_scan_json = json, sr_created_at = now\<rparr>"

definition event_scan_columns_of :: "scan_codec \<Rightarrow> event_scan_result \<Rightarrow> event_scan_columns" where
  "event_scan_columns_of K result =
     \<lparr>ec_message_type = variant_name (sk_message_type K) (esr_message_type result),
      ec_intent = variant_name (sk_intent K) (esr_intent result),
      ec_description = esr_description result, ec_confidence = esr_confidence result\<rparr>"

definition digest_columns_of :: "transcript_digest \<Rightarrow> digest_columns" where
  "digest_columns_of digest = \<lparr>dc_title = td_title digest, dc_interim = (if td_interim digest then 1 else 0)\<rparr>"

definition scan_columns_of :: "scan_codec \<Rightarrow> transcript_scan_result \<Rightarrow> scan_columns" where
  "scan_columns_of K scan =
     \<lparr>bc_outcome = variant_name (sk_outcome K) (tsr_outcome scan),
      bc_aggregate_severity = variant_name (sk_severity K) (tsr_aggregate_severity scan),
      bc_confidence = tsr_confidence scan\<rparr>"

definition insert_event_scan ::
  "faults \<Rightarrow> scan_codec \<Rightarrow> string \<Rightarrow> scan_source \<Rightarrow> event_scan_result \<Rightarrow> unit scan_io" where
  "insert_event_scan F K now source result s =
     (case sk_event_json K result of
        None \<Rightarrow> (Inl ''Failed to serialize event scan result'', s)
      | Some json \<Rightarrow> scan_op F (\<lambda>s. ((), s\<lparr>tb_events := upsert_row (row_of_source source
           (event_scan_columns_of K result) json now) (tb_events s)\<rparr>)) s)"

definition insert_transcript_digest ::
  "faults \<Rightarrow> scan_codec \<Rightarrow> string \<Rightarrow> scan_source \<Rightarrow> transcript_digest \<Rightarrow> unit scan_io" where
  "insert_transcript_digest F K now source digest s =
     (case sk_digest_json K digest of
        None \<Rightarrow> (Inl ''Failed to serialize transcript digest'', s)
      | Some json \<Rightarrow> scan_op F (\<lambda>s. ((), s\<lparr>tb_digests := upsert_row (row_of_source source
           (digest_columns_of digest) json now) (tb_digests s)\<rparr>)) s)"

definition insert_transcript_scan ::
  "faults \<Rightarrow> scan_codec \<Rightarrow> string \<Rightarrow> scan_source \<Rightarrow> transcript_scan_result \<Rightarrow> unit scan_io" where
  "insert_transcript_scan F K now source scan s =
     (case sk_scan_json K scan of
        None \<Rightarrow> (Inl ''Failed to serialize transcript scan'', s)
      | Some json \<Rightarrow> scan_op F (\<lambda>s. ((), s\<lparr>tb_scans := upsert_row (row_of_source source
           (scan_columns_of K scan) json now) (tb_scans s)\<rparr>)) s)"

section \<open>Reads\<close>

text \<open>A payload that no longer parses is absent, and so is an empty one.\<close>

definition scan_payload :: "(string \<Rightarrow> 'a option) \<Rightarrow> 'c scan_row \<Rightarrow> 'a option" where
  "scan_payload parse r = Option.bind (optional_text (sr_scan_json r)) parse"

definition of_run :: "string \<Rightarrow> 'c scan_row list \<Rightarrow> 'c scan_row list" where
  "of_run tid rows = filter (\<lambda>r. sr_trajectory_id r = tid) rows"

text \<open>\<open>ORDER BY created_at DESC, rowid DESC\<close>.\<close>

definition newest_first :: "'c scan_row list \<Rightarrow> 'c scan_row list" where
  "newest_first rows = rev (sort_key sr_created_at rows)"

definition add_event_scan ::
  "scan_codec \<Rightarrow> (string \<rightharpoonup> event_scan_result) \<Rightarrow> 'c scan_row \<Rightarrow> (string \<rightharpoonup> event_scan_result)" where
  "add_event_scan K scans r =
     (case (optional_text (sr_event_id r), scan_payload (sk_parse_event K) r) of
        (Some i, Some result) \<Rightarrow> scans(i \<mapsto> result\<lparr>esr_embedding := None\<rparr>)
      | _ \<Rightarrow> scans)"

definition event_scans_of :: "scan_codec \<Rightarrow> string \<Rightarrow> 'c scan_row list \<Rightarrow> (string \<rightharpoonup> event_scan_result)" where
  "event_scans_of K tid rows = foldl (add_event_scan K) Map.empty (of_run tid rows)"

definition event_scans :: "faults \<Rightarrow> scan_codec \<Rightarrow> string \<Rightarrow> (string \<rightharpoonup> event_scan_result) scan_io" where
  "event_scans F K tid = scan_op F (\<lambda>s. (event_scans_of K tid (tb_events s), s))"

definition stored_digest :: "scan_codec \<Rightarrow> string \<Rightarrow> 'c scan_row list \<Rightarrow> transcript_digest option" where
  "stored_digest K tid rows = Option.bind (first_of (newest_first (of_run tid rows))) (scan_payload (sk_parse_digest K))"

definition transcript_scan_from_row :: "scan_codec \<Rightarrow> 'c scan_row \<Rightarrow> transcript_scan option" where
  "transcript_scan_from_row K r =
     (case (optional_text (sr_event_id r), scan_payload (sk_parse_scan K) r) of
        (Some i, Some result) \<Rightarrow> Some \<lparr>ts_source_event_id = i, ts_result = result\<rparr>
      | _ \<Rightarrow> None)"

definition stored_scan :: "scan_codec \<Rightarrow> string \<Rightarrow> 'c scan_row list \<Rightarrow> transcript_scan option" where
  "stored_scan K tid rows = Option.bind (first_of (newest_first (of_run tid rows))) (transcript_scan_from_row K)"

definition transcript_scans :: "faults \<Rightarrow> scan_codec \<Rightarrow> string \<Rightarrow> trajectory_scans scan_io" where
  "transcript_scans F K tid =
     scan_bind (scan_op F (\<lambda>s. (stored_digest K tid (tb_digests s), s))) (\<lambda>digest.
     scan_bind (scan_op F (\<lambda>s. (stored_scan K tid (tb_scans s), s))) (\<lambda>scan.
     scan_return \<lparr>tsc_digest = digest, tsc_scan = scan\<rparr>))"

text \<open>The batch: newest first, and the first row seen of a run stays.\<close>

definition no_scans :: trajectory_scans where "no_scans = \<lparr>tsc_digest = None, tsc_scan = None\<rparr>"

lemma no_scans_simps [simp]: "tsc_digest no_scans = None" "tsc_scan no_scans = None"
  by (simp_all add: no_scans_def)

definition get_or_insert :: "'a option \<Rightarrow> 'a \<Rightarrow> 'a option" where
  "get_or_insert old new = (case old of None \<Rightarrow> Some new | Some a \<Rightarrow> Some a)"

definition add_digest ::
  "scan_codec \<Rightarrow> (string \<rightharpoonup> trajectory_scans) \<Rightarrow> 'c scan_row \<Rightarrow> (string \<rightharpoonup> trajectory_scans)" where
  "add_digest K scans r =
     (case (optional_text (sr_trajectory_id r), scan_payload (sk_parse_digest K) r) of
        (Some tid, Some digest) \<Rightarrow>
          (let entry = unwrap_or (scans tid) no_scans
           in scans(tid \<mapsto> entry\<lparr>tsc_digest := get_or_insert (tsc_digest entry) digest\<rparr>))
      | _ \<Rightarrow> scans)"

definition add_scan ::
  "scan_codec \<Rightarrow> (string \<rightharpoonup> trajectory_scans) \<Rightarrow> 'c scan_row \<Rightarrow> (string \<rightharpoonup> trajectory_scans)" where
  "add_scan K scans r =
     (case (optional_text (sr_trajectory_id r), transcript_scan_from_row K r) of
        (Some tid, Some scan) \<Rightarrow>
          (let entry = unwrap_or (scans tid) no_scans
           in scans(tid \<mapsto> entry\<lparr>tsc_scan := get_or_insert (tsc_scan entry) scan\<rparr>))
      | _ \<Rightarrow> scans)"

definition latest_transcript_scans :: "faults \<Rightarrow> scan_codec \<Rightarrow> (string \<rightharpoonup> trajectory_scans) scan_io" where
  "latest_transcript_scans F K =
     scan_bind (scan_op F (\<lambda>s. (foldl (add_digest K) Map.empty (newest_first (tb_digests s)), s))) (\<lambda>scans.
     scan_op F (\<lambda>s. (foldl (add_scan K) scans (newest_first (tb_scans s)), s)))"

section \<open>Deletes\<close>

definition other_runs :: "string \<Rightarrow> 'c scan_row list \<Rightarrow> 'c scan_row list" where
  "other_runs tid rows = filter (\<lambda>r. sr_trajectory_id r \<noteq> tid) rows"

definition delete_scans :: "faults \<Rightarrow> string \<Rightarrow> unit scan_io" where
  "delete_scans F tid =
     scan_bind (scan_op F (\<lambda>s. ((), s\<lparr>tb_events := other_runs tid (tb_events s)\<rparr>))) (\<lambda>_.
     scan_bind (scan_op F (\<lambda>s. ((), s\<lparr>tb_digests := other_runs tid (tb_digests s)\<rparr>))) (\<lambda>_.
     scan_op F (\<lambda>s. ((), s\<lparr>tb_scans := other_runs tid (tb_scans s)\<rparr>))))"

text \<open>A run is deleted from the ledger first, then from the scan tables.\<close>

definition delete_trajectory :: "faults \<Rightarrow> string \<Rightarrow> nat scan_io" where
  "delete_trajectory F tid =
     scan_bind (on_ledger (io_op F (\<lambda>w. (length (filter (\<lambda>e. ev_trajectory_id e = tid) (w_db w)),
       w\<lparr>w_db := filter (\<lambda>e. ev_trajectory_id e \<noteq> tid) (w_db w)\<rparr>)))) (\<lambda>deleted.
     scan_bind (delete_scans F tid) (\<lambda>_. scan_return deleted))"

section \<open>Statements that succeed\<close>

lemma scan_op_Inr:
  "scan_op F f s = (Inr a, s') \<longleftrightarrow>
     F (w_ops (tb_world s)) = None
     \<and> f (s\<lparr>tb_world := (tb_world s)\<lparr>w_ops := Suc (w_ops (tb_world s))\<rparr>\<rparr>) = (a, s')"
  by (auto simp: scan_op_def Let_def split: option.splits prod.splits)

lemma scan_bind_Inr:
  "scan_bind m f s = (Inr b, s'') \<longleftrightarrow> (\<exists>a s'. m s = (Inr a, s') \<and> f a s' = (Inr b, s''))"
  by (auto simp: scan_bind_def split: prod.splits sum.splits)

lemma scan_return_Inr [simp]: "scan_return a s = (Inr b, s') \<longleftrightarrow> a = b \<and> s = s'"
  by (simp add: scan_return_def)

lemma transcript_scans_Inr:
  "transcript_scans F K tid s = (Inr r, s') \<Longrightarrow>
   r = \<lparr>tsc_digest = stored_digest K tid (tb_digests s), tsc_scan = stored_scan K tid (tb_scans s)\<rparr>"
  by (auto simp: transcript_scans_def scan_bind_Inr scan_op_Inr)

lemma latest_transcript_scans_Inr:
  "latest_transcript_scans F K s = (Inr m, s') \<Longrightarrow>
   m = foldl (add_scan K) (foldl (add_digest K) Map.empty (newest_first (tb_digests s))) (newest_first (tb_scans s))"
  by (auto simp: latest_transcript_scans_def scan_bind_Inr scan_op_Inr)

section \<open>Upserts\<close>

definition rows_keyed :: "'c scan_row list \<Rightarrow> bool" where
  "rows_keyed rows \<longleftrightarrow> distinct (map sr_event_id rows)"

definition row_at :: "string \<Rightarrow> 'c scan_row list \<Rightarrow> 'c scan_row option" where
  "row_at i rows = find (\<lambda>r. sr_event_id r = i) rows"

lemma row_at_Some: "rows_keyed rows \<Longrightarrow> row_at i rows = Some r \<longleftrightarrow> r \<in> set rows \<and> sr_event_id r = i"
  by (induction rows) (auto simp: row_at_def rows_keyed_def)

lemma row_at_snoc:
  "row_at i (rows @ [r]) = (case row_at i rows of Some x \<Rightarrow> Some x
     | None \<Rightarrow> if sr_event_id r = i then Some r else None)"
  by (induction rows) (auto simp: row_at_def)

lemma upsert_ids:
  "map sr_event_id (upsert_row row rows)
   = (if sr_event_id row \<in> sr_event_id ` set rows then map sr_event_id rows else map sr_event_id rows @ [sr_event_id row])"
  by (auto simp: upsert_row_def image_iff) metis

lemma upsert_rows_keyed: "rows_keyed rows \<Longrightarrow> rows_keyed (upsert_row row rows)"
  unfolding rows_keyed_def upsert_ids by auto

lemma upsert_set:
  "rows_keyed rows \<Longrightarrow>
   set (upsert_row row rows) = insert row {r \<in> set rows. sr_event_id r \<noteq> sr_event_id row}"
  by (auto simp: upsert_row_def)

lemma upsert_row_at:
  assumes "rows_keyed rows"
  shows "row_at i (upsert_row row rows) = (if i = sr_event_id row then Some row else row_at i rows)"
proof (cases "i = sr_event_id row")
  case True
  then show ?thesis using row_at_Some[OF upsert_rows_keyed[OF assms, of row], of i row] upsert_set[OF assms, of row] by auto
next
  case False
  have "row_at i (upsert_row row rows) = Some r \<longleftrightarrow> row_at i rows = Some r" for r
    using False by (auto simp: row_at_Some upsert_rows_keyed assms upsert_set)
  then show ?thesis using False by (metis option.exhaust)
qed

section \<open>Message scans by event\<close>

lemma event_scans_at:
  assumes "rows_keyed rows" and "i \<noteq> []"
  shows "event_scans_of K tid rows i
    = Option.bind (row_at i rows) (\<lambda>r. if sr_trajectory_id r = tid
        then map_option (\<lambda>x. x\<lparr>esr_embedding := None\<rparr>) (scan_payload (sk_parse_event K) r) else None)"
  using assms(1)
proof (induction rows rule: rev_induct)
  case (snoc r rows)
  have rows_keyed: "rows_keyed rows" "r \<notin> set rows" "\<forall>x\<in>set rows. sr_event_id x \<noteq> sr_event_id r"
    using snoc.prems by (auto simp: rows_keyed_def image_iff)
  have none: "row_at i rows = None" if "sr_event_id r = i"
    using rows_keyed(3) that by (auto simp: row_at_def find_None_iff)
  then have "row_at i (rows @ [r]) = (if sr_event_id r = i then Some r else row_at i rows)"
    by (auto simp: row_at_snoc split: option.split)
  moreover have "event_scans_of K tid rows (sr_event_id r) = None" if "sr_event_id r = i"
    using snoc.IH[OF rows_keyed(1)] none that by simp
  ultimately show ?case using snoc.IH[OF rows_keyed(1)] assms(2)
    by (auto simp: event_scans_of_def of_run_def add_event_scan_def optional_text_def
      split: option.split)
qed (simp add: event_scans_of_def of_run_def row_at_def)

section \<open>The newest row\<close>

lemma newest_first_set [simp]: "set (newest_first rows) = set rows"
  by (simp add: newest_first_def)

lemma newest_first_of_run: "of_run tid (newest_first rows) = newest_first (of_run tid rows)"
  by (simp add: newest_first_def of_run_def rev_filter[symmetric] filter_sort)

lemma newest_first_head:
  assumes "row \<in> set rows" and "\<forall>r\<in>set rows. r \<noteq> row \<longrightarrow> sr_created_at r < sr_created_at row"
  shows "first_of (newest_first rows) = Some row"
proof -
  let ?s = "sort_key sr_created_at rows"
  have ne: "?s \<noteq> []" using assms(1) by (metis empty_iff empty_set set_sort)
  then obtain xs where xs: "?s = xs @ [last ?s]" by (metis append_butlast_last_id)
  have "sorted (map sr_created_at (xs @ [last ?s]))" using sorted_sort_key[of sr_created_at rows] xs by simp
  then have "\<forall>r\<in>set xs. sr_created_at r \<le> sr_created_at (last ?s)" by (simp add: sorted_append)
  moreover have "row \<in> insert (last ?s) (set xs)" using assms(1) xs by (metis set_sort set_append Un_insert_right list.simps(15) set_empty sup_bot.right_neutral)
  moreover have "last ?s \<in> set rows" using ne by (metis last_in_set set_sort)
  ultimately have "last ?s = row" using assms(2) by force
  then show ?thesis using arg_cong[OF xs, of rev] by (simp add: newest_first_def first_of_def)
qed

lemma stored_newest:
  assumes "rows_keyed rows" and "sr_trajectory_id row = tid" and "\<forall>r\<in>set rows. sr_created_at r < sr_created_at row"
  shows "first_of (newest_first (of_run tid (upsert_row row rows))) = Some row"
  by (rule newest_first_head) (use assms in \<open>auto simp: of_run_def upsert_set\<close>)

section \<open>One run and the batch\<close>

lemma batch_digest:
  assumes "tid \<noteq> []"
  shows "tsc_digest (unwrap_or (foldl (add_digest K) m rows tid) no_scans)
      = (case tsc_digest (unwrap_or (m tid) no_scans) of Some d \<Rightarrow> Some d
         | None \<Rightarrow> find_map (scan_payload (sk_parse_digest K)) (of_run tid rows))"
    and "tsc_scan (unwrap_or (foldl (add_digest K) m rows tid) no_scans) = tsc_scan (unwrap_or (m tid) no_scans)"
  using assms
  by (induction rows arbitrary: m)
    (auto simp: of_run_def add_digest_def Let_def get_or_insert_def optional_text_def unwrap_or_def
      split: option.splits if_splits)

lemma batch_scan:
  assumes "tid \<noteq> []"
  shows "tsc_scan (unwrap_or (foldl (add_scan K) m rows tid) no_scans)
      = (case tsc_scan (unwrap_or (m tid) no_scans) of Some d \<Rightarrow> Some d
         | None \<Rightarrow> find_map (transcript_scan_from_row K) (of_run tid rows))"
    and "tsc_digest (unwrap_or (foldl (add_scan K) m rows tid) no_scans) = tsc_digest (unwrap_or (m tid) no_scans)"
  using assms
  by (induction rows arbitrary: m)
    (auto simp: of_run_def add_scan_def Let_def get_or_insert_def optional_text_def unwrap_or_def
      split: option.splits if_splits)

text \<open>A run's reads cannot differ: its newest row is readable, or none of its rows is.\<close>

definition settled :: "('c scan_row \<Rightarrow> 'a option) \<Rightarrow> 'c scan_row list \<Rightarrow> bool" where
  "settled read rows \<longleftrightarrow>
     (case first_of (newest_first rows) of None \<Rightarrow> True
      | Some r \<Rightarrow> read r \<noteq> None \<or> (\<forall>x\<in>set rows. read x = None))"

lemma settled_iff:
  "find_map read (newest_first rows) = Option.bind (first_of (newest_first rows)) read \<longleftrightarrow> settled read rows"
proof (cases "newest_first rows")
  case (Cons r rs)
  have "(\<forall>x\<in>set rows. read x = None) \<longleftrightarrow> find_map read (newest_first rows) = None"
    by (simp add: find_map_None_iff)
  then show ?thesis using Cons by (cases "read r") (auto simp: settled_def first_of_def)
qed (simp add: settled_def first_of_def)

lemma batch_reads:
  assumes "latest_transcript_scans F K s = (Inr all, s')" and "tid \<noteq> []"
  shows "unwrap_or (all tid) no_scans =
    \<lparr>tsc_digest = find_map (scan_payload (sk_parse_digest K)) (newest_first (of_run tid (tb_digests s))),
     tsc_scan = find_map (transcript_scan_from_row K) (newest_first (of_run tid (tb_scans s)))\<rparr>"
  by (rule trajectory_scans.equality)
    (simp_all add: latest_transcript_scans_Inr[OF assms(1)] batch_digest[OF assms(2)] batch_scan[OF assms(2)]
      newest_first_of_run unwrap_or_def[of None])

section \<open>Deleting a run\<close>

lemma of_run_other_runs: "of_run t (other_runs tid rows) = (if t = tid then [] else of_run t rows)"
  by (auto simp: of_run_def other_runs_def intro: filter_cong)

lemma delete_trajectory_clears:
  assumes "delete_trajectory F tid s = (Inr n, s')"
  shows "stored_digest K tid (tb_digests s') = None" "stored_scan K tid (tb_scans s') = None"
    "event_scans_of K tid (tb_events s') = Map.empty" "\<forall>e\<in>set (w_db (tb_world s')). ev_trajectory_id e \<noteq> tid"
    "t \<noteq> tid \<Longrightarrow> stored_digest K t (tb_digests s') = stored_digest K t (tb_digests s)
       \<and> stored_scan K t (tb_scans s') = stored_scan K t (tb_scans s)
       \<and> event_scans_of K t (tb_events s') = event_scans_of K t (tb_events s)"
  using assms
  by (auto simp: delete_trajectory_def delete_scans_def scan_bind_Inr scan_op_Inr on_ledger_def io_op_cases
    stored_digest_def stored_scan_def event_scans_of_def of_run_other_runs newest_first_def first_of_def split: prod.splits)

end
