(* ===== verification/Rubric.thy ===== *)
theory Rubric
  imports Event
begin

text \<open>
  The prompts of the trajectory scanner (\<open>crates/trajectory/src/rubric.rs\<close>): an event cut to a
  bound, a transcript cut to a bound by leaving out its middle. The rubric texts themselves are
  constants of the code and not modelled; JSON printing is a parameter.
\<close>

section \<open>One event\<close>

definition max_event_chars :: nat where "max_event_chars = 4000"
definition max_prompt_chars :: nat where "max_prompt_chars = 600000"
definition event_truncation_marker :: string where "event_truncation_marker = '' ... [truncated]''"

record transcript_prompt_event =
  tpe_event_index :: nat
  tpe_event_id :: string
  tpe_timestamp :: string
  tpe_agent :: agent
  tpe_event_kind :: string
  tpe_event :: trajectory_event
  tpe_actor :: actor
  tpe_causality :: causality

text \<open>\<open>DateTime::to_rfc3339\<close>, \<open>serde_json::to_string\<close> (and pretty), \<open>Debug\<close>.\<close>

record prompt_env =
  pr_rfc3339 :: "timestamp \<Rightarrow> string"
  pr_compact :: "transcript_prompt_event \<Rightarrow> string option"
  pr_pretty :: "event \<Rightarrow> string option"
  pr_debug_event :: "trajectory_event \<Rightarrow> string"
  pr_debug :: "event \<Rightarrow> string"

abbreviation feed :: char where "feed \<equiv> CHR 0x0A"
definition fence :: string where "fence = replicate 3 (CHR 0x60)"

definition render_event_prompt :: "prompt_env \<Rightarrow> event \<Rightarrow> string" where
  "render_event_prompt R e =
     ''Grade the following trajectory event using the rubric above.'' @ [feed, feed]
     @ fence @ ''json'' @ [feed] @ unwrap_or (pr_pretty R e) (pr_debug R e) @ [feed] @ fence"

definition truncate_event_json :: "string \<Rightarrow> string" where
  "truncate_event_json s =
     (if length s \<le> max_event_chars then s
      else take (floor_boundary s (max_event_chars - length event_truncation_marker)) s @ event_truncation_marker)"

definition render_transcript_event :: "prompt_env \<Rightarrow> nat \<Rightarrow> event \<Rightarrow> string" where
  "render_transcript_event R i e =
     truncate_event_json (unwrap_or (pr_compact R
       \<lparr>tpe_event_index = i, tpe_event_id = ev_event_id e, tpe_timestamp = pr_rfc3339 R (ev_timestamp e),
        tpe_agent = ev_agent e, tpe_event_kind = event_kind (ev_event e), tpe_event = ev_event e,
        tpe_actor = ev_actor e, tpe_causality = ev_causality e\<rparr>) (pr_debug_event R (ev_event e)))"

section \<open>A transcript\<close>

definition event_block :: "nat \<times> string \<Rightarrow> string" where
  "event_block b =
     ''### Event '' @ nat_to_string (fst b) @ [feed] @ fence @ ''json'' @ [feed] @ snd b
     @ [feed] @ fence @ [feed, feed]"

definition event_block_len :: "nat \<times> string \<Rightarrow> nat" where
  "event_block_len b = 10 + length (nat_to_string (fst b)) + 9 + length (snd b) + 6"

definition gap_marker :: "nat \<Rightarrow> nat \<Rightarrow> string" where
  "gap_marker head_end tail_start =
     (let omitted = tail_start - head_end
      in if omitted = 0 then []
         else ''### ... ['' @ nat_to_string omitted @ '' events omitted (events '' @ nat_to_string head_end
           @ [CHR 0xE2, CHR 0x80, CHR 0x93] @ nat_to_string (tail_start - 1) @ '') ''
           @ [CHR 0xE2, CHR 0x80, CHR 0x94] @ '' transcript too large] ...'' @ [feed, feed])"

text \<open>The two loops: how many blocks fit in front, and from where on they fit behind.\<close>

fun head_fit :: "nat \<Rightarrow> nat \<Rightarrow> nat \<Rightarrow> (nat \<times> string) list \<Rightarrow> nat \<times> nat" where
  "head_fit half used head_end [] = (head_end, used)"
| "head_fit half used head_end (b # bs) =
     (if half < used + event_block_len b then (head_end, used)
      else head_fit half (used + event_block_len b) (head_end + 1) bs)"

fun tail_fit :: "nat \<Rightarrow> nat \<Rightarrow> (nat \<times> string) list \<Rightarrow> nat \<Rightarrow> nat \<Rightarrow> nat" where
  "tail_fit available head_end blocks used 0 = 0"
| "tail_fit available head_end blocks used (Suc i) =
     (if i < head_end then Suc i
      else if available < used + event_block_len (blocks ! i) + length (gap_marker head_end i) then Suc i
      else tail_fit available head_end blocks (used + event_block_len (blocks ! i)) i)"

definition transcript_preamble :: "string \<Rightarrow> string \<Rightarrow> nat \<Rightarrow> string" where
  "transcript_preamble header tid count =
     header @ [feed] @ ''Transcript ID: '' @ tid @ [feed] @ ''Total events: '' @ nat_to_string count @ [feed, feed]"

definition render_blocks :: "string \<Rightarrow> (nat \<times> string) list \<Rightarrow> string" where
  "render_blocks preamble blocks =
     (if length preamble + sum_list (map event_block_len blocks) \<le> max_prompt_chars
      then preamble @ concat (map event_block blocks)
      else let available = max_prompt_chars - length preamble;
               (head_end, used) = head_fit (available div 2) 0 0 blocks;
               tail_start = tail_fit available head_end blocks used (length blocks)
           in preamble @ concat (map event_block (take head_end blocks)) @ gap_marker head_end tail_start
              @ concat (map event_block (drop tail_start blocks)))"

definition transcript_blocks :: "prompt_env \<Rightarrow> event list \<Rightarrow> (nat \<times> string) list" where
  "transcript_blocks R events = map (\<lambda>(i, e). (i, render_transcript_event R i e)) (enumerate 0 events)"

definition render_transcript_prompt :: "prompt_env \<Rightarrow> string \<Rightarrow> string \<Rightarrow> event list \<Rightarrow> string" where
  "render_transcript_prompt R header tid events =
     render_blocks (transcript_preamble header tid (length events)) (transcript_blocks R events)"

section \<open>Bounds\<close>

lemma event_block_length: "length (event_block b) = event_block_len b"
  by (simp add: event_block_def event_block_len_def fence_def)

lemma blocks_length: "length (concat (map event_block bs)) = sum_list (map event_block_len bs)"
  by (induction bs) (simp_all add: event_block_length)

lemma truncate_event_json_bound: "length (truncate_event_json s) \<le> max_event_chars"
proof -
  have "floor_boundary s 3984 \<le> 3984" by (rule floor_boundary_le)
  then show ?thesis by (simp add: truncate_event_json_def max_event_chars_def event_truncation_marker_def)
qed

lemma truncate_event_json_prefix:
  "s' = truncate_event_json s \<Longrightarrow> s' = s \<or> (\<exists>n. s' = take n s @ event_truncation_marker \<and> is_char_boundary s n)"
  using floor_boundary_is_boundary by (auto simp: truncate_event_json_def)

lemma nat_to_string_length: "n < 10 ^ Suc k \<Longrightarrow> length (nat_to_string n) \<le> Suc k"
proof (induction k arbitrary: n)
  case (Suc k)
  show ?case
  proof (cases "n < 10")
    case False
    have "n div 10 < 10 ^ Suc k" using Suc.prems by (simp add: less_mult_imp_div_less)
    then show ?thesis using Suc.IH [of "n div 10"] False by (subst nat_to_string.simps) simp
  qed (subst nat_to_string.simps, simp)
qed (subst nat_to_string.simps, simp)

lemma gap_marker_length:
  assumes "head_end \<le> 10 ^ 19" "tail_start \<le> 10 ^ 19" shows "length (gap_marker head_end tail_start) \<le> 200"
proof -
  have d: "length (nat_to_string k) \<le> 20" if "k \<le> 10 ^ 19" for k :: nat
    using that nat_to_string_length [of k 19] by simp
  have "tail_start - head_end \<le> 10 ^ 19" "tail_start - 1 \<le> 10 ^ 19" using assms by linarith+
  note parts = d [OF this(1)] d [OF assms(1)] d [OF this(2)]
  show ?thesis using parts by (simp add: gap_marker_def Let_def)
qed

lemma head_fit_fits:
  assumes "head_fit half used k bs = (h, used')" "used \<le> half"
  shows "k \<le> h \<and> h \<le> k + length bs \<and> used' = used + sum_list (map event_block_len (take (h - k) bs)) \<and> used' \<le> half"
  using assms
proof (induction half used k bs rule: head_fit.induct)
  case (2 half used head_end b bs)
  show ?case
  proof (cases "half < used + event_block_len b")
    case False
    then have ih: "head_end + 1 \<le> h" "h \<le> head_end + 1 + length bs"
      "used' = used + event_block_len b + sum_list (map event_block_len (take (h - (head_end + 1)) bs))" "used' \<le> half"
      using 2 by simp_all
    moreover from ih(1) have "h - head_end = Suc (h - (head_end + 1))" by simp
    ultimately show ?thesis by simp
  qed (use 2 in simp)
qed simp

lemma tail_fit_fits:
  assumes "t = tail_fit available h bs used i" "h \<le> i" "i \<le> length bs"
    "used + length (gap_marker h i) \<le> available"
  shows "h \<le> t \<and> t \<le> i \<and>
    used + sum_list (map event_block_len (drop t (take i bs))) + length (gap_marker h t) \<le> available"
  using assms
proof (induction i arbitrary: used)
  case (Suc i)
  let ?cost = "event_block_len (bs ! i)"
  show ?case
  proof (cases "i < h \<or> available < used + ?cost + length (gap_marker h i)")
    case True
    then have "t = Suc i" using Suc.prems(1) by auto
    then show ?thesis using Suc.prems by simp
  next
    case False
    then have "t = tail_fit available h bs (used + ?cost) i" using Suc.prems(1) by simp
    then have ih: "h \<le> t" "t \<le> i"
      "used + ?cost + sum_list (map event_block_len (drop t (take i bs))) + length (gap_marker h t) \<le> available"
      using Suc.IH [of "used + ?cost"] Suc.prems False by simp_all
    have "take (Suc i) bs = take i bs @ [bs ! i]" using Suc.prems(3) by (intro take_Suc_conv_app_nth) simp
    then have "drop t (take (Suc i) bs) = drop t (take i bs) @ [bs ! i]" using ih(2) Suc.prems(3) by simp
    then show ?thesis using ih by simp
  qed
qed simp

text \<open>What a prompt is: every block, or a front and a back of them with the gap named.\<close>

lemma render_blocks_parts:
  assumes small: "length preamble + 400 \<le> max_prompt_chars" and count: "length blocks \<le> 10 ^ 19"
  obtains (whole) "render_blocks preamble blocks = preamble @ concat (map event_block blocks)"
      "length (render_blocks preamble blocks) \<le> max_prompt_chars"
    | (gap) h t where "h < t" "t \<le> length blocks"
      "render_blocks preamble blocks = preamble @ concat (map event_block (take h blocks)) @ gap_marker h t
        @ concat (map event_block (drop t blocks))"
      "length (render_blocks preamble blocks) \<le> max_prompt_chars"
      "max_prompt_chars < length preamble + sum_list (map event_block_len blocks)"
proof (cases "length preamble + sum_list (map event_block_len blocks) \<le> max_prompt_chars")
  case True
  then show thesis by (intro whole) (simp_all add: render_blocks_def blocks_length)
next
  case False
  define available where "available = max_prompt_chars - length preamble"
  obtain h used where h: "head_fit (available div 2) 0 0 blocks = (h, used)" by fastforce
  define t where "t = tail_fit available h blocks used (length blocks)"
  have head: "h \<le> length blocks" "used = sum_list (map event_block_len (take h blocks))" "used \<le> available div 2"
    using head_fit_fits [OF h] by simp_all
  have "400 \<le> available" using small by (simp add: available_def)
  moreover have "length (gap_marker h (length blocks)) \<le> 200" using head(1) count by (intro gap_marker_length) simp_all
  ultimately have "used + length (gap_marker h (length blocks)) \<le> available" using head(3) by linarith
  then have tail: "h \<le> t" "t \<le> length blocks"
    "used + sum_list (map event_block_len (drop t blocks)) + length (gap_marker h t) \<le> available"
    using tail_fit_fits [OF t_def head(1) order_refl] by simp_all
  have eq: "render_blocks preamble blocks = preamble @ concat (map event_block (take h blocks)) @ gap_marker h t
      @ concat (map event_block (drop t blocks))"
    unfolding render_blocks_def Let_def if_not_P [OF False] available_def [symmetric] h prod.case t_def [symmetric] by (rule refl)
  have "h \<noteq> t"
  proof
    assume ht: "h = t"
    have "sum_list (map event_block_len blocks)
        = sum_list (map event_block_len (take h blocks)) + sum_list (map event_block_len (drop h blocks))"
      by (metis append_take_drop_id map_append sum_list_append)
    then have "sum_list (map event_block_len blocks) \<le> available" using tail(3) head(2) unfolding ht by linarith
    then show False using False small unfolding available_def by linarith
  qed
  then have "h < t" using tail(1) by simp
  moreover have "length (render_blocks preamble blocks) \<le> max_prompt_chars"
    using tail(3) head(2) small unfolding eq by (simp add: blocks_length available_def)
  moreover have "max_prompt_chars < length preamble + sum_list (map event_block_len blocks)" using False by simp
  ultimately show thesis using gap tail(2) eq by blast
qed

end
