(* ===== verification/Scanner.thy ===== *)
theory Scanner
  imports Rubric Hook_Core
begin

text \<open>
  The trajectory scanner (\<open>crates/trajectory/src/scanner.rs\<close>, \<open>error.rs\<close>): which events warrant
  which scan, and one model call under a timeout for each. The model's extractor is a parameter: a
  future of a typed value or a message, for each of the three rubrics.
\<close>

section \<open>Errors\<close>

datatype scanner_error =
    SnClientBuild string
  | SnTimeout
  | SnExtraction string
  | SnNoEvents
  | SnTrajectoryNotFound string
  | SnStore string

primrec scanner_error_kind :: "scanner_error \<Rightarrow> string" where
  "scanner_error_kind (SnClientBuild _) = ''client_build''"
| "scanner_error_kind SnTimeout = ''timeout''"
| "scanner_error_kind (SnExtraction _) = ''extraction''"
| "scanner_error_kind SnNoEvents = ''no_events''"
| "scanner_error_kind (SnTrajectoryNotFound _) = ''trajectory_not_found''"
| "scanner_error_kind (SnStore _) = ''store''"

section \<open>What an event warrants\<close>

definition should_scan_transcript_for_event :: "event \<Rightarrow> bool" where
  "should_scan_transcript_for_event e = (case ev_event e of Control c \<Rightarrow> is_terminal c | _ \<Rightarrow> False)"

definition should_digest_interim_transcript_for_event :: "event \<Rightarrow> bool" where
  "should_digest_interim_transcript_for_event e \<longleftrightarrow>
     ag_platform (ev_agent e) = ''codex''
     \<and> (case ev_event e of Observation (Prompt p) \<Rightarrow> pr_role p = RoleAssistant | _ \<Rightarrow> False)"

definition is_scanner_output :: "event \<Rightarrow> bool" where
  "is_scanner_output e = (case ev_event e of Control (Scanned _) \<Rightarrow> True | _ \<Rightarrow> False)"

section \<open>Model calls\<close>

record scanner_env =
  scn_prompts :: prompt_env
  scn_timeout :: nat
  scn_event :: "string \<Rightarrow> (string + event_scan_result) future"
  scn_digest :: "string \<Rightarrow> (string + transcript_digest) future"
  scn_scan :: "string \<Rightarrow> (string + transcript_scan_result) future"

text \<open>A call that does not end in time is a timeout, one that fails an extraction error.\<close>

definition extract_call :: "nat \<Rightarrow> (string + 'a) future \<Rightarrow> (scanner_error + 'a) awaited" where
  "extract_call timeout call =
     (case timeout_at timeout 0 call of
        Value t None \<Rightarrow> Value t (Inl SnTimeout)
      | Value t (Some (Inl e)) \<Rightarrow> Value t (Inl (SnExtraction e))
      | Value t (Some (Inr a)) \<Rightarrow> Value t (Inr a)
      | Unwinds t \<Rightarrow> Unwinds t)"

primrec awaited_ok :: "('a \<Rightarrow> 'b) \<Rightarrow> ('e + 'a) awaited \<Rightarrow> ('e + 'b) awaited" where
  "awaited_ok f (Value t r) = Value t (map_sum id f r)"
| "awaited_ok f (Unwinds t) = Unwinds t"

definition scan_event :: "scanner_env \<Rightarrow> event \<Rightarrow> (scanner_error + event_scan_result) awaited" where
  "scan_event S e = extract_call (scn_timeout S) (scn_event S (render_event_prompt (scn_prompts S) e))"

definition render_digest :: "scanner_env \<Rightarrow> string \<Rightarrow> event list \<Rightarrow> (scanner_error + transcript_digest) awaited" where
  "render_digest S tid events =
     awaited_ok (\<lambda>digest. digest\<lparr>td_trajectory_id := tid\<rparr>)
       (extract_call (scn_timeout S) (scn_digest S (render_transcript_prompt (scn_prompts S)
         ''Summarize this trajectory transcript using the rubric above.'' tid events)))"

definition digest_transcript ::
  "scanner_env \<Rightarrow> string \<Rightarrow> event list \<Rightarrow> (scanner_error + transcript_digest) awaited" where
  "digest_transcript S tid events = (if events = [] then Value 0 (Inl SnNoEvents) else render_digest S tid events)"

definition digest_interim_transcript ::
  "scanner_env \<Rightarrow> string \<Rightarrow> event list \<Rightarrow> (scanner_error + transcript_digest) awaited" where
  "digest_interim_transcript S tid events =
     (if events = [] then Value 0 (Inl SnNoEvents)
      else awaited_ok (\<lambda>digest. digest\<lparr>td_interim := True\<rparr>) (render_digest S tid events))"

definition scan_transcript ::
  "scanner_env \<Rightarrow> string \<Rightarrow> event list \<Rightarrow> (scanner_error + transcript_scan_result) awaited" where
  "scan_transcript S tid events =
     (if events = [] then Value 0 (Inl SnNoEvents)
      else extract_call (scn_timeout S) (scn_scan S (render_transcript_prompt (scn_prompts S)
        ''Analyze this trajectory transcript for behavioral signals using the rubric above.'' tid events)))"

section \<open>Every call ends within the timeout\<close>

primrec awaited_at :: "'a awaited \<Rightarrow> nat" where
  "awaited_at (Value t _) = t"
| "awaited_at (Unwinds t) = t"

lemma extract_in_time: "awaited_at (extract_call timeout call) \<le> timeout"
  by (cases call) (auto simp: extract_call_def timeout_at_def Let_def split: sum.split)

lemma awaited_ok_at [simp]: "awaited_at (awaited_ok f a) = awaited_at a"
  by (cases a) simp_all

lemma scans_in_time:
  "awaited_at (scan_event S e) \<le> scn_timeout S" "awaited_at (digest_transcript S tid es) \<le> scn_timeout S"
  "awaited_at (digest_interim_transcript S tid es) \<le> scn_timeout S"
  "awaited_at (scan_transcript S tid es) \<le> scn_timeout S"
  by (simp_all add: scan_event_def digest_transcript_def digest_interim_transcript_def scan_transcript_def
    render_digest_def extract_in_time)

text \<open>A digest is filed under the run it was asked for, whatever the model says.\<close>

lemma awaited_ok_Inr: "awaited_ok f a = Value t (Inr b) \<longleftrightarrow> (\<exists>x. a = Value t (Inr x) \<and> b = f x)"
  by (cases a) (auto split: sum.splits simp: map_sum_def)

lemma digest_pinned:
  "digest_transcript S tid es = Value t (Inr d) \<Longrightarrow> td_trajectory_id d = tid"
  "digest_interim_transcript S tid es = Value t (Inr d) \<Longrightarrow> td_trajectory_id d = tid \<and> td_interim d"
  by (auto simp: digest_transcript_def digest_interim_transcript_def render_digest_def awaited_ok_Inr
    split: if_splits)

text \<open>Scanner output warrants no transcript scan.\<close>

lemma scanner_output_warrants:
  "is_scanner_output e \<Longrightarrow> \<not> should_scan_transcript_for_event e \<and> \<not> should_digest_interim_transcript_for_event e"
  by (auto simp: is_scanner_output_def should_scan_transcript_for_event_def
    should_digest_interim_transcript_for_event_def split: trajectory_event.splits control.splits)

end
