(* ===== verification/Scan_Dispatch.thy ===== *)
theory Scan_Dispatch
  imports Scan_Store Scanner
begin

text \<open>
  Background scanning (\<open>crates/harness/src/scan.rs\<close>): a dispatched event starts at most two tasks,
  each under a permit of a bounded semaphore, which run between the steps of the harness and of each
  other. A task is the list of what it has left to do, one entry an \<open>await\<close>; every step draws the
  model's answers, the clock and the faults of the store afresh.
\<close>

section \<open>Tasks\<close>

datatype scan_act =
    ScanEvent event
  | RecordEventScan event event_scan_result
  | LoadTranscript event
  | DigestTranscript event "event list"
  | ScanTranscript event "event list"
  | LoadInterim event
  | DigestInterim event "event list"
  | RecordDigest event transcript_digest
  | RecordTranscriptScan event transcript_scan_result
  | EmitScanned event scanned

primrec act_event :: "scan_act \<Rightarrow> event" where
  "act_event (ScanEvent e) = e"
| "act_event (RecordEventScan e _) = e"
| "act_event (LoadTranscript e) = e"
| "act_event (DigestTranscript e _) = e"
| "act_event (ScanTranscript e _) = e"
| "act_event (LoadInterim e) = e"
| "act_event (DigestInterim e _) = e"
| "act_event (RecordDigest e _) = e"
| "act_event (RecordTranscriptScan e _) = e"
| "act_event (EmitScanned e _) = e"

type_synonym scan_task = "scan_act list"

record scan_draw =
  dw_scanner :: scanner_env
  dw_faults :: faults
  dw_scans :: scan_codec
  dw_rows :: row_codec
  dw_created_at :: string
  dw_now :: timestamp
  dw_fresh :: fresh
  dw_correlation :: string

definition scanner_actor :: string where "scanner_actor = ''trajectory-scanner''"

definition scanned_event :: "fresh \<Rightarrow> string \<Rightarrow> event \<Rightarrow> scanned \<Rightarrow> event" where
  "scanned_event fr corr e sc =
     with_causality
       (with_actor (event_new fr (ev_agent e) (ev_trajectory_id e) (Control (Scanned sc))) (actor_system scanner_actor))
       (caused_by (causality_default corr) (ev_event_id e))"

text \<open>What follows a model call: the result's act, nothing after an error, the end of the task after a panic.\<close>

definition after_call :: "(scanner_error + 'a) awaited \<Rightarrow> ('a \<Rightarrow> scan_task) \<Rightarrow> scan_task option" where
  "after_call call next =
     (case call of Unwinds _ \<Rightarrow> None | Value _ (Inl _) \<Rightarrow> Some [] | Value _ (Inr a) \<Rightarrow> Some (next a))"

text \<open>What follows a write to a scan table: the ledger record, if the row is there.\<close>

definition after_write :: "(string + unit) \<times> scan_state \<Rightarrow> scan_act \<Rightarrow> scan_task option \<times> scan_state" where
  "after_write r act = (case r of (Inr _, s) \<Rightarrow> (Some [act], s) | (Inl _, s) \<Rightarrow> (Some [], s))"

definition load_run :: "scan_draw \<Rightarrow> event \<Rightarrow> event list scan_io" where
  "load_run X e = on_ledger (io_op (dw_faults X)
     (\<lambda>w. (read_events (dw_rows X) (dw_now X) (written_rows (dw_rows X) (w_db w)) (ev_trajectory_id e), w)))"

definition after_load :: "(string + event list) \<times> scan_state \<Rightarrow> (event list \<Rightarrow> scan_task) \<Rightarrow> scan_task option \<times> scan_state" where
  "after_load r next =
     (case r of (Inr events, s) \<Rightarrow> (Some (if events = [] then [] else next events), s) | (Inl _, s) \<Rightarrow> (Some [], s))"

fun run_act :: "scan_draw \<Rightarrow> scan_act \<Rightarrow> scan_state \<Rightarrow> scan_task option \<times> scan_state" where
  "run_act X (ScanEvent e) s = (after_call (scan_event (dw_scanner X) e) (\<lambda>r. [RecordEventScan e r]), s)"
| "run_act X (RecordEventScan e r) s =
     after_write (insert_event_scan (dw_faults X) (dw_scans X) (dw_created_at X) (source_of e) r s)
       (EmitScanned e (ScMessage (ev_event_id e) r))"
| "run_act X (LoadTranscript e) s =
     after_load (load_run X e s) (\<lambda>events. [DigestTranscript e events, ScanTranscript e events])"
| "run_act X (DigestTranscript e events) s =
     (after_call (digest_transcript (dw_scanner X) (ev_trajectory_id e) events) (\<lambda>d. [RecordDigest e d]), s)"
| "run_act X (ScanTranscript e events) s =
     (after_call (scan_transcript (dw_scanner X) (ev_trajectory_id e) events) (\<lambda>r. [RecordTranscriptScan e r]), s)"
| "run_act X (LoadInterim e) s = after_load (load_run X e s) (\<lambda>events. [DigestInterim e events])"
| "run_act X (DigestInterim e events) s =
     (after_call (digest_interim_transcript (dw_scanner X) (ev_trajectory_id e) events) (\<lambda>d. [RecordDigest e d]), s)"
| "run_act X (RecordDigest e d) s =
     after_write (insert_transcript_digest (dw_faults X) (dw_scans X) (dw_created_at X) (source_of e) d s)
       (EmitScanned e (ScTranscriptDigest (ev_event_id e) d))"
| "run_act X (RecordTranscriptScan e r) s =
     after_write (insert_transcript_scan (dw_faults X) (dw_scans X) (dw_created_at X) (source_of e) r s)
       (EmitScanned e (ScTranscriptScan (ev_event_id e) r))"
| "run_act X (EmitScanned e sc) s =
     (Some [], snd (on_ledger (insert_event (dw_faults X) (scanned_event (dw_fresh X) (dw_correlation X) e sc)) s))"

section \<open>The dispatcher\<close>

record dispatcher =
  dp_store :: scan_state
  dp_running :: "scan_task list"
  dp_permits :: nat

definition default_max_concurrent_scans :: nat where "default_max_concurrent_scans = 4"

text \<open>The permits of a dispatcher capped at \<open>n\<close>.\<close>

definition max_concurrency :: "nat \<Rightarrow> nat" where "max_concurrency n = max n 1"

definition spawn_scan :: "scan_task \<Rightarrow> dispatcher \<Rightarrow> dispatcher" where
  "spawn_scan task d =
     (if dp_permits d = 0 then d
      else d\<lparr>dp_running := dp_running d @ [task], dp_permits := dp_permits d - 1\<rparr>)"

definition dispatch_scans :: "event \<Rightarrow> dispatcher \<Rightarrow> dispatcher" where
  "dispatch_scans e d =
     (if is_scanner_output e then d
      else spawn_scan [ScanEvent e]
        (if should_scan_transcript_for_event e then spawn_scan [LoadTranscript e] d
         else if should_digest_interim_transcript_for_event e then spawn_scan [LoadInterim e] d
         else d))"

text \<open>
  The steps: the harness appends an event it was handed and dispatches one, a task goes on, ends, or
  unwinds; a task that ends or unwinds gives its permit back. \<open>A\<close> collects the events the harness
  was handed from outside, the ones in the ledger at the start included. They may be scanner output
  too: the wire decodes a scan, and the harness stores it like any lifecycle record.
\<close>

inductive scan_step :: "event set \<Rightarrow> dispatcher \<Rightarrow> dispatcher \<Rightarrow> bool" for A where
  Dispatched: "scan_step A d (dispatch_scans e d)"
| Appended: "e \<in> A \<Longrightarrow>
    scan_step A d (d\<lparr>dp_store := snd (on_ledger (insert_event F e) (dp_store d))\<rparr>)"
| Worked: "dp_running d = before @ (act # rest) # after \<Longrightarrow> run_act X act (dp_store d) = (Some acts, s) \<Longrightarrow>
    scan_step A d (d\<lparr>dp_store := s, dp_running := before @ (acts @ rest) # after\<rparr>)"
| Unwound: "dp_running d = before @ (act # rest) # after \<Longrightarrow> run_act X act (dp_store d) = (None, s) \<Longrightarrow>
    scan_step A d (d\<lparr>dp_store := s, dp_running := before @ after, dp_permits := Suc (dp_permits d)\<rparr>)"
| Finished: "dp_running d = before @ [] # after \<Longrightarrow>
    scan_step A d (d\<lparr>dp_running := before @ after, dp_permits := Suc (dp_permits d)\<rparr>)"

inductive dispatching :: "event set \<Rightarrow> nat \<Rightarrow> dispatcher \<Rightarrow> bool" for A n where
  Started: "dp_running d = [] \<Longrightarrow> dp_permits d = max_concurrency n \<Longrightarrow>
    set (w_db (tb_world (dp_store d))) \<subseteq> A \<Longrightarrow> dispatching A n d"
| Stepped: "dispatching A n d \<Longrightarrow> scan_step A d d' \<Longrightarrow> dispatching A n d'"

inductive_cases scan_stepE [elim]: "scan_step A d d'"

section \<open>A bounded number of tasks, none of them on scanner output\<close>

lemma spawn_scan_permits: "dp_permits (spawn_scan t d) + length (dp_running (spawn_scan t d)) = dp_permits d + length (dp_running d)"
  by (simp add: spawn_scan_def)

lemma spawn_scan_running: "task \<in> set (dp_running (spawn_scan t d)) \<Longrightarrow> task = t \<or> task \<in> set (dp_running d)"
  by (auto simp: spawn_scan_def split: if_splits)

lemma dispatch_permits: "dp_permits (dispatch_scans e d) + length (dp_running (dispatch_scans e d)) = dp_permits d + length (dp_running d)"
  by (simp add: dispatch_scans_def spawn_scan_permits)

lemma dispatch_running:
  "task \<in> set (dp_running (dispatch_scans e d)) \<Longrightarrow>
   task \<in> set (dp_running d) \<or> \<not> is_scanner_output e \<and> task \<in> {[ScanEvent e], [LoadTranscript e], [LoadInterim e]}"
  by (auto simp: dispatch_scans_def split: if_splits dest!: spawn_scan_running)

lemma dispatch_store [simp]: "dp_store (dispatch_scans e d) = dp_store d"
  by (simp add: dispatch_scans_def spawn_scan_def)

lemma run_act_event:
  "run_act X act s = (Some acts, s') \<Longrightarrow> a \<in> set acts \<Longrightarrow> act_event a = act_event act"
  by (cases act) (auto simp: after_call_def after_write_def after_load_def
    split: awaited.splits sum.splits prod.splits if_splits)

lemma scans_bounded:
  "dispatching A n d \<Longrightarrow>
   length (dp_running d) \<le> max_concurrency n \<and> dp_permits d = max_concurrency n - length (dp_running d)
   \<and> (\<forall>task\<in>set (dp_running d). \<forall>act\<in>set task. \<not> is_scanner_output (act_event act))"
proof -
  assume "dispatching A n d"
  then have "dp_permits d + length (dp_running d) = max_concurrency n
      \<and> (\<forall>task\<in>set (dp_running d). \<forall>act\<in>set task. \<not> is_scanner_output (act_event act))"
  proof induction
    case (Stepped d d')
    from Stepped.hyps(2) show ?case
    proof cases
      case (Dispatched e)
      then show ?thesis using Stepped.IH dispatch_permits[of e d] dispatch_running[of _ e d] by force
    next
      case (Worked before act rest after X acts s)
      then show ?thesis using Stepped.IH run_act_event[of X act "dp_store d" acts s] by auto
    qed (use Stepped.IH in auto)
  qed simp
  then show ?thesis by auto
qed

section \<open>A record in the ledger has its row\<close>

fun scan_stored :: "scan_state \<Rightarrow> scanned \<Rightarrow> bool" where
  "scan_stored s (ScMessage i _) \<longleftrightarrow> i \<in> sr_event_id ` set (tb_events s)"
| "scan_stored s (ScTranscriptDigest i _) \<longleftrightarrow> i \<in> sr_event_id ` set (tb_digests s)"
| "scan_stored s (ScTranscriptScan i _) \<longleftrightarrow> i \<in> sr_event_id ` set (tb_scans s)"

definition ledger :: "scan_state \<Rightarrow> event list" where "ledger s = w_db (tb_world s)"

definition rows_grow :: "scan_state \<Rightarrow> scan_state \<Rightarrow> bool" where
  "rows_grow s s' \<longleftrightarrow> sr_event_id ` set (tb_events s) \<subseteq> sr_event_id ` set (tb_events s')
     \<and> sr_event_id ` set (tb_digests s) \<subseteq> sr_event_id ` set (tb_digests s')
     \<and> sr_event_id ` set (tb_scans s) \<subseteq> sr_event_id ` set (tb_scans s')"

lemma rows_grow_stored: "rows_grow s s' \<Longrightarrow> scan_stored s sc \<Longrightarrow> scan_stored s' sc"
  by (cases sc) (auto simp: rows_grow_def)

lemma upsert_row_ids: "sr_event_id ` set (upsert_row row rows) = insert (sr_event_id row) (sr_event_id ` set rows)"
proof -
  have "sr_event_id ` set (upsert_row row rows) = set (map sr_event_id (upsert_row row rows))" by simp
  then show ?thesis unfolding upsert_ids by auto
qed

lemmas scan_inserts = insert_event_scan_def insert_transcript_digest_def insert_transcript_scan_def

lemma scan_inserts_ledger:
  "insert_event_scan F K now so r s = (x, s') \<Longrightarrow> ledger s' = ledger s \<and> rows_grow s s'
     \<and> (x = Inr () \<longrightarrow> so_event_id so \<in> sr_event_id ` set (tb_events s'))"
  "insert_transcript_digest F K now so dg s = (x, s') \<Longrightarrow> ledger s' = ledger s \<and> rows_grow s s'
     \<and> (x = Inr () \<longrightarrow> so_event_id so \<in> sr_event_id ` set (tb_digests s'))"
  "insert_transcript_scan F K now so sc s = (x, s') \<Longrightarrow> ledger s' = ledger s \<and> rows_grow s s'
     \<and> (x = Inr () \<longrightarrow> so_event_id so \<in> sr_event_id ` set (tb_scans s'))"
  by (auto simp: scan_inserts scan_op_def Let_def ledger_def rows_grow_def upsert_row_ids row_of_source_def
    simp del: image_eqI split: option.splits)

lemma insert_event_db: "insert_event F e w = (x, w') \<Longrightarrow> w_db w' = w_db w \<or> w_db w' = w_db w @ [e]"
  by (auto dest: insert_event_cases)

lemma append_ledger:
  "s' = snd (on_ledger (insert_event F e) s) \<Longrightarrow> rows_grow s s' \<and> (ledger s' = ledger s \<or> ledger s' = ledger s @ [e])"
  by (auto simp: on_ledger_def ledger_def rows_grow_def dest: insert_event_db split: prod.splits)

lemma load_run_ledger: "load_run X e s = (x, s') \<Longrightarrow> ledger s' = ledger s \<and> rows_grow s s'"
  by (auto simp: load_run_def on_ledger_def io_op_def Let_def ledger_def rows_grow_def split: prod.splits option.splits)

definition acts_stored :: "scan_state \<Rightarrow> scan_task \<Rightarrow> bool" where
  "acts_stored s task \<longleftrightarrow> (\<forall>e sc. EmitScanned e sc \<in> set task \<longrightarrow> scan_stored s sc)"

definition ledger_stored :: "event set \<Rightarrow> scan_state \<Rightarrow> bool" where
  "ledger_stored A s \<longleftrightarrow> (\<forall>e\<in>set (ledger s) - A. \<forall>sc. ev_event e = Control (Scanned sc) \<longrightarrow> scan_stored s sc)"

lemma acts_stored_grow: "rows_grow s s' \<Longrightarrow> acts_stored s task \<Longrightarrow> acts_stored s' task"
  by (auto simp: acts_stored_def intro: rows_grow_stored)

lemma ledger_stored_grow:
  "rows_grow s s' \<Longrightarrow> ledger_stored A s \<Longrightarrow> ledger s' = ledger s \<Longrightarrow> ledger_stored A s'"
  by (auto simp: ledger_stored_def intro: rows_grow_stored)

lemma scanned_event_event [simp]: "ev_event (scanned_event fr corr e sc) = Control (Scanned sc)"
  by (simp add: scanned_event_def with_causality_def with_actor_def event_new_def)

lemma scanned_event_id [simp]: "ev_event_id (scanned_event fr corr e sc) = ''evt-'' @ fresh_event_uuid fr"
  by (simp add: scanned_event_def with_causality_def with_actor_def event_new_def)

lemma run_act_stored:
  assumes "run_act X act s = (acts, s')" "acts_stored s [act]" "ledger_stored A s"
  shows "rows_grow s s' \<and> ledger_stored A s' \<and> (\<forall>a. acts = Some a \<longrightarrow> acts_stored s' a)"
proof (cases act)
  case (RecordEventScan e r)
  obtain x s1 where ins: "insert_event_scan (dw_faults X) (dw_scans X) (dw_created_at X) (source_of e) r s = (x, s1)"
    by fastforce
  then show ?thesis using assms RecordEventScan scan_inserts_ledger(1)[OF ins] ledger_stored_grow[of s s']
    by (auto simp: after_write_def acts_stored_def source_of_def split: sum.splits)
next
  case (RecordDigest e r)
  obtain x s1 where ins: "insert_transcript_digest (dw_faults X) (dw_scans X) (dw_created_at X) (source_of e) r s = (x, s1)"
    by fastforce
  then show ?thesis using assms RecordDigest scan_inserts_ledger(2)[OF ins] ledger_stored_grow[of s s']
    by (auto simp: after_write_def acts_stored_def source_of_def split: sum.splits)
next
  case (RecordTranscriptScan e r)
  obtain x s1 where ins: "insert_transcript_scan (dw_faults X) (dw_scans X) (dw_created_at X) (source_of e) r s = (x, s1)"
    by fastforce
  then show ?thesis using assms RecordTranscriptScan scan_inserts_ledger(3)[OF ins] ledger_stored_grow[of s s']
    by (auto simp: after_write_def acts_stored_def source_of_def split: sum.splits)
next
  case (EmitScanned e sc)
  let ?e = "scanned_event (dw_fresh X) (dw_correlation X) e sc"
  have s': "s' = snd (on_ledger (insert_event (dw_faults X) ?e) s)" "acts = Some []" using assms(1) EmitScanned by auto
  have sc: "scan_stored s sc" using assms(2) EmitScanned by (auto simp: acts_stored_def)
  note grow = append_ledger[OF s'(1)]
  have "ledger_stored A s'" using grow assms(3) sc rows_grow_stored[of s s']
    by (auto simp: ledger_stored_def)
  then show ?thesis using grow s'(2) by (simp add: acts_stored_def)
next
  case (LoadTranscript e)
  obtain x s1 where ld: "load_run X e s = (x, s1)" by fastforce
  then show ?thesis using assms LoadTranscript load_run_ledger[OF ld] ledger_stored_grow[of s s']
    by (auto simp: after_load_def acts_stored_def split: sum.splits if_splits)
next
  case (LoadInterim e)
  obtain x s1 where ld: "load_run X e s = (x, s1)" by fastforce
  then show ?thesis using assms LoadInterim load_run_ledger[OF ld] ledger_stored_grow[of s s']
    by (auto simp: after_load_def acts_stored_def split: sum.splits if_splits)
qed (use assms in \<open>auto simp: after_call_def acts_stored_def rows_grow_def split: awaited.splits sum.splits\<close>)

lemma dispatching_stored:
  "dispatching A n d \<Longrightarrow> ledger_stored A (dp_store d) \<and> (\<forall>task\<in>set (dp_running d). acts_stored (dp_store d) task)"
proof (induction rule: dispatching.induct)
  case (Started d)
  then show ?case by (auto simp: ledger_stored_def ledger_def)
next
  case (Stepped d d')
  from Stepped.hyps(2) show ?case
  proof cases
    case (Dispatched e)
    then show ?thesis using Stepped.IH dispatch_running[of _ e d] by (fastforce simp: acts_stored_def)
  next
    case (Appended e F)
    let ?s = "dp_store d'"
    have s: "?s = snd (on_ledger (insert_event F e) (dp_store d))" using Appended by simp
    note grow = append_ledger[OF s]
    have "ledger_stored A ?s" using grow Stepped.IH Appended(2) rows_grow_stored[of "dp_store d" ?s]
      by (auto simp: ledger_stored_def)
    then show ?thesis using Appended(1) grow Stepped.IH acts_stored_grow[of "dp_store d" ?s] by auto
  next
    case (Worked before act rest after X acts s)
    have "acts_stored (dp_store d) [act]" using Stepped.IH Worked(2) by (auto simp: acts_stored_def)
    note ran = run_act_stored[OF Worked(3) this conjunct1[OF Stepped.IH]]
    then have "acts_stored s (acts @ rest)" using Stepped.IH Worked(2) rows_grow_stored[of "dp_store d" s]
      by (auto simp: acts_stored_def)
    then show ?thesis using ran Worked Stepped.IH acts_stored_grow[of "dp_store d" s] by auto
  next
    case (Unwound before act rest after X s)
    have "acts_stored (dp_store d) [act]" using Stepped.IH Unwound(2) by (auto simp: acts_stored_def)
    note ran = run_act_stored[OF Unwound(3) this conjunct1[OF Stepped.IH]]
    then show ?thesis using Unwound Stepped.IH acts_stored_grow[of "dp_store d" s] by auto
  next
    case (Finished before after)
    then show ?thesis using Stepped.IH by auto
  qed
qed

section \<open>A task ends\<close>

primrec act_weight :: "scan_act \<Rightarrow> nat" where
  "act_weight (ScanEvent _) = 3"
| "act_weight (RecordEventScan _ _) = 2"
| "act_weight (LoadTranscript _) = 7"
| "act_weight (DigestTranscript _ _) = 3"
| "act_weight (ScanTranscript _ _) = 3"
| "act_weight (LoadInterim _) = 4"
| "act_weight (DigestInterim _ _) = 3"
| "act_weight (RecordDigest _ _) = 2"
| "act_weight (RecordTranscriptScan _ _) = 2"
| "act_weight (EmitScanned _ _) = 1"

definition task_weight :: "scan_task \<Rightarrow> nat" where "task_weight task = sum_list (map act_weight task)"

lemma run_act_weight:
  "run_act X act s = (Some acts, s') \<Longrightarrow> task_weight acts < act_weight act"
  by (cases act) (auto simp: after_call_def after_write_def after_load_def task_weight_def
    split: awaited.splits sum.splits prod.splits if_splits)

text \<open>A task run without interruption, on the draws in their order.\<close>

function run_task :: "(nat \<Rightarrow> scan_draw) \<Rightarrow> scan_task \<Rightarrow> scan_state \<Rightarrow> scan_state" where
  "run_task D [] s = s"
| "run_task D (act # rest) s =
     (case run_act (D 0) act s of
        (Some acts, s') \<Rightarrow> run_task (\<lambda>i. D (Suc i)) (acts @ rest) s'
      | (None, s') \<Rightarrow> s')"
  by pat_completeness auto

termination
  by (relation "measure (\<lambda>(D, task, s). task_weight task)")
    (auto simp: task_weight_def dest!: run_act_weight [OF sym])

lemma run_task_steps:
  "dp_running d = before @ task # after \<Longrightarrow>
   (scan_step A)\<^sup>*\<^sup>* d (d\<lparr>dp_store := run_task D task (dp_store d), dp_running := before @ after,
     dp_permits := Suc (dp_permits d)\<rparr>)"
proof (induction D task "dp_store d" arbitrary: d rule: run_task.induct)
  case (1 D)
  then show ?case using Finished [OF 1, of A] by auto
next
  case (2 D act rest)
  obtain r s' where ran: "run_act (D 0) act (dp_store d) = (r, s')" by fastforce
  show ?case
  proof (cases r)
    case None
    then show ?thesis using Unwound [OF 2(2)] ran by auto
  next
    case (Some acts)
    let ?d = "d\<lparr>dp_store := s', dp_running := before @ (acts @ rest) # after\<rparr>"
    have "scan_step A d ?d" using Worked [OF 2(2)] ran Some by simp
    moreover have "dp_running d' = before @ (acts @ rest) # after \<Longrightarrow> dp_store d' = s' \<Longrightarrow>
        (scan_step A)\<^sup>*\<^sup>* d' (d'\<lparr>dp_store := run_task (\<lambda>i. D (Suc i)) (acts @ rest) s', dp_running := before @ after,
          dp_permits := Suc (dp_permits d')\<rparr>)" for d'
      using 2(1) ran Some by simp
    note this [of ?d]
    ultimately show ?thesis using ran Some by (simp add: converse_rtranclp_into_rtranclp)
  qed
qed

lemma dispatching_steps: "(scan_step A)\<^sup>*\<^sup>* d d' \<Longrightarrow> dispatching A n d \<Longrightarrow> dispatching A n d'"
  by (induction rule: rtranclp_induct) (auto intro: Stepped)

lemma dispatch_spawns:
  assumes "0 < dp_permits d" "should_scan_transcript_for_event e"
  shows "\<exists>after. dp_running (dispatch_scans e d) = dp_running d @ [LoadTranscript e] # after"
  using assms scanner_output_warrants [of e] by (auto simp: dispatch_scans_def spawn_scan_def)

text \<open>
  The task of a terminal event on a store without faults, the model answering both calls, and the
  ids drawn for the two records not in use.
\<close>

definition ids_drawn :: "scan_draw \<Rightarrow> scan_draw \<Rightarrow> scan_state \<Rightarrow> bool" where
  "ids_drawn X Y s \<longleftrightarrow>
     (let x = ''evt-'' @ fresh_event_uuid (dw_fresh X); y = ''evt-'' @ fresh_event_uuid (dw_fresh Y)
      in y \<noteq> x \<and> x \<notin> event_ids (ledger s) \<and> y \<notin> event_ids (ledger s))"

lemma terminal_task:
  assumes faults: "\<And>i. dw_faults (D i) = (\<lambda>_. None)" and codec: "\<And>i. dw_scans (D i) = K"
    and ids: "ids_drawn (D 3) (D 6) s"
    and events: "read_events (dw_rows (D 0)) (dw_now (D 0)) (written_rows (dw_rows (D 0)) (ledger s)) (ev_trajectory_id e) = events"
      "events \<noteq> []"
    and digest: "digest_transcript (dw_scanner (D 1)) (ev_trajectory_id e) events = Value t (Inr d)" "sk_digest_json K d = Some jd"
    and scan: "scan_transcript (dw_scanner (D 4)) (ev_trajectory_id e) events = Value t' (Inr r)" "sk_scan_json K r = Some jr"
  shows "tb_digests (run_task D [LoadTranscript e] s)
      = upsert_row (row_of_source (source_of e) (digest_columns_of d) jd (dw_created_at (D 2))) (tb_digests s)"
    "tb_scans (run_task D [LoadTranscript e] s)
      = upsert_row (row_of_source (source_of e) (scan_columns_of K r) jr (dw_created_at (D 5))) (tb_scans s)"
    "ledger (run_task D [LoadTranscript e] s) = ledger s
      @ [scanned_event (dw_fresh (D 3)) (dw_correlation (D 3)) e (ScTranscriptDigest (ev_event_id e) d),
         scanned_event (dw_fresh (D 6)) (dw_correlation (D 6)) e (ScTranscriptScan (ev_event_id e) r)]"
  using assms
  by (simp_all add: load_run_def after_load_def on_ledger_def io_op_def Let_def after_call_def after_write_def
    insert_transcript_digest_def insert_transcript_scan_def scan_op_def insert_event_def insert_row_def register_agent_def
    io_bind_def ledger_def ids_drawn_def numeral_eq_Suc)

end
