(* ===== verification/Settings.thy ===== *)
theory Settings
  imports Install_Claude_Files
begin

text \<open>
  The layered configuration (\<open>crates/settings/src/lib.rs\<close>) and the names of the model providers
  (\<open>crates/provider/src/provider.rs\<close>): a project and a user directory, one settings file in each
  merged key by key, policy assets resolved one by one. Reading TOML and socket addresses are
  parameters, and so is the file system.
\<close>

section \<open>Providers\<close>

datatype provider =
    PvAnthropic | PvAzure | PvCohere | PvDeepSeek | PvGemini | PvGroq | PvHuggingFace | PvHyperbolic | PvMira
  | PvMoonshot | PvOpenAI | PvOpenRouter | PvOllama | PvPerplexity | PvTogether | PvVertexAi | PvXai

definition every_provider :: "provider list" where
  "every_provider =
     [PvAnthropic, PvAzure, PvCohere, PvDeepSeek, PvGemini, PvGroq, PvHuggingFace, PvHyperbolic, PvMira,
      PvMoonshot, PvOpenAI, PvOpenRouter, PvOllama, PvPerplexity, PvTogether, PvVertexAi, PvXai]"

primrec provider_name :: "provider \<Rightarrow> string" where
  "provider_name PvAnthropic = ''anthropic''"
| "provider_name PvAzure = ''azure''"
| "provider_name PvCohere = ''cohere''"
| "provider_name PvDeepSeek = ''deepseek''"
| "provider_name PvGemini = ''gemini''"
| "provider_name PvGroq = ''groq''"
| "provider_name PvHuggingFace = ''huggingface''"
| "provider_name PvHyperbolic = ''hyperbolic''"
| "provider_name PvMira = ''mira''"
| "provider_name PvMoonshot = ''moonshot''"
| "provider_name PvOpenAI = ''openai''"
| "provider_name PvOpenRouter = ''openrouter''"
| "provider_name PvOllama = ''ollama''"
| "provider_name PvPerplexity = ''perplexity''"
| "provider_name PvTogether = ''together''"
| "provider_name PvVertexAi = ''vertexai''"
| "provider_name PvXai = ''xai''"

definition provider_table :: "(string \<times> provider) list" where
  "provider_table = map (\<lambda>p. (provider_name p, p)) every_provider
     @ [(''hf'', PvHuggingFace), (''openai-api'', PvOpenAI), (''openai-compatible'', PvOpenAI),
        (''vertex'', PvVertexAi), (''vertex-ai'', PvVertexAi), (''vertex_ai'', PvVertexAi)]"

definition provider_from_str :: "string \<Rightarrow> provider option" where
  "provider_from_str s = map_of provider_table (to_ascii_lowercase (trim s))"

section \<open>One scope\<close>

text \<open>A model table as written, with the provider not yet read, and as validated.\<close>

record 'p model_keys =
  mk_provider :: "'p option"
  mk_base_url :: "string option"
  mk_project :: "string option"
  mk_location :: "string option"
  mk_model :: "string option"
  mk_temperature :: "32 word option"
  mk_api_key :: "string option"

type_synonym raw_model = "string model_keys"
type_synonym model_layer = "provider model_keys"

record raw_settings =
  rs_addr :: "string option"
  rs_guardrails_enabled :: "bool option"
  rs_guardrails :: raw_model
  rs_data :: raw_model
  rs_policy :: raw_model
  rs_scanner_enabled :: "bool option"
  rs_scanner :: raw_model

record layer =
  ly_addr :: "string option"
  ly_shared :: model_layer
  ly_data :: model_layer
  ly_policy :: model_layer
  ly_scanner :: model_layer
  ly_guardrails_enabled :: "bool option"
  ly_scanner_enabled :: "bool option"

definition no_keys :: "'p model_keys" where
  "no_keys = \<lparr>mk_provider = None, mk_base_url = None, mk_project = None, mk_location = None, mk_model = None,
     mk_temperature = None, mk_api_key = None\<rparr>"

definition empty_layer :: layer where
  "empty_layer = \<lparr>ly_addr = None, ly_shared = no_keys, ly_data = no_keys, ly_policy = no_keys, ly_scanner = no_keys,
     ly_guardrails_enabled = None, ly_scanner_enabled = None\<rparr>"

text \<open>\<open>Option::or\<close>, and field by field.\<close>

definition opt_or :: "'a option \<Rightarrow> 'a option \<Rightarrow> 'a option" where
  "opt_or a b = (case a of Some x \<Rightarrow> Some x | None \<Rightarrow> b)"

definition model_or :: "'p model_keys \<Rightarrow> 'p model_keys \<Rightarrow> 'p model_keys" where
  "model_or a b =
     \<lparr>mk_provider = opt_or (mk_provider a) (mk_provider b), mk_base_url = opt_or (mk_base_url a) (mk_base_url b),
      mk_project = opt_or (mk_project a) (mk_project b), mk_location = opt_or (mk_location a) (mk_location b),
      mk_model = opt_or (mk_model a) (mk_model b), mk_temperature = opt_or (mk_temperature a) (mk_temperature b),
      mk_api_key = opt_or (mk_api_key a) (mk_api_key b)\<rparr>"

definition layer_or :: "layer \<Rightarrow> layer \<Rightarrow> layer" where
  "layer_or a b =
     \<lparr>ly_addr = opt_or (ly_addr a) (ly_addr b), ly_shared = model_or (ly_shared a) (ly_shared b),
      ly_data = model_or (ly_data a) (ly_data b), ly_policy = model_or (ly_policy a) (ly_policy b),
      ly_scanner = model_or (ly_scanner a) (ly_scanner b),
      ly_guardrails_enabled = opt_or (ly_guardrails_enabled a) (ly_guardrails_enabled b),
      ly_scanner_enabled = opt_or (ly_scanner_enabled a) (ly_scanner_enabled b)\<rparr>"

datatype settings_error =
    SeRead string
  | SeParse string
  | SeProvider string string string
  | SeAddr string string
  | SeMissingConfigDir string
  | SeNoConfigDir
  | SeMissingAsset string "string list"

record settings_env =
  sv_is_dir :: "string \<Rightarrow> bool"
  sv_is_file :: "string \<Rightarrow> bool"
  sv_read :: "string \<Rightarrow> string option"
  sv_parse :: "string \<Rightarrow> raw_settings option"
  sv_parse_addr :: "string \<Rightarrow> string option"
  sv_var :: "string \<Rightarrow> string option"
  sv_cwd :: "string option"
  sv_home :: "string option"

definition validate_model :: "string \<Rightarrow> raw_model \<Rightarrow> settings_error + model_layer" where
  "validate_model path raw =
     bind_result
       (case mk_provider raw of
          None \<Rightarrow> Inr None
        | Some value \<Rightarrow>
            (case provider_from_str value of
               None \<Rightarrow> Inl (SeProvider path value (join '', '' (map provider_name every_provider)))
             | Some p \<Rightarrow> Inr (Some p)))
       (\<lambda>provider. Inr
          \<lparr>mk_provider = provider, mk_base_url = mk_base_url raw, mk_project = mk_project raw,
           mk_location = mk_location raw, mk_model = mk_model raw, mk_temperature = mk_temperature raw,
           mk_api_key = mk_api_key raw\<rparr>)"

definition validate_settings :: "settings_env \<Rightarrow> string \<Rightarrow> raw_settings \<Rightarrow> settings_error + layer" where
  "validate_settings V path raw =
     bind_result
       (case rs_addr raw of
          None \<Rightarrow> Inr None
        | Some value \<Rightarrow> map_sum id Some (ok_or (sv_parse_addr V value) (SeAddr path value))) (\<lambda>addr.
     bind_result (validate_model path (rs_guardrails raw)) (\<lambda>shared.
     bind_result (validate_model path (rs_data raw)) (\<lambda>data.
     bind_result (validate_model path (rs_policy raw)) (\<lambda>policy.
     bind_result (validate_model path (rs_scanner raw)) (\<lambda>scanner.
     Inr \<lparr>ly_addr = addr, ly_shared = shared, ly_data = data, ly_policy = policy, ly_scanner = scanner,
       ly_guardrails_enabled = rs_guardrails_enabled raw, ly_scanner_enabled = rs_scanner_enabled raw\<rparr>)))))"

definition load_layer :: "settings_env \<Rightarrow> string option \<Rightarrow> settings_error + layer" where
  "load_layer V path =
     (case path of
        None \<Rightarrow> Inr empty_layer
      | Some p \<Rightarrow>
          bind_result (ok_or (sv_read V p) (SeRead p)) (\<lambda>txt.
          bind_result (ok_or (sv_parse V txt) (SeParse p)) (validate_settings V p)))"

lemma load_layer_None [simp]: "load_layer V None = Inr empty_layer"
  by (simp add: load_layer_def)

section \<open>Resolved settings\<close>

record model_config =
  mc_provider :: provider
  mc_api_key :: string
  mc_base_url :: "string option"
  mc_project :: "string option"
  mc_location :: "string option"
  mc_model :: string
  mc_temperature :: "32 word"

definition model_default :: "string \<Rightarrow> model_config" where
  "model_default model =
     \<lparr>mc_provider = PvOllama, mc_api_key = [], mc_base_url = Some ''http://localhost:11434'', mc_project = None,
      mc_location = None, mc_model = model, mc_temperature = 0\<rparr>"

definition guardrail_default :: model_config where "guardrail_default = model_default ''gpt-oss-safeguard:20b''"
definition scanner_default :: model_config where "scanner_default = model_default ''gpt-oss:20b''"
definition scanner_default_timeout :: nat where "scanner_default_timeout = 180"

record settings =
  st_addr :: "string option"
  st_guardrails_enabled :: bool
  st_data_model :: model_config
  st_policy_model :: model_config
  st_scanner_enabled :: bool
  st_scanner :: model_config
  st_scanner_timeout :: nat
  st_sources :: "string list"
  st_config_dirs :: "string list"

definition resolve_base_url ::
  "string option \<Rightarrow> provider \<Rightarrow> provider \<Rightarrow> string option \<Rightarrow> string option" where
  "resolve_base_url configured provider default_provider default_url =
     (case configured of
        Some url \<Rightarrow> Some url
      | None \<Rightarrow> if provider = default_provider then default_url else None)"

definition env_override :: "settings_env \<Rightarrow> string \<Rightarrow> string option" where
  "env_override V variable = (case sv_var V variable of Some [] \<Rightarrow> None | v \<Rightarrow> v)"

definition resolve_model :: "string option \<Rightarrow> model_config \<Rightarrow> model_layer \<Rightarrow> model_config" where
  "resolve_model override defaults ly =
     (let provider = unwrap_or (mk_provider ly) (mc_provider defaults)
      in \<lparr>mc_provider = provider,
          mc_api_key = unwrap_or (opt_or override (mk_api_key ly)) (mc_api_key defaults),
          mc_base_url = resolve_base_url (mk_base_url ly) provider (mc_provider defaults) (mc_base_url defaults),
          mc_project = opt_or (mk_project ly) (mc_project defaults),
          mc_location = opt_or (mk_location ly) (mc_location defaults),
          mc_model = unwrap_or (mk_model ly) (mc_model defaults),
          mc_temperature = unwrap_or (mk_temperature ly) (mc_temperature defaults)\<rparr>)"

definition api_key_env :: string where "api_key_env = ''SONDERA_GUARDRAIL_API_KEY''"
definition scanner_api_key_env :: string where "scanner_api_key_env = ''SONDERA_SCANNER_API_KEY''"

definition scanner_settings :: "settings_env \<Rightarrow> bool option \<Rightarrow> model_layer \<Rightarrow> bool \<times> model_config \<times> nat" where
  "scanner_settings V enabled ly =
     (unwrap_or enabled False, resolve_model (env_override V scanner_api_key_env) scanner_default ly,
      scanner_default_timeout)"

definition settings_from_layer :: "settings_env \<Rightarrow> layer \<Rightarrow> string list \<Rightarrow> string list \<Rightarrow> settings" where
  "settings_from_layer V ly sources dirs =
     (let data = model_or (ly_data ly) (ly_shared ly);
          policy = model_or (ly_policy ly) (ly_shared ly);
          api_key = env_override V api_key_env;
          (scanner_enabled, scanner, timeout) = scanner_settings V (ly_scanner_enabled ly) (ly_scanner ly)
      in \<lparr>st_addr = ly_addr ly, st_guardrails_enabled = unwrap_or (ly_guardrails_enabled ly) False,
          st_data_model = resolve_model api_key guardrail_default data,
          st_policy_model = resolve_model api_key guardrail_default policy,
          st_scanner_enabled = scanner_enabled, st_scanner = scanner, st_scanner_timeout = timeout,
          st_sources = sources, st_config_dirs = dirs\<rparr>)"

section \<open>Finding the files\<close>

definition config_dir :: string where "config_dir = ''.sondera''"
definition config_file :: string where "config_file = ''sondera.toml''"

definition user_config_dir :: "string \<Rightarrow> string" where "user_config_dir home = path_join home config_dir"

definition find_project_config_dir :: "settings_env \<Rightarrow> string \<Rightarrow> string option" where
  "find_project_config_dir V start =
     find (sv_is_dir V) (map (\<lambda>ancestor. path_join ancestor config_dir) (path_ancestors start))"

definition keep_if :: "('a \<Rightarrow> bool) \<Rightarrow> 'a option \<Rightarrow> 'a option" where
  "keep_if P x = Option.bind x (\<lambda>a. if P a then Some a else None)"

definition opt_list :: "'a option \<Rightarrow> 'a list" where "opt_list x = (case x of None \<Rightarrow> [] | Some a \<Rightarrow> [a])"

definition settings_file :: "settings_env \<Rightarrow> string option \<Rightarrow> string option" where
  "settings_file V dir =
     Option.bind (keep_if (sv_is_dir V) dir) (\<lambda>d. keep_if (sv_is_file V) (Some (path_join d config_file)))"

definition load_dirs :: "settings_env \<Rightarrow> string option \<Rightarrow> string option \<Rightarrow> settings_error + settings" where
  "load_dirs V user project =
     bind_result (load_layer V (settings_file V user)) (\<lambda>user_layer.
     bind_result (load_layer V (settings_file V project)) (\<lambda>project_layer.
     Inr (settings_from_layer V (layer_or project_layer user_layer)
       (opt_list (settings_file V project) @ opt_list (settings_file V user))
       (opt_list (keep_if (sv_is_dir V) project) @ opt_list (keep_if (sv_is_dir V) user)))))"

definition load_with_config_dir :: "settings_env \<Rightarrow> string option \<Rightarrow> settings_error + settings" where
  "load_with_config_dir V dir =
     (case dir of
        Some d \<Rightarrow> (if \<not> sv_is_dir V d then Inl (SeMissingConfigDir d)
                   else load_dirs V (map_option user_config_dir (sv_home V)) (Some d))
      | None \<Rightarrow> load_dirs V (map_option user_config_dir (sv_home V))
          (Option.bind (sv_cwd V) (find_project_config_dir V)))"

definition load_from :: "settings_env \<Rightarrow> string option \<Rightarrow> string option \<Rightarrow> settings_error + settings" where
  "load_from V home start =
     load_dirs V (map_option user_config_dir home) (Option.bind start (find_project_config_dir V))"

section \<open>Policy assets\<close>

definition pick_candidate :: "string list \<Rightarrow> string \<Rightarrow> string" where
  "pick_candidate relative dir = foldl path_join dir relative"

definition pick :: "string list \<Rightarrow> string list \<Rightarrow> (string \<Rightarrow> bool) \<Rightarrow> settings_error + string" where
  "pick dirs relative exists =
     (case find exists (map (pick_candidate relative) dirs) of
        Some candidate \<Rightarrow> Inr candidate
      | None \<Rightarrow> Inl (SeMissingAsset (join ''/'' relative) (map (pick_candidate relative) dirs)))"

record policy_assets =
  pa_cedar_dir :: string
  pa_ifc_template :: string
  pa_policy_template :: string

definition resolve_assets :: "settings_env \<Rightarrow> string list \<Rightarrow> settings_error + policy_assets" where
  "resolve_assets V dirs =
     (if dirs = [] then Inl SeNoConfigDir
      else bind_result (pick dirs [''policies'', ''cedar''] (sv_is_dir V)) (\<lambda>cedar.
           bind_result (pick dirs [''ifc.toml''] (sv_is_file V)) (\<lambda>ifc.
           bind_result (pick dirs [''policies.toml''] (sv_is_file V)) (\<lambda>policy.
           Inr \<lparr>pa_cedar_dir = cedar, pa_ifc_template = ifc, pa_policy_template = policy\<rparr>))))"

definition assets_in_config_dir :: "settings_env \<Rightarrow> string \<Rightarrow> settings_error + policy_assets" where
  "assets_in_config_dir V dir = resolve_assets V [dir]"

section \<open>Providers read back\<close>

lemma provider_round_trip: "provider_from_str (provider_name p) = Some p"
  by (cases p) (simp_all add: provider_from_str_def provider_table_def every_provider_def to_ascii_lowercase_def
    ascii_lower_def is_upper_def trim_def is_whitespace_def is_cont_def)

section \<open>The merge\<close>

lemma opt_or_simps [simp]: "opt_or None b = b" "opt_or a None = a" "opt_or (Some x) b = Some x"
  by (simp_all add: opt_or_def split: option.split)

lemma opt_or_assoc [simp]: "opt_or (opt_or a b) c = opt_or a (opt_or b c)"
  by (cases a) simp_all

lemma model_or_assoc: "model_or (model_or a b) c = model_or a (model_or b c)"
  by (simp add: model_or_def)

lemma model_or_empty: "model_or no_keys a = a" "model_or a no_keys = a"
  by (simp_all add: model_or_def no_keys_def)

lemma layer_or_assoc: "layer_or (layer_or a b) c = layer_or a (layer_or b c)"
  by (simp add: layer_or_def model_or_assoc)

lemma layer_or_empty: "layer_or empty_layer a = a" "layer_or a empty_layer = a"
  by (simp_all add: layer_or_def empty_layer_def model_or_empty)

text \<open>A value is the first one set along a chain.\<close>

lemma first_set: "opt_or a b = find_map id [a, b]"
  by (cases a; cases b) simp_all

lemma resolve_model_keys:
  "mc_model (resolve_model k d ly) = unwrap_or (mk_model ly) (mc_model d)"
  "mc_temperature (resolve_model k d ly) = unwrap_or (mk_temperature ly) (mc_temperature d)"
  "mc_provider (resolve_model k d ly) = unwrap_or (mk_provider ly) (mc_provider d)"
  "mc_api_key (resolve_model k d ly) = unwrap_or (opt_or k (mk_api_key ly)) (mc_api_key d)"
  "mc_project (resolve_model k d ly) = opt_or (mk_project ly) (mc_project d)"
  "mc_location (resolve_model k d ly) = opt_or (mk_location ly) (mc_location d)"
  "mc_base_url (resolve_model k d ly) = resolve_base_url (mk_base_url ly) (unwrap_or (mk_provider ly) (mc_provider d)) (mc_provider d) (mc_base_url d)"
  by (simp_all add: resolve_model_def Let_def)

text \<open>The default endpoint goes with the default provider and with no other.\<close>

lemma base_url_not_inherited:
  "mc_provider (resolve_model k d ly) \<noteq> mc_provider d \<Longrightarrow> mc_base_url (resolve_model k d ly) = mk_base_url ly"
  by (simp add: resolve_model_def resolve_base_url_def Let_def split: option.split)

text \<open>Nothing set is nothing enabled and everything local.\<close>

lemma load_nothing:
  assumes "\<And>d. sv_is_dir V d \<Longrightarrow> \<not> sv_is_file V (path_join d config_file)"
  shows "load_dirs V user project = Inr (settings_from_layer V empty_layer []
    (opt_list (keep_if (sv_is_dir V) project) @ opt_list (keep_if (sv_is_dir V) user)))"
proof -
  have "settings_file V x = None" for x
    using assms by (cases x) (auto simp: settings_file_def keep_if_def)
  then show ?thesis by (simp add: load_dirs_def load_layer_def layer_or_empty opt_list_def [of None])
qed

text \<open>
  The value of a key for one guardrail: the guardrail's own table before the shared one, whichever
  file each is in, and the project's file before the user's.
\<close>

definition key_chain :: "('p model_keys \<Rightarrow> 'a option) \<Rightarrow> (layer \<Rightarrow> 'p model_keys) \<Rightarrow> (layer \<Rightarrow> 'p model_keys)
    \<Rightarrow> layer \<Rightarrow> layer \<Rightarrow> 'a option" where
  "key_chain key own common project user =
     find_map id [key (own project), key (own user), key (common project), key (common user)]"

lemma find_map_id_chain: "find_map id [a, b, c, d] = opt_or a (opt_or b (opt_or c d))"
  by (cases a; cases b; cases c; cases d) simp_all

lemma load_dirs_Inr:
  "load_dirs V user project = Inr s \<longleftrightarrow>
   (\<exists>U P. load_layer V (settings_file V user) = Inr U \<and> load_layer V (settings_file V project) = Inr P
     \<and> s = settings_from_layer V (layer_or P U) (opt_list (settings_file V project) @ opt_list (settings_file V user))
       (opt_list (keep_if (sv_is_dir V) project) @ opt_list (keep_if (sv_is_dir V) user)))"
  by (auto simp: load_dirs_def bind_result_Inr_iff)

lemma settings_models:
  "st_data_model (settings_from_layer V ly src dirs)
     = resolve_model (env_override V api_key_env) guardrail_default (model_or (ly_data ly) (ly_shared ly))"
  "st_policy_model (settings_from_layer V ly src dirs)
     = resolve_model (env_override V api_key_env) guardrail_default (model_or (ly_policy ly) (ly_shared ly))"
  "st_scanner (settings_from_layer V ly src dirs)
     = resolve_model (env_override V scanner_api_key_env) scanner_default (ly_scanner ly)"
  "st_guardrails_enabled (settings_from_layer V ly src dirs) = unwrap_or (ly_guardrails_enabled ly) False"
  "st_scanner_enabled (settings_from_layer V ly src dirs) = unwrap_or (ly_scanner_enabled ly) False"
  "st_sources (settings_from_layer V ly src dirs) = src"
  "st_config_dirs (settings_from_layer V ly src dirs) = dirs"
  by (simp_all add: settings_from_layer_def scanner_settings_def Let_def)

lemma layered_keys:
  "mk_model (model_or (own (layer_or P U)) (common (layer_or P U))) = key_chain mk_model own common P U"
  "mk_provider (model_or (own (layer_or P U)) (common (layer_or P U))) = key_chain mk_provider own common P U"
  "mk_base_url (model_or (own (layer_or P U)) (common (layer_or P U))) = key_chain mk_base_url own common P U"
  "mk_api_key (model_or (own (layer_or P U)) (common (layer_or P U))) = key_chain mk_api_key own common P U"
  "mk_project (model_or (own (layer_or P U)) (common (layer_or P U))) = key_chain mk_project own common P U"
  "mk_location (model_or (own (layer_or P U)) (common (layer_or P U))) = key_chain mk_location own common P U"
  "mk_temperature (model_or (own (layer_or P U)) (common (layer_or P U))) = key_chain mk_temperature own common P U"
  if "own (layer_or P U) = model_or (own P) (own U)" "common (layer_or P U) = model_or (common P) (common U)"
  using that by (simp_all add: key_chain_def find_map_id_chain model_or_def del: find_map.simps)

text \<open>A key of the scanner: its table in the project, then in the user's file.\<close>

definition scanner_chain :: "(model_layer \<Rightarrow> 'a option) \<Rightarrow> layer \<Rightarrow> layer \<Rightarrow> 'a option" where
  "scanner_chain key project user = find_map id [key (ly_scanner project), key (ly_scanner user)]"

lemma scanner_keys:
  "mk_model (ly_scanner (layer_or P U)) = scanner_chain mk_model P U"
  "mk_provider (ly_scanner (layer_or P U)) = scanner_chain mk_provider P U"
  "mk_base_url (ly_scanner (layer_or P U)) = scanner_chain mk_base_url P U"
  "mk_api_key (ly_scanner (layer_or P U)) = scanner_chain mk_api_key P U"
  "mk_project (ly_scanner (layer_or P U)) = scanner_chain mk_project P U"
  "mk_location (ly_scanner (layer_or P U)) = scanner_chain mk_location P U"
  "mk_temperature (ly_scanner (layer_or P U)) = scanner_chain mk_temperature P U"
  by (simp_all add: scanner_chain_def layer_or_def model_or_def first_set del: find_map.simps)

text \<open>What a layer holds of the file it is read from.\<close>

definition keys_read :: "raw_model \<Rightarrow> model_layer \<Rightarrow> bool" where
  "keys_read raw tbl \<longleftrightarrow>
     mk_provider tbl = Option.bind (mk_provider raw) provider_from_str
     \<and> mk_base_url tbl = mk_base_url raw \<and> mk_project tbl = mk_project raw
     \<and> mk_location tbl = mk_location raw \<and> mk_model tbl = mk_model raw
     \<and> mk_temperature tbl = mk_temperature raw \<and> mk_api_key tbl = mk_api_key raw"

lemma validate_model_keys: "validate_model path raw = Inr tbl \<Longrightarrow> keys_read raw tbl"
  by (auto simp: validate_model_def keys_read_def bind_result_Inr_iff split: option.splits)

lemma load_layer_reads:
  assumes "load_layer V f = Inr L"
  shows "case f of
      None \<Rightarrow> L = empty_layer
    | Some p \<Rightarrow> \<exists>txt raw. sv_read V p = Some txt \<and> sv_parse V txt = Some raw
        \<and> keys_read (rs_guardrails raw) (ly_shared L) \<and> keys_read (rs_data raw) (ly_data L)
        \<and> keys_read (rs_policy raw) (ly_policy L) \<and> keys_read (rs_scanner raw) (ly_scanner L)
        \<and> ly_guardrails_enabled L = rs_guardrails_enabled raw \<and> ly_scanner_enabled L = rs_scanner_enabled raw
        \<and> ly_addr L = Option.bind (rs_addr raw) (sv_parse_addr V)"
proof (cases f)
  case (Some p)
  obtain x raw where raw: "sv_read V p = Some x" "sv_parse V x = Some raw" "validate_settings V p raw = Inr L"
    using assms Some by (auto simp: load_layer_def bind_result_Inr_iff ok_or_def split: option.splits)
  have "ly_addr L = Option.bind (rs_addr raw) (sv_parse_addr V)"
    using raw(3) by (auto simp: validate_settings_def bind_result_Inr_iff ok_or_def split: option.splits)
  moreover have "keys_read (rs_guardrails raw) (ly_shared L) \<and> keys_read (rs_data raw) (ly_data L)
      \<and> keys_read (rs_policy raw) (ly_policy L) \<and> keys_read (rs_scanner raw) (ly_scanner L)
      \<and> ly_guardrails_enabled L = rs_guardrails_enabled raw \<and> ly_scanner_enabled L = rs_scanner_enabled raw"
    using raw(3) by (auto simp: validate_settings_def bind_result_Inr_iff validate_model_keys)
  ultimately show ?thesis using raw(1,2) Some by auto
qed (use assms in simp)

text \<open>An error of a file names the file.\<close>

fun names_file :: "settings_error \<Rightarrow> string \<Rightarrow> bool" where
  "names_file (SeRead p) f \<longleftrightarrow> p = f"
| "names_file (SeParse p) f \<longleftrightarrow> p = f"
| "names_file (SeProvider p _ _) f \<longleftrightarrow> p = f"
| "names_file (SeAddr p _) f \<longleftrightarrow> p = f"
| "names_file _ f \<longleftrightarrow> False"

lemma validate_model_error: "validate_model path raw = Inl e \<Longrightarrow> names_file e path"
  by (auto simp: validate_model_def bind_result_Inl_iff split: option.splits)

lemma load_layer_error: "load_layer V (Some p) = Inl e \<Longrightarrow> names_file e p"
  by (auto simp: load_layer_def validate_settings_def bind_result_Inl_iff ok_or_def split: option.splits
    dest: validate_model_error)

text \<open>Assets: the nearest directory that has one provides it.\<close>

lemma find_nearest:
  "find exists (map f ds) = Some c \<longleftrightarrow>
   (\<exists>near d far. ds = near @ d # far \<and> c = f d \<and> exists c \<and> (\<forall>n\<in>set near. \<not> exists (f n)))"
  (is "_ \<longleftrightarrow> (\<exists>near d far. ?nearest ds near d far)")
proof (induction ds)
  case (Cons a ds)
  show ?case
  proof (cases "exists (f a)")
    case True
    then have n: "?nearest (a # ds) near d far \<longleftrightarrow> near = [] \<and> d = a \<and> far = ds \<and> c = f a" for near d far
      by (cases near) auto
    show ?thesis unfolding n using True by auto
  next
    case False
    then have n: "?nearest (a # ds) near d far \<longleftrightarrow> (\<exists>ns. near = a # ns \<and> ?nearest ds ns d far)" for near d far
      by (cases near) auto
    have "find exists (map f (a # ds)) = Some c \<longleftrightarrow> (\<exists>near d far. ?nearest ds near d far)"
      using False Cons.IH by simp
    also have "\<dots> \<longleftrightarrow> (\<exists>near d far ns. near = a # ns \<and> ?nearest ds ns d far)" by (simp only: ex_simps) blast
    finally show ?thesis unfolding n .
  qed
qed simp

lemma pick_nearest:
  "pick dirs relative exists = Inr c \<longleftrightarrow>
   (\<exists>near d far. dirs = near @ d # far \<and> c = pick_candidate relative d \<and> exists c
      \<and> (\<forall>n\<in>set near. \<not> exists (pick_candidate relative n)))"
  unfolding find_nearest [symmetric] by (auto simp: pick_def split: option.splits)

end
