(* ===== verification/Sample_Scan.thy ===== *)
theory Sample_Scan
  imports Sample Scan_Dispatch Settings
begin

text \<open>
  Concrete inputs for the theorems on scanning and settings: a run of one terminal event, a model
  that answers at once, a store without faults, and a project directory that sets one key.
\<close>

definition sample_terminal :: event where
  "sample_terminal =
     \<lparr>ev_event_id = ''e1'', ev_trajectory_id = ''run'', ev_agent = \<lparr>ag_id = ''a'', ag_provider = ''p'', ag_platform = ''x''\<rparr>,
      ev_timestamp = 0, ev_event = Control (Completed None), ev_actor = actor_agent ''a'',
      ev_causality = causality_default ''u''\<rparr>"

definition sample_digest :: transcript_digest where
  "sample_digest =
     \<lparr>td_trajectory_id = ''run'', td_title = ''t'', td_summary = [], td_interim = False, td_phases = [],
      td_files_modified = [], td_tools_used = [], td_total_events = 0, td_side_effecting_count = 0\<rparr>"

definition sample_scan_result :: transcript_scan_result where
  "sample_scan_result =
     \<lparr>tsr_explanation = [], tsr_outcome = Success, tsr_outcome_description = [], tsr_aggregate_severity = SsInfo,
      tsr_signals = [], tsr_adjudication_summary = [], tsr_behavioral_notes = [], tsr_confidence = 0\<rparr>"

definition sample_scan_codec :: scan_codec where
  "sample_scan_codec =
     \<lparr>sk_event_json = (\<lambda>_. None), sk_digest_json = (\<lambda>_. Some ''d''), sk_scan_json = (\<lambda>_. Some ''s''),
      sk_parse_event = (\<lambda>_. None), sk_parse_digest = (\<lambda>s. if s = ''d'' then Some sample_digest else None),
      sk_parse_scan = (\<lambda>s. if s = ''s'' then Some sample_scan_result else None),
      sk_message_type = (\<lambda>_. None), sk_intent = (\<lambda>_. None), sk_outcome = (\<lambda>_. None), sk_severity = (\<lambda>_. None)\<rparr>"

definition sample_row_codec :: row_codec where
  "sample_row_codec =
     \<lparr>rw_event_json = (\<lambda>_. Some ''j''), rw_parse_event = (\<lambda>_. Some (Control (Completed None))),
      rw_rfc3339 = (\<lambda>_. ''t''), rw_parse_time = (\<lambda>_. Some 0)\<rparr>"

text \<open>The model names another run in its digest.\<close>

definition sample_scanner :: scanner_env where
  "sample_scanner =
     \<lparr>scn_prompts = \<lparr>pr_rfc3339 = (\<lambda>_. []), pr_compact = (\<lambda>_. None), pr_pretty = (\<lambda>_. None),
        pr_debug_event = (\<lambda>_. []), pr_debug = (\<lambda>_. [])\<rparr>,
      scn_timeout = 180, scn_event = (\<lambda>_. Never),
      scn_digest = (\<lambda>_. Ready 1 (Inr (sample_digest\<lparr>td_trajectory_id := ''other''\<rparr>))),
      scn_scan = (\<lambda>_. Ready 1 (Inr sample_scan_result))\<rparr>"

definition sample_draw :: "nat \<Rightarrow> scan_draw" where
  "sample_draw i =
     \<lparr>dw_scanner = sample_scanner, dw_faults = (\<lambda>_. None), dw_scans = sample_scan_codec, dw_rows = sample_row_codec,
      dw_created_at = ''2026'', dw_now = 0,
      dw_fresh = \<lparr>fresh_event_uuid = replicate i CHR ''u'', fresh_corr_uuid = [], fresh_now = 1\<rparr>, dw_correlation = []\<rparr>"

definition sample_dispatcher :: dispatcher where
  "sample_dispatcher =
     \<lparr>dp_store = \<lparr>tb_world = empty_world\<lparr>w_db := [sample_terminal]\<rparr>, tb_events = [], tb_digests = [], tb_scans = []\<rparr>,
      dp_running = [], dp_permits = max_concurrency default_max_concurrent_scans\<rparr>"

lemma sample_draw_simps [simp]:
  "dw_scanner (sample_draw i) = sample_scanner" "dw_faults (sample_draw i) = (\<lambda>_. None)"
  "dw_scans (sample_draw i) = sample_scan_codec" "dw_rows (sample_draw i) = sample_row_codec"
  "dw_created_at (sample_draw i) = ''2026''" "dw_now (sample_draw i) = 0"
  by (simp_all add: sample_draw_def)

lemma sample_terminal_simps [simp]:
  "ev_event_id sample_terminal = ''e1''" "ev_trajectory_id sample_terminal = ''run''"
  "ev_event sample_terminal = Control (Completed None)" "should_scan_transcript_for_event sample_terminal"
  "\<not> is_scanner_output sample_terminal"
  by (simp_all add: sample_terminal_def should_scan_transcript_for_event_def is_scanner_output_def)

lemma sample_dispatcher_simps [simp]:
  "dp_running sample_dispatcher = []" "0 < dp_permits sample_dispatcher"
  "ledger (dp_store sample_dispatcher) = [sample_terminal]" "tb_digests (dp_store sample_dispatcher) = []"
  "tb_scans (dp_store sample_dispatcher) = []"
  by (simp_all add: sample_dispatcher_def ledger_def max_concurrency_def default_max_concurrent_scans_def)

lemma sample_dispatching: "dispatching {sample_terminal} default_max_concurrent_scans sample_dispatcher"
  by (rule Started) (simp_all add: sample_dispatcher_def)

definition sample_loaded :: "event list" where
  "sample_loaded = read_events sample_row_codec 0 (written_rows sample_row_codec [sample_terminal]) ''run''"

lemma sample_ids_drawn: "ids_drawn (sample_draw 3) (sample_draw 6) (dp_store sample_dispatcher)"
  by (simp add: ids_drawn_def sample_draw_def sample_terminal_def sample_dispatcher_def ledger_def numeral_eq_Suc)

lemma sample_loaded_ne: "sample_loaded \<noteq> []"
  by (simp add: sample_loaded_def read_events_def run_rows_def written_rows_def insert_params_def sample_row_codec_def)

lemma sample_answers:
  "digest_transcript sample_scanner ''run'' sample_loaded = Value 1 (Inr sample_digest)"
  "scan_transcript sample_scanner ''run'' sample_loaded = Value 1 (Inr sample_scan_result)"
  using sample_loaded_ne
  by (simp_all add: digest_transcript_def scan_transcript_def render_digest_def extract_call_def timeout_at_def Let_def
    sample_scanner_def sample_digest_def)

text \<open>Two digests of one run, the newer of which no longer parses.\<close>

definition sample_rows :: "digest_columns scan_row list" where
  "sample_rows =
     [row_of_source \<lparr>so_event_id = ''e1'', so_trajectory_id = ''run'', so_agent_id = ''a''\<rparr> (digest_columns_of sample_digest) ''d'' ''1'',
      row_of_source \<lparr>so_event_id = ''e2'', so_trajectory_id = ''run'', so_agent_id = ''a''\<rparr> (digest_columns_of sample_digest) ''?'' ''2'']"

definition sample_scan_store :: scan_state where
  "sample_scan_store = \<lparr>tb_world = empty_world, tb_events = [], tb_digests = sample_rows, tb_scans = []\<rparr>"

section \<open>Settings\<close>

definition sample_raw :: raw_settings where
  "sample_raw =
     \<lparr>rs_addr = None, rs_guardrails_enabled = Some True, rs_guardrails = no_keys\<lparr>mk_model := Some ''m''\<rparr>, rs_data = no_keys,
      rs_policy = no_keys, rs_scanner_enabled = None, rs_scanner = no_keys\<rparr>"

definition sample_settings_env :: settings_env where
  "sample_settings_env =
     \<lparr>sv_is_dir = (\<lambda>_. True), sv_is_file = (\<lambda>_. True), sv_read = (\<lambda>_. Some []), sv_parse = (\<lambda>_. Some sample_raw),
      sv_parse_addr = (\<lambda>_. None), sv_var = (\<lambda>_. None), sv_cwd = None, sv_home = None\<rparr>"

lemma sample_layer:
  "load_layer sample_settings_env (Some p) = Inr (empty_layer\<lparr>ly_guardrails_enabled := Some True,
     ly_shared := no_keys\<lparr>mk_model := Some ''m''\<rparr>\<rparr>)"
  by (simp add: load_layer_def sample_settings_env_def sample_raw_def validate_settings_def validate_model_def ok_or_def
    no_keys_def empty_layer_def)

lemma sample_settings_file: "settings_file sample_settings_env (Some d) = Some (path_join d config_file)"
  by (simp add: settings_file_def keep_if_def sample_settings_env_def)

end
