(* ===== verification/Spec2Isabelle.thy ===== *)
theory Spec2Isabelle
  imports Summary Totality Sample_Claude Sample_Install Sample_Scan
begin

text \<open>
  A verification library for the Sondera coding-agent hooks.

  The program sits between coding agents and the tools they call. A hook turns what an agent is
  about to do (or has just seen) into an event of a trajectory; the harness classifies the
  content of the event, turns it into a Cedar authorization request, asks Cedar, and answers
  with a verdict (allow, deny or escalate); every event and every verdict is kept in two
  ledgers, a file per trajectory and a database, from which runs are summarised.

  \<^bold>\<open>Theories.\<close> Each models one part of the Rust code; the names of definitions are those of the
  code, with a suffix or a prefix for record fields.

  \<^item> \<open>Prelude\<close>, \<open>Rust_Text\<close>, \<open>Json\<close>: results, strings and JSON values. A Rust \<open>str\<close> is the
    Isabelle string of its UTF-8 bytes; Unicode tables are a parameter (\<open>unicode\<close>) that is
    consulted outside ASCII only.
  \<^item> \<open>Ranked\<close>: the interface (locale \<open>ranked\<close>) shared by the enumerations that are ordered by a
    rank: labels, severities, decisions, modes.
  \<^item> \<open>Label\<close>, \<open>Policy_Model\<close>, \<open>Signature\<close>: the guardrails under \<open>crates/guardrails\<close>. The model
    provider and the YARA engine are parameters; timeouts and inference errors are results.
  \<^item> \<open>Trajectory\<close>, \<open>Event\<close>: the data model of \<open>crates/types\<close>, redaction included.
  \<^item> \<open>Summary\<close>: rollups, folding and queries (\<open>trajectory/summary.rs\<close>, \<open>agent.rs\<close>, \<open>page.rs\<close> and
    the in-memory part of \<open>crates/storage\<close>).
  \<^item> \<open>Path_Url\<close>, \<open>Shell_Lex\<close>, \<open>Shell_Parse\<close>: the context extractors of \<open>crates/policy/cedar\<close>. The
    syntax tree of a command line is what the parameter \<open>grammar\<close> returns for it (in the
    program, tree-sitter-bash); the walk over the tree, with its two depth limits, is the code's.
    \<open>Shell_Props\<close> proves what every walk preserves (locale \<open>walk_relation\<close>), \<open>Shell_Complete\<close>
    that an \<open>ok\<close> answer misses nothing, \<open>Shell_Examples\<close> evaluates four command lines.
  \<^item> \<open>Entity_Store\<close>: Cedar entities and the two ledgers as one state \<open>world\<close> (an event id is unique
    in the table of events: inserting it again is an error); computations over it
    are functions from a world to a result and a world, and a fault oracle decides for the n-th
    access whether it fails. The locale \<open>entity_store\<close> states what clients rely on.
  \<^item> \<open>Transform\<close>, \<open>Harness\<close>: \<open>build_request\<close>, one definition per arm, the mapping of Cedar's
    response, and the adjudication of one event. \<open>Transform_Props\<close> and \<open>Harness_Props\<close> prove their
    effects (locales \<open>store_effect\<close> and \<open>persist_effect\<close>, each interpreted on two relations),
    \<open>Totality\<close> when a call answers, \<open>Sample\<close> a concrete engine for the witnesses.
  \<^item> \<open>Wire_Value\<close>, \<open>Wire_Enum\<close>, \<open>Wire\<close>: the conversions of \<open>crates/schema\<close>: JSON values as protobuf
    values (numbers are doubles, kept as 64-bit patterns), enumerations (locale \<open>proto_enum\<close>, one
    interpretation per enumeration), every message of the trajectory schema.
  \<^item> \<open>Service\<close>: events and verdicts on the wire (\<open>schema/src/event.rs\<close>), the gRPC handler
    (\<open>harness/src/rpc.rs\<close>) over any engine and the client (\<open>harness/src/client.rs\<close>) over any network.
  \<^item> \<open>Hook_Core\<close>, \<open>Hook_Tool\<close>, \<open>Hook_Adapter\<close>: \<open>crates/hooks/core\<close>: errors and denial texts, the
    decision envelope, deadlines and the run loop, tool names, and the contracts of an adapter
    (locales \<open>fail_closed\<close>, \<open>fail_closed_exactly\<close>, \<open>justified\<close>, \<open>gating\<close>, \<open>enforcing\<close>).
  \<^item> \<open>Openhands\<close>, \<open>Codex\<close>, \<open>Hermes\<close>, \<open>Opencode\<close>, \<open>Gemini\<close>: five adapters: the events of the agent,
    what they are mapped to, the responses, the dispatch; each interprets the contracts.
    \<open>Sample_Hooks\<close> has a concrete process of each.
  \<^item> \<open>Mention\<close>, \<open>Mention_Search\<close>: the files a prompt mentions (\<open>hooks/core/src/mention.rs\<close>,
    \<open>hooks/vscode/src/mention.rs\<close>): finding mentions, paths, bounded reading, the bounded search.
  \<^item> \<open>Copilot\<close>, \<open>Antigravity\<close>, \<open>Cursor\<close>, \<open>Vscode\<close>: four more adapters, with the JSON they
    print; verdicts may leave a call to the user (locale \<open>gating\<close>), and a VS Code prompt takes
    several verdicts (locale \<open>justified\<close>). \<open>Sample_Adapters\<close> has a concrete process of each.
  \<^item> \<open>Claude_Truncate\<close>, \<open>Claude_Response\<close>, \<open>Claude_Transcript\<close>, \<open>Claude_Cursor\<close>, \<open>Claude_Stop\<close>,
    \<open>Claude_Tools\<close>, \<open>Claude\<close>: the Claude Code adapter, file by file: the cap on content, responses and
    redaction, the transcript and its cursor files, the Stop hook with its wait and its batches,
    the mappers, the handlers and the process. \<open>Sample_Claude\<close> has a concrete process.
  \<^item> \<open>Json_Map\<close>, \<open>Install_Command\<close>, \<open>Install_Config\<close>: \<open>crates/hooks/core/src/install*\<close>: command lines and how
    they are read back, configuration files with their backups, and the splice of an event map (locales
    \<open>hook_splice\<close> and \<open>managed_rules\<close>). A disk is a map from files to contents, every failing operation an
    answer of the record \<open>install_env\<close>.
  \<^item> \<open>Install_Hooks\<close>, \<open>Install_Codex\<close>, \<open>Install_Vscode\<close>, \<open>Install_Claude\<close>, \<open>Install_Claude_Files\<close>: the
    installers (\<open>install.rs\<close> of each provider), each splice an interpretation of the locale; \<open>Install_Laws\<close>
    reads off what they share, \<open>Sample_Install\<close> has a configuration with the hook of another tool.
  \<^item> \<open>Event_Rows\<close>, \<open>Scan_Store\<close>: the rows of the event table and the scan tables
    (\<open>crates/storage/src/turso/mod.rs\<close>, \<open>scan.rs\<close>): columns, reading back, upserts, the newest row.
  \<^item> \<open>Rubric\<close>, \<open>Scanner\<close>, \<open>Scan_Dispatch\<close>: \<open>crates/trajectory\<close> and \<open>harness/src/scan.rs\<close>: prompts cut to
    a bound, model calls under a timeout, and the background tasks as an inductive step relation over
    the store, the running tasks and the free permits. A task is a list of acts, one an \<open>await\<close>;
    meanwhile the harness appends any event it is handed, scans from outside included.
  \<^item> \<open>Settings\<close>: \<open>crates/settings\<close> and the provider names: two scopes, their merge, the defaults,
    the policy assets. \<open>Sample_Scan\<close> has a run, a model, a store and a settings file.

  \<^bold>\<open>What is shown.\<close> C1 to C8 are about the adjudication engine: nothing leaks into the ledgers
  without clearance, verdicts are Cedar's and are recorded, labels of trajectories never fall
  except at a second start, a call answers unless the event is a replay. C9 to C15 are about the hooks: what is not denied was
  allowed, from the engine's verdict to the exit code (and what a closed stdout changes); without
  an answer enforcement commands deny; the run loop always comes to a response within its budget;
  how far both halves of a call are classified alike, adapter by adapter;
  the files a prompt mentions are found. C16 to C18 are about the wire and the service. C19 to
  C24 are about Claude Code: enforcement, withheld outputs, the size of events, the transcript
  and the Stop hook. C25 to C31 are about installing: POSIX commands are recognised again, hooks of
  others stay, installing is idempotent and undone by uninstalling, nothing is rewritten without a
  backup; each says for which providers and which files. C32 to C36 are about background scanning and settings: prompts are bounded, scans are
  stored before they are recorded and few at a time, a finished run is summarised, the two reads of
  scans compared, settings layered. C37 to C39 are about the extractors a policy relies on, C40
  about the data guardrail. The lemmas without a number in this theory are smaller facts of the
  same kind.

  \<^bold>\<open>Bounds.\<close> The walk over a syntax tree counts down from \<open>MAX_TREE_DEPTH + 1\<close> levels and the
  re-parses from \<open>MAX_REPARSE_DEPTH\<close>, exactly the code's limits, and at level zero it does what
  the code does there: it clears \<open>ok\<close>. No other recursion needs fuel. Time is counted in whole
  seconds: an asynchronous step is ready after some of them, panics after some of them, or is
  never done, and a deadline is compared with their sum.

  \<^bold>\<open>Not modelled.\<close> Third-party code is a parameter: Cedar's authorizer, request validation and
  entity construction (record \<open>cedar\<close>), tree-sitter, the URL and YARA libraries, the model
  providers, SHA-256, JSON reading and printing, the calendar and float conversions of the wire
  (record \<open>wire_env\<close>), the gRPC transport (a function \<open>network\<close>, assumed \<open>honest\<close> where a
  property needs it), TOML and SQL text. The rubric texts of the scanner, the search for the binary to
  install, the console service, the MCP server, the terminal interface and process start-up are not
  modelled. The installers other than that of Claude Code see a disk without links; for Claude Code a
  path stands for the file its link leads to (\<open>cell\<close>), links in its parents being taken as resolved.
  Printing a response can fail where the exit code depends on it (\<open>exit_after\<close>); elsewhere, and in the
  events Antigravity and Cursor answer outside the run loop, it is left out. Five-second classification budgets are predicates on the content. Tasks interleave in
  \<open>Scan_Dispatch\<close> only; elsewhere accesses are sequential. Logging is not modelled.
\<close>
section \<open>The adjudication engine\<close>

text \<open>
  C1. No file body leaks into a ledger. Whatever the outcome of an adjudication and whatever
  access fails, both ledgers are only ever extended, and every event added carries its file
  bodies as redaction markers, unless it is the adjudicated event itself and Cedar allowed it
  in this very call.
\<close>

theorem no_body_without_clearance:
  assumes "adjudicate_event H fr corr e w = (r, w')"
  shows "(\<exists>new. w_db w' = w_db w @ new \<and> (\<forall>x\<in>set new. bodies_hidden H x \<or> (cleared H e w \<and> x = e)))
    \<and> (\<forall>tid. \<exists>new. w_files w' tid = w_files w tid @ new
         \<and> (\<forall>x\<in>set new. bodies_hidden H x \<or> (cleared H e w \<and> x = e)))"
  using adjudicate_event_adds [OF assms] by (simp add: adds_def)

lemma no_body_without_clearance_witness:
  "\<exists>new. w_db (snd (sample_run read_event empty_world)) = w_db empty_world @ new
     \<and> (\<forall>x\<in>set new. bodies_hidden sample_harness x
          \<or> (cleared sample_harness read_event empty_world \<and> x = read_event))"
  using no_body_without_clearance
    [of sample_harness sample_fresh "''corr''" read_event empty_world
      "fst (sample_run read_event empty_world)" "snd (sample_run read_event empty_world)"]
  by simp

text \<open>
  C2. An event that is not a lifecycle record is answered with exactly the adjudication of
  Cedar's response: Cedar is asked about the request built from this event, with the event's
  actor as principal, over the entities as they are after building it.
\<close>

theorem verdict_is_cedars:
  assumes "adjudicate_event H fr corr e w = (Inr a, w')" "\<And>c. ev_event e \<noteq> Control c"
  shows "\<exists>w0 w1 request. ensure_agent_entity H (ev_agent e) w = (Inr (), w0)
    \<and> build_request H e w0 = (Inr request, w1)
    \<and> rq_principal request = quid ''Agent'' (ac_id (ev_actor e))
    \<and> a = adjudicated_from_response (hs_cedar H)
        (cd_authorize (hs_cedar H) request (w_entities w1))"
  using assms(1)
proof (cases rule: adjudicate_event_cases)
  case (action w0)
  obtain w2 where "evaluate H e w0 = (Inr a, w2)" using adjudicate_action_Inr [OF action(3)] .
  then show ?thesis
    using action(1) build_request_principal by (elim evaluate_Inr) blast
qed (use assms(2) in auto)

lemma verdict_is_cedars_witness:
  "\<exists>a w w0 w1 request. sample_run write_event empty_world = (Inr a, w)
    \<and> ensure_agent_entity sample_harness sample_agent empty_world = (Inr (), w0)
    \<and> build_request sample_harness write_event w0 = (Inr request, w1)
    \<and> rq_principal request = quid ''Agent'' ''a''
    \<and> a = adjudicated_from_response sample_cedar (cd_authorize sample_cedar request (w_entities w1))"
proof -
  obtain a w where r: "sample_run write_event empty_world = (Inr a, w)" using sample_write by blast
  show ?thesis
    using r verdict_is_cedars [OF r] by (simp add: sample_eval)
qed

text \<open>
  C3. What an answered event leaves in both ledgers, and nothing else: an event that is not a
  lifecycle record adds itself, with its file bodies unless the verdict is Allow redacted, and
  after it the verdict, caused by the event and signed by the policy engine; a lifecycle record is
  answered with Allow and adds itself alone, as it is. The files of other trajectories are
  untouched.
\<close>

theorem verdict_is_recorded:
  assumes "adjudicate_event H fr corr e w = (Inr a, w')"
  shows "\<exists>new. w_db w' = w_db w @ new
    \<and> w_files w' = (w_files w)(ev_trajectory_id e := w_files w (ev_trajectory_id e) @ new)
    \<and> (case ev_event e of
         Control c \<Rightarrow> new = [e] \<and> a = adjudicated_allow
       | _ \<Rightarrow> \<exists>stored verdict. new = [stored, verdict]
           \<and> stored = (if adj_decision a = Allow then e else redact_file_content (hs_sha_hex H) e)
           \<and> ev_event verdict = Control (Adjudicated a)
           \<and> ev_trajectory_id verdict = ev_trajectory_id e
           \<and> cs_causation_id (ev_causality verdict) = Some (ev_event_id e)
           \<and> ev_actor verdict = actor_policy ''cedar'')"
  using assms(1)
proof (cases rule: adjudicate_event_cases)
  case (control w0 c)
  then show ?thesis using control_stored [OF assms control(2)] by (intro exI [of _ "[e]"]) simp
next
  case (action w0)
  show ?thesis
    using adjudicate_action_ledgers [OF action(3)] ensure_agent_ledgers [OF action(1)] action(2)
    by (intro exI [of _ "[stored_form H (Inr a) e, adjudicated_event fr corr (stored_form H (Inr a) e) a]"])
      (simp add: ledgers_def stored_form_def split: trajectory_event.split)
qed auto

lemma verdict_is_recorded_witness:
  "\<exists>a w stored verdict. sample_run read_event empty_world = (Inr a, w)
    \<and> w_db w = [stored, verdict] \<and> ev_event verdict = Control (Adjudicated a)
    \<and> stored = redact_file_content (hs_sha_hex sample_harness) read_event
    \<and> cs_causation_id (ev_causality verdict) = Some ''e1''"
proof -
  obtain a w where r: "sample_run read_event empty_world = (Inr a, w)" "adj_decision a = Deny"
    using sample_read by blast
  show ?thesis
    using r verdict_is_recorded [OF r(1)] by (auto simp: sample_eval)
qed

text \<open>
  How Cedar's answer becomes a decision: any evaluation error denies; Cedar's Allow
  allows; a Cedar Deny becomes Escalate exactly when there are determining policies and every
  one of them carries an \<open>escalate\<close> annotation, and stays Deny otherwise.
\<close>

theorem decision_from_response:
  "adj_decision (adjudicated_from_response C response) =
     (if cr_errors response \<noteq> [] then Deny
      else if cr_decision response = CedarAllow then Allow
      else if cr_reason response \<noteq> [] \<and> (\<forall>p\<in>set (cr_reason response). escalates C p) then Escalate
      else Deny)"
  by (rule adjudicated_decision)

lemma decision_from_response_witness:
  "adj_decision (adjudicated_from_response sample_cedar
     \<lparr>cr_decision = CedarDeny, cr_reason = [''ask-owner''], cr_errors = []\<rparr>) = Escalate
   \<and> adj_decision (adjudicated_from_response sample_cedar
     \<lparr>cr_decision = CedarDeny, cr_reason = [''ask-owner'', ''no-secrets''], cr_errors = []\<rparr>) = Deny"
  unfolding decision_from_response by (simp add: escalates_def sample_cedar_def)

text \<open>
  C4. The label of a trajectory never falls: over any run of adjudications, in any order, with
  any failing accesses, the label of a trajectory is at least what it was, provided no
  \<open>Started\<close> record for that trajectory is among the events.
\<close>

theorem label_never_falls:
  assumes "run H w es w'" "keyed w"
    "\<forall>e\<in>set es. is_start (ev_event e) \<longrightarrow> ev_trajectory_id e \<noteq> tid"
  shows "traj_label w tid \<le> traj_label w' tid"
  using run_label [OF assms(1,3)] assms(2) by (simp add: label_kept_def)

lemma label_never_falls_witness:
  "\<exists>w2. run sample_harness empty_world [write_event, read_event] w2
     \<and> traj_label empty_world ''t'' \<le> traj_label w2 ''t''"
proof -
  obtain r1 w1 where a: "sample_run write_event empty_world = (r1, w1)" by fastforce
  obtain r2 w2 where b: "sample_run read_event w1 = (r2, w2)" by fastforce
  have r: "run sample_harness empty_world [write_event, read_event] w2"
    by (rule run_step [OF a run_step [OF b run_nil]])
  moreover have "traj_label empty_world ''t'' \<le> traj_label w2 ''t''"
    by (rule label_never_falls [OF r]) (simp_all add: write_event_def read_event_def sample_event_def)
  ultimately show ?thesis by blast
qed





text \<open>
  C7. When an adjudication answers. When the stores do not fail and Cedar accepts the uids,
  entities, contexts and requests it is given, an event other than a thought or a snapshot gets a
  verdict exactly when the ledger's unique ids allow it: its id is not in the ledger yet and, but
  for a lifecycle record, neither is the id drawn for the verdict's record, which is not the
  event's own. A replayed event is an error.
\<close>

theorem adjudication_answers:
  assumes "accepting H" "authorizable (ev_event e) \<or> (\<exists>c. ev_event e = Control c)"
  shows "(\<exists>a w'. adjudicate_event H fr corr e w = (Inr a, w')) \<longleftrightarrow>
    ev_event_id e \<notin> ev_event_id ` set (w_db w)
    \<and> (case ev_event e of
         Control _ \<Rightarrow> True
       | _ \<Rightarrow> ''evt-'' @ fresh_event_uuid fr \<notin> insert (ev_event_id e) (ev_event_id ` set (w_db w)))"
  using accepting_adjudicates [OF assms, of fr w corr] answered_ids_fresh [of H fr corr e w]
  unfolding ids_fresh_def event_ids_def by blast

lemma adjudication_answers_witness:
  "(\<exists>a w. sample_run start_event empty_world = (Inr a, w))
   \<and> \<not> (\<exists>a w. sample_run start_event (empty_world\<lparr>w_db := [start_event]\<rparr>) = (Inr a, w))"
proof -
  have "accepting sample_harness" "\<exists>c. ev_event start_event = Control c"
    by (simp_all add: accepting_def sample_harness_def sample_cedar_def start_event_def sample_event_def)
  then show ?thesis
    using adjudication_answers [of sample_harness start_event sample_fresh "''corr''" empty_world]
      adjudication_answers [of sample_harness start_event sample_fresh "''corr''" "empty_world\<lparr>w_db := [start_event]\<rparr>"]
    by (simp add: empty_world_def start_event_def sample_event_def)
qed

text \<open>
  A thought or a snapshot is never authorized: the call returns an error, whatever the
  engine, and the only event it may add to a ledger is this one with its file bodies redacted
  (a thought has none).
\<close>

theorem unsupported_is_an_error:
  assumes "adjudicate_event H fr corr e w = (r, w')" "\<not> authorizable (ev_event e)"
    "\<And>c. ev_event e \<noteq> Control c"
  shows "(\<exists>err. r = Inl err)
    \<and> (w_db w' = w_db w \<or> w_db w' = w_db w @ [redact_file_content (hs_sha_hex H) e])"
proof -
  obtain err where r: "r = Inl err" by (rule unsupported_event [OF assms])
  show ?thesis
    using assms(1)
  proof (cases rule: adjudicate_event_cases)
    case (failed err)
    then show ?thesis using ensure_agent_ledgers by (auto simp: ledgers_def)
  next
    case (action w0)
    then show ?thesis
      using unsupported_ledger [OF action(3) assms(2)] ensure_agent_ledgers [OF action(1)] r
      by (simp add: ledgers_def)
  qed (use assms(3) in auto)
qed

lemma unsupported_is_an_error_witness:
  "\<exists>err w. sample_run thought_event empty_world = (Inl err, w)"
proof -
  obtain r w where "sample_run thought_event empty_world = (r, w)" by fastforce
  with unsupported_is_an_error [OF this] show ?thesis
    by (auto simp: thought_event_def sample_event_def)
qed

text \<open>
  C8. A lifecycle record is stored unchanged in both ledgers and answered with Allow, and a
  \<open>Started\<close> record installs a new trajectory entity with no steps and the label \<open>Public\<close>,
  whatever the trajectory's count and label were: a second start of the same trajectory
  forgets the label it had reached.
\<close>

theorem start_resets_label:
  assumes "adjudicate_event H fr corr e w = (Inr a, w')" "ev_event e = Control (Started s)" "keyed w"
  shows "a = adjudicated_allow \<and> w_db w' = w_db w @ [e]
    \<and> traj_view w' = (traj_view w)(ev_trajectory_id e \<mapsto>
        \<lparr>tr_trajectory_id = ev_trajectory_id e, tr_step_count = 0, tr_label = Public\<rparr>)"
  using start_resets [OF assms] control_stored [OF assms(1,2)]
  by (simp add: traj_new_def label_default_def)

lemma start_resets_label_witness:
  "\<exists>w1 w2 a b. sample_run write_event empty_world = (Inr a, w1) \<and> traj_label w1 ''t'' = Confidential
     \<and> sample_run start_event w1 = (Inr b, w2) \<and> traj_label w2 ''t'' = Public"
proof -
  obtain a w1 where w: "sample_run write_event empty_world = (Inr a, w1)"
    "traj_label w1 ''t'' = Confidential" "map ev_event_id (w_db w1) = [''e2'', ''evt-u'']"
    using sample_write by metis
  have "event_ids (w_db w1) = set (map ev_event_id (w_db w1))" by (simp add: event_ids_def)
  then have ids: "event_ids (w_db w1) = {''e2'', ''evt-u''}" by (simp add: w(3))
  have k: "keyed w1" using adjudicate_event_label [OF w(1), of "''u''"] keyed_empty
    by (simp add: label_kept_def write_event_def sample_event_def)
  have acc: "accepting sample_harness"
    by (simp add: accepting_def sample_harness_def sample_cedar_def)
  have c: "ev_event start_event = Control (Started (started_new sample_agent))"
    by (simp add: start_event_def sample_event_def)
  have fresh: "ids_fresh sample_fresh start_event (w_db w1)"
    unfolding ids_fresh_def ids by (simp add: start_event_def sample_event_def)
  obtain b w2 where s: "sample_run start_event w1 = (Inr b, w2)"
    using accepting_adjudicates [OF acc disjI2 fresh] c by blast
  have "traj_label w2 ''t'' = Public"
    using start_resets_label [OF s c k] by (simp add: traj_label_def start_event_def sample_event_def)
  then show ?thesis using w s by blast
qed

text \<open>
  The label lattice the engine installs at start-up is the order of the labels: in the
  store, one label entity is reachable from another through parents exactly when it is at
  least as sensitive.
\<close>

theorem label_lattice:
  assumes "install_labels H w = (Inr u, w')"
  shows "(label_edge (w_entities w'))\<^sup>*\<^sup>* a b \<longleftrightarrow> level a \<le> level b"
proof -
  have "label_edge (w_entities w') = (\<lambda>a b. parent_of a = Some b)"
    by (intro ext) (rule install_labels_edges [OF assms])
  then show ?thesis using parents_order [of a b] by (simp add: less_eq_label_def)
qed

lemma label_lattice_witness:
  "\<exists>w. install_labels sample_harness empty_world = (Inr (), w)
     \<and> (label_edge (w_entities w))\<^sup>*\<^sup>* Public HighlyConfidential
     \<and> \<not> (label_edge (w_entities w))\<^sup>*\<^sup>* Confidential Internal"
proof -
  obtain w where w: "install_labels sample_harness empty_world = (Inr (), w)"
    by (simp add: install_labels_def label_entity_def eb_build_def builder_new_def eb_parent_uid_def
        euid_def upsert_def io_op_def io_bind_def Let_def sample_harness_def sample_cedar_def)
  show ?thesis
    using w label_lattice [OF w, of Public HighlyConfidential] label_lattice [OF w, of Confidential Internal]
    by (simp add: word_le_nat_alt)
qed

section \<open>Hooks\<close>

text \<open>
  C9. Enforcement end to end, under OpenHands. An enforcement command exits with 0 only if the
  hook read an event of that command, the event reached the engine as the wire carries it, and
  the engine answered it with Allow. Otherwise it exits with 2, or with 1 and nothing printed
  when stdout does not take the response. The network is only assumed to deliver the service's
  own answers.
\<close>

theorem openhands_enforces:
  assumes "oh_is_adjudication c" "honest N W (adjudicate_event H fr corr) clock scans"
    "oh_run env P V c stdin connection stdout w = Some (out, code)"
    "\<And>n C. connection = Ready n (Inr C) \<Longrightarrow> C = client_adjudicate W timeout N"
  shows "(code = 0 \<longrightarrow> (\<exists>n v ev e' a w'. stdin = Ready n (Inr v) \<and> oh_asks P V c v ev
      \<and> event_of_pb W (pb_of_event W ev) = Inr e'
      \<and> adjudicate_event H fr corr e' w = (Inr a, w') \<and> adj_decision a = Allow))
    \<and> (code \<noteq> 0 \<longrightarrow> code = 2 \<or> code = 1 \<and> out = None \<and> (\<exists>err. stdout = Inl err))"
proof (intro conjI impI)
  assume "code = 0"
  then obtain t r where r: "run_hook env c oh_degraded_response (oh_dispatch P V) stdin
      (connected connection) w = Some (t, r)" "\<not> envelope_is_deny r"
    using assms(3) by (cases stdout) (auto simp: oh_run_def split: if_splits)
  show "\<exists>n v ev e' a w'. stdin = Ready n (Inr v) \<and> oh_asks P V c v ev
      \<and> event_of_pb W (pb_of_event W ev) = Inr e'
      \<and> adjudicate_event H fr corr e' w = (Inr a, w') \<and> adj_decision a = Allow"
    by (rule oh.run_engine_answered[OF assms(1) r(2,1) assms(2)])
      (use assms(4) in \<open>auto simp: connected_Inr\<close>)
qed (use oh_exit_code [OF assms(3)] in \<open>auto split: sum.splits\<close>)

lemma openhands_enforces_witness:
  "\<exists>ev e' a w'. oh_asks sample_oh_serde sample_oh_env OhPreToolUse JNull ev
    \<and> event_of_pb sample_wire (pb_of_event sample_wire ev) = Inr e'
    \<and> adjudicate_event sample_harness sample_fresh ''corr'' e' empty_world = (Inr a, w')
    \<and> adj_decision a = Allow"
proof -
  obtain out where "oh_run None sample_oh_serde sample_oh_env OhPreToolUse (Ready 0 (Inr JNull))
     (Ready 0 (Inr (client_adjudicate sample_wire 30 sample_network))) (Inr ()) empty_world = Some (Some out, 0)"
    using sample_oh_run by blast
  from openhands_enforces[OF _ sample_network_honest this] show ?thesis
    by (force simp: oh_is_adjudication_def)
qed

text \<open>
  C10. The adapters that ask once enforce: under Codex and Copilot (whose JSON then says neither
  deny nor block), Hermes, OpenCode and Gemini, a response of an enforcement command that does
  not stop the agent was given on an event of that command, read from stdin, which the harness
  client answered with Allow; under Antigravity and Cursor also with Escalate, where the
  response leaves the call to the user (for a prompt under Cursor, whatever the response says).
\<close>

theorem adapters_enforce:
  "(cx_is_adjudication cx \<longrightarrow> cx_run env P V cx stdin (Ready m (Inr C)) w = Some out \<longrightarrow>
      \<not> json_says out [''hookSpecificOutput'', ''permissionDecision''] ''deny'' \<longrightarrow>
      \<not> json_says out [''hookSpecificOutput'', ''decision'', ''behavior''] ''deny'' \<longrightarrow>
      \<not> json_says out [''decision''] ''block'' \<longrightarrow> answered_allow stdin (cx_asks P V cx) C w)
   \<and> (hm_is_adjudication hm \<longrightarrow> hm_run env P' V' (Ready m (Inr C)) hm stdin w = Some (t, r) \<longrightarrow>
      \<not> hm_is_enforcing r \<longrightarrow> answered_allow stdin (hm_asks P' V' hm) C w)
   \<and> (oc_is_adjudication oc \<longrightarrow> oc_run env U oc stdin (Ready m (Inr C)) stdout w = Some (Some out, code) \<longrightarrow>
      code \<noteq> 2 \<longrightarrow> answered_allow stdin (oc_asks U oc) C w)
   \<and> (gm_is_adjudication gm \<longrightarrow> gm_run env Q U' gm stdin (Ready m (Inr C)) w = Some (t, r') \<longrightarrow>
      \<not> gm_is_deny r' \<longrightarrow> answered_allow stdin (gm_asks Q U' gm) C w)
   \<and> (cp_is_adjudication cp \<longrightarrow> cp_run env S T cp stdin (Ready m (Inr C)) w = Some out \<longrightarrow>
      \<not> json_says out [''permissionDecision''] ''deny'' \<longrightarrow> \<not> json_says out [''behavior''] ''deny'' \<longrightarrow>
      \<not> json_says out [''decision''] ''block'' \<longrightarrow> jget ''modifiedTransformedPrompt'' out = None \<longrightarrow>
      answered_allow stdin (cp_asks S T cp) C w)
   \<and> (ag_run env S' T' AgPreToolUseCmd stdin (Ready m (Inr C)) w = Ready t (Inr out) \<longrightarrow>
      \<not> json_says out [''decision''] ''deny'' \<longrightarrow> answered_by stdin (ag_asks S' T' AgPreToolUseCmd) C w
        (\<lambda>a. adj_decision a = (if json_says out [''decision''] ''ask'' then Escalate else Allow)))
   \<and> (cu_is_adjudication cu \<longrightarrow> cu_run env R X cu stdin (Ready m (Inr C)) w = Ready t (Inr (out, 0)) \<longrightarrow>
      (\<exists>r. out = cu_json r \<and> answered_by stdin (cu_asks R X cu) C w (cu_passes cu r)))"
  by (intro conjI impI) (rule cx_run_cleared hm_run_cleared oc_run_cleared gm_run_cleared
      cp_run_cleared ag_run_answered cu_run_answered; assumption)+

lemma adapters_enforce_witness:
  "answered_allow (Ready 0 (Inr JNull)) (cx_asks sample_cx_serde sample_cx_env CxPreToolUseCmd) sample_client ()
   \<and> answered_allow (Ready 0 (Inr JNull)) (hm_asks (\<lambda>_. Inr sample_hm_event) sample_hm_env HmPreVerify) sample_client ()
   \<and> answered_allow (Ready 0 (Inr sample_input)) (oc_asks sample_oc_env OcToolExecuteBefore) sample_client ()
   \<and> answered_allow (Ready 0 (Inr JNull)) (gm_asks sample_gm_serde sample_gm_env GmBeforeTool) sample_client ()
   \<and> answered_allow (Ready 0 (Inr JNull)) (cp_asks sample_cp_serde sample_cp_env CpPreToolUseCmd) sample_client ()
   \<and> answered_by (Ready 0 (Inr JNull)) (ag_asks sample_ag_serde sample_ag_env AgPreToolUseCmd) sample_client ()
       (\<lambda>a. adj_decision a = Allow)
   \<and> (\<exists>r. answered_by (Ready 0 (Inr JNull)) (cu_asks sample_cu_serde sample_cu_env CuBeforeShellExecution)
       sample_client () (cu_passes CuBeforeShellExecution r))"
proof -
  note enforce = adapters_enforce[THEN conjunct1, rule_format]
    adapters_enforce[THEN conjunct2, THEN conjunct1, rule_format]
    adapters_enforce[THEN conjunct2, THEN conjunct2, THEN conjunct1, rule_format]
    adapters_enforce[THEN conjunct2, THEN conjunct2, THEN conjunct2, THEN conjunct1, rule_format]
    adapters_enforce[THEN conjunct2, THEN conjunct2, THEN conjunct2, THEN conjunct2, THEN conjunct1, rule_format]
    adapters_enforce[THEN conjunct2, THEN conjunct2, THEN conjunct2, THEN conjunct2, THEN conjunct2,
      THEN conjunct1, rule_format]
    adapters_enforce[THEN conjunct2, THEN conjunct2, THEN conjunct2, THEN conjunct2, THEN conjunct2,
      THEN conjunct2, rule_format]
  obtain out where oc: "oc_run None sample_oc_env OcToolExecuteBefore (Ready 0 (Inr sample_input))
     (Ready 0 (Inr sample_client)) (Inr ()) () = Some (Some out, 0)" using sample_oc_run by blast
  have "\<not> cx_is_deny cx_ok" by simp
  then have cx: "\<not> json_says (cx_json cx_ok) [''hookSpecificOutput'', ''permissionDecision''] ''deny''"
    "\<not> json_says (cx_json cx_ok) [''hookSpecificOutput'', ''decision'', ''behavior''] ''deny''"
    "\<not> json_says (cx_json cx_ok) [''decision''] ''block''"
    unfolding cx_json_deny by blast+
  have "\<not> cp_is_deny cp_ok" by simp
  then have cp: "\<not> json_says (cp_json cp_ok) [''permissionDecision''] ''deny''"
    "\<not> json_says (cp_json cp_ok) [''behavior''] ''deny''" "\<not> json_says (cp_json cp_ok) [''decision''] ''block''"
    "jget ''modifiedTransformedPrompt'' (cp_json cp_ok) = None"
    unfolding cp_json_deny by blast+
  have ag: "\<not> json_says (ag_json ag_allow_tool) [''decision''] ''deny''"
    "\<not> json_says (ag_json ag_allow_tool) [''decision''] ''ask''"
    by (simp_all add: ag_responses json_says_def)
  show ?thesis
    using enforce(1)[OF _ sample_cx_run cx] enforce(2)[OF _ sample_hm_run] enforce(3)[OF _ oc]
      enforce(4)[OF _ sample_gm_run] enforce(5)[OF _ sample_cp_run cp] enforce(6)[OF sample_ag_run ag(1)]
      enforce(7)[OF _ sample_cu_run] ag(2)
    by (simp add: cx_is_adjudication_def hm_is_adjudication_def oc_is_adjudication_def
        gm_is_adjudication_def cp_is_adjudication_def cu_is_adjudication_def) blast
qed

text \<open>
  C11. Under VS Code a prompt that is not stopped was asked about with every file it mentions: the
  client allowed the read of each, in turn, and then the prompt. No mention of a file that
  exists is skipped. Tool calls pass when allowed or left to the user, outputs when allowed.
\<close>

theorem vscode_enforces:
  assumes "vs_is_adjudication c" "vs_run env P V c stdin (Ready m (Inr C)) w = Some out"
    "jget ''continue'' out \<noteq> Some (JBool False)" "\<not> json_says out [''decision''] ''block''"
    "\<not> json_says out [''hookSpecificOutput'', ''permissionDecision''] ''deny''"
    "\<not> json_says out [''hookSpecificOutput'', ''decision''] ''block''"
  shows "\<exists>n raw r w'. stdin = Ready n (Inr raw) \<and> out = vs_json r \<and> vs_told P V C c raw r w w'
    \<and> (c = VsUserPromptSubmit \<longrightarrow>
        (\<exists>e. vssd_user_prompt_submit P raw = Inr e \<and> (\<forall>b p. mention_at None (utf8_chars (vsp_prompt e)) b \<longrightarrow>
          resolve_file (vs_files V) (vsc_cwd (vsp_common e)) (strip_file_scheme b) = Some p \<longrightarrow>
          p \<in> set (map fst (vs_mentions V e)))))"
proof -
  obtain n raw r w' where r: "stdin = Ready n (Inr raw)" "out = vs_json r" "vs_told P V C c raw r w w'"
    using vs_run_told[OF assms] by blast
  have "\<exists>e. vssd_user_prompt_submit P raw = Inr e" if "c = VsUserPromptSubmit"
    using r(3) that by (auto simp: vs_told_def)
  then show ?thesis using r prompt_mentions_cover unfolding vs_mentions_def by blast
qed

lemma vscode_enforces_witness:
  "\<exists>w1 n a. all_passed sample_client (vs_mention_asks sample_vs_env sample_prompt) () w1
     \<and> sample_client (vs_prompt_event sample_vs_env sample_prompt) w1 = (Ready n (Inr a), ())
     \<and> adj_decision a = Allow \<and> map fst (vs_mentions sample_vs_env sample_prompt) = [''/w/a.txt'']"
proof -
  have c: "vs_is_adjudication VsUserPromptSubmit" by (simp add: vs_is_adjudication_def)
  have "\<not> vs_is_deny vs_allow" by simp
  then have "jget ''continue'' (vs_json vs_allow) \<noteq> Some (JBool False)"
    "\<not> json_says (vs_json vs_allow) [''decision''] ''block''"
    "\<not> json_says (vs_json vs_allow) [''hookSpecificOutput'', ''permissionDecision''] ''deny''"
    "\<not> json_says (vs_json vs_allow) [''hookSpecificOutput'', ''decision''] ''block''"
    unfolding vs_json_deny by blast+
  from vscode_enforces[OF c sample_vs_run this] show ?thesis
    using sample_vs_mentions by (auto simp: vs_told_def sample_vs_serde_def)
qed

text \<open>
  C12. Without a handler's response within the budget (stdin unreadable, the harness unreachable or
  too slow, an error, a panic), the response of the run loop stops the agent exactly on the
  enforcement commands, under each of the nine adapters built on it: OpenHands, Codex, Hermes,
  OpenCode, Gemini, Copilot, Antigravity, Cursor and VS Code. (Claude Code has a loop of its own;
  the advisory events of Antigravity and the workspace-open event of Cursor, none of them enforced,
  are answered outside it.)
\<close>

theorem hooks_fail_closed:
  "(run_hook env oh oh_degraded_response D1 stdin connect w = Some (t, r1) \<longrightarrow>
      \<not> handled_within (parse_hook_budget env) oh stdin connect (\<lambda>h c v. fst (D1 h c v w)) r1 \<longrightarrow>
      envelope_is_deny r1 = oh_is_adjudication oh)
   \<and> (run_hook env cx cx_degraded_response D2 stdin connect w = Some (t, r2) \<longrightarrow>
      \<not> handled_within (parse_hook_budget env) cx stdin connect (\<lambda>h c v. fst (D2 h c v w)) r2 \<longrightarrow>
      cx_is_deny r2 = cx_is_adjudication cx)
   \<and> (run_hook env hm hm_degraded_response D3 stdin connect w = Some (t, r3) \<longrightarrow>
      \<not> handled_within (parse_hook_budget env) hm stdin connect (\<lambda>h c v. fst (D3 h c v w)) r3 \<longrightarrow>
      hm_is_enforcing r3 = hm_is_adjudication hm)
   \<and> (run_hook env oc oc_degraded_response D4 stdin connect w = Some (t, r4) \<longrightarrow>
      \<not> handled_within (parse_hook_budget env) oc stdin connect (\<lambda>h c v. fst (D4 h c v w)) r4 \<longrightarrow>
      envelope_is_deny r4 = oc_is_adjudication oc)
   \<and> (run_hook env gm gm_degraded_response D5 stdin connect w = Some (t, r5) \<longrightarrow>
      \<not> handled_within (parse_hook_budget env) gm stdin connect (\<lambda>h c v. fst (D5 h c v w)) r5 \<longrightarrow>
      gm_is_deny r5 = gm_is_adjudication gm)
   \<and> (run_hook env cp cp_degraded_response D6 stdin connect w = Some (t, r6) \<longrightarrow>
      \<not> handled_within (parse_hook_budget env) cp stdin connect (\<lambda>h c v. fst (D6 h c v w)) r6 \<longrightarrow>
      cp_is_deny r6 = cp_is_adjudication cp)
   \<and> (run_hook env ag ag_degraded_response D7 stdin connect w = Some (t, r7) \<longrightarrow>
      \<not> handled_within (parse_hook_budget env) ag stdin connect (\<lambda>h c v. fst (D7 h c v w)) r7 \<longrightarrow>
      ag_is_deny r7 = ag_is_adjudication ag)
   \<and> (run_hook env cu cu_degraded_response D8 stdin connect w = Some (t, r8) \<longrightarrow>
      \<not> handled_within (parse_hook_budget env) cu stdin connect (\<lambda>h c v. fst (D8 h c v w)) r8 \<longrightarrow>
      cu_is_deny r8 = cu_is_adjudication cu)
   \<and> (run_hook env vs vs_degraded_response D9 stdin connect w = Some (t, r9) \<longrightarrow>
      \<not> handled_within (parse_hook_budget env) vs stdin connect (\<lambda>h c v. fst (D9 h c v w)) r9 \<longrightarrow>
      vs_is_deny r9 = vs_is_adjudication vs)"
  unfolding run_hook_def
  by (intro conjI impI; rule oh_matrix.unhandled cx_matrix.unhandled hm_matrix.unhandled
      oc_matrix.unhandled gm_matrix.unhandled cp_matrix.unhandled ag_matrix.unhandled
      cu_matrix.unhandled vs_matrix.unhandled; assumption)

lemma hooks_fail_closed_witness:
  "\<exists>t r. run_hook None OhStop oh_degraded_response (oh_dispatch sample_oh_serde sample_oh_env) Never
      (Ready 0 (Inr sample_client)) () = Some (t, r) \<and> envelope_is_deny r"
proof -
  obtain t r where r: "run_hook None OhStop oh_degraded_response (oh_dispatch sample_oh_serde sample_oh_env)
      Never (Ready 0 (Inr sample_client)) () = Some (t, r)"
    using resolve_hook_returns[of None OhStop oh_degraded_response Never "Ready 0 (Inr sample_client)"
        "\<lambda>h c v. fst (oh_dispatch sample_oh_serde sample_oh_env h c v ())"]
    unfolding run_hook_def by blast
  have "\<not> handled_within (parse_hook_budget None) OhStop Never (Ready 0 (Inr sample_client))
      (\<lambda>h c v. fst (oh_dispatch sample_oh_serde sample_oh_env h c v ())) r"
    by (simp add: handled_within_def)
  then have "envelope_is_deny r" using hooks_fail_closed[THEN conjunct1] r
    by (fastforce simp: oh_is_adjudication_def)
  then show ?thesis using r by blast
qed

text \<open>
  C13. The run loop the adapters share always comes to a response, within the budget of 1 to 300
  seconds, whatever stdin, the connection or a handler do (answer late, fail, panic, or never
  return); and a response a handler gives within the budget is the one it comes to. Reading stdin
  is part of the loop, printing is not; events that an adapter answers without the loop are not
  covered.
\<close>

theorem hook_answers:
  "(\<exists>t r. resolve_hook env c degraded stdin connect dispatch = Some (t, r) \<and> t \<le> parse_hook_budget env)
   \<and> 0 < parse_hook_budget env \<and> parse_hook_budget env \<le> 300
   \<and> (\<forall>r. handled_within (parse_hook_budget env) c stdin connect dispatch r \<longrightarrow>
        (\<exists>t. resolve_hook env c degraded stdin connect dispatch = Some (t, r)))"
  using resolve_hook_returns[of env c degraded stdin connect dispatch]
    resolve_hook_in_time[of env c degraded stdin connect dispatch] parse_hook_budget_bounds[of env]
    resolve_hook_handled[of stdin _ _ connect _ _ dispatch c _ _ env degraded]
  unfolding handled_within_def by blast

lemma hook_answers_witness:
  "\<exists>t. resolve_hook None OhStop oh_degraded_response (Ready 2 (Inr JNull)) (Ready 3 (Inr ()))
      (\<lambda>_ _ _. Ready 4 (Inr envelope_ok)) = Some (t, envelope_ok)"
proof -
  have "handled_within (parse_hook_budget None) OhStop (Ready 2 (Inr JNull)) (Ready 3 (Inr ()))
      (\<lambda>_ _ _. Ready 4 (Inr envelope_ok)) envelope_ok"
    by (simp add: handled_within_def parse_hook_budget_def default_hook_budget_def max_hook_budget_def)
  then show ?thesis
    using hook_answers[where env = None and c = OhStop and degraded = oh_degraded_response
        and stdin = "Ready 2 (Inr JNull)" and connect = "Ready 3 (Inr ())"
        and dispatch = "\<lambda>_ _ _. Ready 4 (Inr envelope_ok)"] by blast
qed

text \<open>
  The denial names the endpoint to check exactly when no more specific cause is known: a
  timeout or a rejection by the server never steers the user at connectivity.
\<close>

theorem denial_steers:
  "steers_to_endpoint (fail_closed_reason e) = (\<not> names_a_cause e)
   \<and> steers_to_endpoint (fail_closed_reason_post_tool e) = (\<not> names_a_cause e)"
  by (simp add: denial_steers_iff)



text \<open>
  What the tool classifier decides: every spelling of a name classifies alike; a file
  operation carries the path and the operation its arguments name, and has no path only for a
  patch tool that carries its patch; no call is both a file operation and a fetch.
\<close>

theorem tool_calls_classified:
  "(normalize_tool_name n = normalize_tool_name m \<longrightarrow>
      file_operation_for n args i = file_operation_for m args i
      \<and> web_fetch_for n args i = web_fetch_for m args i)
   \<and> (file_operation_for n args i = Some op \<longrightarrow>
      fo_call_id op = i \<and> fo_path op = file_path_arg args
      \<and> file_op_for n args = Some (fo_operation op)
      \<and> (fo_path op = [] \<longrightarrow> normalize_tool_name n \<in> set patch_tools \<and> fo_content op \<noteq> None))
   \<and> (web_fetch_for n args i = Some f \<longrightarrow> web_url_arg args = Some (wf_url f))
   \<and> \<not> (is_file_operation n args \<and> is_web_fetch n args)"
  using file_op_spelling[of n m args i] web_spelling[of n m args i] file_operation_SomeD[of n args i op]
    web_fetch_SomeD[of n args i f] file_and_web_disjoint[of n args] by blast

lemma tool_calls_classified_witness:
  "file_operation_for ''writeFile'' sample_input ''1'' = Some sample_write_op"
proof -
  have "normalize_tool_name ''writeFile'' = normalize_tool_name ''write_file''" by code_simp
  then show ?thesis
    using tool_calls_classified[THEN conjunct1, rule_format, of "''writeFile''" "''write_file''"
        sample_input "''1''"] sample_file_operation by simp
qed

text \<open>
  C15. The files a prompt mentions are exactly those an at sign at a boundary names, less trailing
  punctuation, that exist; each once, under a path that normalising leaves alone, with at most
  the bytes asked for of its text and never half a character.
\<close>

theorem mentions_exact:
  "(p \<in> set (map fst (resolve_mentioned_files F prompt cwd n)) \<longleftrightarrow>
      (\<exists>b. mention_at None (utf8_chars prompt) b \<and> resolve_file F cwd b = Some p))
   \<and> distinct (map fst (resolve_mentioned_files F prompt cwd n))
   \<and> (resolve_file F cwd b = Some p \<longrightarrow> fs_is_file F p \<and> lexically_normalize p = p
      \<and> (\<exists>k. p = lexically_normalize (path_join cwd (concat (take k (utf8_chars b))))
           \<and> set (drop k (utf8_chars b)) \<subseteq> set trailing_punctuation))
   \<and> (fs_bytes F p = Some bytes \<longrightarrow> valid_utf8 bytes \<longrightarrow>
      (\<exists>t. read_file_text F p n = Some t \<and> valid_utf8 t \<and> t = take (length t) bytes
        \<and> length t \<le> n \<and> min n (length bytes) \<le> length t + 3))"
  using resolve_mentioned_files_exact[where p = p] resolve_file_Some[where p = p] read_file_text_valid[where p = p]
  by blast

lemma mentions_exact_witness:
  "fs_is_file sample_files ''/w/a.txt''
   \<and> (\<exists>t. read_file_text sample_files ''/w/a.txt'' 1 = Some t \<and> length t \<le> 1 \<and> t = take (length t) ''hi'')"
proof -
  have "fs_bytes sample_files ''/w/a.txt'' = Some ''hi''" by (simp add: sample_files_def)
  moreover have "valid_utf8 ''hi''" by code_simp
  ultimately have hi: "fs_bytes sample_files ''/w/a.txt'' = Some ''hi'' \<and> valid_utf8 ''hi''" by blast
  then show ?thesis
    using mentions_exact[THEN conjunct2, THEN conjunct2, THEN conjunct1, rule_format, OF sample_resolved]
      mentions_exact[THEN conjunct2, THEN conjunct2, THEN conjunct2, rule_format, of sample_files "''/w/a.txt''" "''hi''" 1] hi
    by blast
qed

section \<open>The wire\<close>



text \<open>
  Whatever a peer sends, an event that is rejected is rejected with the marker that clients
  recognise; an enumeration value is decoded only from the number it is encoded as, never
  defaulted from an unspecified or unknown one.
\<close>

theorem rejections_marked:
  "well_marked (event_of_pb W p)
   \<and> (decode_enum encode_decision every_decision raw field = Inr d \<longleftrightarrow> raw = encode_decision d)
   \<and> (decode_enum encode_mode every_mode raw field = Inr md \<longleftrightarrow> raw = encode_mode md)
   \<and> (decode_enum encode_file_op every_file_op raw field = Inr f \<longleftrightarrow> raw = encode_file_op f)
   \<and> well_marked (decode_enum encode_decision every_decision raw field)
   \<and> encode_decision d \<noteq> 0 \<and> encode_mode md \<noteq> 0 \<and> encode_file_op f \<noteq> 0"
  using event_marked decision_enum.decoded_iff mode_enum.decoded_iff file_op_enum.decoded_iff
    decision_enum.nonzero mode_enum.nonzero file_op_enum.nonzero well_marked_decode_enum by blast

text \<open>
  C17. A verdict comes back over the wire as it was given, and one that is read from a response
  is the decision the response names.
\<close>

theorem verdict_crosses:
  "adjudicated_of_event (pb_of_adjudicated_event now a eid tid aid) = Inr a
   \<and> (adjudicated_of_event p = Inr b \<longrightarrow>
        (\<exists>adj. pe_event p = Some (Some (PgControl (Some (PcAdjudicated adj))))
          \<and> pad_decision adj = encode_decision (adj_decision b) \<and> pad_decision adj \<noteq> 0))"
  using adjudicated_of_event_decision by simp

lemma verdict_crosses_witness:
  "\<exists>adj. pe_event (pb_of_adjudicated_event 0 (adjudicated_new Escalate) ''e'' ''t'' ''a'')
      = Some (Some (PgControl (Some (PcAdjudicated adj)))) \<and> pad_decision adj \<noteq> 0"
  using verdict_crosses[THEN conjunct2, rule_format, OF verdict_crosses[THEN conjunct1,
      of 0 "adjudicated_new Escalate" "''e''" "''t''" "''a''"]] by blast

text \<open>
  C18. The service is transparent: over a network that delivers the service's own answers, the
  verdicts a client gets for a batch are those the engine gives for the events as they crossed,
  in order and in one pass over the engine's state, within the client's timeout.
\<close>

theorem client_is_engine:
  assumes "honest N W E clock scans" "client_adjudicates W timeout N es w = (Ready n (Inr as), w')"
  shows "\<exists>evs. decode_all (event_of_pb W) (map (pb_of_event W) es) = Inr evs
    \<and> engine_all E evs w = (Inr as, w') \<and> n \<le> timeout"
  by (rule client_batch[OF assms])

lemma client_is_engine_witness:
  "\<exists>as w'. engine_all (adjudicate_event sample_harness sample_fresh ''corr'') [sample_write_event]
      empty_world = (Inr as, w')"
proof -
  obtain a w' where a: "adjudicate_event sample_harness sample_fresh ''corr'' sample_write_event empty_world
      = (Inr a, w')" using sample_write_allowed by blast
  have "client_adjudicates sample_wire 30 sample_network [sample_write_event] empty_world
      = (Ready 1 (Inr [a]), w')"
    using sample_write_crosses a
    by (simp add: client_adjudicates_def sample_network_def rpc_adjudicates_def timeout_at_def
        map_err_def bind_result_def)
  from client_is_engine[OF sample_network_honest this] show ?thesis
    using sample_write_crosses by (auto simp: bind_result_def)
qed

text \<open>
  Numbers on the wire are doubles, and every integer up to 2^53 in absolute value comes back
  as the same integer; a JSON value within that precision comes back with sorted keys and
  nothing else changed.
\<close>

theorem wire_numbers_exact:
  "(\<bar>k\<bar> \<le> 2 ^ 53 \<longrightarrow> proto_value_to_json W (json_to_proto_value W (JInt k)) = JInt k)
   \<and> (wire_exact W v \<longrightarrow> proto_value_to_json W (json_to_proto_value W v) = sort_keys v)"
  using proto_value_round_trip[of W "JInt k"] proto_value_round_trip[of W v]
  unfolding wire_exact.simps sort_keys.simps by blast

lemma wire_numbers_exact_witness:
  "proto_value_to_json sample_wire (json_to_proto_value sample_wire (JInt (2 ^ 53))) = JInt (2 ^ 53)"
  by (rule wire_numbers_exact[THEN conjunct1, rule_format]) simp

section \<open>Claude Code\<close>

text \<open>
  C19. Under Claude Code an enforced command whose response does not stop the agent was answered
  with Allow: a prompt for every file it mentions and then for itself, a tool call unless it is
  left to the user, an output, a permission, a compaction, a task. The exceptions are named: a
  stop that is already being handled, managed settings, and three retrospective commands whose
  budget ran out, which say so. And a response always comes within the budget.
\<close>

theorem claude_enforces:
  "(\<exists>t r. cl_main env P V c stdin connection (w, d) = Some (t, r) \<and> t \<le> parse_hook_budget env)
   \<and> (\<forall>t r. cl_is_adjudication c \<longrightarrow> \<not> cl_is_deny r \<longrightarrow>
        cl_main env P V c stdin connection (w, d) = Some (t, r) \<longrightarrow>
        (\<exists>n raw m H w'. stdin = Ready n (Inr raw) \<and> connection = Ready m (Inr H)
           \<and> cl_told P V (hc_adjudicate H) c raw r w w')
      \<or> (\<exists>input. (input = None \<or> (\<exists>n raw. stdin = Ready n (Inr raw) \<and> input = Some raw))
           \<and> cl_lets_through c input r))"
  by (intro conjI allI impI cl_main_returns cl_enforces)

lemma claude_enforces_witness:
  "\<exists>w1. all_passed sample_client (cl_mention_asks sample_cl_env sample_user_prompt) () w1
     \<and> cl_allowed sample_client (cl_prompt_event sample_cl_env sample_user_prompt) w1 ()
     \<and> map fst (cl_mentions sample_cl_env sample_user_prompt) = [''/w/a.txt'']"
proof -
  have "cl_is_adjudication ClUserPromptSubmit" "\<not> cl_is_deny cl_allow" by (simp_all add: cl_is_adjudication_iff)
  from claude_enforces[THEN conjunct2, rule_format, OF this sample_cl_main] show ?thesis
    using sample_cl_mentions
    by (auto simp: cl_told_def cl_lets_through_def sample_cl_serde_def sample_harness_client_def)
qed

text \<open>
  C20. The output of a tool that is not allowed, be it denied, escalated or left without a verdict,
  is replaced in the response, and nothing shows in the replacement but what any two outputs
  share that have the same structure, the same keys and the same type tags.
\<close>

theorem claude_output_withheld:
  assumes "handle_post_tool_use V C e w = (Ready k (Inr r), w')" "\<not> cl_allowed C (cl_post_event V e) w w'"
    "clq_tool_response e \<noteq> JNull"
  shows "\<exists>p. clx_specific r = Some (ClOutPostToolUse p)
    \<and> clp_updated_tool_output p = Some (redact_tool_output (clq_tool_response e)) \<and> cl_is_deny r
    \<and> (\<forall>other. alike (clq_tool_response e) other \<longrightarrow>
         clp_updated_tool_output p = Some (redact_tool_output other))"
proof -
  have "cl_is_deny r" by (rule ccontr) (use cl_post_told[OF assms(1)] assms(2) in simp)
  then show ?thesis using cl_post_withheld[OF assms] redacted_alike by metis
qed

lemma claude_output_withheld_witness:
  "\<exists>r p. handle_post_tool_use sample_cl_env denying_client sample_output () = (Ready 1 (Inr r), ())
     \<and> clx_specific r = Some (ClOutPostToolUse p)
     \<and> clp_updated_tool_output p = Some (redact_tool_output (clq_tool_response sample_output))"
proof -
  obtain r where r: "handle_post_tool_use sample_cl_env denying_client sample_output () = (Ready 1 (Inr r), ())"
    using sample_withheld(1) by blast
  have "clq_tool_response sample_output \<noteq> JNull" by (simp add: sample_output_def)
  from claude_output_withheld[OF r sample_withheld(2) this] r show ?thesis by blast
qed

text \<open>
  C21. Whatever a user, a tool or a transcript supplies, the content of each event the handlers of
  the Claude Code hook build, those of a transcript and the reply recorded from a Stop's payload
  included, is below the 16 MiB of the transport; and an action, an observation or a lifecycle
  record that fits the cap is sent unchanged. The content is the text the cap counts; the path of a
  file operation, tool names and identifiers are not part of it, and are not capped.
\<close>

theorem claude_events_fit:
  assumes "prints_strings (cl_json_text V)"
  shows "(\<forall>ev \<in> {cl_start_event V s, cl_pre_event V t, cl_permission_event V t, cl_post_event V q,
       cl_failure_event V f, cl_notification_event V n, cl_mention_event V i u m, cl_prompt_event V u,
       cl_subagent_start_event V ag, cl_subagent_stop_event V ag, cl_teammate_event V tm, cl_task_event V j,
       cl_config_event V g, cl_compact_event V x, cl_event V 0 session
         (Observation (Prompt (prompt_assistant (fst (truncate_event_text reply max_event_text_bytes)))))}.
       content_bytes (cl_json_text V) (ev_event ev) < 16 * 1024 * 1024)
     \<and> (\<forall>k. cl_terminal_control reason = Some k \<longrightarrow>
          content_bytes (cl_json_text V) (ev_event (cl_event V 0 session (Control k))) < 16 * 1024 * 1024)
     \<and> (parse_transcript D file cursor = Inr (events, after) \<longrightarrow>
          (\<forall>y\<in>set events. content_bytes (cl_json_text V) (xe_event y) < 16 * 1024 * 1024))
     \<and> (action_bytes (length \<circ> cl_json_text V) a \<le> max_event_text_bytes \<longrightarrow>
          cap_action_strings (cl_json_text V) a max_event_text_bytes = (a, False))
     \<and> (observation_bytes (length \<circ> cl_json_text V) ob \<le> max_event_text_bytes \<longrightarrow>
          cap_observation_strings (cl_json_text V) ob max_event_text_bytes = (ob, False))
     \<and> (control_bytes c \<le> max_event_text_bytes \<longrightarrow> cap_control_strings c max_event_text_bytes = (c, False))"
proof (intro conjI impI ballI allI)
  fix ev assume "ev \<in> {cl_start_event V s, cl_pre_event V t, cl_permission_event V t, cl_post_event V q,
       cl_failure_event V f, cl_notification_event V n, cl_mention_event V i u m, cl_prompt_event V u,
       cl_subagent_start_event V ag, cl_subagent_stop_event V ag, cl_teammate_event V tm, cl_task_event V j,
       cl_config_event V g, cl_compact_event V x, cl_event V 0 session
         (Observation (Prompt (prompt_assistant (fst (truncate_event_text reply max_event_text_bytes)))))}"
  then show "content_bytes (cl_json_text V) (ev_event ev) < 16 * 1024 * 1024"
    using cl_capped_bytes[OF assms] reply_content_fits[of V session reply]
    by (elim insertE emptyE) (simp_all add: cl_pre_event_def cl_permission_event_def cl_post_event_def
        cl_failure_event_def cl_notification_event_def cl_mention_event_def cl_prompt_event_def
        cl_task_event_def cl_config_event_def cl_compact_event_def with_actor_def cl_plain_events
        split: prod.split)
next
  fix k assume "cl_terminal_control reason = Some k"
  then show "content_bytes (cl_json_text V) (ev_event (cl_event V 0 session (Control k))) < 16 * 1024 * 1024"
    by (cases reason) (auto simp: cl_terminal_control_def cl_event_def event_new_def)
next
  fix y assume "parse_transcript D file cursor = Inr (events, after)" "y \<in> set events"
  then show "content_bytes (cl_json_text V) (xe_event y) < 16 * 1024 * 1024"
    by (rule transcript_content_fits)
next
  assume "action_bytes (length \<circ> cl_json_text V) a \<le> max_event_text_bytes"
  then show "cap_action_strings (cl_json_text V) a max_event_text_bytes = (a, False)"
    using assms by (rule fitting_action)
next
  assume "observation_bytes (length \<circ> cl_json_text V) ob \<le> max_event_text_bytes"
  then show "cap_observation_strings (cl_json_text V) ob max_event_text_bytes = (ob, False)"
    using assms by (rule fitting_observation)
next
  assume "control_bytes c \<le> max_event_text_bytes"
  then show "cap_control_strings c max_event_text_bytes = (c, False)" by (rule fitting_control)
qed

lemma claude_events_fit_witness:
  "content_bytes sample_cl_json (ev_event (cl_prompt_event sample_cl_env sample_user_prompt)) < 16 * 1024 * 1024
   \<and> cap_action_strings sample_cl_json (WebFetch \<lparr>wf_call_id = ''1'', wf_url = ''u'', wf_prompt = ''p''\<rparr>)
       max_event_text_bytes = (WebFetch \<lparr>wf_call_id = ''1'', wf_url = ''u'', wf_prompt = ''p''\<rparr>, False)"
proof -
  have j: "cl_json_text sample_cl_env = sample_cl_json" by (simp add: sample_cl_env_def)
  have p: "prints_strings (cl_json_text sample_cl_env)" by (simp add: j prints_strings_def sample_cl_json_def)
  note fit = claude_events_fit[OF p]
  have "content_bytes (cl_json_text sample_cl_env) (ev_event (cl_prompt_event sample_cl_env sample_user_prompt))
      < 16 * 1024 * 1024"
    by (rule bspec[OF fit[THEN conjunct1, of _ _ _ _ _ _ sample_user_prompt]]) simp
  moreover have "cap_action_strings (cl_json_text sample_cl_env) (WebFetch \<lparr>wf_call_id = ''1'', wf_url = ''u'', wf_prompt = ''p''\<rparr>)
      max_event_text_bytes = (WebFetch \<lparr>wf_call_id = ''1'', wf_url = ''u'', wf_prompt = ''p''\<rparr>, False)"
    by (rule fit[THEN conjunct2, THEN conjunct2, THEN conjunct2, THEN conjunct1, THEN mp])
      (simp add: max_event_text_bytes_def)
  ultimately show ?thesis unfolding j by blast
qed

text \<open>
  C22. A transcript is read once: when what was read ended at the end of a line, the events read
  before and the events read from the offset kept are those of one read of the whole. (A last line
  without its end is consumed as it is, and its event is lost when it was cut short.) And what the scan finds is
  the start of the last turn, the unbroken run of assistant lines up to the last event.
\<close>

theorem transcript_read_once:
  assumes "parse_transcript D (Inr a) c = Inr (events, n)" "ends_line (drop c a)" "c \<le> length a"
  shows "n = length a
    \<and> parse_transcript D (Inr (a @ b)) c =
        (case parse_transcript D (Inr (a @ b)) n of Inl e \<Rightarrow> Inl e | Inr (later, m) \<Rightarrow> Inr (events @ later, m))
    \<and> (\<forall>x. last_assistant_turn_start D (Inr a) = Inr x \<longrightarrow>
         (case x of None \<Rightarrow> \<forall>r\<in>set (file_lines a). \<not> extractable_line D r
          | Some s \<Rightarrow> last_turn D (file_lines a) s))"
  using parse_transcript_incremental[OF assms(2,3,1)] last_assistant_turn_start_exact by blast

lemma transcript_read_once_witness:
  "\<exists>x. parse_transcript sample_reader (Inr (sample_line @ sample_line)) 0 =
     (case parse_transcript sample_reader (Inr (sample_line @ sample_line)) 3 of Inl e \<Rightarrow> Inl e
      | Inr (later, m) \<Rightarrow> Inr ([x] @ later, m))
   \<and> last_turn sample_reader (file_lines sample_line) 0"
proof -
  obtain x where x: "parse_transcript sample_reader (Inr sample_line) 0 = Inr ([x], 3)"
    using sample_parsed by blast
  have "ends_line (drop 0 sample_line)" "0 \<le> length sample_line"
    by (simp_all add: ends_line_def sample_line_def)
  note read = transcript_read_once[OF x this, of sample_line]
  have "last_turn sample_reader (file_lines sample_line) 0"
    using read[THEN conjunct2, THEN conjunct2, rule_format, OF sample_turn_start] by simp
  then show ?thesis using read by blast
qed

text \<open>
  C23. The tail of a Stop is not lost: either every event was adjudicated, in order and in batches
  of at most 32, and the cursor is after it with nothing to retry, or the retry cursor is at its
  start, where the next Stop reads from when the transcript still reaches beyond it.
\<close>

theorem stop_tail_kept:
  assumes "adjudicate_stop_transcript_events C session events (w, d) = (Ready t r, w', d')" "events \<noteq> []"
    "pte_cursor_start (hd events) < 2 ^ 64" "pte_cursor_after_line (last events) < 2 ^ 64"
    "cd_home d" "cd_writable d"
  shows "r = Inr () \<and> (adjudicated_in_batches C (map pte_event events) w w'
       \<and> read_cursor_if_present d' session = Some (pte_cursor_after_line (last events))
       \<and> read_retry_cursor_if_present d' session = None
     \<or> read_retry_cursor_if_present d' session = Some (pte_cursor_start (hd events))
       \<and> (\<forall>D view len start. vw_len view = Inr len \<longrightarrow> pte_cursor_start (hd events) < len \<longrightarrow>
            last_assistant_turn_start D (vw_file view) = Inr (Some start) \<longrightarrow>
            resolve_stop_read_plan D view d' session = Inr (ReadFrom (pte_cursor_start (hd events)))))"
  using stop_tail[OF assms] retry_is_read by blast

lemma stop_tail_kept_witness:
  "\<exists>t r d'. adjudicate_stop_transcript_events sample_harness_client ''s'' sample_tail ((), sample_dir)
       = (Ready t r, (), d') \<and> r = Inr ()
     \<and> (read_cursor_if_present d' ''s'' = Some 3 \<or> read_retry_cursor_if_present d' ''s'' = Some 0)"
proof -
  obtain t r d' where s: "adjudicate_stop_transcript_events sample_harness_client ''s'' sample_tail
      ((), sample_dir) = (Ready t r, (), d')" using sample_tail_adjudicated by blast
  have "sample_tail \<noteq> []" "pte_cursor_start (hd sample_tail) < 2 ^ 64"
    "pte_cursor_after_line (last sample_tail) < 2 ^ 64" "cd_home sample_dir" "cd_writable sample_dir"
    by (simp_all add: sample_tail_def sample_dir_def)
  from stop_tail_kept[OF s this] s show ?thesis by (auto simp: sample_tail_def)
qed

text \<open>
  C24. The wait for the reply ends, after fewer looks than the timeout has intervals and one, and
  soon after the timeout. When the transcript changes only with its length and shows the reply at
  a look before the timeout, the wait ends with an offset from which the reply is read.
\<close>

theorem stop_waits:
  assumes "wait_for_transcript_catch_up V d session reply = (r, i, t)"
  shows "(i = 0 \<or> 10 * i < cl_catchup_timeout V + 10) \<and> t \<le> cl_catchup_timeout V + 10 + cl_poll_cost V i
    \<and> (\<forall>c. r = Inr c \<longrightarrow> reply_at (cl_lines V) (cl_transcript V i) d session
         (trim (fst (truncate_event_text reply max_event_text_bytes))) c)
    \<and> (\<forall>j m c. (\<forall>i k n. vw_len (cl_transcript V i) = Inr n \<longrightarrow> vw_len (cl_transcript V k) = Inr n
           \<longrightarrow> cl_transcript V i = cl_transcript V k) \<longrightarrow>
         (\<forall>k<j. look_start V k + cl_poll_cost V k < cl_catchup_timeout V) \<longrightarrow>
         vw_len (cl_transcript V j) = Inr m \<longrightarrow>
         reply_at (cl_lines V) (cl_transcript V j) d session
           (trim (fst (truncate_event_text reply max_event_text_bytes))) c \<longrightarrow>
         (\<exists>c'. r = Inr c' \<and> i \<le> j))"
proof (intro conjI allI impI)
  note p = poll_from_result[OF assms[unfolded wait_for_transcript_catch_up_def]]
  show "i = 0 \<or> 10 * i < cl_catchup_timeout V + 10" "t \<le> cl_catchup_timeout V + 10 + cl_poll_cost V i"
    using p by auto
  fix c assume "r = Inr c"
  with p show "reply_at (cl_lines V) (cl_transcript V i) d session
      (trim (fst (truncate_event_text reply max_event_text_bytes))) c" by blast
next
  fix j m c
  assume a: "\<forall>i k n. vw_len (cl_transcript V i) = Inr n \<longrightarrow> vw_len (cl_transcript V k) = Inr n
      \<longrightarrow> cl_transcript V i = cl_transcript V k"
    "\<forall>k<j. look_start V k + cl_poll_cost V k < cl_catchup_timeout V" "vw_len (cl_transcript V j) = Inr m"
    "reply_at (cl_lines V) (cl_transcript V j) d session
       (trim (fst (truncate_event_text reply max_event_text_bytes))) c"
  have "\<exists>c l u. poll_from V d session (trim (fst (truncate_event_text reply max_event_text_bytes))) 0
      (look_start V 0) None (0, None) = (Inr c, l, u) \<and> l \<le> j"
    by (rule poll_from_lands[OF _ _ a(3,4)]) (use a(1,2) in auto)
  then show "\<exists>c'. r = Inr c' \<and> i \<le> j"
    using assms by (auto simp: wait_for_transcript_catch_up_def look_start_def)
qed

lemma stop_waits_witness:
  "\<exists>c i t. wait_for_transcript_catch_up sample_cl_env sample_dir ''s'' ''yo'' = (Inr c, i, t) \<and> i \<le> 1"
proof -
  obtain r i t where w: "wait_for_transcript_catch_up sample_cl_env sample_dir ''s'' ''yo'' = (r, i, t)"
    by (metis prod.collapse)
  have e: "cl_transcript sample_cl_env = sample_looks" "cl_lines sample_cl_env = sample_reader"
    "cl_catchup_timeout sample_cl_env = 2000" "cl_poll_cost sample_cl_env = (\<lambda>_. 1)"
    by (simp_all add: sample_cl_env_def stop_transcript_catchup_timeout_def)
  have len: "\<forall>i k n. vw_len (sample_looks i) = Inr n \<longrightarrow> vw_len (sample_looks k) = Inr n
      \<longrightarrow> sample_looks i = sample_looks k"
    by (auto simp: sample_looks_def Let_def sample_line_def)
  have m: "vw_len (sample_looks 1) = Inr 3" by (simp add: sample_looks_def sample_line_def)
  have r: "reply_at sample_reader (sample_looks 1) sample_dir ''s''
      (trim (fst (truncate_event_text ''yo'' max_event_text_bytes))) 0"
    using sample_reply[of 1] by (simp add: sample_yo sample_trims)
  have time: "\<forall>k<1. look_start sample_cl_env k + 1 < 2000" by (simp add: look_start_def)
  from stop_waits[OF w, unfolded e, THEN conjunct2, THEN conjunct2, THEN conjunct2, rule_format, OF _ _ m r]
    len time w show ?thesis by blast
qed
section \<open>Installing hooks\<close>

text \<open>
  C25. A command line an installer writes for a POSIX shell is read back for what it says: from the
  line for a binary called \<open>sondera\<close> at any path, quoting included, the scanner recovers the path, the
  provider and the subcommand, so the entry is claimed by its own provider and by no other. (Lines
  for \<open>cmd\<close> and PowerShell are not covered: some of them are misread.)
\<close>

theorem installed_command_recognised:
  assumes "sondera_path path" "kebab provider" "kebab sub"
  shows "parse_hook_command (hook_command_line ShPosix path provider verbose sub) =
      Some \<lparr>hc_binary = portable_str path, hc_provider = provider, hc_subcommand = Some sub\<rparr>
    \<and> (\<forall>p. command_targets_provider (hook_command_line ShPosix path provider verbose sub) p \<longleftrightarrow> p = provider)"
  using posix_command_parses [OF assms(1)] our_command [OF assms] assms(2,3) kebab_word by metis

lemma installed_command_recognised_witness:
  "command_targets_provider (hook_command_line ShPosix sample_sondera ''codex'' True ''stop'') ''codex''
   \<and> \<not> command_targets_provider (hook_command_line ShPosix sample_sondera ''codex'' True ''stop'') ''claude''"
  using installed_command_recognised [OF sample_sondera_path, of "''codex''" "''stop''" True]
  by (simp add: kebab_def byte_defs)

text \<open>
  C26. Installing touches no rule of others, in a file without repeated keys. In every event the
  rules afterwards are the generated ones joined to what was there less our own entries: in front for
  Hermes, Copilot and Claude Code, behind for OpenHands and Codex. Codex and Claude Code take our
  entries out of the rules that hold them and drop a rule without entries; for Codex the statement
  is about events none of whose rules was without entries before, for Claude Code others' empty
  rules are dropped too. Beside the hooks OpenHands, Codex and Claude Code keep every setting;
  Copilot sets its version and keeps the user's switch, written as off when there is none; Hermes
  keeps every setting but its consent, which it sets when asked to, marking it unless it was given
  before.
\<close>

theorem installs_keep_others:
  assumes "config_ok c"
  shows "rules_of (hooks_of (oh_apply_hooks path c)) e = others oh_is_managed c e @ rules_of (oh_generate_hooks_config path) e
    \<and> rules_of (hooks_of (hm_apply_hooks auto b c)) e = rules_of (hm_generate_hooks_config b) e @ others hm_entry_contains_sondera c e
    \<and> rules_of (hooks_of (cp_apply_hooks path c)) e = rules_of (cp_generated_hooks path) e @ others cp_is_managed_sondera_hook c e
    \<and> (list_all cx_tidy_rule (rules_of (hooks_of c) e) \<longrightarrow> rules_of (hooks_of (cx_apply_hooks path c)) e =
        cx_clean_rules (rules_of (hooks_of c) e) @ rules_of (cx_generated_hooks path) e)
    \<and> rules_of (hooks_of (merge_managed_sondera_hooks c b)) e =
      rules_of (cl_generate_hooks_config b) e @ cl_clean_rules is_managed_sondera_hook_command (rules_of (hooks_of c) e)
    \<and> (\<forall>k. k \<noteq> ''hooks'' \<longrightarrow>
      map_of (oh_apply_hooks path c) k = map_of c k \<and> map_of (cx_apply_hooks path c) k = map_of c k
      \<and> map_of (merge_managed_sondera_hooks c b) k = map_of c k
      \<and> map_of (cp_apply_hooks path c) k =
        (if k = ''version'' then Some (JInt 1)
         else if k = ''disableAllHooks''
           then Some (JBool (unwrap_or (Option.bind (map_of c ''disableAllHooks'') as_bool) False))
         else map_of c k)
      \<and> map_of (hm_apply_hooks auto b c) k =
        (if auto \<and> k = ''hooks_auto_accept'' then Some (JBool True)
         else if auto \<and> k = auto_accept_managed_key
             \<and> \<not> unwrap_or (Option.bind (map_of c ''hooks_auto_accept'') as_bool) False then Some (JBool True)
         else map_of c k))"
proof (intro conjI allI impI)
  fix k assume k: "k \<noteq> ''hooks''"
  show "map_of (oh_apply_hooks path c) k = map_of c k" "map_of (cx_apply_hooks path c) k = map_of c k"
    using k by (simp_all add: oh_kept cx_kept)
  show "map_of (merge_managed_sondera_hooks c b) k = map_of c k"
    using k assms by (simp add: cl_merge_other config_ok_def)
  show "map_of (cp_apply_hooks path c) k =
      (if k = ''version'' then Some (JInt 1)
       else if k = ''disableAllHooks''
         then Some (JBool (unwrap_or (Option.bind (map_of c ''disableAllHooks'') as_bool) False))
       else map_of c k)"
    using k assms cp_set [of path c] cp_kept [of c k path] by (auto simp: config_ok_def)
  show "map_of (hm_apply_hooks auto b c) k =
      (if auto \<and> k = ''hooks_auto_accept'' then Some (JBool True)
       else if auto \<and> k = auto_accept_managed_key
           \<and> \<not> unwrap_or (Option.bind (map_of c ''hooks_auto_accept'') as_bool) False then Some (JBool True)
       else map_of c k)"
    by (rule hm_rest [OF k])
qed (use assms oh_applied hm_applied cp_applied cx_applied cl_applied in simp_all)

lemma installs_keep_others_witness:
  "lint_rule \<in> set (rules_of (hooks_of (oh_apply_hooks sample_sondera sample_config)) ''PreToolUse'')
   \<and> map_of (cp_apply_hooks sample_sondera sample_config) ''model'' = Some (JStr ''m'')"
  using installs_keep_others [OF sample_config_ok, of sample_sondera "''PreToolUse''"]
  by (simp add: lint_not_ours oh_is_managed_def auto_accept_managed_key_def)
    (simp add: rules_of_def hooks_of_def sample_config_def lint_not_ours)

text \<open>
  C27. Installing twice is installing once, for a binary called \<open>sondera\<close> and in a file without
  repeated keys. For OpenHands, Hermes, Copilot, Claude Code and, when no rule was without entries
  before, Codex, the second run leaves
  every event of the hooks and every other key with the value the first gave it; for Antigravity,
  Gemini and Cursor, the settings entry of VS Code and the marketplace of Codex it leaves the whole
  file as it is.
\<close>

theorem installs_idempotent:
  assumes "config_ok c" "sondera_path path"
  shows "map_of (hooks_of (oh_apply_hooks path (oh_apply_hooks path c))) = map_of (hooks_of (oh_apply_hooks path c))
    \<and> map_of (hooks_of (hm_apply_hooks auto (path, v) (hm_apply_hooks auto (path, v) c))) = map_of (hooks_of (hm_apply_hooks auto (path, v) c))
    \<and> map_of (hooks_of (cp_apply_hooks path (cp_apply_hooks path c))) = map_of (hooks_of (cp_apply_hooks path c))
    \<and> ((\<forall>e. list_all cx_tidy_rule (rules_of (hooks_of c) e)) \<longrightarrow>
      map_of (hooks_of (cx_apply_hooks path (cx_apply_hooks path c))) = map_of (hooks_of (cx_apply_hooks path c)))
    \<and> map_of (hooks_of (merge_managed_sondera_hooks (merge_managed_sondera_hooks c (path, v)) (path, v)))
      = map_of (hooks_of (merge_managed_sondera_hooks c (path, v)))
    \<and> (\<forall>k. k \<noteq> ''hooks'' \<longrightarrow>
      map_of (oh_apply_hooks path (oh_apply_hooks path c)) k = map_of (oh_apply_hooks path c) k
      \<and> map_of (hm_apply_hooks auto (path, v) (hm_apply_hooks auto (path, v) c)) k = map_of (hm_apply_hooks auto (path, v) c) k
      \<and> map_of (cp_apply_hooks path (cp_apply_hooks path c)) k = map_of (cp_apply_hooks path c) k
      \<and> map_of (cx_apply_hooks path (cx_apply_hooks path c)) k = map_of (cx_apply_hooks path c) k
      \<and> map_of (merge_managed_sondera_hooks (merge_managed_sondera_hooks c (path, v)) (path, v)) k
        = map_of (merge_managed_sondera_hooks c (path, v)) k)
    \<and> ag_apply_hooks path (ag_apply_hooks path c) = ag_apply_hooks path c
    \<and> gm_apply_hooks path (gm_apply_hooks path c) = gm_apply_hooks path c
    \<and> cu_apply_hooks path (cu_apply_hooks path c) = cu_apply_hooks path c
    \<and> vs_add_location (vs_add_location c) = vs_add_location c
    \<and> (\<forall>doc doc'. add_marketplace_plugin doc = Inr doc' \<longrightarrow> add_marketplace_plugin doc' = Inr doc')"
proof -
  have "distinct (keys (merge_managed_sondera_hooks c (path, v)))"
    using cl_merge_ok [OF assms(1)] by (simp add: config_ok_def)
  then show ?thesis
    using oh_twice hm_twice cp_twice cx_twice cl_twice assms marketplace_idempotent
    by (simp add: ag_apply_hooks_def gm_apply_hooks_def cu_apply_hooks_def json_insert_same oh_kept cx_kept
        hm_twice_rest cp_twice_rest cl_merge_other vs_added_twice)
qed

lemma installs_idempotent_witness:
  "map_of (hooks_of (cx_apply_hooks sample_sondera (cx_apply_hooks sample_sondera sample_config)))
   = map_of (hooks_of (cx_apply_hooks sample_sondera sample_config))"
  using installs_idempotent [OF sample_config_ok sample_sondera_path] sample_tidy by blast



text \<open>
  C29. No configuration is lost: whatever an install or an uninstall does, however it fails, it
  touches the file and its backup only, and a file whose content it changed was blank or an object
  and has its old content in the backup.
\<close>

theorem rewrites_backed_up:
  assumes "left = fst (install_config I V binary edit fs) \<or> left = fst (uninstall_config I V revoke fs)"
  shows "(\<forall>p. p \<noteq> ci_path I \<longrightarrow> p \<noteq> backup_path (ci_path I) (ie_timestamp V) \<longrightarrow> left p = fs p)
    \<and> (\<forall>old. fs (ci_path I) = Some old \<longrightarrow> left (ci_path I) \<noteq> Some old \<longrightarrow>
      left (backup_path (ci_path I) (ie_timestamp V)) = Some old
      \<and> (trim old = [] \<or> (\<exists>kvs. cd_parse (ci_document I) old = Some (JObj kvs))))"
  using config_run_disk [OF assms] by blast

lemma rewrites_backed_up_witness:
  "fst (install_config sample_installer sample_install_env (Some sample_sondera) gm_apply_hooks sample_disk) ''/c.backup.1.json'' = Some ''{}''"
  using rewrites_backed_up [OF disjI1 [OF refl], of sample_installer sample_install_env "Some sample_sondera" gm_apply_hooks
      sample_disk, THEN conjunct2, rule_format, of "''{}''", THEN conjunct1] sample_installed
  by (simp add: sample_installer_def sample_install_env_def sample_disk_def sample_copy)

text \<open>
  C30. An uninstall of Claude Code by an unprivileged user changes at most two files: the one the
  selected settings path names, which is the target when the path is a link, and the one named by a
  backup beside the path. When these are different files and the first has changed, the path named a
  regular file or a link to one, it held settings with commands of ours, the backup holds its old
  content, and it now holds the settings without them (or what a failed write left). Settings
  cleaned so hold no command of ours.
\<close>

theorem claude_uninstall_contained:
  assumes "cl_uninstall_hooks V scope fs = (fs', r)" "\<not> cie_elevated V" "get_settings_path V scope = Inr path"
  shows "(\<exists>copy. backup_name V path copy
      \<and> (\<forall>p. p \<noteq> cell V path \<longrightarrow> p \<noteq> cell V copy \<longrightarrow> fs' p = fs p)
      \<and> (cell V copy \<noteq> cell V path \<longrightarrow> fs' (cell V path) \<noteq> fs (cell V path) \<longrightarrow>
          cleaned_from V SymFollowRegularTarget path copy fs fs'))
    \<and> (\<forall>settings. config_ok settings \<longrightarrow> \<not> settings_have_matching_hook_command is_managed_sondera_hook_command
        (fst (cl_remove_managed_sondera_hooks settings)))"
  using uninstall_unprivileged [OF assms] removed_no_match by (simp add: cl_remove_managed_sondera_hooks_def)

lemma claude_uninstall_contained_witness:
  "\<exists>copy. backup_name sample_install_machine ''/h/.claude/settings.json'' copy
     \<and> (\<forall>p. p \<noteq> ''/c.json'' \<longrightarrow> p \<noteq> cell sample_install_machine copy \<longrightarrow>
        fst (cl_uninstall_hooks sample_install_machine ScopeUser sample_disk) p = sample_disk p)"
proof -
  have "\<not> cie_elevated sample_install_machine" by (simp add: sample_install_machine_def install_env.defs)
  from claude_uninstall_contained [OF surjective_pairing this sample_settings_path, of sample_disk]
  show ?thesis unfolding sample_cell by blast
qed

text \<open>
  C31. VS Code settings: stripping comments is idempotent and keeps every line, dropping trailing
  commas loses nothing else; and, when the hooks directory was not registered before, registering it
  and taking it out again gives the settings back, but that an empty object for the locations stays
  behind when there was none.
\<close>

theorem vscode_settings_restored:
  assumes "valid_utf8 text" "\<And>l. map_of settings locations_key = Some (JObj l) \<Longrightarrow>
    distinct (keys l) \<and> user_hooks_dir_tilde \<notin> set (keys l)"
  shows "strip_jsonc_comments (strip_jsonc_comments text) = strip_jsonc_comments text
    \<and> filter ((=) [line_feed]) (utf8_chars (strip_jsonc_comments text)) = filter ((=) [line_feed]) (utf8_chars text)
    \<and> filter (\<lambda>ch. ch \<noteq> '','') (utf8_chars (strip_trailing_json_commas text)) = filter (\<lambda>ch. ch \<noteq> '','') (utf8_chars text)
    \<and> vs_drop_location (vs_add_location settings) =
      (case map_of settings locations_key of
         None \<Rightarrow> Some (settings @ [(locations_key, JObj [])])
       | Some (JObj l) \<Rightarrow> Some settings
       | _ \<Rightarrow> None)"
  using strip_jsonc_idem [OF assms(1)] strip_jsonc_lines [OF assms(1)] strip_trailing_kept [OF assms(1)]
    vs_dropped_again [OF assms(2)] by blast

lemma vscode_settings_restored_witness:
  "vs_drop_location (vs_add_location [(''a'', JNull)]) = Some [(''a'', JNull), (locations_key, JObj [])]"
  using vscode_settings_restored [of "''x''" "[(''a'', JNull)]"]
  by (simp add: valid_utf8_def is_cont_def locations_key_def)


section \<open>Scanning and settings\<close>

text \<open>
  C32. The prompt a transcript is rendered to never exceeds 600,000 bytes: the events are all there,
  each cut to 4,000 bytes, or a gap is left in the middle of the run, in front of and behind which
  they are whole and in order.
\<close>

theorem scan_prompt_bounded:
  assumes "length header + length tid + 500 \<le> max_prompt_chars" "length events \<le> 10 ^ 19"
  shows "length (render_transcript_prompt R header tid events) \<le> max_prompt_chars
    \<and> (\<forall>i e. length (render_transcript_event R i e) \<le> max_event_chars)
    \<and> (\<exists>h t. h \<le> t \<and> t \<le> length events
        \<and> render_transcript_prompt R header tid events =
          transcript_preamble header tid (length events)
          @ concat (map event_block (take h (transcript_blocks R events))) @ gap_marker h t
          @ concat (map event_block (drop t (transcript_blocks R events))))"
proof -
  have len: "length (transcript_blocks R events) = length events" by (simp add: transcript_blocks_def)
  have small: "length (transcript_preamble header tid (length events)) + 400 \<le> max_prompt_chars"
    using assms nat_to_string_length [of "length events" 19] by (simp add: transcript_preamble_def)
  have count: "length (transcript_blocks R events) \<le> 10 ^ 19" using assms(2) len by simp
  have event: "length (render_transcript_event R i e) \<le> max_event_chars" for i e
    unfolding render_transcript_event_def by (rule truncate_event_json_bound)
  show ?thesis
  proof (cases rule: render_blocks_parts [OF small count, case_names whole gap])
    case whole
    then show ?thesis using event unfolding render_transcript_prompt_def
      by (intro conjI exI [of _ "length events"] allI) (simp_all add: len gap_marker_def)
  next
    case (gap h t)
    then show ?thesis using event unfolding render_transcript_prompt_def
      by (intro conjI exI [of _ h] exI [of _ t] allI) (simp_all add: len)
  qed
qed

lemma scan_prompt_bounded_witness:
  "length (render_transcript_prompt (scn_prompts sample_scanner) ''h'' ''run'' [sample_terminal]) \<le> 600000"
  using scan_prompt_bounded [of "''h''" "''run''" "[sample_terminal]" "scn_prompts sample_scanner"]
  by (simp add: max_prompt_chars_def)

text \<open>
  C33. However scans, the harness and failures of the store, the model or a task interleave: a scan
  in the ledger that the harness was not handed from outside has its row in the table of its kind;
  at most the configured number of tasks runs, the permits are what is left of it, and no task works
  on the output of the scanner.
\<close>

theorem scans_stored_first:
  assumes "dispatching A n d"
  shows "(\<forall>e\<in>set (ledger (dp_store d)). e \<notin> A \<longrightarrow>
      (\<forall>sc. ev_event e = Control (Scanned sc) \<longrightarrow> scan_stored (dp_store d) sc))
    \<and> length (dp_running d) \<le> max n 1 \<and> dp_permits d = max n 1 - length (dp_running d)
    \<and> (\<forall>task\<in>set (dp_running d). \<forall>act\<in>set task. \<not> is_scanner_output (act_event act))"
  using dispatching_stored [OF assms] scans_bounded [OF assms] by (simp add: ledger_stored_def max_concurrency_def)

lemma scans_stored_first_witness:
  "length (dp_running (dispatch_scans sample_terminal sample_dispatcher)) \<le> 4
   \<and> [LoadTranscript sample_terminal] \<in> set (dp_running (dispatch_scans sample_terminal sample_dispatcher))"
  using scans_stored_first [OF Stepped [OF sample_dispatching Dispatched [of _ _ sample_terminal]]]
  by (simp add: dispatch_scans_def spawn_scan_def default_max_concurrent_scans_def)

text \<open>
  C34. A run that ends is summarised: once its terminal event is dispatched to a harness with a free
  permit, its task can run, and when the model answers both calls in time and the ids drawn for the
  two records are not in use, a read of the run returns the new digest and the new behavioural scan.
  The digest names the run it was made of, and both are recorded in the ledger.
\<close>

theorem terminal_event_summarised:
  fixes D :: "nat \<Rightarrow> scan_draw"
  assumes "0 < dp_permits d" "should_scan_transcript_for_event e" "ev_event_id e \<noteq> []"
    and "\<And>i. dw_faults (D i) = (\<lambda>_. None)" "\<And>i. dw_scans (D i) = K"
    and "ids_drawn (D 3) (D 6) (dp_store d)"
    and "read_events (dw_rows (D 0)) (dw_now (D 0)) (written_rows (dw_rows (D 0)) (ledger (dp_store d))) (ev_trajectory_id e) = events"
      "events \<noteq> []"
    and "digest_transcript (dw_scanner (D 1)) (ev_trajectory_id e) events = Value t (Inr dg)"
      "sk_digest_json K dg = Some jd" "jd \<noteq> []" "sk_parse_digest K jd = Some dg"
    and "scan_transcript (dw_scanner (D 4)) (ev_trajectory_id e) events = Value t' (Inr r)"
      "sk_scan_json K r = Some jr" "jr \<noteq> []" "sk_parse_scan K jr = Some r"
    and "rows_keyed (tb_digests (dp_store d))" "\<forall>x\<in>set (tb_digests (dp_store d)). sr_created_at x < dw_created_at (D 2)"
    and "rows_keyed (tb_scans (dp_store d))" "\<forall>x\<in>set (tb_scans (dp_store d)). sr_created_at x < dw_created_at (D 5)"
  shows "\<exists>d'. (scan_step A)\<^sup>*\<^sup>* (dispatch_scans e d) d' \<and> td_trajectory_id dg = ev_trajectory_id e
    \<and> ledger (dp_store d') = ledger (dp_store d)
      @ [scanned_event (dw_fresh (D 3)) (dw_correlation (D 3)) e (ScTranscriptDigest (ev_event_id e) dg),
         scanned_event (dw_fresh (D 6)) (dw_correlation (D 6)) e (ScTranscriptScan (ev_event_id e) r)]
    \<and> (\<forall>F x s. transcript_scans F K (ev_trajectory_id e) (dp_store d') = (Inr x, s) \<longrightarrow>
        x = \<lparr>tsc_digest = Some dg, tsc_scan = Some \<lparr>ts_source_event_id = ev_event_id e, ts_result = r\<rparr>\<rparr>)"
proof -
  obtain after where "dp_running (dispatch_scans e d) = dp_running d @ [LoadTranscript e] # after"
    using dispatch_spawns [OF assms(1,2)] by blast
  note steps = run_task_steps [OF this, of A D]
  note ran = terminal_task [where s = "dp_store d", OF assms(4-10,13,14)]
  let ?s = "run_task D [LoadTranscript e] (dp_store d)"
  have "stored_digest K (ev_trajectory_id e) (tb_digests ?s) = Some dg"
    unfolding stored_digest_def ran(1) using stored_newest [OF assms(17), of "row_of_source (source_of e) (digest_columns_of dg) jd (dw_created_at (D 2))"] assms(11,12,18)
    by (simp add: row_of_source_def source_of_def scan_payload_def optional_text_def)
  moreover have "stored_scan K (ev_trajectory_id e) (tb_scans ?s) = Some \<lparr>ts_source_event_id = ev_event_id e, ts_result = r\<rparr>"
    unfolding stored_scan_def ran(2) using stored_newest [OF assms(19), of "row_of_source (source_of e) (scan_columns_of K r) jr (dw_created_at (D 5))"] assms(3,15,16,20)
    by (simp add: row_of_source_def source_of_def scan_payload_def optional_text_def transcript_scan_from_row_def)
  ultimately show ?thesis
    using steps ran(3) digest_pinned(1) [OF assms(9)] by (auto dest!: transcript_scans_Inr)
qed

lemma terminal_event_summarised_witness:
  "\<exists>d'. (scan_step {})\<^sup>*\<^sup>* (dispatch_scans sample_terminal sample_dispatcher) d' \<and> length (ledger (dp_store d')) = 3
    \<and> td_trajectory_id sample_digest = ''run''"
proof -
  have "read_events (dw_rows (sample_draw 0)) (dw_now (sample_draw 0)) (written_rows (dw_rows (sample_draw 0))
      (ledger (dp_store sample_dispatcher))) (ev_trajectory_id sample_terminal) = sample_loaded"
    by (simp add: sample_loaded_def)
  note reads = terminal_event_summarised [where A = "{}" and D = sample_draw and d = sample_dispatcher and e = sample_terminal
    and K = sample_scan_codec and jd = "''d''" and jr = "''s''" and t = 1 and t' = 1 and dg = sample_digest
    and r = sample_scan_result, OF _ _ _ _ _ sample_ids_drawn this sample_loaded_ne]
  obtain d' where "(scan_step {})\<^sup>*\<^sup>* (dispatch_scans sample_terminal sample_dispatcher) d'" "td_trajectory_id sample_digest = ''run''"
      "length (ledger (dp_store d')) = 3"
    using reads by (auto simp: sample_answers sample_scan_codec_def rows_keyed_def)
  then show ?thesis by blast
qed

text \<open>
  C35. The two reads of a run's scans. The read of one run and the batch read of all runs return the
  same digest and the same behavioural scan exactly when, in each table, the newest row of the run
  can be decoded or none of them can: over an undecodable newest row the batch falls back to an
  older one, the single read does not.
\<close>

theorem scan_reads_agree:
  assumes "transcript_scans F K tid s = (Inr one, s1)" "latest_transcript_scans F' K s = (Inr all, s2)" "tid \<noteq> []"
  shows "unwrap_or (all tid) no_scans = one \<longleftrightarrow>
    settled (scan_payload (sk_parse_digest K)) (of_run tid (tb_digests s))
    \<and> settled (transcript_scan_from_row K) (of_run tid (tb_scans s))"
  unfolding batch_reads [OF assms(2,3)] transcript_scans_Inr [OF assms(1)]
  by (simp add: stored_digest_def stored_scan_def settled_iff)

lemma scan_reads_agree_witness:
  "\<exists>one s1 all s2. transcript_scans (\<lambda>_. None) sample_scan_codec ''run'' sample_scan_store = (Inr one, s1)
     \<and> latest_transcript_scans (\<lambda>_. None) sample_scan_codec sample_scan_store = (Inr all, s2)
     \<and> unwrap_or (all ''run'') no_scans \<noteq> one"
proof -
  let ?F = "\<lambda>_::nat. None :: string option"
  obtain one s1 where one: "transcript_scans ?F sample_scan_codec ''run'' sample_scan_store = (Inr one, s1)"
    by (simp add: transcript_scans_def scan_bind_def scan_op_def scan_return_def Let_def)
  obtain all s2 where all: "latest_transcript_scans ?F sample_scan_codec sample_scan_store = (Inr all, s2)"
    by (simp add: latest_transcript_scans_def scan_bind_def scan_op_def Let_def)
  have "\<not> settled (scan_payload (sk_parse_digest sample_scan_codec)) (of_run ''run'' (tb_digests sample_scan_store))"
    by (simp add: sample_scan_store_def sample_rows_def row_of_source_def settled_def of_run_def newest_first_def first_of_def
      scan_payload_def optional_text_def sample_scan_codec_def)
  then have "unwrap_or (all ''run'') no_scans \<noteq> one" using scan_reads_agree [OF one all] by simp
  then show ?thesis using one all by blast
qed

text \<open>
  C36. Settings are layered key by key. For each guardrail a key is the first one set in the
  project's table for that guardrail, the user's, the project's shared table and the user's, and
  the default when none is; a key of the scanner is the first one set in the project's and the
  user's table of the scanner alone. For the API key the variable of the guardrails, or of the
  scanner, beats them all; an endpoint not configured is the default's only with the default
  provider. Each table is read from the file of its directory, and a directory without one sets
  nothing.
\<close>

theorem settings_layered:
  assumes "load_dirs V user project = Inr s"
  shows "\<exists>P U. (\<forall>(dir, L) \<in> {(project, P), (user, U)}. load_layer V (settings_file V dir) = Inr L \<and>
        (case settings_file V dir of
           None \<Rightarrow> L = empty_layer
         | Some p \<Rightarrow> \<exists>txt raw. sv_read V p = Some txt \<and> sv_parse V txt = Some raw
             \<and> keys_read (rs_guardrails raw) (ly_shared L) \<and> keys_read (rs_data raw) (ly_data L)
             \<and> keys_read (rs_policy raw) (ly_policy L) \<and> keys_read (rs_scanner raw) (ly_scanner L)
             \<and> ly_guardrails_enabled L = rs_guardrails_enabled raw \<and> ly_scanner_enabled L = rs_scanner_enabled raw
             \<and> ly_addr L = Option.bind (rs_addr raw) (sv_parse_addr V)))
    \<and> (\<forall>(own, model) \<in> {(ly_data, st_data_model s), (ly_policy, st_policy_model s)}.
        mc_model model = unwrap_or (key_chain mk_model own ly_shared P U) ''gpt-oss-safeguard:20b''
        \<and> mc_provider model = unwrap_or (key_chain mk_provider own ly_shared P U) PvOllama
        \<and> mc_api_key model = unwrap_or (opt_or (env_override V ''SONDERA_GUARDRAIL_API_KEY'')
            (key_chain mk_api_key own ly_shared P U)) []
        \<and> mc_base_url model = opt_or (key_chain mk_base_url own ly_shared P U)
            (if mc_provider model = PvOllama then Some ''http://localhost:11434'' else None)
        \<and> mc_project model = key_chain mk_project own ly_shared P U
        \<and> mc_location model = key_chain mk_location own ly_shared P U
        \<and> mc_temperature model = unwrap_or (key_chain mk_temperature own ly_shared P U) 0)
    \<and> mc_model (st_scanner s) = unwrap_or (scanner_chain mk_model P U) ''gpt-oss:20b''
    \<and> mc_provider (st_scanner s) = unwrap_or (scanner_chain mk_provider P U) PvOllama
    \<and> mc_api_key (st_scanner s) = unwrap_or (opt_or (env_override V ''SONDERA_SCANNER_API_KEY'')
        (scanner_chain mk_api_key P U)) []
    \<and> mc_base_url (st_scanner s) = opt_or (scanner_chain mk_base_url P U)
        (if mc_provider (st_scanner s) = PvOllama then Some ''http://localhost:11434'' else None)
    \<and> mc_project (st_scanner s) = scanner_chain mk_project P U
    \<and> mc_location (st_scanner s) = scanner_chain mk_location P U
    \<and> mc_temperature (st_scanner s) = unwrap_or (scanner_chain mk_temperature P U) 0
    \<and> st_guardrails_enabled s = unwrap_or (opt_or (ly_guardrails_enabled P) (ly_guardrails_enabled U)) False
    \<and> st_scanner_enabled s = unwrap_or (opt_or (ly_scanner_enabled P) (ly_scanner_enabled U)) False
    \<and> st_addr s = opt_or (ly_addr P) (ly_addr U)"
proof -
  obtain P U where layers: "load_layer V (settings_file V project) = Inr P" "load_layer V (settings_file V user) = Inr U"
      and s: "s = settings_from_layer V (layer_or P U) (opt_list (settings_file V project) @ opt_list (settings_file V user))
       (opt_list (keep_if (sv_is_dir V) project) @ opt_list (keep_if (sv_is_dir V) user))"
    using assms by (auto simp: load_dirs_Inr)
  have url: "resolve_base_url u p q v = opt_or u (if p = q then v else None)" for u p q v
    by (cases u) (simp_all add: resolve_base_url_def)
  have own: "ly_data (layer_or P U) = model_or (ly_data P) (ly_data U)" "ly_policy (layer_or P U) = model_or (ly_policy P) (ly_policy U)"
      "ly_shared (layer_or P U) = model_or (ly_shared P) (ly_shared U)"
    by (simp_all add: layer_or_def)
  note keys = layered_keys [of ly_data P U ly_shared, OF own(1,3)] layered_keys [of ly_policy P U ly_shared, OF own(2,3)]
    scanner_keys
  have on: "ly_guardrails_enabled (layer_or P U) = opt_or (ly_guardrails_enabled P) (ly_guardrails_enabled U)"
      "ly_scanner_enabled (layer_or P U) = opt_or (ly_scanner_enabled P) (ly_scanner_enabled U)"
      "ly_addr (layer_or P U) = opt_or (ly_addr P) (ly_addr U)" "st_addr s = ly_addr (layer_or P U)"
    by (simp_all add: layer_or_def s settings_from_layer_def scanner_settings_def Let_def)
  show ?thesis
  proof (intro exI conjI)
    show "\<forall>(dir, L) \<in> {(project, P), (user, U)}. load_layer V (settings_file V dir) = Inr L \<and>
        (case settings_file V dir of
           None \<Rightarrow> L = empty_layer
         | Some p \<Rightarrow> \<exists>txt raw. sv_read V p = Some txt \<and> sv_parse V txt = Some raw
             \<and> keys_read (rs_guardrails raw) (ly_shared L) \<and> keys_read (rs_data raw) (ly_data L)
             \<and> keys_read (rs_policy raw) (ly_policy L) \<and> keys_read (rs_scanner raw) (ly_scanner L)
             \<and> ly_guardrails_enabled L = rs_guardrails_enabled raw \<and> ly_scanner_enabled L = rs_scanner_enabled raw
             \<and> ly_addr L = Option.bind (rs_addr raw) (sv_parse_addr V))"
      using layers load_layer_reads [OF layers(1)] load_layer_reads [OF layers(2)] by auto
  qed (simp_all add: s settings_models resolve_model_keys keys url on [unfolded s] guardrail_default_def
      scanner_default_def model_default_def api_key_env_def scanner_api_key_env_def)
qed

lemma settings_layered_witness:
  "\<exists>s. load_dirs sample_settings_env None (Some ''/p/.sondera'') = Inr s \<and> mc_model (st_policy_model s) = ''m''"
proof -
  have none: "settings_file sample_settings_env None = None" by (simp add: settings_file_def keep_if_def)
  obtain s where s: "load_dirs sample_settings_env None (Some ''/p/.sondera'') = Inr s"
    by (simp add: load_dirs_def none sample_settings_file sample_layer)
  then have "mc_model (st_policy_model s) = ''m''"
    using settings_layered [OF s]
    by (auto simp: none sample_settings_file sample_layer key_chain_def empty_layer_def no_keys_def)
  then show ?thesis using s by blast
qed

section \<open>The shell analyser\<close>

text \<open>
  C37. An \<open>ok\<close> answer is complete. If the analysis of a command line reports \<open>ok\<close>, the line is
  within the size limit, it has a syntax tree without errors, and every node of the tree that
  is not data (a literal word) is reported: the program of every command by its normalised
  name, a command whose name is computed as a dynamic command, and every pipeline,
  substitution and redirection by its flag.
\<close>

theorem shell_analysis_complete:
  assumes "sp_ok (analyze_shell_command U G command)"
  shows "length command \<le> MAX_COMMAND_BYTES
    \<and> (\<exists>root. G command = Some root \<and> \<not> tn_error root
         \<and> (\<forall>m. reaches root m \<longrightarrow> reported U m (analyze_shell_command U G command)))"
  by (rule analyze_covers [OF assms]) blast

lemma shell_analysis_complete_witness:
  "''rm'' \<in> sp_programs (analyze_shell_command plain_unicode sample_grammar ''echo $(/bin/RM x)'')"
proof -
  let ?s = "''echo $(/bin/RM x)''" and ?c = "command_node (word ''/bin/RM'') [word ''x'']"
  have t: "sample_grammar ?s = Some tree_subst" by (simp add: sample_grammar_def)
  have "sp_ok (analyze_shell_command plain_unicode sample_grammar ?s)"
    using analyze_sample [OF t] by (simp add: subst_visit del: visit_numeral)
  from shell_analysis_complete [OF this] t
  have all: "\<forall>m. reaches tree_subst m \<longrightarrow>
      reported plain_unicode m (analyze_shell_command plain_unicode sample_grammar ?s)" by simp
  have "reaches tree_subst ?c" by (rule reaches_subst)
  with all have "reported plain_unicode ?c (analyze_shell_command plain_unicode sample_grammar ?s)"
    by blast
  moreover have "command_program plain_unicode ?c = Some ''rm''" by code_simp
  ultimately show ?thesis by (simp add: reported_def command_node_def)
qed

text \<open>
  Every flag, argument, normalised argument and path component the analyser reports is
  scoped to a program it reports as well: no policy can see a token of a program it cannot see.
\<close>

theorem shell_tokens_scoped:
  "scoped_in (sp_programs (analyze_shell_command U G command)) (analyze_shell_command U G command)"
  by (rule analyze_scoped)

text \<open>
  C38. What is reported is finite and well formed: program names are non-empty normalised
  names, and every flag is a program, a colon and a text that starts with a dash.
\<close>

theorem shell_report_well_shaped:
  "well_shaped U (analyze_shell_command U G command)"
  by (rule analyze_well_shaped)

text \<open>
  The value of \<open>env -S\<close> is taken for an option value, and options of \<open>xargs\<close> that take
  their value attached (\<open>-i\<close>) are taken to consume the next word: for a grammar that gives
  \<open>env -S 'rm -rf /'\<close> and \<open>xargs -i rm {}\<close> their plain trees (one command, its name and its
  words), the program that would run is \<open>rm\<close>, the answer is \<open>ok\<close>, and \<open>rm\<close> is not reported.
\<close>

theorem shell_hidden_programs:
  assumes "G command = Some tree_env \<and> progs = {''env''}
     \<or> G command = Some tree_xargs \<and> progs = {''{}'', ''xargs''}"
    "length command \<le> MAX_COMMAND_BYTES"
  shows "sp_ok (analyze_shell_command plain_unicode G command)
    \<and> sp_programs (analyze_shell_command plain_unicode G command) = progs
    \<and> ''rm'' \<notin> sp_programs (analyze_shell_command plain_unicode G command)"
proof -
  have l: "length command \<le> 262144" using assms(2) by (simp add: MAX_COMMAND_BYTES_def)
  show ?thesis
    using assms(1) analyze_unfold [OF l, of G tree_env plain_unicode]
      analyze_unfold [OF l, of G tree_xargs plain_unicode]
    by (elim disjE) (simp_all add: env_visit xargs_visit del: visit_numeral)
qed

lemma shell_hidden_programs_witness:
  "sp_programs (analyze_shell_command plain_unicode sample_grammar ''xargs -i rm {}'') = {''{}'', ''xargs''}"
  using shell_hidden_programs [of sample_grammar "''xargs -i rm {}''" "{''{}'', ''xargs''}"]
  by (simp add: sample_grammar_def MAX_COMMAND_BYTES_def)

text \<open>
  The re-parse budget is exhausted safely: at the deepest level, a shell invoked with
  \<open>-c\<close> and a literal script, or \<open>eval\<close> with a literal word, makes the answer not \<open>ok\<close>,
  whatever the rest of the walk does.
\<close>

theorem shell_reparse_budget:
  assumes "vis = visit U None n" "cls = classify_invocation U None n"
    "(prog = ''eval'' \<and> fst (eval_parts vis args out) \<noteq> []) \<or>
     (prog \<in> set SHELLS \<and> find_c_script args \<noteq> None)"
  shows "\<not> sp_ok (classify_step U None vis cls prog args out)"
  unfolding assms(1,2) by (rule classify_step_exhausted) (use assms in auto)

lemma shell_reparse_budget_witness:
  "\<not> sp_ok (classify_step plain_unicode None (visit plain_unicode None 1)
     (classify_invocation plain_unicode None 1) ''bash'' [word ''-c'', word ''ls'']
     (shell_parse_default\<lparr>sp_ok := True\<rparr>))"
  by (rule shell_reparse_budget [OF refl refl]) code_simp

section \<open>Quoting\<close>

text \<open>
  ANSI-C quoting is decoded: a text spelled with literal characters, two-digit hex,
  three-digit octal and named escapes, mixed in any way, is read back as that text, so an
  escaped spelling of a program is seen under its name.
\<close>

theorem ansi_spelling_read:
  assumes "ansi_spelling spelled s" "valid_utf8 s"
  shows "unescape_ansi_c spelled = s"
  by (rule unescape_ansi_spelling [OF assms])

lemma ansi_spelling_read_witness:
  "unescape_ansi_c ([backslash] @ ''x72'' @ [backslash] @ ''155'') = ''rm''"
proof (rule ansi_spelling_read)
  have "ansi_spelling [backslash, CHR ''1'', CHR ''5'', CHR ''5''] [char_of ((1 * 8 + 5) * 8 + (5::nat))]"
    by (rule spell_octal [OF _ _ _ spell_nil]) (simp_all add: to_digit_def)
  from spell_hex [OF _ _ this, of "CHR ''7''" 7 "CHR ''2''" 2]
  show "ansi_spelling ([backslash] @ ''x72'' @ [backslash] @ ''155'') ''rm''"
    by (simp add: to_digit_def char_of_def bit_0)
  show "valid_utf8 ''rm''" by (rule ascii_valid_utf8) (simp add: is_ascii_def)
qed

text \<open>
  Unquoting inverts quoting: a word without newlines whose every character is escaped by a
  backslash, and any text escaped for double quotes, are read back unchanged, and reading
  never lengthens a text.
\<close>

theorem quoting_round_trip:
  "(newline \<notin> set s \<longrightarrow> unescape_unquoted_word (quote_word s) = s)
   \<and> unescape_double_quoted (quote_double s) = s
   \<and> length (unescape_unquoted_word t) \<le> length t
   \<and> length (unescape_double_quoted t) \<le> length t"
  by (simp add: unescape_quote_word unescape_quote_double unescape_unquoted_length unescape_double_length)

lemma quoting_round_trip_witness:
  "unescape_unquoted_word (quote_word ''rm'') = ''rm''"
  using quoting_round_trip [of "''rm''"] by simp

section \<open>Paths and URLs\<close>

text \<open>
  A normalised path has no backslash and no two slashes in a row, whatever valid UTF-8
  text it came from, as long as the Unicode tables map no character to a separator or to
  nothing.
\<close>

theorem normalized_path_clean:
  assumes "lower_keeps_separators U" "valid_utf8 path"
  shows "backslash \<notin> set (normalize_path_value U path) \<and> squeezed (normalize_path_value U path)"
  using normalize_path_clean [OF assms] by simp

lemma normalized_path_clean_witness:
  "squeezed (normalize_path_value plain_unicode ''A//b'')"
proof -
  have "valid_utf8 ''A//b''" by (rule ascii_valid_utf8) (simp add: is_ascii_def)
  then show ?thesis using normalized_path_clean [OF lower_keeps_separators_plain] by blast
qed

text \<open>
  C39. On ASCII paths normalisation is idempotent and does not see letter case; nor does it see the
  style of the separators, unless the Windows spelling of the path is a device path: the prefix
  of a device path is dropped when it is spelled with backslashes, and only then.
\<close>

theorem normalized_path_canonical:
  assumes "list_all is_ascii path"
  shows "normalize_path_value U (normalize_path_value U path) = normalize_path_value U path
    \<and> normalize_path_value U (to_ascii_lowercase path) = normalize_path_value U path
    \<and> (\<not> device_path (windows_style path) \<longrightarrow>
        normalize_path_value U (windows_style path) = normalize_path_value U path)
    \<and> (\<not> device_path path \<longrightarrow> (\<forall>c\<in>{CHR ''?'', CHR ''.''}.
        normalize_path_value U ([backslash, backslash, c, backslash] @ path) = normalize_path_value U path))"
proof (intro conjI impI ballI)
  show "normalize_path_value U (normalize_path_value U path) = normalize_path_value U path"
    by (rule normalize_path_idem [OF assms])
  show "normalize_path_value U (to_ascii_lowercase path) = normalize_path_value U path"
    by (rule normalize_path_case [OF assms])
  show "normalize_path_value U (windows_style path) = normalize_path_value U path"
    if "\<not> device_path (windows_style path)" by (rule normalize_path_style [OF assms that])
  fix c assume "\<not> device_path path" "c \<in> {CHR ''?'', CHR ''.''}"
  then show "normalize_path_value U ([backslash, backslash, c, backslash] @ path) = normalize_path_value U path"
    using device_prefix_dropped [of c U path] normalize_plain_path [of path U] by auto
qed

lemma normalized_path_canonical_witness:
  "normalize_path_value plain_unicode (normalize_path_value plain_unicode ''A//b'')
     = normalize_path_value plain_unicode ''A//b''
   \<and> normalize_path_value plain_unicode (windows_style ''A//b'') = normalize_path_value plain_unicode ''A//b''"
proof -
  have "list_all is_ascii ''A//b''" "\<not> device_path (windows_style ''A//b'')"
    by (simp_all add: is_ascii_def device_path_def windows_style_def)
  then show ?thesis using normalized_path_canonical [of "''A//b''" plain_unicode] by blast
qed

text \<open>
  A parsed URL is \<open>ok\<close> exactly when the URL library accepts it; its host has no upper-case
  letter and its port fits sixteen bits, whatever the library returns.
\<close>

theorem parsed_url_facts:
  "(up_ok (parse_url up url) \<longleftrightarrow> up url \<noteq> None)
   \<and> list_all (\<lambda>c. \<not> is_upper c) (up_host (parse_url up url))
   \<and> 0 \<le> sint (up_port (parse_url up url)) \<and> sint (up_port (parse_url up url)) < 65536"
  using parse_url_ok_iff parse_url_host_lower parse_url_port_range by blast

section \<open>Guardrails\<close>

text \<open>
  C40. The data classifier's verdict on a content, when it answers: a label at least as
  sensitive as every category a template answered with "sensitive", which is \<open>Public\<close> or one
  of those categories; and the classification is public exactly when no template did.
\<close>

theorem data_label_is_max:
  assumes "dm_classify m content = Inr c"
  defines "flagged \<equiv> {smr_category r |t r. t \<in> set (dm_labels m)
    \<and> classify_single m t content 30 = Inr r \<and> smr_sensitive r = 1}"
  shows "(\<forall>l\<in>flagged. level l \<le> level (max_label c)) \<and> max_label c \<in> insert Public flagged
    \<and> (sc_is_public c \<longleftrightarrow> flagged = {})"
proof -
  have f: "flagged = sf_label ` set (sc_findings c)"
    unfolding flagged_def dm_classify_Inr(1) [OF assms(1)]
    by (force simp: sensitivity_finding_of_def image_iff)
  have "max_label c \<in> insert Public flagged"
    unfolding f using max_label_attained [of c] by (metis image_eqI insert_iff)
  then show ?thesis
    using f max_label_ge [of _ c] dm_classify_Inr(2) [OF assms(1)]
    by (auto simp: less_eq_label_def)
qed

lemma data_label_is_max_witness:
  "\<exists>c. dm_classify sample_model ''key'' = Inr c \<and> level Confidential \<le> level (max_label c)"
proof -
  have s: "classify_single sample_model (label_template_new ''data'') ''key'' 30
      = Inr \<lparr>smr_sensitive = 1, smr_category = Confidential\<rparr>"
    by (simp add: classify_single_def sample_model_def)
  obtain c where c: "dm_classify sample_model ''key'' = Inr c"
    using s by (auto simp: dm_classify_def sample_model_def)
  have "Confidential \<in> {smr_category r |t r. t \<in> set (dm_labels sample_model)
      \<and> classify_single sample_model t ''key'' 30 = Inr r \<and> smr_sensitive r = 1}"
    using s by (force simp: sample_model_def)
  then show ?thesis using c data_label_is_max [OF c] by blast
qed

text \<open>
  The engine's classification fails open: a content is labelled above \<open>Public\<close> only if a
  classifier is configured, the content is not empty, the answer came in time, and a template
  of the classifier answered "sensitive" with exactly that label.
\<close>

theorem label_fails_open:
  assumes "classify_label model in_time content \<noteq> Public"
  shows "\<exists>m t r. model = Some m \<and> content \<noteq> [] \<and> in_time content \<and> t \<in> set (dm_labels m)
    \<and> classify_single m t content 30 = Inr r \<and> smr_sensitive r = 1
    \<and> smr_category r = classify_label model in_time content"
proof -
  obtain m c where m: "model = Some m" "content \<noteq> []" "in_time content" "dm_classify m content = Inr c"
    and l: "classify_label model in_time content = max_label c"
    using assms by (auto simp: classify_label_def split: option.splits if_splits sum.splits)
  then obtain f where f: "f \<in> set (sc_findings c)" "sf_label f = max_label c"
    using max_label_attained [of c] assms by auto
  then show ?thesis
    using m l dm_classify_Inr(1) [OF m(4)] by (auto simp: sensitivity_finding_of_def)
qed

lemma label_fails_open_witness:
  "classify_label (Some sample_model) (\<lambda>_. True) ''key'' \<noteq> Public \<and>
   (\<exists>t\<in>set (dm_labels sample_model). \<exists>r. classify_single sample_model t ''key'' 30 = Inr r
      \<and> smr_category r = classify_label (Some sample_model) (\<lambda>_. True) ''key'')"
proof -
  have n: "classify_label (Some sample_model) (\<lambda>_. True) ''key'' \<noteq> Public"
    by (simp add: engine_eval sample_eval)
  show ?thesis using n label_fails_open [OF n] by auto
qed

text \<open>
  The policy classifier, when it answers: the codes are exactly the category codes
  answered by the policies that saw a violation, as the model spelled them, and the content is
  compliant exactly when there is none.
\<close>

theorem policy_codes_exact:
  assumes "evaluate_content m content = Inr c"
  shows "pcl_codes c = {pmr_category r |t r.
      t \<in> set (pm_policies m) \<and> evaluate_single m t content 30 = Inr r \<and> pmr_violation r = 1}
    \<and> (pcl_compliant c \<longleftrightarrow> pcl_codes c = {})"
  using evaluate_content_Inr [OF assms] by simp

lemma policy_codes_exact_witness:
  "\<exists>c. evaluate_content \<lparr>pm_policies = [policy_template_new ''p'' ''S''],
      pm_extract = (\<lambda>_ _ _. Some (Inr \<lparr>pmr_violation = 1, pmr_category = ''s1''\<rparr>))\<rparr> ''x'' = Inr c
    \<and> pcl_codes c = {''s1''}"
proof -
  let ?m = "\<lparr>pm_policies = [policy_template_new ''p'' ''S''],
      pm_extract = (\<lambda>_ _ _. Some (Inr \<lparr>pmr_violation = 1, pmr_category = ''s1''\<rparr>))\<rparr>"
  have "\<exists>c. evaluate_content ?m ''x'' = Inr c"
    by (simp add: evaluate_content_def evaluate_single_def)
  then obtain c where c: "evaluate_content ?m ''x'' = Inr c" by blast
  from policy_codes_exact [OF c] have "pcl_codes c = {''s1''}"
    by (simp add: evaluate_single_def)
  then show ?thesis using c by blast
qed

text \<open>
  The signature scan: the severity is at least that of every match and is the severity of
  a match or none; the categories are exactly the matches' category entries; a scan that fails
  reports nothing.
\<close>

theorem signature_scan_sound:
  "(\<forall>m\<in>set (sg_matches (scan Y content)). \<forall>s. sm_metadata m ''severity'' = Some s \<longrightarrow>
      severity_i64 (from_metadata s) \<le> severity_i64 (sg_severity (scan Y content)))
   \<and> (sg_severity (scan Y content) = SevNone \<or>
      (\<exists>m\<in>set (sg_matches (scan Y content)). \<exists>s. sm_metadata m ''severity'' = Some s
         \<and> from_metadata s = sg_severity (scan Y content)))
   \<and> sg_categories (scan Y content) =
      {c. \<exists>m\<in>set (sg_matches (scan Y content)). sm_metadata m ''category'' = Some c}
   \<and> (\<forall>err. Y content = Inl err \<longrightarrow> sg_matches (scan Y content) = [])"
  by (rule scan_sound)

lemma signature_scan_sound_witness:
  "sg_severity (scan (\<lambda>_. Inr [\<lparr>yr_identifier = ''r'', yr_namespace = ''n'',
     yr_metadata = [(''severity'', MString ''high'')]\<rparr>]) ''x'') \<ge> High"
proof -
  let ?Y = "\<lambda>_::string. Inr [\<lparr>yr_identifier = ''r'', yr_namespace = ''n'',
     yr_metadata = [(''severity'', MString ''high'')]\<rparr>] :: string + yara_rule list"
  have m: "match_of \<lparr>yr_identifier = ''r'', yr_namespace = ''n'',
      yr_metadata = [(''severity'', MString ''high'')]\<rparr> \<in> set (sg_matches (scan ?Y ''x''))"
    by (simp add: scan_def Let_def split: prod.split)
  have "severity_i64 (from_metadata ''high'') \<le> severity_i64 (sg_severity (scan ?Y ''x''))"
    using signature_scan_sound [of ?Y "''x''"] m by (auto simp: match_of_def)
  then show ?thesis by (simp add: less_eq_severity_def from_metadata_def)
qed

section \<open>Summaries of a run\<close>

text \<open>
  The decision of a run is its most restrictive verdict: some verdict of the run has it
  and none is above it, so it is \<open>Deny\<close> exactly when something was denied, and absent exactly
  when nothing was adjudicated.
\<close>

theorem run_decision_is_worst:
  "(run_decision es = Some d \<longleftrightarrow>
      d \<in> adj_decision ` set (run_adjudications es)
      \<and> (\<forall>a\<in>set (run_adjudications es). decision_severity (adj_decision a) \<le> decision_severity d))
   \<and> (run_decision es = Some Deny \<longleftrightarrow> Deny \<in> adj_decision ` set (run_adjudications es))
   \<and> (run_decision es = None \<longleftrightarrow> run_adjudications es = [])"
  using run_decision_iff [of es d] run_decision_Deny [of es]
  by (auto simp: less_eq_decision_def run_decision_def)

lemma run_decision_is_worst_witness:
  "run_decision [adjudicated_event sample_fresh ''c'' read_event adjudicated_escalate,
     adjudicated_event sample_fresh ''c'' read_event adjudicated_deny] = Some Deny"
  using run_decision_is_worst [of "[adjudicated_event sample_fresh ''c'' read_event adjudicated_escalate,
     adjudicated_event sample_fresh ''c'' read_event adjudicated_deny]" Deny]
  by (simp add: run_adjudications_def List.map_filter_def adjudicated_deny_def adjudicated_new_def)

text \<open>
  Folding a run's governance records into its events loses no event and invents none: the
  entries are the events that are not verdicts or scans, in order, each with the latest verdict
  whose cause is that event.
\<close>

theorem fold_keeps_events:
  "map ed_event (fold_event_details es) = filter (\<lambda>e. \<not> is_folded_control e) es
   \<and> (\<forall>d\<in>set (fold_event_details es). ed_adjudication d =
        find_map (\<lambda>e. if cs_causation_id (ev_causality e) = Some (ev_event_id (ed_event d))
          then adjudication_of (ev_event e) else None) (rev es))"
  using fold_details_events fold_details_adjudication by blast

lemma fold_keeps_events_witness:
  "map ed_adjudication (fold_event_details
     [read_event, adjudicated_event sample_fresh ''c'' read_event adjudicated_deny]) = [Some adjudicated_deny]"
proof -
  let ?es = "[read_event, adjudicated_event sample_fresh ''c'' read_event adjudicated_deny]"
  have l: "map ed_event (fold_event_details ?es) = [read_event]"
    using fold_keeps_events [of ?es]
    by (simp add: is_folded_control_def read_event_def sample_event_def)
  then obtain d where d: "fold_event_details ?es = [d]" "ed_event d = read_event" by auto
  have "ed_adjudication d = Some adjudicated_deny"
    using fold_keeps_events [of ?es] d by simp
  then show ?thesis using d by simp
qed

text \<open>
  The status of a run is decided by its last lifecycle record; verdicts and scans that
  arrive late do not change it.
\<close>

theorem run_status_by_lifecycle:
  "run_status (es @ [e]) =
     (case lifecycle_of (ev_event e) of Some st \<Rightarrow> st | None \<Rightarrow> run_status es)
   \<and> run_status (filter (\<lambda>e. \<not> is_folded_control e) es) = run_status es"
  using run_status_snoc run_status_ignores_governance by (simp add: unwrap_or_def)

text \<open>
  The policy hits of a run are the hits of its verdicts that did not allow, each once.
\<close>

theorem policy_hits_exact:
  "distinct (run_policy_hits es) \<and>
   set (run_policy_hits es) = {h. \<exists>a\<in>set (run_adjudications es).
      adj_decision a \<noteq> Allow \<and> adjudication_policy_hit a = Some h}"
  using run_policy_hits_distinct run_policy_hits_set by blast

section \<open>Redaction and the entity store\<close>

text \<open>
  Redaction replaces exactly the file bodies: every body becomes its marker, in place, an
  event without bodies is unchanged, and the envelope and the kind of the event are kept.
\<close>

theorem redaction_exact:
  "file_bodies (ev_event (redact_file_content h e)) = map (redaction_marker h) (file_bodies (ev_event e))
   \<and> (file_bodies (ev_event e) = [] \<longrightarrow> redact_file_content h e = e)
   \<and> (redact_file_content h e)\<lparr>ev_event := ev_event e\<rparr> = e
   \<and> event_kind (ev_event (redact_file_content h e)) = event_kind (ev_event e)"
  using redact_no_bodies [of "ev_event e" h]
  by (simp add: file_bodies_redact)

lemma redaction_exact_witness:
  "redact_file_content (\<lambda>_. ''0'') thought_event = thought_event"
  using redaction_exact [of "\<lambda>_. ''0''" thought_event]
  by (simp add: thought_event_def sample_event_def)

text \<open>
  A trajectory survives its storage as a Cedar entity: what is read back from the entity is
  the trajectory that was written, count and label included.
\<close>

theorem trajectory_round_trip:
  assumes "traj_into_entity C t = Inr x"
  shows "traj_from_entity x = t \<and> en_uid x = quid ''Trajectory'' (tr_trajectory_id t)"
  using traj_round_trip [OF assms] traj_into_entity_uid [OF assms] by simp

lemma trajectory_round_trip_witness:
  "\<exists>x. traj_into_entity sample_cedar \<lparr>tr_trajectory_id = ''t'', tr_step_count = 3, tr_label = Internal\<rparr> = Inr x
     \<and> tr_label (traj_from_entity x) = Internal"
proof -
  obtain x where x: "traj_into_entity sample_cedar
      \<lparr>tr_trajectory_id = ''t'', tr_step_count = 3, tr_label = Internal\<rparr> = Inr x"
    by (simp add: traj_into_entity_def from_type_and_id_def eb_entity_ref_def eb_build_def euid_def
        sample_cedar_def Let_def)
  from trajectory_round_trip [OF x] show ?thesis using x by auto
qed

text \<open>
  The store's contract: an upsert that succeeds is what later reads see, a deleted entity
  is gone, and an update that fails leaves the entities as they were.
\<close>

theorem store_contract:
  "(upsert F x w = (Inr u, w') \<longrightarrow> get_entity F i w' = (Inr y, w'') \<longrightarrow>
      y = (if i = en_uid x then Some x else w_entities w i))
   \<and> (delete_entity F i w = (Inr u, w') \<longrightarrow> get_entity F i w' = (Inr y, w'') \<longrightarrow> y = None)
   \<and> (update_entity F i f w = (Inl err, w') \<longrightarrow> w_entities w' = w_entities w)"
proof (intro conjI impI)
  show "y = (if i = en_uid x then Some x else w_entities w i)"
    if "upsert F x w = (Inr u, w')" "get_entity F i w' = (Inr y, w'')"
    by (rule turso.get_after_put [OF that])
  show "y = None" if "delete_entity F i w = (Inr u, w')" "get_entity F i w' = (Inr y, w'')"
    by (rule turso.get_after_remove [OF that])
  show "w_entities w' = w_entities w" if "update_entity F i f w = (Inl err, w')"
    by (rule update_entity_Inl [OF that])
qed

lemma store_contract_witness:
  "\<exists>w w'. upsert (\<lambda>_. None) \<lparr>en_uid = quid ''Agent'' ''a'', en_attrs = Map.empty, en_parents = {}\<rparr> empty_world
       = (Inr (), w)
     \<and> get_entity (\<lambda>_. None) (quid ''Agent'' ''a'') w
       = (Inr (Some \<lparr>en_uid = quid ''Agent'' ''a'', en_attrs = Map.empty, en_parents = {}\<rparr>), w')"
proof -
  let ?x = "\<lparr>en_uid = quid ''Agent'' ''a'', en_attrs = Map.empty, en_parents = {}\<rparr>" and ?F = "\<lambda>_::nat. None :: string option"
  obtain w where w: "upsert ?F ?x empty_world = (Inr (), w)"
    by (simp add: upsert_def io_op_def Let_def)
  obtain y w' where g: "get_entity ?F (quid ''Agent'' ''a'') w = (Inr y, w')"
    by (simp add: get_entity_def io_op_def Let_def)
  have "y = Some ?x" using store_contract [of ?F ?x empty_world "()" w "quid ''Agent'' ''a''" y w'] w g by simp
  then show ?thesis using w g by blast
qed

text \<open>
  JSON becomes a Cedar value whenever it can: every value without nulls, floats and
  integers beyond 64 bits, and without entity references, converts.
\<close>

theorem json_converts:
  assumes "\<And>fields. cd_record_error C fields = None" "cedar_plain j"
  shows "\<exists>v. json_to_restricted_expr C j = Inr v"
  by (rule json_to_restricted_expr_plain(1) [OF assms])

lemma json_converts_witness:
  "\<exists>v. json_to_restricted_expr sample_cedar (JObj [(''a'', JArr [JInt 1, JStr ''x''])]) = Inr v"
  by (rule json_converts) (simp_all add: sample_cedar_def)

end
